(* ===== verification/Prelude.thy ===== *)
theory Prelude
  imports Main "HOL-Library.Char_ord" "HOL-Library.List_Lexorder"
begin

text \<open>
  What every component shares: the Go primitives the sources use (machine integers kept at
  their width, instants and durations in nanoseconds, byte strings and the functions of
  \<^verbatim>\<open>strings\<close>, \<^verbatim>\<open>strconv\<close>, \<^verbatim>\<open>fmt\<close> and \<^verbatim>\<open>unicode/utf8\<close> the code calls), generic lemmas on lists and
  options, and the collections of simplification rules the component theories fill.

  Conventions:
  \<^item> an \<^verbatim>\<open>int32\<close> or \<^verbatim>\<open>int64\<close> is an \<open>int\<close> and each operation that can overflow is followed by
    \<open>wrap32\<close> or \<open>wrap64\<close>;
  \<^item> a \<^verbatim>\<open>time.Time\<close> (and a \<^verbatim>\<open>metav1.Time\<close>) is its instant in nanoseconds since Go's zero time, so
    \<open>IsZero\<close> is equality with 0 and \<^verbatim>\<open>UTC()\<close> is the identity; a \<^verbatim>\<open>time.Duration\<close> is nanoseconds;
  \<^item> a pointer that may be nil is an \<open>option\<close>; a map lookup with its \<^verbatim>\<open>ok\<close> is a partial map, one
    without it (the zero value stands for absent) a total function;
  \<^item> a string is its bytes, and \<open>\<le>\<close> on strings is Go's byte-wise order.
\<close>

section \<open>Collections\<close>

named_theorems ctx_simps \<open>what an operation leaves of the context it runs in\<close>
named_theorems entry_simps \<open>what an operation leaves of the entry it runs on\<close>
named_theorems phase_simps \<open>the phase an operation leaves\<close>

section \<open>Machine integers\<close>

definition wrap32 :: "int \<Rightarrow> int" where
  "wrap32 x = (x + 2 ^ 31) mod 2 ^ 32 - 2 ^ 31"

definition wrap64 :: "int \<Rightarrow> int" where
  "wrap64 x = (x + 2 ^ 63) mod 2 ^ 64 - 2 ^ 63"

definition is_int32 :: "int \<Rightarrow> bool" where
  "is_int32 x \<longleftrightarrow> - (2 ^ 31) \<le> x \<and> x < 2 ^ 31"

definition is_int64 :: "int \<Rightarrow> bool" where
  "is_int64 x \<longleftrightarrow> - (2 ^ 63) \<le> x \<and> x < 2 ^ 63"

lemma wrap32_id [simp]: "is_int32 x \<Longrightarrow> wrap32 x = x"
  by (simp add: wrap32_def is_int32_def)

lemma wrap64_id [simp]: "is_int64 x \<Longrightarrow> wrap64 x = x"
  by (simp add: wrap64_def is_int64_def)

lemma is_int64_wrap64 [simp]: "is_int64 (wrap64 x)"
proof -
  have "0 \<le> (x + 2 ^ 63) mod 2 ^ 64 \<and> (x + 2 ^ 63) mod 2 ^ 64 < (2::int) ^ 64"
    by (simp del: power_numeral)
  then show ?thesis
    unfolding wrap64_def is_int64_def by simp
qed

section \<open>Instants and durations\<close>

type_synonym time = int
type_synonym duration = int

abbreviation (input) is_zero :: "time \<Rightarrow> bool" where
  "is_zero t \<equiv> t = 0"

definition second :: duration where "second = 1000000000"
definition minute :: duration where "minute = 60 * second"
definition hour :: duration where "hour = 60 * minute"

lemmas duration_defs = second_def minute_def hour_def

text \<open>Go's integer division rounds to zero.\<close>

definition quot :: "int \<Rightarrow> int \<Rightarrow> int" where
  "quot a b = (if (a < 0) = (b < 0) then \<bar>a\<bar> div \<bar>b\<bar> else - (\<bar>a\<bar> div \<bar>b\<bar>))"

lemma quot_pos: "0 \<le> a \<Longrightarrow> 0 < b \<Longrightarrow> quot a b = a div b"
  by (simp add: quot_def)

text \<open>\<^verbatim>\<open>Time.Sub\<close> saturates at the bounds of a \<^verbatim>\<open>Duration\<close>.\<close>

definition time_sub :: "time \<Rightarrow> time \<Rightarrow> duration" where
  "time_sub a b = max (- (2 ^ 63)) (min (2 ^ 63 - 1) (a - b))"

text \<open>The Unix epoch on this scale, \<^verbatim>\<open>Time.Unix\<close>, its inverse \<^verbatim>\<open>time.Unix\<close>, and \<^verbatim>\<open>Time.UnixMilli\<close>.\<close>

definition unix_epoch :: time where
  "unix_epoch = 62135596800 * second"

definition unix :: "time \<Rightarrow> int" where "unix t = (t - unix_epoch) div second"
definition unix_time :: "int \<Rightarrow> time" where "unix_time s = unix_epoch + s * second"

lemma unix_mono: "a \<le> b \<Longrightarrow> unix a \<le> unix b"
  by (simp add: unix_def zdiv_mono1 second_def)

lemma div_ge_iff: "0 < s \<Longrightarrow> n \<le> x div s \<longleftrightarrow> n * s \<le> (x :: int)"
proof
  assume s: "0 < s" and "n \<le> x div s"
  then have "n * s \<le> x div s * s" by (simp add: mult_right_mono)
  also have "\<dots> \<le> x" using s pos_mod_sign [of s x] minus_mod_eq_div_mult [of x s] by linarith
  finally show "n * s \<le> x" .
next
  assume s: "0 < s" and "n * s \<le> x"
  from zdiv_mono1 [OF this(2) s] s show "n \<le> x div s" by simp
qed

lemma unix_less_iff: "a < unix t \<longleftrightarrow> unix_time a + second \<le> t"
proof -
  have "a < unix t \<longleftrightarrow> a + 1 \<le> (t - unix_epoch) div second" by (auto simp: unix_def)
  also have "\<dots> \<longleftrightarrow> (a + 1) * second \<le> t - unix_epoch" by (rule div_ge_iff) (simp add: second_def)
  finally show ?thesis by (simp add: unix_time_def algebra_simps)
qed

lemma unix_time_le: "unix_time (unix t) \<le> t" "t < unix_time (unix t) + second"
  using unix_less_iff [of "unix t" t] unix_less_iff [of "unix t - 1" t]
  by (simp_all add: unix_time_def algebra_simps)

lemma unix_later: "a + second \<le> b \<Longrightarrow> unix a < unix b"
  using unix_less_iff [of "unix a" b] unix_time_le(1) [of a] by simp

definition unix_milli :: "time \<Rightarrow> int" where
  "unix_milli t = wrap64 ((t - unix_epoch) div 1000000)"

lemma time_sub_less_iff:
  "- (2 ^ 63) < w \<Longrightarrow> w < 2 ^ 63 \<Longrightarrow> time_sub a b < w \<longleftrightarrow> a < b + w"
  by (auto simp: time_sub_def min_def max_def)

lemma time_sub_ge_iff:
  "- (2 ^ 63) < w \<Longrightarrow> w < 2 ^ 63 \<Longrightarrow> w \<le> time_sub a b \<longleftrightarrow> b + w \<le> a"
  by (auto simp: time_sub_def min_def max_def)

section \<open>Byte strings\<close>

text \<open>\<^verbatim>\<open>utf8.RuneStart\<close>: every byte but a continuation byte.\<close>

definition rune_start :: "char \<Rightarrow> bool" where
  "rune_start c \<longleftrightarrow> \<not> (128 \<le> (of_char c :: nat) \<and> (of_char c :: nat) < 192)"

fun clamp_back :: "string \<Rightarrow> nat \<Rightarrow> nat" where
  "clamp_back s 0 = 0"
| "clamp_back s (Suc n) = (if rune_start (s ! Suc n) then Suc n else clamp_back s n)"

lemma clamp_back_le: "clamp_back s n \<le> n"
  by (induction n) auto

lemma clamp_back_start: "clamp_back s n = 0 \<or> rune_start (s ! clamp_back s n)"
  by (induction n) auto

text \<open>Decimal digits, most significant first.\<close>

function digits :: "int \<Rightarrow> string" where
  "digits n = (if n > 0 then digits (n div 10) @ [char_of (48 + nat (n mod 10))] else [])"
  by pat_completeness auto
termination
  by (relation "measure nat") auto

declare digits.simps [simp del]

text \<open>\<^verbatim>\<open>fmt\<close>'s \<^verbatim>\<open>%d\<close>.\<close>

definition fmt_d :: "int \<Rightarrow> string" where
  "fmt_d n = (if n = 0 then ''0'' else if n < 0 then CHR ''-'' # digits (- n) else digits n)"

text \<open>\<^verbatim>\<open>Duration.String\<close>: the fraction without its trailing zeros, then hours, minutes and seconds.\<close>

definition frac_digits :: "int \<Rightarrow> nat \<Rightarrow> string" where
  "frac_digits u prec =
     (let f = map (\<lambda>i. char_of (48 + nat (u div 10 ^ (prec - 1 - i) mod 10))) [0..<prec];
          g = rev (dropWhile (\<lambda>c. c = CHR ''0'') (rev f))
      in if g = [] then '''' else CHR ''.'' # g)"

definition fmt_duration :: "duration \<Rightarrow> string" where
  "fmt_duration d =
     (let u = \<bar>d\<bar>; sign = (if d < 0 then ''-'' else '''') in
      if u = 0 then ''0s''
      else if u < 1000 then sign @ fmt_d u @ ''ns''
      else if u < 1000000 then
        sign @ fmt_d (u div 1000) @ frac_digits (u mod 1000) 3 @ [char_of (194::nat), char_of (181::nat)] @ ''s''
      else if u < 1000000000 then
        sign @ fmt_d (u div 1000000) @ frac_digits (u mod 1000000) 6 @ ''ms''
      else
        (let s = u div 1000000000; m = s div 60; h = m div 60;
             secs = fmt_d (s mod 60) @ frac_digits (u mod 1000000000) 9 @ ''s'' in
         sign @ (if m = 0 then secs
                 else if h = 0 then fmt_d m @ ''m'' @ secs
                 else fmt_d h @ ''h'' @ fmt_d (m mod 60) @ ''m'' @ secs)))"

text \<open>\<^verbatim>\<open>strings.ToLower\<close> and \<^verbatim>\<open>strings.EqualFold\<close> on ASCII, which info hashes and kinds are.\<close>

definition lower_char :: "char \<Rightarrow> char" where
  "lower_char c = (let n = (of_char c :: nat) in if 65 \<le> n \<and> n \<le> 90 then char_of (n + 32) else c)"

definition to_lower :: "string \<Rightarrow> string" where
  "to_lower s = map lower_char s"

definition equal_fold :: "string \<Rightarrow> string \<Rightarrow> bool" where
  "equal_fold a b \<longleftrightarrow> to_lower a = to_lower b"

text \<open>\<^verbatim>\<open>strings.Fields\<close> and \<^verbatim>\<open>strings.FieldsFunc\<close>: the maximal runs of bytes that are no separator.\<close>

fun fields_by :: "(char \<Rightarrow> bool) \<Rightarrow> string \<Rightarrow> string \<Rightarrow> string list" where
  "fields_by sep cur [] = (if cur = [] then [] else [rev cur])"
| "fields_by sep cur (c # cs) =
     (if sep c then (if cur = [] then fields_by sep [] cs else rev cur # fields_by sep [] cs)
      else fields_by sep (c # cur) cs)"

definition is_space :: "char \<Rightarrow> bool" where
  "is_space c \<longleftrightarrow> (let n = (of_char c :: nat) in n = 32 \<or> (9 \<le> n \<and> n \<le> 13))"

definition strings_Fields :: "string \<Rightarrow> string list" where
  "strings_Fields v = fields_by is_space [] v"

text \<open>\<^verbatim>\<open>strings.Cut\<close> at a byte, \<^verbatim>\<open>strings.Split\<close> on a byte, \<^verbatim>\<open>strings.LastIndex\<close> of a byte.\<close>

definition cut :: "char \<Rightarrow> string \<Rightarrow> string \<times> string \<times> bool" where
  "cut c s = (if c \<in> set s then (takeWhile (\<lambda>x. x \<noteq> c) s, tl (dropWhile (\<lambda>x. x \<noteq> c) s), True)
              else (s, '''', False))"

fun split_on :: "char \<Rightarrow> string \<Rightarrow> string \<Rightarrow> string list" where
  "split_on c cur [] = [rev cur]"
| "split_on c cur (x # xs) = (if x = c then rev cur # split_on c [] xs else split_on c (x # cur) xs)"

fun last_index :: "char \<Rightarrow> string \<Rightarrow> nat option" where
  "last_index c [] = None"
| "last_index c (x # xs) =
     (case last_index c xs of Some i \<Rightarrow> Some (Suc i) | None \<Rightarrow> if x = c then Some 0 else None)"

definition has_prefix :: "string \<Rightarrow> string \<Rightarrow> bool" where
  "has_prefix s p \<longleftrightarrow> take (length p) s = p"

definition trim_prefix :: "string \<Rightarrow> string \<Rightarrow> string" where
  "trim_prefix s p = (if has_prefix s p then drop (length p) s else s)"

text \<open>\<^verbatim>\<open>strings.ToUpper\<close> and \<^verbatim>\<open>strings.TrimSpace\<close> on ASCII, \<^verbatim>\<open>strings.Contains\<close>, \<^verbatim>\<open>strings.ReplaceAll\<close> of a byte.\<close>

definition upper_char :: "char \<Rightarrow> char" where
  "upper_char c = (let n = (of_char c :: nat) in if 97 \<le> n \<and> n \<le> 122 then char_of (n - 32) else c)"

definition to_upper :: "string \<Rightarrow> string" where
  "to_upper s = map upper_char s"

fun contains :: "string \<Rightarrow> string \<Rightarrow> bool" where
  "contains [] p \<longleftrightarrow> p = []"
| "contains (c # s) p \<longleftrightarrow> has_prefix (c # s) p \<or> contains s p"

definition trim_space :: "string \<Rightarrow> string" where
  "trim_space s = rev (dropWhile is_space (rev (dropWhile is_space s)))"

definition replace_byte :: "char \<Rightarrow> string \<Rightarrow> string \<Rightarrow> string" where
  "replace_byte c new s = concat (map (\<lambda>x. if x = c then new else [x]) s)"

lemma fields_by_nonempty: "w \<in> set (fields_by sep cur s) \<Longrightarrow> w \<noteq> []"
  by (induction sep cur s rule: fields_by.induct) (auto split: if_splits)

lemma fields_by_no_sep:
  assumes "\<And>c. c \<in> set cur \<Longrightarrow> \<not> sep c" and "w \<in> set (fields_by sep cur s)" and "c \<in> set w"
  shows "\<not> sep c"
  using assms
proof (induction sep cur s rule: fields_by.induct)
  case (1 sep cur)
  then show ?case by (cases "cur = []") simp_all
next
  case (2 sep cur x xs)
  show ?case
  proof (cases "sep x")
    case True
    with 2 show ?thesis by (cases "cur = []") auto
  next
    case False
    with 2 show ?thesis by auto
  qed
qed

lemma last_index_None: "last_index c s = None \<longleftrightarrow> c \<notin> set s"
  by (induction s) (auto split: option.splits)

lemma last_index_append_notin: "c \<notin> set ys \<Longrightarrow> last_index c (xs @ c # ys) = Some (length xs)"
proof (induction xs)
  case Nil
  then show ?case by (simp add: last_index_None [THEN iffD2])
next
  case (Cons x xs)
  then show ?case by simp
qed

section \<open>Digits and what they spell\<close>

definition is_digit :: "char \<Rightarrow> bool" where
  "is_digit c \<longleftrightarrow> 48 \<le> (of_char c :: nat) \<and> (of_char c :: nat) \<le> 57"

lemma of_char_digit [simp]: "d < 10 \<Longrightarrow> (of_char (char_of (48 + d :: nat)) :: nat) = 48 + d"
  by (simp add: of_char_of)

lemma digit_mod10 [simp]: "(of_char (char_of (48 + nat (n mod 10))) :: nat) = 48 + nat (n mod 10)"
proof -
  have "n mod 10 < 10" and "0 \<le> n mod 10" by simp_all
  then have "nat (n mod 10) < 10" by linarith
  then show ?thesis by (rule of_char_digit)
qed

lemma digits_all_digit: "\<forall>c \<in> set (digits n). is_digit c"
proof (induction n rule: digits.induct)
  case (1 n)
  have "is_digit (char_of (48 + nat (n mod 10)))"
    using pos_mod_bound [of 10 n] pos_mod_sign [of 10 n] unfolding is_digit_def digit_mod10 by linarith
  with 1 show ?case by (cases "n > 0") (simp_all add: digits.simps [of n])
qed

lemma digits_nonempty: "0 < n \<Longrightarrow> digits n \<noteq> []"
  by (simp add: digits.simps [of n])

text \<open>Reading decimal digits back, unbounded: the inverse of \<open>digits\<close>.\<close>

definition digits_value :: "string \<Rightarrow> int" where
  "digits_value s = foldl (\<lambda>n c. n * 10 + (int (of_char c) - 48)) 0 s"

lemma digits_value_digits: "0 \<le> n \<Longrightarrow> digits_value (digits n) = n"
proof (induction n rule: digits.induct)
  case (1 n)
  show ?case
  proof (cases "n > 0")
    case True
    then have "digits_value (digits (n div 10)) = n div 10" using "1.IH" by simp
    with True show ?thesis
      by (simp add: digits.simps [of n] digits_value_def)
  next
    case False
    with "1.prems" show ?thesis by (simp add: digits.simps [of 0] digits_value_def)
  qed
qed

section \<open>A scan that keeps the best element seen\<close>

text \<open>
  The loop \<^verbatim>\<open>for _, c := range xs { if !eligible(c) { continue }; if !ok || lt(c, best) { best, ok = c, true } }\<close>,
  which several components write. \<open>scan_order\<close> is what the loop relies on of the comparison; the
  facts proved in it say the loop returns an eligible element none precedes, and the first such.
\<close>

definition scan_step :: "('a \<Rightarrow> bool) \<Rightarrow> ('a \<Rightarrow> 'a \<Rightarrow> bool) \<Rightarrow> 'a option \<Rightarrow> 'a \<Rightarrow> 'a option" where
  "scan_step elig lt best x =
     (if \<not> elig x then best
      else case best of None \<Rightarrow> Some x | Some b \<Rightarrow> if lt x b then Some x else best)"

definition scan_best :: "('a \<Rightarrow> bool) \<Rightarrow> ('a \<Rightarrow> 'a \<Rightarrow> bool) \<Rightarrow> 'a list \<Rightarrow> 'a option" where
  "scan_best elig lt xs = foldl (scan_step elig lt) None xs"

lemma scan_best_snoc: "scan_best elig lt (xs @ [x]) = scan_step elig lt (scan_best elig lt xs) x"
  by (simp add: scan_best_def)

lemma scan_best_None_iff: "scan_best elig lt xs = None \<longleftrightarrow> (\<forall>x \<in> set xs. \<not> elig x)"
proof (induction xs rule: rev_induct)
  case Nil
  then show ?case by (simp add: scan_best_def)
next
  case (snoc x xs)
  then show ?case by (auto simp: scan_best_snoc scan_step_def split: option.splits)
qed

lemma scan_best_in: "scan_best elig lt xs = Some m \<Longrightarrow> m \<in> set xs \<and> elig m"
proof (induction xs arbitrary: m rule: rev_induct)
  case Nil
  then show ?case by (simp add: scan_best_def)
next
  case (snoc x xs)
  then show ?case by (auto simp: scan_best_snoc scan_step_def split: option.splits if_splits)
qed

locale scan_order =
  fixes lt :: "'a \<Rightarrow> 'a \<Rightarrow> bool"
  assumes less_irrefl: "\<not> lt x x"
    and less_trans: "lt x y \<Longrightarrow> lt y z \<Longrightarrow> lt x z"
    and less_negtrans: "lt x z \<Longrightarrow> lt x y \<or> lt y z"
begin

lemma scan_minimal:
  "scan_best elig lt xs = Some m \<Longrightarrow> x \<in> set xs \<Longrightarrow> elig x \<Longrightarrow> \<not> lt x m"
proof (induction xs arbitrary: m rule: rev_induct)
  case Nil
  then show ?case by simp
next
  case (snoc y ys)
  show ?case
  proof (cases "scan_best elig lt ys")
    case None
    then have none: "\<forall>z \<in> set ys. \<not> elig z" by (simp add: scan_best_None_iff)
    with snoc.prems have "x = y" by auto
    with None snoc.prems show ?thesis
      by (auto simp: scan_best_snoc scan_step_def less_irrefl)
  next
    case (Some b)
    from snoc.prems Some consider "m = b" "\<not> (elig y \<and> lt y b)" | "m = y" "elig y" "lt y b"
      by (auto simp: scan_best_snoc scan_step_def split: if_splits)
    then show ?thesis
    proof cases
      case 1
      with snoc.IH Some snoc.prems show ?thesis by auto
    next
      case 2
      with snoc.IH [OF Some] snoc.prems show ?thesis
        by (auto simp: less_irrefl dest: less_trans)
    qed
  qed
qed

lemma scan_some:
  "x \<in> set xs \<Longrightarrow> elig x \<Longrightarrow> \<exists>m. scan_best elig lt xs = Some m \<and> \<not> lt x m"
  using scan_best_None_iff [of elig lt xs] scan_minimal [of elig xs _ x] by (cases "scan_best elig lt xs") auto

end

text \<open>Comparing by two keys, the second breaking ties, is such an order.\<close>

definition less_by :: "('a \<Rightarrow> 'b::linorder) \<Rightarrow> ('a \<Rightarrow> 'c::linorder) \<Rightarrow> 'a \<Rightarrow> 'a \<Rightarrow> bool" where
  "less_by f g x y \<longleftrightarrow> f x < f y \<or> (f x = f y \<and> g x < g y)"

lemma less_by_scan_order: "scan_order (less_by f g)"
  by unfold_locales (auto simp: less_by_def)

lemma find_SomeD: "find P xs = Some x \<Longrightarrow> x \<in> set xs \<and> P x"
  by (induction xs) (auto split: if_splits)

lemma concat_share:
  assumes "distinct (concat (map f xs))" and "x \<in> set xs" and "y \<in> set xs" and "n \<in> set (f x)" and "n \<in> set (f y)"
  shows "x = y"
  using assms
proof (induction xs)
  case (Cons z zs)
  have apart: "n \<notin> set (f a)" if "a \<in> set zs" "n \<in> set (f z)" for a using Cons.prems(1) that by auto
  show ?case
  proof (cases "x = z \<or> y = z")
    case True
    with Cons.prems apart show ?thesis by (metis set_ConsD)
  next
    case False
    with Cons.prems have "x \<in> set zs" "y \<in> set zs" by simp_all
    then show ?thesis using Cons.IH Cons.prems by simp
  qed
qed simp

lemma find_unique:
  assumes "x \<in> set xs" and "P x" and "\<And>y. y \<in> set xs \<Longrightarrow> P y \<Longrightarrow> y = x"
  shows "find P xs = Some x"
proof (cases "find P xs")
  case None
  with assms(1,2) show ?thesis by (simp add: find_None_iff)
next
  case (Some y)
  then have "y = x" using find_SomeD [OF Some] assms(3) by blast
  with Some show ?thesis by simp
qed

end
