(* ===== verification/QualityModel.thy ===== *)
theory QualityModel
  imports Prelude
begin

text \<open>
  The quality model of the API (\<^verbatim>\<open>api/common/v1alpha1/quality_types.go\<close>), which grabs, profiles and releases share.
  Sources and modifiers are strings, as in the source, where the empty one is an unset field.
\<close>

definition SourceUnknown :: string where "SourceUnknown = ''unknown''"
definition SourceCam :: string where "SourceCam = ''cam''"
definition SourceTelesync :: string where "SourceTelesync = ''telesync''"
definition SourceTelecine :: string where "SourceTelecine = ''telecine''"
definition SourceWorkprint :: string where "SourceWorkprint = ''workprint''"
definition SourceDVD :: string where "SourceDVD = ''dvd''"
definition SourceTV :: string where "SourceTV = ''tv''"
definition SourceWebDL :: string where "SourceWebDL = ''webdl''"
definition SourceWebRip :: string where "SourceWebRip = ''webrip''"
definition SourceBluray :: string where "SourceBluray = ''bluray''"

definition ModifierNone :: string where "ModifierNone = ''none''"
definition ModifierRegional :: string where "ModifierRegional = ''regional''"
definition ModifierScreener :: string where "ModifierScreener = ''screener''"
definition ModifierRawHD :: string where "ModifierRawHD = ''rawhd''"
definition ModifierBRDisk :: string where "ModifierBRDisk = ''brdisk''"
definition ModifierRemux :: string where "ModifierRemux = ''remux''"

definition ResolutionUnknown :: int where "ResolutionUnknown = 0"
definition Resolution360p :: int where "Resolution360p = 360"
definition Resolution480p :: int where "Resolution480p = 480"
definition Resolution540p :: int where "Resolution540p = 540"
definition Resolution576p :: int where "Resolution576p = 576"
definition Resolution720p :: int where "Resolution720p = 720"
definition Resolution1080p :: int where "Resolution1080p = 1080"
definition Resolution2160p :: int where "Resolution2160p = 2160"

lemmas quality_constants = SourceUnknown_def SourceCam_def SourceTelesync_def SourceTelecine_def SourceWorkprint_def SourceDVD_def SourceTV_def SourceWebDL_def SourceWebRip_def SourceBluray_def
  ModifierNone_def ModifierRegional_def ModifierScreener_def ModifierRawHD_def ModifierBRDisk_def ModifierRemux_def
  ResolutionUnknown_def Resolution360p_def Resolution480p_def Resolution540p_def Resolution576p_def Resolution720p_def Resolution1080p_def Resolution2160p_def

record Quality =
  q_Name :: string
  q_Source :: string
  q_Resolution :: int
  q_Modifier :: string

record Revision =
  rev_Version :: int
  rev_Real :: int
  rev_Repack :: bool

definition EffectiveVersion :: "Revision \<Rightarrow> int" where
  "EffectiveVersion r = max (rev_Version r) 1"

end
