(* ===== verification/GrabTypes.thy ===== *)
theory GrabTypes
  imports QualityModel
begin

text \<open>
  The data of the grab state machine (\<^verbatim>\<open>app/grab/lifecycle\<close>): the API enums and structs of a grab
  entry (\<^verbatim>\<open>api/common\<close>, \<^verbatim>\<open>api/catalog\<close>), the records and commands exchanged with the engines
  (\<^verbatim>\<open>pkg/events/schema\<close>), and the planner's own view and plan. Enum types are closed: the values
  the CRD validation admits, plus the empty string where the Go code reads it. Of the record header the
  planner reads the seq and the state; the payloads it only passes on
  (an import task, a MediaFile apply) are opaque types.
\<close>

section \<open>Enums (api/common/v1alpha1/download\_enums.go)\<close>

datatype DownloadPhase =
    PhaseUnset \<comment> \<open>the empty string\<close>
  | Pending | Assigned | Queued | Downloading | Paused | Completed | Seeding | Imported
  | Failed | Blocklisted | Removing

datatype DownloadStage =
    StageUnset | FetchingMetadata | Transferring | Verifying | Repairing | Extracting | Publishing
  | StageSeeding | StageDone

datatype DownloadFailureReason =
    FailureUnset | FailureNone | MissingArticles | DiskFull | Encrypted | Stalled | WriteError
  | Timeout | ImportRejected | ImportExpired | Manual | PayloadMismatch | PayloadUnavailable
  | ReleaseRefused

fun reason_string :: "DownloadFailureReason \<Rightarrow> string" where
  "reason_string FailureUnset = ''''"
| "reason_string FailureNone = ''none''"
| "reason_string MissingArticles = ''missingArticles''"
| "reason_string DiskFull = ''diskFull''"
| "reason_string Encrypted = ''encrypted''"
| "reason_string Stalled = ''stalled''"
| "reason_string WriteError = ''writeError''"
| "reason_string Timeout = ''timeout''"
| "reason_string ImportRejected = ''importRejected''"
| "reason_string ImportExpired = ''importExpired''"
| "reason_string Manual = ''manual''"
| "reason_string PayloadMismatch = ''payloadMismatch''"
| "reason_string PayloadUnavailable = ''payloadUnavailable''"
| "reason_string ReleaseRefused = ''releaseRefused''"

definition IsReleaseFault :: "DownloadFailureReason \<Rightarrow> bool" where
  "IsReleaseFault r \<longleftrightarrow> r \<in> {MissingArticles, Encrypted, Stalled, Timeout, ImportRejected, Manual,
     PayloadMismatch, PayloadUnavailable}"

definition IsFailure :: "DownloadFailureReason \<Rightarrow> bool" where
  "IsFailure r \<longleftrightarrow> r \<noteq> FailureUnset \<and> r \<noteq> FailureNone"

definition IsLocalFault :: "DownloadFailureReason \<Rightarrow> bool" where
  "IsLocalFault r \<longleftrightarrow> r = DiskFull \<or> r = WriteError"

datatype Protocol = Torrent | Usenet

fun protocol_string :: "Protocol \<Rightarrow> string" where
  "protocol_string Torrent = ''torrent''"
| "protocol_string Usenet = ''usenet''"

datatype DownloadPurpose = PurposeUnset | AudioDonor

fun purpose_string :: "DownloadPurpose \<Rightarrow> string" where
  "purpose_string PurposeUnset = ''''"
| "purpose_string AudioDonor = ''audioDonor''"

datatype GrabSource = GrabRSS | GrabSearch | GrabInteractive | GrabPush | GrabRedownload

datatype HealthAction = HealthActionUnset | HealthActionPause | HealthActionDelete

datatype BlockScope = BlockScopeItem | BlockScopeGlobal

datatype ImportPhase =
    ImportPhaseUnset | ImportPhasePending | ImportPhaseInspected | ImportPhaseApproved
  | ImportPhaseImported | ImportPhaseBlocked | ImportPhaseHeld | ImportPhaseExpired

datatype DeliveryPhase =
    DeliveryWaiting | DeliveryPublished | DeliveryClaimed | DeliveryRetrying | DeliveryDeadLettered

datatype TransferState = TransferPresent | TransferRemoved | TransferFailed

datatype EngineDesired = DesiredPresent | DesiredAbsent | DesiredResync

section \<open>References\<close>

record Ref =
  ref_Namespace :: string
  ref_Name :: string
  ref_UID :: string

record ItemRef =
  ir_Kind :: string
  ir_Namespace :: string
  ir_Name :: string
  ir_UID :: string

record EntryRef =
  er_ID :: string
  er_UID :: string

section \<open>The grab entry (api/catalog/v1alpha1/download\_entry\_types.go)\<close>

record IndexerDownload =
  id_IndexerRef :: string
  id_GUID :: string
  id_URL :: string

record DownloadSource =
  ds_MagnetURL :: "string option"
  ds_TorrentURL :: "string option"
  ds_NZBURL :: "string option"
  ds_IndexerDownload :: "IndexerDownload option"
  ds_ExpectedInfoHash :: "string option"

text \<open>\<^verbatim>\<open>SeedCriteria\<close>: the ratio as the decimal string it is written as, the times in nanoseconds.\<close>

record SeedCriteria =
  sc_Ratio :: "string option"
  sc_SeedTime :: "duration option"
  sc_PackSeedTime :: "duration option"
  sc_InactiveTime :: "duration option"

record DownloadRelease =
  rel_Title :: string
  rel_GUID :: string
  rel_IndexerRef :: string
  rel_IndexerName :: string
  rel_InfoHash :: string
  rel_Protocol :: Protocol
  rel_SizeBytes :: int
  rel_Quality :: Quality
  rel_Revision :: Revision
  rel_FormatScore :: int
  rel_Languages :: "string list"
  rel_IndexerLanguages :: "string list"
  rel_ReleaseGroup :: string
  rel_Edition :: string

record DeliveryState =
  dv_State :: DeliveryPhase
  dv_Reason :: string
  dv_Message :: string
  dv_Attempts :: int
  dv_LastNakAt :: "time option"
  dv_DeadLetteredAt :: "time option"

record Dispatch =
  dp_Seq :: int
  dp_AnsweredSeq :: int
  dp_DispatchedAt :: time
  dp_Withdrawn :: bool
  dp_Destination :: string
  dp_Delivery :: "DeliveryState option"

definition InFlight :: "Dispatch \<Rightarrow> bool" where
  "InFlight dp \<longleftrightarrow> dp_Seq dp > dp_AnsweredSeq dp"

record EntryBlock =
  bl_Scope :: BlockScope
  bl_Reason :: DownloadFailureReason
  bl_Seq :: int
  bl_ConfirmedAt :: "time option"

record EntrySet =
  set_ID :: string
  set_Part :: int
  set_Of :: int

record EpisodeNumber =
  ep_Season :: int
  ep_Number :: int

record DownloadImportSummary =
  im_Phase :: ImportPhase
  im_Class :: string
  im_Message :: string
  im_Attempts :: int
  im_NextAttemptAt :: "time option"
  im_HeldSince :: "time option"
  im_ImportedAt :: "time option"
  im_Files :: int
  im_Target :: string
  im_Override :: bool
  im_Dispatch :: Dispatch

record DownloadEntry =
  e_ID :: string
  e_UID :: string
  e_Purpose :: DownloadPurpose
  e_Episodes :: "EpisodeNumber list"
  e_Issues :: "string list"
  e_Release :: DownloadRelease
  e_Source :: DownloadSource
  e_Client :: string
  e_Engine :: string
  e_GrabbedBy :: GrabSource
  e_GrabbedAt :: time
  e_Manual :: bool
  e_QualityProfileRef :: string
  e_SeedCriteria :: "SeedCriteria option"
  e_RemoveOnImport :: bool
  e_RemoveDataOnDelete :: bool
  e_Phase :: DownloadPhase
  e_Stage :: DownloadStage
  e_FailureReason :: DownloadFailureReason
  e_OutputPath :: string
  e_StartedAt :: "time option"
  e_CompletedAt :: "time option"
  e_SeedGoalMetAt :: "time option"
  e_FailedAt :: "time option"
  e_Import :: "DownloadImportSummary option"
  e_Dispatch :: Dispatch
  e_Message :: string
  e_Block :: "EntryBlock option"
  e_Set :: "EntrySet option"

definition Pack :: "DownloadEntry \<Rightarrow> bool" where
  "Pack e \<longleftrightarrow> length (e_Episodes e) > 1 \<or> length (e_Issues e) > 1"

record DownloadNonces =
  n_Remove :: string
  n_Resume :: string
  n_Import :: string
  n_Unblock :: string

section \<open>Engine commands and transfer records (pkg/events/schema)\<close>

record SetRef =
  sr_ID :: string
  sr_Part :: int
  sr_Of :: int

record TransferClaim =
  cm_Owner :: ItemRef
  cm_ProviderID :: string
  cm_Entry :: EntryRef
  cm_InfoHash :: string
  cm_Indexer :: string
  cm_GUID :: string
  cm_Title :: string
  cm_Purpose :: DownloadPurpose
  cm_RemoveDataOnDelete :: bool
  cm_Imported :: bool
  cm_Set :: "SetRef option"

record CommandRelease =
  cr_Title :: string
  cr_GUID :: string
  cr_IndexerRef :: string
  cr_SizeBytes :: int

record EpisodeNo =
  en_Season :: int
  en_Number :: int

record TransferSelection =
  ts_Episodes :: "EpisodeNo list"
  ts_Absolutes :: "int list"
  ts_AirDates :: "string list"
  ts_Issues :: "string list"

record EngineCommand =
  ec_Seq :: int
  ec_Owner :: ItemRef
  ec_Entry :: EntryRef
  ec_Desired :: EngineDesired
  ec_RemoveData :: bool
  ec_Protocol :: "Protocol option"
  ec_Source :: "DownloadSource option"
  ec_ExpectedInfoHash :: string
  ec_Release :: CommandRelease
  ec_Category :: string
  ec_Selection :: "TransferSelection option"
  ec_Paused :: bool
  ec_Priority :: string
  ec_HealthOverride :: string
  ec_SeedCriteria :: "SeedCriteria option"
  ec_RemoveOnImport :: bool
  ec_Imported :: bool
  ec_ImportedAt :: "time option"
  ec_Claim :: TransferClaim
  ec_ResyncSeq :: int
  ec_DownloadID :: string
  ec_IssuedAt :: time

record TransferHealth =
  th_HealthPercent :: int
  th_CriticalHealthPercent :: int
  th_FailedArticles :: int
  th_TotalArticles :: int

record TransferFile =
  tf_Path :: string
  tf_SizeBytes :: int
  tf_Skipped :: bool

record TransferGrant =
  tg_Server :: string
  tg_Connections :: int

record TransferRecord =
  tr_Seq :: int
  tr_State :: TransferState
  tr_Entry :: EntryRef
  tr_Claim :: "TransferClaim option"
  tr_Claimed :: bool
  tr_Engine :: string
  tr_BootID :: string
  tr_DownloadID :: string
  tr_Stage :: DownloadStage
  tr_OutputPath :: string
  tr_ContentRoot :: string
  tr_Files :: "TransferFile list"
  tr_FilesTruncated :: bool
  tr_TotalBytes :: int
  tr_RemainingBytes :: int
  tr_DownloadedBytes :: int
  tr_UploadedBytes :: int
  tr_ProgressPercent :: int
  tr_RatioMilli :: int
  tr_SeedTimeSeconds :: int
  tr_Seeders :: int
  tr_Peers :: int
  tr_Health :: "TransferHealth option"
  tr_IsEncrypted :: bool
  tr_CanMoveFiles :: bool
  tr_CanBeRemoved :: bool
  tr_SeedGoalReached :: bool
  tr_HealthPaused :: bool
  tr_WaitingTurn :: bool
  tr_Grant :: "TransferGrant option"
  tr_EngineFailureReason :: DownloadFailureReason
  tr_Message :: string
  tr_StartedAt :: "time option"
  tr_CompletedAt :: "time option"
  tr_LastProgressAt :: "time option"
  tr_AddedAt :: time
  tr_DataRemoved :: bool

record BlocklistRequest =
  br_Op :: string
  br_Scope :: string
  br_InfoHash :: string
  br_Indexer :: string
  br_GUID :: string
  br_Title :: string
  br_Protocol :: string
  br_Reason :: string
  br_EntryID :: string
  br_Seq :: int
  br_BlockedAt :: time
  br_Until :: time
  br_Limit :: int
  br_Offset :: int

record MediaRef =
  mr_Kind :: string
  mr_Name :: string
  mr_Keys :: "string list"
  mr_Track :: string

record DownloadEvent =
  de_DownloadRef :: Ref
  de_Media :: MediaRef
  de_Action :: string
  de_ClientRef :: "Ref option"
  de_ClientID :: string
  de_Protocol :: Protocol
  de_Title :: string
  de_InfoHash :: string
  de_SizeBytes :: int
  de_Reason :: string
  de_OutputPath :: string
  de_Purpose :: string
  de_At :: time

text \<open>\<^verbatim>\<open>schema.BlockScopeOf\<close>: the release index's scope of a block for one item.\<close>

definition BlockScopeOf :: "ItemRef \<Rightarrow> string" where
  "BlockScopeOf it = ir_Kind it @ ''/'' @ ir_Namespace it @ ''/'' @ ir_Name it @ ''/'' @ ir_UID it"

section \<open>The planner's view and plan (app/grab/lifecycle/view.go)\<close>

record Client =
  cl_Name :: string
  cl_UID :: string
  cl_Protocol :: Protocol
  cl_Enabled :: bool
  cl_Priority :: int
  cl_Replicas :: int
  cl_RemoveCompleted :: bool
  cl_StallTimeout :: duration
  cl_DownloadTimeout :: duration
  cl_HealthAction :: HealthAction
  cl_Seed :: "SeedCriteria option"
  cl_Categories :: "string \<Rightarrow> string"
  cl_ResyncSeq :: int

record Engine =
  en_Name :: string
  en_Client :: string
  en_Ordinal :: int
  en_Ready :: bool
  en_Reattached :: bool
  en_BootID :: string
  en_ResyncSeq :: int
  en_Active :: int
  en_Queued :: int
  en_At :: time
  en_ReattachedAt :: time

record Transfer =
  t_Record :: TransferRecord
  t_Revision :: int

record ImportIntent =
  ii_Nonce :: string
  ii_ID :: string
  ii_Target :: "ItemRef option"
  ii_TargetKey :: string
  ii_Override :: bool

record RemoveIntent =
  ri_Nonce :: string
  ri_ID :: string
  ri_Data :: bool
  ri_Blocklist :: bool

record ResumeIntent =
  rs_Nonce :: string
  rs_ID :: string

record UnblockIntent =
  ub_Nonce :: string
  ub_InfoHash :: string
  ub_Indexer :: string
  ub_GUID :: string
  ub_Global :: bool

record InvalidIntent =
  iv_Annotation :: string
  iv_Value :: string
  iv_Reason :: string

record Intents =
  in_Paused :: "string \<Rightarrow> bool"
  in_Priority :: "string \<Rightarrow> string"
  in_Remove :: "RemoveIntent option"
  in_Resume :: "ResumeIntent option"
  in_Import :: "ImportIntent option"
  in_Unblock :: "UnblockIntent option"
  in_Invalid :: "InvalidIntent list"
  in_raw :: "string \<Rightarrow> string"

record IssuedCommand =
  is_Seq :: int
  is_Hash :: string
  is_At :: time

datatype ImportVerdict =
    ImportNone | ImportImported | ImportReleaseFault | ImportHeld | VerdictExpired | ImportRetry

typedecl ImportTask \<comment> \<open>the inspect or execute task, boxed: \<^verbatim>\<open>any\<close>\<close>
typedecl Materialise \<comment> \<open>a MediaFile apply, delete or removal the plan only passes on\<close>

record ImportDispatch =
  idp_EntryUID :: string
  idp_Phase :: string
  idp_Seq :: int
  idp_Task :: ImportTask
  idp_Republish :: bool

record ImportDecision =
  ix_Summary :: DownloadImportSummary
  ix_Dispatch :: "ImportDispatch option"
  ix_Materialise :: "Materialise list"
  ix_Verdict :: ImportVerdict
  ix_Due :: time

record BlockReply =
  rp_Seq :: int
  rp_Applied :: bool
  rp_Stale :: bool
  rp_At :: time

record View =
  v_Owner :: ItemRef
  v_ProviderID :: string
  v_ProviderVerified :: bool
  v_Kind :: string
  v_Now :: time
  v_Deleting :: bool
  v_Monitored :: bool
  v_HasFile :: bool
  v_EntryCap :: int
  v_Stored :: "DownloadEntry list"
  v_Nonces :: DownloadNonces
  v_Intents :: Intents
  v_NewEntries :: "DownloadEntry list"
  v_Transfers :: "string \<rightharpoonup> Transfer"
  v_Unclaimed :: "Transfer list"
  v_Clients :: "Client list"
  v_Engines :: "string \<rightharpoonup> Engine"
  v_Files :: "string \<Rightarrow> int"
  v_Import :: "string \<rightharpoonup> ImportDecision"
  v_Blocks :: "string \<rightharpoonup> BlockReply"
  v_Unblocked :: "string \<Rightarrow> bool"
  v_Searched :: "ItemRef \<rightharpoonup> time"
  v_Unmonitored :: "ItemRef \<Rightarrow> bool"
  v_Satisfied :: "ItemRef \<Rightarrow> bool"
  v_Covered :: "string \<Rightarrow> ItemRef list"
  v_Removed :: "string \<Rightarrow> bool"
  v_Issued :: "string \<rightharpoonup> IssuedCommand"
  v_StillWants :: "(TransferClaim \<Rightarrow> bool \<times> string) option"
  v_IndexerClient :: "string \<Rightarrow> string"

record Command =
  c_Engine :: string
  c_Client :: string
  c_Ordinal :: int
  c_BootID :: string
  c_Cmd :: EngineCommand
  c_Retry :: bool

record BlockCall =
  bc_EntryUID :: string
  bc_Nonce :: string
  bc_Req :: BlocklistRequest

record DirectGrab =
  dg_IndexerRef :: string
  dg_EntryUID :: string
  dg_At :: time

record Event =
  ev_Recorder :: string
  ev_Type :: string
  ev_Reason :: string
  ev_Message :: string

record Plan =
  p_Entries :: "DownloadEntry list"
  p_Phase :: DownloadPhase
  p_Nonces :: DownloadNonces
  p_Commands :: "Command list"
  p_Blocks :: "BlockCall list"
  p_Removals :: "string list"
  p_Imports :: "ImportDispatch list"
  p_Materialise :: "Materialise list"
  p_History :: "DownloadEvent list"
  p_Events :: "Event list"
  p_Redownloads :: "ItemRef list"
  p_DirectGrabs :: "DirectGrab list"
  p_Finalizer :: "bool option"
  p_Issued :: "string \<rightharpoonup> IssuedCommand"
  p_Due :: time

section \<open>Timings (app/grab/lifecycle/constants.go)\<close>

definition BlockQuarantine :: duration where "BlockQuarantine = hour"
definition RefusedHold :: duration where "RefusedHold = 24 * hour"
definition EngineTeardownTimeout :: duration where "EngineTeardownTimeout = 10 * minute"
definition ResyncSettle :: duration where "ResyncSettle = 2 * minute"
definition BlocklistTTL :: duration where "BlocklistTTL = 90 * 24 * hour"
definition ImportHoldRetention :: duration where "ImportHoldRetention = 24 * hour"
definition RedownloadWindow :: duration where "RedownloadWindow = 24 * hour"
definition EngineRecordFresh :: duration where "EngineRecordFresh = 2 * minute"
definition StallTimeout :: duration where "StallTimeout = 24 * hour"
definition RepublishWindow :: duration where "RepublishWindow = 50 * minute"
definition RepublishEvery :: duration where "RepublishEvery = 5 * minute"
definition MaxEntryMessage :: nat where "MaxEntryMessage = 1024"

lemmas timing_defs = BlockQuarantine_def RefusedHold_def EngineTeardownTimeout_def ResyncSettle_def
  BlocklistTTL_def ImportHoldRetention_def RedownloadWindow_def EngineRecordFresh_def
  StallTimeout_def RepublishWindow_def RepublishEvery_def

text \<open>\<^verbatim>\<open>nextSeq\<close>: above the record's and the status's, and never below the clock's millisecond.\<close>

definition nextSeq :: "int \<Rightarrow> int \<Rightarrow> time \<Rightarrow> int" where
  "nextSeq recordSeq statusSeq now =
     max (wrap64 (recordSeq + 1)) (max (wrap64 (statusSeq + 1)) (unix_milli now))"

lemma nextSeq_gt_record: "is_int64 (r + 1) \<Longrightarrow> nextSeq r s now > r"
  by (simp add: nextSeq_def)

lemma nextSeq_gt_status: "is_int64 (s + 1) \<Longrightarrow> nextSeq r s now > s"
  by (simp add: nextSeq_def)

lemma nextSeq_ge_clock: "nextSeq r s now \<ge> unix_milli now"
  by (simp add: nextSeq_def)

end
