(* ===== verification/GrabChoose.thy ===== *)
theory GrabChoose
  imports GrabTypes
begin

text \<open>
  Where a grab goes: the DownloadClient and the engine instance (\<^verbatim>\<open>app/grab/lifecycle/choose.go\<close>),
  the engine's name and its parse (\<^verbatim>\<open>EngineName\<close>, \<^verbatim>\<open>splitEngine\<close>), and the deterministic ordinal
  of \<^verbatim>\<open>pkg/names\<close>. SHA-1 is a parameter: \<open>sum64\<close> is the first eight bytes of a string's digest,
  read big-endian.
\<close>

section \<open>Names\<close>

definition join_bar :: "string list \<Rightarrow> string" where
  "join_bar parts = (case parts of [] \<Rightarrow> [] | p # ps \<Rightarrow> p @ concat (map (\<lambda>x. CHR ''|'' # x) ps))"

definition HashOrdinal :: "(string \<Rightarrow> nat) \<Rightarrow> int \<Rightarrow> string list \<Rightarrow> int" where
  "HashOrdinal sum64 replicas parts =
     (if replicas \<le> 1 then 0 else wrap32 (int (sum64 (join_bar parts)) mod replicas))"

definition itoa :: "int \<Rightarrow> string" where
  "itoa n = (if n = 0 then ''0''
             else if n < 0 then CHR ''-'' # digits (wrap32 (- n))
             else digits n)"

definition EngineName :: "string \<Rightarrow> int \<Rightarrow> string" where
  "EngineName client ordinal = client @ ''-'' @ itoa ordinal"

fun read_ordinal :: "int \<Rightarrow> string \<Rightarrow> int option" where
  "read_ordinal n [] = Some n"
| "read_ordinal n (r # rs) =
     (if is_digit r then read_ordinal (wrap32 (wrap32 (n * 10) + (int (of_char r) - 48))) rs else None)"

definition splitEngine :: "string \<Rightarrow> (string \<times> int) option" where
  "splitEngine engine =
     (case last_index (CHR ''-'') engine of
        None \<Rightarrow> None
      | Some i \<Rightarrow>
          if i = 0 \<or> i = length engine - 1 then None
          else map_option (Pair (take i engine)) (read_ordinal 0 (drop (Suc i) engine)))"

section \<open>The client\<close>

definition clientLess :: "Client \<Rightarrow> Client \<Rightarrow> bool" where
  "clientLess = less_by cl_Priority cl_Name"

definition serves :: "Protocol \<Rightarrow> Client \<Rightarrow> bool" where
  "serves protocol c \<longleftrightarrow> cl_Enabled c \<and> cl_Protocol c = protocol"

definition ChooseClient :: "Client list \<Rightarrow> Protocol \<Rightarrow> string \<Rightarrow> Client option" where
  "ChooseClient clients protocol indexerClientRef =
     (case (if indexerClientRef \<noteq> ''''
            then find (\<lambda>c. cl_Name c = indexerClientRef \<and> cl_Enabled c \<and> cl_Protocol c = protocol) clients
            else None) of
        Some c \<Rightarrow> Some c
      | None \<Rightarrow> scan_best (serves protocol) clientLess clients)"

section \<open>The engine instance\<close>

definition engineReady :: "Engine \<Rightarrow> time \<Rightarrow> bool" where
  "engineReady e now \<longleftrightarrow> en_Ready e \<and> \<not> is_zero (en_At e) \<and> time_sub now (en_At e) \<le> EngineRecordFresh"

definition engineLoad :: "Engine \<Rightarrow> int" where
  "engineLoad e = wrap32 (en_Active e + en_Queued e)"

definition ordinal_step ::
  "string \<Rightarrow> (string \<rightharpoonup> Engine) \<Rightarrow> time \<Rightarrow> int \<Rightarrow> int \<times> int \<Rightarrow> int \<Rightarrow> int \<times> int" where
  "ordinal_step client engines now hashed = (\<lambda>(best, bestLoad) o'.
     case engines (EngineName client o') of
       None \<Rightarrow> (best, bestLoad)
     | Some e \<Rightarrow>
         if \<not> engineReady e now then (best, bestLoad)
         else if best < 0 \<or> engineLoad e < bestLoad then (o', engineLoad e)
         else if engineLoad e = bestLoad \<and> o' = hashed then (o', bestLoad)
         else (best, bestLoad))"

definition replicasOf :: "Client \<Rightarrow> int" where
  "replicasOf c = (if cl_Protocol c = Usenet then 1 else max (cl_Replicas c) 1)"

definition ordinals :: "int \<Rightarrow> int list" where
  "ordinals n = map int [0..<nat n]"

definition ChooseOrdinal ::
  "(string \<Rightarrow> nat) \<Rightarrow> Client \<Rightarrow> (string \<rightharpoonup> Engine) \<Rightarrow> string \<Rightarrow> string \<Rightarrow> time \<Rightarrow> int option" where
  "ChooseOrdinal sum64 c engines infoHash guid now =
     (let replicas = replicasOf c;
          hashed = HashOrdinal sum64 replicas [infoHash, guid];
          best = fst (foldl (ordinal_step (cl_Name c) engines now hashed) (-1, 0) (ordinals replicas))
      in if best \<ge> 0 then Some best else None)"

section \<open>Facts\<close>

interpretation client_scan: scan_order clientLess
  unfolding clientLess_def by (rule less_by_scan_order)

lemma set_ordinals [simp]: "set (ordinals n) = {0..<n}"
proof -
  have "int ` {0..<nat n} = {0..<n}"
    by (auto simp: image_iff intro!: bexI [of _ "nat _"])
  then show ?thesis by (simp add: ordinals_def)
qed

lemma replicasOf_pos [simp]: "0 < replicasOf c"
  by (simp add: replicasOf_def less_max_iff_disj)

text \<open>The name of an engine parses back to its client and ordinal.\<close>

lemma itoa_nonneg: "0 < n \<Longrightarrow> itoa n = digits n"
  by (simp add: itoa_def)

lemma read_ordinal_append:
  "read_ordinal n (xs @ ys) = (case read_ordinal n xs of None \<Rightarrow> None | Some m \<Rightarrow> read_ordinal m ys)"
  by (induction n xs rule: read_ordinal.induct) auto

lemma read_ordinal_digits: "0 \<le> n \<Longrightarrow> n < 2 ^ 31 \<Longrightarrow> read_ordinal 0 (digits n) = Some n"
proof (induction n rule: digits.induct)
  case (1 n)
  show ?case
  proof (cases "n > 0")
    case True
    then have ih: "read_ordinal 0 (digits (n div 10)) = Some (n div 10)"
      using "1.IH" "1.prems" by simp
    have dig: "is_digit (char_of (48 + nat (n mod 10)))"
      using pos_mod_bound [of 10 n] pos_mod_sign [of 10 n] unfolding is_digit_def digit_mod10 by linarith
    have w: "wrap32 (n div 10 * 10) = n div 10 * 10"
      using True "1.prems" by (intro wrap32_id) (simp add: is_int32_def, presburger)
    have v: "n div 10 * 10 + (int (48 + nat (n mod 10)) - 48) = n"
      using True by simp
    have "wrap32 n = n" using "1.prems" by (intro wrap32_id) (simp add: is_int32_def)
    then show ?thesis
      using True ih dig w v by (simp add: digits.simps [of n] read_ordinal_append del: of_char_of)
  next
    case False
    with "1.prems" show ?thesis by (simp add: digits.simps [of 0])
  qed
qed

lemma itoa_no_dash: "0 \<le> n \<Longrightarrow> CHR ''-'' \<notin> set (itoa n)"
  using digits_all_digit [of n] by (auto simp: itoa_def is_digit_def)

lemma itoa_nonempty: "itoa n \<noteq> []"
  using digits_nonempty [of n] by (auto simp: itoa_def)

lemma read_ordinal_itoa: "0 \<le> n \<Longrightarrow> n < 2 ^ 31 \<Longrightarrow> read_ordinal 0 (itoa n) = Some n"
  using read_ordinal_digits [of n] by (auto simp: itoa_def is_digit_def wrap32_def)

lemma splitEngine_EngineName:
  assumes "client \<noteq> []" and "0 \<le> n" and "n < 2 ^ 31"
  shows "splitEngine (EngineName client n) = Some (client, n)"
proof -
  have "last_index (CHR ''-'') (client @ CHR ''-'' # itoa n) = Some (length client)"
    using assms by (intro last_index_append_notin itoa_no_dash)
  moreover have "length (itoa n) \<noteq> 0" using itoa_nonempty [of n] by simp
  ultimately show ?thesis
    using assms by (simp add: splitEngine_def EngineName_def read_ordinal_itoa)
qed

lemma EngineName_inj:
  assumes "a \<noteq> []" "b \<noteq> []" "0 \<le> m" "m < 2 ^ 31" "0 \<le> n" "n < 2 ^ 31"
  shows "EngineName a m = EngineName b n \<longleftrightarrow> a = b \<and> m = n"
  using splitEngine_EngineName [of a m] splitEngine_EngineName [of b n] assms
  by (metis option.inject prod.inject)

lemma HashOrdinal_range:
  assumes "is_int32 replicas" and "0 < replicas"
  shows "0 \<le> HashOrdinal sum64 replicas parts \<and> HashOrdinal sum64 replicas parts < replicas"
proof -
  let ?n = "int (sum64 (join_bar parts)) mod replicas"
  have r: "0 \<le> ?n \<and> ?n < replicas" using assms by simp
  then have "is_int32 ?n" using assms unfolding is_int32_def by linarith
  with r assms show ?thesis by (auto simp: HashOrdinal_def)
qed

text \<open>
  The ordinal loop keeps the best ready instance among those seen: an invariant of the fold.
\<close>

definition ready_at :: "string \<Rightarrow> (string \<rightharpoonup> Engine) \<Rightarrow> time \<Rightarrow> int \<Rightarrow> int \<Rightarrow> bool" where
  "ready_at client engines now o' load \<longleftrightarrow>
     (\<exists>e. engines (EngineName client o') = Some e \<and> engineReady e now \<and> engineLoad e = load)"

definition ordinal_inv :: "string \<Rightarrow> (string \<rightharpoonup> Engine) \<Rightarrow> time \<Rightarrow> int list \<Rightarrow> int \<times> int \<Rightarrow> bool" where
  "ordinal_inv client engines now seen = (\<lambda>(best, bestLoad).
     (best < 0 \<longrightarrow> (\<forall>o' \<in> set seen. \<forall>l. \<not> ready_at client engines now o' l)) \<and>
     (best \<ge> 0 \<longrightarrow> best \<in> set seen \<and> ready_at client engines now best bestLoad \<and>
        (\<forall>o' \<in> set seen. \<forall>l. ready_at client engines now o' l \<longrightarrow> bestLoad \<le> l)))"

lemma ordinal_step_inv:
  assumes "ordinal_inv client engines now seen s" and "0 \<le> x"
  shows "ordinal_inv client engines now (seen @ [x]) (ordinal_step client engines now hashed s x)"
  using assms unfolding ordinal_inv_def ordinal_step_def ready_at_def
  by (cases s) (auto split: option.splits if_splits; fastforce)

lemma ordinal_fold_inv:
  "(\<And>x. x \<in> set xs \<Longrightarrow> 0 \<le> x) \<Longrightarrow>
   ordinal_inv client engines now xs (foldl (ordinal_step client engines now hashed) (-1, 0) xs)"
proof (induction xs rule: rev_induct)
  case Nil
  then show ?case by (simp add: ordinal_inv_def)
next
  case (snoc x xs)
  then show ?case using ordinal_step_inv [of client engines now xs _ x hashed] by simp
qed

lemmas ChooseOrdinal_fold =
  ordinal_fold_inv [where xs = "ordinals _", simplified]

lemma ChooseOrdinal_Some:
  assumes "ChooseOrdinal sum64 c engines infoHash guid now = Some b"
  shows "0 \<le> b \<and> b < replicasOf c \<and>
    (\<exists>e. engines (EngineName (cl_Name c) b) = Some e \<and> engineReady e now \<and>
      (\<forall>o' e'. 0 \<le> o' \<longrightarrow> o' < replicasOf c \<longrightarrow> engines (EngineName (cl_Name c) o') = Some e' \<longrightarrow>
         engineReady e' now \<longrightarrow> engineLoad e \<le> engineLoad e'))"
  using assms ChooseOrdinal_fold [of "replicasOf c" "cl_Name c" engines now
      "HashOrdinal sum64 (replicasOf c) [infoHash, guid]"]
  by (auto simp: ChooseOrdinal_def Let_def ordinal_inv_def ready_at_def split: if_splits prod.splits)

lemma ChooseOrdinal_None:
  "ChooseOrdinal sum64 c engines infoHash guid now = None \<longleftrightarrow>
    (\<forall>o' e. 0 \<le> o' \<longrightarrow> o' < replicasOf c \<longrightarrow> engines (EngineName (cl_Name c) o') = Some e \<longrightarrow>
       \<not> engineReady e now)" (is "?l = ?r")
proof
  assume ?l
  then show ?r
    using ChooseOrdinal_fold [of "replicasOf c" "cl_Name c" engines now
        "HashOrdinal sum64 (replicasOf c) [infoHash, guid]"]
    by (fastforce simp: ChooseOrdinal_def Let_def ordinal_inv_def ready_at_def split: if_splits prod.splits)
next
  assume ?r
  then show ?l
    using ChooseOrdinal_Some [of sum64 c engines infoHash guid now]
    by (cases "ChooseOrdinal sum64 c engines infoHash guid now") blast+
qed

lemma ChooseClient_serves:
  "ChooseClient clients protocol ref = Some c \<Longrightarrow> c \<in> set clients \<and> serves protocol c"
  by (auto simp: ChooseClient_def serves_def split: option.splits if_splits
      dest!: scan_best_in find_SomeD)

end
