(* ===== verification/GrabIntents.thy ===== *)
theory GrabIntents
  imports GrabTypes
begin

text \<open>
  The owner's download annotations (\<^verbatim>\<open>app/grab/lifecycle/intents.go\<close>): the standing intents
  (paused, priority), the one-shot intents with their nonces, and which of them is pending. The
  hexadecimal of a value's SHA-256 prefix is a parameter, \<open>nonceHex\<close>.
\<close>

section \<open>Annotations and nonces (api/catalog/v1alpha1)\<close>

definition AnnotationDownloadPaused :: string where
  "AnnotationDownloadPaused = ''download.clustarr.io/paused''"
definition AnnotationDownloadPriority :: string where
  "AnnotationDownloadPriority = ''download.clustarr.io/priority''"
definition AnnotationDownloadRemove :: string where
  "AnnotationDownloadRemove = ''download.clustarr.io/remove''"
definition AnnotationDownloadResume :: string where
  "AnnotationDownloadResume = ''download.clustarr.io/resume''"
definition AnnotationDownloadImport :: string where
  "AnnotationDownloadImport = ''download.clustarr.io/import''"
definition AnnotationDownloadUnblock :: string where
  "AnnotationDownloadUnblock = ''download.clustarr.io/unblock''"

lemmas annotation_defs = AnnotationDownloadPaused_def AnnotationDownloadPriority_def
  AnnotationDownloadRemove_def AnnotationDownloadResume_def AnnotationDownloadImport_def
  AnnotationDownloadUnblock_def

lemma annotations_distinct [simp]:
  "distinct [AnnotationDownloadPaused, AnnotationDownloadPriority, AnnotationDownloadRemove,
     AnnotationDownloadResume, AnnotationDownloadImport, AnnotationDownloadUnblock]"
  by (simp add: annotation_defs)

lemmas annotation_neqs [simp] = annotations_distinct [simplified]

lemma annotations_distinct_rev:
  "distinct [AnnotationDownloadUnblock, AnnotationDownloadImport, AnnotationDownloadResume,
     AnnotationDownloadRemove, AnnotationDownloadPriority, AnnotationDownloadPaused]"
  by (simp add: annotation_defs)

lemmas annotation_neqs_rev [simp] = annotations_distinct_rev [simplified]

definition nonce_alnum :: "char \<Rightarrow> bool" where
  "nonce_alnum c \<longleftrightarrow> (let n = (of_char c :: nat) in
     (65 \<le> n \<and> n \<le> 90) \<or> (97 \<le> n \<and> n \<le> 122) \<or> (48 \<le> n \<and> n \<le> 57))"

definition nonce_char :: "char \<Rightarrow> bool" where
  "nonce_char c \<longleftrightarrow> nonce_alnum c \<or> c = CHR ''.'' \<or> c = CHR ''_'' \<or> c = CHR ''-''"

text \<open>\<^verbatim>\<open>nonceRE\<close>: a letter or digit, then at most 62 letters, digits, dots, underscores or hyphens.\<close>

definition ValidNonce :: "string \<Rightarrow> bool" where
  "ValidNonce v = (case v of [] \<Rightarrow> False | c # cs \<Rightarrow> nonce_alnum c \<and> list_all nonce_char cs \<and> length cs \<le> 62)"

definition HandledNonce :: "(string \<Rightarrow> string) \<Rightarrow> string \<Rightarrow> string" where
  "HandledNonce nonceHex v = (if v = '''' \<or> ValidNonce v then v else ''invalid-'' @ nonceHex v)"

section \<open>Parsing\<close>

definition fields :: "string \<Rightarrow> string list" where
  "fields v = fields_by (\<lambda>r. r = CHR '','' \<or> r = CHR '' '' \<or> r = CHR 0x09 \<or> r = CHR 0x0A) [] v"

definition kindName :: "string \<Rightarrow> string" where
  "kindName k =
     (let l = to_lower k in
      if l = ''movie'' then ''Movie'' else if l = ''series'' then ''Series''
      else if l = ''episode'' then ''Episode'' else if l = ''album'' then ''Album''
      else if l = ''book'' then ''Book'' else if l = ''audiobook'' then ''Audiobook''
      else if l = ''comic'' then ''Comic'' else if l = ''issue'' then ''Issue'' else k)"

fun remove_flags :: "RemoveIntent \<Rightarrow> string list \<Rightarrow> string + RemoveIntent" where
  "remove_flags r [] = Inr r"
| "remove_flags r (t # ts) =
     (if t = ''data'' then remove_flags (r\<lparr>ri_Data := True\<rparr>) ts
      else if t = ''blocklist'' then remove_flags (r\<lparr>ri_Blocklist := True\<rparr>) ts
      else Inl ''remove takes only data and blocklist after the id'')"

definition import_target :: "string \<Rightarrow> ImportIntent \<Rightarrow> string + ImportIntent" where
  "import_target t im =
     (let parts = split_on (CHR ''/'') [] (trim_prefix t ''target='') in
      if length parts < 2 \<or> length parts > 3 \<or> parts ! 0 = '''' \<or> parts ! 1 = ''''
      then Inl ''target wants <kind>/<name>[/<key>]''
      else Inr (im\<lparr>ii_Target := Some \<lparr>ir_Kind = kindName (parts ! 0), ir_Namespace = '''',
                                        ir_Name = parts ! 1, ir_UID = ''''\<rparr>,
                   ii_TargetKey := (if length parts = 3 then parts ! 2 else ii_TargetKey im)\<rparr>))"

fun import_flags :: "ImportIntent \<Rightarrow> string list \<Rightarrow> string + ImportIntent" where
  "import_flags im [] = Inr im"
| "import_flags im (t # ts) =
     (if t = ''override'' then import_flags (im\<lparr>ii_Override := True\<rparr>) ts
      else if has_prefix t ''target='' then
        (case import_target t im of Inl e \<Rightarrow> Inl e | Inr im' \<Rightarrow> import_flags im' ts)
      else Inl ''import takes only target=<kind>/<name>[/<key>] and override after the id'')"

fun unblock_flags :: "UnblockIntent \<Rightarrow> string list \<Rightarrow> string + UnblockIntent" where
  "unblock_flags u [] = Inr u"
| "unblock_flags u (t # ts) =
     (if t \<noteq> ''global'' then Inl ''unblock takes only global after the release''
      else unblock_flags (u\<lparr>ub_Global := True\<rparr>) ts)"

definition unblock_release :: "string \<Rightarrow> string \<Rightarrow> string + UnblockIntent" where
  "unblock_release nonce f1 =
     (let (indexer, guid, ok) = cut (CHR ''/'') f1 in
      if ok then
        (if indexer = '''' \<or> guid = '''' then Inl ''unblock wants <infoHash> or <indexer>/<guid>''
         else Inr \<lparr>ub_Nonce = nonce, ub_InfoHash = '''', ub_Indexer = indexer, ub_GUID = guid, ub_Global = False\<rparr>)
      else Inr \<lparr>ub_Nonce = nonce, ub_InfoHash = to_lower f1, ub_Indexer = '''', ub_GUID = '''', ub_Global = False\<rparr>)"

text \<open>\<^verbatim>\<open>parseOneShot\<close>: the intents it leaves and why the value is invalid, or the empty string.\<close>

definition parseOneShot :: "Intents \<Rightarrow> string \<Rightarrow> string \<Rightarrow> Intents \<times> string" where
  "parseOneShot i a v =
     (let f = strings_Fields v in
      if length f < 2 then (i, ''wants <nonce> <id> ...'')
      else let nonce = f ! 0; id = f ! 1; rest = drop 2 f in
      if \<not> ValidNonce nonce then (i, ''the nonce is not ^[A-Za-z0-9][A-Za-z0-9._-]{0,62}$'')
      else if a = AnnotationDownloadRemove then
        (case remove_flags \<lparr>ri_Nonce = nonce, ri_ID = id, ri_Data = False, ri_Blocklist = False\<rparr> rest of
           Inl e \<Rightarrow> (i, e) | Inr r \<Rightarrow> (i\<lparr>in_Remove := Some r\<rparr>, ''''))
      else if a = AnnotationDownloadResume then
        (if rest \<noteq> [] then (i, ''resume takes only <nonce> <id>'')
         else (i\<lparr>in_Resume := Some \<lparr>rs_Nonce = nonce, rs_ID = id\<rparr>\<rparr>, ''''))
      else if a = AnnotationDownloadImport then
        (case import_flags \<lparr>ii_Nonce = nonce, ii_ID = id, ii_Target = None, ii_TargetKey = '''', ii_Override = False\<rparr> rest of
           Inl e \<Rightarrow> (i, e) | Inr im \<Rightarrow> (i\<lparr>in_Import := Some im\<rparr>, ''''))
      else if a = AnnotationDownloadUnblock then
        (case unblock_release nonce id of
           Inl e \<Rightarrow> (i, e)
         | Inr u \<Rightarrow> (case unblock_flags u rest of Inl e \<Rightarrow> (i, e) | Inr u' \<Rightarrow> (i\<lparr>in_Unblock := Some u'\<rparr>, '''')))
      else (i, ''''))"

definition parse_paused :: "string \<Rightarrow> Intents \<Rightarrow> Intents" where
  "parse_paused v i = i\<lparr>in_Paused := (\<lambda>id. in_Paused i id \<or> id \<in> set (fields v))\<rparr>"

definition parse_priority_one :: "string \<Rightarrow> Intents \<Rightarrow> string \<Rightarrow> Intents" where
  "parse_priority_one v i kv =
     (let (id, p, ok) = cut (CHR ''='') kv;
          ok' = (ok \<and> (p = ''high'' \<or> p = ''normal'' \<or> p = ''low''))
      in if \<not> ok' \<or> id = '''' then
           i\<lparr>in_Invalid := in_Invalid i @
               [\<lparr>iv_Annotation = AnnotationDownloadPriority, iv_Value = v,
                 iv_Reason = ''priority wants <id>=high|normal|low''\<rparr>]\<rparr>
         else i\<lparr>in_Priority := (in_Priority i)(id := p)\<rparr>)"

definition parse_one_shot_at :: "(string \<Rightarrow> string) \<Rightarrow> Intents \<Rightarrow> string \<Rightarrow> Intents" where
  "parse_one_shot_at annotations i a =
     (let v = annotations a in
      if v = '''' then i
      else let i1 = i\<lparr>in_raw := (in_raw i)(a := v)\<rparr>; (i2, reason) = parseOneShot i1 a v in
        if reason \<noteq> '''' then
          i2\<lparr>in_Invalid := in_Invalid i2 @ [\<lparr>iv_Annotation = a, iv_Value = v, iv_Reason = reason\<rparr>]\<rparr>
        else i2)"

definition no_intents :: Intents where
  "no_intents = \<lparr>in_Paused = (\<lambda>_. False), in_Priority = (\<lambda>_. ''''), in_Remove = None, in_Resume = None,
     in_Import = None, in_Unblock = None, in_Invalid = [], in_raw = (\<lambda>_. '''')\<rparr>"

definition oneShots :: "string list" where
  "oneShots = [AnnotationDownloadRemove, AnnotationDownloadResume, AnnotationDownloadImport,
     AnnotationDownloadUnblock]"

definition ParseIntents :: "(string \<Rightarrow> string) \<Rightarrow> Intents" where
  "ParseIntents annotations =
     (let p = annotations AnnotationDownloadPaused; q = annotations AnnotationDownloadPriority;
          i1 = (if p \<noteq> '''' then parse_paused p no_intents else no_intents);
          i2 = (if q \<noteq> '''' then foldl (parse_priority_one q) i1 (fields q) else i1)
      in foldl (parse_one_shot_at annotations) i2 oneShots)"

section \<open>Which intent is pending\<close>

definition NonceKey :: "(string \<Rightarrow> string) \<Rightarrow> Intents \<Rightarrow> string \<Rightarrow> string" where
  "NonceKey nonceHex i a =
     (let v = in_raw i a in
      if v = '''' then ''''
      else if a = AnnotationDownloadRemove \<and> in_Remove i \<noteq> None then ri_Nonce (the (in_Remove i))
      else if a = AnnotationDownloadResume \<and> in_Resume i \<noteq> None then rs_Nonce (the (in_Resume i))
      else if a = AnnotationDownloadImport \<and> in_Import i \<noteq> None then ii_Nonce (the (in_Import i))
      else if a = AnnotationDownloadUnblock \<and> in_Unblock i \<noteq> None then ub_Nonce (the (in_Unblock i))
      else HandledNonce nonceHex v)"

definition intent_pending :: "(string \<Rightarrow> string) \<Rightarrow> Intents \<Rightarrow> string \<Rightarrow> string \<Rightarrow> bool" where
  "intent_pending nonceHex i a recorded \<longleftrightarrow>
     (let k = NonceKey nonceHex i a in k \<noteq> '''' \<and> k \<noteq> recorded)"

section \<open>Facts\<close>

definition parsed :: "Intents \<Rightarrow> string \<Rightarrow> bool" where
  "parsed i a \<longleftrightarrow>
     (a = AnnotationDownloadRemove \<and> in_Remove i \<noteq> None) \<or>
     (a = AnnotationDownloadResume \<and> in_Resume i \<noteq> None) \<or>
     (a = AnnotationDownloadImport \<and> in_Import i \<noteq> None) \<or>
     (a = AnnotationDownloadUnblock \<and> in_Unblock i \<noteq> None)"

definition listed_invalid :: "Intents \<Rightarrow> string \<Rightarrow> bool" where
  "listed_invalid i a \<longleftrightarrow> (\<exists>inv \<in> set (in_Invalid i). iv_Annotation inv = a)"

lemma parseOneShot_frame:
  "in_raw (fst (parseOneShot i a v)) = in_raw i"
  "in_Invalid (fst (parseOneShot i a v)) = in_Invalid i"
  "in_Paused (fst (parseOneShot i a v)) = in_Paused i"
  "in_Priority (fst (parseOneShot i a v)) = in_Priority i"
  by (auto simp: parseOneShot_def Let_def split: sum.splits)

lemma remove_flags_nonempty: "remove_flags r ts = Inl e \<Longrightarrow> e \<noteq> ''''"
  by (induction r ts rule: remove_flags.induct) (auto split: if_splits)

lemma import_flags_nonempty: "import_flags im ts = Inl e \<Longrightarrow> e \<noteq> ''''"
  by (induction im ts rule: import_flags.induct)
    (auto simp: import_target_def Let_def split: if_splits sum.splits)

lemma unblock_flags_nonempty: "unblock_flags u ts = Inl e \<Longrightarrow> e \<noteq> ''''"
  by (induction u ts rule: unblock_flags.induct) (auto split: if_splits)

lemma unblock_release_nonempty: "unblock_release n f = Inl e \<Longrightarrow> e \<noteq> ''''"
  by (auto simp: unblock_release_def split: if_splits prod.splits)

lemmas parse_reason_nonempty =
  remove_flags_nonempty import_flags_nonempty unblock_flags_nonempty unblock_release_nonempty

text \<open>An empty reason means the intent of a one-shot annotation was set.\<close>

lemma parseOneShot_ok:
  assumes "a \<in> set oneShots" and "snd (parseOneShot i a v) = ''''"
  shows "parsed (fst (parseOneShot i a v)) a"
  using assms
  by (auto simp: parseOneShot_def parsed_def oneShots_def Let_def split: sum.splits if_splits
      dest: parse_reason_nonempty)

text \<open>An annotation parsed earlier stays parsed, a value listed as invalid stays listed.\<close>

lemma parseOneShot_keeps:
  "in_Remove i = Some r \<Longrightarrow> \<exists>r'. in_Remove (fst (parseOneShot i a v)) = Some r'"
  "in_Resume i = Some s \<Longrightarrow> \<exists>s'. in_Resume (fst (parseOneShot i a v)) = Some s'"
  "in_Import i = Some m \<Longrightarrow> \<exists>m'. in_Import (fst (parseOneShot i a v)) = Some m'"
  "in_Unblock i = Some u \<Longrightarrow> \<exists>u'. in_Unblock (fst (parseOneShot i a v)) = Some u'"
  by (simp_all add: parseOneShot_def Let_def split: sum.splits)

lemma parseOneShot_mono: "parsed i b \<Longrightarrow> parsed (fst (parseOneShot i a v)) b"
  unfolding parsed_def by (metis not_None_eq parseOneShot_keeps)

lemma parse_one_shot_at_mono:
  "parsed i b \<or> listed_invalid i b \<Longrightarrow>
   parsed (parse_one_shot_at ann i a) b \<or> listed_invalid (parse_one_shot_at ann i a) b"
proof -
  assume h: "parsed i b \<or> listed_invalid i b"
  let ?i1 = "i\<lparr>in_raw := (in_raw i)(a := ann a)\<rparr>"
  have "parsed ?i1 b = parsed i b" and "in_Invalid ?i1 = in_Invalid i" by (simp_all add: parsed_def)
  with h show ?thesis
    using parseOneShot_mono [of ?i1 b a "ann a"] parseOneShot_frame(2) [of ?i1 a "ann a"]
    by (auto simp: parse_one_shot_at_def listed_invalid_def parsed_def Let_def split: prod.splits)
qed

lemma parse_one_shot_at_settles:
  assumes "a \<in> set oneShots" and "ann a \<noteq> ''''"
  shows "parsed (parse_one_shot_at ann i a) a \<or> listed_invalid (parse_one_shot_at ann i a) a"
  using assms parseOneShot_ok [of a "i\<lparr>in_raw := (in_raw i)(a := ann a)\<rparr>" "ann a"]
  by (auto simp: parse_one_shot_at_def listed_invalid_def parsed_def Let_def split: prod.splits)

lemma parse_all_settles:
  "a \<in> set as \<Longrightarrow> set as \<subseteq> set oneShots \<Longrightarrow> ann a \<noteq> '''' \<Longrightarrow>
   parsed (foldl (parse_one_shot_at ann) i as) a \<or> listed_invalid (foldl (parse_one_shot_at ann) i as) a"
proof (induction as rule: rev_induct)
  case Nil
  then show ?case by simp
next
  case (snoc b bs)
  then show ?case
    using parse_one_shot_at_mono [of "foldl (parse_one_shot_at ann) i bs" a ann b]
      parse_one_shot_at_settles [of a ann "foldl (parse_one_shot_at ann) i bs"] by auto
qed

lemma intent_pending_recorded: "\<not> intent_pending nonceHex i a (NonceKey nonceHex i a)"
  by (simp add: intent_pending_def Let_def)

end
