(* ===== verification/GrabDecider.thy ===== *)
theory GrabDecider
  imports GrabChoose GrabIntents
begin

text \<open>
  The state of one \<^verbatim>\<open>Decide\<close> (\<^verbatim>\<open>app/grab/lifecycle/plan.go\<close>, type \<^verbatim>\<open>decider\<close>) and the operations
  every transition is made of: the due time, events and history, the lookups, incorporating a
  transfer record (\<^verbatim>\<open>observe\<close>), the desired command of an entry and how it is issued, emitted and
  owed. The Go methods mutate the decider and the entry they are given; here both are passed and
  returned. The three digests the code computes (SHA-1 for the ordinal, SHA-256 of a command's
  JSON, SHA-256 of a nonce) are the parameters of \<open>Hashes\<close>.
\<close>

section \<open>State\<close>

record Hashes =
  h_sum64 :: "string \<Rightarrow> nat"
  h_command :: "EngineCommand \<Rightarrow> string"
  h_nonce :: "string \<Rightarrow> string"

record decider =
  d_h :: Hashes
  d_v :: View
  d_now :: time
  d_clients :: "string \<rightharpoonup> Client"
  d_unblocked :: "(DownloadEntry \<Rightarrow> bool) option"
  d_all :: "DownloadEntry list"
  d_plan :: Plan

definition clampString :: "string \<Rightarrow> nat \<Rightarrow> string" where
  "clampString s n = (if length s \<le> n then s else take (clamp_back s n) s)"

section \<open>Predicates on an entry\<close>

definition live :: "DownloadEntry \<Rightarrow> bool" where
  "live e \<longleftrightarrow> e_Phase e \<notin> {Removing, Failed, Blocklisted}"

definition hasEntry :: "DownloadEntry list \<Rightarrow> string \<Rightarrow> string \<Rightarrow> bool" where
  "hasEntry entries ident uid \<longleftrightarrow>
     (\<exists>x \<in> set entries. (ident \<noteq> '''' \<and> e_ID x = ident) \<or> (uid \<noteq> '''' \<and> e_UID x = uid))"

fun findEntry :: "DownloadEntry list \<Rightarrow> string \<Rightarrow> nat option" where
  "findEntry [] ident = None"
| "findEntry (x # xs) ident = (if e_ID x = ident then Some 0 else map_option Suc (findEntry xs ident))"

definition nonTerminal :: "DownloadEntry \<Rightarrow> bool" where
  "nonTerminal e \<longleftrightarrow>
     (case e_Import e of None \<Rightarrow> True
      | Some imp \<Rightarrow> im_Phase imp \<notin> {ImportPhaseHeld, ImportPhaseExpired, ImportPhaseImported}) \<and>
     e_Phase e \<notin> {Imported, Failed, Blocklisted, Removing}"

definition imported :: "DownloadEntry \<Rightarrow> bool" where
  "imported e = (case e_Import e of None \<Rightarrow> False
     | Some imp \<Rightarrow> im_Phase imp = ImportPhaseImported \<and> im_ImportedAt imp \<noteq> None)"

definition entryLess :: "DownloadEntry \<Rightarrow> DownloadEntry \<Rightarrow> bool" where
  "entryLess = less_by e_GrabbedAt e_ID"

definition activeEntry :: "DownloadEntry \<Rightarrow> bool" where
  "activeEntry e \<longleftrightarrow> nonTerminal e \<and> e_Purpose e \<noteq> AudioDonor"

definition activePhase :: "DownloadEntry list \<Rightarrow> DownloadPhase" where
  "activePhase entries =
     (case scan_best activeEntry entryLess entries of None \<Rightarrow> PhaseUnset | Some e \<Rightarrow> e_Phase e)"

section \<open>The plan's due time, events and history\<close>

definition at :: "decider \<Rightarrow> time \<Rightarrow> decider" where
  "at d t =
     (if is_zero t then d
      else let t' = (if t > d_now d then t else d_now d + second) in
        if is_zero (p_Due (d_plan d)) \<or> t' < p_Due (d_plan d)
        then d\<lparr>d_plan := (d_plan d)\<lparr>p_Due := t'\<rparr>\<rparr> else d)"

definition event :: "decider \<Rightarrow> string \<Rightarrow> string \<Rightarrow> string \<Rightarrow> decider" where
  "event d typ reason msg =
     d\<lparr>d_plan := (d_plan d)\<lparr>p_Events := p_Events (d_plan d) @
         [\<lparr>ev_Recorder = ''downloads'', ev_Type = typ, ev_Reason = reason, ev_Message = msg\<rparr>]\<rparr>\<rparr>"

definition history_event :: "decider \<Rightarrow> DownloadEntry \<Rightarrow> string \<Rightarrow> string \<Rightarrow> DownloadEvent" where
  "history_event d e action reason =
     \<lparr>de_DownloadRef = \<lparr>ref_Namespace = ir_Namespace (v_Owner (d_v d)), ref_Name = e_ID e, ref_UID = e_UID e\<rparr>,
      de_Media = \<lparr>mr_Kind = v_Kind (d_v d), mr_Name = ir_Name (v_Owner (d_v d)), mr_Keys = [], mr_Track = ''''\<rparr>,
      de_Action = action,
      de_ClientRef = (if e_Client e \<noteq> '''' then Some \<lparr>ref_Namespace = ir_Namespace (v_Owner (d_v d)),
                        ref_Name = e_Client e, ref_UID = ''''\<rparr> else None),
      de_ClientID = '''',
      de_Protocol = rel_Protocol (e_Release e),
      de_Title = rel_Title (e_Release e),
      de_InfoHash = rel_InfoHash (e_Release e),
      de_SizeBytes = rel_SizeBytes (e_Release e),
      de_Reason = reason,
      de_OutputPath = e_OutputPath e,
      de_Purpose = purpose_string (e_Purpose e),
      de_At = d_now d\<rparr>"

definition history :: "decider \<Rightarrow> DownloadEntry \<Rightarrow> string \<Rightarrow> string \<Rightarrow> decider" where
  "history d e action reason =
     d\<lparr>d_plan := (d_plan d)\<lparr>p_History := p_History (d_plan d) @ [history_event d e action reason]\<rparr>\<rparr>"

section \<open>Lookups\<close>

definition recordOf :: "decider \<Rightarrow> DownloadEntry \<Rightarrow> TransferRecord option" where
  "recordOf d e = map_option t_Record (v_Transfers (d_v d) (e_UID e))"

definition engineOf :: "decider \<Rightarrow> DownloadEntry \<Rightarrow> Engine option" where
  "engineOf d e = (if e_Engine e = '''' then None else v_Engines (d_v d) (e_Engine e))"

text \<open>The boot id of an engine that may be absent: the zero \<^verbatim>\<open>Engine\<close> has the empty one.\<close>

definition bootOf :: "Engine option \<Rightarrow> string" where
  "bootOf eng = (case eng of None \<Rightarrow> '''' | Some x \<Rightarrow> en_BootID x)"

definition past_replicas :: "DownloadEntry \<Rightarrow> Client \<Rightarrow> bool" where
  "past_replicas e c =
     (case splitEngine (e_Engine e) of None \<Rightarrow> False | Some (_, ordinal) \<Rightarrow> ordinal \<ge> max (cl_Replicas c) 1)"

definition engineGone :: "decider \<Rightarrow> DownloadEntry \<Rightarrow> string option" where
  "engineGone d e =
     (if e_Engine e = '''' then Some ''the entry was never assigned to an engine''
      else case d_clients d (e_Client e) of
        None \<Rightarrow> Some (''DownloadClient '' @ e_Client e @ '' no longer exists'')
      | Some c \<Rightarrow>
          if past_replicas e c then Some (''engine '' @ e_Engine e @ '' is past its DownloadClient's replicas'')
          else case engineOf d e of
            None \<Rightarrow> Some (''engine '' @ e_Engine e @ '' is not ready'')
          | Some eng \<Rightarrow>
              if \<not> engineReady eng (d_now d) then Some (''engine '' @ e_Engine e @ '' is not ready'')
              else None)"

text \<open>\<^verbatim>\<open>settled\<close>: the decider (its due time may move), whether the engine is settled, and since when.\<close>

definition settled :: "decider \<Rightarrow> DownloadEntry \<Rightarrow> decider \<times> bool \<times> time" where
  "settled d e =
     (case engineOf d e of
        None \<Rightarrow> (d, False, 0)
      | Some eng \<Rightarrow>
          if \<not> en_Reattached eng \<or> is_zero (en_ReattachedAt eng) then (d, False, 0)
          else case d_clients d (e_Client e) of
            None \<Rightarrow> (d, False, 0)
          | Some c \<Rightarrow>
              if en_ResyncSeq eng < cl_ResyncSeq c then (d, False, 0)
              else let t = en_ReattachedAt eng + ResyncSettle in
                if d_now d < t then (at d t, False, t) else (d, True, t))"

definition heldAtBoot :: "TransferRecord option \<Rightarrow> string \<Rightarrow> bool" where
  "heldAtBoot rec boot =
     (case rec of None \<Rightarrow> False
      | Some r \<Rightarrow> tr_State r \<noteq> TransferRemoved \<and> (boot = '''' \<or> tr_BootID r = boot))"

section \<open>Incorporating a transfer record\<close>

definition observe_dispatch :: "TransferRecord \<Rightarrow> Dispatch \<Rightarrow> Dispatch" where
  "observe_dispatch rec dp =
     (let dp1 = (if tr_Seq rec > dp_Seq dp then dp\<lparr>dp_Seq := tr_Seq rec\<rparr> else dp);
          dp2 = (if tr_Seq rec > dp_AnsweredSeq dp1 then dp1\<lparr>dp_AnsweredSeq := tr_Seq rec\<rparr> else dp1)
      in if \<not> InFlight dp2 then dp2\<lparr>dp_Delivery := None\<rparr> else dp2)"

definition observe_fields :: "TransferRecord \<Rightarrow> DownloadEntry \<Rightarrow> DownloadEntry" where
  "observe_fields rec e =
     e\<lparr>e_Dispatch := observe_dispatch rec (e_Dispatch e),
       e_Stage := (if tr_Stage rec \<noteq> StageUnset then tr_Stage rec else e_Stage e),
       e_OutputPath := (if tr_OutputPath rec \<noteq> '''' then clampString (tr_OutputPath rec) 4096 else e_OutputPath e),
       e_StartedAt := (if tr_StartedAt rec \<noteq> None \<and> e_StartedAt e = None then tr_StartedAt rec else e_StartedAt e),
       e_CompletedAt := (if tr_CompletedAt rec \<noteq> None \<and> e_CompletedAt e = None
                         then tr_CompletedAt rec else e_CompletedAt e)\<rparr>"

definition observe_seed_goal :: "decider \<Rightarrow> DownloadEntry \<Rightarrow> TransferRecord \<Rightarrow> decider \<times> DownloadEntry" where
  "observe_seed_goal d e rec =
     (if tr_SeedGoalReached rec \<and> e_SeedGoalMetAt e = None then
        let e' = e\<lparr>e_SeedGoalMetAt := Some (d_now d)\<rparr> in (history d e' ''seedGoalMet'' '''', e')
      else (d, e))"

definition observe_message :: "TransferRecord \<Rightarrow> DownloadEntry \<Rightarrow> DownloadEntry" where
  "observe_message rec e =
     (if tr_Message rec \<noteq> '''' \<and> live e then e\<lparr>e_Message := clampString (tr_Message rec) MaxEntryMessage\<rparr> else e)"

definition observe :: "decider \<Rightarrow> DownloadEntry \<Rightarrow> TransferRecord option \<Rightarrow> decider \<times> DownloadEntry" where
  "observe d e rec =
     (case rec of None \<Rightarrow> (d, e)
      | Some r \<Rightarrow> let (d1, e1) = observe_seed_goal d (observe_fields r e) r in (d1, observe_message r e1))"

section \<open>The desired command\<close>

definition claimOf :: "decider \<Rightarrow> DownloadEntry \<Rightarrow> TransferClaim" where
  "claimOf d e =
     \<lparr>cm_Owner = v_Owner (d_v d), cm_ProviderID = v_ProviderID (d_v d),
      cm_Entry = \<lparr>er_ID = e_ID e, er_UID = e_UID e\<rparr>,
      cm_InfoHash = rel_InfoHash (e_Release e), cm_Indexer = rel_IndexerRef (e_Release e),
      cm_GUID = rel_GUID (e_Release e), cm_Title = rel_Title (e_Release e),
      cm_Purpose = e_Purpose e, cm_RemoveDataOnDelete = e_RemoveDataOnDelete e,
      cm_Imported = imported e,
      cm_Set = map_option (\<lambda>s. \<lparr>sr_ID = set_ID s, sr_Part = set_Part s, sr_Of = set_Of s\<rparr>) (e_Set e)\<rparr>"

definition selectionOf :: "DownloadEntry \<Rightarrow> TransferSelection option" where
  "selectionOf e =
     (if e_Episodes e \<noteq> [] \<or> e_Issues e \<noteq> [] then
        Some \<lparr>ts_Episodes = map (\<lambda>n. \<lparr>en_Season = ep_Season n, en_Number = ep_Number n\<rparr>) (e_Episodes e),
              ts_Absolutes = [], ts_AirDates = [],
              ts_Issues = e_Issues e\<rparr>
      else None)"

definition healthOverrideOf :: "decider \<Rightarrow> DownloadEntry \<Rightarrow> string" where
  "healthOverrideOf d e =
     (case in_Resume (v_Intents (d_v d)) of None \<Rightarrow> ''''
      | Some r \<Rightarrow> if rs_ID r = e_ID e \<and> n_Resume (p_Nonces (d_plan d)) = rs_Nonce r then rs_Nonce r else '''')"

definition desired :: "decider \<Rightarrow> DownloadEntry \<Rightarrow> EngineCommand" where
  "desired d e =
     (let want = (if live e then DesiredPresent else DesiredAbsent); src = e_Source e;
          c = d_clients d (e_Client e) in
      \<lparr>ec_Seq = 0,
       ec_Owner = v_Owner (d_v d),
       ec_Entry = \<lparr>er_ID = e_ID e, er_UID = e_UID e\<rparr>,
       ec_Desired = want,
       ec_RemoveData = (if want = DesiredAbsent then e_RemoveDataOnDelete e else False),
       ec_Protocol = Some (rel_Protocol (e_Release e)),
       ec_Source = Some src,
       ec_ExpectedInfoHash = (case ds_ExpectedInfoHash src of Some h \<Rightarrow> h | None \<Rightarrow> rel_InfoHash (e_Release e)),
       ec_Release = \<lparr>cr_Title = rel_Title (e_Release e), cr_GUID = rel_GUID (e_Release e),
                     cr_IndexerRef = rel_IndexerRef (e_Release e), cr_SizeBytes = rel_SizeBytes (e_Release e)\<rparr>,
       ec_Category = (case c of None \<Rightarrow> '''' | Some cl \<Rightarrow> cl_Categories cl (v_Kind (d_v d))),
       ec_Selection = selectionOf e,
       ec_Paused = in_Paused (v_Intents (d_v d)) (e_ID e),
       ec_Priority = in_Priority (v_Intents (d_v d)) (e_ID e),
       ec_HealthOverride = healthOverrideOf d e,
       ec_SeedCriteria = (case e_SeedCriteria e of Some s \<Rightarrow> Some s
                          | None \<Rightarrow> (case c of None \<Rightarrow> None | Some cl \<Rightarrow> cl_Seed cl)),
       ec_RemoveOnImport = e_RemoveOnImport e,
       ec_Imported = imported e,
       ec_ImportedAt = (case e_Import e of None \<Rightarrow> None | Some imp \<Rightarrow> im_ImportedAt imp),
       ec_Claim = claimOf d e,
       ec_ResyncSeq = 0, ec_DownloadID = '''',
       ec_IssuedAt = 0\<rparr>)"

text \<open>\<^verbatim>\<open>hashOf\<close>: the digest of the command without its seq and issue time.\<close>

definition hashOf :: "decider \<Rightarrow> EngineCommand \<Rightarrow> string" where
  "hashOf d cmd = h_command (d_h d) (cmd\<lparr>ec_Seq := 0, ec_IssuedAt := 0\<rparr>)"

section \<open>Issuing, emitting and owing a command\<close>

definition commandOf :: "decider \<Rightarrow> DownloadEntry \<Rightarrow> TransferRecord option \<Rightarrow> bool \<Rightarrow> Command" where
  "commandOf d e rec retry =
     (let cmd = (desired d e)\<lparr>ec_Seq := dp_Seq (e_Dispatch e), ec_IssuedAt := dp_DispatchedAt (e_Dispatch e)\<rparr>;
          (client, ordinal) = (case splitEngine (e_Engine e) of None \<Rightarrow> ('''', 0) | Some p \<Rightarrow> p);
          boot = (case engineOf d e of None \<Rightarrow> ''''
                  | Some eng \<Rightarrow> if en_BootID eng \<noteq> '''' \<and> (case rec of None \<Rightarrow> True | Some r \<Rightarrow> tr_BootID r \<noteq> en_BootID eng)
                              then en_BootID eng else '''')
      in \<lparr>c_Engine = e_Engine e, c_Client = client, c_Ordinal = ordinal, c_BootID = boot,
          c_Cmd = cmd, c_Retry = retry\<rparr>)"

definition set_issued :: "decider \<Rightarrow> string \<Rightarrow> IssuedCommand \<Rightarrow> decider" where
  "set_issued d uid i = d\<lparr>d_plan := (d_plan d)\<lparr>p_Issued := (p_Issued (d_plan d))(uid \<mapsto> i)\<rparr>\<rparr>"

definition add_command :: "decider \<Rightarrow> Command \<Rightarrow> decider" where
  "add_command d c = d\<lparr>d_plan := (d_plan d)\<lparr>p_Commands := p_Commands (d_plan d) @ [c]\<rparr>\<rparr>"

definition emit :: "decider \<Rightarrow> DownloadEntry \<Rightarrow> TransferRecord option \<Rightarrow> bool \<Rightarrow> decider" where
  "emit d e rec retry =
     (let c = commandOf d e rec retry in
      at (set_issued (add_command d c) (e_UID e)
            \<lparr>is_Seq = ec_Seq (c_Cmd c), is_Hash = hashOf d (c_Cmd c), is_At = d_now d\<rparr>)
         (d_now d + RepublishEvery))"

definition recSeq :: "TransferRecord option \<Rightarrow> int" where
  "recSeq rec = (case rec of None \<Rightarrow> 0 | Some r \<Rightarrow> tr_Seq r)"

definition stamp :: "decider \<Rightarrow> DownloadEntry \<Rightarrow> DownloadEntry" where
  "stamp d e =
     (if e_Engine e = '''' then e\<lparr>e_Dispatch := (e_Dispatch e)\<lparr>dp_DispatchedAt := d_now d\<rparr>\<rparr>
      else e\<lparr>e_Dispatch := (e_Dispatch e)\<lparr>
              dp_Seq := nextSeq (recSeq (recordOf d e)) (dp_Seq (e_Dispatch e)) (d_now d),
              dp_DispatchedAt := d_now d,
              dp_Destination := e_Engine e,
              dp_Delivery := Some \<lparr>dv_State = DeliveryPublished, dv_Reason = '''', dv_Message = '''',
                                   dv_Attempts = 0, dv_LastNakAt = None, dv_DeadLetteredAt = None\<rparr>\<rparr>\<rparr>)"

definition issue :: "decider \<Rightarrow> DownloadEntry \<Rightarrow> decider \<times> DownloadEntry" where
  "issue d e =
     (let e' = stamp d e in
      if e_Engine e = '''' then (d, e') else (emit d e' (recordOf d e) False, e'))"

definition mark_retry :: "decider \<Rightarrow> decider" where
  "mark_retry d =
     d\<lparr>d_plan := (d_plan d)\<lparr>p_Commands :=
         butlast (p_Commands (d_plan d)) @ [(last (p_Commands (d_plan d)))\<lparr>c_Retry := True\<rparr>]\<rparr>\<rparr>"

definition answered :: "TransferRecord option \<Rightarrow> DownloadEntry \<Rightarrow> bool" where
  "answered rec e = (case rec of None \<Rightarrow> False | Some r \<Rightarrow> tr_Seq r \<ge> dp_Seq (e_Dispatch e))"

text \<open>The tail of \<^verbatim>\<open>owe\<close>: the book holds the entry's current seq as \<open>b\<close>.\<close>

definition owe_booked :: "decider \<Rightarrow> DownloadEntry \<Rightarrow> TransferRecord option \<Rightarrow> IssuedCommand \<Rightarrow> decider \<times> DownloadEntry" where
  "owe_booked d e rec b =
     (if is_Hash b \<noteq> hashOf d (desired d e) then issue d e
      else if answered rec e then (set_issued d (e_UID e) b, e)
      else if time_sub (d_now d) (dp_DispatchedAt (e_Dispatch e)) < RepublishWindow then
        (if \<not> is_zero (is_At b) \<and> time_sub (d_now d) (is_At b) < RepublishEvery
         then (at (set_issued d (e_UID e) b) (is_At b + RepublishEvery), e)
         else (emit d e rec False, e))
      else
        let (d', e') = issue (event d ''Warning'' ''CommandRetrying''
              (''the command to '' @ e_Engine e @ '' for '' @ e_ID e @
               '' was not acknowledged in time; issuing it again'')) e
        in (mark_retry d', e'))"

definition owe :: "decider \<Rightarrow> DownloadEntry \<Rightarrow> decider \<times> DownloadEntry" where
  "owe d e =
     (if e_Engine e = '''' then (d, e)
      else let rec = recordOf d e; book = v_Issued (d_v d) (e_UID e) in
      if (case p_Issued (d_plan d) (e_UID e) of None \<Rightarrow> False | Some i \<Rightarrow> is_Seq i = dp_Seq (e_Dispatch e)) then (d, e)
      else if (case book of None \<Rightarrow> True | Some b \<Rightarrow> is_Seq b \<noteq> dp_Seq (e_Dispatch e)) then
        (if answered rec e \<and> \<not> live e \<and> tr_State (the rec) = TransferRemoved then (d, e) else issue d e)
      else owe_booked d e rec (the book))"

end
