(* ===== verification/GrabTransitions.thy ===== *)
theory GrabTransitions
  imports GrabDecider
begin

text \<open>
  The rows of the state machine (\<^verbatim>\<open>app/grab/lifecycle/transitions.go\<close>, \<^verbatim>\<open>parts.go\<close>, \<^verbatim>\<open>scope.go\<close>): one
  definition per method, in the order the code has them. \<open>i\<close> is the entry's index in \<open>d_all\<close>: the
  Go entry is a pointer into that slice, so a method that reads the slice sees the entry as it is
  now (\<open>allNow\<close>). Each row returns the decider, the entry and whether the entry stays.
\<close>

section \<open>Block scopes\<close>

definition ScopeFor :: "DownloadFailureReason \<Rightarrow> BlockScope" where
  "ScopeFor reason = (if reason \<in> {Encrypted, PayloadMismatch, MissingArticles} then BlockScopeGlobal else BlockScopeItem)"

definition scopeString :: "BlockScope \<Rightarrow> ItemRef \<Rightarrow> string" where
  "scopeString scope owner = (if scope = BlockScopeGlobal then ''*'' else BlockScopeOf owner)"

section \<open>Stages, files and what may be imported\<close>

fun phaseOfStage :: "DownloadStage \<Rightarrow> DownloadPhase \<Rightarrow> DownloadPhase" where
  "phaseOfStage FetchingMetadata cur = Queued"
| "phaseOfStage Transferring cur = Downloading"
| "phaseOfStage Verifying cur = Downloading"
| "phaseOfStage Repairing cur = Downloading"
| "phaseOfStage Extracting cur = Downloading"
| "phaseOfStage Publishing cur = Downloading"
| "phaseOfStage StageDone cur = Completed"
| "phaseOfStage StageSeeding cur = Completed"
| "phaseOfStage StageUnset cur = (if cur = Paused \<or> cur = PhaseUnset then Assigned else cur)"

definition afterImport :: "DownloadEntry \<Rightarrow> DownloadPhase" where
  "afterImport e = (if rel_Protocol (e_Release e) = Torrent then Seeding else Imported)"

definition filesLanded :: "int \<Rightarrow> int \<Rightarrow> bool" where
  "filesLanded want have' \<longleftrightarrow> want \<le> 0 \<or> have' \<ge> want"

definition Importable :: "DownloadEntry \<Rightarrow> TransferRecord option \<Rightarrow> bool" where
  "Importable e rec =
     (if e_Phase e = Completed then True
      else if e_Phase e \<in> {Assigned, Queued, Downloading} then
        \<not> imported e \<and>
        (case rec of None \<Rightarrow> False
         | Some r \<Rightarrow> phaseOfStage (tr_Stage r) (e_Phase e) = Completed \<and> tr_State r \<noteq> TransferFailed \<and>
                   \<not> IsFailure (tr_EngineFailureReason r))
      else False)"

section \<open>Transitions\<close>

definition failedNow :: "decider \<Rightarrow> DownloadEntry \<Rightarrow> DownloadEntry" where
  "failedNow d e = (if e_FailedAt e = None then e\<lparr>e_FailedAt := Some (d_now d)\<rparr> else e)"

definition toRemoving :: "decider \<Rightarrow> DownloadEntry \<Rightarrow> string \<Rightarrow> decider \<times> DownloadEntry" where
  "toRemoving d e why =
     (if e_Phase e = Removing then (d, e)
      else issue d (e\<lparr>e_Phase := Removing, e_Message := clampString (''removing: '' @ why) MaxEntryMessage\<rparr>))"

definition toFailed :: "decider \<Rightarrow> DownloadEntry \<Rightarrow> DownloadFailureReason \<Rightarrow> string \<Rightarrow> decider \<times> DownloadEntry" where
  "toFailed d e reason msg =
     (let (d1, e1) = issue d (failedNow d
            (e\<lparr>e_Phase := Failed, e_FailureReason := reason, e_Message := clampString msg MaxEntryMessage\<rparr>))
      in (history d1 e1 ''failed'' (reason_string reason), e1))"

definition blockOf :: "decider \<Rightarrow> DownloadEntry \<Rightarrow> DownloadFailureReason \<Rightarrow> EntryBlock" where
  "blockOf d e reason =
     \<lparr>bl_Scope = ScopeFor reason, bl_Reason = reason,
      bl_Seq = nextSeq 0 (case e_Block e of None \<Rightarrow> 0 | Some b \<Rightarrow> bl_Seq b) (d_now d),
      bl_ConfirmedAt = None\<rparr>"

definition toBlocklisted :: "decider \<Rightarrow> DownloadEntry \<Rightarrow> DownloadFailureReason \<Rightarrow> string \<Rightarrow> decider \<times> DownloadEntry" where
  "toBlocklisted d e reason msg =
     (let e0 = (failedNow d
            (e\<lparr>e_Phase := Blocklisted, e_FailureReason := reason, e_Message := clampString msg MaxEntryMessage\<rparr>))
                 \<lparr>e_Block := Some (blockOf d e reason)\<rparr>;
          (d1, e1) = issue d e0
      in (history (history d1 e1 ''failed'' (reason_string reason)) e1 ''blocklisted'' (reason_string reason), e1))"

definition zero_dispatch :: Dispatch where
  "zero_dispatch = \<lparr>dp_Seq = 0, dp_AnsweredSeq = 0, dp_DispatchedAt = 0, dp_Withdrawn = False,
     dp_Destination = '''', dp_Delivery = None\<rparr>"

definition zero_summary :: DownloadImportSummary where
  "zero_summary = \<lparr>im_Phase = ImportPhaseUnset, im_Class = '''', im_Message = '''', im_Attempts = 0,
     im_NextAttemptAt = None, im_HeldSince = None, im_ImportedAt = None, im_Files = 0, im_Target = '''',
     im_Override = False, im_Dispatch = zero_dispatch\<rparr>"

definition mark_imported :: "decider \<Rightarrow> DownloadEntry \<Rightarrow> DownloadEntry" where
  "mark_imported d e =
     (let imp = (case e_Import e of None \<Rightarrow> zero_summary | Some x \<Rightarrow> x);
          imp' = imp\<lparr>im_Phase := ImportPhaseImported,
                     im_ImportedAt := (case im_ImportedAt imp of None \<Rightarrow> Some (d_now d) | Some t \<Rightarrow> Some t)\<rparr>
      in e\<lparr>e_Import := Some imp', e_Phase := afterImport e, e_Message := ''''\<rparr>)"

definition toImported :: "decider \<Rightarrow> DownloadEntry \<Rightarrow> decider \<times> DownloadEntry" where
  "toImported d e =
     (let (d1, e1) = issue d (mark_imported d e) in (history d1 e1 ''imported'' '''', e1))"

section \<open>Sets of parts (parts.go)\<close>

definition allNow :: "decider \<Rightarrow> nat \<Rightarrow> DownloadEntry \<Rightarrow> DownloadEntry list" where
  "allNow d i e = (d_all d)[i := e]"

definition inSet :: "string \<Rightarrow> DownloadEntry \<Rightarrow> bool" where
  "inSet sid s = (case e_Set s of None \<Rightarrow> False | Some x \<Rightarrow> set_ID x = sid)"

definition setDone ::
  "DownloadEntry list \<Rightarrow> DownloadEntry \<Rightarrow> (DownloadEntry \<Rightarrow> TransferRecord option) \<Rightarrow> int \<times> int" where
  "setDone entries e rec =
     (case e_Set e of None \<Rightarrow> (0, 0)
      | Some s \<Rightarrow> (int (length (filter (\<lambda>x. inSet (set_ID s) x \<and> Importable x (rec x)) entries)), set_Of s))"

definition SetReady ::
  "DownloadEntry list \<Rightarrow> DownloadEntry \<Rightarrow> (DownloadEntry \<Rightarrow> TransferRecord option) \<Rightarrow> bool" where
  "SetReady entries e rec = (let (done', of') = setDone entries e rec in of' > 0 \<and> done' = of')"

definition sameSet :: "decider \<Rightarrow> nat \<Rightarrow> DownloadEntry \<Rightarrow> DownloadEntry list" where
  "sameSet d i e =
     (case e_Set e of None \<Rightarrow> []
      | Some s \<Rightarrow> filter (\<lambda>x. e_UID x \<noteq> e_UID e \<and> inSet (set_ID s) x) (allNow d i e))"

definition SameSet :: "DownloadEntry \<Rightarrow> TransferClaim \<Rightarrow> bool" where
  "SameSet e claim =
     (case (e_Set e, cm_Set claim) of (Some s, Some r) \<Rightarrow> set_ID s = sr_ID r | _ \<Rightarrow> False)"

definition partOf :: "DownloadEntry \<Rightarrow> int" where
  "partOf s = (case e_Set s of None \<Rightarrow> 0 | Some x \<Rightarrow> set_Part x)"

fun firstFailure :: "DownloadEntry list \<Rightarrow> string" where
  "firstFailure [] = ''''"
| "firstFailure (s # ss) =
     (if e_Phase s = Failed \<or> e_Phase s = Blocklisted then ''part '' @ fmt_d (partOf s) @ '' of its set failed''
      else if e_Phase s = Removing \<and> \<not> imported s then ''part '' @ fmt_d (partOf s) @ '' of its set is being removed''
      else firstFailure ss)"

definition setFailure :: "decider \<Rightarrow> nat \<Rightarrow> DownloadEntry \<Rightarrow> string" where
  "setFailure d i e =
     (case e_Set e of None \<Rightarrow> ''''
      | Some s \<Rightarrow>
          if imported e then ''''
          else let others = sameSet d i e; f = firstFailure others in
            if f \<noteq> '''' then f
            else if int (length others) + 1 < set_Of s then ''a part of its set is gone''
            else '''')"

section \<open>The import step\<close>

definition importStep :: "decider \<Rightarrow> DownloadEntry \<Rightarrow> decider \<times> DownloadEntry \<times> bool" where
  "importStep d e =
     (case v_Import (d_v d) (e_UID e) of
        None \<Rightarrow>
          if imported e \<and> filesLanded (im_Files (the (e_Import e))) (v_Files (d_v d) (e_ID e))
          then (let (d1, e1) = toImported d e in (d1, e1, True))
          else (d, e, False)
      | Some dec \<Rightarrow>
          let sum' = ix_Summary dec;
              e1 = e\<lparr>e_Import := Some sum'\<rparr>;
              d1 = (case ix_Dispatch dec of None \<Rightarrow> d
                    | Some dd \<Rightarrow> d\<lparr>d_plan := (d_plan d)\<lparr>p_Imports := p_Imports (d_plan d) @ [dd\<lparr>idp_EntryUID := e_UID e\<rparr>]\<rparr>\<rparr>);
              d2 = d1\<lparr>d_plan := (d_plan d1)\<lparr>p_Materialise := p_Materialise (d_plan d1) @ ix_Materialise dec\<rparr>\<rparr>;
              d3 = at d2 (ix_Due dec)
          in (case ix_Verdict dec of
                ImportImported \<Rightarrow>
                  if filesLanded (im_Files sum') (v_Files (d_v d) (e_ID e))
                  then (let (d4, e2) = toImported d3 e1 in (d4, e2, True)) else (d3, e1, False)
              | ImportReleaseFault \<Rightarrow>
                  (let (d4, e2) = toBlocklisted d3 e1 ImportRejected (clampString (im_Message sum') 512) in (d4, e2, True))
              | VerdictExpired \<Rightarrow>
                  (let (d4, e2) = toFailed d3 e1 ImportExpired
                       (''the held import expired after '' @ fmt_duration ImportHoldRetention) in (d4, e2, True))
              | _ \<Rightarrow> (d3, e1, False)))"

definition setWaiting :: string where
  "setWaiting = ''waiting for the set's other parts''"

definition follow_summary :: "decider \<Rightarrow> DownloadEntry \<Rightarrow> DownloadEntry" where
  "follow_summary d e =
     (case e_Import e of Some _ \<Rightarrow> e
      | None \<Rightarrow> let seq = nextSeq 0 0 (d_now d) in
          e\<lparr>e_Import := Some (zero_summary\<lparr>im_Dispatch :=
               zero_dispatch\<lparr>dp_Seq := seq, dp_AnsweredSeq := seq, dp_DispatchedAt := d_now d\<rparr>\<rparr>)\<rparr>)"

definition setImport :: "decider \<Rightarrow> nat \<Rightarrow> DownloadEntry \<Rightarrow> decider \<times> DownloadEntry \<times> bool" where
  "setImport d i e =
     (if partOf e \<noteq> 1 then
        (if \<exists>s \<in> set (sameSet d i e). partOf s = 1 \<and> imported s
         then (let (d1, e1) = toImported d (follow_summary d e) in (d1, e1, True))
         else (d, e\<lparr>e_Message := ''waiting for part 1 to import the set''\<rparr>, False))
      else
        let (done', of') = setDone (allNow d i e) e (recordOf d) in
        if done' < of' then
          (d, e\<lparr>e_Message := clampString (setWaiting @ '': '' @ fmt_d done' @ '' of '' @ fmt_d of' @ '' downloaded'')
                               MaxEntryMessage\<rparr>, False)
        else importStep d (if has_prefix (e_Message e) setWaiting then e\<lparr>e_Message := ''''\<rparr> else e))"

section \<open>Pending\<close>

definition isDirect :: "DownloadSource \<Rightarrow> bool" where
  "isDirect src \<longleftrightarrow> ds_IndexerDownload src = None \<and>
     (ds_MagnetURL src \<noteq> None \<or> ds_TorrentURL src \<noteq> None \<or> ds_NZBURL src \<noteq> None)"

definition waiting :: "DownloadEntry \<Rightarrow> string \<Rightarrow> string \<Rightarrow> DownloadEntry" where
  "waiting e reason msg =
     e\<lparr>e_Dispatch := (e_Dispatch e)\<lparr>dp_Delivery := Some \<lparr>dv_State = DeliveryWaiting, dv_Reason = reason,
          dv_Message = clampString msg 256, dv_Attempts = 0, dv_LastNakAt = None, dv_DeadLetteredAt = None\<rparr>\<rparr>\<rparr>"

definition pendingClient :: "decider \<Rightarrow> DownloadEntry \<Rightarrow> Client option" where
  "pendingClient d e =
     (let proto = rel_Protocol (e_Release e);
          pinned = (if e_Client e = '''' then None
                    else case d_clients d (e_Client e) of None \<Rightarrow> None
                         | Some c \<Rightarrow> if serves proto c then Some c else None)
      in case pinned of Some c \<Rightarrow> Some c
         | None \<Rightarrow> ChooseClient (v_Clients (d_v d)) proto (v_IndexerClient (d_v d) (rel_IndexerRef (e_Release e))))"

definition assign :: "decider \<Rightarrow> DownloadEntry \<Rightarrow> Client \<Rightarrow> int \<Rightarrow> decider \<times> DownloadEntry" where
  "assign d e c ordinal =
     (let e1 = e\<lparr>e_Client := cl_Name c, e_Engine := EngineName (cl_Name c) ordinal, e_Phase := Assigned,
                 e_Message := '''', e_GrabbedAt := (if is_zero (e_GrabbedAt e) then d_now d else e_GrabbedAt e)\<rparr>;
          (d1, e2) = issue d e1;
          d2 = history d1 e2 ''grabbed'' '''';
          d3 = (if isDirect (e_Source e2) \<and> rel_IndexerRef (e_Release e2) \<noteq> ''''
                then d2\<lparr>d_plan := (d_plan d2)\<lparr>p_DirectGrabs := p_DirectGrabs (d_plan d2) @
                       [\<lparr>dg_IndexerRef = rel_IndexerRef (e_Release e2), dg_EntryUID = e_UID e2, dg_At = e_GrabbedAt e2\<rparr>]\<rparr>\<rparr>
                else d2)
      in (d3, e2))"

definition pendingStep :: "decider \<Rightarrow> nat \<Rightarrow> DownloadEntry \<Rightarrow> decider \<times> DownloadEntry \<times> bool" where
  "pendingStep d i e0 =
     (let e = e0\<lparr>e_Phase := Pending\<rparr>; why = setFailure d i e in
      if why \<noteq> '''' then (let (d1, e1) = toRemoving d e why in (d1, e1, True))
      else case pendingClient d e of
        None \<Rightarrow>
          let msg = clampString (''waiting for an enabled '' @ protocol_string (rel_Protocol (e_Release e)) @
                                 '' DownloadClient'') MaxEntryMessage
          in (at d (d_now d + minute), waiting (e\<lparr>e_Message := msg\<rparr>) ''NoCapableAgent'' msg, True)
      | Some c \<Rightarrow>
          (case ChooseOrdinal (h_sum64 (d_h d)) c (v_Engines (d_v d)) (rel_InfoHash (e_Release e))
                  (rel_GUID (e_Release e)) (d_now d) of
             None \<Rightarrow>
               let msg = clampString (''waiting for an engine of DownloadClient '' @ cl_Name c @ '' to be ready'')
                           MaxEntryMessage
               in (at d (d_now d + RepublishEvery), waiting (e\<lparr>e_Message := msg\<rparr>) ''EngineNotReady'' msg, True)
           | Some ordinal \<Rightarrow> (let (d1, e1) = assign d e c ordinal in (d1, e1, True))))"

section \<open>A live transfer\<close>

definition failedStep :: "decider \<Rightarrow> DownloadEntry \<Rightarrow> TransferRecord \<Rightarrow> decider \<times> DownloadEntry \<times> bool" where
  "failedStep d e rec =
     (let reason = (if IsFailure (tr_EngineFailureReason rec) then tr_EngineFailureReason rec else WriteError);
          d1 = (if tr_Stage rec = StageUnset \<and> (e_Phase e = Assigned \<or> e_Phase e = Pending)
                then event d ''Warning'' ''DownloadAddFailed''
                       (''the engine could not add '' @ e_ID e @ '': '' @ clampString (tr_Message rec) 512)
                else d)
      in if reason = PayloadUnavailable \<and> imported e then
           (history (event d1 ''Warning'' ''SeedingLost''
              (''the payload of '' @ e_ID e @ '' can no longer be fetched to seed it; dropping the entry''))
              e ''removed'' (reason_string reason), e, False)
         else if IsReleaseFault reason then
           (let (d2, e2) = toBlocklisted d1 e reason (''the engine reported '' @ reason_string reason) in (d2, e2, True))
         else (let (d2, e2) = toFailed d1 e reason (''the engine reported '' @ reason_string reason) in (d2, e2, True)))"

definition healthMessage :: "TransferRecord \<Rightarrow> string" where
  "healthMessage rec =
     (case tr_Health rec of
        None \<Rightarrow> ''paused: article health is below the floor; resume it to continue''
      | Some h \<Rightarrow> ''paused: article health '' @ fmt_d (th_HealthPercent h) @ ''% is below the floor (critical '' @
          fmt_d (th_CriticalHealthPercent h) @ ''%); resume it to continue'')"

definition stallSince :: "TransferRecord \<Rightarrow> time" where
  "stallSince rec =
     (case tr_LastProgressAt rec of Some t \<Rightarrow> t
      | None \<Rightarrow> (case tr_StartedAt rec of Some t \<Rightarrow> t | None \<Rightarrow> tr_AddedAt rec))"

definition stallTimeoutOf :: "Client option \<Rightarrow> duration" where
  "stallTimeoutOf c =
     (case c of None \<Rightarrow> 0
      | Some cl \<Rightarrow> if cl_StallTimeout cl = 0 \<and> cl_Protocol cl = Torrent then StallTimeout else cl_StallTimeout cl)"

definition downloadTimeoutOf :: "Client option \<Rightarrow> duration" where
  "downloadTimeoutOf c = (case c of None \<Rightarrow> 0 | Some cl \<Rightarrow> cl_DownloadTimeout cl)"

definition timeoutStep :: "decider \<Rightarrow> DownloadEntry \<Rightarrow> TransferRecord \<Rightarrow> Client option \<Rightarrow> decider \<times> DownloadEntry \<times> bool" where
  "timeoutStep d e rec c =
     (let dt = downloadTimeoutOf c in
      case tr_StartedAt rec of
        Some started \<Rightarrow>
          if dt > 0 then
            (if time_sub (d_now d) started > dt
             then (let (d1, e1) = toBlocklisted d e Timeout (''not finished within '' @ fmt_duration dt) in (d1, e1, True))
             else (at d (started + dt), e, False))
          else (d, e, False)
      | None \<Rightarrow> (d, e, False))"

definition stalledStep :: "decider \<Rightarrow> DownloadEntry \<Rightarrow> TransferRecord \<Rightarrow> Client option \<Rightarrow> decider \<times> DownloadEntry \<times> bool" where
  "stalledStep d e rec c =
     (if in_Paused (v_Intents (d_v d)) (e_ID e) then (d, e, False)
      else let st = stallTimeoutOf c; last' = stallSince rec in
      if st > 0 \<and> \<not> tr_WaitingTurn rec \<and> \<not> is_zero last' then
        (if time_sub (d_now d) last' > st
         then (let (d1, e1) = toBlocklisted d e Stalled (''no progress for '' @ fmt_duration st) in (d1, e1, True))
         else timeoutStep (at d (last' + st)) e rec c)
      else timeoutStep d e rec c)"

text \<open>The phase a held record gives a live entry, when no health action ends it.\<close>

definition livePhase :: "decider \<Rightarrow> DownloadEntry \<Rightarrow> TransferRecord \<Rightarrow> DownloadEntry" where
  "livePhase d e rec =
     (if tr_HealthPaused rec then e\<lparr>e_Phase := Paused, e_Message := clampString (healthMessage rec) MaxEntryMessage\<rparr>
      else if in_Paused (v_Intents (d_v d)) (e_ID e) then e\<lparr>e_Phase := Paused\<rparr>
      else if imported e then e\<lparr>e_Phase := afterImport e\<rparr>
      else let p = phaseOfStage (tr_Stage rec) (e_Phase e) in
        e\<lparr>e_Phase := (if p = Downloading \<and> tr_WaitingTurn rec then Queued else p)\<rparr>)"

definition owe_keep :: "decider \<times> DownloadEntry \<times> bool \<Rightarrow> decider \<times> DownloadEntry \<times> bool" where
  "owe_keep = (\<lambda>(d, e, ended). if ended then (d, e, True) else let (d1, e1) = owe d e in (d1, e1, True))"

definition completedStep :: "decider \<Rightarrow> nat \<Rightarrow> DownloadEntry \<Rightarrow> decider \<times> DownloadEntry \<times> bool" where
  "completedStep d i e =
     (let (d1, e1) = (if e_CompletedAt e = None
            then (let e' = e\<lparr>e_CompletedAt := Some (d_now d)\<rparr> in (history d e' ''completed'' '''', e'))
            else (d, e))
      in if e_Set e1 \<noteq> None then setImport d1 i e1 else importStep d1 e1)"

definition seedingStep :: "decider \<Rightarrow> DownloadEntry \<Rightarrow> TransferRecord \<Rightarrow> Client option \<Rightarrow> decider \<times> DownloadEntry \<times> bool" where
  "seedingStep d e rec c =
     (let removeAfter = (e_RemoveOnImport e \<or> (case c of None \<Rightarrow> False | Some cl \<Rightarrow> cl_RemoveCompleted cl)) in
      if e_Phase e = Seeding \<and> tr_SeedGoalReached rec \<and> removeAfter
      then (let (d1, e1) = toRemoving d e ''the seed goal is met'' in (d1, e1, True))
      else if e_Phase e = Imported \<and> removeAfter
      then (let (d1, e1) = toRemoving d e ''imported'' in (d1, e1, True))
      else (d, e, False))"

definition heldStep :: "decider \<Rightarrow> nat \<Rightarrow> DownloadEntry \<Rightarrow> TransferRecord \<Rightarrow> Client option \<Rightarrow> decider \<times> DownloadEntry \<times> bool" where
  "heldStep d i e rec c =
     (if tr_HealthPaused rec \<and> (case c of None \<Rightarrow> False | Some cl \<Rightarrow> cl_HealthAction cl = HealthActionDelete)
      then (let (d1, e1) = toBlocklisted d e MissingArticles ''the release's article health fell below the floor''
            in (d1, e1, True))
      else let e1 = livePhase d e rec in
        owe_keep
          (if e_Phase e1 = Queued \<or> e_Phase e1 = Downloading then stalledStep d e1 rec c
           else if e_Phase e1 = Completed then completedStep d i e1
           else if e_Phase e1 = Seeding \<or> e_Phase e1 = Imported then seedingStep d e1 rec c
           else (d, e1, False)))"

definition liveStep :: "decider \<Rightarrow> nat \<Rightarrow> DownloadEntry \<Rightarrow> TransferRecord option \<Rightarrow> decider \<times> DownloadEntry \<times> bool" where
  "liveStep d i e rec =
     (let c = d_clients d (e_Client e); boot = bootOf (engineOf d e); why = setFailure d i e in
      if why \<noteq> '''' then (let (d1, e1) = toRemoving d e why in (d1, e1, True))
      else if c = None \<and> e_Phase e = Assigned \<and> \<not> heldAtBoot rec boot
      then pendingStep d i (e\<lparr>e_Client := '''', e_Engine := ''''\<rparr>)
      else if (case rec of None \<Rightarrow> False
               | Some r \<Rightarrow> tr_State r = TransferRemoved \<and> tr_Seq r \<ge> dp_Seq (e_Dispatch e))
      then (let (d1, e1) = issue d (e\<lparr>e_Message :=
                  ''the engine's transfer for this entry went to another grab of it; adding it again''\<rparr>)
            in (d1, e1, True))
      else if \<not> heldAtBoot rec boot then
        (let (d1, ok, settledAt) = settled d e in
         if ok \<and> \<not> dp_DispatchedAt (e_Dispatch e) > settledAt
         then (let (d2, e2) = issue d1 (e\<lparr>e_Message := ''the engine holds no transfer for this entry; adding it again''\<rparr>)
               in (d2, e2, True))
         else (case rec of
                 Some r \<Rightarrow> if tr_State r = TransferFailed then failedStep d1 e r
                           else owe_keep (d1, e, False)
               | None \<Rightarrow> owe_keep (d1, e, False)))
      else if tr_State (the rec) = TransferFailed \<or> IsFailure (tr_EngineFailureReason (the rec))
      then failedStep d e (the rec)
      else heldStep d i e (the rec) c)"

section \<open>Removal\<close>

definition transferGone :: "decider \<Rightarrow> DownloadEntry \<Rightarrow> TransferRecord option \<Rightarrow> decider \<times> bool" where
  "transferGone d e rec =
     (if e_Engine e = '''' then (d, True)
      else if (case rec of None \<Rightarrow> False
               | Some r \<Rightarrow> tr_State r = TransferRemoved \<and> tr_Seq r \<ge> dp_Seq (e_Dispatch e)) then (d, True)
      else let (d1, ok, _) = settled d e in
        if ok \<and> \<not> heldAtBoot rec (bootOf (engineOf d e)) \<and> \<not> InFlight (e_Dispatch e) then (d1, True)
        else case engineGone d1 e of
          None \<Rightarrow> (d1, False)
        | Some why \<Rightarrow>
            let end' = dp_DispatchedAt (e_Dispatch e) + EngineTeardownTimeout in
            if d_now d < end' then (at d1 end', False)
            else (event d1 ''Warning'' ''EngineGone''
                    (e_Engine e @ '': '' @ why @ '' for '' @ fmt_duration EngineTeardownTimeout @
                     ''; dropping '' @ e_ID e @ '' on its behalf''), True))"

definition finishRemoval :: "decider \<Rightarrow> DownloadEntry \<Rightarrow> decider \<times> DownloadEntry \<times> bool" where
  "finishRemoval d e =
     (if e_RemoveDataOnDelete e \<and> e_OutputPath e \<noteq> '''' \<and> \<not> v_Removed (d_v d) (e_OutputPath e)
      then (at (d\<lparr>d_plan := (d_plan d)\<lparr>p_Removals := p_Removals (d_plan d) @ [e_OutputPath e]\<rparr>\<rparr>) (d_now d + second), e, True)
      else (history d e ''removed'' (reason_string (e_FailureReason e)), e, False))"

definition removingStep :: "decider \<Rightarrow> DownloadEntry \<Rightarrow> TransferRecord option \<Rightarrow> decider \<times> DownloadEntry \<times> bool" where
  "removingStep d e rec =
     (let (d1, gone) = transferGone d e rec in
      if gone then finishRemoval d1 e else owe_keep (d1, e, False))"

section \<open>Terminal entries\<close>

definition blockCall :: "decider \<Rightarrow> DownloadEntry \<Rightarrow> EntryBlock \<Rightarrow> BlockCall" where
  "blockCall d e b =
     (let blockedAt = (if is_zero (dp_DispatchedAt (e_Dispatch e)) then d_now d else dp_DispatchedAt (e_Dispatch e)) in
      \<lparr>bc_EntryUID = e_UID e, bc_Nonce = '''', bc_Req =
        \<lparr>br_Op = ''block'', br_Scope = scopeString (bl_Scope b) (v_Owner (d_v d)),
         br_InfoHash = rel_InfoHash (e_Release e), br_Indexer = rel_IndexerRef (e_Release e),
         br_GUID = rel_GUID (e_Release e), br_Title = rel_Title (e_Release e),
         br_Protocol = protocol_string (rel_Protocol (e_Release e)), br_Reason = reason_string (bl_Reason b),
         br_EntryID = e_ID e, br_Seq = bl_Seq b, br_BlockedAt = blockedAt, br_Until = blockedAt + BlocklistTTL, br_Limit = 0, br_Offset = 0\<rparr>\<rparr>)"

definition add_block :: "decider \<Rightarrow> BlockCall \<Rightarrow> decider" where
  "add_block d b = d\<lparr>d_plan := (d_plan d)\<lparr>p_Blocks := p_Blocks (d_plan d) @ [b]\<rparr>\<rparr>"

definition block_answer :: "decider \<Rightarrow> DownloadEntry \<Rightarrow> EntryBlock \<Rightarrow> BlockReply option" where
  "block_answer d e b =
     (case v_Blocks (d_v d) (e_UID e) of None \<Rightarrow> None
      | Some r \<Rightarrow> if rp_Seq r = bl_Seq b \<and> (rp_Applied r \<or> rp_Stale r) then Some r else None)"

definition confirmBlock :: "decider \<Rightarrow> DownloadEntry \<Rightarrow> EntryBlock \<Rightarrow> decider \<times> DownloadEntry \<times> bool" where
  "confirmBlock d e b =
     (if bl_ConfirmedAt b \<noteq> None then (d, e, True)
      else case block_answer d e b of
        Some r \<Rightarrow>
          (d, e\<lparr>e_Block := Some (b\<lparr>bl_ConfirmedAt := Some (if is_zero (rp_At r) then d_now d else rp_At r)\<rparr>)\<rparr>, True)
      | None \<Rightarrow> (at (add_block d (blockCall d e b)) (d_now d + RepublishEvery), e, False))"

definition failureTime :: "DownloadEntry \<Rightarrow> time" where
  "failureTime e = (case e_FailedAt e of Some t \<Rightarrow> t | None \<Rightarrow> dp_DispatchedAt (e_Dispatch e))"

definition coveredItems :: "decider \<Rightarrow> DownloadEntry \<Rightarrow> ItemRef list" where
  "coveredItems d e =
     (let cov = v_Covered (d_v d) (e_UID e) in if cov = [] then [v_Owner (d_v d)] else cov)"

definition owes_search :: "decider \<Rightarrow> time \<Rightarrow> ItemRef \<Rightarrow> bool" where
  "owes_search d failedAt it \<longleftrightarrow>
     \<not> (v_Unmonitored (d_v d) it \<or> v_Satisfied (d_v d) it \<or> (it = v_Owner (d_v d) \<and> \<not> v_Monitored (d_v d))) \<and>
     (case v_Searched (d_v d) it of None \<Rightarrow> True | Some s \<Rightarrow> s < failedAt)"

definition redownload :: "decider \<Rightarrow> DownloadEntry \<Rightarrow> decider \<times> bool" where
  "redownload d e =
     (if e_Phase e = Failed \<and> (IsLocalFault (e_FailureReason e) \<or> e_FailureReason e = ImportExpired \<or>
                               e_FailureReason e = FailureUnset) then (d, False)
      else let failedAt = failureTime e in
      if is_zero failedAt \<or> time_sub (d_now d) failedAt \<ge> RedownloadWindow then (d, False)
      else let owed = filter (owes_search d failedAt) (coveredItems d e);
               d1 = d\<lparr>d_plan := (d_plan d)\<lparr>p_Redownloads := p_Redownloads (d_plan d) @ owed\<rparr>\<rparr>
           in (if owed \<noteq> [] then at d1 (failedAt + RedownloadWindow) else d1, owed \<noteq> []))"

text \<open>When a terminal entry's tombstone may go: after the quarantine of a confirmed block, and
  after the hold of a refused release.\<close>

definition tombstoneEnd :: "DownloadEntry \<Rightarrow> time option" where
  "tombstoneEnd e =
     (if e_Phase e = Blocklisted then
        (case e_Block e of None \<Rightarrow> None | Some b \<Rightarrow> map_option (\<lambda>t. t + BlockQuarantine) (bl_ConfirmedAt b))
      else if e_Phase e = Failed \<and> e_FailureReason e = ReleaseRefused then
        Some ((case e_FailedAt e of Some t \<Rightarrow> t | None \<Rightarrow> dp_DispatchedAt (e_Dispatch e)) + RefusedHold)
      else None)"

definition terminalStep :: "decider \<Rightarrow> DownloadEntry \<Rightarrow> TransferRecord option \<Rightarrow> decider \<times> DownloadEntry \<times> bool" where
  "terminalStep d e rec =
     (if (case d_unblocked d of None \<Rightarrow> False | Some p \<Rightarrow> p e) then
        (let e1 = e\<lparr>e_Block := None\<rparr>; (d1, gone) = transferGone d e1 rec in
         if gone then finishRemoval d1 e1 else owe_keep (d1, e1, False))
      else
        let (d1, e1, confirmed) = (case (e_Phase e, e_Block e) of
               (Blocklisted, Some b) \<Rightarrow> confirmBlock d e b | _ \<Rightarrow> (d, e, True));
            (d2, keep) = redownload d1 e1;
            (d3, gone) = transferGone d2 e1 rec
        in if \<not> gone then owe_keep (d3, e1, False)
           else if \<not> confirmed \<or> keep then (d3, e1, True)
           else (case tombstoneEnd e1 of
                   Some end' \<Rightarrow> if d_now d < end' then (at d3 end', e1, True) else finishRemoval d3 e1
                 | None \<Rightarrow> finishRemoval d3 e1))"

section \<open>One entry's step\<close>

definition step :: "decider \<Rightarrow> nat \<Rightarrow> DownloadEntry \<Rightarrow> decider \<times> DownloadEntry \<times> bool" where
  "step d i e0 =
     (let rec = recordOf d e0; (d1, e) = observe d e0 rec in
      case e_Phase e of
        PhaseUnset \<Rightarrow> pendingStep d1 i e
      | Pending \<Rightarrow> pendingStep d1 i e
      | Removing \<Rightarrow> removingStep d1 e rec
      | Failed \<Rightarrow> terminalStep d1 e rec
      | Blocklisted \<Rightarrow> terminalStep d1 e rec
      | _ \<Rightarrow> liveStep d1 i e rec)"

end
