(* ===== verification/GrabDecide.thy ===== *)
theory GrabDecide
  imports GrabTransitions
begin

text \<open>
  The pass over one owner (\<^verbatim>\<open>Decide\<close> in \<^verbatim>\<open>app/grab/lifecycle/plan.go\<close>): admitting the new entries,
  the one-shot intents and the transfers no entry claims (\<^verbatim>\<open>converge.go\<close>), the pack that supersedes
  single episodes (\<^verbatim>\<open>supersede.go\<close>), the owner's deletion, one step per entry, and the plan.
\<close>

section \<open>The owner's one-shot intents (converge.go)\<close>

definition nonce_get :: "DownloadNonces \<Rightarrow> string \<Rightarrow> string option" where
  "nonce_get n a =
     (if a = AnnotationDownloadRemove then Some (n_Remove n)
      else if a = AnnotationDownloadResume then Some (n_Resume n)
      else if a = AnnotationDownloadImport then Some (n_Import n)
      else if a = AnnotationDownloadUnblock then Some (n_Unblock n)
      else None)"

definition nonce_set :: "DownloadNonces \<Rightarrow> string \<Rightarrow> string \<Rightarrow> DownloadNonces" where
  "nonce_set n a v =
     (if a = AnnotationDownloadRemove then n\<lparr>n_Remove := v\<rparr>
      else if a = AnnotationDownloadResume then n\<lparr>n_Resume := v\<rparr>
      else if a = AnnotationDownloadImport then n\<lparr>n_Import := v\<rparr>
      else if a = AnnotationDownloadUnblock then n\<lparr>n_Unblock := v\<rparr>
      else n)"

definition record_nonce :: "decider \<Rightarrow> string \<Rightarrow> string \<Rightarrow> decider" where
  "record_nonce d a v = d\<lparr>d_plan := (d_plan d)\<lparr>p_Nonces := nonce_set (p_Nonces (d_plan d)) a v\<rparr>\<rparr>"

definition d_pending :: "decider \<Rightarrow> string \<Rightarrow> bool" where
  "d_pending d a =
     (case nonce_get (p_Nonces (d_plan d)) a of None \<Rightarrow> False
      | Some rec \<Rightarrow> intent_pending (h_nonce (d_h d)) (v_Intents (d_v d)) a rec)"

definition invalid_one :: "decider \<Rightarrow> InvalidIntent \<Rightarrow> decider" where
  "invalid_one d iv =
     (if \<not> d_pending d (iv_Annotation iv) then d
      else event (record_nonce d (iv_Annotation iv)
                    (NonceKey (h_nonce (d_h d)) (v_Intents (d_v d)) (iv_Annotation iv)))
             ''Warning'' ''InvalidAnnotation'' (iv_Annotation iv @ '': '' @ iv_Reason iv))"

definition remove_entry :: "decider \<Rightarrow> DownloadEntry \<Rightarrow> RemoveIntent \<Rightarrow> decider \<times> DownloadEntry" where
  "remove_entry d e0 r =
     (let e = e0\<lparr>e_RemoveDataOnDelete := ri_Data r\<rparr> in
      if ri_Blocklist r \<and> e_Phase e \<noteq> Blocklisted
      then toBlocklisted d e Manual ''removed and blocklisted by a person''
      else if live e then toRemoving d e ''removed by a person''
      else issue d e)"

definition intent_remove :: "decider \<Rightarrow> DownloadEntry list \<Rightarrow> decider \<times> DownloadEntry list" where
  "intent_remove d entries =
     (case in_Remove (v_Intents (d_v d)) of
        None \<Rightarrow> (d, entries)
      | Some r \<Rightarrow>
          if \<not> d_pending d AnnotationDownloadRemove then (d, entries)
          else let d1 = record_nonce d AnnotationDownloadRemove (ri_Nonce r) in
            case findEntry entries (ri_ID r) of
              None \<Rightarrow> (event d1 ''Normal'' ''NothingToRemove'' (''no download '' @ ri_ID r @ '' to remove''), entries)
            | Some i \<Rightarrow> let (d2, e2) = remove_entry d1 (entries ! i) r in (d2, entries[i := e2]))"

definition intent_resume :: "decider \<Rightarrow> DownloadEntry list \<Rightarrow> decider \<times> DownloadEntry list" where
  "intent_resume d entries =
     (case in_Resume (v_Intents (d_v d)) of
        None \<Rightarrow> (d, entries)
      | Some r \<Rightarrow>
          if \<not> d_pending d AnnotationDownloadResume then (d, entries)
          else let d1 = record_nonce d AnnotationDownloadResume (rs_Nonce r);
                   nothing = (event d1 ''Normal'' ''NothingToResume''
                                (''no live download '' @ rs_ID r @ '' to resume''), entries) in
            case findEntry entries (rs_ID r) of
              None \<Rightarrow> nothing
            | Some i \<Rightarrow> if \<not> live (entries ! i) then nothing
                        else let (d2, e2) = issue d1 (entries ! i) in (d2, entries[i := e2]))"

definition intent_import :: "decider \<Rightarrow> DownloadEntry list \<Rightarrow> decider" where
  "intent_import d entries =
     (case in_Import (v_Intents (d_v d)) of
        None \<Rightarrow> d
      | Some r \<Rightarrow>
          if \<not> d_pending d AnnotationDownloadImport then d
          else let d1 = record_nonce d AnnotationDownloadImport (ii_Nonce r) in
            case findEntry entries (ii_ID r) of
              None \<Rightarrow> event d1 ''Warning'' ''InvalidAnnotation''
                        (''download.clustarr.io/import names no download '' @ ii_ID r)
            | Some _ \<Rightarrow> d1)"

definition unblock_matches :: "UnblockIntent \<Rightarrow> DownloadEntry \<Rightarrow> bool" where
  "unblock_matches u e =
     (if e_Phase e \<noteq> Blocklisted then False
      else if ub_InfoHash u \<noteq> '''' then equal_fold (rel_InfoHash (e_Release e)) (ub_InfoHash u)
      else rel_IndexerRef (e_Release e) = ub_Indexer u \<and> rel_GUID (e_Release e) = ub_GUID u)"

definition unblockCall :: "decider \<Rightarrow> UnblockIntent \<Rightarrow> BlockCall" where
  "unblockCall d u =
     \<lparr>bc_EntryUID = '''', bc_Nonce = ub_Nonce u, bc_Req =
       \<lparr>br_Op = ''unblock'', br_Scope = (if ub_Global u then ''*'' else BlockScopeOf (v_Owner (d_v d))),
        br_InfoHash = ub_InfoHash u, br_Indexer = ub_Indexer u, br_GUID = ub_GUID u, br_Title = '''',
        br_Protocol = '''', br_Reason = '''', br_EntryID = '''', br_Seq = nextSeq 0 0 (d_now d),
        br_BlockedAt = d_now d, br_Until = 0, br_Limit = 0, br_Offset = 0\<rparr>\<rparr>"

definition intent_unblock :: "decider \<Rightarrow> decider" where
  "intent_unblock d =
     (case in_Unblock (v_Intents (d_v d)) of
        None \<Rightarrow> d
      | Some u \<Rightarrow>
          if \<not> d_pending d AnnotationDownloadUnblock then d
          else if v_Unblocked (d_v d) (ub_Nonce u)
          then (record_nonce d AnnotationDownloadUnblock (ub_Nonce u))\<lparr>d_unblocked := Some (unblock_matches u)\<rparr>
          else at (add_block d (unblockCall d u)) (d_now d + RepublishEvery))"

definition intents :: "decider \<Rightarrow> DownloadEntry list \<Rightarrow> decider \<times> DownloadEntry list" where
  "intents d entries =
     (let d1 = foldl invalid_one d (in_Invalid (v_Intents (d_v d)));
          (d2, es2) = intent_remove d1 entries;
          (d3, es3) = intent_resume d2 es2
      in (intent_unblock (intent_import d3 es3), es3))"

section \<open>A pack supersedes single episodes (supersede.go)\<close>

definition transferring :: "DownloadEntry \<Rightarrow> bool" where
  "transferring e \<longleftrightarrow> e_Phase e \<in> {PhaseUnset, Pending, Assigned, Queued, Downloading, Paused}"

definition superseding :: "DownloadEntry \<Rightarrow> bool" where
  "superseding p \<longleftrightarrow> Pack p \<and> e_Purpose p = PurposeUnset \<and> nonTerminal p"

definition superseded :: "DownloadEntry \<Rightarrow> DownloadEntry \<Rightarrow> bool" where
  "superseded p s \<longleftrightarrow>
     e_Purpose s = PurposeUnset \<and> \<not> e_Manual s \<and> length (e_Episodes s) = 1 \<and>
     hd (e_Episodes s) \<in> set (e_Episodes p) \<and> transferring s \<and> \<not> e_GrabbedAt s > e_GrabbedAt p"

definition supersede_one ::
  "nat \<Rightarrow> decider \<times> DownloadEntry list \<Rightarrow> nat \<Rightarrow> decider \<times> DownloadEntry list" where
  "supersede_one i = (\<lambda>(d, es) j.
     let p = es ! i; s = es ! j in
     if j = i \<or> \<not> superseded p s then (d, es)
     else let (d1, s1) = toRemoving d (s\<lparr>e_RemoveDataOnDelete := True\<rparr>)
                (''superseded by the season pack '' @ rel_Title (e_Release p))
          in (event d1 ''Normal'' ''SupersededByPack''
                (''removing '' @ rel_Title (e_Release s1) @ '': the season pack '' @ rel_Title (e_Release p) @ '' replaces it''),
              es[j := s1]))"

definition supersede_pack :: "decider \<times> DownloadEntry list \<Rightarrow> nat \<Rightarrow> decider \<times> DownloadEntry list" where
  "supersede_pack = (\<lambda>(d, es) i.
     if \<not> superseding (es ! i) then (d, es) else foldl (supersede_one i) (d, es) [0..<length es])"

definition supersede :: "decider \<Rightarrow> DownloadEntry list \<Rightarrow> decider \<times> DownloadEntry list" where
  "supersede d es = foldl supersede_pack (d, es) [0..<length es]"

section \<open>Transfers no entry claims (converge.go)\<close>

definition removeUnclaimed :: "decider \<Rightarrow> TransferRecord \<Rightarrow> TransferClaim \<Rightarrow> string \<Rightarrow> decider" where
  "removeUnclaimed d rec claim why =
     (let (client, ordinal) = (case splitEngine (tr_Engine rec) of None \<Rightarrow> ('''', 0) | Some p \<Rightarrow> p);
          cmd = \<lparr>ec_Seq = wrap64 (tr_Seq rec + 1), ec_Owner = cm_Owner claim, ec_Entry = cm_Entry claim,
                 ec_Desired = DesiredAbsent, ec_RemoveData = cm_RemoveDataOnDelete claim, ec_Protocol = None,
                 ec_Source = None, ec_ExpectedInfoHash = '''',
                 ec_Release = \<lparr>cr_Title = cm_Title claim, cr_GUID = cm_GUID claim, cr_IndexerRef = cm_Indexer claim,
                               cr_SizeBytes = 0\<rparr>,
                 ec_Category = '''', ec_Selection = None, ec_Paused = False, ec_Priority = '''',
                 ec_HealthOverride = '''', ec_SeedCriteria = None, ec_RemoveOnImport = False, ec_Imported = False,
                 ec_ImportedAt = None, ec_Claim = claim, ec_ResyncSeq = 0, ec_DownloadID = '''', ec_IssuedAt = d_now d\<rparr>;
          boot = (case v_Engines (d_v d) (tr_Engine rec) of None \<Rightarrow> ''''
                  | Some eng \<Rightarrow> if en_BootID eng \<noteq> '''' \<and> en_BootID eng \<noteq> tr_BootID rec then en_BootID eng else '''')
      in at (event (add_command d \<lparr>c_Engine = tr_Engine rec, c_Client = client, c_Ordinal = ordinal,
                                    c_BootID = boot, c_Cmd = cmd, c_Retry = False\<rparr>)
               ''Normal'' ''TransferOwnerGone''
               (''removing the transfer '' @ er_ID (cm_Entry claim) @ '' on '' @ tr_Engine rec @ '': '' @ why))
            (d_now d + RepublishEvery))"

definition sourceOf :: "TransferClaim \<Rightarrow> DownloadSource option" where
  "sourceOf claim =
     (let none = \<lparr>ds_MagnetURL = None, ds_TorrentURL = None, ds_NZBURL = None, ds_IndexerDownload = None,
                  ds_ExpectedInfoHash = None\<rparr> in
      if cm_Indexer claim \<noteq> '''' \<and> cm_GUID claim \<noteq> ''''
      then Some (none\<lparr>ds_IndexerDownload := Some \<lparr>id_IndexerRef = cm_Indexer claim, id_GUID = cm_GUID claim, id_URL = ''''\<rparr>\<rparr>)
      else if cm_InfoHash claim \<noteq> ''''
      then Some (none\<lparr>ds_MagnetURL := Some (''magnet:?xt=urn:btih:'' @ to_lower (cm_InfoHash claim))\<rparr>)
      else None)"

definition zero_release :: "Protocol \<Rightarrow> DownloadRelease" where
  "zero_release p = \<lparr>rel_Title = '''', rel_GUID = '''', rel_IndexerRef = '''', rel_IndexerName = '''',
     rel_InfoHash = '''', rel_Protocol = p, rel_SizeBytes = 0,
     rel_Quality = \<lparr>q_Name = '''', q_Source = '''', q_Resolution = 0, q_Modifier = ''''\<rparr>,
     rel_Revision = \<lparr>rev_Version = 0, rev_Real = 0, rev_Repack = False\<rparr>,
     rel_FormatScore = 0, rel_Languages = [], rel_IndexerLanguages = [], rel_ReleaseGroup = '''', rel_Edition = ''''\<rparr>"

definition claimedEntry :: "decider \<Rightarrow> TransferRecord \<Rightarrow> TransferClaim \<Rightarrow> Client \<Rightarrow> DownloadSource \<Rightarrow> DownloadEntry" where
  "claimedEntry d rec claim c src =
     \<lparr>e_ID = er_ID (cm_Entry claim), e_UID = er_UID (cm_Entry claim), e_Purpose = cm_Purpose claim,
      e_Episodes = [], e_Issues = [],
      e_Release = (zero_release (cl_Protocol c))\<lparr>rel_Title := clampString (cm_Title claim) 512,
         rel_GUID := cm_GUID claim, rel_IndexerRef := cm_Indexer claim, rel_InfoHash := to_lower (cm_InfoHash claim)\<rparr>,
      e_Source = src, e_Client = cl_Name c, e_Engine = tr_Engine rec, e_GrabbedBy = GrabPush,
      e_GrabbedAt = (if is_zero (tr_AddedAt rec) then d_now d else tr_AddedAt rec),
      e_Manual = False, e_QualityProfileRef = '''', e_SeedCriteria = None, e_RemoveOnImport = False,
      e_RemoveDataOnDelete = cm_RemoveDataOnDelete claim,
      e_Phase = phaseOfStage (tr_Stage rec) Assigned, e_Stage = StageUnset, e_FailureReason = FailureUnset,
      e_OutputPath = '''', e_StartedAt = None, e_CompletedAt = None, e_SeedGoalMetAt = None, e_FailedAt = None,
      e_Import = None,
      e_Dispatch = zero_dispatch\<lparr>dp_Seq := tr_Seq rec, dp_AnsweredSeq := tr_Seq rec\<rparr>,
      e_Message = ''re-created from its transfer's claim'', e_Block = None,
      e_Set = map_option (\<lambda>s. \<lparr>set_ID = sr_ID s, set_Part = sr_Part s, set_Of = sr_Of s\<rparr>) (cm_Set claim)\<rparr>"

definition recreate :: "decider \<Rightarrow> TransferRecord \<Rightarrow> TransferClaim \<Rightarrow> DownloadEntry option" where
  "recreate d rec claim =
     (case splitEngine (tr_Engine rec) of
        None \<Rightarrow> None
      | Some (clientName, _) \<Rightarrow>
          (case d_clients d clientName of
             None \<Rightarrow> None
           | Some c \<Rightarrow>
               (case sourceOf claim of
                  None \<Rightarrow> None
                | Some src \<Rightarrow>
                    let e = claimedEntry d rec claim c src; seq = nextSeq 0 0 (d_now d) in
                    if cm_Imported claim then
                      Some (e\<lparr>e_Import := Some (zero_summary\<lparr>im_Phase := ImportPhaseImported, im_ImportedAt := Some (d_now d),
                               im_Dispatch := zero_dispatch\<lparr>dp_Seq := seq, dp_AnsweredSeq := seq, dp_DispatchedAt := d_now d\<rparr>\<rparr>),
                             e_Phase := afterImport e\<rparr>)
                    else Some e)))"

definition stillWants :: "decider \<Rightarrow> TransferClaim \<Rightarrow> TransferRecord \<Rightarrow> DownloadEntry list \<Rightarrow> bool \<times> string" where
  "stillWants d claim rec entries =
     (if cm_Imported claim \<and> \<not> tr_SeedGoalReached rec \<and> v_Monitored (d_v d) then (True, ''its seed goal is not met'')
      else case v_StillWants (d_v d) of
        Some f \<Rightarrow> f claim
      | None \<Rightarrow>
          if \<not> v_Monitored (d_v d) then (False, ''the owner is not monitored'')
          else if \<exists>x \<in> set entries. e_Purpose x = cm_Purpose claim \<and> live x \<and> \<not> SameSet x claim
          then (False, ''the owner has another grab of it in flight'')
          else if v_HasFile (d_v d) then (False, ''the owner has a file'')
          else (True, ''''))"

definition sameOwner :: "View \<Rightarrow> TransferClaim \<Rightarrow> bool" where
  "sameOwner v claim \<longleftrightarrow>
     ir_UID (cm_Owner claim) = ir_UID (v_Owner v) \<or>
     (ir_Name (cm_Owner claim) = ir_Name (v_Owner v) \<and>
      (cm_ProviderID claim = '''' \<or> v_ProviderID v = '''' \<or> cm_ProviderID claim = v_ProviderID v))"

definition cap_reached :: "View \<Rightarrow> DownloadEntry list \<Rightarrow> bool" where
  "cap_reached v entries \<longleftrightarrow> v_EntryCap v > 0 \<and> int (length entries) \<ge> v_EntryCap v"

definition converge_one :: "decider \<times> DownloadEntry list \<Rightarrow> Transfer \<Rightarrow> decider \<times> DownloadEntry list" where
  "converge_one = (\<lambda>(d, entries) t.
     let rec = t_Record t in
     case tr_Claim rec of
       None \<Rightarrow> (d, entries)
     | Some claim \<Rightarrow>
         if tr_Claimed rec \<or> (tr_State rec \<noteq> TransferPresent \<and> tr_State rec \<noteq> TransferFailed) then (d, entries)
         else if hasEntry entries '''' (er_UID (cm_Entry claim)) then (d, entries)
         else if \<not> sameOwner (d_v d) claim then
           (if v_ProviderVerified (d_v d)
            then (removeUnclaimed d rec claim (''the transfer's owner is another item now (provider id '' @
                    cm_ProviderID claim @ '' against '' @ v_ProviderID (d_v d) @ '')''), entries)
            else (d, entries))
         else if tr_State rec = TransferFailed then
           (removeUnclaimed d rec claim ''the transfer failed and no grab of it claims it'', entries)
         else let (wanted, why) = stillWants d claim rec entries in
           if \<not> wanted \<or> v_Deleting (d_v d) \<or> cap_reached (d_v d) entries
           then (removeUnclaimed d rec claim (if why = '''' then ''the owner no longer wants it'' else why), entries)
           else (case recreate d rec claim of
                   None \<Rightarrow> (d, entries)
                 | Some e \<Rightarrow> let (d1, e1) = issue d e in (d1, entries @ [e1])))"

definition converge :: "decider \<Rightarrow> DownloadEntry list \<Rightarrow> decider \<times> DownloadEntry list" where
  "converge d entries = foldl converge_one (d, entries) (v_Unclaimed (d_v d))"

section \<open>Decide\<close>

definition admit_new :: "View \<Rightarrow> DownloadEntry list \<Rightarrow> DownloadEntry \<Rightarrow> DownloadEntry list" where
  "admit_new v entries ne =
     (if hasEntry entries (e_ID ne) (e_UID ne) \<or> cap_reached v entries then entries
      else entries @ [if e_Phase ne = PhaseUnset then ne\<lparr>e_Phase := Pending\<rparr> else ne])"

definition admitted :: "View \<Rightarrow> DownloadEntry list" where
  "admitted v = (if v_Deleting v then v_Stored v else foldl (admit_new v) (v_Stored v) (v_NewEntries v))"

definition delete_one :: "decider \<times> DownloadEntry list \<Rightarrow> DownloadEntry \<Rightarrow> decider \<times> DownloadEntry list" where
  "delete_one = (\<lambda>(d, out) e.
     if live e then (let (d1, e1) = toRemoving d e ''the owner is being deleted'' in (d1, out @ [e1])) else (d, out @ [e]))"

definition delete_all :: "decider \<Rightarrow> DownloadEntry list \<Rightarrow> decider \<times> DownloadEntry list" where
  "delete_all d entries = (if v_Deleting (d_v d) then foldl delete_one (d, []) entries else (d, entries))"

definition step_one :: "decider \<times> DownloadEntry list \<Rightarrow> nat \<Rightarrow> decider \<times> DownloadEntry list" where
  "step_one = (\<lambda>(d, kept) i.
     let (d1, e1, keep) = step d i (d_all d ! i) in
     (d1\<lparr>d_all := (d_all d1)[i := e1]\<rparr>, if keep then kept @ [e1] else kept))"

definition step_all :: "decider \<Rightarrow> DownloadEntry list \<Rightarrow> decider \<times> DownloadEntry list" where
  "step_all d entries = foldl step_one (d\<lparr>d_all := entries\<rparr>, []) [0..<length entries]"

definition empty_plan :: "DownloadNonces \<Rightarrow> Plan" where
  "empty_plan n = \<lparr>p_Entries = [], p_Phase = PhaseUnset, p_Nonces = n, p_Commands = [], p_Blocks = [],
     p_Removals = [], p_Imports = [], p_Materialise = [], p_History = [], p_Events = [], p_Redownloads = [],
     p_DirectGrabs = [], p_Finalizer = None, p_Issued = Map.empty, p_Due = 0\<rparr>"

definition clients_by_name :: "Client list \<Rightarrow> string \<rightharpoonup> Client" where
  "clients_by_name cs = foldl (\<lambda>m c. m(cl_Name c \<mapsto> c)) Map.empty cs"

definition new_decider :: "Hashes \<Rightarrow> View \<Rightarrow> decider" where
  "new_decider h v = \<lparr>d_h = h, d_v = v, d_now = v_Now v, d_clients = clients_by_name (v_Clients v),
     d_unblocked = None, d_all = [], d_plan = empty_plan (v_Nonces v)\<rparr>"

definition pass :: "Hashes \<Rightarrow> View \<Rightarrow> decider \<times> DownloadEntry list" where
  "pass h v =
     (let (d1, es1) = intents (new_decider h v) (admitted v);
          (d2, es2) = supersede d1 es1;
          (d3, es3) = delete_all d2 es2;
          (d4, kept) = step_all d3 es3
      in converge d4 kept)"

definition Decide :: "Hashes \<Rightarrow> View \<Rightarrow> Plan" where
  "Decide h v =
     (let (d, kept) = pass h v in
      (d_plan d)\<lparr>p_Entries := kept, p_Phase := activePhase kept, p_Finalizer := Some (kept \<noteq> [])\<rparr>)"

end
