(* ===== verification/GrabFrame.thy ===== *)
theory GrabFrame
  imports GrabDecide
begin

text \<open>
  What the operations of the grab state machine leave alone and what they add. \<open>grows\<close> relates the
  decider before and after an operation: the context is the same, the plan's commands, history and
  nonces only grow, every command added satisfies a predicate, every block call added satisfies
  another, and a due time in the future stays one. Each primitive is shown to grow the plan, and
  the rows of the state machine follow by composition.
\<close>

section \<open>Growth of the plan\<close>

definition same_ctx :: "decider \<Rightarrow> decider \<Rightarrow> bool" where
  "same_ctx d d' \<longleftrightarrow> d_h d' = d_h d \<and> d_v d' = d_v d \<and> d_now d' = d_now d \<and> d_clients d' = d_clients d \<and>
     d_unblocked d' = d_unblocked d \<and> d_all d' = d_all d"

definition due_ok :: "decider \<Rightarrow> bool" where
  "due_ok d \<longleftrightarrow> is_zero (p_Due (d_plan d)) \<or> d_now d < p_Due (d_plan d)"

definition grows ::
  "string set \<Rightarrow> (Command \<Rightarrow> bool) \<Rightarrow> (BlockCall \<Rightarrow> bool) \<Rightarrow> decider \<Rightarrow> decider \<Rightarrow> bool" where
  "grows U C B d d' \<longleftrightarrow>
     same_ctx d d' \<and>
     (\<exists>cs. p_Commands (d_plan d') = p_Commands (d_plan d) @ cs \<and> (\<forall>c \<in> set cs. C c)) \<and>
     (\<exists>bs. p_Blocks (d_plan d') = p_Blocks (d_plan d) @ bs \<and> (\<forall>b \<in> set bs. B b)) \<and>
     (\<exists>hs. p_History (d_plan d') = p_History (d_plan d) @ hs) \<and>
     p_Nonces (d_plan d') = p_Nonces (d_plan d) \<and>
     (\<forall>u. u \<notin> U \<longrightarrow> p_Issued (d_plan d') u = p_Issued (d_plan d) u) \<and>
     (due_ok d \<longrightarrow> due_ok d')"

lemma same_ctxD [dest]:
  assumes "same_ctx d d'"
  shows "d_h d' = d_h d" "d_v d' = d_v d" "d_now d' = d_now d" "d_clients d' = d_clients d"
    "d_unblocked d' = d_unblocked d" "d_all d' = d_all d"
  using assms by (simp_all add: same_ctx_def)

lemma grows_refl [simp]: "grows U C B d d"
  by (simp add: grows_def same_ctx_def)

lemma grows_trans [trans]:
  assumes "grows U C B d d1" and "grows U C B d1 d2"
  shows "grows U C B d d2"
proof -
  from assms(1) obtain cs bs hs where 1: "same_ctx d d1"
    "p_Commands (d_plan d1) = p_Commands (d_plan d) @ cs" "\<forall>c \<in> set cs. C c"
    "p_Blocks (d_plan d1) = p_Blocks (d_plan d) @ bs" "\<forall>b \<in> set bs. B b"
    "p_History (d_plan d1) = p_History (d_plan d) @ hs"
    "p_Nonces (d_plan d1) = p_Nonces (d_plan d)"
    "\<forall>u. u \<notin> U \<longrightarrow> p_Issued (d_plan d1) u = p_Issued (d_plan d) u" "due_ok d \<longrightarrow> due_ok d1"
    by (auto simp: grows_def)
  from assms(2) obtain cs' bs' hs' where 2: "same_ctx d1 d2"
    "p_Commands (d_plan d2) = p_Commands (d_plan d1) @ cs'" "\<forall>c \<in> set cs'. C c"
    "p_Blocks (d_plan d2) = p_Blocks (d_plan d1) @ bs'" "\<forall>b \<in> set bs'. B b"
    "p_History (d_plan d2) = p_History (d_plan d1) @ hs'"
    "p_Nonces (d_plan d2) = p_Nonces (d_plan d1)"
    "\<forall>u. u \<notin> U \<longrightarrow> p_Issued (d_plan d2) u = p_Issued (d_plan d1) u" "due_ok d1 \<longrightarrow> due_ok d2"
    by (auto simp: grows_def)
  from 1 2 show ?thesis
    unfolding grows_def same_ctx_def by auto
qed

lemma grows_mono:
  "grows U C B d d' \<Longrightarrow> U \<subseteq> U' \<Longrightarrow> (\<And>c. C c \<Longrightarrow> C' c) \<Longrightarrow> (\<And>b. B b \<Longrightarrow> B' b) \<Longrightarrow> grows U' C' B' d d'"
  unfolding grows_def by (meson in_mono)

lemma grows_ctx: "grows U C B d d' \<Longrightarrow> same_ctx d d'"
  by (simp add: grows_def)

lemmas grows_ctxD = grows_ctx [THEN same_ctxD(1)] grows_ctx [THEN same_ctxD(2)]
  grows_ctx [THEN same_ctxD(3)] grows_ctx [THEN same_ctxD(4)] grows_ctx [THEN same_ctxD(5)]
  grows_ctx [THEN same_ctxD(6)]

abbreviation quiet :: "decider \<Rightarrow> decider \<Rightarrow> bool" where
  "quiet \<equiv> grows {} (\<lambda>_. False) (\<lambda>_. False)"

lemma quiet_grows: "quiet d d' \<Longrightarrow> grows U C B d d'"
  by (erule grows_mono) simp_all

lemma quiet_commands: "quiet d d' \<Longrightarrow> p_Commands (d_plan d') = p_Commands (d_plan d)"
  by (auto simp: grows_def)

lemma quiet_blocks: "quiet d d' \<Longrightarrow> p_Blocks (d_plan d') = p_Blocks (d_plan d)"
  by (auto simp: grows_def)

lemma grows_commands:
  "grows U C B d d' \<Longrightarrow> c \<in> set (p_Commands (d_plan d')) \<Longrightarrow> c \<in> set (p_Commands (d_plan d)) \<or> C c"
  by (auto simp: grows_def)

lemma grows_blocks:
  "grows U C B d d' \<Longrightarrow> b \<in> set (p_Blocks (d_plan d')) \<Longrightarrow> b \<in> set (p_Blocks (d_plan d)) \<or> B b"
  by (auto simp: grows_def)

lemma grows_history: "grows U C B d d' \<Longrightarrow> set (p_History (d_plan d)) \<subseteq> set (p_History (d_plan d'))"
  by (auto simp: grows_def)

section \<open>Primitives\<close>

lemma quiet_at [simp]: "quiet d (at d t)"
  by (auto simp: grows_def same_ctx_def at_def due_ok_def Let_def second_def)

lemma quiet_event [simp]: "quiet d (event d a b c)"
  by (simp add: grows_def same_ctx_def event_def due_ok_def)

lemma quiet_history [simp]: "quiet d (history d e a b)"
  by (simp add: grows_def same_ctx_def history_def due_ok_def)

lemma grows_set_issued: "u \<in> U \<Longrightarrow> grows U C B d (set_issued d u i)"
  by (auto simp: grows_def same_ctx_def set_issued_def due_ok_def)

lemma grows_add_command: "C c \<Longrightarrow> grows U C B d (add_command d c)"
  by (simp add: grows_def same_ctx_def add_command_def due_ok_def)

lemma grows_add_block: "B b \<Longrightarrow> grows U C B d (add_block d b)"
  by (simp add: grows_def same_ctx_def add_block_def due_ok_def)

lemma quiet_then [simp]:
  "quiet d0 d \<Longrightarrow> quiet d0 (at d t)"
  "quiet d0 d \<Longrightarrow> quiet d0 (event d a b c)"
  "quiet d0 d \<Longrightarrow> quiet d0 (history d e a b)"
  using grows_trans quiet_at quiet_event quiet_history by blast+

lemma history_in [simp]: "history_event d e a r \<in> set (p_History (d_plan (history d e a r)))"
  by (simp add: history_def)

lemma quiet_settled: "settled d e = (d', ok, t) \<Longrightarrow> quiet d d'"
  by (auto simp: settled_def Let_def split: option.splits if_splits)

lemmas primitive_ctx [ctx_simps, simp] =
  quiet_at [THEN grows_ctxD(1)] quiet_at [THEN grows_ctxD(2)] quiet_at [THEN grows_ctxD(3)]
  quiet_at [THEN grows_ctxD(4)] quiet_at [THEN grows_ctxD(5)] quiet_at [THEN grows_ctxD(6)]
  quiet_event [THEN grows_ctxD(1)] quiet_event [THEN grows_ctxD(2)] quiet_event [THEN grows_ctxD(3)]
  quiet_event [THEN grows_ctxD(4)] quiet_event [THEN grows_ctxD(5)] quiet_event [THEN grows_ctxD(6)]
  quiet_history [THEN grows_ctxD(1)] quiet_history [THEN grows_ctxD(2)] quiet_history [THEN grows_ctxD(3)]
  quiet_history [THEN grows_ctxD(4)] quiet_history [THEN grows_ctxD(5)] quiet_history [THEN grows_ctxD(6)]

lemma set_issued_ctx [ctx_simps, simp]:
  "d_h (set_issued d u i) = d_h d" "d_v (set_issued d u i) = d_v d" "d_now (set_issued d u i) = d_now d"
  "d_clients (set_issued d u i) = d_clients d" "d_unblocked (set_issued d u i) = d_unblocked d"
  "d_all (set_issued d u i) = d_all d"
  by (simp_all add: set_issued_def)

lemma add_command_ctx [ctx_simps, simp]:
  "d_h (add_command d c) = d_h d" "d_v (add_command d c) = d_v d" "d_now (add_command d c) = d_now d"
  "d_clients (add_command d c) = d_clients d" "d_unblocked (add_command d c) = d_unblocked d"
  "d_all (add_command d c) = d_all d"
  by (simp_all add: add_command_def)

lemma issued_frame [simp]:
  "p_Issued (d_plan (at d t)) = p_Issued (d_plan d)"
  "p_Issued (d_plan (event d a b c)) = p_Issued (d_plan d)"
  "p_Issued (d_plan (history d e a b)) = p_Issued (d_plan d)"
  "p_Issued (d_plan (add_command d k)) = p_Issued (d_plan d)"
  "p_Issued (d_plan (set_issued d u i)) = (p_Issued (d_plan d))(u \<mapsto> i)"
  "p_Issued (d_plan (mark_retry d)) = p_Issued (d_plan d)"
  by (simp_all add: at_def event_def history_def add_command_def set_issued_def mark_retry_def Let_def)

section \<open>The command of an entry\<close>

text \<open>
  \<open>cmd_for e c\<close>: the command tells \<open>e\<close>'s engine the state \<open>e\<close> wants of its transfer, at \<open>e\<close>'s
  dispatch seq: present while the entry is live, absent otherwise, its data removed only with an
  absent transfer whose entry asks for it.
\<close>

definition cmd_for :: "DownloadEntry \<Rightarrow> Command \<Rightarrow> bool" where
  "cmd_for e c \<longleftrightarrow>
     c_Engine c = e_Engine e \<and>
     ec_Entry (c_Cmd c) = \<lparr>er_ID = e_ID e, er_UID = e_UID e\<rparr> \<and>
     ec_Seq (c_Cmd c) = dp_Seq (e_Dispatch e) \<and>
     ec_Desired (c_Cmd c) = (if live e then DesiredPresent else DesiredAbsent) \<and>
     (ec_RemoveData (c_Cmd c) \<longleftrightarrow> \<not> live e \<and> e_RemoveDataOnDelete e)"

lemma cmd_for_commandOf: "cmd_for e (commandOf d e rec retry)"
  by (auto simp: cmd_for_def commandOf_def desired_def Let_def split: prod.splits)

lemma grows_emit: "grows {e_UID e} (cmd_for e) B d (emit d e rec retry)"
proof -
  let ?c = "commandOf d e rec retry"
  have "grows {e_UID e} (cmd_for e) B d (add_command d ?c)"
    by (rule grows_add_command) (rule cmd_for_commandOf)
  also have "grows {e_UID e} (cmd_for e) B (add_command d ?c) (set_issued (add_command d ?c) (e_UID e) i)" for i
    by (rule grows_set_issued) simp
  finally show ?thesis
    unfolding emit_def Let_def by (rule grows_trans) (rule quiet_grows [OF quiet_at])
qed

lemma stamp_frame [simp, entry_simps]:
  "e_ID (stamp d e) = e_ID e" "e_UID (stamp d e) = e_UID e" "e_Phase (stamp d e) = e_Phase e"
  "e_Engine (stamp d e) = e_Engine e" "e_Client (stamp d e) = e_Client e" "e_Block (stamp d e) = e_Block e"
  "e_FailureReason (stamp d e) = e_FailureReason e" "e_FailedAt (stamp d e) = e_FailedAt e"
  "e_Import (stamp d e) = e_Import e" "e_Set (stamp d e) = e_Set e" "e_Message (stamp d e) = e_Message e"
  "e_RemoveDataOnDelete (stamp d e) = e_RemoveDataOnDelete e" "e_Release (stamp d e) = e_Release e"
  "e_Purpose (stamp d e) = e_Purpose e" "e_OutputPath (stamp d e) = e_OutputPath e"
  "e_Episodes (stamp d e) = e_Episodes e" "e_Manual (stamp d e) = e_Manual e"
  "e_GrabbedAt (stamp d e) = e_GrabbedAt e" "e_Issues (stamp d e) = e_Issues e"
  by (simp_all add: stamp_def)

lemma live_stamp [simp]: "live (stamp d e) = live e"
  by (simp add: live_def)

lemma imported_stamp [simp]: "imported (stamp d e) = imported e"
  by (simp add: imported_def)

lemma issue_entry [simp]: "snd (issue d e) = stamp d e"
  by (simp add: issue_def Let_def)

lemma grows_issue: "grows {e_UID e} (cmd_for (stamp d e)) B d (fst (issue d e))"
  using grows_emit [of "stamp d e" B d] by (simp add: issue_def Let_def)

lemma recordOf_stamp [simp]: "recordOf d (stamp d' e) = recordOf d e"
  by (simp add: recordOf_def)

lemma issue_issued:
  "e_Engine e \<noteq> '''' \<Longrightarrow>
   \<exists>i. p_Issued (d_plan (fst (issue d e))) (e_UID e) = Some i \<and> is_Seq i = dp_Seq (e_Dispatch (stamp d e))"
  by (simp add: issue_def emit_def commandOf_def Let_def split: prod.splits)

lemma grows_mark_retry:
  assumes "grows U (cmd_for e) B d d'" and "p_Commands (d_plan d') = p_Commands (d_plan d) @ [c]"
  shows "grows U (cmd_for e) B d (mark_retry d')"
proof -
  from assms have "cmd_for e c" by (auto simp: grows_def)
  then have "cmd_for e (c\<lparr>c_Retry := True\<rparr>)" by (simp add: cmd_for_def)
  with assms show ?thesis
    by (auto simp: grows_def mark_retry_def same_ctx_def due_ok_def)
qed

lemma issue_commands:
  "e_Engine e \<noteq> '''' \<Longrightarrow>
   p_Commands (d_plan (fst (issue d e))) = p_Commands (d_plan d) @ [commandOf d (stamp d e) (recordOf d e) False]"
  by (auto simp: issue_def emit_def at_def set_issued_def add_command_def Let_def)

section \<open>What owe does\<close>

definition books :: "decider \<Rightarrow> DownloadEntry \<Rightarrow> bool" where
  "books d e \<longleftrightarrow> (\<exists>i. p_Issued (d_plan d) (e_UID e) = Some i \<and> is_Seq i = dp_Seq (e_Dispatch e))"

lemma stamp_event [simp]: "stamp (event d a b c) e = stamp d e"
  by (simp add: stamp_def recordOf_def)

lemma owe_booked_cases:
  assumes "owe_booked d e (recordOf d e) b = (d', e')"
  obtains (issue) "issue d e = (d', e')"
  | (book) "d' = set_issued d (e_UID e) b" "e' = e"
  | (wait) t where "d' = at (set_issued d (e_UID e) b) t" "e' = e"
  | (emit) "d' = emit d e (recordOf d e) False" "e' = e"
  | (retry) msg where "d' = mark_retry (fst (issue (event d ''Warning'' ''CommandRetrying'' msg) e))" "e' = stamp d e"
proof -
  from assms consider "issue d e = (d', e')" | "d' = set_issued d (e_UID e) b \<and> e' = e"
    | "d' = at (set_issued d (e_UID e) b) (is_At b + RepublishEvery) \<and> e' = e"
    | "d' = emit d e (recordOf d e) False \<and> e' = e"
    | "\<exists>msg. d' = mark_retry (fst (issue (event d ''Warning'' ''CommandRetrying'' msg) e)) \<and> e' = stamp d e"
    unfolding owe_booked_def Let_def split_beta issue_entry stamp_event
    by (metis fst_conv snd_conv)
  then show thesis
    using issue book wait emit retry by cases blast+
qed

lemma owe_cases:
  assumes "owe d e = (d', e')"
  obtains (keep) "d' = d" "e' = e" "e_Engine e \<noteq> '''' \<Longrightarrow> live e \<Longrightarrow> books d e"
  | (issue) "issue d e = (d', e')" "e_Engine e \<noteq> ''''"
  | (booked) b where "owe_booked d e (recordOf d e) b = (d', e')" "is_Seq b = dp_Seq (e_Dispatch e)"
      "e_Engine e \<noteq> ''''"
proof -
  have "(d' = d \<and> e' = e \<and> (e_Engine e \<noteq> '''' \<longrightarrow> live e \<longrightarrow> books d e)) \<or>
        (issue d e = (d', e') \<and> e_Engine e \<noteq> '''') \<or>
        (\<exists>b. owe_booked d e (recordOf d e) b = (d', e') \<and> is_Seq b = dp_Seq (e_Dispatch e) \<and> e_Engine e \<noteq> '''')"
    using assms by (auto simp: owe_def books_def Let_def split: if_splits option.splits)
  then show thesis using keep issue booked by blast
qed

end
