(* ===== verification/GrabEvolve.thy ===== *)
theory GrabEvolve
  imports GrabFrame
begin

text \<open>
  The contract of one entry's operation, \<open>evolves\<close>: the entry keeps its identity, the plan only
  grows, every command added is the command of the resulting entry and every block call added the
  block call of it, the book of issued commands changes for that entry only, and an entry that is no
  longer live never becomes live again. Every row of the state machine, and with them \<^verbatim>\<open>step\<close>, is shown
  to satisfy it.
\<close>

section \<open>The contract\<close>

definition block_for :: "View \<Rightarrow> DownloadEntry \<Rightarrow> BlockCall \<Rightarrow> bool" where
  "block_for v e c \<longleftrightarrow>
     e_Phase e = Blocklisted \<and> bc_EntryUID c = e_UID e \<and> br_Op (bc_Req c) = ''block'' \<and>
     (\<exists>b. e_Block e = Some b \<and> bl_ConfirmedAt b = None \<and> br_Seq (bc_Req c) = bl_Seq b \<and>
          br_Scope (bc_Req c) = scopeString (bl_Scope b) (v_Owner v))"

definition evolves :: "decider \<Rightarrow> DownloadEntry \<Rightarrow> decider \<Rightarrow> DownloadEntry \<Rightarrow> bool" where
  "evolves d e d' e' \<longleftrightarrow>
     grows {e_UID e} (cmd_for e') (block_for (d_v d) e') d d' \<and>
     e_UID e' = e_UID e \<and> e_ID e' = e_ID e \<and> (live e' \<longrightarrow> live e)"

lemma evolvesD:
  assumes "evolves d e d' e'"
  shows "grows {e_UID e} (cmd_for e') (block_for (d_v d) e') d d'" "e_UID e' = e_UID e" "e_ID e' = e_ID e"
    "live e' \<Longrightarrow> live e"
  using assms by (simp_all add: evolves_def)

lemma quiet_evolves:
  "quiet d d' \<Longrightarrow> e_UID e' = e_UID e \<Longrightarrow> e_ID e' = e_ID e \<Longrightarrow> (live e' \<Longrightarrow> live e) \<Longrightarrow> evolves d e d' e'"
  by (simp add: evolves_def quiet_grows)

lemma evolves_before:
  assumes "evolves d1 e1 d2 e2" and "quiet d d1"
    and "e_UID e1 = e_UID e" and "e_ID e1 = e_ID e" and "live e1 \<Longrightarrow> live e"
  shows "evolves d e d2 e2"
proof -
  have "d_v d1 = d_v d" using assms(2) by (rule grows_ctxD)
  moreover have "grows {e_UID e} (cmd_for e2) (block_for (d_v d) e2) d d1" by (rule quiet_grows [OF assms(2)])
  ultimately show ?thesis
    using assms by (auto simp: evolves_def intro: grows_trans)
qed

lemma evolves_after:
  assumes "evolves d e d1 e1" and "quiet d1 d2"
  shows "evolves d e d2 e1"
  using assms by (auto simp: evolves_def intro: grows_trans quiet_grows)

lemma evolves_entry:
  "evolves d e1 d2 e2 \<Longrightarrow> e_UID e1 = e_UID e \<Longrightarrow> e_ID e1 = e_ID e \<Longrightarrow> (live e1 \<Longrightarrow> live e) \<Longrightarrow> evolves d e d2 e2"
  by (rule evolves_before [OF _ grows_refl])

lemma evolves_refl [simp]: "evolves d e d e"
  by (rule quiet_evolves) simp_all

lemma quiet_plan_update [simp]:
  "quiet d0 d \<Longrightarrow> quiet d0 (d\<lparr>d_plan := (d_plan d)\<lparr>p_Removals := x1\<rparr>\<rparr>)"
  "quiet d0 d \<Longrightarrow> quiet d0 (d\<lparr>d_plan := (d_plan d)\<lparr>p_Imports := x2\<rparr>\<rparr>)"
  "quiet d0 d \<Longrightarrow> quiet d0 (d\<lparr>d_plan := (d_plan d)\<lparr>p_Imports := x2, p_Materialise := x3\<rparr>\<rparr>)"
  "quiet d0 d \<Longrightarrow> quiet d0 (d\<lparr>d_plan := (d_plan d)\<lparr>p_Materialise := x3\<rparr>\<rparr>)"
  "quiet d0 d \<Longrightarrow> quiet d0 (d\<lparr>d_plan := (d_plan d)\<lparr>p_Redownloads := x4\<rparr>\<rparr>)"
  "quiet d0 d \<Longrightarrow> quiet d0 (d\<lparr>d_plan := (d_plan d)\<lparr>p_DirectGrabs := x5\<rparr>\<rparr>)"
  by (auto simp: grows_def same_ctx_def due_ok_def)

section \<open>Issuing and owing\<close>

lemma issue_evolves: "issue d e = (d', e') \<Longrightarrow> evolves d e d' e'"
  using grows_issue [of e d] issue_entry [of d e] by (auto simp: evolves_def)

lemma retry_evolves:
  assumes "e_Engine e \<noteq> ''''"
  shows "evolves d e (mark_retry (fst (issue (event d a b c) e))) (stamp d e)"
proof -
  let ?d = "event d a b c"
  have g: "grows {e_UID e} (cmd_for (stamp d e)) B ?d (fst (issue ?d e))" for B
    using grows_issue [of e ?d] by simp
  have "grows {e_UID e} (cmd_for (stamp d e)) B ?d (mark_retry (fst (issue ?d e)))" for B
    by (rule grows_mark_retry [OF g issue_commands]) (rule assms)
  then have "evolves ?d e (mark_retry (fst (issue ?d e))) (stamp d e)" by (simp add: evolves_def)
  then show ?thesis by (rule evolves_before) simp_all
qed

lemma booked_evolves:
  assumes "owe_booked d e (recordOf d e) b = (d', e')" and "e_Engine e \<noteq> ''''"
  shows "evolves d e d' e'"
  using assms(1)
proof (cases rule: owe_booked_cases)
  case issue
  then show ?thesis by (rule issue_evolves)
next
  case book
  then show ?thesis by (simp add: evolves_def grows_set_issued)
next
  case (wait t)
  have "evolves d e (set_issued d (e_UID e) b) e" by (simp add: evolves_def grows_set_issued)
  from evolves_after [OF this quiet_at] wait show ?thesis by simp
next
  case emit
  then show ?thesis by (simp add: evolves_def grows_emit)
next
  case (retry msg)
  with assms(2) show ?thesis by (simp add: retry_evolves)
qed

lemma owe_evolves: "owe d e = (d', e') \<Longrightarrow> evolves d e d' e'"
  by (erule owe_cases) (auto intro: issue_evolves booked_evolves)

section \<open>Results of an operation\<close>

text \<open>The contract on the results the rows return: a decider with an entry, and with a flag. A row
  that did not end the step (\<open>ended\<close> is the flag) has not touched the commands yet.\<close>

definition ev2 :: "decider \<Rightarrow> DownloadEntry \<Rightarrow> decider \<times> DownloadEntry \<Rightarrow> bool" where
  "ev2 d e r \<longleftrightarrow> evolves d e (fst r) (snd r)"

definition ev3 :: "decider \<Rightarrow> DownloadEntry \<Rightarrow> decider \<times> DownloadEntry \<times> bool \<Rightarrow> bool" where
  "ev3 d e r \<longleftrightarrow> evolves d e (fst r) (fst (snd r))"

definition evQ :: "decider \<Rightarrow> DownloadEntry \<Rightarrow> decider \<times> DownloadEntry \<times> bool \<Rightarrow> bool" where
  "evQ d e r \<longleftrightarrow> ev3 d e r \<and> (\<not> snd (snd r) \<longrightarrow> quiet d (fst r))"

lemma ev3_case [simp]: "ev3 d e (case p of (d1, e1) \<Rightarrow> (d1, e1, k)) = ev2 d e p"
  by (cases p) (simp add: ev2_def ev3_def)

lemma evQ_case [simp]: "ev2 d e p \<Longrightarrow> evQ d e (case p of (d1, e1) \<Rightarrow> (d1, e1, True))"
  by (simp add: evQ_def split_beta ev2_def ev3_def)

lemma ev3_keep [simp]:
  "quiet d d1 \<Longrightarrow> e_UID e1 = e_UID e \<Longrightarrow> e_ID e1 = e_ID e \<Longrightarrow> (live e1 \<longrightarrow> live e) \<Longrightarrow> ev3 d e (d1, e1, k)"
  by (simp add: ev3_def quiet_evolves)

lemma evQ_keep [simp]:
  "quiet d d1 \<Longrightarrow> e_UID e1 = e_UID e \<Longrightarrow> e_ID e1 = e_ID e \<Longrightarrow> (live e1 \<longrightarrow> live e) \<Longrightarrow> evQ d e (d1, e1, k)"
  by (simp add: evQ_def)

lemma ev2_issue [simp]:
  "quiet d d1 \<Longrightarrow> e_UID e1 = e_UID e \<Longrightarrow> e_ID e1 = e_ID e \<Longrightarrow> (live e1 \<longrightarrow> live e) \<Longrightarrow> ev2 d e (issue d1 e1)"
  unfolding ev2_def by (rule evolves_before [OF issue_evolves [OF surjective_pairing]]) auto

lemma ev2_history [simp]: "ev2 d e p \<Longrightarrow> ev2 d e (case p of (d1, e1) \<Rightarrow> (history d1 e1 a r, e1))"
  by (auto simp: ev2_def split_beta intro: evolves_after)

lemma ev3_owe_keep [simp]:
  assumes "evQ d e r"
  shows "ev3 d e (owe_keep r)"
proof (cases r)
  case (fields d1 e1 ended)
  show ?thesis
  proof (cases ended)
    case True
    with fields assms show ?thesis by (simp add: owe_keep_def evQ_def)
  next
    case False
    have "evolves d1 e1 (fst (owe d1 e1)) (snd (owe d1 e1))" by (rule owe_evolves) simp
    from evolves_before [OF this] False fields assms have "ev2 d e (owe d1 e1)"
      by (auto simp: evQ_def ev3_def ev2_def dest: evolvesD)
    with False fields show ?thesis by (simp add: owe_keep_def)
  qed
qed

section \<open>Transitions\<close>

lemma failedNow_frame [simp, entry_simps]:
  "e_ID (failedNow d e) = e_ID e" "e_UID (failedNow d e) = e_UID e" "e_Phase (failedNow d e) = e_Phase e"
  "e_Engine (failedNow d e) = e_Engine e" "e_FailureReason (failedNow d e) = e_FailureReason e"
  "e_Message (failedNow d e) = e_Message e" "e_Import (failedNow d e) = e_Import e"
  "e_Block (failedNow d e) = e_Block e" "e_FailedAt (failedNow d e) \<noteq> None"
  by (simp_all add: failedNow_def)

lemma live_failedNow [simp]: "live (failedNow d e) = live e"
  by (simp add: live_def)

lemma mark_imported_frame [simp, entry_simps]:
  "e_ID (mark_imported d e) = e_ID e" "e_UID (mark_imported d e) = e_UID e" "live (mark_imported d e)"
  "e_Engine (mark_imported d e) = e_Engine e"
  by (simp_all add: mark_imported_def Let_def live_def afterImport_def)

lemma live_update [simp]:
  "live (e\<lparr>e_Message := m\<rparr>) = live e" "live (e\<lparr>e_Import := i\<rparr>) = live e"
  "live (e\<lparr>e_CompletedAt := c\<rparr>) = live e" "live (e\<lparr>e_Block := b\<rparr>) = live e"
  "live (e\<lparr>e_Dispatch := p\<rparr>) = live e" "live (e\<lparr>e_Client := cl\<rparr>) = live e" "live (e\<lparr>e_Engine := en\<rparr>) = live e"
  "live (e\<lparr>e_RemoveDataOnDelete := r\<rparr>) = live e" "live (e\<lparr>e_FailureReason := f\<rparr>) = live e"
  "live (e\<lparr>e_GrabbedAt := g\<rparr>) = live e"
  "live (e\<lparr>e_Phase := ph\<rparr>) \<longleftrightarrow> ph \<notin> {Removing, Failed, Blocklisted}"
  by (simp_all add: live_def)

lemma ev2_toRemoving [simp]:
  "quiet d d1 \<Longrightarrow> e_UID e1 = e_UID e \<Longrightarrow> e_ID e1 = e_ID e \<Longrightarrow> ev2 d e (toRemoving d1 e1 why)"
  using quiet_evolves [of d d1 e1 e] by (cases "e_Phase e1 = Removing") (simp_all add: toRemoving_def ev2_def [of _ _ "(_, _)"] live_def [of e1])

lemma ev2_toFailed [simp]:
  "quiet d d1 \<Longrightarrow> e_UID e1 = e_UID e \<Longrightarrow> e_ID e1 = e_ID e \<Longrightarrow> ev2 d e (toFailed d1 e1 r m)"
  by (simp add: toFailed_def)

lemma ev2_toBlocklisted [simp]:
  "quiet d d1 \<Longrightarrow> e_UID e1 = e_UID e \<Longrightarrow> e_ID e1 = e_ID e \<Longrightarrow> ev2 d e (toBlocklisted d1 e1 r m)"
  using ev2_issue [of d d1 "(failedNow d1 (e1\<lparr>e_Phase := Blocklisted, e_FailureReason := r,
      e_Message := clampString m MaxEntryMessage\<rparr>))\<lparr>e_Block := Some (blockOf d1 e1 r)\<rparr>" e]
  by (auto simp: toBlocklisted_def Let_def ev2_def split_beta intro: evolves_after)

lemma ev2_toImported [simp]:
  "quiet d d1 \<Longrightarrow> e_UID e1 = e_UID e \<Longrightarrow> e_ID e1 = e_ID e \<Longrightarrow> live e \<Longrightarrow> ev2 d e (toImported d1 e1)"
  by (simp add: toImported_def)

section \<open>Importing and pending\<close>

lemma importStep_ev [simp]:
  "quiet d d1 \<Longrightarrow> e_UID e1 = e_UID e \<Longrightarrow> e_ID e1 = e_ID e \<Longrightarrow> live e \<Longrightarrow> evQ d e (importStep d1 e1)"
  unfolding importStep_def Let_def
  by (auto split: option.split ImportVerdict.split)

lemma follow_summary_frame [simp, entry_simps]:
  "e_ID (follow_summary d e) = e_ID e" "e_UID (follow_summary d e) = e_UID e" "e_Phase (follow_summary d e) = e_Phase e"
  by (simp_all add: follow_summary_def Let_def split: option.splits)

lemma setImport_ev [simp]:
  "quiet d d1 \<Longrightarrow> e_UID e1 = e_UID e \<Longrightarrow> e_ID e1 = e_ID e \<Longrightarrow> live e \<Longrightarrow> evQ d e (setImport d1 i e1)"
  by (simp add: setImport_def Let_def split: prod.split)

lemma assign_ev [simp]:
  "quiet d d1 \<Longrightarrow> e_UID e1 = e_UID e \<Longrightarrow> e_ID e1 = e_ID e \<Longrightarrow> live e \<Longrightarrow> ev2 d e (assign d1 e1 c k)"
  using ev2_issue [of d d1 "e1\<lparr>e_Client := cl_Name c, e_Engine := EngineName (cl_Name c) k, e_Phase := Assigned,
                 e_Message := '''', e_GrabbedAt := (if is_zero (e_GrabbedAt e1) then d_now d1 else e_GrabbedAt e1)\<rparr>" e]
  by (auto simp: assign_def Let_def ev2_def split_beta intro: evolves_after)

lemma waiting_frame [simp, entry_simps]:
  "e_ID (waiting e r m) = e_ID e" "e_UID (waiting e r m) = e_UID e" "e_Phase (waiting e r m) = e_Phase e"
  by (simp_all add: waiting_def)

lemma pendingStep_ev [simp]:
  "quiet d d1 \<Longrightarrow> e_UID e1 = e_UID e \<Longrightarrow> e_ID e1 = e_ID e \<Longrightarrow> live e \<Longrightarrow> ev3 d e (pendingStep d1 i e1)"
  by (simp add: pendingStep_def Let_def split: option.split)

section \<open>A live transfer\<close>

lemma failedStep_ev [simp]:
  "quiet d d1 \<Longrightarrow> e_UID e1 = e_UID e \<Longrightarrow> e_ID e1 = e_ID e \<Longrightarrow> live e \<Longrightarrow> ev3 d e (failedStep d1 e1 r)"
  unfolding failedStep_def Let_def by simp

lemma timeoutStep_ev [simp]:
  "quiet d d1 \<Longrightarrow> e_UID e1 = e_UID e \<Longrightarrow> e_ID e1 = e_ID e \<Longrightarrow> live e \<Longrightarrow> evQ d e (timeoutStep d1 e1 r c)"
  by (simp add: timeoutStep_def Let_def split: option.split)

lemma stalledStep_ev [simp]:
  "quiet d d1 \<Longrightarrow> e_UID e1 = e_UID e \<Longrightarrow> e_ID e1 = e_ID e \<Longrightarrow> live e \<Longrightarrow> evQ d e (stalledStep d1 e1 r c)"
  by (simp add: stalledStep_def Let_def)

lemma completedStep_ev [simp]:
  "quiet d d1 \<Longrightarrow> e_UID e1 = e_UID e \<Longrightarrow> e_ID e1 = e_ID e \<Longrightarrow> live e \<Longrightarrow> evQ d e (completedStep d1 i e1)"
  by (simp add: completedStep_def Let_def)

lemma seedingStep_ev [simp]:
  "quiet d d1 \<Longrightarrow> e_UID e1 = e_UID e \<Longrightarrow> e_ID e1 = e_ID e \<Longrightarrow> live e \<Longrightarrow> evQ d e (seedingStep d1 e1 r c)"
  by (simp add: seedingStep_def Let_def)

lemma livePhase_frame [simp, entry_simps]:
  "e_ID (livePhase d e r) = e_ID e" "e_UID (livePhase d e r) = e_UID e" "e_Engine (livePhase d e r) = e_Engine e"
  by (simp_all add: livePhase_def Let_def)

lemma heldStep_ev [simp]:
  "quiet d d1 \<Longrightarrow> e_UID e1 = e_UID e \<Longrightarrow> e_ID e1 = e_ID e \<Longrightarrow> live e \<Longrightarrow> ev3 d e (heldStep d1 i e1 r c)"
  unfolding heldStep_def Let_def by simp

lemma liveStep_ev [simp]:
  assumes [simp]: "quiet d d1" "e_UID e1 = e_UID e" "e_ID e1 = e_ID e" "live e"
  shows "ev3 d e (liveStep d1 i e1 rec)"
proof -
  obtain d2 ok t where st: "settled d1 e1 = (d2, ok, t)" by (cases "settled d1 e1")
  have [simp]: "quiet d d2" using grows_trans [OF _ quiet_settled [OF st]] by simp
  show ?thesis
    unfolding liveStep_def Let_def st by (auto split: option.split)
qed

section \<open>Removal and terminal entries\<close>

lemma transferGone_quiet [simp]: "quiet d d1 \<Longrightarrow> quiet d (fst (transferGone d1 e rec))"
proof -
  assume [simp]: "quiet d d1"
  obtain d2 ok t where st: "settled d1 e = (d2, ok, t)" by (cases "settled d1 e")
  have [simp]: "quiet d d2" using grows_trans [OF _ quiet_settled [OF st]] by simp
  show ?thesis
    unfolding transferGone_def Let_def st by (auto split: option.split)
qed

lemma finishRemoval_ev [simp]:
  "quiet d d1 \<Longrightarrow> e_UID e1 = e_UID e \<Longrightarrow> e_ID e1 = e_ID e \<Longrightarrow> (live e1 \<longrightarrow> live e) \<Longrightarrow> ev3 d e (finishRemoval d1 e1)"
  by (simp add: finishRemoval_def)

lemma removingStep_ev [simp]:
  "quiet d d1 \<Longrightarrow> e_UID e1 = e_UID e \<Longrightarrow> e_ID e1 = e_ID e \<Longrightarrow> (live e1 \<longrightarrow> live e) \<Longrightarrow> ev3 d e (removingStep d1 e1 rec)"
  by (simp add: removingStep_def split_beta)

lemma redownload_quiet [simp]: "quiet d d1 \<Longrightarrow> quiet d (fst (redownload d1 e))"
  by (simp add: redownload_def Let_def)

text \<open>A terminal entry without an unconfirmed block adds no block call; one with it adds its own.\<close>

definition evB :: "decider \<Rightarrow> DownloadEntry \<Rightarrow> decider \<Rightarrow> DownloadEntry \<Rightarrow> bool" where
  "evB d e d1 e1 \<longleftrightarrow> e_UID e1 = e_UID e \<and> e_ID e1 = e_ID e \<and> (live e1 \<longrightarrow> live e) \<and>
     grows {} (\<lambda>_. False) (block_for (d_v d) e1) d d1"

lemma evB_quiet: "evB d e d1 e1 \<Longrightarrow> quiet d1 d2 \<Longrightarrow> evB d e d2 e1"
  by (auto simp: evB_def intro: grows_trans quiet_grows)

lemma block_for_stamp [simp]: "block_for v (stamp d e) c = block_for v e c"
  by (simp add: block_for_def)

lemma evB_evolves: "evB d e d1 e1 \<Longrightarrow> evolves d e d1 e1"
  by (auto simp: evB_def evolves_def elim: grows_mono)

lemma owe_entry: "owe d e = (d', e') \<Longrightarrow> e' = e \<or> e' = stamp d e"
  by (erule owe_cases; (erule owe_booked_cases)?) (auto simp: issue_def Let_def split: if_splits)

lemma evB_owe:
  assumes "evB d e d1 e1"
  shows "ev3 d e (owe_keep (d1, e1, False))"
proof -
  obtain d2 e2 where o: "owe d1 e1 = (d2, e2)" by fastforce
  from owe_entry [OF o] have same: "block_for (d_v d) e2 = block_for (d_v d) e1" by auto
  from assms have v: "d_v d1 = d_v d" and b: "grows {} (\<lambda>_. False) (block_for (d_v d) e1) d d1"
    by (auto simp: evB_def dest: grows_ctxD)
  have "grows {e_UID e} (cmd_for e2) (block_for (d_v d) e2) d d1"
    using b by (rule grows_mono) (simp_all add: same)
  moreover have "evolves d1 e1 d2 e2" by (rule owe_evolves [OF o])
  ultimately have "evolves d e d2 e2"
    using assms by (auto simp: evolves_def evB_def v intro: grows_trans)
  with o show ?thesis by (simp add: owe_keep_def ev3_def)
qed

lemma quiet_evB:
  "quiet d d1 \<Longrightarrow> e_UID e1 = e_UID e \<Longrightarrow> e_ID e1 = e_ID e \<Longrightarrow> (live e1 \<longrightarrow> live e) \<Longrightarrow> evB d e d1 e1"
  by (simp add: evB_def quiet_grows)

lemma blockCall_for:
  "e_Phase e = Blocklisted \<Longrightarrow> e_Block e = Some b \<Longrightarrow> bl_ConfirmedAt b = None \<Longrightarrow> block_for (d_v d) e (blockCall d e b)"
  by (simp add: block_for_def blockCall_def Let_def)

lemma confirmBlock_evB:
  assumes "confirmBlock d1 e1 b = (d2, e2, ok)" and "e_Phase e1 = Blocklisted" and "e_Block e1 = Some b"
    and "quiet d d1" and "e_UID e1 = e_UID e" and "e_ID e1 = e_ID e"
  shows "evB d e d2 e2"
proof (cases "bl_ConfirmedAt b = None \<and> block_answer d1 e1 b = None")
  case True
  let ?c = "blockCall d1 e1 b"
  have v: "d_v d1 = d_v d" using assms(4) by (rule grows_ctxD)
  have "block_for (d_v d) e1 ?c" using blockCall_for [of e1 b d1] True assms(2,3) v by simp
  then have "grows {} (\<lambda>_. False) (block_for (d_v d) e1) d1 (add_block d1 ?c)" by (rule grows_add_block)
  with assms(2,4,5,6) have "evB d e (add_block d1 ?c) e1"
    by (auto simp: evB_def live_def intro: grows_trans quiet_grows)
  from evB_quiet [OF this quiet_at] True assms(1) show ?thesis by (auto simp: confirmBlock_def)
next
  case False
  with assms show ?thesis
    by (auto simp: confirmBlock_def live_def split: option.splits if_splits intro!: quiet_evB)
qed

lemma terminalStep_ev:
  assumes [simp]: "quiet d d1" "e_UID e1 = e_UID e" "e_ID e1 = e_ID e" and "\<not> live e1"
  shows "ev3 d e (terminalStep d1 e1 rec)"
proof (cases "case d_unblocked d1 of None \<Rightarrow> False | Some p \<Rightarrow> p e1")
  case True
  with assms(4) show ?thesis by (simp add: terminalStep_def Let_def split_beta)
next
  case False
  obtain d2 e2 ok where c: "(case (e_Phase e1, e_Block e1) of
      (Blocklisted, Some b) \<Rightarrow> confirmBlock d1 e1 b | _ \<Rightarrow> (d1, e1, True)) = (d2, e2, ok)"
    by (metis prod_cases3)
  moreover have "evB d e d1 e1" by (rule quiet_evB) (simp_all add: assms(4))
  ultimately have "evB d e d2 e2"
    using confirmBlock_evB [OF _ _ _ assms(1-3)] by (auto split: DownloadPhase.splits option.splits)
  then have b: "evB d e (fst (transferGone (fst (redownload d2 e2)) e2 rec)) e2"
    by (rule evB_quiet) simp
  then have keep: "ev3 d e (fst (transferGone (fst (redownload d2 e2)) e2 rec), e2, k)" for k
    by (simp add: ev3_def evB_evolves)
  have at: "ev3 d e (at (fst (transferGone (fst (redownload d2 e2)) e2 rec)) t, e2, k)" for t k
    using evB_evolves [OF evB_quiet [OF b quiet_at]] by (simp add: ev3_def)
  have fin: "ev3 d e (finishRemoval (fst (transferGone (fst (redownload d2 e2)) e2 rec)) e2)"
    using evB_evolves [OF evB_quiet [OF b]] by (simp add: finishRemoval_def ev3_def)
  show ?thesis
    unfolding terminalStep_def c Let_def
    using False evB_owe [OF b] keep at fin by (simp add: split_beta split: option.split)
qed

section \<open>One step\<close>

lemma observe_fields_frame [simp, entry_simps]:
  "e_ID (observe_fields r e) = e_ID e" "e_UID (observe_fields r e) = e_UID e" "e_Phase (observe_fields r e) = e_Phase e"
  "e_Engine (observe_fields r e) = e_Engine e" "e_Import (observe_fields r e) = e_Import e"
  "e_Block (observe_fields r e) = e_Block e" "e_Set (observe_fields r e) = e_Set e"
  "e_FailureReason (observe_fields r e) = e_FailureReason e" "e_Client (observe_fields r e) = e_Client e"
  "e_RemoveDataOnDelete (observe_fields r e) = e_RemoveDataOnDelete e" "e_Release (observe_fields r e) = e_Release e"
  by (simp_all add: observe_fields_def)

lemma observe_frame:
  assumes "observe d e rec = (d', e')"
  shows "quiet d d'" "e_ID e' = e_ID e" "e_UID e' = e_UID e" "e_Phase e' = e_Phase e" "e_Engine e' = e_Engine e"
    "e_Import e' = e_Import e" "e_Block e' = e_Block e" "e_Set e' = e_Set e" "e_FailureReason e' = e_FailureReason e"
    "e_Client e' = e_Client e" "e_RemoveDataOnDelete e' = e_RemoveDataOnDelete e" "e_Release e' = e_Release e"
  using assms
  by (auto simp: observe_def observe_seed_goal_def observe_message_def Let_def split: option.splits if_splits)

lemma step_ev: "ev3 d e (step d i e)"
proof -
  obtain d1 e1 where o: "observe d e (recordOf d e) = (d1, e1)" by fastforce
  note f [simp] = observe_frame [OF o]
  have l: "live e1 = live e" by (simp add: live_def)
  show ?thesis
    by (cases "e_Phase e") (use l in \<open>auto simp: step_def Let_def o live_def intro!: terminalStep_ev liveStep_ev pendingStep_ev\<close>)
qed

lemma step_evolves: "step d i e = (d', e', k) \<Longrightarrow> evolves d e d' e'"
  using step_ev [of d e i] by (simp add: ev3_def)

end
