(* ===== verification/GrabStepFacts.thy ===== *)
theory GrabStepFacts
  imports GrabEvolve
begin

text \<open>
  Two facts every row of the state machine gives its result, beside the contract: an entry that does
  not stay leaves a \<^verbatim>\<open>removed\<close> event in the history, and a live entry that stays with an engine has its
  current command in the plan's book of issued commands.
\<close>

section \<open>Dropping an entry is recorded\<close>

definition removed_in :: "decider \<Rightarrow> string \<Rightarrow> bool" where
  "removed_in d u \<longleftrightarrow> (\<exists>h \<in> set (p_History (d_plan d)). de_Action h = ''removed'' \<and> ref_UID (de_DownloadRef h) = u)"

definition dropR :: "string \<Rightarrow> decider \<times> DownloadEntry \<times> bool \<Rightarrow> bool" where
  "dropR u r \<longleftrightarrow> (\<not> snd (snd r) \<longrightarrow> removed_in (fst r) u)"

lemma dropR_simps [simp]:
  "dropR u (d, e, True)"
  "dropR u (case p of (d1, e1) \<Rightarrow> (d1, e1, True))"
  "dropR u (owe_keep r)"
  by (auto simp: dropR_def owe_keep_def split: prod.splits)

lemma dropR_history [simp]: "e_UID e = u \<Longrightarrow> dropR u (history d e ''removed'' why, e1, k)"
  by (auto simp: dropR_def removed_in_def history_def history_event_def)

lemma dropR_finishRemoval [simp]: "e_UID e = u \<Longrightarrow> dropR u (finishRemoval d e)"
  by (simp add: finishRemoval_def)

lemma dropR_failedStep [simp]: "e_UID e = u \<Longrightarrow> dropR u (failedStep d e r)"
  unfolding failedStep_def Let_def by simp

lemma dropR_pendingStep [simp]: "dropR u (pendingStep d i e)"
  by (simp add: pendingStep_def Let_def split: option.split)

lemma dropR_heldStep [simp]: "dropR u (heldStep d i e r c)"
  by (simp add: heldStep_def Let_def)

lemma dropR_liveStep [simp]: "e_UID e = u \<Longrightarrow> dropR u (liveStep d i e rec)"
  unfolding liveStep_def Let_def by (simp add: split_beta split: option.split)

lemma dropR_removingStep [simp]: "e_UID e = u \<Longrightarrow> dropR u (removingStep d e rec)"
  by (simp add: removingStep_def split_beta)

lemma confirmBlock_uid: "e_UID (fst (snd (confirmBlock d e b))) = e_UID e"
  by (simp add: confirmBlock_def split: option.split)

lemma dropR_terminalStep [simp]: "e_UID e = u \<Longrightarrow> dropR u (terminalStep d e rec)"
  by (simp add: terminalStep_def Let_def split_beta confirmBlock_uid split: option.split DownloadPhase.split)

lemma step_drops:
  assumes "step d i e = (d', e', False)"
  shows "removed_in d' (e_UID e)"
proof -
  obtain d1 e1 where o: "observe d e (recordOf d e) = (d1, e1)" by fastforce
  have "dropR (e_UID e) (step d i e)"
    using observe_frame(3) [OF o] by (simp add: step_def o Let_def split: DownloadPhase.split)
  with assms show ?thesis by (simp add: dropR_def)
qed

lemma removed_in_mono:
  "removed_in d u \<Longrightarrow> set (p_History (d_plan d)) \<subseteq> set (p_History (d_plan d')) \<Longrightarrow> removed_in d' u"
  by (auto simp: removed_in_def)

section \<open>A live entry's command is in the book\<close>

definition booked :: "decider \<Rightarrow> DownloadEntry \<Rightarrow> bool" where
  "booked d e \<longleftrightarrow> (live e \<and> e_Engine e \<noteq> '''' \<and> e_Phase e \<noteq> Pending \<longrightarrow> books d e)"

definition bookR :: "decider \<times> DownloadEntry \<times> bool \<Rightarrow> bool" where
  "bookR r \<longleftrightarrow> (snd (snd r) \<longrightarrow> booked (fst r) (fst (snd r)))"

lemma books_quiet: "books d e \<Longrightarrow> quiet d d' \<Longrightarrow> books d' e"
  by (simp add: books_def grows_def)

lemma booked_quiet: "booked d e \<Longrightarrow> quiet d d' \<Longrightarrow> booked d' e"
  by (auto simp: booked_def intro: books_quiet)

lemma issue_books: "e_Engine e \<noteq> '''' \<Longrightarrow> books (fst (issue d e)) (stamp d e)"
  using issue_issued [of e d] by (simp add: books_def)

lemma books_at [simp]: "books (at d t) e = books d e"
  by (simp add: books_def)

lemma owe_booked_books:
  assumes "owe_booked d e (recordOf d e) b = (d', e')" and "is_Seq b = dp_Seq (e_Dispatch e)" and "e_Engine e \<noteq> ''''"
  shows "books d' e'"
  using assms(1)
proof (cases rule: owe_booked_cases)
  case issue
  with issue_books [OF assms(3)] issue_entry [of d e] show ?thesis by (metis fst_conv snd_conv)
next
  case emit
  then show ?thesis by (simp add: books_def emit_def commandOf_def Let_def split_beta)
next
  case (retry msg)
  then show ?thesis
    using issue_books [OF assms(3), of "event d ''Warning'' ''CommandRetrying'' msg"] by (simp add: books_def)
qed (use assms(2) in \<open>auto simp: books_def\<close>)

lemma owe_books:
  assumes "owe d e = (d', e')" and "live e" and "e_Engine e \<noteq> ''''"
  shows "books d' e'"
  using assms(1)
proof (cases rule: owe_cases)
  case issue
  with issue_books [OF assms(3)] issue_entry [of d e] show ?thesis by (metis fst_conv snd_conv)
qed (use assms in \<open>auto intro: owe_booked_books\<close>)

lemma bookR_simps [simp]:
  "bookR (d, e, False)"
  "\<not> live e \<Longrightarrow> bookR (d, e, k)"
  "e_Phase e = Pending \<Longrightarrow> bookR (d, e, k)"
  by (simp_all add: bookR_def booked_def)

lemma bookR_case [simp]: "bookR (case p of (d1, e1) \<Rightarrow> (d1, e1, k)) \<longleftrightarrow> (k \<longrightarrow> booked (fst p) (snd p))"
  by (simp add: bookR_def split_beta)

lemma booked_issue [simp]: "booked (fst (issue d e)) (stamp d e)"
  by (cases "e_Engine e = ''''") (simp_all add: booked_def issue_books)

lemma bookR_owe_keep [simp]:
  assumes "bookR r"
  shows "bookR (owe_keep r)"
proof (cases r)
  case (fields d1 e1 ended)
  obtain d2 e2 where o: "owe d1 e1 = (d2, e2)" by fastforce
  have "live e2 \<Longrightarrow> live e1" and "e_Engine e2 = e_Engine e1"
    using owe_entry [OF o] by auto
  then have "booked d2 e2" using owe_books [OF o] by (simp add: booked_def)
  with fields o assms show ?thesis by (simp add: owe_keep_def bookR_def)
qed

lemma booked_toRemoving [simp]: "booked (fst (toRemoving d e why)) (snd (toRemoving d e why))"
  by (simp add: toRemoving_def) (simp add: booked_def live_def)

lemma booked_toFailed [simp]: "booked (fst (toFailed d e r m)) (snd (toFailed d e r m))"
  by (simp add: toFailed_def split_beta booked_def)

lemma booked_toBlocklisted [simp]: "booked (fst (toBlocklisted d e r m)) (snd (toBlocklisted d e r m))"
  by (simp add: toBlocklisted_def split_beta booked_def Let_def)

lemma booked_history: "booked d e \<Longrightarrow> booked (history d x a b) e"
  by (erule booked_quiet) simp

lemma booked_toImported [simp]: "booked (fst (toImported d e)) (snd (toImported d e))"
  unfolding toImported_def Let_def split_beta fst_conv snd_conv issue_entry by (rule booked_history) (rule booked_issue)

lemma booked_assign [simp]: "booked (fst (assign d e c k)) (snd (assign d e c k))"
  unfolding assign_def Let_def split_beta fst_conv snd_conv issue_entry
  by (rule booked_quiet [OF booked_issue]) simp

lemma bookR_rows [simp]:
  "bookR (importStep d e)"
  "bookR (timeoutStep d e r c)"
  "bookR (seedingStep d e r c)"
  unfolding importStep_def timeoutStep_def seedingStep_def Let_def
  by (simp_all split: option.split ImportVerdict.split)

lemma bookR_setImport [simp]: "bookR (setImport d i e)"
  by (simp add: setImport_def Let_def split: prod.split)

lemma bookR_stalledStep [simp]: "bookR (stalledStep d e r c)"
  by (simp add: stalledStep_def Let_def)

lemma bookR_completedStep [simp]: "bookR (completedStep d i e)"
  by (simp add: completedStep_def Let_def)

lemma bookR_heldStep [simp]: "bookR (heldStep d i e r c)"
  by (simp add: heldStep_def Let_def)

lemma bookR_failedStep [simp]: "bookR (failedStep d e r)"
  unfolding failedStep_def Let_def by simp

lemma bookR_pendingStep [simp]: "bookR (pendingStep d i e)"
  by (simp add: pendingStep_def Let_def split: option.split)

lemma bookR_liveStep [simp]: "bookR (liveStep d i e rec)"
proof -
  obtain d2 ok t where st: "settled d e = (d2, ok, t)" by (cases "settled d e")
  show ?thesis
    unfolding liveStep_def Let_def st by (simp split: option.split)
qed

lemma ev3_not_live: "ev3 d e r \<Longrightarrow> \<not> live e \<Longrightarrow> bookR r"
  by (auto simp: ev3_def bookR_def booked_def evolves_def)

lemma step_books:
  assumes "step d i e = (d', e', True)"
  shows "booked d' e'"
proof -
  obtain d1 e1 where o: "observe d e (recordOf d e) = (d1, e1)" by fastforce
  have "bookR (step d i e)"
  proof (cases "live e")
    case True
    with observe_frame(4) [OF o] show ?thesis
      by (simp add: step_def o Let_def live_def split: DownloadPhase.split)
  next
    case False
    with step_ev show ?thesis by (rule ev3_not_live)
  qed
  with assms show ?thesis by (simp add: bookR_def)
qed

lemma booked_grows:
  assumes "booked d e" and "grows U C B d d'" and "e_UID e \<notin> U"
  shows "booked d' e"
  using assms by (simp add: booked_def books_def grows_def)

end
