(* ===== verification/GrabPass.thy ===== *)
theory GrabPass
  imports GrabStepFacts "HOL-Library.Sublist"
begin

text \<open>
  The pass over one owner, from the contract of one entry's operation. \<open>safe\<close> is the invariant of the
  pass: the entries' uids stay distinct, no command of the plan asks for a live entry's transfer to
  be absent, no block call blocks a live entry's release, and the plan is never due in the past. The
  locale \<open>entry_op\<close> is the interface the pass needs of an operation on one entry; it is interpreted
  on every operation the pass applies.
\<close>

section \<open>Folding over a list\<close>

lemma foldl_invariant:
  assumes "P acc" and "\<And>acc x. x \<in> set xs \<Longrightarrow> P acc \<Longrightarrow> P (f acc x)"
  shows "P (foldl f acc xs)"
  using assms by (induction xs arbitrary: acc) auto

lemma foldl_upt_invariant:
  assumes "P 0 acc" and "\<And>i acc. i < n \<Longrightarrow> P i acc \<Longrightarrow> P (Suc i) (f acc i)"
  shows "P n (foldl f acc [0..<n])"
  using assms by (induction n) auto

section \<open>The invariant of the pass\<close>

definition cmd_uid :: "Command \<Rightarrow> string" where
  "cmd_uid c = er_UID (ec_Entry (c_Cmd c))"

definition safe :: "View \<Rightarrow> string set \<Rightarrow> decider \<Rightarrow> DownloadEntry list \<Rightarrow> bool" where
  "safe v K d es \<longleftrightarrow>
     d_v d = v \<and> d_now d = v_Now v \<and> due_ok d \<and> distinct (map e_UID es) \<and> e_UID ` set es \<subseteq> K \<and>
     (\<forall>c \<in> set (p_Commands (d_plan d)). cmd_uid c \<in> K \<and>
        (\<forall>e \<in> set es. cmd_uid c = e_UID e \<longrightarrow> live e \<longrightarrow> ec_Desired (c_Cmd c) = DesiredPresent)) \<and>
     (\<forall>b \<in> set (p_Blocks (d_plan d)). br_Op (bc_Req b) = ''block'' \<longrightarrow> bc_EntryUID b \<in> K \<and>
        (\<forall>e \<in> set es. bc_EntryUID b = e_UID e \<longrightarrow> \<not> live e))"

lemma safeD:
  assumes "safe v K d es"
  shows "d_v d = v" "due_ok d" "distinct (map e_UID es)" "e_UID ` set es \<subseteq> K"
    "\<And>c. c \<in> set (p_Commands (d_plan d)) \<Longrightarrow> cmd_uid c \<in> K"
    "\<And>c e. c \<in> set (p_Commands (d_plan d)) \<Longrightarrow> e \<in> set es \<Longrightarrow> cmd_uid c = e_UID e \<Longrightarrow> live e \<Longrightarrow>
       ec_Desired (c_Cmd c) = DesiredPresent"
    "\<And>b e. b \<in> set (p_Blocks (d_plan d)) \<Longrightarrow> br_Op (bc_Req b) = ''block'' \<Longrightarrow> e \<in> set es \<Longrightarrow>
       bc_EntryUID b = e_UID e \<Longrightarrow> \<not> live e"
    "\<And>b. b \<in> set (p_Blocks (d_plan d)) \<Longrightarrow> br_Op (bc_Req b) = ''block'' \<Longrightarrow> bc_EntryUID b \<in> K"
    "d_now d = v_Now v"
  using assms by (auto simp: safe_def)

lemma safe_cong:
  assumes "d_v d' = d_v d" "d_now d' = d_now d" "p_Due (d_plan d') = p_Due (d_plan d)"
    "p_Commands (d_plan d') = p_Commands (d_plan d)" "p_Blocks (d_plan d') = p_Blocks (d_plan d)"
  shows "safe v K d' es = safe v K d es"
  using assms by (simp add: safe_def due_ok_def)

lemma grows_due: "grows U C B d d' \<Longrightarrow> due_ok d \<Longrightarrow> due_ok d'"
  by (simp add: grows_def)

lemma safe_quiet:
  assumes s: "safe v K d es" and q: "quiet d d'"
  shows "safe v K d' es"
  using s quiet_commands [OF q] quiet_blocks [OF q] grows_ctxD(2,3) [OF q] grows_due [OF q]
  unfolding safe_def by metis

lemma safe_subset:
  assumes "safe v K d es" and "set xs \<subseteq> set es" and "distinct (map e_UID xs)"
  shows "safe v K d xs"
  using assms by (auto simp: safe_def)

lemma safe_evolves:
  assumes s: "safe v K d es" and i: "i < length es" and ev: "evolves d (es ! i) d' e'"
  shows "safe v K d' (es[i := e'])"
proof -
  let ?e = "es ! i"
  have g: "grows {e_UID ?e} (cmd_for e') (block_for v e') d d'" and u: "e_UID e' = e_UID ?e"
    and l: "live e' \<Longrightarrow> live ?e"
    using evolvesD [OF ev] safeD(1) [OF s] by auto
  have mem: "?e \<in> set es" using i by simp
  have uids: "map e_UID (es[i := e']) = map e_UID es" by (simp add: map_update u list_update_same_conv i)
  have entry: "\<exists>e0 \<in> set es. e_UID e0 = e_UID e \<and> (live e \<longrightarrow> live e0)" if "e \<in> set (es[i := e'])" for e
    using that set_update_subset_insert [of es i e'] mem u l by (metis insertE subsetD)
  have kind: "e = e' \<or> (e \<in> set es \<and> e_UID e \<noteq> e_UID ?e)" if "e \<in> set (es[i := e'])" for e
  proof -
    from that obtain j where j: "j < length es" "e = es[i := e'] ! j" by (auto simp: in_set_conv_nth)
    show ?thesis
    proof (cases "j = i")
      case False
      with j i safeD(3) [OF s] show ?thesis by (auto simp: distinct_conv_nth)
    qed (use j i in simp)
  qed
  have "cmd_uid c \<in> K \<and> (\<forall>e \<in> set (es[i := e']). cmd_uid c = e_UID e \<longrightarrow> live e \<longrightarrow> ec_Desired (c_Cmd c) = DesiredPresent)"
    if c: "c \<in> set (p_Commands (d_plan d'))" for c
  proof (cases "c \<in> set (p_Commands (d_plan d))")
    case True
    have "ec_Desired (c_Cmd c) = DesiredPresent"
      if "e \<in> set (es[i := e'])" "cmd_uid c = e_UID e" "live e" for e
      using entry [OF that(1)] that(2,3) safeD(6) [OF s True] by auto
    with True safeD(5) [OF s] show ?thesis by blast
  next
    case False
    with grows_commands [OF g c] have "cmd_for e' c" by blast
    then have "cmd_uid c = e_UID e'" and "live e' \<Longrightarrow> ec_Desired (c_Cmd c) = DesiredPresent"
      by (auto simp: cmd_for_def cmd_uid_def)
    with kind u mem safeD(4) [OF s] show ?thesis by fastforce
  qed
  moreover have "\<not> live e"
    if b: "b \<in> set (p_Blocks (d_plan d'))" "br_Op (bc_Req b) = ''block''" "e \<in> set (es[i := e'])"
      "bc_EntryUID b = e_UID e" for b e
  proof (cases "b \<in> set (p_Blocks (d_plan d))")
    case True
    with entry [OF b(3)] b safeD(7) [OF s True] show ?thesis by auto
  next
    case False
    with grows_blocks [OF g b(1)] have "block_for v e' b" by blast
    with kind [OF b(3)] b(4) u show ?thesis by (auto simp: block_for_def live_def)
  qed
  moreover have "bc_EntryUID b \<in> K" if "b \<in> set (p_Blocks (d_plan d'))" "br_Op (bc_Req b) = ''block''" for b
    using grows_blocks [OF g that(1)] safeD(8) [OF s _ that(2)] safeD(4) [OF s] mem u
    by (auto simp: block_for_def)
  ultimately show ?thesis
    using safeD(1-4,9) [OF s] grows_ctxD(2,3) [OF g] grows_due [OF g] uids
    by (auto simp: safe_def simp del: set_map simp flip: set_map)
qed

section \<open>The interface of an operation on one entry\<close>

locale entry_op =
  fixes f :: "decider \<Rightarrow> DownloadEntry \<Rightarrow> decider \<times> DownloadEntry"
  assumes contract: "f d e = (d', e') \<Longrightarrow> evolves d e d' e'"
begin

lemma keeps_safe:
  assumes "safe v K d es" and "i < length es" and "f d (es ! i) = (d', e')"
  shows "safe v K d' (es[i := e'])"
  using assms by (blast intro: safe_evolves contract)

lemma keeps_uids:
  assumes "f d (es ! i) = (d', e')"
  shows "map e_UID (es[i := e']) = map e_UID es"
proof (cases "i < length es")
  case True
  then show ?thesis using evolvesD(2) [OF contract [OF assms]] by (simp add: map_update list_update_same_conv)
qed (simp add: list_update_beyond)

lemma keeps_history:
  assumes "f d e = (d', e')"
  shows "set (p_History (d_plan d)) \<subseteq> set (p_History (d_plan d'))"
  using evolvesD(1) [OF contract [OF assms]] by (rule grows_history)

end

interpretation issue_op: entry_op issue
  by unfold_locales (rule issue_evolves)

interpretation owe_op: entry_op owe
  by unfold_locales (rule owe_evolves)

lemma ev2_evolves: "ev2 d e r \<Longrightarrow> r = (d', e') \<Longrightarrow> evolves d e d' e'"
  by (simp add: ev2_def)

interpretation removing_op: entry_op "\<lambda>d e. toRemoving d e why" for why
  by unfold_locales (rule ev2_evolves [OF ev2_toRemoving [OF grows_refl refl refl]])

interpretation supersede_op: entry_op "\<lambda>d s. toRemoving d (s\<lparr>e_RemoveDataOnDelete := True\<rparr>) why" for why
  by unfold_locales (erule ev2_evolves [rotated], simp)

interpretation remove_op: entry_op "\<lambda>d e. remove_entry d e r" for r
  by unfold_locales (erule ev2_evolves [rotated], simp add: remove_entry_def Let_def)

interpretation step_op: entry_op "\<lambda>d e. (fst (step d i e), fst (snd (step d i e)))" for i
  by unfold_locales (use step_ev in \<open>auto simp: ev3_def\<close>)

section \<open>Intents\<close>

lemma safe_frame [simp]:
  "safe v K (record_nonce d a n) es = safe v K d es"
  "safe v K (event d a b c) es = safe v K d es"
  "safe v K (d\<lparr>d_unblocked := x\<rparr>) es = safe v K d es"
  "safe v K (d\<lparr>d_all := y\<rparr>) es = safe v K d es"
  by (rule safe_cong; simp add: record_nonce_def event_def)+

lemma safe_at [simp]: "safe v K d es \<Longrightarrow> safe v K (at d t) es"
  by (erule safe_quiet) simp

lemma safe_add_block: "safe v K d es \<Longrightarrow> br_Op (bc_Req b) \<noteq> ''block'' \<Longrightarrow> safe v K (add_block d b) es"
  by (auto simp: safe_def add_block_def due_ok_def)

lemma findEntry_Some: "findEntry es ident = Some i \<Longrightarrow> i < length es \<and> e_ID (es ! i) = ident"
  by (induction es arbitrary: i) (auto split: if_splits)

abbreviation carries :: "View \<Rightarrow> string set \<Rightarrow> DownloadEntry list \<Rightarrow> decider \<times> DownloadEntry list \<Rightarrow> bool" where
  "carries v K es r \<equiv> safe v K (fst r) (snd r) \<and> map e_UID (snd r) = map e_UID es"

lemma intent_remove_safe: "safe v K d es \<Longrightarrow> carries v K es (intent_remove d es)"
  by (auto simp: intent_remove_def Let_def split: option.split prod.split dest!: findEntry_Some
      intro: remove_op.keeps_safe [of _ _ "record_nonce d a n" for a n] remove_op.keeps_uids)

lemma intent_resume_safe: "safe v K d es \<Longrightarrow> carries v K es (intent_resume d es)"
  by (auto simp: intent_resume_def Let_def split: option.split prod.split dest!: findEntry_Some
      intro: issue_op.keeps_safe [of _ _ "record_nonce d a n" for a n] issue_op.keeps_uids)

lemma intent_import_safe: "safe v K d es \<Longrightarrow> safe v K (intent_import d es) xs = safe v K d xs"
  by (simp add: intent_import_def Let_def split: option.split)

lemma intent_unblock_safe: "safe v K d es \<Longrightarrow> safe v K (intent_unblock d) es"
  by (simp add: intent_unblock_def Let_def safe_add_block unblockCall_def split: option.split)

lemma intents_safe:
  assumes "safe v K d es"
  shows "carries v K es (intents d es)"
proof -
  let ?d1 = "foldl invalid_one d (in_Invalid (v_Intents (d_v d)))"
  have "safe v K ?d1 es"
    by (rule foldl_invariant [where P = "\<lambda>d. safe v K d es"]) (simp_all add: assms invalid_one_def)
  from intent_remove_safe [OF this] obtain d2 es2 where 2: "intent_remove ?d1 es = (d2, es2)"
    "safe v K d2 es2" "map e_UID es2 = map e_UID es" by (cases "intent_remove ?d1 es") auto
  from intent_resume_safe [OF 2(2)] obtain d3 es3 where 3: "intent_resume d2 es2 = (d3, es3)"
    "safe v K d3 es3" "map e_UID es3 = map e_UID es" using 2(3) by (cases "intent_resume d2 es2") auto
  show ?thesis
    using 2(1) 3 by (simp add: intents_def Let_def intent_unblock_safe intent_import_safe)
qed

section \<open>Superseding and deleting\<close>

lemma supersede_one_safe:
  assumes "carries v K es acc" and "j < length es"
  shows "carries v K es (supersede_one i acc j)"
proof (cases acc)
  case (Pair d xs)
  with assms have s: "safe v K d xs" and u: "map e_UID xs = map e_UID es" and j: "j < length xs"
    by (auto dest: map_eq_imp_length_eq)
  show ?thesis
    using s u j Pair supersede_op.keeps_safe [OF s j] supersede_op.keeps_uids [of d xs j]
    by (auto simp: supersede_one_def Let_def split: prod.split)
qed

lemma supersede_safe:
  assumes "safe v K d es"
  shows "carries v K es (supersede d es)"
proof -
  have pack: "carries v K es (supersede_pack acc i)" if "carries v K es acc" for acc i
  proof (cases acc)
    case (Pair d xs)
    with that have len: "length xs = length es" by (auto dest: map_eq_imp_length_eq)
    have "carries v K es (foldl (supersede_one i) (d, xs) [0..<length xs])"
      by (rule foldl_invariant [where P = "carries v K es"], use that Pair in simp, rule supersede_one_safe)
        (simp_all add: len)
    with that Pair show ?thesis by (simp add: supersede_pack_def)
  qed
  show ?thesis
    unfolding supersede_def
    by (rule foldl_invariant [where P = "carries v K es"]) (use assms pack in auto)
qed

lemma delete_all_safe:
  assumes "safe v K d es"
  shows "carries v K es (delete_all d es)"
proof (cases "v_Deleting (d_v d)")
  case True
  define P where "P = (\<lambda>i acc. safe v K (fst acc) (snd acc @ drop i es) \<and>
    map e_UID (snd acc) = map e_UID (take i es) \<and> length (snd acc) = i)"
  have "P (Suc i) (delete_one acc (es ! i))" if "i < length es" "P i acc" for i acc
  proof (cases acc)
    case (Pair d1 out)
    have s: "safe v K d1 (out @ es ! i # drop (Suc i) es)" and len: "length out = i"
      and u: "map e_UID out = map e_UID (take i es)"
      using that Pair by (auto simp: P_def Cons_nth_drop_Suc)
    show ?thesis
    proof (cases "live (es ! i)")
      case False
      with s len u that(1) Pair show ?thesis by (simp add: P_def delete_one_def take_Suc_conv_app_nth)
    next
      case True
      obtain d2 e2 where r: "toRemoving d1 (es ! i) ''the owner is being deleted'' = (d2, e2)" by fastforce
      have "(out @ es ! i # drop (Suc i) es) ! i = es ! i" using len by (simp add: nth_append)
      with r removing_op.keeps_safe [OF s, of i _ d2 e2] len
      have "safe v K d2 (out @ e2 # drop (Suc i) es)" by (simp add: list_update_append)
      moreover have "e_UID e2 = e_UID (es ! i)" using removing_op.contract [OF r] by (rule evolvesD)
      ultimately show ?thesis
        using True len u that(1) Pair r by (simp add: P_def delete_one_def take_Suc_conv_app_nth)
    qed
  qed
  then have "P (length es) (foldl (\<lambda>acc i. delete_one acc (es ! i)) (d, []) [0..<length es])"
    using foldl_upt_invariant [of P "(d, [])" "length es" "\<lambda>acc i. delete_one acc (es ! i)"] assms
    by (auto simp: P_def)
  moreover have "foldl (\<lambda>acc i. delete_one acc (es ! i)) (d, []) [0..<length es] = foldl delete_one (d, []) es"
    using foldl_map [of delete_one "(d, [])" "\<lambda>i. es ! i" "[0..<length es]"] by (simp add: map_nth)
  ultimately show ?thesis
    using True by (simp add: P_def delete_all_def)
qed (use assms in \<open>simp add: delete_all_def\<close>)

section \<open>Stepping every entry\<close>

lemma set_mono_subseq: "subseq xs ys \<Longrightarrow> set xs \<subseteq> set ys"
  by (induction rule: list_emb.induct) auto

lemma distinct_subseq: "subseq xs ys \<Longrightarrow> distinct ys \<Longrightarrow> distinct xs"
  by (induction rule: list_emb.induct) (auto dest: set_mono_subseq)

definition stepping :: "View \<Rightarrow> string set \<Rightarrow> string list \<Rightarrow> nat \<Rightarrow> decider \<times> DownloadEntry list \<Rightarrow> bool" where
  "stepping v K us i = (\<lambda>(d, kept).
     map e_UID (d_all d) = us \<and> safe v K d (d_all d) \<and> subseq kept (take i (d_all d)) \<and>
     (\<forall>j < i. us ! j \<in> e_UID ` set kept \<or> removed_in d (us ! j)) \<and> (\<forall>e \<in> set kept. booked d e))"

lemma books_d_all [simp]:
  "booked (d\<lparr>d_all := x\<rparr>) e = booked d e" "removed_in (d\<lparr>d_all := x\<rparr>) u = removed_in d u"
  by (simp_all add: booked_def books_def removed_in_def)

lemma stepping_step:
  assumes "stepping v K us i (d, kept)" and "i < length us"
  shows "stepping v K us (Suc i) (step_one (d, kept) i)"
proof -
  let ?l = "d_all d"
  obtain d1 e1 keep where st: "step d i (?l ! i) = (d1, e1, keep)" by (cases "step d i (?l ! i)")
  from assms have u: "map e_UID ?l = us" and s: "safe v K d ?l" and sub: "subseq kept (take i ?l)"
    and cons: "\<And>j. j < i \<Longrightarrow> us ! j \<in> e_UID ` set kept \<or> removed_in d (us ! j)"
    and bk: "\<And>e. e \<in> set kept \<Longrightarrow> booked d e" by (auto simp: stepping_def)
  from assms(2) u have len: "i < length ?l" by (metis length_map)
  note ev = step_evolves [OF st]
  from evolvesD(1) [OF ev] have all: "d_all d1 = ?l" by (rule grows_ctxD)
  have uid: "e_UID e1 = us ! i" "e_UID (?l ! i) = us ! i" using evolvesD(2) [OF ev] u len by auto
  have uids: "map e_UID (?l[i := e1]) = us" using uid len u by (simp add: map_update list_update_same_conv)
  have safe1: "safe v K d1 (?l[i := e1])" by (rule safe_evolves [OF s len ev])
  have take1: "take (Suc i) (?l[i := e1]) = take i ?l @ [e1]"
    using len by (simp add: take_Suc_conv_app_nth)
  have old: "booked d1 e" if "e \<in> set kept" for e
  proof -
    from that set_mono_subseq [OF sub] have "e \<in> set (take i ?l)" by blast
    then obtain j where "j < i" "e = ?l ! j" using len by (auto simp: in_set_conv_nth)
    with safeD(3) [OF s] len have "e_UID e \<notin> {e_UID (?l ! i)}" by (auto simp: distinct_conv_nth)
    with bk [OF that] evolvesD(1) [OF ev] show ?thesis by (rule booked_grows)
  qed
  have hist: "removed_in d u \<Longrightarrow> removed_in d1 u" for u
    using grows_history [OF evolvesD(1) [OF ev]] by (rule removed_in_mono [rotated])
  have cons1: "us ! j \<in> e_UID ` set (if keep then kept @ [e1] else kept) \<or> removed_in d1 (us ! j)" if "j < Suc i" for j
  proof (cases "j = i")
    case True
    then show ?thesis using step_drops [of d i "?l ! i" d1 e1] st uid by (cases keep) auto
  next
    case False
    with that cons [of j] hist [of "us ! j"] show ?thesis by auto
  qed
  have "booked d1 e" if "e \<in> set (if keep then kept @ [e1] else kept)" for e
    using that old step_books [of d i "?l ! i" d1 e1] st by (cases keep) auto
  moreover have "subseq (if keep then kept @ [e1] else kept) (take (Suc i) (?l[i := e1]))"
    unfolding take1 using sub by (auto intro: list_emb_append_mono)
  ultimately show ?thesis
    using uids safe1 cons1 by (simp add: stepping_def step_one_def st all Let_def)
qed

lemma step_all_facts:
  assumes "safe v K d es" and "step_all d es = (d', kept)"
  shows "safe v K d' kept" "\<And>e. e \<in> set es \<Longrightarrow> e_UID e \<in> e_UID ` set kept \<or> removed_in d' (e_UID e)"
    "\<And>e. e \<in> set kept \<Longrightarrow> booked d' e" "length kept \<le> length es" "e_UID ` set kept \<subseteq> e_UID ` set es"
proof -
  let ?us = "map e_UID es"
  have st: "stepping v K ?us (length es) (d', kept)"
    using foldl_upt_invariant [of "stepping v K ?us" "(d\<lparr>d_all := es\<rparr>, [])" "length es" step_one] assms
    by (auto simp: step_all_def stepping_def [of _ _ _ 0] stepping_step)
  then have len: "length (d_all d') = length es" by (auto simp: stepping_def dest: map_eq_imp_length_eq)
  with st have sub: "subseq kept (d_all d')" and safe: "safe v K d' (d_all d')" and u: "map e_UID (d_all d') = ?us"
    by (auto simp: stepping_def)
  have "distinct (map e_UID kept)"
    using subseq_map [OF sub] safeD(3) [OF safe] by (rule distinct_subseq)
  then show "safe v K d' kept" using safe set_mono_subseq [OF sub] by (blast intro: safe_subset)
  show "e_UID ` set kept \<subseteq> e_UID ` set es"
    using set_mono_subseq [OF subseq_map [OF sub, of e_UID]] u by (metis set_map)
  show "length kept \<le> length es" using list_emb_length [OF sub] len by simp
  show "e_UID e \<in> e_UID ` set kept \<or> removed_in d' (e_UID e)" if "e \<in> set es" for e
    using that st by (fastforce simp: stepping_def in_set_conv_nth)
  show "booked d' e" if "e \<in> set kept" for e
    using that st by (simp add: stepping_def)
qed

section \<open>Transfers no entry claims\<close>

definition claim_uids :: "Transfer list \<Rightarrow> string list" where
  "claim_uids ts = concat (map (\<lambda>t. case tr_Claim (t_Record t) of None \<Rightarrow> [] | Some c \<Rightarrow> [er_UID (cm_Entry c)]) ts)"

lemma safe_mono: "safe v K d es \<Longrightarrow> K \<subseteq> K' \<Longrightarrow> safe v K' d es"
  unfolding safe_def by blast

lemma safe_add_command:
  assumes "safe v K d es" and "cmd_uid c \<notin> e_UID ` set es"
  shows "safe v (insert (cmd_uid c) K) (add_command d c) es"
  using assms by (auto simp: safe_def add_command_def due_ok_def)

lemma removeUnclaimed_safe:
  assumes "safe v K d es" and "er_UID (cm_Entry claim) \<notin> e_UID ` set es"
  shows "safe v (insert (er_UID (cm_Entry claim)) K) (removeUnclaimed d rec claim why) es"
proof -
  have "safe v (insert (er_UID (cm_Entry claim)) K) (add_command d c) es"
    if "cmd_uid c = er_UID (cm_Entry claim)" for c
    using safe_add_command [of v K d es c] assms that by simp
  then show ?thesis
    by (simp add: removeUnclaimed_def Let_def split_beta cmd_uid_def)
qed

lemma removeUnclaimed_frame [simp]:
  "p_Issued (d_plan (removeUnclaimed d r c w)) = p_Issued (d_plan d)"
  "p_History (d_plan (removeUnclaimed d r c w)) = p_History (d_plan d)"
  by (simp_all add: removeUnclaimed_def Let_def split_beta event_def at_def add_command_def)

lemma safe_snoc:
  assumes s: "safe v K d es" and r: "issue d e = (d1, e1)" and fresh: "e_UID e \<notin> K"
  shows "safe v (insert (e_UID e) K) d1 (es @ [e1])"
proof -
  have g: "grows {e_UID e} (cmd_for e1) (\<lambda>_. False) d d1"
    using grows_issue [of e d] issue_entry [of d e] r by (metis fst_conv snd_conv)
  have u: "e_UID e1 = e_UID e" using issue_evolves [OF r] by (rule evolvesD)
  have cmd: "cmd_uid c \<in> insert (e_UID e) K \<and> (\<forall>x \<in> set (es @ [e1]). cmd_uid c = e_UID x \<longrightarrow> live x \<longrightarrow>
      ec_Desired (c_Cmd c) = DesiredPresent)" if c: "c \<in> set (p_Commands (d_plan d1))" for c
  proof (cases "c \<in> set (p_Commands (d_plan d))")
    case True
    with safeD(5,6) [OF s True] fresh u show ?thesis by auto
  next
    case False
    with grows_commands [OF g c] have "cmd_for e1 c" by blast
    then have "cmd_uid c = e_UID e" "live e1 \<Longrightarrow> ec_Desired (c_Cmd c) = DesiredPresent"
      using u by (auto simp: cmd_for_def cmd_uid_def)
    with fresh safeD(4) [OF s] show ?thesis by fastforce
  qed
  have blk: "bc_EntryUID b \<in> insert (e_UID e) K \<and> (\<forall>x \<in> set (es @ [e1]). bc_EntryUID b = e_UID x \<longrightarrow> \<not> live x)"
    if "b \<in> set (p_Blocks (d_plan d1))" "br_Op (bc_Req b) = ''block''" for b
    using grows_blocks [OF g that(1)] safeD(7,8) [OF s _ that(2)] fresh u by auto
  show ?thesis
    unfolding safe_def
    using safeD(1-4,9) [OF s] grows_ctxD(2,3) [OF g] grows_due [OF g] cmd blk u fresh by auto
qed

definition converging :: "decider \<Rightarrow> DownloadEntry list \<Rightarrow> View \<Rightarrow> string set \<Rightarrow> Transfer list \<Rightarrow> decider \<times> DownloadEntry list \<Rightarrow> bool" where
  "converging d0 es0 v K ts = (\<lambda>(d, es).
     safe v (K \<union> set (claim_uids ts)) d es \<and> set es0 \<subseteq> set es \<and>
     set (p_History (d_plan d0)) \<subseteq> set (p_History (d_plan d)) \<and> (\<forall>e \<in> set es. booked d e) \<and>
     (v_EntryCap v > 0 \<longrightarrow> int (length es0) \<le> v_EntryCap v \<longrightarrow> int (length es) \<le> v_EntryCap v))"

lemma recreate_uid: "recreate d rec claim = Some e \<Longrightarrow> e_UID e = er_UID (cm_Entry claim)"
  by (auto simp: recreate_def claimedEntry_def Let_def split: option.splits if_splits)

lemma hasEntry_uid: "\<not> hasEntry es '''' u \<Longrightarrow> u \<noteq> '''' \<Longrightarrow> u \<notin> e_UID ` set es"
  by (auto simp: hasEntry_def)

lemma converging_step:
  assumes c: "converging d0 es0 v K ts (d, es)"
    and fresh: "\<And>u. u \<in> set (claim_uids [t]) \<Longrightarrow> u \<noteq> '''' \<and> u \<notin> K \<union> set (claim_uids ts)"
  shows "converging d0 es0 v K (ts @ [t]) (converge_one (d, es) t)"
proof (cases "tr_Claim (t_Record t)")
  case None
  with c show ?thesis by (simp add: converging_def converge_one_def claim_uids_def)
next
  case (Some claim)
  let ?u = "er_UID (cm_Entry claim)" and ?K = "K \<union> set (claim_uids ts)"
  from Some have u: "set (claim_uids (ts @ [t])) = insert ?u (set (claim_uids ts))" by (simp add: claim_uids_def)
  from fresh [of ?u] Some have nz: "?u \<noteq> ''''" and nK: "?u \<notin> ?K" by (auto simp: claim_uids_def)
  from c have s: "safe v ?K d es" and bk: "\<And>e. e \<in> set es \<Longrightarrow> booked d e" by (auto simp: converging_def)
  have same: "converging d0 es0 v K (ts @ [t]) (d, es)"
    using c u by (auto simp: converging_def intro: safe_mono)
  have rm: "converging d0 es0 v K (ts @ [t]) (removeUnclaimed d (t_Record t) claim why, es)"
    if "\<not> hasEntry es '''' ?u" for why
    using removeUnclaimed_safe [OF s hasEntry_uid [OF that nz]] c u
    by (auto simp: converging_def booked_def books_def)
  have add: "converging d0 es0 v K (ts @ [t]) (d1, es @ [e1])"
    if r: "recreate d (t_Record t) claim = Some e" "issue d e = (d1, e1)" and cap: "\<not> cap_reached (d_v d) es" for e d1 e1
  proof -
    have ue: "e_UID e = ?u" by (rule recreate_uid [OF r(1)])
    have e1: "e1 = stamp d e" "d1 = fst (issue d e)" using r(2) issue_entry [of d e] by auto
    have "booked d1 x" if "x \<in> set es" for x
    proof (rule booked_grows [OF bk [OF that] evolvesD(1) [OF issue_evolves [OF r(2)]]])
      show "e_UID x \<notin> {e_UID e}" using that safeD(4) [OF s] ue nK by auto
    qed
    moreover have "booked d1 e1" using e1 by simp
    moreover have "safe v (insert ?u ?K) d1 (es @ [e1])"
      using safe_snoc [OF s r(2)] ue nK by simp
    moreover have "set (p_History (d_plan d)) \<subseteq> set (p_History (d_plan d1))"
      by (rule issue_op.keeps_history [OF r(2)])
    ultimately show ?thesis
      using c u cap safeD(1) [OF s] by (auto simp: converging_def cap_reached_def)
  qed
  show ?thesis
    using Some same rm add
    by (auto simp: converge_one_def Let_def split: option.split prod.split)
qed

lemma converge_facts:
  assumes s: "safe v K d es" and "converge d es = (d', es')" and bk: "\<And>e. e \<in> set es \<Longrightarrow> booked d e"
    and claims: "distinct (claim_uids (v_Unclaimed v))" "'''' \<notin> set (claim_uids (v_Unclaimed v))"
      "K \<inter> set (claim_uids (v_Unclaimed v)) = {}"
  shows "converging d es v K (v_Unclaimed v) (d', es')"
proof -
  let ?ts = "v_Unclaimed v"
  have "converging d es v K (take n ?ts) (foldl converge_one (d, es) (take n ?ts))" if "n \<le> length ?ts" for n
    using that
  proof (induction n)
    case 0
    with s bk show ?case by (simp add: converging_def claim_uids_def)
  next
    case (Suc n)
    let ?t = "?ts ! n"
    have tk: "take (Suc n) ?ts = take n ?ts @ [?t]" using Suc.prems by (simp add: take_Suc_conv_app_nth)
    have "claim_uids ?ts = claim_uids (take n ?ts) @ claim_uids [?t] @ claim_uids (drop (Suc n) ?ts)"
      using id_take_nth_drop [of n ?ts] Suc.prems
      by (metis (no_types, lifting) Suc_le_lessD append.assoc append_Cons append_Nil claim_uids_def concat_append map_append)
    with claims have "u \<noteq> '''' \<and> u \<notin> K \<union> set (claim_uids (take n ?ts))" if "u \<in> set (claim_uids [?t])" for u
      using that by auto
    with converging_step [of d es v K "take n ?ts" _ _ ?t] Suc show ?case
      unfolding tk by (cases "foldl converge_one (d, es) (take n ?ts)") auto
  qed
  from this [of "length ?ts"] assms(2) safeD(1) [OF s] show ?thesis by (simp add: converge_def)
qed

section \<open>The whole pass\<close>

text \<open>
  A well-formed view: the entries' uids are set and those of the stored ones distinct, and an
  unclaimed transfer names an entry that is neither stored nor new (\<^verbatim>\<open>View.Unclaimed\<close>), one per uid.
\<close>

definition view_ok :: "View \<Rightarrow> bool" where
  "view_ok v \<longleftrightarrow>
     distinct (map e_UID (v_Stored v)) \<and>
     (\<forall>e \<in> set (v_Stored v) \<union> set (v_NewEntries v). e_UID e \<noteq> '''' \<and> e_UID e \<notin> set (claim_uids (v_Unclaimed v))) \<and>
     distinct (claim_uids (v_Unclaimed v)) \<and> '''' \<notin> set (claim_uids (v_Unclaimed v))"

definition cap_kept :: "View \<Rightarrow> nat \<Rightarrow> bool" where
  "cap_kept v n \<longleftrightarrow> (v_EntryCap v > 0 \<longrightarrow> int (length (v_Stored v)) \<le> v_EntryCap v \<longrightarrow> int n \<le> v_EntryCap v)"

abbreviation known_uids :: "View \<Rightarrow> string set" where
  "known_uids v \<equiv> e_UID ` (set (v_Stored v) \<union> set (v_NewEntries v))"

lemma admitted_facts:
  assumes "view_ok v"
  shows "distinct (map e_UID (admitted v))" "e_UID ` set (admitted v) \<subseteq> known_uids v"
    "set (v_Stored v) \<subseteq> set (admitted v)" "cap_kept v (length (admitted v))"
proof -
  define P where "P = (\<lambda>es. distinct (map e_UID es) \<and> e_UID ` set es \<subseteq> known_uids v \<and>
    set (v_Stored v) \<subseteq> set es \<and> cap_kept v (length es))"
  have start: "P (v_Stored v)" using assms by (auto simp: P_def view_ok_def cap_kept_def)
  have "P (admit_new v es ne)" if ne: "ne \<in> set (v_NewEntries v)" and p: "P es" for es ne
  proof (cases "hasEntry es (e_ID ne) (e_UID ne) \<or> cap_reached v es")
    case True
    with p show ?thesis by (simp add: admit_new_def)
  next
    case False
    have "e_UID ne \<noteq> ''''" using assms ne by (auto simp: view_ok_def)
    with False have "e_UID ne \<notin> e_UID ` set es" by (auto simp: hasEntry_def)
    with False p ne show ?thesis by (auto simp: admit_new_def P_def cap_kept_def cap_reached_def)
  qed
  then have "P (admitted v)"
    unfolding admitted_def using start foldl_invariant [of P "v_Stored v" "v_NewEntries v" "admit_new v"] by auto
  then show "distinct (map e_UID (admitted v))" "e_UID ` set (admitted v) \<subseteq> known_uids v"
    "set (v_Stored v) \<subseteq> set (admitted v)" "cap_kept v (length (admitted v))"
    by (simp_all add: P_def)
qed

lemma pass_facts:
  assumes ok: "view_ok v" and "pass h v = (d, es)"
  shows "safe v (known_uids v \<union> set (claim_uids (v_Unclaimed v))) d es" "\<And>e. e \<in> set es \<Longrightarrow> booked d e"
    "\<And>e. e \<in> set (v_Stored v) \<Longrightarrow> e_UID e \<in> e_UID ` set es \<or> removed_in d (e_UID e)" "cap_kept v (length es)"
proof -
  let ?K = "known_uids v"
  note adm = admitted_facts [OF ok]
  have "safe v ?K (new_decider h v) (admitted v)"
    using adm by (simp add: safe_def new_decider_def empty_plan_def due_ok_def)
  from intents_safe [OF this] obtain d1 es1 where 1: "intents (new_decider h v) (admitted v) = (d1, es1)"
    "safe v ?K d1 es1" "map e_UID es1 = map e_UID (admitted v)"
    by (cases "intents (new_decider h v) (admitted v)") auto
  from supersede_safe [OF 1(2)] obtain d2 es2 where 2: "supersede d1 es1 = (d2, es2)"
    "safe v ?K d2 es2" "map e_UID es2 = map e_UID (admitted v)" using 1(3) by (cases "supersede d1 es1") auto
  from delete_all_safe [OF 2(2)] obtain d3 es3 where 3: "delete_all d2 es2 = (d3, es3)"
    "safe v ?K d3 es3" "map e_UID es3 = map e_UID (admitted v)" using 2(3) by (cases "delete_all d2 es2") auto
  obtain d4 kept where 4: "step_all d3 es3 = (d4, kept)" by fastforce
  note st = step_all_facts [OF 3(2) 4]
  have len: "length kept \<le> length (admitted v)" using st(4) 3(3) by (metis length_map)
  have u3: "e_UID ` set es3 = e_UID ` set (admitted v)" using 3(3) by (metis set_map)
  have cv: "converging d4 kept v ?K (v_Unclaimed v) (d, es)"
  proof (rule converge_facts [OF st(1)])
    show "converge d4 kept = (d, es)" using assms(2) 1(1) 2(1) 3(1) 4 by (simp add: pass_def)
  qed (use st(3) ok in \<open>auto simp: view_ok_def\<close>)
  then show "safe v (?K \<union> set (claim_uids (v_Unclaimed v))) d es" by (simp add: converging_def)
  show "booked d e" if "e \<in> set es" for e using cv that by (simp add: converging_def)
  show "e_UID e \<in> e_UID ` set es \<or> removed_in d (e_UID e)" if "e \<in> set (v_Stored v)" for e
  proof -
    have "e_UID e \<in> e_UID ` set es3" using that adm(3) u3 by blast
    then obtain x where "x \<in> set es3" "e_UID x = e_UID e" by auto
    with st(2) [of x] have "e_UID e \<in> e_UID ` set kept \<or> removed_in d4 (e_UID e)" by simp
    with cv show ?thesis by (auto simp: converging_def intro: removed_in_mono)
  qed
  show "cap_kept v (length es)"
    using cv adm(4) len by (auto simp: converging_def cap_kept_def)
qed

lemma Decide_pass:
  assumes "pass h v = (d, es)"
  shows "p_Entries (Decide h v) = es" "p_Commands (Decide h v) = p_Commands (d_plan d)"
    "p_Blocks (Decide h v) = p_Blocks (d_plan d)" "p_History (Decide h v) = p_History (d_plan d)"
    "p_Issued (Decide h v) = p_Issued (d_plan d)" "p_Due (Decide h v) = p_Due (d_plan d)"
    "p_Phase (Decide h v) = activePhase es" "p_Finalizer (Decide h v) = Some (es \<noteq> [])"
  using assms by (simp_all add: Decide_def)

end
