(* ===== verification/GrabSamples.thy ===== *)
theory GrabSamples
  imports GrabDecide
begin

text \<open>
  Concrete owners, entries, records and views the witnesses evaluate the model on: a movie with one
  grab on the engine of one torrent client, and the variations each witness states.
\<close>

definition h0 :: Hashes where
  "h0 = \<lparr>h_sum64 = (\<lambda>s. length s), h_command = (\<lambda>c. ''digest''), h_nonce = (\<lambda>s. ''abcd'')\<rparr>"

definition owner0 :: ItemRef where
  "owner0 = \<lparr>ir_Kind = ''Movie'', ir_Namespace = ''media'', ir_Name = ''dune'', ir_UID = ''u-dune''\<rparr>"

definition now0 :: time where
  "now0 = unix_epoch + 1000000 * second"

definition source0 :: DownloadSource where
  "source0 = \<lparr>ds_MagnetURL = Some ''magnet:?xt=urn:btih:aa'', ds_TorrentURL = None, ds_NZBURL = None,
     ds_IndexerDownload = None, ds_ExpectedInfoHash = None\<rparr>"

definition entry0 :: "string \<Rightarrow> DownloadPhase \<Rightarrow> DownloadEntry" where
  "entry0 uid ph =
     \<lparr>e_ID = ''g-'' @ uid, e_UID = uid, e_Purpose = PurposeUnset, e_Episodes = [], e_Issues = [],
      e_Release = (zero_release Torrent)\<lparr>rel_Title := ''Dune'', rel_GUID := ''guid'', rel_IndexerRef := ''ix''\<rparr>,
      e_Source = source0, e_Client = ''qb'', e_Engine = ''qb-0'', e_GrabbedBy = GrabSearch,
      e_GrabbedAt = now0 - hour, e_Manual = False, e_QualityProfileRef = '''', e_SeedCriteria = None,
      e_RemoveOnImport = False, e_RemoveDataOnDelete = False, e_Phase = ph, e_Stage = StageUnset,
      e_FailureReason = FailureUnset, e_OutputPath = '''', e_StartedAt = None, e_CompletedAt = None,
      e_SeedGoalMetAt = None, e_FailedAt = None, e_Import = None,
      e_Dispatch = zero_dispatch\<lparr>dp_Seq := 7, dp_DispatchedAt := now0 - hour\<rparr>,
      e_Message = '''', e_Block = None, e_Set = None\<rparr>"

definition client0 :: Client where
  "client0 = \<lparr>cl_Name = ''qb'', cl_UID = ''u-qb'', cl_Protocol = Torrent, cl_Enabled = True, cl_Priority = 1,
     cl_Replicas = 1, cl_RemoveCompleted = False, cl_StallTimeout = 0, cl_DownloadTimeout = 0,
     cl_HealthAction = HealthActionUnset, cl_Seed = None, cl_Categories = (\<lambda>k. ''movies''), cl_ResyncSeq = 3\<rparr>"

definition engine0 :: Engine where
  "engine0 = \<lparr>en_Name = ''qb-0'', en_Client = ''qb'', en_Ordinal = 0, en_Ready = True, en_Reattached = True,
     en_BootID = ''boot1'', en_ResyncSeq = 3, en_Active = 1, en_Queued = 0, en_At = now0 - second,
     en_ReattachedAt = now0 - hour\<rparr>"

definition record0 :: TransferRecord where
  "record0 = \<lparr>tr_Seq = 7, tr_State = TransferPresent, tr_Entry = \<lparr>er_ID = ''g-a'', er_UID = ''a''\<rparr>,
     tr_Claim = None, tr_Claimed = True, tr_Engine = ''qb-0'',
     tr_BootID = ''boot1'', tr_DownloadID = ''aa'', tr_Stage = Transferring, tr_OutputPath = '''',
     tr_ContentRoot = '''', tr_Files = [], tr_FilesTruncated = False, tr_TotalBytes = 100, tr_RemainingBytes = 50,
     tr_DownloadedBytes = 50, tr_UploadedBytes = 0, tr_ProgressPercent = 50, tr_RatioMilli = 0,
     tr_SeedTimeSeconds = 0, tr_Seeders = 3, tr_Peers = 5, tr_Health = None,
     tr_IsEncrypted = False, tr_CanMoveFiles = False, tr_CanBeRemoved = False,
     tr_SeedGoalReached = False, tr_HealthPaused = False, tr_WaitingTurn = False, tr_Grant = None,
     tr_EngineFailureReason = FailureUnset, tr_Message = '''', tr_StartedAt = None, tr_CompletedAt = None,
     tr_LastProgressAt = Some (now0 - minute), tr_AddedAt = now0 - hour, tr_DataRemoved = False\<rparr>"

definition nonces0 :: DownloadNonces where
  "nonces0 = \<lparr>n_Remove = '''', n_Resume = '''', n_Import = '''', n_Unblock = ''''\<rparr>"

definition view0 :: "DownloadEntry list \<Rightarrow> View" where
  "view0 es =
     \<lparr>v_Owner = owner0, v_ProviderID = ''tmdb:1'', v_ProviderVerified = True, v_Kind = ''Movie'', v_Now = now0,
      v_Deleting = False, v_Monitored = True, v_HasFile = False, v_EntryCap = 4, v_Stored = es,
      v_Nonces = nonces0, v_Intents = no_intents, v_NewEntries = [], v_Transfers = Map.empty, v_Unclaimed = [],
      v_Clients = [client0], v_Engines = [''qb-0'' \<mapsto> engine0], v_Files = (\<lambda>i. 0), v_Import = Map.empty,
      v_Blocks = Map.empty, v_Unblocked = (\<lambda>n. False), v_Searched = Map.empty, v_Unmonitored = (\<lambda>i. False),
      v_Satisfied = (\<lambda>i. False), v_Covered = (\<lambda>u. []), v_Removed = (\<lambda>p. False), v_Issued = Map.empty,
      v_StillWants = None, v_IndexerClient = (\<lambda>i. '''')\<rparr>"

abbreviation with_record :: "string \<Rightarrow> TransferRecord \<Rightarrow> View \<Rightarrow> View" where
  "with_record u r v \<equiv> v\<lparr>v_Transfers := (v_Transfers v)(u \<mapsto> \<lparr>t_Record = r, t_Revision = 1\<rparr>)\<rparr>"

lemmas sample_defs = h0_def owner0_def now0_def source0_def entry0_def client0_def engine0_def record0_def
  nonces0_def view0_def

end
