(* ===== verification/GrabSafety.thy ===== *)
theory GrabSafety
  imports GrabPass GrabSamples
begin

text \<open>
  What one pass of the planner guarantees of its plan, for every well-formed view: the commands, the
  block calls, the entries it keeps and drops, the book of issued commands and the due time.
\<close>

text \<open>C1: a plan never asks an engine to drop the transfer of an entry it keeps live: every command of
  the plan for a live entry of the plan desires the transfer present, whatever the pass did before
  (intents, superseding packs, deletion, unclaimed transfers).\<close>

theorem Decide_live_never_absent:
  assumes "view_ok v" and "c \<in> set (p_Commands (Decide h v))" and "e \<in> set (p_Entries (Decide h v))"
    and "er_UID (ec_Entry (c_Cmd c)) = e_UID e" and "live e"
  shows "ec_Desired (c_Cmd c) = DesiredPresent"
proof -
  obtain d es where p: "pass h v = (d, es)" by fastforce
  show ?thesis
    using safeD(6) [OF pass_facts(1) [OF assms(1) p]] assms(2-) by (auto simp: Decide_pass [OF p] cmd_uid_def)
qed

abbreviation plan1 :: Plan where
  "plan1 \<equiv> Decide h0 (view0 [entry0 ''a'' Downloading])"

theorem Decide_live_never_absent_witness:
  "p_Commands plan1 \<noteq> [] \<and> ec_Desired (c_Cmd (hd (p_Commands plan1))) = DesiredPresent"
proof
  show c: "p_Commands plan1 \<noteq> []" by code_simp
  have e: "p_Entries plan1 \<noteq> []" by code_simp
  have ok: "view_ok (view0 [entry0 ''a'' Downloading])" by code_simp
  have u: "er_UID (ec_Entry (c_Cmd (hd (p_Commands plan1)))) = e_UID (hd (p_Entries plan1))" by code_simp
  have l: "live (hd (p_Entries plan1))" by code_simp
  show "ec_Desired (c_Cmd (hd (p_Commands plan1))) = DesiredPresent"
    by (rule Decide_live_never_absent [OF ok hd_in_set [OF c] hd_in_set [OF e] u l])
qed

text \<open>C2: no entry is lost: every stored entry is in the plan under its uid, or the plan's history
  records that it was removed.\<close>

theorem Decide_conserves:
  assumes "view_ok v" and "e \<in> set (v_Stored v)"
  shows "e_UID e \<in> e_UID ` set (p_Entries (Decide h v)) \<or>
    (\<exists>ev \<in> set (p_History (Decide h v)). de_Action ev = ''removed'' \<and> ref_UID (de_DownloadRef ev) = e_UID e)"
proof -
  obtain d es where p: "pass h v = (d, es)" by fastforce
  show ?thesis
    using pass_facts(3) [OF assms(1) p assms(2)] by (simp add: Decide_pass [OF p] removed_in_def)
qed

theorem Decide_conserves_witness:
  "''a'' \<in> e_UID ` set (p_Entries (Decide h0 (view0 [(entry0 ''a'' Failed)\<lparr>e_Engine := ''''\<rparr>]))) \<or>
   (\<exists>ev \<in> set (p_History (Decide h0 (view0 [(entry0 ''a'' Failed)\<lparr>e_Engine := ''''\<rparr>]))).
      de_Action ev = ''removed'' \<and> ref_UID (de_DownloadRef ev) = ''a'')"
proof -
  let ?e = "(entry0 ''a'' Failed)\<lparr>e_Engine := ''''\<rparr>"
  have ok: "view_ok (view0 [?e])" by code_simp
  have m: "?e \<in> set (v_Stored (view0 [?e]))" by (simp add: view0_def)
  have u: "e_UID ?e = ''a''" by (simp add: entry0_def)
  show ?thesis using Decide_conserves [OF ok m, of h0] unfolding u .
qed

text \<open>C3: the book of issued commands holds, for every live entry the plan keeps on an engine (a
  Pending one waits for it), the seq of the entry's own dispatch: the stage never forgets a command
  it issued, nor holds a stale one.\<close>

theorem Decide_books_live_entries:
  assumes "view_ok v" and "e \<in> set (p_Entries (Decide h v))" and "live e" and "e_Engine e \<noteq> ''''"
    and "e_Phase e \<noteq> Pending"
  shows "\<exists>i. p_Issued (Decide h v) (e_UID e) = Some i \<and> is_Seq i = dp_Seq (e_Dispatch e)"
proof -
  obtain d es where p: "pass h v = (d, es)" by fastforce
  show ?thesis
    using pass_facts(2) [OF assms(1) p, of e] assms(2-) by (simp add: Decide_pass [OF p] booked_def books_def)
qed

theorem Decide_books_live_entries_witness:
  "\<exists>i. p_Issued plan1 (e_UID (hd (p_Entries plan1))) = Some i \<and>
       is_Seq i = dp_Seq (e_Dispatch (hd (p_Entries plan1)))"
proof -
  have ok: "view_ok (view0 [entry0 ''a'' Downloading])" by code_simp
  have e: "p_Entries plan1 \<noteq> []" by code_simp
  have l: "live (hd (p_Entries plan1))" by code_simp
  have n: "e_Engine (hd (p_Entries plan1)) \<noteq> ''''" by code_simp
  have ph: "e_Phase (hd (p_Entries plan1)) \<noteq> Pending" by code_simp
  show ?thesis by (rule Decide_books_live_entries [OF ok hd_in_set [OF e] l n ph])
qed


definition blocked0 :: DownloadEntry where
  "blocked0 = (entry0 ''a'' Blocklisted)\<lparr>e_FailureReason := Stalled, e_FailedAt := Some (now0 - minute),
     e_Block := Some \<lparr>bl_Scope = BlockScopeItem, bl_Reason = Stalled, bl_Seq = 9, bl_ConfirmedAt = None\<rparr>\<rparr>"

abbreviation plan2 :: Plan where
  "plan2 \<equiv> Decide h0 (view0 [blocked0])"


text \<open>C5: the uids of the plan's entries are distinct, and the entry cap holds: a pass that starts
  within the cap ends within it, new grabs and re-created entries included.\<close>

theorem Decide_entries_bounded:
  assumes "view_ok v"
  shows "distinct (map e_UID (p_Entries (Decide h v))) \<and>
    (0 < v_EntryCap v \<longrightarrow> int (length (v_Stored v)) \<le> v_EntryCap v \<longrightarrow>
     int (length (p_Entries (Decide h v))) \<le> v_EntryCap v)"
proof -
  obtain d es where p: "pass h v = (d, es)" by fastforce
  show ?thesis
    using safeD(3) [OF pass_facts(1) [OF assms p]] pass_facts(4) [OF assms p]
    by (simp add: Decide_pass [OF p] cap_kept_def)
qed

theorem Decide_entries_bounded_witness:
  "int (length (p_Entries (Decide h0 ((view0 [entry0 ''a'' Downloading])\<lparr>v_EntryCap := 1,
      v_NewEntries := [entry0 ''b'' Pending]\<rparr>)))) \<le> 1"
proof -
  let ?v = "(view0 [entry0 ''a'' Downloading])\<lparr>v_EntryCap := 1, v_NewEntries := [entry0 ''b'' Pending]\<rparr>"
  have ok: "view_ok ?v" by code_simp
  show ?thesis using Decide_entries_bounded [OF ok, of h0] by (simp add: view0_def)
qed

text \<open>The plan's due time is unset or later than the pass: a pass never asks to be run again in
  the past.\<close>

theorem Decide_due_later:
  assumes "view_ok v"
  shows "p_Due (Decide h v) = 0 \<or> v_Now v < p_Due (Decide h v)"
proof -
  obtain d es where p: "pass h v = (d, es)" by fastforce
  show ?thesis
    using safeD(2,9) [OF pass_facts(1) [OF assms p]] by (simp add: Decide_pass [OF p] due_ok_def)
qed

theorem Decide_due_later_witness: "p_Due plan2 = 0 \<or> now0 < p_Due plan2"
proof -
  have ok: "view_ok (view0 [blocked0])" by code_simp
  have n: "v_Now (view0 [blocked0]) = now0" by (simp add: view0_def)
  show ?thesis using Decide_due_later [OF ok, of h0] unfolding n .
qed

end
