(* ===== verification/GrabEvidence.thy ===== *)
theory GrabEvidence
  imports GrabStepFacts GrabSamples
begin

text \<open>
  What one step of one entry needs to act: the evidence on which an entry is dropped, what a missing
  record may do, how a reported failure is classified, and when a command and a redownload search
  are owed.
\<close>

section \<open>Evidence that a transfer is gone\<close>

text \<open>
  \<open>gone_evidence\<close> restates the comment of \<^verbatim>\<open>transferGone\<close>: the entry was never assigned, the record reads
  removed at the absent command's seq, a settled engine holds no transfer at its boot with no
  command in flight, or the engine has been gone for the teardown timeout.
\<close>

definition gone_evidence :: "decider \<Rightarrow> DownloadEntry \<Rightarrow> TransferRecord option \<Rightarrow> bool" where
  "gone_evidence d e rec \<longleftrightarrow>
     e_Engine e = '''' \<or>
     (\<exists>r. rec = Some r \<and> tr_State r = TransferRemoved \<and> tr_Seq r \<ge> dp_Seq (e_Dispatch e)) \<or>
     (fst (snd (settled d e)) \<and> \<not> heldAtBoot rec (bootOf (engineOf d e)) \<and> \<not> InFlight (e_Dispatch e)) \<or>
     (engineGone d e \<noteq> None \<and> dp_DispatchedAt (e_Dispatch e) + EngineTeardownTimeout \<le> d_now d)"

definition data_removed :: "decider \<Rightarrow> DownloadEntry \<Rightarrow> bool" where
  "data_removed d e \<longleftrightarrow> (e_RemoveDataOnDelete e \<longrightarrow> e_OutputPath e \<noteq> '''' \<longrightarrow> v_Removed (d_v d) (e_OutputPath e))"

definition quarantine_over :: "decider \<Rightarrow> DownloadEntry \<Rightarrow> bool" where
  "quarantine_over d e \<longleftrightarrow>
     (\<forall>b. e_Phase e = Blocklisted \<longrightarrow> e_Block e = Some b \<longrightarrow>
        (\<exists>t. bl_ConfirmedAt b = Some t \<and> t + BlockQuarantine \<le> d_now d))"

lemma same_ctx_trans: "same_ctx d d1 \<Longrightarrow> same_ctx d1 d2 \<Longrightarrow> same_ctx d d2"
  by (simp add: same_ctx_def)

lemma result_split: "fst (snd r) = e \<Longrightarrow> snd (snd r) = k \<Longrightarrow> r = (fst r, e, k)"
  by (cases r) auto

lemma triple: "r = (fst r, fst (snd r), snd (snd r))"
  by simp

lemma settled_ctx:
  assumes "same_ctx d d'"
  shows "fst (snd (settled d' e)) = fst (snd (settled d e))"
  using same_ctxD [OF assms] by (simp add: settled_def engineOf_def Let_def split: option.split)

lemma engineGone_ctx: "same_ctx d d' \<Longrightarrow> engineGone d' e = engineGone d e"
  by (simp add: engineGone_def engineOf_def same_ctx_def split: option.split)

lemma gone_evidence_ctx: "same_ctx d d' \<Longrightarrow> gone_evidence d' e rec = gone_evidence d e rec"
  unfolding gone_evidence_def by (simp add: settled_ctx engineGone_ctx) (simp add: same_ctx_def engineOf_def)

lemma data_removed_ctx: "same_ctx d d' \<Longrightarrow> data_removed d' e = data_removed d e"
  by (simp add: data_removed_def same_ctx_def)

lemma quarantine_over_ctx: "same_ctx d d' \<Longrightarrow> quarantine_over d' e = quarantine_over d e"
  by (simp add: quarantine_over_def same_ctx_def)

lemma settled_same_ctx: "settled d e = (d', ok, t) \<Longrightarrow> same_ctx d d'"
  by (rule grows_ctx [OF quiet_settled])

lemma transferGone_evidence:
  assumes "transferGone d e rec = (d', True)"
  shows "gone_evidence d e rec"
proof -
  obtain d1 ok t where st: "settled d e = (d1, ok, t)" by (cases "settled d e")
  show ?thesis
    using assms engineGone_ctx [OF settled_same_ctx [OF st]]
    by (auto simp: transferGone_def gone_evidence_def st Let_def split: if_splits option.splits)
qed

definition evidenceR :: "decider \<Rightarrow> TransferRecord option \<Rightarrow> decider \<times> DownloadEntry \<times> bool \<Rightarrow> bool" where
  "evidenceR d rec r \<longleftrightarrow> (\<not> snd (snd r) \<longrightarrow>
     gone_evidence d (fst (snd r)) rec \<and> data_removed d (fst (snd r)) \<and> quarantine_over d (fst (snd r)))"

lemma evidenceR_keep [simp]:
  "evidenceR d rec (d1, e1, True)" "evidenceR d rec (owe_keep r)"
  by (auto simp: evidenceR_def owe_keep_def split: prod.splits)

lemma finishRemoval_evidence:
  assumes "same_ctx d d1" and "gone_evidence d e rec" and "quarantine_over d e"
  shows "evidenceR d rec (finishRemoval d1 e)"
  using assms by (auto simp: finishRemoval_def evidenceR_def data_removed_def same_ctx_def)

lemma transferGone_ctx: "same_ctx d d1 \<Longrightarrow> same_ctx d (fst (transferGone d1 e rec))"
  using grows_ctx [OF transferGone_quiet [of d1 d1 e rec]] by (auto simp: same_ctx_def)

lemma removingStep_evidence:
  assumes "same_ctx d d1" and "e_Phase e = Removing"
  shows "evidenceR d rec (removingStep d1 e rec)"
proof (cases "transferGone d1 e rec")
  case (Pair d2 gone)
  show ?thesis
  proof (cases gone)
    case True
    have "gone_evidence d e rec"
      using transferGone_evidence [of d1 e rec d2] Pair True gone_evidence_ctx [OF assms(1)] by simp
    moreover have "same_ctx d d2" using transferGone_ctx [OF assms(1), of e rec] Pair by simp
    ultimately show ?thesis
      using Pair True assms(2) by (simp add: removingStep_def finishRemoval_evidence quarantine_over_def)
  qed (use Pair in \<open>simp add: removingStep_def\<close>)
qed

lemma confirmBlock_confirmed:
  assumes "confirmBlock d e b = (d', e', True)" and "e_Block e = Some b"
  shows "\<exists>b' t. e_Block e' = Some b' \<and> bl_ConfirmedAt b' = Some t"
  using assms by (auto simp: confirmBlock_def split: if_splits option.splits)

lemma confirmBlock_ctx: "same_ctx d (fst (confirmBlock d e b))"
  by (simp add: confirmBlock_def add_block_def same_ctx_def split: option.split)

lemma tombstone_quarantine:
  assumes "e_Phase e = Blocklisted \<Longrightarrow> e_Block e \<noteq> None \<Longrightarrow> \<exists>b t. e_Block e = Some b \<and> bl_ConfirmedAt b = Some t"
    and "case tombstoneEnd e of None \<Rightarrow> True | Some end' \<Rightarrow> end' \<le> d_now d"
  shows "quarantine_over d e"
  using assms by (cases "e_Block e") (auto simp: quarantine_over_def tombstoneEnd_def split: if_splits)

lemma terminalStep_evidence:
  assumes c: "same_ctx d d1" and t: "e_Phase e \<in> {Failed, Blocklisted}"
  shows "evidenceR d rec (terminalStep d1 e rec)"
proof (cases "case d_unblocked d1 of None \<Rightarrow> False | Some p \<Rightarrow> p e")
  case True
  let ?e = "e\<lparr>e_Block := None\<rparr>"
  obtain d2 gone where g: "transferGone d1 ?e rec = (d2, gone)" by fastforce
  have "gone \<Longrightarrow> gone_evidence d ?e rec"
    using transferGone_evidence [of d1 ?e rec d2] g gone_evidence_ctx [OF c] by auto
  moreover have "same_ctx d d2" using transferGone_ctx [OF c, of ?e rec] g by simp
  ultimately show ?thesis
    using True g by (auto simp: terminalStep_def Let_def intro!: finishRemoval_evidence simp: quarantine_over_def)
next
  case False
  obtain d2 e2 ok where cb: "(case (e_Phase e, e_Block e) of
      (Blocklisted, Some b) \<Rightarrow> confirmBlock d1 e b | _ \<Rightarrow> (d1, e, True)) = (d2, e2, ok)"
    by (metis prod_cases3)
  have c2: "same_ctx d d2"
    using cb c same_ctx_trans [OF c confirmBlock_ctx [of d1 e]]
    by (auto split: DownloadPhase.splits option.splits) (metis fst_conv)
  have conf: "\<exists>b t. e_Block e2 = Some b \<and> bl_ConfirmedAt b = Some t"
    if "ok" "e_Phase e2 = Blocklisted" "e_Block e2 \<noteq> None"
    using cb that confirmBlock_confirmed [of d1 e _ d2 e2] by (auto split: DownloadPhase.splits option.splits)
  obtain d3 keep where rd: "redownload d2 e2 = (d3, keep)" by fastforce
  have c3: "same_ctx d d3"
    using c2 grows_ctx [OF redownload_quiet [of d2 d2 e2]] rd by (auto simp: same_ctx_def)
  obtain d4 gone where g: "transferGone d3 e2 rec = (d4, gone)" by fastforce
  have c4: "same_ctx d d4" using transferGone_ctx [OF c3, of e2 rec] g by simp
  have ev: "gone \<Longrightarrow> gone_evidence d e2 rec"
    using transferGone_evidence [of d3 e2 rec d4] g gone_evidence_ctx [OF c3] by auto
  have now: "d_now d1 = d_now d" using c by (rule same_ctxD)
  have fin: "evidenceR d rec (finishRemoval d4 e2)"
    if "ok" "gone" "case tombstoneEnd e2 of None \<Rightarrow> True | Some end' \<Rightarrow> end' \<le> d_now d"
    using finishRemoval_evidence [OF c4 ev [OF that(2)]] tombstone_quarantine [OF conf [OF that(1)] that(3)] by simp
  show ?thesis
    unfolding terminalStep_def cb Let_def
    using False rd g fin by (simp add: now split: option.split)
qed

section \<open>An entry is dropped on evidence only\<close>

definition seeding_lost :: "decider \<Rightarrow> DownloadEntry \<Rightarrow> bool" where
  "seeding_lost d e \<longleftrightarrow> imported e \<and> (\<exists>r. recordOf d e = Some r \<and> tr_EngineFailureReason r = PayloadUnavailable)"

definition lostR :: "decider \<Rightarrow> DownloadEntry \<Rightarrow> decider \<times> DownloadEntry \<times> bool \<Rightarrow> bool" where
  "lostR d e r \<longleftrightarrow> (\<not> snd (snd r) \<longrightarrow> seeding_lost d e)"

lemma lostR_keep [simp]:
  "lostR d e (d1, e1, True)" "lostR d e (owe_keep r)" "lostR d e (case p of (d2, e2) \<Rightarrow> (d2, e2, True))"
  by (auto simp: lostR_def owe_keep_def split: prod.splits)

lemma lostR_rows [simp]:
  "lostR d e (pendingStep d1 i e1)" "lostR d e (heldStep d1 i e1 r c)"
  by (simp_all add: pendingStep_def heldStep_def Let_def split: option.split)

lemma failedStep_lost:
  "imported e1 = imported e \<Longrightarrow> recordOf d e = Some r \<Longrightarrow> lostR d e (failedStep d1 e1 r)"
  unfolding failedStep_def Let_def
  by (auto simp: lostR_def seeding_lost_def split: prod.split)

lemma liveStep_lost: "imported e1 = imported e \<Longrightarrow> lostR d e (liveStep d1 i e1 (recordOf d e))"
proof -
  assume imp: "imported e1 = imported e"
  obtain d2 ok t where st: "settled d1 e1 = (d2, ok, t)" by (cases "settled d1 e1")
  have held: "recordOf d e \<noteq> None" if "heldAtBoot (recordOf d e) b" for b
    using that by (cases "recordOf d e") (auto simp: heldAtBoot_def)
  show ?thesis
    unfolding liveStep_def Let_def st
    using failedStep_lost [OF imp] held by (auto split: option.split)
qed

lemma imported_cong: "e_Import e1 = e_Import e \<Longrightarrow> imported e1 = imported e"
  by (simp add: imported_def)

text \<open>C6: an entry is dropped from its owner's status only on positive evidence. A live entry goes only
  when it was imported and its engine reports the payload can no longer be fetched. Any other entry
  goes only when its transfer is known to be gone, its data has been removed if its removal asks for
  it, and, when it is Blocklisted with a block of its release, the block was confirmed and has been
  quarantined.\<close>

theorem step_drops_on_evidence:
  assumes "step d i e = (d', e', False)"
  shows "(live e \<and> seeding_lost d e) \<or>
    (\<not> live e \<and> gone_evidence d e' (recordOf d e) \<and> data_removed d e' \<and> quarantine_over d e')"
proof -
  obtain d1 e1 where o: "observe d e (recordOf d e) = (d1, e1)" by fastforce
  note f = observe_frame [OF o]
  have c: "same_ctx d d1" using f(1) by (rule grows_ctx)
  have im: "imported e1 = imported e" using f(6) by (rule imported_cong)
  show ?thesis
  proof (cases "live e")
    case True
    have "lostR d e (step d i e)"
      using True f(4) liveStep_lost [OF im] by (simp add: step_def o Let_def live_def split: DownloadPhase.split)
    with assms True show ?thesis by (simp add: lostR_def)
  next
    case False
    have "evidenceR d (recordOf d e) (step d i e)"
      using False f(4) removingStep_evidence [OF c] terminalStep_evidence [OF c]
      by (auto simp: step_def o Let_def live_def split: DownloadPhase.split)
    with assms False show ?thesis by (simp add: evidenceR_def)
  qed
qed

abbreviation dropped0 :: DownloadEntry where
  "dropped0 \<equiv> (entry0 ''a'' Removing)\<lparr>e_Dispatch := zero_dispatch\<lparr>dp_Seq := 7, dp_AnsweredSeq := 7, dp_DispatchedAt := now0 - hour\<rparr>\<rparr>"

theorem step_drops_on_evidence_witness:
  "\<not> live dropped0 \<and> gone_evidence (new_decider h0 (view0 [dropped0])) dropped0 None"
proof -
  let ?d = "new_decider h0 (view0 [dropped0])"
  have s: "snd (snd (step ?d 0 dropped0)) = False" by code_simp
  have e: "fst (snd (step ?d 0 dropped0)) = dropped0" by code_simp
  have r: "recordOf ?d dropped0 = None" by code_simp
  have l: "\<not> live dropped0" by code_simp
  from step_drops_on_evidence [OF result_split [OF e s]] l show ?thesis unfolding r by blast
qed

section \<open>A missing record\<close>

lemma filter_update_notin:
  "\<not> P a \<Longrightarrow> \<not> P b \<Longrightarrow> filter P (xs[i := a]) = filter P (xs[i := b])"
  by (induction xs arbitrary: i) (auto split: nat.splits)

lemma setFailure_cong:
  assumes "e_UID e1 = e_UID e" and "e_Set e1 = e_Set e" and "e_Import e1 = e_Import e"
  shows "setFailure d i e1 = setFailure d i e"
proof -
  have "sameSet d i e1 = sameSet d i e"
    using assms filter_update_notin [of "\<lambda>x. e_UID x \<noteq> e_UID e \<and> inSet sid x" for sid]
    by (auto simp: sameSet_def allNow_def split: option.split)
  then show ?thesis
    by (cases "e_Set e") (simp_all add: setFailure_def assms(2) imported_cong [OF assms(3)])
qed

definition keepR :: "decider \<times> DownloadEntry \<times> bool \<Rightarrow> bool" where
  "keepR r \<longleftrightarrow> snd (snd r) \<and> live (fst (snd r))"

lemma keepR_simps [simp]:
  "keepR (d, e, k) \<longleftrightarrow> k \<and> live e"
  "keepR (case p of (d1, e1) \<Rightarrow> (d1, e1, k)) \<longleftrightarrow> k \<and> live (snd p)"
  by (simp_all add: keepR_def split_beta)

lemma assign_live [simp]: "live (snd (assign d e c k))"
  by (simp add: assign_def Let_def split_beta)

lemma pendingStep_keeps: "setFailure d i e = '''' \<Longrightarrow> keepR (pendingStep d i e)"
  using setFailure_cong [of "e\<lparr>e_Phase := Pending\<rparr>" e d i]
  by (simp add: pendingStep_def Let_def live_def [of "waiting _ _ _"] split: option.split)

lemma owe_live: "owe d e = (d', e') \<Longrightarrow> live e' = live e"
  using owe_entry by fastforce

lemma owe_keep_live: "live e \<Longrightarrow> keepR (owe_keep (d, e, False))"
  using owe_live [of d e] by (cases "owe d e") (auto simp: owe_keep_def)

lemma liveStep_none_keeps:
  assumes "live e" and "setFailure d i e = ''''"
  shows "keepR (liveStep d i e None)"
proof -
  obtain d2 ok t where st: "settled d e = (d2, ok, t)" by (cases "settled d e")
  have p: "keepR (pendingStep d i (e\<lparr>e_Client := '''', e_Engine := ''''\<rparr>))"
    by (rule pendingStep_keeps) (simp add: setFailure_cong [of _ e] assms(2))
  have o: "keepR (owe_keep (d2, e, False))" by (rule owe_keep_live [OF assms(1)])
  have no: "\<not> heldAtBoot None b" for b by (simp add: heldAtBoot_def)
  show ?thesis
    unfolding liveStep_def Let_def st
    using assms p o no by simp
qed

text \<open>A record that is missing is never a reason to give up a transfer. A live entry without a
  transfer record, whose part set (if it has one) has not failed, stays live, whatever the state of
  its engine; what the step publishes asks for the transfer to be present.\<close>

theorem step_missing_record_kept:
  assumes "live e" and "recordOf d e = None" and "setFailure d i e = ''''"
  shows "\<exists>d' e' cs. step d i e = (d', e', True) \<and> live e' \<and>
    p_Commands (d_plan d') = p_Commands (d_plan d) @ cs \<and> (\<forall>c \<in> set cs. ec_Desired (c_Cmd c) = DesiredPresent)"
proof -
  obtain d' e' k where st: "step d i e = (d', e', k)" by (cases "step d i e")
  have "keepR (step d i e)"
    using assms liveStep_none_keeps [OF assms(1,3)] pendingStep_keeps [OF assms(3)]
    by (auto simp: step_def observe_def Let_def live_def split: DownloadPhase.split)
  then have k: "k" and l: "live e'" by (auto simp: st)
  from evolvesD(1) [OF step_evolves [OF st]] obtain cs where
    "p_Commands (d_plan d') = p_Commands (d_plan d) @ cs" "\<forall>c \<in> set cs. cmd_for e' c"
    by (auto simp: grows_def)
  with st k l show ?thesis by (auto simp: cmd_for_def)
qed

theorem step_missing_record_kept_witness:
  "live (fst (snd (step (new_decider h0 (view0 [entry0 ''a'' Downloading])) 0 (entry0 ''a'' Downloading))))"
proof -
  let ?e = "entry0 ''a'' Downloading" and ?d = "new_decider h0 (view0 [entry0 ''a'' Downloading])"
  have l: "live ?e" by code_simp
  have r: "recordOf ?d ?e = None" by code_simp
  have f: "setFailure ?d 0 ?e = ''''" by code_simp
  from step_missing_record_kept [OF l r f] show ?thesis by (elim exE conjE) (simp only: fst_conv snd_conv)
qed

section \<open>Failures\<close>

lemma failedNow_time: "e_FailedAt (failedNow d e) = Some (case e_FailedAt e of None \<Rightarrow> d_now d | Some t \<Rightarrow> t)"
  by (auto simp: failedNow_def split: option.split)

lemma stamp_dispatchedAt [simp]: "dp_DispatchedAt (e_Dispatch (stamp d e)) = d_now d"
  by (simp add: stamp_def)

lemma toBlocklisted_entry:
  "e_Phase (snd (toBlocklisted d e r m)) = Blocklisted" "e_FailureReason (snd (toBlocklisted d e r m)) = r"
  "e_Block (snd (toBlocklisted d e r m)) = Some (blockOf d e r)"
  "e_FailedAt (snd (toBlocklisted d e r m)) = Some (case e_FailedAt e of None \<Rightarrow> d_now d | Some t \<Rightarrow> t)"
  "dp_DispatchedAt (e_Dispatch (snd (toBlocklisted d e r m))) = d_now d"
  by (simp_all add: toBlocklisted_def Let_def split_beta failedNow_time)

lemma toFailed_entry:
  "e_Phase (snd (toFailed d e r m)) = Failed" "e_FailureReason (snd (toFailed d e r m)) = r"
  "e_Block (snd (toFailed d e r m)) = e_Block e"
  "e_FailedAt (snd (toFailed d e r m)) = Some (case e_FailedAt e of None \<Rightarrow> d_now d | Some t \<Rightarrow> t)"
  "dp_DispatchedAt (e_Dispatch (snd (toFailed d e r m))) = d_now d"
  by (simp_all add: toFailed_def Let_def split_beta failedNow_time)

lemma blockOf_fields:
  "bl_Reason (blockOf d e r) = r" "bl_ConfirmedAt (blockOf d e r) = None" "bl_Scope (blockOf d e r) = ScopeFor r"
  by (simp_all add: blockOf_def)

text \<open>A transfer that failed is classified by its reason, and a failure without a reason is taken
  as a local fault. Except for an imported payload that can no longer be fetched, the entry stays:
  a release fault blocklists it and owes a block of the release, unconfirmed, scoped to every item
  exactly for an encrypted, mismatched or incomplete payload; any other failure fails the entry and
  leaves its block as it was. Both stamp the failure's time once and ask the engine to drop the
  transfer at a dispatch of this pass.\<close>

theorem failed_classified:
  assumes "failedStep d e rec = (d', e', k)"
    and "reason = (if IsFailure (tr_EngineFailureReason rec) then tr_EngineFailureReason rec else WriteError)"
    and "\<not> (reason = PayloadUnavailable \<and> imported e)"
  shows "k \<and> e_FailureReason e' = reason \<and> e_FailedAt e' = Some (case e_FailedAt e of None \<Rightarrow> d_now d | Some t \<Rightarrow> t) \<and>
    dp_DispatchedAt (e_Dispatch e') = d_now d \<and>
    (if IsReleaseFault reason
     then e_Phase e' = Blocklisted \<and>
          (\<exists>b. e_Block e' = Some b \<and> bl_Reason b = reason \<and> bl_ConfirmedAt b = None \<and>
               (bl_Scope b = BlockScopeGlobal \<longleftrightarrow> reason \<in> {Encrypted, PayloadMismatch, MissingArticles}))
     else e_Phase e' = Failed \<and> e_Block e' = e_Block e)"
proof -
  define d1 where "d1 = (if tr_Stage rec = StageUnset \<and> (e_Phase e = Assigned \<or> e_Phase e = Pending)
    then event d ''Warning'' ''DownloadAddFailed'' (''the engine could not add '' @ e_ID e @ '': '' @ clampString (tr_Message rec) 512)
    else d)"
  have now: "d_now d1 = d_now d" by (simp add: d1_def)
  have eq: "failedStep d e rec = (if IsReleaseFault reason
      then (case toBlocklisted d1 e reason (''the engine reported '' @ reason_string reason) of (d2, e2) \<Rightarrow> (d2, e2, True))
      else (case toFailed d1 e reason (''the engine reported '' @ reason_string reason) of (d2, e2) \<Rightarrow> (d2, e2, True)))"
    unfolding failedStep_def Let_def using assms(3) by (simp only: flip: assms(2) d1_def) (simp only: if_False)
  have e': "e' = (if IsReleaseFault reason
      then snd (toBlocklisted d1 e reason (''the engine reported '' @ reason_string reason))
      else snd (toFailed d1 e reason (''the engine reported '' @ reason_string reason)))" and "k"
    using assms(1) unfolding eq by (auto split: if_splits prod.splits)
  then show ?thesis
    unfolding e' using now
    by (simp add: toBlocklisted_entry toFailed_entry blockOf_fields ScopeFor_def split: option.split)
qed

theorem failed_classified_witness:
  "e_Phase (fst (snd (failedStep (new_decider h0 (view0 [])) (entry0 ''a'' Downloading)
      (record0\<lparr>tr_State := TransferFailed, tr_EngineFailureReason := Encrypted\<rparr>)))) = Blocklisted"
proof -
  let ?r = "record0\<lparr>tr_State := TransferFailed, tr_EngineFailureReason := Encrypted\<rparr>"
    and ?e = "entry0 ''a'' Downloading" and ?d = "new_decider h0 (view0 [])"
  have r: "Encrypted = (if IsFailure (tr_EngineFailureReason ?r) then tr_EngineFailureReason ?r else WriteError)" by code_simp
  have n: "\<not> (Encrypted = PayloadUnavailable \<and> imported ?e)" by simp
  have f: "IsReleaseFault Encrypted" by code_simp
  show ?thesis
    using failed_classified [OF triple r n] f by (simp only: if_True)
qed

end
