(* ===== verification/GrabCommands.thy ===== *)
theory GrabCommands
  imports GrabEvidence
begin

text \<open>
  The command fence of an entry: what seq a command carries, how the seq moves over a step, and when
  \<^verbatim>\<open>owe\<close> publishes a command and when it stays silent.
\<close>

section \<open>Sequence numbers\<close>

text \<open>\<open>seq_next\<close>: the dispatch seq a pass may move an entry to.\<close>

definition seq_next :: "decider \<Rightarrow> DownloadEntry \<Rightarrow> int" where
  "seq_next d e = nextSeq (recSeq (recordOf d e)) (dp_Seq (e_Dispatch e)) (d_now d)"

lemma seq_next_ctx: "same_ctx d d1 \<Longrightarrow> e_UID e1 = e_UID e \<Longrightarrow> dp_Seq (e_Dispatch e1) = dp_Seq (e_Dispatch e) \<Longrightarrow>
  seq_next d1 e1 = seq_next d e"
  by (simp add: seq_next_def recordOf_def same_ctx_def)

lemma stamp_seq: "dp_Seq (e_Dispatch (stamp d e)) = (if e_Engine e = '''' then dp_Seq (e_Dispatch e) else seq_next d e)"
  by (simp add: stamp_def seq_next_def)

text \<open>\<open>sq d e e'\<close>: the dispatch seq of \<open>e'\<close> is \<open>e\<close>'s or the next one.\<close>

definition sq :: "decider \<Rightarrow> DownloadEntry \<Rightarrow> DownloadEntry \<Rightarrow> bool" where
  "sq d e e' \<longleftrightarrow> e_UID e' = e_UID e \<and>
     (dp_Seq (e_Dispatch e') = dp_Seq (e_Dispatch e) \<or> dp_Seq (e_Dispatch e') = seq_next d e)"

definition untouched :: "decider \<Rightarrow> DownloadEntry \<Rightarrow> decider \<Rightarrow> DownloadEntry \<Rightarrow> bool" where
  "untouched d e d1 e1 \<longleftrightarrow> same_ctx d d1 \<and> e_UID e1 = e_UID e \<and> dp_Seq (e_Dispatch e1) = dp_Seq (e_Dispatch e)"

lemma sq_untouched [simp]: "untouched d e d1 e1 \<Longrightarrow> sq d e e1"
  by (simp add: untouched_def sq_def)

lemma sq_stamp [simp]: "untouched d e d1 e1 \<Longrightarrow> sq d e (stamp d1 e1)"
  by (auto simp: untouched_def sq_def stamp_seq seq_next_ctx)

lemma failedNow_dispatch [simp]: "e_Dispatch (failedNow d e) = e_Dispatch e"
  by (simp add: failedNow_def)

lemma mark_imported_dispatch [simp]: "e_Dispatch (mark_imported d e) = e_Dispatch e"
  by (simp add: mark_imported_def Let_def)

lemma untouched_cong [simp]:
  "untouched d e d1 (e1\<lparr>e_Phase := p\<rparr>) = untouched d e d1 e1"
  "untouched d e d1 (e1\<lparr>e_Message := m\<rparr>) = untouched d e d1 e1"
  "untouched d e d1 (e1\<lparr>e_FailureReason := r\<rparr>) = untouched d e d1 e1"
  "untouched d e d1 (e1\<lparr>e_Block := b\<rparr>) = untouched d e d1 e1"
  "untouched d e d1 (e1\<lparr>e_Import := im\<rparr>) = untouched d e d1 e1"
  "untouched d e d1 (e1\<lparr>e_CompletedAt := c\<rparr>) = untouched d e d1 e1"
  "untouched d e d1 (e1\<lparr>e_Client := cl\<rparr>) = untouched d e d1 e1"
  "untouched d e d1 (e1\<lparr>e_Engine := en\<rparr>) = untouched d e d1 e1"
  "untouched d e d1 (e1\<lparr>e_GrabbedAt := g\<rparr>) = untouched d e d1 e1"
  "untouched d e d1 (failedNow d2 e1) = untouched d e d1 e1"
  "untouched d e d1 (mark_imported d2 e1) = untouched d e d1 e1"
  "untouched d e d1 (follow_summary d2 e1) = untouched d e d1 e1"
  "untouched d e d1 (waiting e1 x y) = untouched d e d1 e1"
  "untouched d e d1 (livePhase d2 e1 rc) = untouched d e d1 e1"
  by (auto simp: untouched_def follow_summary_def waiting_def livePhase_def Let_def split: option.split)

lemma untouched_decider [simp]:
  "untouched d e (at d1 t) e1 = untouched d e d1 e1"
  "untouched d e (event d1 a b c) e1 = untouched d e d1 e1"
  "untouched d e (history d1 x a b) e1 = untouched d e d1 e1"
  "untouched d e (d1\<lparr>d_plan := pl\<rparr>) e1 = untouched d e d1 e1"
  by (simp_all add: untouched_def same_ctx_def)

lemma sq_transitions [simp]:
  assumes "untouched d e d1 e1"
  shows "sq d e (snd (issue d1 e1))" "sq d e (snd (toRemoving d1 e1 why))" "sq d e (snd (toFailed d1 e1 r m))"
    "sq d e (snd (toBlocklisted d1 e1 r m))" "sq d e (snd (toImported d1 e1))" "sq d e (snd (assign d1 e1 c k))"
  using assms
  by (simp_all add: toRemoving_def toFailed_def toBlocklisted_def toImported_def assign_def Let_def split_beta)

lemma sq_owe [simp]: "untouched d e d1 e1 \<Longrightarrow> sq d e (snd (owe d1 e1))"
  using owe_entry [OF surjective_pairing, of d1 e1] by (metis sq_stamp sq_untouched)

definition sqR :: "decider \<Rightarrow> DownloadEntry \<Rightarrow> decider \<times> DownloadEntry \<times> bool \<Rightarrow> bool" where
  "sqR d e r \<longleftrightarrow> sq d e (fst (snd r)) \<and> (\<not> snd (snd r) \<longrightarrow> untouched d e (fst r) (fst (snd r)))"

lemma sqR_simps [simp]:
  "untouched d e d1 e1 \<Longrightarrow> sqR d e (d1, e1, k)"
  "sq d e e1 \<Longrightarrow> sqR d e (d1, e1, True)"
  "sq d e (snd p) \<Longrightarrow> sqR d e (case p of (d2, e2) \<Rightarrow> (d2, e2, True))"
  by (simp_all add: sqR_def split_beta)

lemma sqR_owe_keep [simp]: "sqR d e r \<Longrightarrow> sqR d e (owe_keep r)"
  by (cases r) (simp add: sqR_def owe_keep_def split_beta)

lemma sqR_rows [simp]:
  assumes "untouched d e d1 e1"
  shows "sqR d e (importStep d1 e1)" "sqR d e (timeoutStep d1 e1 r c)" "sqR d e (seedingStep d1 e1 r c)"
    "sqR d e (failedStep d1 e1 r)" "sqR d e (pendingStep d1 i e1)"
  using assms
  unfolding importStep_def timeoutStep_def seedingStep_def failedStep_def pendingStep_def Let_def
  by (auto split: option.split ImportVerdict.split)

lemma sqR_rows2 [simp]:
  assumes "untouched d e d1 e1"
  shows "sqR d e (setImport d1 i e1)" "sqR d e (stalledStep d1 e1 r c)"
  using assms by (simp_all add: setImport_def stalledStep_def Let_def split: prod.split)

lemma sqR_completedStep [simp]: "untouched d e d1 e1 \<Longrightarrow> sqR d e (completedStep d1 i e1)"
  by (simp add: completedStep_def Let_def)

lemma sqR_heldStep [simp]: "untouched d e d1 e1 \<Longrightarrow> sqR d e (heldStep d1 i e1 r c)"
  by (simp add: heldStep_def Let_def)

lemma untouched_ctx: "untouched d e d1 e1 \<Longrightarrow> same_ctx d1 d2 \<Longrightarrow> untouched d e d2 e1"
  by (auto simp: untouched_def same_ctx_def)

lemma sqR_liveStep [simp]:
  assumes "untouched d e d1 e1"
  shows "sqR d e (liveStep d1 i e1 rec)"
proof -
  obtain d2 ok t where st: "settled d1 e1 = (d2, ok, t)" by (cases "settled d1 e1")
  note u2 = untouched_ctx [OF assms settled_same_ctx [OF st]]
  show ?thesis
    unfolding liveStep_def Let_def st using assms u2 by (simp split: option.split)
qed

lemma untouched_transferGone: "untouched d e d1 e1 \<Longrightarrow> untouched d e (fst (transferGone d1 e2 rec)) e1"
  by (rule untouched_ctx [OF _ grows_ctx [OF transferGone_quiet [OF grows_refl]]])

lemma sqR_removal [simp]:
  assumes "untouched d e d1 e1"
  shows "sqR d e (finishRemoval d1 e1)" "sqR d e (removingStep d1 e1 rec)"
  using assms untouched_transferGone [OF assms]
  by (simp_all add: finishRemoval_def removingStep_def split_beta)

lemma confirmBlock_untouched:
  "untouched d e d1 e1 \<Longrightarrow> untouched d e (fst (confirmBlock d1 e1 b)) (fst (snd (confirmBlock d1 e1 b)))"
  by (simp add: confirmBlock_def add_block_def split: option.split)

lemma sqR_terminalStep [simp]:
  assumes u: "untouched d e d1 e1"
  shows "sqR d e (terminalStep d1 e1 rec)"
proof (cases "case d_unblocked d1 of None \<Rightarrow> False | Some p \<Rightarrow> p e1")
  case True
  then show ?thesis
    using u untouched_transferGone [OF u] by (simp add: terminalStep_def Let_def split_beta)
next
  case False
  obtain d2 e2 ok where c: "(case (e_Phase e1, e_Block e1) of
      (Blocklisted, Some b) \<Rightarrow> confirmBlock d1 e1 b | _ \<Rightarrow> (d1, e1, True)) = (d2, e2, ok)"
    by (metis prod_cases3)
  have u2: "untouched d e d2 e2"
    using c u confirmBlock_untouched [OF u] by (auto split: DownloadPhase.splits option.splits) (metis fst_conv snd_conv)
  have u3: "untouched d e (fst (redownload d2 e2)) e2"
    by (rule untouched_ctx [OF u2 grows_ctx [OF redownload_quiet [OF grows_refl]]])
  show ?thesis
    unfolding terminalStep_def c Let_def
    using False untouched_transferGone [OF u3] by (simp add: split_beta split: option.split)
qed

lemma observe_dispatch_seq: "dp_Seq (observe_dispatch r dp) = max (dp_Seq dp) (tr_Seq r)"
  by (simp add: observe_dispatch_def Let_def)

lemma observe_dispatch_of: "e_Dispatch (snd (observe d e (Some r))) = observe_dispatch r (e_Dispatch e)"
  by (simp add: observe_def observe_seed_goal_def observe_message_def observe_fields_def Let_def)

lemma observe_seq:
  assumes "observe d e (recordOf d e) = (d1, e1)"
  shows "dp_Seq (e_Dispatch e1) = (case recordOf d e of None \<Rightarrow> dp_Seq (e_Dispatch e)
    | Some r \<Rightarrow> max (dp_Seq (e_Dispatch e)) (tr_Seq r))"
proof (cases "recordOf d e")
  case None
  with assms show ?thesis by (simp add: observe_def)
next
  case (Some r)
  with assms observe_dispatch_of [of d e r] show ?thesis by (simp add: observe_dispatch_seq)
qed

lemma step_sq:
  assumes "observe d e (recordOf d e) = (d1, e1)"
  shows "sq d e1 (fst (snd (step d i e)))"
proof -
  have u: "untouched d e1 d1 e1"
    using grows_ctx [OF observe_frame(1) [OF assms]] by (simp add: untouched_def)
  have "sqR d e1 (step d i e)"
    using u by (simp add: step_def assms Let_def split: DownloadPhase.split)
  then show ?thesis by (simp add: sqR_def)
qed

text \<open>The command fence of an entry only moves forward. As long as the int64 seqs have not run out,
  a step never lowers the entry's dispatch seq and never leaves it below the seq of the transfer
  record the engine holds, so no command the entry issues can be older than one the engine has
  applied.\<close>

theorem step_seq_monotone:
  assumes "step d i e = (d', e', k)" and "is_int64 (dp_Seq (e_Dispatch e) + 1)"
    and "\<And>r. recordOf d e = Some r \<Longrightarrow> is_int64 (tr_Seq r + 1)"
  shows "dp_Seq (e_Dispatch e) \<le> dp_Seq (e_Dispatch e') \<and>
    (\<forall>r. recordOf d e = Some r \<longrightarrow> tr_Seq r \<le> dp_Seq (e_Dispatch e'))"
proof -
  obtain d1 e1 where o: "observe d e (recordOf d e) = (d1, e1)" by fastforce
  note obs = observe_seq [OF o]
  have rec: "recordOf d e1 = recordOf d e" using observe_frame(3) [OF o] by (simp add: recordOf_def)
  have b: "is_int64 (dp_Seq (e_Dispatch e1) + 1)"
    using assms(2,3) obs by (auto split: option.splits simp: max_def)
  have "dp_Seq (e_Dispatch e1) \<le> dp_Seq (e_Dispatch e')"
    using step_sq [OF o, of i] assms(1) nextSeq_gt_status [OF b, of "recSeq (recordOf d e1)" "d_now d"]
    by (auto simp: sq_def seq_next_def)
  with obs show ?thesis by (auto split: option.splits)
qed

theorem step_seq_monotone_witness:
  "7 \<le> dp_Seq (e_Dispatch (fst (snd (step (new_decider h0 (with_record ''a'' record0 (view0 [entry0 ''a'' Downloading]))) 0
     (entry0 ''a'' Downloading)))))"
proof -
  let ?d = "new_decider h0 (with_record ''a'' record0 (view0 [entry0 ''a'' Downloading]))" and ?e = "entry0 ''a'' Downloading"
  have r: "recordOf ?d ?e = Some record0" by (simp add: recordOf_def new_decider_def view0_def entry0_def)
  have b: "is_int64 (dp_Seq (e_Dispatch ?e) + 1)" by code_simp
  have "is_int64 (tr_Seq record0 + 1)" by code_simp
  then have c: "is_int64 (tr_Seq x + 1)" if "recordOf ?d ?e = Some x" for x using that r by simp
  have s: "dp_Seq (e_Dispatch ?e) = 7" by code_simp
  from step_seq_monotone [OF triple b c] s show ?thesis by simp
qed

section \<open>Owing a command\<close>

text \<open>\<open>recent\<close>: the book holds the entry's current desired state at its current seq, and the command was
  published less than \<^verbatim>\<open>RepublishEvery\<close> ago within the republish window.\<close>

definition current :: "decider \<Rightarrow> DownloadEntry \<Rightarrow> IssuedCommand \<Rightarrow> bool" where
  "current d e b \<longleftrightarrow> v_Issued (d_v d) (e_UID e) = Some b \<and> is_Seq b = dp_Seq (e_Dispatch e) \<and>
     is_Hash b = hashOf d (desired d e)"

definition recent :: "decider \<Rightarrow> DownloadEntry \<Rightarrow> IssuedCommand \<Rightarrow> bool" where
  "recent d e b \<longleftrightarrow> time_sub (d_now d) (dp_DispatchedAt (e_Dispatch e)) < RepublishWindow \<and>
     \<not> is_zero (is_At b) \<and> time_sub (d_now d) (is_At b) < RepublishEvery"

text \<open>No command is repeated to an engine that has it. When the book holds the entry's desired state
  at its seq, and the engine's record answers that seq or the command was published recently, \<^verbatim>\<open>owe\<close>
  publishes nothing and leaves the entry as it is.\<close>

theorem owe_silent:
  assumes "current d e b" and "answered (recordOf d e) e \<or> recent d e b"
  shows "\<exists>d'. owe d e = (d', e) \<and> p_Commands (d_plan d') = p_Commands (d_plan d)"
proof -
  have q: "p_Commands (d_plan (at d0 t)) = p_Commands (d_plan d0)" for d0 t
    by (rule quiet_commands) simp
  show ?thesis
    using assms
    by (auto simp: owe_def owe_booked_def current_def recent_def Let_def q set_issued_def)
qed

abbreviation booked_view :: View where
  "booked_view \<equiv> (view0 [entry0 ''a'' Downloading])\<lparr>v_Issued := [''a'' \<mapsto> \<lparr>is_Seq = 7, is_Hash = ''digest'', is_At = now0 - minute\<rparr>],
     v_Transfers := [''a'' \<mapsto> \<lparr>t_Record = record0, t_Revision = 1\<rparr>]\<rparr>"

theorem owe_silent_witness:
  "\<exists>d'. owe (new_decider h0 booked_view) (entry0 ''a'' Downloading) = (d', entry0 ''a'' Downloading) \<and>
     p_Commands (d_plan d') = p_Commands (d_plan (new_decider h0 booked_view))"
proof (rule owe_silent)
  show "current (new_decider h0 booked_view) (entry0 ''a'' Downloading) \<lparr>is_Seq = 7, is_Hash = ''digest'', is_At = now0 - minute\<rparr>"
    by code_simp
  show "answered (recordOf (new_decider h0 booked_view) (entry0 ''a'' Downloading)) (entry0 ''a'' Downloading) \<or>
    recent (new_decider h0 booked_view) (entry0 ''a'' Downloading) \<lparr>is_Seq = 7, is_Hash = ''digest'', is_At = now0 - minute\<rparr>"
    by code_simp
qed

lemma emit_commands: "p_Commands (d_plan (emit d e rec k)) = p_Commands (d_plan d) @ [commandOf d e rec k]"
proof -
  have q: "p_Commands (d_plan (at d0 t)) = p_Commands (d_plan d0)" for d0 t by (rule quiet_commands) simp
  show ?thesis by (simp add: emit_def Let_def q set_issued_def add_command_def)
qed

lemma event_commands [simp]: "p_Commands (d_plan (event d a b c)) = p_Commands (d_plan d)"
  by (simp add: event_def)

definition sends :: "decider \<Rightarrow> decider \<Rightarrow> bool" where
  "sends d d' \<longleftrightarrow> (\<exists>c. p_Commands (d_plan d') = p_Commands (d_plan d) @ [c])"

lemma sends_issue: "e_Engine e \<noteq> '''' \<Longrightarrow> sends d (fst (issue d e))"
  by (simp add: sends_def issue_commands)

lemma sends_emit: "sends d (emit d e rec k)"
  by (simp add: sends_def emit_commands)

lemma sends_retry: "e_Engine e \<noteq> '''' \<Longrightarrow> sends d (mark_retry (fst (issue (event d a b c) e)))"
  by (simp add: sends_def mark_retry_def issue_commands)

lemma owe_booked_sends:
  assumes "e_Engine e \<noteq> ''''" and "\<not> answered rec e" and "is_Hash b = hashOf d (desired d e) \<Longrightarrow> \<not> recent d e b"
  shows "sends d (fst (owe_booked d e rec b))"
  using assms sends_issue [OF assms(1)] sends_emit sends_retry [OF assms(1)]
  by (auto simp: owe_booked_def recent_def Let_def split_beta)

lemma owe_sends:
  assumes "e_Engine e \<noteq> ''''" and "\<not> answered (recordOf d e) e" and "\<not> books d e"
    and "\<And>b. current d e b \<Longrightarrow> \<not> recent d e b"
  shows "sends d (fst (owe d e))"
proof -
  have nb: "\<not> (case p_Issued (d_plan d) (e_UID e) of None \<Rightarrow> False | Some i \<Rightarrow> is_Seq i = dp_Seq (e_Dispatch e))"
    using assms(3) by (auto simp: books_def split: option.splits)
  show ?thesis
  proof (cases "\<exists>b. v_Issued (d_v d) (e_UID e) = Some b \<and> is_Seq b = dp_Seq (e_Dispatch e)")
    case True
    then obtain b where b: "v_Issued (d_v d) (e_UID e) = Some b" "is_Seq b = dp_Seq (e_Dispatch e)" by blast
    have "owe d e = owe_booked d e (recordOf d e) b" using assms(1) nb b by (simp add: owe_def Let_def)
    with owe_booked_sends [OF assms(1,2), of b d] assms(4) [of b] b show ?thesis by (simp add: current_def)
  next
    case False
    then have "(case v_Issued (d_v d) (e_UID e) of None \<Rightarrow> True | Some b \<Rightarrow> is_Seq b \<noteq> dp_Seq (e_Dispatch e))"
      by (auto split: option.split)
    then have "owe d e = issue d e" using assms(1,2) nb by (simp add: owe_def Let_def)
    with sends_issue [OF assms(1)] show ?thesis by simp
  qed
qed

text \<open>C7: a command stays owed until the engine's record shows it. For an entry on an engine whose seq
  the record does not answer, and that was not issued in this pass, \<^verbatim>\<open>owe\<close> publishes exactly one
  command, the one the entry's (possibly new) dispatch asks for, unless it was published recently in
  the same form.\<close>

theorem owe_delivers:
  assumes "e_Engine e \<noteq> ''''" and "\<not> answered (recordOf d e) e" and "\<not> books d e"
    and "\<And>b. current d e b \<Longrightarrow> \<not> recent d e b"
  shows "\<exists>d' e' c. owe d e = (d', e') \<and> p_Commands (d_plan d') = p_Commands (d_plan d) @ [c] \<and> cmd_for e' c"
proof -
  obtain d' e' where o: "owe d e = (d', e')" by fastforce
  from owe_sends [OF assms] o obtain c where "p_Commands (d_plan d') = p_Commands (d_plan d) @ [c]"
    by (auto simp: sends_def)
  with o evolvesD(1) [OF owe_evolves [OF o]] show ?thesis by (auto simp: grows_def)
qed

theorem owe_delivers_witness:
  "\<exists>d' e' c. owe (new_decider h0 (view0 [])) (entry0 ''a'' Downloading) = (d', e') \<and>
     p_Commands (d_plan d') = p_Commands (d_plan (new_decider h0 (view0 []))) @ [c] \<and> cmd_for e' c"
proof (rule owe_delivers)
  show "e_Engine (entry0 ''a'' Downloading) \<noteq> ''''" by code_simp
  show "\<not> answered (recordOf (new_decider h0 (view0 [])) (entry0 ''a'' Downloading)) (entry0 ''a'' Downloading)" by code_simp
  show "\<not> books (new_decider h0 (view0 [])) (entry0 ''a'' Downloading)"
    by (simp add: books_def new_decider_def empty_plan_def)
  show "\<not> recent (new_decider h0 (view0 [])) (entry0 ''a'' Downloading) b"
    if "current (new_decider h0 (view0 [])) (entry0 ''a'' Downloading) b" for b
    using that by (simp add: current_def new_decider_def view0_def)
qed

section \<open>Redownload searches\<close>

text \<open>A failed grab owes a search exactly for the items that need one. \<^verbatim>\<open>redownload\<close> adds the covered
  items of the entry, in order, that are monitored, not satisfied and not searched since the failure,
  and holds the entry as long as there is one; a local fault, an expired hold and a failure older
  than the window owe none.\<close>

theorem redownload_owed:
  assumes "redownload d e = (d', keep)"
  shows "\<exists>owed. p_Redownloads (d_plan d') = p_Redownloads (d_plan d) @ owed \<and> (keep \<longleftrightarrow> owed \<noteq> []) \<and>
    set owed = (if e_Phase e = Failed \<and> e_FailureReason e \<in> {DiskFull, WriteError, ImportExpired, FailureUnset} \<or>
                   failureTime e = 0 \<or> time_sub (d_now d) (failureTime e) \<ge> RedownloadWindow
                then {}
                else {it \<in> set (coveredItems d e). \<not> v_Unmonitored (d_v d) it \<and> \<not> v_Satisfied (d_v d) it \<and>
                        (it = v_Owner (d_v d) \<longrightarrow> v_Monitored (d_v d)) \<and>
                        (\<forall>s. v_Searched (d_v d) it = Some s \<longrightarrow> s < failureTime e)})"
proof -
  have q: "p_Redownloads (d_plan (at d0 t)) = p_Redownloads (d_plan d0)" for d0 t by (simp add: at_def Let_def)
  define bad where "bad \<longleftrightarrow> e_Phase e = Failed \<and> e_FailureReason e \<in> {DiskFull, WriteError, ImportExpired, FailureUnset} \<or>
    failureTime e = 0 \<or> time_sub (d_now d) (failureTime e) \<ge> RedownloadWindow"
  define owed where "owed = (if bad then [] else filter (owes_search d (failureTime e)) (coveredItems d e))"
  have r: "p_Redownloads (d_plan d') = p_Redownloads (d_plan d) @ owed" "keep \<longleftrightarrow> owed \<noteq> []"
    using assms by (auto simp: redownload_def owed_def bad_def IsLocalFault_def Let_def q split: if_splits)
  have "owes_search d (failureTime e) it \<longleftrightarrow> \<not> v_Unmonitored (d_v d) it \<and> \<not> v_Satisfied (d_v d) it \<and>
      (it = v_Owner (d_v d) \<longrightarrow> v_Monitored (d_v d)) \<and> (\<forall>s. v_Searched (d_v d) it = Some s \<longrightarrow> s < failureTime e)" for it
    by (auto simp: owes_search_def split: option.split)
  then have "set owed = (if bad then {} else {it \<in> set (coveredItems d e). \<not> v_Unmonitored (d_v d) it \<and>
      \<not> v_Satisfied (d_v d) it \<and> (it = v_Owner (d_v d) \<longrightarrow> v_Monitored (d_v d)) \<and>
      (\<forall>s. v_Searched (d_v d) it = Some s \<longrightarrow> s < failureTime e)})"
    by (simp add: owed_def)
  with r show ?thesis unfolding bad_def by blast
qed

theorem redownload_owed_witness:
  "\<exists>owed. p_Redownloads (d_plan (fst (redownload (new_decider h0 (view0 [])) ((entry0 ''a'' Blocklisted)\<lparr>e_FailureReason := Stalled\<rparr>)))) = owed \<and>
     owed \<noteq> []"
proof -
  let ?d = "new_decider h0 (view0 [])" and ?e = "(entry0 ''a'' Blocklisted)\<lparr>e_FailureReason := Stalled\<rparr>"
  have k: "snd (redownload ?d ?e)" by code_simp
  have n: "p_Redownloads (d_plan ?d) = []" by code_simp
  from redownload_owed [OF surjective_pairing, of ?d ?e] k n show ?thesis by (elim exE conjE) simp
qed

end
