(* ===== verification/GrabPhases.thy ===== *)
theory GrabPhases
  imports GrabEvidence
begin

text \<open>
  The abstract phase machine of a grab entry and its refinement by \<^verbatim>\<open>step\<close>: which phases follow which,
  with and without a finished import, and what holds over an entry's whole lifetime.
\<close>

section \<open>The machine\<close>

definition held_phase :: "DownloadPhase \<Rightarrow> bool" where
  "held_phase p \<longleftrightarrow> p \<in> {Assigned, Queued, Downloading, Paused, Completed, Seeding, Imported}"

text \<open>\<open>edge imp p q\<close>: an entry in phase \<open>p\<close>, imported iff \<open>imp\<close>, may be in phase \<open>q\<close> after a step.\<close>

inductive edge :: "bool \<Rightarrow> DownloadPhase \<Rightarrow> DownloadPhase \<Rightarrow> bool" for imp where
  wait: "p \<in> {PhaseUnset, Pending} \<Longrightarrow> edge imp p Pending"
| assign: "p \<in> {PhaseUnset, Pending} \<Longrightarrow> edge imp p Assigned"
| withdraw: "p \<in> {PhaseUnset, Pending} \<or> held_phase p \<Longrightarrow> edge imp p Removing"
| stay: "p \<noteq> PhaseUnset \<Longrightarrow> edge imp p p"
| reassign: "edge imp Assigned Pending"
| pause: "held_phase p \<Longrightarrow> edge imp p Paused"
| resume: "\<not> imp \<Longrightarrow> edge imp Paused Assigned"
| progress: "held_phase p \<Longrightarrow> \<not> imp \<Longrightarrow> q \<in> {Queued, Downloading, Completed} \<Longrightarrow> edge imp p q"
| finish: "held_phase p \<Longrightarrow> q \<in> {Seeding, Imported} \<Longrightarrow> edge imp p q"
| fail: "held_phase p \<Longrightarrow> q \<in> {Failed, Blocklisted} \<Longrightarrow> edge imp p q"

inductive_simps edge_simps: "edge imp p q"

lemma edge_terminal:
  assumes "edge imp p q" and "p \<in> {Removing, Failed, Blocklisted}"
  shows "q = p"
  using assms by cases (auto simp: held_phase_def)

section \<open>The phases of each row\<close>

definition ph :: "decider \<times> DownloadEntry \<times> bool \<Rightarrow> DownloadPhase" where
  "ph r = e_Phase (fst (snd r))"

lemma ph_simps [simp]: "ph (d, e, k) = e_Phase e" "ph (case p of (d1, e1) \<Rightarrow> (d1, e1, k)) = e_Phase (snd p)"
  by (simp_all add: ph_def split_beta)

lemma ph_owe_keep [simp]: "ph (owe_keep r) = ph r"
proof (cases r)
  case (fields d e k)
  show ?thesis
    using owe_entry [OF surjective_pairing, of d e] fields by (auto simp: owe_keep_def split_beta)
qed

lemma phase_transitions [simp]:
  "e_Phase (snd (toRemoving d e why)) = Removing" "e_Phase (snd (toFailed d e r m)) = Failed"
  "e_Phase (snd (toBlocklisted d e r m)) = Blocklisted" "e_Phase (snd (toImported d e)) = afterImport e"
  "e_Phase (snd (assign d e c k)) = Assigned" "e_Phase (snd (issue d e)) = e_Phase e"
  by (simp_all add: toRemoving_def toFailed_def toBlocklisted_def toImported_def assign_def mark_imported_def
      Let_def split_beta)

lemma afterImport_phase: "afterImport e \<in> {Seeding, Imported}"
  by (simp add: afterImport_def)

lemma ph_pendingStep: "ph (pendingStep d i e) \<in> {Pending, Assigned, Removing}"
  by (simp add: pendingStep_def Let_def split: option.split)

lemma ph_failedStep: "ph (failedStep d e r) \<in> {e_Phase e, Failed, Blocklisted}"
  unfolding failedStep_def Let_def by simp

lemma ph_importStep: "ph (importStep d e) \<in> {e_Phase e, Seeding, Imported, Failed, Blocklisted}"
  unfolding importStep_def Let_def
  using afterImport_phase [of e] afterImport_phase [of "e\<lparr>e_Import := x\<rparr>" for x]
  by (auto split: option.split ImportVerdict.split)

lemma ph_setImport: "ph (setImport d i e) \<in> {e_Phase e, Seeding, Imported, Failed, Blocklisted}"
  using afterImport_phase [of "follow_summary d e"] ph_importStep [of d e] ph_importStep [of d "e\<lparr>e_Message := ''''\<rparr>"]
  by (auto simp: setImport_def Let_def split: prod.split)

lemma ph_stalledStep: "ph (stalledStep d e r c) \<in> {e_Phase e, Blocklisted}"
  by (simp add: stalledStep_def timeoutStep_def Let_def split: option.split)

lemma ph_completedStep: "ph (completedStep d i e) \<in> {e_Phase e, Seeding, Imported, Failed, Blocklisted}"
  using ph_importStep [of _ e] ph_setImport [of _ i e]
    ph_importStep [of _ "e\<lparr>e_CompletedAt := Some (d_now d)\<rparr>"] ph_setImport [of _ i "e\<lparr>e_CompletedAt := Some (d_now d)\<rparr>"]
  by (simp add: completedStep_def Let_def)

lemma ph_seedingStep: "ph (seedingStep d e r c) \<in> {e_Phase e, Removing}"
  by (simp add: seedingStep_def Let_def)

lemma livePhase_edge:
  assumes "held_phase (e_Phase e)"
  shows "edge (imported e) (e_Phase e) (e_Phase (livePhase d e r))" "held_phase (e_Phase (livePhase d e r))"
proof -
  have p: "phaseOfStage (tr_Stage r) (e_Phase e) \<in> {e_Phase e, Queued, Downloading, Completed} \<or>
      e_Phase e = Paused \<and> phaseOfStage (tr_Stage r) (e_Phase e) = Assigned"
    using assms by (cases "tr_Stage r") (auto simp: held_phase_def)
  let ?q = "e_Phase (livePhase d e r)"
  have "?q = Paused \<or> ?q \<in> {Seeding, Imported} \<or> \<not> imported e \<and>
      (?q \<in> {e_Phase e, Queued, Downloading, Completed} \<or> e_Phase e = Paused \<and> ?q = Assigned)"
    using p afterImport_phase [of e] by (auto simp: livePhase_def Let_def)
  then show "edge (imported e) (e_Phase e) ?q" "held_phase ?q"
    using assms by (auto simp: edge_simps held_phase_def)
qed

lemma heldStep_edge:
  assumes "held_phase (e_Phase e)"
  shows "edge (imported e) (e_Phase e) (ph (heldStep d i e r c))"
proof -
  let ?l = "livePhase d e r"
  note l = livePhase_edge [OF assms, of d r]
  have "ph (heldStep d i e r c) \<in> {e_Phase ?l, Removing, Seeding, Imported, Failed, Blocklisted}"
    using ph_stalledStep [of d ?l r c] ph_completedStep [of d i ?l] ph_seedingStep [of d ?l r c]
    by (auto simp: heldStep_def Let_def)
  then show ?thesis
    using l(1) assms by (auto intro: edge.intros)
qed

lemma liveStep_edge:
  assumes h: "held_phase (e_Phase e)"
  shows "edge (imported e) (e_Phase e) (ph (liveStep d i e rec))"
proof -
  obtain d2 ok t where st: "settled d e = (d2, ok, t)" by (cases "settled d e")
  have re: "edge (imported e) Assigned (ph (pendingStep d i x))" for x
    using ph_pendingStep [of d i x] by (auto simp: edge_simps held_phase_def)
  have fl: "edge (imported e) (e_Phase e) (ph (failedStep d0 e r))" for d0 r
    using ph_failedStep [of d0 e r] h by (auto simp: edge_simps held_phase_def)
  have same: "edge (imported e) (e_Phase e) (e_Phase e)" using h by (auto intro: edge.stay simp: held_phase_def)
  have rm: "edge (imported e) (e_Phase e) Removing" using h by (auto intro: edge.withdraw)
  show ?thesis
    unfolding liveStep_def Let_def st
    using re fl same rm heldStep_edge [OF h] by (auto split: option.split)
qed

section \<open>Refinement\<close>

lemma terminal_rows_phase:
  "ph (removingStep d e rec) = e_Phase e" "ph (finishRemoval d e) = e_Phase e"
  by (simp_all add: removingStep_def finishRemoval_def split_beta)

lemma confirmBlock_phase: "e_Phase (fst (snd (confirmBlock d e b))) = e_Phase e"
  by (simp add: confirmBlock_def split: option.split)

lemma ph_terminalStep: "ph (terminalStep d e rec) = e_Phase e"
  by (simp add: terminalStep_def Let_def split_beta terminal_rows_phase confirmBlock_phase
      split: option.split DownloadPhase.split)

lemma step_edge:
  assumes "step d i e = (d', e', k)"
  shows "edge (imported e) (e_Phase e) (e_Phase e')"
proof -
  obtain d1 e1 where o: "observe d e (recordOf d e) = (d1, e1)" by fastforce
  have p: "e_Phase e1 = e_Phase e" using o by (rule observe_frame)
  have im: "imported e1 = imported e" using observe_frame(6) [OF o] by (rule imported_cong)
  have "edge (imported e) (e_Phase e) (ph (step d i e))"
  proof (cases "held_phase (e_Phase e)")
    case True
    with liveStep_edge [of e1 d1 i "recordOf d e"] p im show ?thesis
      by (auto simp: step_def o Let_def held_phase_def split: DownloadPhase.split)
  next
    case False
    with p ph_pendingStep [of d1 i e1] show ?thesis
      by (cases "e_Phase e") (auto simp: step_def o Let_def held_phase_def edge_simps terminal_rows_phase ph_terminalStep)
  qed
  with assms show ?thesis by (simp add: ph_def)
qed

text \<open>C8: every step of an entry follows the phase machine: whatever the view holds, the phase after the
  step is one the machine allows from the phase before it. In particular an imported entry never
  returns to downloading, and Removing, Failed and Blocklisted are left by no step.\<close>

theorem step_follows_machine:
  assumes "step d i e = (d', e', k)"
  shows "edge (imported e) (e_Phase e) (e_Phase e')"
  using assms by (rule step_edge)

theorem step_follows_machine_witness:
  "edge False Downloading (e_Phase (fst (snd (step (new_decider h0 (view0 [entry0 ''a'' Downloading])) 0 (entry0 ''a'' Downloading)))))"
proof -
  have im: "imported (entry0 ''a'' Downloading) = False" by code_simp
  have p: "e_Phase (entry0 ''a'' Downloading) = Downloading" by code_simp
  show ?thesis
    using step_follows_machine [OF triple, where d = "new_decider h0 (view0 [entry0 ''a'' Downloading])" and i = 0 and e = "entry0 ''a'' Downloading"]
    unfolding im p .
qed

section \<open>A lifetime\<close>

text \<open>\<open>lifetime e e'\<close>: a sequence of steps that keep the entry, each in a decider of its own (another
  pass, other records, another clock), leads from \<open>e\<close> to \<open>e'\<close>.\<close>

inductive lifetime :: "DownloadEntry \<Rightarrow> DownloadEntry \<Rightarrow> bool" where
  born: "lifetime e e"
| lives: "lifetime e e1 \<Longrightarrow> step d i e1 = (d', e2, True) \<Longrightarrow> lifetime e e2"

text \<open>An entry that left service stays out of it for as long as it lives: over any sequence of steps
  it keeps its identity, and once it is Removing, Failed or Blocklisted its phase never changes
  again, so no later pass asks for its transfer to be present.\<close>

theorem lifetime_terminal:
  assumes "lifetime e e'"
  shows "e_UID e' = e_UID e \<and> e_ID e' = e_ID e \<and> (\<not> live e \<longrightarrow> e_Phase e' = e_Phase e \<and> \<not> live e')"
  using assms
proof (induction rule: lifetime.induct)
  case (lives e e1 d i d' e2)
  have "e_UID e2 = e_UID e1" "e_ID e2 = e_ID e1" using evolvesD(2,3) [OF step_evolves [OF lives.hyps(2)]] by auto
  moreover have "e_Phase e2 = e_Phase e1" if "\<not> live e1"
    using edge_terminal [OF step_edge [OF lives.hyps(2)]] that by (auto simp: live_def)
  ultimately show ?case using lives.IH by (auto simp: live_def)
qed simp

theorem lifetime_terminal_witness:
  "\<not> live (fst (snd (step (new_decider h0 (view0 [])) 0 (entry0 ''a'' Failed))))"
proof -
  let ?d = "new_decider h0 (view0 [])" and ?e = "entry0 ''a'' Failed"
  have k: "snd (snd (step ?d 0 ?e)) = True" by code_simp
  have "lifetime ?e (fst (snd (step ?d 0 ?e)))"
    by (rule lifetime.lives [OF lifetime.born result_split [OF refl k]])
  moreover have "\<not> live ?e" by code_simp
  ultimately show ?thesis using lifetime_terminal by blast
qed

end
