(* ===== verification/GrabPlacement.thy ===== *)
theory GrabPlacement
  imports GrabEvidence
begin

text \<open>
  Where a grab goes and how it is named: the client and the engine instance chosen for it, the name
  of an engine instance and how it is read back, the phase an owner shows for its grabs, the clamp of
  a message, and the entry re-created from a transfer's claim.
\<close>

section \<open>Choosing a client\<close>

lemma find_NoneD: "find P xs = None \<Longrightarrow> x \<in> set xs \<Longrightarrow> \<not> P x"
  by (induction xs) (auto split: if_splits)

text \<open>The client chosen for a grab serves it, and there is one whenever any client does. The client
  the release's indexer names is taken when it serves the protocol; otherwise no other serving
  client has a lower priority, or the same and a smaller name.\<close>

theorem ChooseClient_best:
  "case ChooseClient clients protocol ref of
     None \<Rightarrow> \<forall>c \<in> set clients. \<not> serves protocol c
   | Some c \<Rightarrow> c \<in> set clients \<and> serves protocol c \<and>
       (if ref \<noteq> '''' \<and> (\<exists>x \<in> set clients. serves protocol x \<and> cl_Name x = ref) then cl_Name c = ref
        else \<forall>x \<in> set clients. serves protocol x \<longrightarrow>
          cl_Priority c < cl_Priority x \<or> (cl_Priority c = cl_Priority x \<and> cl_Name c \<le> cl_Name x))"
proof (cases "if ref \<noteq> '''' then find (\<lambda>c. cl_Name c = ref \<and> cl_Enabled c \<and> cl_Protocol c = protocol) clients else None")
  case (Some c)
  then have "ref \<noteq> ''''" "c \<in> set clients" "cl_Name c = ref" "serves protocol c"
    by (auto simp: serves_def dest: find_SomeD split: if_splits)
  with Some show ?thesis by (auto simp: ChooseClient_def)
next
  case None
  then have no: "ref = '''' \<or> (\<forall>x \<in> set clients. serves protocol x \<longrightarrow> cl_Name x \<noteq> ref)"
    by (auto simp: serves_def dest: find_NoneD split: if_splits)
  have eq: "ChooseClient clients protocol ref = scan_best (serves protocol) clientLess clients"
    using None by (simp add: ChooseClient_def)
  show ?thesis
  proof (cases "scan_best (serves protocol) clientLess clients")
    case None
    with eq show ?thesis by (simp add: scan_best_None_iff)
  next
    case (Some c)
    have "cl_Priority c < cl_Priority x \<or> (cl_Priority c = cl_Priority x \<and> cl_Name c \<le> cl_Name x)"
      if "x \<in> set clients" "serves protocol x" for x
      using client_scan.scan_minimal [OF Some that] by (auto simp: clientLess_def less_by_def)
    with eq Some no scan_best_in [OF Some] show ?thesis by auto
  qed
qed

theorem ChooseClient_best_witness:
  "serves Torrent client0 \<and> ChooseClient [client0\<lparr>cl_Name := ''zz''\<rparr>, client0] Torrent '''' = Some client0"
proof
  show "serves Torrent client0" by code_simp
  have n: "cl_Name client0 = ''qb''" by code_simp
  have s: "serves Torrent client0" "serves Torrent (client0\<lparr>cl_Name := ''zz''\<rparr>)" by code_simp+
  have lt: "\<not> (''zz'' \<le> ''qb'')" by code_simp
  show "ChooseClient [client0\<lparr>cl_Name := ''zz''\<rparr>, client0] Torrent '''' = Some client0"
    using ChooseClient_best [of "[client0\<lparr>cl_Name := ''zz''\<rparr>, client0]" Torrent "''''"] n s lt
    by (auto split: option.splits)
qed

section \<open>Choosing an engine instance\<close>

definition tie_inv :: "string \<Rightarrow> (string \<rightharpoonup> Engine) \<Rightarrow> time \<Rightarrow> int \<Rightarrow> int list \<Rightarrow> int \<times> int \<Rightarrow> bool" where
  "tie_inv client engines now hashed seen = (\<lambda>(best, bestLoad).
     hashed \<in> set seen \<longrightarrow> 0 \<le> best \<longrightarrow> ready_at client engines now hashed bestLoad \<longrightarrow> best = hashed)"

lemma tie_step:
  assumes "tie_inv client engines now hashed seen s" and "ordinal_inv client engines now seen s" and "0 \<le> x"
  shows "tie_inv client engines now hashed (seen @ [x]) (ordinal_step client engines now hashed s x)"
  using assms unfolding tie_inv_def ordinal_inv_def ordinal_step_def ready_at_def
  by (cases s) (auto split: option.splits if_splits)

lemma tie_fold:
  "(\<And>x. x \<in> set xs \<Longrightarrow> 0 \<le> x) \<Longrightarrow>
   tie_inv client engines now hashed xs (foldl (ordinal_step client engines now hashed) (-1, 0) xs)"
proof (induction xs rule: rev_induct)
  case Nil
  then show ?case by (simp add: tie_inv_def)
next
  case (snoc x xs)
  then show ?case
    using tie_step [of client engines now hashed xs _ x] ordinal_fold_inv [of xs client engines now hashed] by simp
qed

text \<open>The engine instance chosen for a grab is one of the client's replicas, Ready on a fresh record,
  with the smallest load of the Ready ones; the hashed instance is taken whenever it is among the
  least loaded. No instance is chosen only when none is Ready.\<close>

theorem ChooseOrdinal_least_loaded:
  "case ChooseOrdinal digest c engines infoHash guid now of
     None \<Rightarrow> \<forall>k e. 0 \<le> k \<longrightarrow> k < replicasOf c \<longrightarrow> engines (EngineName (cl_Name c) k) = Some e \<longrightarrow> \<not> engineReady e now
   | Some b \<Rightarrow> 0 \<le> b \<and> b < replicasOf c \<and>
       (\<exists>e. engines (EngineName (cl_Name c) b) = Some e \<and> engineReady e now \<and>
          (\<forall>k x. 0 \<le> k \<longrightarrow> k < replicasOf c \<longrightarrow> engines (EngineName (cl_Name c) k) = Some x \<longrightarrow> engineReady x now \<longrightarrow>
             engineLoad e \<le> engineLoad x \<and>
             (k = HashOrdinal digest (replicasOf c) [infoHash, guid] \<longrightarrow> engineLoad x = engineLoad e \<longrightarrow> b = k)))"
proof (cases "ChooseOrdinal digest c engines infoHash guid now")
  case None
  with ChooseOrdinal_None [THEN iffD1, OF None] show ?thesis by simp
next
  case (Some b)
  let ?h = "HashOrdinal digest (replicasOf c) [infoHash, guid]"
  have tie: "tie_inv (cl_Name c) engines now ?h (ordinals (replicasOf c))
      (foldl (ordinal_step (cl_Name c) engines now ?h) (-1, 0) (ordinals (replicasOf c)))"
    by (rule tie_fold) simp
  have inv: "ordinal_inv (cl_Name c) engines now (ordinals (replicasOf c))
      (foldl (ordinal_step (cl_Name c) engines now ?h) (-1, 0) (ordinals (replicasOf c)))"
    by (rule ordinal_fold_inv) simp
  show ?thesis
    using Some tie inv
    by (auto simp: ChooseOrdinal_def Let_def tie_inv_def ordinal_inv_def ready_at_def split: if_splits prod.splits)
qed

theorem ChooseOrdinal_least_loaded_witness:
  "\<exists>e. [''qb-0'' \<mapsto> engine0] (EngineName ''qb'' 0) = Some e \<and> engineReady e now0"
proof -
  have c: "ChooseOrdinal (h_sum64 h0) client0 [''qb-0'' \<mapsto> engine0] ''aa'' ''guid'' now0 = Some 0" by code_simp
  have n: "cl_Name client0 = ''qb''" by code_simp
  show ?thesis
    using ChooseOrdinal_least_loaded [where digest = "h_sum64 h0" and c = client0 and engines = "[''qb-0'' \<mapsto> engine0]"
        and infoHash = "''aa''" and guid = "''guid''" and now = now0]
    unfolding c n option.case by blast
qed

section \<open>Engine names\<close>

text \<open>The name of an engine instance reads back as its client and ordinal, for every client name and
  every int32 ordinal, so two instances never share a name.\<close>

theorem splitEngine_roundtrip:
  assumes "client \<noteq> ''''" and "0 \<le> n" and "n < 2 ^ 31"
  shows "splitEngine (EngineName client n) = Some (client, n)"
  using assms by (rule splitEngine_EngineName)

theorem splitEngine_roundtrip_witness: "splitEngine (EngineName ''usenet-local'' 12) = Some (''usenet-local'', 12)"
  by (rule splitEngine_roundtrip) simp_all

section \<open>The phase an owner shows\<close>

interpretation entry_scan: scan_order entryLess
  unfolding entryLess_def by (rule less_by_scan_order)

text \<open>An owner shows the phase of the earliest grab still to be imported: of the entries that are
  neither donors nor settled, one no other was grabbed before (the id breaking ties); none when there
  is no such entry.\<close>

theorem activePhase_earliest:
  "(activePhase es = PhaseUnset \<and> (\<forall>e \<in> set es. \<not> (nonTerminal e \<and> e_Purpose e \<noteq> AudioDonor))) \<or>
   (\<exists>m \<in> set es. nonTerminal m \<and> e_Purpose m \<noteq> AudioDonor \<and> activePhase es = e_Phase m \<and>
      (\<forall>e \<in> set es. nonTerminal e \<longrightarrow> e_Purpose e \<noteq> AudioDonor \<longrightarrow>
         e_GrabbedAt m < e_GrabbedAt e \<or> (e_GrabbedAt m = e_GrabbedAt e \<and> e_ID m \<le> e_ID e)))"
proof (cases "scan_best activeEntry entryLess es")
  case None
  then show ?thesis
    using scan_best_None_iff [of activeEntry entryLess es] by (auto simp: activePhase_def activeEntry_def)
next
  case (Some m)
  have "e_GrabbedAt m < e_GrabbedAt e \<or> (e_GrabbedAt m = e_GrabbedAt e \<and> e_ID m \<le> e_ID e)"
    if "e \<in> set es" "activeEntry e" for e
    using entry_scan.scan_minimal [OF Some that] by (auto simp: entryLess_def less_by_def)
  with Some scan_best_in [OF Some] show ?thesis
    by (auto simp: activePhase_def activeEntry_def)
qed

theorem activePhase_earliest_witness:
  "\<exists>m \<in> {entry0 ''a'' Downloading, entry0 ''b'' Failed}. activePhase [entry0 ''a'' Downloading, entry0 ''b'' Failed] = e_Phase m"
proof -
  have n: "nonTerminal (entry0 ''a'' Downloading)" "e_Purpose (entry0 ''a'' Downloading) \<noteq> AudioDonor" by code_simp+
  show ?thesis using activePhase_earliest [of "[entry0 ''a'' Downloading, entry0 ''b'' Failed]"] n by auto
qed

section \<open>Clamped strings\<close>

text \<open>A clamped string is a prefix of at most n bytes, the whole string when it fits, and never cut
  inside a UTF-8 sequence: the first byte it leaves out starts a rune (or nothing is kept).\<close>

theorem clampString_prefix:
  "length (clampString s n) \<le> n \<and> (length s \<le> n \<longrightarrow> clampString s n = s) \<and>
   (\<exists>k. clampString s n = take k s \<and> (k < length s \<longrightarrow> k = 0 \<or> rune_start (s ! k)))"
proof (cases "length s \<le> n")
  case True
  then show ?thesis by (auto simp: clampString_def intro: exI [of _ "length s"])
next
  case False
  then show ?thesis
    using clamp_back_le [of s n] clamp_back_start [of s n] by (auto simp: clampString_def)
qed

theorem clampString_prefix_witness: "clampString ''short'' 10 = ''short''"
  using clampString_prefix [of "''short''" 10] by simp

end
