(* ===== verification/GrabRequests.thy ===== *)
theory GrabRequests
  imports GrabEvidence
begin

text \<open>
  What people and other components ask of the planner: the one-shot annotations and their nonces, the
  packs that supersede single episodes, the parts of a set and their import, the stall and timeout
  judgement, and the entries re-created from a transfer's claim.
\<close>

section \<open>Parsing\<close>

lemma ParseIntents_settled:
  assumes "a \<in> set oneShots" and "ann a \<noteq> ''''"
  shows "parsed (ParseIntents ann) a \<or> listed_invalid (ParseIntents ann) a"
  unfolding ParseIntents_def Let_def by (rule parse_all_settles) (use assms in auto)

text \<open>Every one-shot annotation with a value is settled by the parser: its intent is set, or the value
  is listed as invalid; none is silently lost.\<close>

theorem ParseIntents_settles:
  assumes "a \<in> set oneShots" and "ann a \<noteq> ''''"
  shows "parsed (ParseIntents ann) a \<or> (\<exists>iv \<in> set (in_Invalid (ParseIntents ann)). iv_Annotation iv = a)"
  using ParseIntents_settled [of a ann] assms by (simp add: listed_invalid_def)

theorem ParseIntents_settles_witness:
  "parsed (ParseIntents ((\<lambda>a. '''')(AnnotationDownloadRemove := ''n1 g-a data''))) AnnotationDownloadRemove \<or>
   (\<exists>iv \<in> set (in_Invalid (ParseIntents ((\<lambda>a. '''')(AnnotationDownloadRemove := ''n1 g-a data'')))).
      iv_Annotation iv = AnnotationDownloadRemove)"
  by (rule ParseIntents_settles) (simp_all add: oneShots_def)

section \<open>A one-shot intent is handled once\<close>

lemma nonce_get_set:
  "nonce_get (nonce_set n a v) b = (if a = b \<and> nonce_get n b \<noteq> None then Some v else nonce_get n b)"
  by (simp add: nonce_get_def nonce_set_def)

lemma pending_frame [simp]:
  "d_pending (event d x y z) a = d_pending d a" "d_pending (at d t) a = d_pending d a"
  "d_pending (d\<lparr>d_unblocked := u\<rparr>) a = d_pending d a" "d_pending (add_block d b) a = d_pending d a"
  by (simp_all add: d_pending_def event_def at_def add_block_def Let_def split: option.split)

lemma pending_grows: "grows U C B d d' \<Longrightarrow> d_pending d' a = d_pending d a"
  by (auto simp: d_pending_def grows_def same_ctx_def split: option.split)

lemma pending_record:
  "d_pending (record_nonce d b v) a =
     (if a = b \<and> nonce_get (p_Nonces (d_plan d)) a \<noteq> None
      then intent_pending (h_nonce (d_h d)) (v_Intents (d_v d)) a v else d_pending d a)"
  by (auto simp: d_pending_def record_nonce_def nonce_get_set split: option.splits)

text \<open>Recording never makes a settled intent pending again; the record of an intent's own key settles it.\<close>

definition settles :: "decider \<Rightarrow> decider \<Rightarrow> bool" where
  "settles d d' \<longleftrightarrow> d_h d' = d_h d \<and> d_v d' = d_v d \<and> (\<forall>a. d_pending d' a \<longrightarrow> d_pending d a)"

lemma settles_refl [simp]: "settles d d"
  by (simp add: settles_def)

lemma settles_trans: "settles d d1 \<Longrightarrow> settles d1 d2 \<Longrightarrow> settles d d2"
  by (simp add: settles_def)

lemma settles_frame [simp]:
  "settles d d1 \<Longrightarrow> settles d (event d1 x y z)" "settles d d1 \<Longrightarrow> settles d (at d1 t)"
  "settles d d1 \<Longrightarrow> settles d (add_block d1 b)" "settles d d1 \<Longrightarrow> settles d (d1\<lparr>d_unblocked := u\<rparr>)"
  by (simp_all add: settles_def) (simp_all add: add_block_def)

lemma settles_grows: "settles d d1 \<Longrightarrow> grows U C B d1 d2 \<Longrightarrow> settles d d2"
  using pending_grows [of U C B d1 d2] grows_ctxD(1,2) [of U C B d1 d2] by (simp add: settles_def)

lemma record_key_settles:
  assumes "v = NonceKey (h_nonce (d_h d)) (v_Intents (d_v d)) a"
  shows "settles d (record_nonce d a v)"
  using assms intent_pending_recorded
  by (auto simp: settles_def pending_record) (simp_all add: record_nonce_def)

lemma record_key_done:
  assumes "v = NonceKey (h_nonce (d_h d)) (v_Intents (d_v d)) a"
  shows "\<not> d_pending (record_nonce d a v) a"
  using assms intent_pending_recorded by (auto simp: pending_record) (simp add: d_pending_def)

lemma pending_raw: "d_pending d a \<Longrightarrow> in_raw (v_Intents (d_v d)) a \<noteq> ''''"
  by (auto simp: d_pending_def intent_pending_def NonceKey_def Let_def split: option.splits)

lemma NonceKey_parsed:
  assumes "in_raw i a \<noteq> ''''"
  shows "a = AnnotationDownloadRemove \<Longrightarrow> in_Remove i = Some r \<Longrightarrow> NonceKey h i a = ri_Nonce r"
    "a = AnnotationDownloadResume \<Longrightarrow> in_Resume i = Some s \<Longrightarrow> NonceKey h i a = rs_Nonce s"
    "a = AnnotationDownloadImport \<Longrightarrow> in_Import i = Some m \<Longrightarrow> NonceKey h i a = ii_Nonce m"
    "a = AnnotationDownloadUnblock \<Longrightarrow> in_Unblock i = Some u \<Longrightarrow> NonceKey h i a = ub_Nonce u"
  using assms by (simp_all add: NonceKey_def Let_def)

lemma remove_entry_grows: "\<exists>U C B. grows U C B d (fst (remove_entry d e r))"
proof -
  have "evolves d e (fst (remove_entry d e r)) (snd (remove_entry d e r))"
    using ev2_def [of d e "remove_entry d e r"] by (simp add: remove_entry_def Let_def flip: ev2_def)
  then show ?thesis by (auto simp: evolves_def)
qed

lemma raw_ParseIntents: "in_raw (ParseIntents ann) a \<noteq> '''' \<Longrightarrow> ann a \<noteq> ''''"
proof -
  define P where "P = (\<lambda>i :: Intents. \<forall>b. in_raw i b = '''' \<or> in_raw i b = ann b)"
  have pri: "P (foldl (parse_priority_one q) i xs)" if "P i" for q i xs
    using that by (induction xs arbitrary: i) (auto simp: P_def parse_priority_one_def Let_def split: prod.split)
  have one: "P (foldl (parse_one_shot_at ann) i as)" if "P i" for i as
    using that
  proof (induction as arbitrary: i)
    case (Cons a as)
    have "P (parse_one_shot_at ann i a)"
      using Cons.prems parseOneShot_frame(1) [of "i\<lparr>in_raw := (in_raw i)(a := ann a)\<rparr>" a "ann a"]
      by (auto simp: P_def parse_one_shot_at_def Let_def split: prod.splits) metis+
    with Cons.IH show ?case by simp
  qed simp
  have "P no_intents" "P (parse_paused q no_intents)" for q by (simp_all add: P_def no_intents_def parse_paused_def)
  then have "P (ParseIntents ann)" unfolding ParseIntents_def Let_def using pri one by auto
  then show "in_raw (ParseIntents ann) a \<noteq> '''' \<Longrightarrow> ann a \<noteq> ''''" by (metis P_def)
qed

lemma invalid_one_settles: "settles d (invalid_one d iv) \<and> \<not> d_pending (invalid_one d iv) (iv_Annotation iv)"
  by (simp add: invalid_one_def record_key_settles record_key_done)

lemma invalid_fold_settles:
  "settles d (foldl invalid_one d ivs) \<and> (\<forall>iv \<in> set ivs. \<not> d_pending (foldl invalid_one d ivs) (iv_Annotation iv))"
proof (induction ivs rule: rev_induct)
  case (snoc iv ivs)
  then show ?case using invalid_one_settles [of "foldl invalid_one d ivs" iv] by (auto simp: settles_def)
qed simp

lemma issue_grows: "\<exists>U C B. grows U C B d (fst (issue d e))"
  using grows_issue by blast

lemma intent_remove_settles:
  "settles d (fst (intent_remove d es)) \<and>
   (in_Remove (v_Intents (d_v d)) \<noteq> None \<longrightarrow> \<not> d_pending (fst (intent_remove d es)) AnnotationDownloadRemove)"
proof (cases "in_Remove (v_Intents (d_v d)) = None \<or> \<not> d_pending d AnnotationDownloadRemove")
  case True
  then show ?thesis by (auto simp: intent_remove_def split: option.split)
next
  case False
  then obtain r where r: "in_Remove (v_Intents (d_v d)) = Some r" and p: "d_pending d AnnotationDownloadRemove" by auto
  let ?d = "record_nonce d AnnotationDownloadRemove (ri_Nonce r)"
  have key: "ri_Nonce r = NonceKey (h_nonce (d_h d)) (v_Intents (d_v d)) AnnotationDownloadRemove"
    using NonceKey_parsed(1) [OF pending_raw [OF p] refl r] by simp
  have s: "settles d ?d" and n: "\<not> d_pending ?d AnnotationDownloadRemove"
    by (rule record_key_settles [OF key], rule record_key_done [OF key])
  have g: "settles d (fst (remove_entry ?d e r)) \<and> \<not> d_pending (fst (remove_entry ?d e r)) AnnotationDownloadRemove" for e
    using remove_entry_grows [of ?d e r] settles_grows [OF s] pending_grows n by blast
  show ?thesis using p r s n g by (auto simp: intent_remove_def Let_def split_beta split: option.split)
qed

lemma intent_resume_settles:
  "settles d (fst (intent_resume d es)) \<and>
   (in_Resume (v_Intents (d_v d)) \<noteq> None \<longrightarrow> \<not> d_pending (fst (intent_resume d es)) AnnotationDownloadResume)"
proof (cases "in_Resume (v_Intents (d_v d)) = None \<or> \<not> d_pending d AnnotationDownloadResume")
  case True
  then show ?thesis by (auto simp: intent_resume_def split: option.split)
next
  case False
  then obtain r where r: "in_Resume (v_Intents (d_v d)) = Some r" and p: "d_pending d AnnotationDownloadResume" by auto
  let ?d = "record_nonce d AnnotationDownloadResume (rs_Nonce r)"
  have key: "rs_Nonce r = NonceKey (h_nonce (d_h d)) (v_Intents (d_v d)) AnnotationDownloadResume"
    using NonceKey_parsed(2) [OF pending_raw [OF p] refl r] by simp
  have s: "settles d ?d" and n: "\<not> d_pending ?d AnnotationDownloadResume"
    by (rule record_key_settles [OF key], rule record_key_done [OF key])
  have g: "settles d (fst (issue ?d e)) \<and> \<not> d_pending (fst (issue ?d e)) AnnotationDownloadResume" for e
    using issue_grows [of ?d e] settles_grows [OF s] pending_grows n by blast
  show ?thesis using p r s n g by (auto simp: intent_resume_def Let_def split_beta split: option.split)
qed

lemma intent_import_settles:
  "settles d (intent_import d es) \<and>
   (in_Import (v_Intents (d_v d)) \<noteq> None \<longrightarrow> \<not> d_pending (intent_import d es) AnnotationDownloadImport)"
proof (cases "in_Import (v_Intents (d_v d)) = None \<or> \<not> d_pending d AnnotationDownloadImport")
  case True
  then show ?thesis by (auto simp: intent_import_def split: option.split)
next
  case False
  then obtain r where r: "in_Import (v_Intents (d_v d)) = Some r" and p: "d_pending d AnnotationDownloadImport" by auto
  let ?d = "record_nonce d AnnotationDownloadImport (ii_Nonce r)"
  have key: "ii_Nonce r = NonceKey (h_nonce (d_h d)) (v_Intents (d_v d)) AnnotationDownloadImport"
    using NonceKey_parsed(3) [OF pending_raw [OF p] refl r] by simp
  have s: "settles d ?d" and n: "\<not> d_pending ?d AnnotationDownloadImport"
    by (rule record_key_settles [OF key], rule record_key_done [OF key])
  show ?thesis using p r s n by (auto simp: intent_import_def Let_def split: option.split)
qed

lemma intent_unblock_settles:
  "settles d (intent_unblock d) \<and> (\<forall>u. in_Unblock (v_Intents (d_v d)) = Some u \<longrightarrow> v_Unblocked (d_v d) (ub_Nonce u) \<longrightarrow>
     \<not> d_pending (intent_unblock d) AnnotationDownloadUnblock)"
proof (cases "in_Unblock (v_Intents (d_v d)) = None \<or> \<not> d_pending d AnnotationDownloadUnblock")
  case True
  then show ?thesis by (auto simp: intent_unblock_def split: option.split)
next
  case False
  then obtain r where r: "in_Unblock (v_Intents (d_v d)) = Some r" and p: "d_pending d AnnotationDownloadUnblock" by auto
  let ?d = "record_nonce d AnnotationDownloadUnblock (ub_Nonce r)"
  have key: "ub_Nonce r = NonceKey (h_nonce (d_h d)) (v_Intents (d_v d)) AnnotationDownloadUnblock"
    using NonceKey_parsed(4) [OF pending_raw [OF p] refl r] by simp
  have s: "settles d ?d" and n: "\<not> d_pending ?d AnnotationDownloadUnblock"
    by (rule record_key_settles [OF key], rule record_key_done [OF key])
  show ?thesis using p r s n by (auto simp: intent_unblock_def Let_def)
qed

text \<open>An intent is carried out once. After a pass handled the annotations an owner carries, none of
  its remove, resume and import intents is pending against the nonces the pass records, whether the
  value parsed or not; an unblock stays pending only until the release index confirmed it.\<close>

theorem intents_handled_once:
  assumes "v_Intents (d_v d) = ParseIntents ann" and "a \<in> set oneShots"
    and "d_pending (fst (intents d es)) a"
  shows "a = AnnotationDownloadUnblock \<and>
    (\<exists>u. in_Unblock (ParseIntents ann) = Some u \<and> \<not> v_Unblocked (d_v d) (ub_Nonce u))"
proof -
  let ?i = "v_Intents (d_v d)"
  define d1 where "d1 = foldl invalid_one d (in_Invalid ?i)"
  obtain d2 es2 where 2: "intent_remove d1 es = (d2, es2)" by fastforce
  obtain d3 es3 where 3: "intent_resume d2 es2 = (d3, es3)" by fastforce
  define d4 where "d4 = intent_import d3 es3"
  have s1: "settles d d1" and inv: "\<And>iv. iv \<in> set (in_Invalid ?i) \<Longrightarrow> \<not> d_pending d1 (iv_Annotation iv)"
    using invalid_fold_settles [of d "in_Invalid ?i"] by (auto simp: d1_def)
  have s2: "settles d1 d2" using intent_remove_settles [of d1 es] 2 by simp
  have s3: "settles d2 d3" using intent_resume_settles [of d2 es2] 3 by simp
  have s4: "settles d3 d4" using intent_import_settles [of d3 es3] by (simp add: d4_def)
  have s5: "settles d4 (intent_unblock d4)" using intent_unblock_settles by blast
  note s = s1 s2 s3 s4 s5 [unfolded settles_def]
  have fin: "fst (intents d es) = intent_unblock d4" by (simp add: intents_def Let_def d1_def [symmetric] 2 3 d4_def)
  have v: "d_v d1 = d_v d" "d_v d2 = d_v d" "d_v d3 = d_v d" "d_v d4 = d_v d" "d_v (intent_unblock d4) = d_v d"
    using s unfolding settles_def by simp_all
  have pend: "d_pending d4 a" "d_pending d3 a" "d_pending d2 a" "d_pending d1 a"
    using assms(3) s unfolding fin settles_def by blast+
  have "\<not> listed_invalid ?i a" using inv pend by (auto simp: listed_invalid_def)
  moreover have "in_raw ?i a \<noteq> ''''" using pending_raw [OF assms(3)] v unfolding fin by simp
  ultimately have "parsed ?i a"
    using ParseIntents_settled [OF assms(2), of ann] raw_ParseIntents [of ann a] assms(1) by auto
  then show ?thesis
    using intent_remove_settles [of d1 es] intent_resume_settles [of d2 es2] intent_import_settles [of d3 es3]
      intent_unblock_settles [of d4] pend assms(1,3) v 2 3
    unfolding fin parsed_def d4_def [symmetric] by auto
qed

theorem intents_handled_once_witness:
  "\<not> d_pending (fst (intents (new_decider h0 ((view0 [entry0 ''a'' Downloading])\<lparr>v_Intents :=
      ParseIntents ((\<lambda>a. '''')(AnnotationDownloadRemove := ''n1 g-a data''))\<rparr>)) [entry0 ''a'' Downloading]))
     AnnotationDownloadRemove"
proof
  let ?ann = "(\<lambda>a. '''')(AnnotationDownloadRemove := ''n1 g-a data'')"
  let ?d = "new_decider h0 ((view0 [entry0 ''a'' Downloading])\<lparr>v_Intents := ParseIntents ?ann\<rparr>)"
  assume p: "d_pending (fst (intents ?d [entry0 ''a'' Downloading])) AnnotationDownloadRemove"
  have v: "v_Intents (d_v ?d) = ParseIntents ?ann" by (simp add: new_decider_def)
  have a: "AnnotationDownloadRemove \<in> set oneShots" by (simp add: oneShots_def)
  from intents_handled_once [OF v a p] show False by simp
qed

section \<open>An invalid priority\<close>

text \<open>An invalid value of the priority annotation leaves no trace: unlike the one-shot annotations it
  records no nonce and raises no Warning, so the owner is never told that the value was ignored.\<close>

theorem invalid_priority_silent:
  assumes "\<And>iv. iv \<in> set ivs \<Longrightarrow> iv_Annotation iv = AnnotationDownloadPriority"
  shows "foldl invalid_one d ivs = d"
  using assms
proof (induction ivs)
  case (Cons iv ivs)
  have "\<not> d_pending d (iv_Annotation iv)" using Cons.prems [of iv] by (simp add: d_pending_def nonce_get_def)
  with Cons show ?case by (simp add: invalid_one_def)
qed simp

theorem invalid_priority_silent_witness:
  "in_Invalid (ParseIntents ((\<lambda>a. '''')(AnnotationDownloadPriority := ''g-a=urgent''))) \<noteq> [] \<and>
   foldl invalid_one (new_decider h0 (view0 [])) (in_Invalid (ParseIntents ((\<lambda>a. '''')(AnnotationDownloadPriority := ''g-a=urgent''))))
     = new_decider h0 (view0 [])"
proof -
  let ?i = "in_Invalid (ParseIntents ((\<lambda>a. '''')(AnnotationDownloadPriority := ''g-a=urgent'')))"
  have n: "map iv_Annotation ?i = [AnnotationDownloadPriority]" by code_simp
  then have "iv_Annotation iv = AnnotationDownloadPriority" if "iv \<in> set ?i" for iv
    using that by (metis (no_types, lifting) empty_iff image_eqI list.set(1,2) set_map singletonD)
  with invalid_priority_silent [of ?i] n show ?thesis by auto
qed

section \<open>Superseding single episodes\<close>

definition replaced_by :: "DownloadEntry list \<Rightarrow> nat \<Rightarrow> DownloadEntry list \<Rightarrow> bool" where
  "replaced_by es j es' \<longleftrightarrow>
     (\<exists>i < length es. i \<noteq> j \<and> superseding (es ! i) \<and> superseded (es ! i) (es ! j)) \<and>
     e_Phase (es' ! j) = Removing \<and> e_RemoveDataOnDelete (es' ! j)"

definition supersede_inv :: "DownloadEntry list \<Rightarrow> decider \<times> DownloadEntry list \<Rightarrow> bool" where
  "supersede_inv es acc \<longleftrightarrow> length (snd acc) = length es \<and>
     (\<forall>j < length es. snd acc ! j = es ! j \<or> replaced_by es j (snd acc))"

lemma not_superseding_removing: "e_Phase p = Removing \<Longrightarrow> \<not> superseding p"
  by (simp add: superseding_def nonTerminal_def)

lemma not_superseded_removing: "e_Phase s = Removing \<Longrightarrow> \<not> superseded p s"
  by (simp add: superseded_def transferring_def)

lemma toRemoving_result:
  "toRemoving d e why = (d', e') \<Longrightarrow> e_Phase e' = Removing \<and> e_RemoveDataOnDelete e' = e_RemoveDataOnDelete e"
  using issue_entry [of d "e\<lparr>e_Phase := Removing, e_Message := clampString (''removing: '' @ why) MaxEntryMessage\<rparr>"]
  by (cases "e_Phase e = Removing") (auto simp: toRemoving_def)

lemma supersede_one_inv:
  assumes inv: "supersede_inv es acc" and "superseding (snd acc ! i)" and "i < length es" and j: "j < length es"
  shows "supersede_inv es (supersede_one i acc j) \<and> superseding (snd (supersede_one i acc j) ! i)"
proof (cases acc)
  case (Pair d xs)
  show ?thesis
  proof (cases "j = i \<or> \<not> superseded (xs ! i) (xs ! j)")
    case True
    with assms Pair show ?thesis by (simp add: supersede_one_def Let_def)
  next
    case False
    have len: "length xs = length es" using inv Pair by (simp add: supersede_inv_def)
    have pi: "xs ! i = es ! i"
      using inv assms(2,3) Pair not_superseding_removing [of "xs ! i"] by (auto simp: supersede_inv_def replaced_by_def)
    have pj: "xs ! j = es ! j"
      using inv j False Pair not_superseded_removing [of "xs ! j"] by (auto simp: supersede_inv_def replaced_by_def)
    obtain d1 s1 where r: "toRemoving d ((xs ! j)\<lparr>e_RemoveDataOnDelete := True\<rparr>)
        (''superseded by the season pack '' @ rel_Title (e_Release (xs ! i))) = (d1, s1)" by fastforce
    have s1: "e_Phase s1 = Removing" "e_RemoveDataOnDelete s1"
      using toRemoving_result [OF r] by simp_all
    have out: "snd (supersede_one i acc j) = xs[j := s1]" using False Pair r by (simp add: supersede_one_def Let_def)
    have "replaced_by es j (xs[j := s1])"
      using False assms(2,3) pi pj s1 j len Pair by (auto simp: replaced_by_def)
    moreover have "xs[j := s1] ! k = es ! k \<or> replaced_by es k (xs[j := s1])" if "k < length es" "k \<noteq> j" for k
      using inv that Pair by (auto simp: supersede_inv_def replaced_by_def)
    ultimately show ?thesis
      using assms(2) False Pair len unfolding supersede_inv_def out by fastforce
  qed
qed

lemma supersede_pack_inv:
  assumes "supersede_inv es acc" and "i < length es"
  shows "supersede_inv es (supersede_pack acc i)"
proof (cases acc)
  case (Pair d xs)
  have len: "length xs = length es" using assms Pair by (simp add: supersede_inv_def)
  show ?thesis
  proof (cases "superseding (xs ! i)")
    case True
    have "supersede_inv es (foldl (supersede_one i) (d, xs) ks) \<and> superseding (snd (foldl (supersede_one i) (d, xs) ks) ! i)"
      if "set ks \<subseteq> {0..<length es}" for ks
      using that
    proof (induction ks rule: rev_induct)
      case (snoc k ks)
      then show ?case using supersede_one_inv [of es "foldl (supersede_one i) (d, xs) ks" i k] assms(2) by auto
    qed (use True assms Pair in auto)
    with True Pair len show ?thesis by (simp add: supersede_pack_def)
  qed (use assms Pair in \<open>simp add: supersede_pack_def\<close>)
qed

text \<open>A season pack replaces only what it covers. Superseding leaves every entry as it is, except an
  automatic single-episode grab of the library (never a person's pick, never a donor) that is still
  transferring, whose episode a live pack of the owner covers and that was grabbed no later than the
  pack: that one is being removed, with its data.\<close>

theorem supersede_replaces:
  assumes "supersede d es = (d', es')" and "j < length es"
  shows "length es' = length es \<and>
    (es' ! j = es ! j \<or>
     (e_Phase (es' ! j) = Removing \<and> e_RemoveDataOnDelete (es' ! j) \<and> \<not> e_Manual (es ! j) \<and>
      e_Purpose (es ! j) = PurposeUnset \<and> transferring (es ! j) \<and>
      (\<exists>i < length es. i \<noteq> j \<and> Pack (es ! i) \<and> nonTerminal (es ! i) \<and> e_Episodes (es ! j) = [hd (e_Episodes (es ! j))] \<and>
         hd (e_Episodes (es ! j)) \<in> set (e_Episodes (es ! i)) \<and> e_GrabbedAt (es ! j) \<le> e_GrabbedAt (es ! i))))"
proof -
  have "supersede_inv es (foldl supersede_pack (d, es) ks)" if "set ks \<subseteq> {0..<length es}" for ks
    using that
  proof (induction ks rule: rev_induct)
    case (snoc k ks)
    then show ?case using supersede_pack_inv [of es "foldl supersede_pack (d, es) ks" k] by auto
  qed (simp add: supersede_inv_def)
  from this [of "[0..<length es]"] assms have "length es' = length es \<and> (es' ! j = es ! j \<or> replaced_by es j es')"
    by (auto simp: supersede_def supersede_inv_def)
  then show ?thesis
    by (auto simp: replaced_by_def superseding_def superseded_def not_less length_Suc_conv)
qed

abbreviation single0 :: DownloadEntry where
  "single0 \<equiv> (entry0 ''a'' Downloading)\<lparr>e_Episodes := [\<lparr>ep_Season = 1, ep_Number = 2\<rparr>]\<rparr>"

abbreviation pack0 :: DownloadEntry where
  "pack0 \<equiv> (entry0 ''b'' Downloading)\<lparr>e_Episodes := [\<lparr>ep_Season = 1, ep_Number = 1\<rparr>, \<lparr>ep_Season = 1, ep_Number = 2\<rparr>]\<rparr>"

theorem supersede_replaces_witness:
  "transferring single0 \<and> e_Phase (snd (supersede (new_decider h0 (view0 [])) [single0, pack0]) ! 0) = Removing"
proof
  let ?r = "supersede (new_decider h0 (view0 [])) [single0, pack0]"
  show "transferring single0" by code_simp
  have p: "e_Phase (snd ?r ! 0) \<noteq> e_Phase ([single0, pack0] ! 0)" by code_simp
  have l: "0 < length [single0, pack0]" by simp
  from supersede_replaces [OF surjective_pairing l, of "new_decider h0 (view0 [])"] p
  show "e_Phase (snd ?r ! 0) = Removing" by metis
qed

end
