(* ===== verification/GrabImports.thy ===== *)
theory GrabImports
  imports GrabEvidence
begin

text \<open>
  Finishing a transfer: the import of an entry and of a set of parts, the stall and timeout
  judgement of the ones still moving, and the entry rebuilt from a transfer nobody claims.
\<close>

section \<open>Importing\<close>

lemma imports_frame [simp]:
  "p_Imports (d_plan (at d t)) = p_Imports (d_plan d)" "p_Imports (d_plan (history d e a r)) = p_Imports (d_plan d)"
  "p_Imports (d_plan (event d a b c)) = p_Imports (d_plan d)"
  by (simp_all add: at_def history_def event_def Let_def)

lemma imports_issue [simp]: "p_Imports (d_plan (fst (issue d e))) = p_Imports (d_plan d)"
  by (simp add: issue_def emit_def set_issued_def add_command_def Let_def)

lemma imports_toImported [simp]: "p_Imports (d_plan (fst (toImported d e))) = p_Imports (d_plan d)"
  by (simp add: toImported_def split_beta)

text \<open>C9: a movie released in parts is imported as one, by its first part, once all of it is there. The
  step of a completed part dispatches an import task or settles the import of the first part only
  when as many parts of its set are importable as the set has; any other part is marked imported only
  behind a first part that is.\<close>

theorem setImport_waits_for_all:
  assumes "setImport d i e = (d', e', k)" and "e_Set e = Some s"
  shows "(set_Part s = 1 \<and> (p_Imports (d_plan d') \<noteq> p_Imports (d_plan d) \<or> e_Import e' \<noteq> e_Import e) \<longrightarrow>
      set_Of s \<le> int (length (filter (\<lambda>x. inSet (set_ID s) x \<and> Importable x (recordOf d x)) (allNow d i e)))) \<and>
    (set_Part s \<noteq> 1 \<longrightarrow> p_Imports (d_plan d') = p_Imports (d_plan d) \<and>
      (e_Import e' \<noteq> e_Import e \<longrightarrow> (\<exists>x \<in> set (sameSet d i e). partOf x = 1 \<and> imported x)))"
proof (cases "set_Part s = 1")
  case True
  then show ?thesis
    using assms by (auto simp: setImport_def partOf_def setDone_def Let_def split: if_splits)
next
  case False
  have pe: "partOf e \<noteq> 1" using False assms(2) by (simp add: partOf_def)
  have "p_Imports (d_plan d') = p_Imports (d_plan d) \<and>
      (e_Import e' \<noteq> e_Import e \<longrightarrow> (\<exists>x \<in> set (sameSet d i e). partOf x = 1 \<and> imported x))"
  proof (cases "\<exists>x \<in> set (sameSet d i e). partOf x = 1 \<and> imported x")
    case True
    with pe assms(1) have "d' = fst (toImported d (follow_summary d e))"
      by (auto simp: setImport_def split_beta)
    with True show ?thesis by simp
  next
    case no: False
    then have "setImport d i e = (d, e\<lparr>e_Message := ''waiting for part 1 to import the set''\<rparr>, False)"
      using pe unfolding setImport_def by (simp only: if_True if_False simp_thms)
    with assms(1) show ?thesis by auto
  qed
  with False show ?thesis by simp
qed

abbreviation part0 :: "string \<Rightarrow> int \<Rightarrow> DownloadEntry" where
  "part0 u n \<equiv> (entry0 u Completed)\<lparr>e_Set := Some \<lparr>set_ID = ''s'', set_Part = n, set_Of = 2\<rparr>\<rparr>"

theorem setImport_waits_for_all_witness:
  "p_Imports (d_plan (fst (setImport ((new_decider h0 (view0 []))\<lparr>d_all := [part0 ''a'' 1, part0 ''b'' 2]\<rparr>) 1 (part0 ''b'' 2)))) = []"
proof -
  let ?d = "(new_decider h0 (view0 []))\<lparr>d_all := [part0 ''a'' 1, part0 ''b'' 2]\<rparr>"
  have s: "e_Set (part0 ''b'' 2) = Some \<lparr>set_ID = ''s'', set_Part = 2, set_Of = 2\<rparr>" by simp
  have n: "p_Imports (d_plan ?d) = []" by (simp add: new_decider_def empty_plan_def)
  show ?thesis
    using setImport_waits_for_all [OF triple s, of ?d 1] n by simp
qed

text \<open>An entry reads imported only once its files have landed. When the import step ends the entry's
  step in Seeding or Imported, the import was decided (this pass or before) and at least as many
  MediaFiles name the entry as the plan places.\<close>

theorem importStep_files_landed:
  assumes "importStep d e = (d', e', True)" and "live e'"
  shows "\<exists>sum. (e_Import e = Some sum \<and> imported e \<or>
        (\<exists>dec. v_Import (d_v d) (e_UID e) = Some dec \<and> ix_Verdict dec = ImportImported \<and> ix_Summary dec = sum)) \<and>
      filesLanded (im_Files sum) (v_Files (d_v d) (e_ID e)) \<and>
      e_Phase e' = (if rel_Protocol (e_Release e) = Torrent then Seeding else Imported) \<and> imported e'"
proof -
  have im: "imported (snd (toImported d0 x))" "e_Phase (snd (toImported d0 x)) = afterImport x" for d0 x
    by (auto simp: toImported_def split_beta mark_imported_def imported_def Let_def split: option.split)
  have dead: "\<not> live (snd (toBlocklisted d0 x r m))" "\<not> live (snd (toFailed d0 x r m))" for d0 x r m
    by (simp_all add: toBlocklisted_def toFailed_def Let_def split_beta)
  show ?thesis
  proof (cases "v_Import (d_v d) (e_UID e)")
    case None
    have "imported e \<and> filesLanded (im_Files (the (e_Import e))) (v_Files (d_v d) (e_ID e)) \<and> e' = snd (toImported d e)"
      using assms(1) None by (auto simp: importStep_def split: if_splits prod.splits)
    with im [of d e] show ?thesis
      by (auto simp: imported_def [of e] afterImport_def split: option.splits)
  next
    case (Some dec)
    define e1 where "e1 = e\<lparr>e_Import := Some (ix_Summary dec)\<rparr>"
    have "ix_Verdict dec = ImportImported \<and> filesLanded (im_Files (ix_Summary dec)) (v_Files (d_v d) (e_ID e)) \<and>
        (\<exists>d0. e' = snd (toImported d0 e1))"
    proof (cases "ix_Verdict dec")
      case ImportImported
      with assms(1) Some show ?thesis
        unfolding importStep_def Let_def by (auto simp: e1_def split: if_splits prod.splits) (metis snd_conv)+
    next
      case ImportReleaseFault
      with assms Some dead(1) show ?thesis
        unfolding importStep_def Let_def by (auto split: prod.splits) (metis snd_conv)+
    next
      case VerdictExpired
      with assms Some dead(2) show ?thesis
        unfolding importStep_def Let_def by (auto split: prod.splits) (metis snd_conv)+
    qed (use assms(1) Some in \<open>auto simp: importStep_def Let_def\<close>)
    with Some im [of _ e1] show ?thesis by (auto simp: afterImport_def e1_def)
  qed
qed

abbreviation imported0 :: DownloadEntry where
  "imported0 \<equiv> (entry0 ''a'' Completed)\<lparr>e_Import := Some (zero_summary\<lparr>im_Phase := ImportPhaseImported, im_ImportedAt := Some now0\<rparr>)\<rparr>"

theorem importStep_files_landed_witness:
  "imported (fst (snd (importStep (new_decider h0 (view0 [])) imported0)))"
proof -
  let ?r = "importStep (new_decider h0 (view0 [])) imported0"
  have k: "snd (snd ?r) = True" by code_simp
  have l: "live (fst (snd ?r))" by code_simp
  from importStep_files_landed [OF result_split [OF refl k] l] show ?thesis by blast
qed

section \<open>Stalls and timeouts\<close>

definition stalled_now :: "decider \<Rightarrow> TransferRecord \<Rightarrow> Client option \<Rightarrow> bool" where
  "stalled_now d rec c \<longleftrightarrow> 0 < stallTimeoutOf c \<and> \<not> tr_WaitingTurn rec \<and> stallSince rec \<noteq> 0 \<and>
     stallTimeoutOf c < time_sub (d_now d) (stallSince rec)"

definition late_now :: "decider \<Rightarrow> TransferRecord \<Rightarrow> Client option \<Rightarrow> bool" where
  "late_now d rec c \<longleftrightarrow> 0 < downloadTimeoutOf c \<and>
     (case tr_StartedAt rec of None \<Rightarrow> False | Some t \<Rightarrow> downloadTimeoutOf c < time_sub (d_now d) t)"

lemma timeoutStep_judges:
  assumes "timeoutStep d e rec c = (d', e', ended)"
  shows "(ended \<longleftrightarrow> late_now d rec c) \<and>
    (if ended then e_Phase e' = Blocklisted \<and> e_FailureReason e' = Timeout else e' = e)"
  using assms toBlocklisted_entry(1,2) [of d e Timeout]
  by (auto simp: timeoutStep_def late_now_def Let_def split_beta split: option.splits if_splits)

text \<open>A moving transfer is given up exactly when it stalled or ran out of time. A transfer a person
  paused is never judged; one the engine holds for its turn is never stalled; otherwise it is
  blocklisted as Stalled when its last progress is longer ago than the client's stall timeout, as
  Timeout when it started longer ago than the download timeout, and left alone otherwise.\<close>

theorem stalledStep_judges:
  assumes "stalledStep d e rec c = (d', e', ended)"
  shows "(ended \<longleftrightarrow> \<not> in_Paused (v_Intents (d_v d)) (e_ID e) \<and> (stalled_now d rec c \<or> late_now d rec c)) \<and>
    (if ended then e_Phase e' = Blocklisted \<and> e_FailureReason e' = (if stalled_now d rec c then Stalled else Timeout)
     else e' = e)"
proof (cases "in_Paused (v_Intents (d_v d)) (e_ID e)")
  case True
  with assms show ?thesis by (simp add: stalledStep_def)
next
  case False
  show ?thesis
  proof (cases "stalled_now d rec c")
    case True
    with False assms show ?thesis
      using toBlocklisted_entry(1,2) [of d e Stalled]
      by (auto simp: stalledStep_def stalled_now_def Let_def split_beta split: if_splits)
  next
    case no: False
    define d1 where "d1 = (if 0 < stallTimeoutOf c \<and> \<not> tr_WaitingTurn rec \<and> stallSince rec \<noteq> 0
      then at d (stallSince rec + stallTimeoutOf c) else d)"
    have t: "timeoutStep d1 e rec c = (d', e', ended)"
    proof (cases "0 < stallTimeoutOf c \<and> \<not> tr_WaitingTurn rec \<and> stallSince rec \<noteq> 0")
      case judged: True
      with no have "\<not> stallTimeoutOf c < time_sub (d_now d) (stallSince rec)" by (simp add: stalled_now_def)
      with assms False judged show ?thesis by (simp add: stalledStep_def d1_def Let_def)
    next
      case other: False
      then have "d1 = d" unfolding d1_def by (rule if_not_P)
      moreover from other assms False have "timeoutStep d e rec c = (d', e', ended)"
        by (auto simp: stalledStep_def Let_def split: if_splits)
      ultimately show ?thesis by simp
    qed
    have "d_now d1 = d_now d" by (simp add: d1_def at_def Let_def)
    then have "late_now d1 rec c = late_now d rec c" by (simp add: late_now_def split: option.split)
    with timeoutStep_judges [OF t] False no show ?thesis by simp
  qed
qed

theorem stalledStep_judges_witness:
  "e_Phase (fst (snd (stalledStep (new_decider h0 (view0 [])) (entry0 ''a'' Downloading)
      (record0\<lparr>tr_LastProgressAt := Some (now0 - 25 * hour)\<rparr>) (Some client0)))) = Blocklisted"
proof -
  let ?r = "record0\<lparr>tr_LastProgressAt := Some (now0 - 25 * hour)\<rparr>"
  let ?s = "stalledStep (new_decider h0 (view0 [])) (entry0 ''a'' Downloading) ?r (Some client0)"
  have s: "stalled_now (new_decider h0 (view0 [])) ?r (Some client0)" by code_simp
  have p: "\<not> in_Paused (v_Intents (d_v (new_decider h0 (view0 [])))) (e_ID (entry0 ''a'' Downloading))" by code_simp
  show ?thesis using stalledStep_judges [OF triple [of ?s]] s p by (simp only: simp_thms if_True)
qed

section \<open>Entries re-created from a claim\<close>

text \<open>A transfer's claim survives its entry. The claim of an entry re-created from a transfer is the
  claim it was re-created from, with the owner and provider id of the item that takes it back (the
  title within its cap, the info hash in lower case): id, uid, release identity, purpose, data rule,
  import and part set are all kept.\<close>

theorem recreate_roundtrip:
  assumes "recreate d rec claim = Some e" and "length (cm_Title claim) \<le> 512"
    and "to_lower (cm_InfoHash claim) = cm_InfoHash claim"
  shows "claimOf d e = claim\<lparr>cm_Owner := v_Owner (d_v d), cm_ProviderID := v_ProviderID (d_v d)\<rparr>"
proof -
  from assms(1) obtain c src where e: "e = (let x = claimedEntry d rec claim c src in
      if cm_Imported claim then x\<lparr>e_Import := Some (zero_summary\<lparr>im_Phase := ImportPhaseImported, im_ImportedAt := Some (d_now d),
          im_Dispatch := zero_dispatch\<lparr>dp_Seq := nextSeq 0 0 (d_now d), dp_AnsweredSeq := nextSeq 0 0 (d_now d), dp_DispatchedAt := d_now d\<rparr>\<rparr>),
          e_Phase := afterImport x\<rparr> else x)"
    by (auto simp: recreate_def Let_def split: option.splits if_splits)
  have set: "\<lparr>sr_ID = sr_ID x, sr_Part = sr_Part x, sr_Of = sr_Of x\<rparr> = x" for x :: SetRef
    by simp
  have t: "clampString (cm_Title claim) 512 = cm_Title claim" using assms(2) by (simp add: clampString_def)
  show ?thesis
    using assms(3) t by (cases claim) (simp add: e claimOf_def claimedEntry_def Let_def imported_def set option.map_comp o_def option.map_ident)
qed

definition claim0 :: TransferClaim where
  "claim0 = \<lparr>cm_Owner = owner0, cm_ProviderID = ''tmdb:1'', cm_Entry = \<lparr>er_ID = ''g-c'', er_UID = ''c''\<rparr>,
     cm_InfoHash = ''aa'', cm_Indexer = ''ix'', cm_GUID = ''guid'', cm_Title = ''Dune'', cm_Purpose = PurposeUnset,
     cm_RemoveDataOnDelete = True, cm_Imported = True, cm_Set = None\<rparr>"

theorem recreate_roundtrip_witness:
  "claimOf (new_decider h0 (view0 [])) (the (recreate (new_decider h0 (view0 [])) record0 claim0)) = claim0"
proof -
  let ?d = "new_decider h0 (view0 [])"
  have r: "recreate ?d record0 claim0 = Some (the (recreate ?d record0 claim0))"
  proof -
    have "recreate ?d record0 claim0 \<noteq> None" by code_simp
    then show ?thesis by simp
  qed
  have l: "length (cm_Title claim0) \<le> 512" by code_simp
  have h: "to_lower (cm_InfoHash claim0) = cm_InfoHash claim0" by code_simp
  have c: "claim0\<lparr>cm_Owner := v_Owner (d_v ?d), cm_ProviderID := v_ProviderID (d_v ?d)\<rparr> = claim0" by code_simp
  show ?thesis using recreate_roundtrip [OF r l h] unfolding c .
qed

end
