(* ===== verification/Tables.thy ===== *)
theory Tables
  imports Main "HOL-Library.AList"
begin

text \<open>
  Go maps that are counted or ranged over. A map is an association list with distinct keys: its
  order is the order a \<^verbatim>\<open>range\<close> visits it in, which Go leaves open, and every fact below holds for
  every order. \<open>AList.update\<close> and \<open>AList.delete\<close> are the assignment and the \<^verbatim>\<open>delete\<close>; a map of
  maps, whose inner map is nil until it is written, is read through \<open>tbl\<close>.
\<close>

type_synonym ('k, 'v) table = "('k \<times> 'v) list"

definition table_ok :: "('k, 'v) table \<Rightarrow> bool" where
  "table_ok t \<longleftrightarrow> distinct (map fst t)"

named_theorems table_simps \<open>lookups and well-formedness after a table operation\<close>

lemma table_ok_Nil [table_simps]: "table_ok []"
  by (simp add: table_ok_def)

lemma table_ok_update [table_simps]: "table_ok t \<Longrightarrow> table_ok (AList.update k v t)"
  by (simp add: table_ok_def distinct_update)

lemma table_ok_delete [table_simps]: "table_ok t \<Longrightarrow> table_ok (AList.delete k t)"
  by (simp add: table_ok_def distinct_delete)

lemma table_ok_filter [table_simps]: "table_ok t \<Longrightarrow> table_ok (filter P t)"
  by (simp add: table_ok_def distinct_map_filter)

lemma table_dom: "k \<in> fst ` set t \<longleftrightarrow> map_of t k \<noteq> None"
  by (simp add: map_of_eq_None_iff)

lemma length_update:
  "length (AList.update k v t) = (if map_of t k = None then Suc (length t) else length t)"
  by (induction t) auto

lemma length_delete: "table_ok t \<Longrightarrow> map_of t k \<noteq> None \<Longrightarrow> Suc (length (AList.delete k t)) = length t"
proof (induction t)
  case (Cons p t)
  show ?case
  proof (cases "fst p = k")
    case True
    with Cons.prems have "k \<notin> fst ` set t" by (auto simp: table_ok_def)
    with True show ?thesis by (cases p) simp
  next
    case False
    with Cons show ?thesis by (cases p) (auto simp: table_ok_def)
  qed
qed simp

lemma map_of_filter_key: "map_of (filter (\<lambda>p. P (fst p)) t) k = (if P k then map_of t k else None)"
  by (induction t) auto

lemma map_of_in_ok: "table_ok t \<Longrightarrow> (k, v) \<in> set t \<longleftrightarrow> map_of t k = Some v"
  by (simp add: table_ok_def)

lemma map_of_filter_ok:
  "table_ok t \<Longrightarrow> map_of (filter P t) k = (case map_of t k of None \<Rightarrow> None | Some v \<Rightarrow> if P (k, v) then Some v else None)"
proof (induction t)
  case (Cons p t)
  then have "map_of t (fst p) = None" by (auto simp: table_ok_def map_of_eq_None_iff)
  with Cons show ?case by (cases p) (auto simp: table_ok_def split: option.splits)
qed simp

lemma length_filter_card:
  "table_ok t \<Longrightarrow> length (filter P t) = card {k. \<exists>v. map_of t k = Some v \<and> P (k, v)}"
proof -
  assume ok: "table_ok t"
  then have "inj_on fst (set (filter P t))" "distinct t"
    by (auto simp: table_ok_def distinct_map intro: inj_on_subset)
  then have "length (filter P t) = card (fst ` set (filter P t))"
    by (simp only: card_image distinct_card distinct_filter)
  also have "fst ` set (filter P t) = {k. \<exists>v. map_of t k = Some v \<and> P (k, v)}"
    using map_of_in_ok [OF ok] by (force simp: image_iff)
  finally show ?thesis .
qed

section \<open>Keeping the values a partial function gives\<close>

definition refilter :: "('v \<Rightarrow> 'v option) \<Rightarrow> ('k, 'v) table \<Rightarrow> ('k, 'v) table" where
  "refilter f t = List.map_filter (\<lambda>(k, v). map_option (Pair k) (f v)) t"

lemma refilter_simps [simp]:
  "refilter f [] = []"
  "refilter f ((k, v) # t) = (case f v of None \<Rightarrow> refilter f t | Some w \<Rightarrow> (k, w) # refilter f t)"
  by (simp_all add: refilter_def List.map_filter_def split: option.split)

lemma refilter_dom: "fst ` set (refilter f t) \<subseteq> fst ` set t"
proof (induction t)
  case (Cons p t)
  then show ?case by (cases p) (simp add: subset_insertI2 insert_mono split: option.split)
qed simp

lemma table_ok_refilter [table_simps]: "table_ok t \<Longrightarrow> table_ok (refilter f t)"
proof (induction t)
  case (Cons p t)
  then show ?case using refilter_dom [of f t] by (cases p) (auto simp: table_ok_def split: option.split)
qed (simp add: table_simps)

lemma map_of_refilter:
  "table_ok t \<Longrightarrow> map_of (refilter f t) k = (case map_of t k of None \<Rightarrow> None | Some v \<Rightarrow> f v)"
proof (induction t)
  case (Cons p t)
  obtain x v where p: "p = (x, v)" by (cases p)
  from Cons.prems have t: "table_ok t" and x: "x \<notin> fst ` set t" by (simp_all add: p table_ok_def)
  with refilter_dom [of f t] have n: "map_of (refilter f t) x = None" by (auto simp: map_of_eq_None_iff)
  from x have "map_of t x = None" by (simp add: map_of_eq_None_iff)
  with Cons.IH [OF t] n show ?case by (cases "f v") (simp_all add: p)
qed simp

lemma length_refilter: "length (refilter f t) \<le> length t"
  by (induction t) (auto split: option.splits)

section \<open>Maps of maps\<close>

definition tbl :: "('d, ('k, 'v) table) table \<Rightarrow> 'd \<Rightarrow> ('k, 'v) table" where
  "tbl m d = (case map_of m d of None \<Rightarrow> [] | Some t \<Rightarrow> t)"

text \<open>Changing an inner map that is there; \<^verbatim>\<open>delete\<close> and ranging do nothing to a nil one.\<close>

definition modify :: "'d \<Rightarrow> ('t \<Rightarrow> 't) \<Rightarrow> ('d, 't) table \<Rightarrow> ('d, 't) table" where
  "modify d f m = map (\<lambda>(x, t). (x, if x = d then f t else t)) m"

definition tables_ok :: "('d, ('k, 'v) table) table \<Rightarrow> bool" where
  "tables_ok m \<longleftrightarrow> table_ok m \<and> (\<forall>d. table_ok (tbl m d))"

lemma tbl_Nil [simp]: "tbl [] d = []"
  by (simp add: tbl_def)

lemma tbl_update [simp]: "tbl (AList.update d t m) x = (if x = d then t else tbl m x)"
  by (simp add: tbl_def update_conv')

lemma map_of_modify: "map_of (modify d f m) x = (if x = d then map_option f (map_of m x) else map_of m x)"
  unfolding modify_def by (induction m) auto

lemma tbl_modify: "f [] = [] \<Longrightarrow> tbl (modify d f m) x = (if x = d then f (tbl m x) else tbl m x)"
  by (simp add: tbl_def map_of_modify split: option.split)

lemma keys_modify [simp]: "map fst (modify d f m) = map fst m"
  unfolding modify_def by (induction m) auto

lemma tables_ok_Nil [table_simps]: "tables_ok []"
  by (simp add: tables_ok_def table_simps)

lemma tables_ok_update [table_simps]: "tables_ok m \<Longrightarrow> table_ok t \<Longrightarrow> tables_ok (AList.update d t m)"
  by (simp add: tables_ok_def table_simps)

lemma tables_ok_modify:
  "tables_ok m \<Longrightarrow> f [] = [] \<Longrightarrow> (\<And>t. table_ok t \<Longrightarrow> table_ok (f t)) \<Longrightarrow> tables_ok (modify d f m)"
  by (simp add: tables_ok_def tbl_modify) (simp add: table_ok_def)

lemma tables_okD: "tables_ok m \<Longrightarrow> table_ok (tbl m d)"
  by (simp add: tables_ok_def)

lemma tables_ok_modify_delete [table_simps]: "tables_ok m \<Longrightarrow> tables_ok (modify d (AList.delete k) m)"
  by (rule tables_ok_modify) (simp_all add: table_simps)

lemma tables_ok_modify_filter [table_simps]: "tables_ok m \<Longrightarrow> tables_ok (modify d (filter P) m)"
  by (rule tables_ok_modify) (simp_all add: table_simps)

end
