(* ===== verification/DispatchLedger.thy ===== *)
theory DispatchLedger
  imports Prelude Tables GrabTypes "HOL-Library.Word"
begin

text \<open>
  The dispatch ledger (\<^verbatim>\<open>app/dispatch\<close>): what the manager's leader keeps of the tasks it published to
  each durable and that are not answered yet, and the admission it gives planners within the
  durable's budget. Every method holds the ledger's mutex from its first line to its last, so an
  operation is one function of the ledger; the clock's reading is its argument \<open>now\<close>. The audit
  reads status between two critical sections and is therefore two functions. What a Source reads of
  the cache, a durable's state and an agent's presence are arguments.
\<close>

section \<open>Data\<close>

definition ReservationTTL :: duration where "ReservationTTL = 60 * second"
definition UnattendedAfter :: duration where "UnattendedAfter = 2 * minute"
definition TickInterval :: duration where "TickInterval = 10 * second"
definition WaitingTTL :: duration where "WaitingTTL = 5 * minute"
definition AuditAge :: duration where "AuditAge = 20 * minute"
definition BudgetRetry :: duration where "BudgetRetry = 2 * minute"
definition FirstRetry :: duration where "FirstRetry = minute"
definition FirstTTL :: duration where "FirstTTL = 2 * minute"
definition wakeBuffer :: nat where "wakeBuffer = 512"

definition DefaultAckWait :: duration where "DefaultAckWait = 30 * second"
definition EngineConsumerPrefix :: string where "EngineConsumerPrefix = ''grab-engine-''"

definition DeliveryReasonBudget :: string where "DeliveryReasonBudget = ''Budget''"
definition DeliveryReasonNoAgent :: string where "DeliveryReasonNoAgent = ''NoAgent''"
definition DeliveryReasonRebuilding :: string where "DeliveryReasonRebuilding = ''Rebuilding''"
definition DeliveryReasonNak :: string where "DeliveryReasonNak = ''Nak''"

type_synonym Reason = string

record Key =
  k_Kind :: string
  k_Namespace :: string
  k_Name :: string
  k_Sub :: string

definition Key_String :: "Key \<Rightarrow> string" where
  "Key_String k =
     (let s = k_Kind k @ ''/'' @ k_Namespace k @ ''/'' @ k_Name k in
      if k_Sub k \<noteq> '''' then s @ ''#'' @ k_Sub k else s)"

record Outstanding =
  o_Key :: Key
  o_Seq :: int

text \<open>A Source by its durable; a KeyedSource can also be asked about one key.\<close>

datatype Source = PlainSource (Durable: string) | KeyedSource (Durable: string)

text \<open>The fields of a \<^verbatim>\<open>ConsumerSpec\<close> the ledger reads.\<close>

record ConsumerSpec =
  cs_Name :: string
  cs_Stream :: string
  cs_AckWait :: duration
  cs_MaxDeliver :: int
  cs_MaxAckPending :: int
  cs_Dispatched :: bool

record ConsumerState =
  st_Pending :: int
  st_AckPending :: int
  st_Waiting :: int

text \<open>\<^verbatim>\<open>Lag\<close> adds two \<^verbatim>\<open>uint64\<close>.\<close>

definition Lag :: "ConsumerState \<Rightarrow> int" where
  "Lag s = (st_Pending s + st_AckPending s) mod 2 ^ 64"

datatype slotState = reserved | published

datatype slot =
  Slot (s_seq: int) (s_state: slotState) (s_expires: time) (s_prev: "slot option") (s_at: time)

record waitingEntry =
  w_reason :: Reason
  w_at :: time

record firstWait =
  fw_since :: time
  fw_seen :: time

record attendance =
  a_known :: bool
  a_lag :: int
  a_lagSince :: time
  a_stalled :: bool
  a_absentSince :: time
  a_unattended :: bool

type_synonym Book = "(Key, slot) table"

text \<open>The \<^verbatim>\<open>Ledger\<close>; of its Options only the topology's consumers are kept, the rest are arguments.
  The wake channel is the list of keys it buffers, oldest first; \<^verbatim>\<open>New\<close> always makes it.\<close>

record Ledger =
  l_Consumers :: "ConsumerSpec list"
  l_sources :: "(string, Source) table"
  l_rebuilt :: bool
  l_books :: "(string, Book) table"
  l_waiting :: "(string, (Key, waitingEntry) table) table"
  l_first :: "(string, (Key, firstWait) table) table"
  l_wakes :: "Key list"
  l_attendance :: "string \<rightharpoonup> attendance"
  l_unserved :: "string \<rightharpoonup> time"

definition New :: "ConsumerSpec list \<Rightarrow> Ledger" where
  "New consumers = \<lparr>l_Consumers = consumers, l_sources = [], l_rebuilt = False, l_books = [], l_waiting = [],
     l_first = [], l_wakes = [], l_attendance = Map.empty, l_unserved = Map.empty\<rparr>"

definition Register :: "Ledger \<Rightarrow> Source \<Rightarrow> Ledger" where
  "Register l s = l\<lparr>l_sources := AList.update (Durable s) s (l_sources l)\<rparr>"

abbreviation rebuildable :: "Ledger \<Rightarrow> string \<Rightarrow> bool" where
  "rebuildable l durable \<equiv> map_of (l_sources l) durable \<noteq> None"

abbreviation book :: "Ledger \<Rightarrow> string \<Rightarrow> Book" where
  "book l durable \<equiv> tbl (l_books l) durable"

definition set_book :: "Ledger \<Rightarrow> string \<Rightarrow> Book \<Rightarrow> Ledger" where
  "set_book l durable b = l\<lparr>l_books := AList.update durable b (l_books l)\<rparr>"

text \<open>\<^verbatim>\<open>bookLocked\<close>: the durable's book, made when there is none.\<close>

definition bookLocked :: "Ledger \<Rightarrow> string \<Rightarrow> Ledger \<times> Book" where
  "bookLocked l durable = (set_book l durable (book l durable), book l durable)"

section \<open>Budgets\<close>

definition Topology_Consumer :: "ConsumerSpec list \<Rightarrow> string \<Rightarrow> ConsumerSpec option" where
  "Topology_Consumer cs name = find (\<lambda>c. cs_Name c = name) cs"

text \<open>\<^verbatim>\<open>EngineConsumer("", 0)\<close> under the name of an engine's durable.\<close>

definition EngineConsumer :: "string \<Rightarrow> ConsumerSpec" where
  "EngineConsumer name = \<lparr>cs_Name = name, cs_Stream = ''CLUSTARR_WORK_ENGINE'', cs_AckWait = 2 * minute,
     cs_MaxDeliver = 20, cs_MaxAckPending = 256, cs_Dispatched = True\<rparr>"

definition spec :: "Ledger \<Rightarrow> string \<Rightarrow> ConsumerSpec option" where
  "spec l durable =
     (case Topology_Consumer (l_Consumers l) durable of
        Some c \<Rightarrow> Some c
      | None \<Rightarrow> if has_prefix durable EngineConsumerPrefix then Some (EngineConsumer durable) else None)"

definition budgetOf :: "ConsumerSpec \<Rightarrow> int" where
  "budgetOf c = wrap64 (2 * max (cs_MaxAckPending c) 1)"

definition Budget :: "Ledger \<Rightarrow> string \<Rightarrow> int" where
  "Budget l durable = (case spec l durable of None \<Rightarrow> 0 | Some c \<Rightarrow> budgetOf c)"

definition lapseAfter :: "ConsumerSpec \<Rightarrow> duration" where
  "lapseAfter c = wrap64 ((if cs_AckWait c \<le> 0 then DefaultAckWait else cs_AckWait c) * max (cs_MaxDeliver c) 1)"

section \<open>Waiters and wakes\<close>

text \<open>The sends of \<^verbatim>\<open>freedLocked\<close>: a full channel ends the loop, as does the count.\<close>

fun wake :: "Key list \<Rightarrow> nat \<Rightarrow> Key list \<Rightarrow> Key list" where
  "wake chan want [] = chan"
| "wake chan want (k # ks) =
     (if want = 0 then chan
      else if length chan < wakeBuffer then wake (chan @ [k]) (want - 1) ks
      else chan)"

definition firsts :: "Ledger \<Rightarrow> string \<Rightarrow> (Key \<times> time) list" where
  "firsts l durable = sort_key snd (map (\<lambda>(k, fw). (k, fw_since fw)) (tbl (l_first l) durable))"

definition routine :: "Ledger \<Rightarrow> string \<Rightarrow> (Key \<times> time) list" where
  "routine l durable = sort_key snd (map (\<lambda>(k, w). (k, w_at w))
     (filter (\<lambda>(k, w). map_of (tbl (l_first l) durable) k = None \<and> w_reason w = DeliveryReasonBudget)
        (tbl (l_waiting l) durable)))"

definition freedLocked :: "Ledger \<Rightarrow> string \<Rightarrow> nat \<Rightarrow> Ledger" where
  "freedLocked l durable n =
     (if n = 0 then l
      else if \<not> rebuildable l durable then l
      else l\<lparr>l_wakes := wake (l_wakes l) (2 * n) (map fst (firsts l durable @ routine l durable))\<rparr>)"

text \<open>The one reader of \<^verbatim>\<open>Wakes\<close> takes a key.\<close>

definition Wakes :: "Ledger \<Rightarrow> (Key \<times> Ledger) option" where
  "Wakes l = (case l_wakes l of [] \<Rightarrow> None | k # ks \<Rightarrow> Some (k, l\<lparr>l_wakes := ks\<rparr>))"

definition firstWaitingLocked :: "Ledger \<Rightarrow> string \<Rightarrow> Key \<Rightarrow> time \<Rightarrow> nat \<times> Ledger" where
  "firstWaitingLocked l durable k now =
     (let m = filter (\<lambda>(w, fw). \<not> time_sub now (fw_seen fw) \<ge> FirstTTL) (tbl (l_first l) durable) in
      (length (filter (\<lambda>(w, fw). w \<noteq> k) m),
       l\<lparr>l_first := modify durable (filter (\<lambda>(w, fw). \<not> time_sub now (fw_seen fw) \<ge> FirstTTL)) (l_first l)\<rparr>))"

definition markFirstLocked :: "Ledger \<Rightarrow> string \<Rightarrow> Key \<Rightarrow> time \<Rightarrow> Ledger" where
  "markFirstLocked l durable k now =
     (let m = tbl (l_first l) durable;
          fw = (case map_of m k of Some fw \<Rightarrow> fw | None \<Rightarrow> \<lparr>fw_since = now, fw_seen = 0\<rparr>)
      in l\<lparr>l_first := AList.update durable (AList.update k (fw\<lparr>fw_seen := now\<rparr>) m) (l_first l)\<rparr>)"

unbundle bit_operations_syntax

text \<open>\<^verbatim>\<open>hash/fnv\<close>'s 32-bit FNV-1a.\<close>

definition fnv32a :: "string \<Rightarrow> 32 word" where
  "fnv32a s = foldl (\<lambda>h c. (h XOR of_nat (of_char c)) * 16777619) 2166136261 s"

definition budgetRetryLocked :: "Ledger \<Rightarrow> string \<Rightarrow> Key \<Rightarrow> bool \<Rightarrow> duration" where
  "budgetRetryLocked l durable k first =
     (if \<not> rebuildable l durable then TickInterval
      else if first then FirstRetry
      else BudgetRetry * 3 div 4 + (uint (fnv32a (Key_String k)) mod 1000) * BudgetRetry div 2000)"

section \<open>Lapses\<close>

text \<open>The loop over a slot and the dispatches it supersedes: the first that has not expired.\<close>

fun lapse_slot :: "time \<Rightarrow> slot \<Rightarrow> slot option" where
  "lapse_slot now (Slot seq state expires prev at') =
     (if \<not> is_zero expires \<and> \<not> now < expires
      then (case prev of None \<Rightarrow> None | Some p \<Rightarrow> lapse_slot now p)
      else Some (Slot seq state expires prev at'))"

definition lapseLocked :: "Ledger \<Rightarrow> string \<Rightarrow> time \<Rightarrow> Ledger" where
  "lapseLocked l durable now =
     (let b = book l durable; b' = refilter (lapse_slot now) b
      in freedLocked (set_book l durable b') durable (length b - length b'))"

definition lapseWaitingLocked :: "Ledger \<Rightarrow> string \<Rightarrow> time \<Rightarrow> Ledger" where
  "lapseWaitingLocked l durable now =
     l\<lparr>l_waiting := modify durable (filter (\<lambda>(k, w). \<not> time_sub now (w_at w) \<ge> WaitingTTL)) (l_waiting l)\<rparr>"

definition clearWaitingLocked :: "Ledger \<Rightarrow> string \<Rightarrow> Key \<Rightarrow> Ledger" where
  "clearWaitingLocked l durable k = l\<lparr>l_waiting := modify durable (AList.delete k) (l_waiting l)\<rparr>"

definition unattendedLocked :: "Ledger \<Rightarrow> string \<Rightarrow> bool" where
  "unattendedLocked l durable = (case l_attendance l durable of None \<Rightarrow> False | Some a \<Rightarrow> a_unattended a)"

section \<open>Admission\<close>

record Decision =
  dc_Admitted :: bool
  dc_Reason :: Reason
  dc_Message :: string
  dc_RetryAfter :: duration

definition granted :: Decision where
  "granted = \<lparr>dc_Admitted = True, dc_Reason = '''', dc_Message = '''', dc_RetryAfter = 0\<rparr>"

definition refused :: "Reason \<Rightarrow> string \<Rightarrow> duration \<Rightarrow> Decision" where
  "refused r msg after = \<lparr>dc_Admitted = False, dc_Reason = r, dc_Message = msg, dc_RetryAfter = after\<rparr>"

text \<open>A refusal for want of a slot, with \<open>n\<close> dispatches in flight.\<close>

definition refuse_full :: "Ledger \<Rightarrow> string \<Rightarrow> Key \<Rightarrow> bool \<Rightarrow> int \<Rightarrow> Decision" where
  "refuse_full l durable k first n =
     (if unattendedLocked l durable
      then refused DeliveryReasonNoAgent (''no agent is taking '' @ durable @ '': '' @ fmt_d n @ '' in flight'') TickInterval
      else refused DeliveryReasonBudget (''waiting for '' @ durable @ '': '' @ fmt_d n @ '' in flight'')
             (budgetRetryLocked l durable k first))"

definition reserve :: "Ledger \<Rightarrow> string \<Rightarrow> Key \<Rightarrow> int \<Rightarrow> time \<Rightarrow> Ledger" where
  "reserve l durable k seq now =
     (let b = book l durable;
          l1 = set_book l durable (AList.update k (Slot seq reserved (now + ReservationTTL) (map_of b k) now) b);
          l2 = clearWaitingLocked l1 durable k
      in l2\<lparr>l_first := modify durable (AList.delete k) (l_first l2)\<rparr>)"

definition admit :: "Ledger \<Rightarrow> string \<Rightarrow> Key \<Rightarrow> int \<Rightarrow> bool \<Rightarrow> time \<Rightarrow> Decision \<times> Ledger" where
  "admit l durable k seq first now =
     (if \<not> l_rebuilt l
      then (refused DeliveryReasonRebuilding
              ''waiting for the dispatch ledger to rebuild from status after a leader change'' TickInterval, l)
      else case spec l durable of
        None \<Rightarrow> (refused DeliveryReasonBudget (durable @ '' is not a durable of the topology'') TickInterval, l)
      | Some c \<Rightarrow>
          (let l1 = lapseLocked l durable now; b = book l1 durable in
           if (case map_of b k of None \<Rightarrow> False | Some cur \<Rightarrow> s_seq cur \<ge> seq)
           then (granted, clearWaitingLocked l1 durable k)
           else let n = int (length b) - (if map_of b k \<noteq> None then 1 else 0);
                    (limit, l2) = (if first then (budgetOf c, l1)
                                   else let (w, l') = firstWaitingLocked l1 durable k now in (budgetOf c - int w, l'))
                in if n \<ge> limit
                   then let l3 = (if first then markFirstLocked l2 durable k now else l2)
                        in (refuse_full l3 durable k first n, l3)
                   else (granted, reserve l2 durable k seq now)))"

definition Admit :: "Ledger \<Rightarrow> string \<Rightarrow> Key \<Rightarrow> int \<Rightarrow> time \<Rightarrow> Decision \<times> Ledger" where
  "Admit l durable k seq now = admit l durable k seq False now"

definition AdmitFirst :: "Ledger \<Rightarrow> string \<Rightarrow> Key \<Rightarrow> int \<Rightarrow> time \<Rightarrow> Decision \<times> Ledger" where
  "AdmitFirst l durable k seq now = admit l durable k seq True now"

section \<open>What planners report\<close>

definition Published :: "Ledger \<Rightarrow> string \<Rightarrow> Key \<Rightarrow> int \<Rightarrow> time \<Rightarrow> Ledger" where
  "Published l durable k seq now =
     (let (l1, b) = bookLocked l durable in
      if (case map_of b k of None \<Rightarrow> False | Some cur \<Rightarrow> s_seq cur > seq) then l1
      else let expires = (if rebuildable l durable then 0
                          else case spec l durable of None \<Rightarrow> 0 | Some c \<Rightarrow> now + lapseAfter c)
           in clearWaitingLocked (set_book l1 durable (AList.update k (Slot seq published expires None now) b)) durable k)"

definition Answered :: "Ledger \<Rightarrow> string \<Rightarrow> Key \<Rightarrow> int \<Rightarrow> Ledger" where
  "Answered l durable k seq =
     (let (l1, b) = bookLocked l durable in
      if (case map_of b k of None \<Rightarrow> False | Some cur \<Rightarrow> s_seq cur \<le> seq)
      then freedLocked (set_book l1 durable (AList.delete k b)) durable 1
      else l1)"

definition gone :: "string \<Rightarrow> string \<Rightarrow> string \<Rightarrow> Key \<Rightarrow> bool" where
  "gone kind namespace name k \<longleftrightarrow> k_Kind k = kind \<and> k_Namespace k = namespace \<and> k_Name k = name"

definition forget_gone_one :: "(Key \<Rightarrow> bool) \<Rightarrow> Ledger \<Rightarrow> string \<Rightarrow> Ledger" where
  "forget_gone_one g l durable =
     (let l1 = l\<lparr>l_books := modify durable (filter (\<lambda>p. \<not> g (fst p))) (l_books l),
                  l_waiting := modify durable (filter (\<lambda>p. \<not> g (fst p))) (l_waiting l),
                  l_first := modify durable (filter (\<lambda>p. \<not> g (fst p))) (l_first l)\<rparr>
      in freedLocked l1 durable (length (filter (\<lambda>p. g (fst p)) (book l durable))))"

definition ForgetGone :: "Ledger \<Rightarrow> string \<Rightarrow> string \<Rightarrow> string \<Rightarrow> Ledger" where
  "ForgetGone l kind namespace name = foldl (forget_gone_one (gone kind namespace name)) l (map fst (l_sources l))"

definition Holds :: "Ledger \<Rightarrow> string \<Rightarrow> Key \<Rightarrow> int \<Rightarrow> bool" where
  "Holds l durable k seq = (case map_of (book l durable) k of None \<Rightarrow> False | Some cur \<Rightarrow> s_seq cur \<le> seq)"

definition Waiting :: "Ledger \<Rightarrow> string \<Rightarrow> Key \<Rightarrow> Reason \<Rightarrow> time \<Rightarrow> Ledger" where
  "Waiting l durable k reason now =
     l\<lparr>l_waiting := AList.update durable (AList.update k \<lparr>w_reason = reason, w_at = now\<rparr> (tbl (l_waiting l) durable)) (l_waiting l)\<rparr>"

definition forget_one :: "Key \<Rightarrow> Ledger \<Rightarrow> string \<Rightarrow> Ledger" where
  "forget_one k l durable =
     (if map_of (book l durable) k \<noteq> None
      then freedLocked (l\<lparr>l_books := modify durable (AList.delete k) (l_books l)\<rparr>) durable 1 else l)"

definition Forget :: "Ledger \<Rightarrow> Key \<Rightarrow> Ledger" where
  "Forget l k =
     (let l1 = foldl (forget_one k) l (map fst (l_books l))
      in l1\<lparr>l_waiting := map (\<lambda>(d, w). (d, AList.delete k w)) (l_waiting l1),
            l_first := map (\<lambda>(d, f). (d, AList.delete k f)) (l_first l1)\<rparr>)"

definition WaitingCount :: "Ledger \<Rightarrow> string \<Rightarrow> time \<Rightarrow> nat \<times> Ledger" where
  "WaitingCount l durable now =
     (let l1 = lapseWaitingLocked l durable now in (length (tbl (l_waiting l1) durable), l1))"

definition Outstanding_count :: "Ledger \<Rightarrow> string \<Rightarrow> time \<Rightarrow> nat \<times> Ledger" where
  "Outstanding_count l durable now =
     (let l1 = lapseLocked l durable now in (length (book l1 durable), l1))"

section \<open>Rebuilding from status, and the audit\<close>

definition rebuild_one :: "time \<Rightarrow> Book \<Rightarrow> Outstanding \<Rightarrow> Book" where
  "rebuild_one now b o' =
     (if (case map_of b (o_Key o') of None \<Rightarrow> False | Some cur \<Rightarrow> s_seq cur \<ge> o_Seq o') then b
      else AList.update (o_Key o') (Slot (o_Seq o') published 0 None now) b)"

fun rebuild_books :: "(string \<Rightarrow> string + Outstanding list) \<Rightarrow> time \<Rightarrow> (string, Book) table \<Rightarrow> string list \<Rightarrow> string + (string, Book) table" where
  "rebuild_books Rebuild now books [] = Inr books"
| "rebuild_books Rebuild now books (durable # ds) =
     (case Rebuild durable of
        Inl err \<Rightarrow> Inl (''rebuild '' @ durable @ '': '' @ err)
      | Inr outs \<Rightarrow> rebuild_books Rebuild now (AList.update durable (foldl (rebuild_one now) [] outs) books) ds)"

text \<open>The rebuild reads its Sources outside the critical section, then installs what they gave.
  \<open>Rebuild durable\<close> is what the durable's Source reads.\<close>

definition rebuild_install :: "Ledger \<Rightarrow> (string, Book) table \<Rightarrow> Ledger" where
  "rebuild_install l books =
     l\<lparr>l_books := foldl (\<lambda>bs (d, b). AList.update d b bs) (l_books l) books, l_rebuilt := True\<rparr>"

definition rebuild :: "(string \<Rightarrow> string + Outstanding list) \<Rightarrow> Ledger \<Rightarrow> time \<Rightarrow> string option \<times> Ledger" where
  "rebuild Rebuild l now =
     (case rebuild_books Rebuild now [] (map fst (l_sources l)) of
        Inl err \<Rightarrow> (Some err, l)
      | Inr books \<Rightarrow> (None, rebuild_install l books))"

type_synonym stale = "Key \<times> int"

text \<open>The audit's snapshot: the published slots older than \<^verbatim>\<open>AuditAge\<close>, per rebuildable durable.\<close>

definition audit_due :: "Ledger \<Rightarrow> time \<Rightarrow> (string \<times> stale list) list" where
  "audit_due l now =
     filter (\<lambda>(d, ss). ss \<noteq> [])
       (map (\<lambda>(d, s). (d, map (\<lambda>(k, sl). (k, s_seq sl))
            (filter (\<lambda>(k, sl). s_state sl = published \<and> s_at sl < now - AuditAge) (book l d)))) (l_sources l))"

text \<open>\<^verbatim>\<open>inFlight\<close>: which keys a Source's status shows in flight, key by key or from one \<^verbatim>\<open>Rebuild\<close>.\<close>

fun inFlight_keys :: "(Key \<Rightarrow> string + int \<times> bool) \<Rightarrow> (Key, bool) table \<Rightarrow> Key list \<Rightarrow> string + (Key, bool) table" where
  "inFlight_keys InFl out [] = Inr out"
| "inFlight_keys InFl out (k # ks) =
     (case InFl k of Inl err \<Rightarrow> Inl err | Inr (seq, b) \<Rightarrow> inFlight_keys InFl (AList.update k b out) ks)"

definition inFlight :: "(string \<Rightarrow> string + Outstanding list) \<Rightarrow> (string \<Rightarrow> Key \<Rightarrow> string + int \<times> bool) \<Rightarrow> Source \<Rightarrow> Key list \<Rightarrow> string + (Key, bool) table" where
  "inFlight Rebuild InFl s keys =
     (case s of
        KeyedSource durable \<Rightarrow> inFlight_keys (InFl durable) [] keys
      | PlainSource durable \<Rightarrow>
          (case Rebuild durable of Inl err \<Rightarrow> Inl err
           | Inr outs \<Rightarrow> Inr (foldl (\<lambda>m o'. AList.update (o_Key o') True m) [] outs)))"

definition shows_inFlight :: "(Key, bool) table \<Rightarrow> Key \<Rightarrow> bool" where
  "shows_inFlight m k = (map_of m k = Some True)"

definition audit_one :: "time \<Rightarrow> (Key, bool) table \<Rightarrow> string \<Rightarrow> Ledger \<times> Key list \<Rightarrow> stale \<Rightarrow> Ledger \<times> Key list" where
  "audit_one cutoff inFl durable = (\<lambda>(l, released) (k, seq).
     case map_of (book l durable) k of
       None \<Rightarrow> (l, released)
     | Some sl \<Rightarrow>
         if s_state sl = published \<and> s_seq sl = seq \<and> s_at sl < cutoff \<and> \<not> shows_inFlight inFl k
         then (l\<lparr>l_books := modify durable (AList.delete k) (l_books l)\<rparr>, released @ [k])
         else (l, released))"

text \<open>The audit's second critical section, for one durable of the snapshot.\<close>

definition audit_release :: "Ledger \<Rightarrow> time \<Rightarrow> (Key, bool) table \<Rightarrow> string \<Rightarrow> stale list \<Rightarrow> Ledger \<times> Key list" where
  "audit_release l cutoff inFl durable slots =
     (let (l1, released) = foldl (audit_one cutoff inFl durable) (l, []) slots
      in (freedLocked l1 durable (length released), released))"

fun join_comma :: "string list \<Rightarrow> string" where
  "join_comma [] = ''''"
| "join_comma [x] = x"
| "join_comma (x # xs) = x @ '', '' @ join_comma xs"

text \<open>The Warning the audit records: how many slots it released, and the first of their keys.\<close>

definition audit_note :: "string \<Rightarrow> Key list \<Rightarrow> string list" where
  "audit_note durable released =
     (if released = [] then []
      else [''released '' @ fmt_d (int (length released)) @ '' slots of '' @ durable @
            '' that no status shows in flight: '' @ join_comma (take 5 (sort (map Key_String released)))])"

definition audit_durable :: "(string \<Rightarrow> string + Outstanding list) \<Rightarrow> (string \<Rightarrow> Key \<Rightarrow> string + int \<times> bool) \<Rightarrow>
    (string, Source) table \<Rightarrow> time \<Rightarrow> Ledger \<times> string list \<Rightarrow> string \<times> stale list \<Rightarrow> Ledger \<times> string list" where
  "audit_durable Rebuild InFl sources cutoff = (\<lambda>(l, notes) (durable, slots).
     case map_of sources durable of None \<Rightarrow> (l, notes)
     | Some s \<Rightarrow>
        (case inFlight Rebuild InFl s (map fst slots) of
           Inl err \<Rightarrow> (l, notes)
         | Inr m \<Rightarrow> let (l1, released) = audit_release l cutoff m durable slots
                    in (l1, notes @ audit_note durable released)))"

definition audit :: "(string \<Rightarrow> string + Outstanding list) \<Rightarrow> (string \<Rightarrow> Key \<Rightarrow> string + int \<times> bool) \<Rightarrow> Ledger \<Rightarrow> time \<Rightarrow> Ledger \<times> string list" where
  "audit Rebuild InFl l now =
     foldl (audit_durable Rebuild InFl (l_sources l) (now - AuditAge)) (l, []) (audit_due l now)"

section \<open>Attendance\<close>

definition StreamAdvisories :: string where "StreamAdvisories = ''CLUSTARR_ADVISORIES''"

datatype RequestErrorClass = RequestOK | RequestNoResponders | RequestBusy | RequestTimeout | RequestOther

text \<open>\<open>ServedBy\<close> is the table of agent domains, \<open>cls\<close> the class of the request's error.\<close>

definition ObserveRequest :: "(string \<Rightarrow> string option) \<Rightarrow> Ledger \<Rightarrow> string \<Rightarrow> RequestErrorClass \<Rightarrow> time \<Rightarrow> Ledger" where
  "ObserveRequest ServedBy l subject cls now =
     (case ServedBy subject of None \<Rightarrow> l
      | Some domain \<Rightarrow>
         (case cls of
            RequestNoResponders \<Rightarrow> l\<lparr>l_unserved := (l_unserved l)(domain \<mapsto> now)\<rparr>
          | RequestTimeout \<Rightarrow> l
          | _ \<Rightarrow> l\<lparr>l_unserved := (l_unserved l)(domain := None)\<rparr>))"

definition unservedLocked :: "Ledger \<Rightarrow> string \<Rightarrow> time \<Rightarrow> bool \<times> Ledger" where
  "unservedLocked l domain now =
     (case l_unserved l domain of
        None \<Rightarrow> (False, l)
      | Some last' \<Rightarrow> if time_sub now last' > 2 * UnattendedAfter
                     then (False, l\<lparr>l_unserved := (l_unserved l)(domain := None)\<rparr>) else (True, l))"

definition zero_attendance :: attendance where
  "zero_attendance = \<lparr>a_known = False, a_lag = 0, a_lagSince = 0, a_stalled = False, a_absentSince = 0, a_unattended = False\<rparr>"

text \<open>A successful read of the durable's state (\<open>None\<close>: it failed, the last verdict stays).\<close>

definition attend_state :: "ConsumerState option \<Rightarrow> time \<Rightarrow> attendance \<Rightarrow> attendance" where
  "attend_state st now a =
     (case st of None \<Rightarrow> a
      | Some s \<Rightarrow>
         (let a1 = (if \<not> a_known a \<or> Lag s \<noteq> a_lag a then a\<lparr>a_lag := Lag s, a_lagSince := now, a_known := True\<rparr> else a)
          in a1\<lparr>a_stalled := st_Pending s > 0 \<and> st_Waiting s = 0 \<and> time_sub now (a_lagSince a1) \<ge> UnattendedAfter\<rparr>))"

text \<open>The domain's absence (\<open>None\<close>: presence could not be read).\<close>

definition attend_presence :: "bool option \<Rightarrow> time \<Rightarrow> attendance \<Rightarrow> attendance" where
  "attend_presence absent now a =
     (case absent of None \<Rightarrow> a
      | Some ab \<Rightarrow> if ab \<and> a_known a \<and> a_lag a > 0
                  then (if is_zero (a_absentSince a) then a\<lparr>a_absentSince := now\<rparr> else a)
                  else a\<lparr>a_absentSince := 0\<rparr>)"

definition noAgent :: "attendance \<Rightarrow> time \<Rightarrow> bool" where
  "noAgent a now \<longleftrightarrow> \<not> is_zero (a_absentSince a) \<and> time_sub now (a_absentSince a) \<ge> UnattendedAfter"

fun join_semi :: "string list \<Rightarrow> string" where
  "join_semi [] = ''''"
| "join_semi [x] = x"
| "join_semi (x # xs) = x @ ''; '' @ join_semi xs"

definition detect_note :: "string \<Rightarrow> string \<Rightarrow> attendance \<Rightarrow> time \<Rightarrow> string" where
  "detect_note name domain a now =
     name @ '' is unattended: '' @ join_semi
       ((if a_stalled a then [fmt_d (a_lag a) @ '' pending with no pull open and no progress for '' @ fmt_duration UnattendedAfter] else []) @
        (if noAgent a now then [''no '' @ domain @ '' agent present for '' @ fmt_duration UnattendedAfter] else []))"

text \<open>\<open>st\<close> is the durable's state, when it could be read; \<open>presence\<close> the presence reader, if the ledger
  has one, giving whether an agent of the domain is present, when it could be read. The result is the
  ledger and the Warning recorded on a transition to unattended.\<close>

definition detect :: "ConsumerState option \<Rightarrow> (string \<Rightarrow> bool option) option \<Rightarrow> Ledger \<Rightarrow> ConsumerSpec \<Rightarrow> string \<Rightarrow> time \<Rightarrow> Ledger \<times> string list" where
  "detect st presence l c domain now =
     (let absent = (case presence of
                      None \<Rightarrow> Some False
                    | Some present \<Rightarrow> if domain = '''' then Some False else map_option Not (present domain));
          a = (case l_attendance l (cs_Name c) of None \<Rightarrow> zero_attendance | Some a \<Rightarrow> a);
          (uns, l1) = (if domain \<noteq> '''' then unservedLocked l domain now else (False, l));
          a1 = attend_presence (if uns then Some True else absent) now (attend_state st now a);
          a2 = a1\<lparr>a_unattended := a_stalled a1 \<or> noAgent a1 now\<rparr>
      in (l1\<lparr>l_attendance := (l_attendance l1)(cs_Name c \<mapsto> a2)\<rparr>,
          if a_unattended a2 \<and> \<not> a_unattended a then [detect_note (cs_Name c) domain a2 now] else []))"

text \<open>\<open>states\<close> reads a durable's state by stream and name, \<open>domains\<close> is the domain of each durable.\<close>

definition tick :: "(string \<Rightarrow> string \<Rightarrow> ConsumerState option) \<Rightarrow> (string \<Rightarrow> bool option) option \<Rightarrow> (string \<Rightarrow> string) \<Rightarrow> Ledger \<Rightarrow> time \<Rightarrow> Ledger \<times> string list" where
  "tick states presence domains l now =
     (let l1 = foldl (\<lambda>x d. lapseWaitingLocked (lapseLocked x d now) d now) l (map fst (l_books l))
      in foldl (\<lambda>(x, notes) c.
            let (x1, ns) = detect (states (cs_Stream c) (cs_Name c)) presence x c (domains (cs_Name c)) now
            in (snd (WaitingCount x1 (cs_Name c) now), notes @ ns))
          (l1, []) (filter (\<lambda>c. cs_Dispatched c \<and> cs_Stream c \<noteq> StreamAdvisories) (l_Consumers l)))"

definition Unattended :: "Ledger \<Rightarrow> string \<Rightarrow> bool" where
  "Unattended l durable = unattendedLocked l durable"

definition Rebuilt :: "Ledger \<Rightarrow> bool" where
  "Rebuilt l = l_rebuilt l"

definition AuditInterval :: duration where "AuditInterval = 5 * minute"

text \<open>One turn of the loop of \<^verbatim>\<open>Start\<close>: a tick at \<open>now\<close>, then an audit when the last one is an interval
  ago at \<open>after\<close>, the next reading of the clock. The result is the ledger, the time of the last audit
  and the Warnings.\<close>

definition start_turn :: "(string \<Rightarrow> string + Outstanding list) \<Rightarrow> (string \<Rightarrow> Key \<Rightarrow> string + int \<times> bool) \<Rightarrow>
    (string \<Rightarrow> string \<Rightarrow> ConsumerState option) \<Rightarrow> (string \<Rightarrow> bool option) option \<Rightarrow> (string \<Rightarrow> string) \<Rightarrow>
    Ledger \<Rightarrow> time \<Rightarrow> time \<Rightarrow> time \<Rightarrow> Ledger \<times> time \<times> string list" where
  "start_turn Rebuild InFl states presence domains l audited now after =
     (let (l1, notes) = tick states presence domains l now in
      if time_sub after audited \<ge> AuditInterval
      then let (l2, more) = audit Rebuild InFl l1 after in (l2, after, notes @ more)
      else (l1, audited, notes))"

section \<open>Delivery\<close>

record deliveryEntry =
  de_seq :: int
  de_state :: DeliveryState

type_synonym DeliveryBook = "Key \<rightharpoonup> deliveryEntry"

definition NewDeliveryBook :: DeliveryBook where "NewDeliveryBook = Map.empty"

definition Newer :: "DeliveryBook \<Rightarrow> Key \<Rightarrow> int \<Rightarrow> bool" where
  "Newer m k seq = (case m k of None \<Rightarrow> False | Some e \<Rightarrow> de_seq e > seq)"

definition zero_delivery :: DeliveryState where
  "zero_delivery = \<lparr>dv_State = DeliveryWaiting, dv_Reason = '''', dv_Message = '''', dv_Attempts = 0,
     dv_LastNakAt = None, dv_DeadLetteredAt = None\<rparr>"

definition Retrying :: "DeliveryBook \<Rightarrow> Key \<Rightarrow> int \<Rightarrow> int \<Rightarrow> time \<Rightarrow> bool \<Rightarrow> DeliveryBook" where
  "Retrying m k seq deliveries at' last' =
     (if (case m k of None \<Rightarrow> False
          | Some e \<Rightarrow> de_seq e > seq \<or> (de_seq e = seq \<and> dv_State (de_state e) = DeliveryDeadLettered))
      then m
      else m(k \<mapsto> \<lparr>de_seq = seq, de_state = zero_delivery\<lparr>dv_State := DeliveryRetrying, dv_Reason := DeliveryReasonNak,
             dv_Attempts := deliveries, dv_LastNakAt := Some at',
             dv_Message := (if last' then ''the next delivery is the last before the task is dead-lettered'' else '''')\<rparr>\<rparr>))"

definition Seen :: "DeliveryBook \<Rightarrow> Key \<Rightarrow> int \<Rightarrow> bool" where
  "Seen m k seq = (case m k of None \<Rightarrow> False | Some e \<Rightarrow> de_seq e = seq)"

definition DeadLettered :: "DeliveryBook \<Rightarrow> Key \<Rightarrow> int \<Rightarrow> time \<Rightarrow> DeliveryBook" where
  "DeadLettered m k seq at' =
     (if (case m k of None \<Rightarrow> False | Some e \<Rightarrow> de_seq e > seq) then m
      else let st = zero_delivery\<lparr>dv_State := DeliveryDeadLettered, dv_DeadLetteredAt := Some at'\<rparr>
           in m(k \<mapsto> \<lparr>de_seq = seq, de_state =
                (case m k of None \<Rightarrow> st
                 | Some prev \<Rightarrow> if de_seq prev = seq
                     then st\<lparr>dv_Attempts := dv_Attempts (de_state prev), dv_LastNakAt := dv_LastNakAt (de_state prev)\<rparr>
                     else st)\<rparr>))"

definition Lookup :: "DeliveryBook \<Rightarrow> Key \<Rightarrow> int \<Rightarrow> DeliveryState option" where
  "Lookup m k seq = (case m k of None \<Rightarrow> None | Some e \<Rightarrow> if de_seq e \<noteq> seq then None else Some (de_state e))"

definition Forget_delivery :: "DeliveryBook \<Rightarrow> Key \<Rightarrow> int \<Rightarrow> DeliveryBook" where
  "Forget_delivery m k seq =
     (case m k of None \<Rightarrow> m | Some e \<Rightarrow> if de_seq e \<le> seq then m(k := None) else m)"

definition clamp :: "string \<Rightarrow> nat \<Rightarrow> string" where
  "clamp s n = (if length s \<le> n then s else take (clamp_back s n) s)"

text \<open>A dispatch in flight, on what the book holds of it.\<close>

definition render_inFlight :: "Dispatch \<Rightarrow> DeliveryBook option \<Rightarrow> Key \<Rightarrow> Dispatch" where
  "render_inFlight dp m k =
     (case (case m of None \<Rightarrow> None | Some b \<Rightarrow> Lookup b k (dp_Seq dp)) of
        Some st \<Rightarrow> dp\<lparr>dp_Delivery := Some (st\<lparr>dv_Reason := clamp (dv_Reason st) 64, dv_Message := clamp (dv_Message st) 256\<rparr>)\<rparr>
      | None \<Rightarrow>
          if (case dp_Delivery dp of None \<Rightarrow> False | Some x \<Rightarrow> dv_State x = DeliveryClaimed) then dp
          else dp\<lparr>dp_Delivery := Some (zero_delivery\<lparr>dv_State := DeliveryPublished\<rparr>)\<rparr>)"

definition Render :: "Dispatch \<Rightarrow> string \<Rightarrow> Decision option \<Rightarrow> DeliveryBook option \<Rightarrow> Key \<Rightarrow> Dispatch" where
  "Render dp destination dec m k =
     (let d1 = (if destination \<noteq> '''' then dp\<lparr>dp_Destination := clamp destination 253\<rparr> else dp);
          otherwise = (if \<not> InFlight d1 then d1\<lparr>dp_Delivery := None\<rparr> else render_inFlight d1 m k)
      in case dec of
           None \<Rightarrow> otherwise
         | Some x \<Rightarrow> if dc_Admitted x then otherwise
             else d1\<lparr>dp_Delivery := Some (zero_delivery\<lparr>dv_State := DeliveryWaiting,
                    dv_Reason := clamp (dc_Reason x) 64, dv_Message := clamp (dc_Message x) 256\<rparr>)\<rparr>)"

end
