(* ===== verification/DispatchInvariant.thy ===== *)
theory DispatchInvariant
  imports DispatchLedger
begin

text \<open>
  The invariant of the dispatch ledger and what every operation keeps of it: the tables have distinct
  keys, a slot's chain of superseded dispatches has falling seqs and ends in the only slot of it that
  may be published, a published dispatch of a rebuildable durable never expires, and the wake channel
  stays within its buffer. \<open>ledger_op\<close> is the contract of an operation; it is interpreted on each.
\<close>

named_theorems ledger_simps \<open>the fields an operation of the ledger leaves\<close>

section \<open>Slots\<close>

fun slot_ok :: "bool \<Rightarrow> slot \<Rightarrow> bool" where
  "slot_ok rb (Slot seq state expires prev at') \<longleftrightarrow>
     (state = reserved \<longrightarrow> expires \<noteq> 0) \<and>
     (state = published \<longrightarrow> prev = None \<and> (rb \<longrightarrow> expires = 0)) \<and>
     (case prev of None \<Rightarrow> True | Some p \<Rightarrow> s_seq p < seq \<and> slot_ok rb p)"

text \<open>The oldest dispatch of a chain: what is in flight when every reservation on it lapses.\<close>

fun base :: "slot \<Rightarrow> slot" where
  "base (Slot seq state expires prev at') =
     (case prev of None \<Rightarrow> Slot seq state expires prev at' | Some p \<Rightarrow> base p)"

lemma slot_ok_base: "slot_ok rb s \<Longrightarrow> slot_ok rb (base s) \<and> s_seq (base s) \<le> s_seq s"
proof (induction s rule: base.induct)
  case (1 seq state expires prev at')
  then show ?case by (cases prev) fastforce+
qed

lemma lapse_slot_ok: "slot_ok rb s \<Longrightarrow> lapse_slot now s = Some s' \<Longrightarrow> slot_ok rb s'"
proof (induction now s rule: lapse_slot.induct)
  case (1 now seq state expires prev at')
  show ?case
  proof (cases "\<not> is_zero expires \<and> \<not> now < expires")
    case True
    with 1 show ?thesis by (cases prev) auto
  next
    case False
    have "lapse_slot now (Slot seq state expires prev at') = Some (Slot seq state expires prev at')"
      using False by (simp only: lapse_slot.simps if_False)
    with "1.prems" show ?thesis by simp
  qed
qed

text \<open>A lapse never touches a chain's base as long as the base itself has not expired.\<close>

lemma lapse_slot_base:
  "\<not> (s_expires (base s) \<noteq> 0 \<and> s_expires (base s) \<le> now) \<Longrightarrow>
   \<exists>s'. lapse_slot now s = Some s' \<and> base s' = base s \<and> s_seq s' \<le> s_seq s \<or> \<not> slot_ok rb s"
proof (induction now s rule: lapse_slot.induct)
  case (1 now seq state expires prev at')
  show ?case
  proof (cases "\<not> is_zero expires \<and> \<not> now < expires")
    case False
    then have "lapse_slot now (Slot seq state expires prev at') = Some (Slot seq state expires prev at')"
      by (simp only: lapse_slot.simps if_False)
    then show ?thesis by blast
  next
    case True
    show ?thesis
    proof (cases prev)
      case None
      with True 1 show ?thesis by simp
    next
      case (Some p)
      with True 1 show ?thesis by fastforce
    qed
  qed
qed

lemma lapse_slot_base_ok:
  assumes "slot_ok rb s" and "s_expires (base s) = 0"
  obtains s' where "lapse_slot now s = Some s'" and "base s' = base s" and "s_seq s' \<le> s_seq s"
  using lapse_slot_base [of s now rb] assms by auto

section \<open>The invariant\<close>

definition slots_ok :: "Ledger \<Rightarrow> bool" where
  "slots_ok l \<longleftrightarrow> (\<forall>d k s. map_of (book l d) k = Some s \<longrightarrow> slot_ok (rebuildable l d) s)"

definition ledger_ok :: "Ledger \<Rightarrow> bool" where
  "ledger_ok l \<longleftrightarrow> table_ok (l_sources l) \<and> tables_ok (l_books l) \<and> tables_ok (l_waiting l) \<and> tables_ok (l_first l) \<and>
     slots_ok l \<and> length (l_wakes l) \<le> wakeBuffer"

lemma ledger_okD:
  assumes "ledger_ok l"
  shows "table_ok (l_sources l)" "tables_ok (l_books l)" "tables_ok (l_waiting l)" "tables_ok (l_first l)"
    "slots_ok l" "length (l_wakes l) \<le> wakeBuffer" "table_ok (book l d)"
    "map_of (book l d) k = Some s \<Longrightarrow> slot_ok (rebuildable l d) s"
  using assms by (auto simp: ledger_ok_def tables_ok_def slots_ok_def)

lemma New_ok: "ledger_ok (New cs)"
  by (simp add: ledger_ok_def New_def slots_ok_def table_simps)

lemma Register_ok: "ledger_ok l \<Longrightarrow> l_books l = [] \<Longrightarrow> ledger_ok (Register l s)"
  by (simp add: ledger_ok_def Register_def slots_ok_def table_simps)

section \<open>What each operation leaves\<close>

lemma wake_length: "length chan \<le> wakeBuffer \<Longrightarrow> length (wake chan n ks) \<le> wakeBuffer"
  by (induction chan n ks rule: wake.induct) simp_all

lemma freedLocked_fields [ledger_simps]:
  "l_Consumers (freedLocked l d n) = l_Consumers l" "l_sources (freedLocked l d n) = l_sources l"
  "l_rebuilt (freedLocked l d n) = l_rebuilt l" "l_books (freedLocked l d n) = l_books l"
  "l_waiting (freedLocked l d n) = l_waiting l" "l_first (freedLocked l d n) = l_first l"
  "l_attendance (freedLocked l d n) = l_attendance l"
  by (simp_all add: freedLocked_def)

lemma freedLocked_ok: "ledger_ok l \<Longrightarrow> ledger_ok (freedLocked l d n)"
  by (simp add: ledger_ok_def slots_ok_def ledger_simps) (simp add: freedLocked_def wake_length)

lemma set_book_fields [ledger_simps]:
  "l_Consumers (set_book l d b) = l_Consumers l" "l_sources (set_book l d b) = l_sources l"
  "l_rebuilt (set_book l d b) = l_rebuilt l" "book (set_book l d b) x = (if x = d then b else book l x)"
  "l_waiting (set_book l d b) = l_waiting l" "l_first (set_book l d b) = l_first l"
  "l_attendance (set_book l d b) = l_attendance l" "l_wakes (set_book l d b) = l_wakes l"
  by (simp_all add: set_book_def)

lemma set_book_ok:
  assumes "ledger_ok l" and "table_ok b" and "\<And>k s. map_of b k = Some s \<Longrightarrow> slot_ok (rebuildable l d) s"
  shows "ledger_ok (set_book l d b)"
  using assms by (auto simp: ledger_ok_def slots_ok_def ledger_simps) (simp add: set_book_def table_simps)

lemma lapseLocked_fields [ledger_simps]:
  "l_Consumers (lapseLocked l d now) = l_Consumers l" "l_sources (lapseLocked l d now) = l_sources l"
  "l_rebuilt (lapseLocked l d now) = l_rebuilt l"
  "book (lapseLocked l d now) x = (if x = d then refilter (lapse_slot now) (book l d) else book l x)"
  "l_waiting (lapseLocked l d now) = l_waiting l" "l_first (lapseLocked l d now) = l_first l"
  "l_attendance (lapseLocked l d now) = l_attendance l"
  by (simp_all add: lapseLocked_def Let_def ledger_simps)

lemma lapseLocked_ok: "ledger_ok l \<Longrightarrow> ledger_ok (lapseLocked l d now)"
proof -
  assume l: "ledger_ok l"
  have "slot_ok (rebuildable l d) s" if "map_of (refilter (lapse_slot now) (book l d)) k = Some s" for k s
    using that ledger_okD(7,8) [OF l, of d] by (auto simp: map_of_refilter intro: lapse_slot_ok split: option.splits)
  with l show ?thesis
    unfolding lapseLocked_def Let_def
    by (intro freedLocked_ok set_book_ok) (auto simp: table_simps ledger_okD(7))
qed

lemma clearWaitingLocked_fields [ledger_simps]:
  "l_Consumers (clearWaitingLocked l d k) = l_Consumers l" "l_sources (clearWaitingLocked l d k) = l_sources l"
  "l_rebuilt (clearWaitingLocked l d k) = l_rebuilt l" "l_books (clearWaitingLocked l d k) = l_books l"
  "l_first (clearWaitingLocked l d k) = l_first l" "l_wakes (clearWaitingLocked l d k) = l_wakes l"
  "l_attendance (clearWaitingLocked l d k) = l_attendance l"
  by (simp_all add: clearWaitingLocked_def)

lemma clearWaitingLocked_ok: "ledger_ok l \<Longrightarrow> ledger_ok (clearWaitingLocked l d k)"
  by (simp add: ledger_ok_def slots_ok_def ledger_simps) (simp add: clearWaitingLocked_def table_simps)

lemma lapseWaitingLocked_fields [ledger_simps]:
  "l_Consumers (lapseWaitingLocked l d now) = l_Consumers l" "l_sources (lapseWaitingLocked l d now) = l_sources l"
  "l_rebuilt (lapseWaitingLocked l d now) = l_rebuilt l" "l_books (lapseWaitingLocked l d now) = l_books l"
  "l_first (lapseWaitingLocked l d now) = l_first l" "l_wakes (lapseWaitingLocked l d now) = l_wakes l"
  by (simp_all add: lapseWaitingLocked_def)

lemma lapseWaitingLocked_ok: "ledger_ok l \<Longrightarrow> ledger_ok (lapseWaitingLocked l d now)"
  by (simp add: ledger_ok_def slots_ok_def ledger_simps) (simp add: lapseWaitingLocked_def table_simps)

text \<open>Changing the waiters of an admission only.\<close>

lemma first_update_ok: "ledger_ok l \<Longrightarrow> tables_ok f \<Longrightarrow> ledger_ok (l\<lparr>l_first := f\<rparr>)"
  by (simp add: ledger_ok_def slots_ok_def)

lemma waiting_update_ok: "ledger_ok l \<Longrightarrow> tables_ok w \<Longrightarrow> ledger_ok (l\<lparr>l_waiting := w\<rparr>)"
  by (simp add: ledger_ok_def slots_ok_def)

lemma firstWaitingLocked_fields [ledger_simps]:
  "l_Consumers (snd (firstWaitingLocked l d k now)) = l_Consumers l" "l_sources (snd (firstWaitingLocked l d k now)) = l_sources l"
  "l_rebuilt (snd (firstWaitingLocked l d k now)) = l_rebuilt l" "l_books (snd (firstWaitingLocked l d k now)) = l_books l"
  by (simp_all add: firstWaitingLocked_def Let_def)

lemma firstWaitingLocked_ok: "ledger_ok l \<Longrightarrow> ledger_ok (snd (firstWaitingLocked l d k now))"
  by (simp add: firstWaitingLocked_def Let_def first_update_ok table_simps ledger_okD)

lemma markFirstLocked_fields [ledger_simps]:
  "l_Consumers (markFirstLocked l d k now) = l_Consumers l" "l_sources (markFirstLocked l d k now) = l_sources l"
  "l_rebuilt (markFirstLocked l d k now) = l_rebuilt l" "l_books (markFirstLocked l d k now) = l_books l"
  by (simp_all add: markFirstLocked_def Let_def)

lemma markFirstLocked_ok: "ledger_ok l \<Longrightarrow> ledger_ok (markFirstLocked l d k now)"
  by (simp add: markFirstLocked_def Let_def first_update_ok table_simps ledger_okD(4) tables_okD)

lemma reserve_fields [ledger_simps]:
  "l_Consumers (reserve l d k seq now) = l_Consumers l" "l_sources (reserve l d k seq now) = l_sources l"
  "l_rebuilt (reserve l d k seq now) = l_rebuilt l"
  "book (reserve l d k seq now) x =
     (if x = d then AList.update k (Slot seq reserved (now + ReservationTTL) (map_of (book l d) k) now) (book l d) else book l x)"
  by (simp_all add: reserve_def Let_def ledger_simps)

lemma reserve_ok:
  assumes "ledger_ok l" and "0 \<le> now" and "\<And>s. map_of (book l d) k = Some s \<Longrightarrow> s_seq s < seq"
  shows "ledger_ok (reserve l d k seq now)"
proof -
  let ?b = "AList.update k (Slot seq reserved (now + ReservationTTL) (map_of (book l d) k) now) (book l d)"
  have "slot_ok (rebuildable l d) s" if "map_of ?b x = Some s" for x s
    using that assms ledger_okD(8) [OF assms(1), of d]
    by (auto simp: update_conv' ReservationTTL_def duration_defs split: if_splits option.splits)
  then have "ledger_ok (set_book l d ?b)" by (intro set_book_ok) (simp_all add: assms(1) table_simps ledger_okD)
  then show ?thesis
    unfolding reserve_def Let_def
    by (intro first_update_ok clearWaitingLocked_ok) (simp_all add: ledger_simps table_simps ledger_okD(4) assms(1))
qed

end
