(* ===== verification/DispatchCalls.thy ===== *)
theory DispatchCalls
  imports DispatchInvariant
begin

text \<open>
  The operations of the dispatch ledger, one by one: what each leaves in the durables' books, and
  that it keeps the invariant. \<open>ledger_call\<close> names them, \<open>call\<close> runs one, and \<open>run\<close> is any
  interleaving of calls at the times the clock gave.
\<close>

section \<open>Admission\<close>

lemma admit_elim:
  assumes "admit l d k seq first now = (dec, l')"
  obtains (rebuilding) "\<not> l_rebuilt l" "dec = refused DeliveryReasonRebuilding
        ''waiting for the dispatch ledger to rebuild from status after a leader change'' TickInterval" "l' = l"
  | (unknown) "l_rebuilt l" "spec l d = None" "\<not> dc_Admitted dec" "dc_Reason dec = DeliveryReasonBudget" "l' = l"
  | (held) c cur where "l_rebuilt l" "spec l d = Some c" "map_of (book (lapseLocked l d now) d) k = Some cur"
      "seq \<le> s_seq cur" "dec = granted" "l' = clearWaitingLocked (lapseLocked l d now) d k"
  | (full) c l2 n w where "l_rebuilt l" "spec l d = Some c"
      "\<forall>cur. map_of (book (lapseLocked l d now) d) k = Some cur \<longrightarrow> s_seq cur < seq"
      "n = int (length (book (lapseLocked l d now) d)) - (if map_of (book (lapseLocked l d now) d) k \<noteq> None then 1 else 0)"
      "w = (if first then 0 else int (fst (firstWaitingLocked (lapseLocked l d now) d k now)))"
      "budgetOf c - w \<le> n" "dec = refuse_full l' d k first n"
      "l2 = (if first then lapseLocked l d now else snd (firstWaitingLocked (lapseLocked l d now) d k now))"
      "l' = (if first then markFirstLocked l2 d k now else l2)"
  | (room) c l2 n w where "l_rebuilt l" "spec l d = Some c"
      "\<forall>cur. map_of (book (lapseLocked l d now) d) k = Some cur \<longrightarrow> s_seq cur < seq"
      "n = int (length (book (lapseLocked l d now) d)) - (if map_of (book (lapseLocked l d now) d) k \<noteq> None then 1 else 0)"
      "w = (if first then 0 else int (fst (firstWaitingLocked (lapseLocked l d now) d k now)))"
      "n < budgetOf c - w" "dec = granted"
      "l2 = (if first then lapseLocked l d now else snd (firstWaitingLocked (lapseLocked l d now) d k now))"
      "l' = reserve l2 d k seq now"
proof (cases "l_rebuilt l")
  case False
  from False assms show ?thesis by (intro rebuilding) (simp_all add: admit_def)
next
  case rebuilt: True
  show ?thesis
  proof (cases "spec l d")
    case None
    from None rebuilt assms show ?thesis by (intro unknown) (auto simp: admit_def refused_def)
  next
    case (Some c)
    let ?l1 = "lapseLocked l d now"
    let ?m = "map_of (book ?l1 d) k"
    show ?thesis
    proof (cases "case ?m of None \<Rightarrow> False | Some cur \<Rightarrow> seq \<le> s_seq cur")
      case True
      then obtain cur where "?m = Some cur" "seq \<le> s_seq cur" by (auto split: option.splits)
      with rebuilt Some assms show ?thesis by (intro held) (simp_all add: admit_def Let_def)
    next
      case False
      then have newer: "\<forall>cur. ?m = Some cur \<longrightarrow> s_seq cur < seq" by auto
      define n where "n = int (length (book ?l1 d)) - (if ?m \<noteq> None then 1 else 0)"
      define w where "w = (if first then 0 else int (fst (firstWaitingLocked ?l1 d k now)))"
      define l2 where "l2 = (if first then ?l1 else snd (firstWaitingLocked ?l1 d k now))"
      have eq: "admit l d k seq first now =
          (if budgetOf c - w \<le> n
           then let l3 = (if first then markFirstLocked l2 d k now else l2) in (refuse_full l3 d k first n, l3)
           else (granted, reserve l2 d k seq now))"
        using rebuilt Some False
        by (simp add: admit_def Let_def n_def w_def l2_def split_beta del: split_paired_All)
      show ?thesis
      proof (cases "budgetOf c - w \<le> n")
        case True
        define l3 where "l3 = (if first then markFirstLocked l2 d k now else l2)"
        from eq True assms have "(refuse_full l3 d k first n, l3) = (dec, l')" by (simp only: if_True l3_def Let_def)
        then have l': "l' = l3" and dec: "dec = refuse_full l' d k first n" by auto
        show ?thesis by (rule full [OF rebuilt Some newer n_def w_def True dec l2_def l' [unfolded l3_def]])
      next
        case False
        with eq assms have "(granted, reserve l2 d k seq now) = (dec, l')" by (simp only: if_False)
        then have l': "l' = reserve l2 d k seq now" and dec: "dec = granted" by simp_all
        from False have lt: "n < budgetOf c - w" by simp
        show ?thesis by (rule room [OF rebuilt Some newer n_def w_def lt dec l2_def l'])
      qed
    qed
  qed
qed

lemma admit_fields [ledger_simps]:
  assumes "admit l d k seq first now = (dec, l')"
  shows "l_Consumers l' = l_Consumers l" "l_sources l' = l_sources l" "l_rebuilt l' = l_rebuilt l"
    "x \<noteq> d \<Longrightarrow> book l' x = book l x"
  by (rule admit_elim [OF assms]; simp add: ledger_simps)+

lemma admit_ok:
  assumes "admit l d k seq first now = (dec, l')" and l: "ledger_ok l" and now: "0 \<le> now"
  shows "ledger_ok l'"
  using assms(1)
proof (cases rule: admit_elim)
  case (held c cur)
  then show ?thesis by (simp add: clearWaitingLocked_ok lapseLocked_ok l)
next
  case (full c l2 n w)
  then show ?thesis by (simp add: markFirstLocked_ok firstWaitingLocked_ok lapseLocked_ok l)
next
  case (room c l2 n w)
  have "ledger_ok l2" using room(8) by (simp add: firstWaitingLocked_ok lapseLocked_ok l)
  moreover have "book l2 d = book (lapseLocked l d now) d" using room(8) by (simp add: ledger_simps)
  ultimately show ?thesis using room(3) unfolding room(9) by (intro reserve_ok now) auto
qed (simp_all add: l)

text \<open>The durable's book after a call of Admit that got as far as the book.\<close>

lemma admit_book:
  assumes "admit l d k seq first now = (dec, l')"
  shows "book l' d = book l d \<or> book l' d = refilter (lapse_slot now) (book l d) \<or>
    (let b = refilter (lapse_slot now) (book l d)
     in book l' d = AList.update k (Slot seq reserved (now + ReservationTTL) (map_of b k) now) b \<and>
        (\<forall>cur. map_of b k = Some cur \<longrightarrow> s_seq cur < seq) \<and> dc_Admitted dec \<and>
        (\<exists>c. spec l d = Some c \<and> int (length (book l' d)) \<le> budgetOf c))"
  using assms
proof (cases rule: admit_elim)
  case (room c l2 n w)
  have "book l2 d = refilter (lapse_slot now) (book l d)" using room(8) by (simp add: ledger_simps)
  moreover have "0 \<le> w" using room(5) by simp
  ultimately show ?thesis using room by (auto simp: ledger_simps length_update granted_def Let_def)
qed (simp_all add: ledger_simps)

section \<open>Reports\<close>

lemma bookLocked_eq: "bookLocked l d = (set_book l d (book l d), book l d)"
  by (simp add: bookLocked_def)

lemma Published_fields [ledger_simps]:
  "l_Consumers (Published l d k seq now) = l_Consumers l" "l_sources (Published l d k seq now) = l_sources l"
  "l_rebuilt (Published l d k seq now) = l_rebuilt l"
  "x \<noteq> d \<Longrightarrow> book (Published l d k seq now) x = book l x"
  by (simp_all add: Published_def bookLocked_eq Let_def ledger_simps)

definition published_slot :: "Ledger \<Rightarrow> string \<Rightarrow> int \<Rightarrow> time \<Rightarrow> slot" where
  "published_slot l d seq now = Slot seq published (if rebuildable l d then 0
     else case spec l d of None \<Rightarrow> 0 | Some c \<Rightarrow> now + lapseAfter c) None now"

lemma Published_book:
  "book (Published l d k seq now) d =
     (if (\<exists>cur. map_of (book l d) k = Some cur \<and> s_seq cur > seq) then book l d
      else AList.update k (published_slot l d seq now) (book l d))"
  by (auto simp: Published_def bookLocked_eq Let_def ledger_simps published_slot_def split: option.splits)

lemma Published_ok: "ledger_ok l \<Longrightarrow> ledger_ok (Published l d k seq now)"
proof -
  assume l: "ledger_ok l"
  have s: "ledger_ok (set_book l d b)"
    if "table_ok b" "\<And>k s. map_of b k = Some s \<Longrightarrow> map_of (book l d) k = Some s \<or> s = published_slot l d seq now" for b
    using that ledger_okD(8) [OF l, of d] by (intro set_book_ok [OF l]) (fastforce simp: published_slot_def)+
  have u: "set_book (set_book l d b) d b' = set_book l d b'" for b b'
    by (simp add: set_book_def)
  show ?thesis
    unfolding Published_def bookLocked_eq Let_def prod.case
    by (auto intro!: clearWaitingLocked_ok s split: option.splits if_splits
        simp: u table_simps ledger_okD(7) [OF l] update_conv' published_slot_def)
qed

lemma Answered_fields [ledger_simps]:
  "l_Consumers (Answered l d k seq) = l_Consumers l" "l_sources (Answered l d k seq) = l_sources l"
  "l_rebuilt (Answered l d k seq) = l_rebuilt l"
  "x \<noteq> d \<Longrightarrow> book (Answered l d k seq) x = book l x"
  by (simp_all add: Answered_def bookLocked_eq Let_def ledger_simps)

lemma Answered_book:
  "book (Answered l d k seq) d = (if Holds l d k seq then AList.delete k (book l d) else book l d)"
  by (simp add: Answered_def Holds_def bookLocked_eq Let_def ledger_simps)

lemma Answered_ok: "ledger_ok l \<Longrightarrow> ledger_ok (Answered l d k seq)"
proof -
  assume l: "ledger_ok l"
  have s: "ledger_ok (set_book l d b)" if "table_ok b" "\<And>k s. map_of b k = Some s \<Longrightarrow> map_of (book l d) k = Some s" for b
    using that ledger_okD(8) [OF l, of d] by (intro set_book_ok [OF l]) auto
  have u: "set_book (set_book l d b) d b' = set_book l d b'" for b b'
    by (simp add: set_book_def)
  show ?thesis
    unfolding Answered_def bookLocked_eq Let_def prod.case
    by (auto intro!: freedLocked_ok s split: option.splits if_splits simp: u table_simps ledger_okD(7) [OF l] delete_conv')
qed

text \<open>Dropping slots from a book that is there.\<close>

lemma drop_slots_ok:
  assumes "ledger_ok l" and "f [] = []" and "\<And>t. table_ok t \<Longrightarrow> table_ok (f t)"
    and "\<And>k s. map_of (f (book l d)) k = Some s \<Longrightarrow> map_of (book l d) k = Some s"
  shows "ledger_ok (l\<lparr>l_books := modify d f (l_books l)\<rparr>)"
  using assms(1,2) ledger_okD(8) [OF assms(1)] assms(4) tables_ok_modify [of "l_books l" f d, OF _ assms(2,3)]
  unfolding ledger_ok_def slots_ok_def by (auto simp: tbl_modify split: if_splits) blast

lemma forget_gone_one_fields [ledger_simps]:
  "l_Consumers (forget_gone_one g l d) = l_Consumers l" "l_sources (forget_gone_one g l d) = l_sources l"
  "l_rebuilt (forget_gone_one g l d) = l_rebuilt l"
  "book (forget_gone_one g l d) x = (if x = d then filter (\<lambda>p. \<not> g (fst p)) (book l d) else book l x)"
  by (simp_all add: forget_gone_one_def Let_def ledger_simps tbl_modify)

lemma forget_gone_one_ok: "ledger_ok l \<Longrightarrow> ledger_ok (forget_gone_one g l d)"
proof -
  assume l: "ledger_ok l"
  let ?f = "filter (\<lambda>p. \<not> g (fst p))"
  from l have b: "ledger_ok (l\<lparr>l_books := modify d ?f (l_books l)\<rparr>)"
    by (rule drop_slots_ok) (auto simp: table_simps map_of_filter_key [of "\<lambda>k. \<not> g k"] split: if_splits)
  have "ledger_ok (l\<lparr>l_books := modify d ?f (l_books l), l_waiting := modify d (filter (\<lambda>p. \<not> g (fst p))) (l_waiting l),
      l_first := modify d (filter (\<lambda>p. \<not> g (fst p))) (l_first l)\<rparr>)"
    using b by (intro first_update_ok waiting_update_ok) (auto simp: table_simps ledger_okD [OF l])
  then show ?thesis unfolding forget_gone_one_def Let_def by (rule freedLocked_ok)
qed

lemma ForgetGone_fold:
  "l_Consumers (foldl (forget_gone_one g) l ds) = l_Consumers l \<and> l_sources (foldl (forget_gone_one g) l ds) = l_sources l \<and>
   l_rebuilt (foldl (forget_gone_one g) l ds) = l_rebuilt l \<and>
   (\<forall>x. book (foldl (forget_gone_one g) l ds) x = (if x \<in> set ds then filter (\<lambda>p. \<not> g (fst p)) (book l x) else book l x)) \<and>
   (ledger_ok l \<longrightarrow> ledger_ok (foldl (forget_gone_one g) l ds))"
  by (induction ds arbitrary: l) (auto simp: ledger_simps forget_gone_one_ok)

lemma ForgetGone_fields [ledger_simps]:
  "l_Consumers (ForgetGone l kind ns name) = l_Consumers l" "l_sources (ForgetGone l kind ns name) = l_sources l"
  "l_rebuilt (ForgetGone l kind ns name) = l_rebuilt l"
  "book (ForgetGone l kind ns name) x =
     (if rebuildable l x then filter (\<lambda>p. \<not> gone kind ns name (fst p)) (book l x) else book l x)"
  using ForgetGone_fold [of "gone kind ns name" l "map fst (l_sources l)"]
  by (simp_all add: ForgetGone_def map_of_eq_None_iff)

lemma ForgetGone_ok: "ledger_ok l \<Longrightarrow> ledger_ok (ForgetGone l kind ns name)"
  using ForgetGone_fold [of "gone kind ns name" l "map fst (l_sources l)"] by (simp add: ForgetGone_def)

lemma forget_one_fields [ledger_simps]:
  "l_Consumers (forget_one k l d) = l_Consumers l" "l_sources (forget_one k l d) = l_sources l"
  "l_rebuilt (forget_one k l d) = l_rebuilt l" "l_waiting (forget_one k l d) = l_waiting l" "l_first (forget_one k l d) = l_first l"
  "map_of (book (forget_one k l d) x) y = (if x = d \<and> y = k then None else map_of (book l x) y)"
  by (auto simp: forget_one_def ledger_simps tbl_modify delete_conv')

lemma forget_one_length: "length (book (forget_one k l d) x) \<le> length (book l x)"
  by (simp add: forget_one_def ledger_simps tbl_modify length_delete_le)

lemma forget_one_ok: "ledger_ok l \<Longrightarrow> ledger_ok (forget_one k l d)"
  unfolding forget_one_def
  by (auto intro!: freedLocked_ok drop_slots_ok simp: table_simps delete_conv' split: if_splits)

lemma Forget_fold:
  "l_Consumers (foldl (forget_one k) l ds) = l_Consumers l \<and> l_sources (foldl (forget_one k) l ds) = l_sources l \<and>
   l_rebuilt (foldl (forget_one k) l ds) = l_rebuilt l \<and>
   (\<forall>x y. map_of (book (foldl (forget_one k) l ds) x) y = (if x \<in> set ds \<and> y = k then None else map_of (book l x) y)) \<and>
   (\<forall>x. length (book (foldl (forget_one k) l ds) x) \<le> length (book l x)) \<and>
   (ledger_ok l \<longrightarrow> ledger_ok (foldl (forget_one k) l ds))"
proof (induction ds arbitrary: l)
  case (Cons d ds)
  have "length (book (foldl (forget_one k) (forget_one k l d) ds) x) \<le> length (book l x)" for x
    using Cons [of "forget_one k l d"] forget_one_length [of k l d x] order_trans by blast
  with Cons [of "forget_one k l d"] show ?case by (auto simp: ledger_simps forget_one_ok)
qed simp

lemma tables_ok_map_delete: "tables_ok m \<Longrightarrow> tables_ok (map (\<lambda>(d, t). (d, AList.delete k t)) m)"
proof -
  assume m: "tables_ok m"
  have "map_of (map (\<lambda>(d, t). (d, AList.delete k t)) m) x = map_option (AList.delete k) (map_of m x)" for x
    by (induction m) auto
  then have "table_ok (tbl (map (\<lambda>(d, t). (d, AList.delete k t)) m) x)" for x
    using m tables_okD [OF m, of x] by (simp add: tbl_def table_simps split: option.split option.split_asm)
  moreover have keys: "map fst (map (\<lambda>(d, t). (d, AList.delete k t)) m) = map fst m" by (induction m) auto
  ultimately show ?thesis using m unfolding tables_ok_def table_ok_def keys by simp
qed

lemma Forget_fields [ledger_simps]:
  "l_Consumers (Forget l k) = l_Consumers l" "l_sources (Forget l k) = l_sources l" "l_rebuilt (Forget l k) = l_rebuilt l"
  "map_of (book (Forget l k) x) y = (if y = k then None else map_of (book l x) y)"
proof -
  note f = Forget_fold [of k l "map fst (l_books l)"]
  show "l_Consumers (Forget l k) = l_Consumers l" "l_sources (Forget l k) = l_sources l" "l_rebuilt (Forget l k) = l_rebuilt l"
    using f by (simp_all add: Forget_def Let_def)
  have "book l x = []" if "x \<notin> fst ` set (l_books l)"
    using that by (simp add: tbl_def map_of_eq_None_iff [THEN iffD2])
  with f show "map_of (book (Forget l k) x) y = (if y = k then None else map_of (book l x) y)"
    by (auto simp: Forget_def Let_def)
qed

lemma Forget_length: "length (book (Forget l k) x) \<le> length (book l x)"
  using Forget_fold [of k l "map fst (l_books l)"] by (simp add: Forget_def Let_def)

lemma Forget_ok: "ledger_ok l \<Longrightarrow> ledger_ok (Forget l k)"
proof -
  assume "ledger_ok l"
  then have "ledger_ok (foldl (forget_one k) l (map fst (l_books l)))" (is "ledger_ok ?l")
    using Forget_fold [of k l "map fst (l_books l)"] by simp
  then have "ledger_ok (?l\<lparr>l_waiting := map (\<lambda>(d, w). (d, AList.delete k w)) (l_waiting ?l),
      l_first := map (\<lambda>(d, f). (d, AList.delete k f)) (l_first ?l)\<rparr>)"
    by (intro first_update_ok waiting_update_ok) (auto intro: tables_ok_map_delete simp: ledger_okD)
  then show ?thesis by (simp add: Forget_def Let_def)
qed

end
