(* ===== verification/DispatchRuns.thy ===== *)
theory DispatchRuns
  imports DispatchCalls
begin

text \<open>
  The rest of the ledger's operations (the audit, the rebuild, the leader's tick and the readers), and
  the ledger as a state machine: \<open>lstep\<close> is one critical section, \<open>lrun\<close> any interleaving of them.
\<close>

section \<open>The audit\<close>

definition releases :: "Ledger \<Rightarrow> time \<Rightarrow> (Key, bool) table \<Rightarrow> string \<Rightarrow> stale list \<Rightarrow> Key \<Rightarrow> bool" where
  "releases l cutoff inFl d slots k \<longleftrightarrow>
     (\<exists>sl. map_of (book l d) k = Some sl \<and> (k, s_seq sl) \<in> set slots \<and> s_state sl = published \<and> s_at sl < cutoff \<and>
        \<not> shows_inFlight inFl k)"

lemma audit_one_cases:
  obtains (keeps) "audit_one cutoff inFl d (l, rel) (k, seq) = (l, rel)" "\<not> releases l cutoff inFl d [(k, seq)] k"
  | (drops) "audit_one cutoff inFl d (l, rel) (k, seq) = (l\<lparr>l_books := modify d (AList.delete k) (l_books l)\<rparr>, rel @ [k])"
      "releases l cutoff inFl d [(k, seq)] k"
proof (cases "releases l cutoff inFl d [(k, seq)] k")
  case True
  then have "audit_one cutoff inFl d (l, rel) (k, seq) = (l\<lparr>l_books := modify d (AList.delete k) (l_books l)\<rparr>, rel @ [k])"
    by (auto simp: audit_one_def releases_def)
  with True show ?thesis by (rule drops [rotated])
next
  case False
  then have "audit_one cutoff inFl d (l, rel) (k, seq) = (l, rel)"
    by (auto simp: audit_one_def releases_def split: option.split)
  from keeps [OF this False] show ?thesis .
qed

lemma releases_Cons:
  "releases l cutoff inFl d (p # slots) k \<longleftrightarrow> releases l cutoff inFl d [p] k \<or> releases l cutoff inFl d slots k"
  by (auto simp: releases_def)

lemma releases_key: "releases l cutoff inFl d [(k, seq)] x \<Longrightarrow> x = k"
  by (auto simp: releases_def)

lemma delete_book_ok: "ledger_ok l \<Longrightarrow> ledger_ok (l\<lparr>l_books := modify d (AList.delete k) (l_books l)\<rparr>)"
  by (rule drop_slots_ok) (auto simp: table_simps delete_conv' split: if_splits)

lemma audit_fold:
  assumes "foldl (audit_one cutoff inFl d) (l, rel) slots = (l', rel')"
  shows "l_Consumers l' = l_Consumers l \<and> l_sources l' = l_sources l \<and> l_rebuilt l' = l_rebuilt l \<and>
    (ledger_ok l \<longrightarrow> ledger_ok l') \<and>
    (\<forall>x. length (book l' x) \<le> length (book l x)) \<and>
    (\<forall>x y. map_of (book l' x) y = (if x = d \<and> releases l cutoff inFl d slots y then None else map_of (book l x) y)) \<and>
    set rel' = set rel \<union> {y. releases l cutoff inFl d slots y}"
  using assms
proof (induction slots arbitrary: l rel)
  case Nil
  then show ?case by (auto simp: releases_def)
next
  case (Cons p slots)
  obtain k seq where p: "p = (k, seq)" by (cases p)
  show ?case
  proof (cases rule: audit_one_cases [of cutoff inFl d l rel k seq])
    case keeps
    have "releases l cutoff inFl d (p # slots) y = releases l cutoff inFl d slots y" for y
      using keeps(2) releases_key [of l cutoff inFl d k seq y] by (auto simp: p releases_Cons [of _ _ _ _ _ slots])
    with Cons.IH [of l rel] Cons.prems keeps(1) show ?thesis by (simp add: p)
  next
    case drops
    define l1 where "l1 = l\<lparr>l_books := modify d (AList.delete k) (l_books l)\<rparr>"
    have m: "map_of (book l1 x) y = (if x = d \<and> y = k then None else map_of (book l x) y)" for x y
      by (simp add: l1_def tbl_modify delete_conv')
    have len: "length (book l1 x) \<le> length (book l x)" for x
      by (simp add: l1_def tbl_modify length_delete_le)
    have r: "releases l cutoff inFl d (p # slots) y \<longleftrightarrow> y = k \<or> releases l1 cutoff inFl d slots y" for y
      using drops(2) releases_key [of l cutoff inFl d k seq y]
      by (auto simp: p releases_Cons [of _ _ _ _ _ slots] releases_def m)
    have ih: "foldl (audit_one cutoff inFl d) (l1, rel @ [k]) slots = (l', rel')"
      using Cons.prems drops(1) by (simp add: p l1_def)
    have "length (book l' x) \<le> length (book l x)" for x
      using Cons.IH [OF ih] len [of x] order_trans by blast
    moreover have "l_Consumers l1 = l_Consumers l" "l_sources l1 = l_sources l" "l_rebuilt l1 = l_rebuilt l"
      "ledger_ok l \<longrightarrow> ledger_ok l1"
      by (simp_all add: l1_def delete_book_ok)
    ultimately show ?thesis using Cons.IH [OF ih] by (auto simp: r m)
  qed
qed

lemma audit_release_fields:
  assumes "audit_release l cutoff inFl d slots = (l', released)"
  shows "l_Consumers l' = l_Consumers l" "l_sources l' = l_sources l" "l_rebuilt l' = l_rebuilt l"
    "ledger_ok l \<Longrightarrow> ledger_ok l'" "length (book l' x) \<le> length (book l x)"
    "map_of (book l' x) y = (if x = d \<and> releases l cutoff inFl d slots y then None else map_of (book l x) y)"
    "set released = {y. releases l cutoff inFl d slots y}"
proof -
  obtain l1 r where f: "foldl (audit_one cutoff inFl d) (l, []) slots = (l1, r)" by (cases "foldl (audit_one cutoff inFl d) (l, []) slots")
  then have "l' = freedLocked l1 d (length r)" "released = r" using assms by (auto simp: audit_release_def)
  with audit_fold [OF f]
  show "l_Consumers l' = l_Consumers l" "l_sources l' = l_sources l" "l_rebuilt l' = l_rebuilt l"
    "ledger_ok l \<Longrightarrow> ledger_ok l'" "length (book l' x) \<le> length (book l x)"
    "map_of (book l' x) y = (if x = d \<and> releases l cutoff inFl d slots y then None else map_of (book l x) y)"
    "set released = {y. releases l cutoff inFl d slots y}"
    by (simp_all add: ledger_simps freedLocked_ok)
qed

section \<open>The rebuild\<close>

text \<open>A book as the rebuild makes it: only published dispatches, which never expire.\<close>

definition fresh_book :: "Book \<Rightarrow> bool" where
  "fresh_book b \<longleftrightarrow> table_ok b \<and> (\<forall>k s. map_of b k = Some s \<longrightarrow> s_state s = published \<and> s_expires s = 0 \<and> s_prev s = None)"

lemma fresh_slot_ok: "fresh_book b \<Longrightarrow> map_of b k = Some s \<Longrightarrow> slot_ok rb s"
  unfolding fresh_book_def by (cases s) fastforce

lemma rebuild_one_fresh: "fresh_book b \<Longrightarrow> fresh_book (rebuild_one now b o')"
  by (auto simp: fresh_book_def rebuild_one_def table_simps update_conv' split: if_splits)

lemma rebuild_fold_fresh: "fresh_book b \<Longrightarrow> fresh_book (foldl (rebuild_one now) b outs)"
  by (induction outs arbitrary: b) (simp_all add: rebuild_one_fresh)

lemma rebuild_books_Inr:
  "rebuild_books R now acc ds = Inr books \<Longrightarrow> table_ok acc \<Longrightarrow> table_ok books \<and>
   (\<forall>d. map_of books d = (if d \<in> set ds then map_option (\<lambda>outs. foldl (rebuild_one now) [] outs)
      (case R d of Inl e \<Rightarrow> None | Inr outs \<Rightarrow> Some outs) else map_of acc d)) \<and>
   (\<forall>d \<in> set ds. \<exists>outs. R d = Inr outs)"
proof (induction R now acc ds rule: rebuild_books.induct)
  case (2 R now acc d ds)
  then obtain outs where r: "R d = Inr outs" by (cases "R d") simp_all
  with 2 show ?case by (auto simp: table_simps update_conv')
qed simp

lemma install_book:
  "table_ok books \<Longrightarrow> tbl (foldl (\<lambda>bs (d, b). AList.update d b bs) m books) x =
     (case map_of books x of None \<Rightarrow> tbl m x | Some b \<Rightarrow> b)"
proof (induction books arbitrary: m)
  case (Cons p books)
  obtain d b where p: "p = (d, b)" by (cases p)
  from Cons.prems have t: "table_ok books" and n: "map_of books d = None"
    by (auto simp: p table_ok_def map_of_eq_None_iff)
  from Cons.IH [OF t, of "AList.update d b m"] n show ?case
    by (cases "x = d") (simp_all add: p split: option.split)
qed simp

lemma rebuild_install_fields:
  assumes "rebuild_books R now [] (map fst (l_sources l)) = Inr books"
  shows "l_Consumers (rebuild_install l books) = l_Consumers l" "l_sources (rebuild_install l books) = l_sources l"
    "rebuildable l d \<Longrightarrow> \<exists>outs. R d = Inr outs \<and> book (rebuild_install l books) d = foldl (rebuild_one now) [] outs"
    "\<not> rebuildable l d \<Longrightarrow> book (rebuild_install l books) d = book l d"
proof -
  have r: "table_ok books" "map_of books d = (if rebuildable l d then map_option (\<lambda>outs. foldl (rebuild_one now) [] outs)
      (case R d of Inl e \<Rightarrow> None | Inr outs \<Rightarrow> Some outs) else None)" "\<forall>d. rebuildable l d \<longrightarrow> (\<exists>outs. R d = Inr outs)" for d
    using rebuild_books_Inr [OF assms table_ok_Nil] by (auto simp: map_of_eq_None_iff)
  show "l_Consumers (rebuild_install l books) = l_Consumers l" "l_sources (rebuild_install l books) = l_sources l"
    by (simp_all add: rebuild_install_def)
  have b: "book (rebuild_install l books) d = (case map_of books d of None \<Rightarrow> book l d | Some b \<Rightarrow> b)" for d
    using install_book [OF r(1)] by (simp add: rebuild_install_def)
  show "\<exists>outs. R d = Inr outs \<and> book (rebuild_install l books) d = foldl (rebuild_one now) [] outs" if d: "rebuildable l d"
  proof -
    from r(3) d obtain outs where "R d = Inr outs" by blast
    with d r(2) [of d] b [of d] show ?thesis by simp
  qed
  show "\<not> rebuildable l d \<Longrightarrow> book (rebuild_install l books) d = book l d"
    using r(2) [of d] b [of d] by simp
qed

lemma rebuild_install_ok:
  assumes "rebuild_books R now [] (map fst (l_sources l)) = Inr books" and l: "ledger_ok l"
  shows "ledger_ok (rebuild_install l books)"
proof -
  let ?l = "rebuild_install l books"
  note f = rebuild_install_fields [OF assms(1)]
  have fresh: "fresh_book (book ?l d)" if "rebuildable l d" for d
    using f(3) [OF that] rebuild_fold_fresh [of "[]" now] by (auto simp: fresh_book_def table_simps)
  have "table_ok (book ?l d)" for d
    using fresh [of d] f(4) [of d] ledger_okD(7) [OF l, of d] by (cases "rebuildable l d") (auto simp: fresh_book_def)
  moreover have "table_ok (l_books ?l)"
  proof -
    have "table_ok (foldl (\<lambda>bs (d, b). AList.update d b bs) m bs)" if "table_ok m" for m :: "(string, Book) table" and bs
      using that by (induction bs arbitrary: m) (auto simp: table_simps)
    then show ?thesis using ledger_okD(2) [OF l] by (simp add: rebuild_install_def tables_ok_def)
  qed
  moreover have "slot_ok (rebuildable l d) s" if "map_of (book ?l d) k = Some s" for d k s
    using that fresh [of d] fresh_slot_ok [of "book ?l d" k s] f(4) [of d] ledger_okD(8) [OF l, of d k s]
    by (cases "rebuildable l d") auto
  ultimately show ?thesis
    using l by (simp add: ledger_ok_def slots_ok_def tables_ok_def f(2)) (simp add: rebuild_install_def)
qed

section \<open>The tick and the readers\<close>

lemma unserved_same [simp]: "\<exists>u. l = l\<lparr>l_unserved := u\<rparr>" for l :: Ledger
  by (rule exI [of _ "l_unserved l"]) simp

lemma unservedLocked_fields:
  "\<exists>u. snd (unservedLocked l domain now) = l\<lparr>l_unserved := u\<rparr>"
  by (auto simp: unservedLocked_def split: option.split)

lemma detect_fields:
  "\<exists>u a. fst (detect st presence l c domain now) = l\<lparr>l_unserved := u, l_attendance := a\<rparr>"
proof -
  have "\<exists>u. snd (if domain \<noteq> '''' then unservedLocked l domain now else (False, l)) = l\<lparr>l_unserved := u\<rparr>"
    by (simp add: unservedLocked_fields)
  then obtain u' where "snd (if domain \<noteq> '''' then unservedLocked l domain now else (False, l)) = l\<lparr>l_unserved := u'\<rparr>" ..
  then show ?thesis unfolding detect_def Let_def split_beta fst_conv by (auto simp only:)
qed

lemma attendance_update_ok: "ledger_ok (l\<lparr>l_unserved := u, l_attendance := a\<rparr>) = ledger_ok l"
  by (simp add: ledger_ok_def slots_ok_def)

definition tick_one :: "time \<Rightarrow> Ledger \<Rightarrow> string \<Rightarrow> Ledger" where
  "tick_one now l d = lapseWaitingLocked (lapseLocked l d now) d now"

lemma tick_one_fold:
  "distinct ds \<Longrightarrow> l_Consumers (foldl (tick_one now) l ds) = l_Consumers l \<and> l_sources (foldl (tick_one now) l ds) = l_sources l \<and>
   l_rebuilt (foldl (tick_one now) l ds) = l_rebuilt l \<and> (ledger_ok l \<longrightarrow> ledger_ok (foldl (tick_one now) l ds)) \<and>
   (\<forall>x. book (foldl (tick_one now) l ds) x = (if x \<in> set ds then refilter (lapse_slot now) (book l x) else book l x))"
proof (induction ds arbitrary: l)
  case (Cons d ds)
  then show ?case
    by (auto simp: tick_one_def ledger_simps lapseWaitingLocked_ok lapseLocked_ok)
qed simp

text \<open>What detection and the waiting gauge do after the lapses: nothing to the books.\<close>

definition tick_consumer :: "(string \<Rightarrow> string \<Rightarrow> ConsumerState option) \<Rightarrow> (string \<Rightarrow> bool option) option \<Rightarrow> (string \<Rightarrow> string) \<Rightarrow> time \<Rightarrow>
    Ledger \<times> string list \<Rightarrow> ConsumerSpec \<Rightarrow> Ledger \<times> string list" where
  "tick_consumer states presence domains now = (\<lambda>(x, notes) c.
     let (x1, ns) = detect (states (cs_Stream c) (cs_Name c)) presence x c (domains (cs_Name c)) now
     in (snd (WaitingCount x1 (cs_Name c) now), notes @ ns))"

lemma tick_eq:
  "tick states presence domains l now =
     foldl (tick_consumer states presence domains now) (foldl (tick_one now) l (map fst (l_books l)), [])
       (filter (\<lambda>c. cs_Dispatched c \<and> cs_Stream c \<noteq> StreamAdvisories) (l_Consumers l))"
  unfolding tick_def tick_consumer_def tick_one_def Let_def by simp

lemma tick_consumer_fold:
  "l_Consumers (fst (foldl (tick_consumer st pr dm now) (l, ns) cs)) = l_Consumers l \<and>
   l_sources (fst (foldl (tick_consumer st pr dm now) (l, ns) cs)) = l_sources l \<and>
   l_rebuilt (fst (foldl (tick_consumer st pr dm now) (l, ns) cs)) = l_rebuilt l \<and>
   l_books (fst (foldl (tick_consumer st pr dm now) (l, ns) cs)) = l_books l \<and>
   (ledger_ok l \<longrightarrow> ledger_ok (fst (foldl (tick_consumer st pr dm now) (l, ns) cs)))"
proof (induction cs arbitrary: l ns)
  case (Cons c cs)
  obtain x1 n1 where d: "detect (st (cs_Stream c) (cs_Name c)) pr l c (dm (cs_Name c)) now = (x1, n1)"
    by (cases "detect (st (cs_Stream c) (cs_Name c)) pr l c (dm (cs_Name c)) now")
  obtain u a where x1: "x1 = l\<lparr>l_unserved := u, l_attendance := a\<rparr>"
    using detect_fields [of "st (cs_Stream c) (cs_Name c)" pr l c "dm (cs_Name c)" now] d by auto
  have "tick_consumer st pr dm now (l, ns) c = (lapseWaitingLocked x1 (cs_Name c) now, ns @ n1)"
    using d by (simp add: tick_consumer_def WaitingCount_def Let_def)
  moreover have "ledger_ok l \<longrightarrow> ledger_ok (lapseWaitingLocked x1 (cs_Name c) now)"
    using lapseWaitingLocked_ok [of x1] attendance_update_ok [where l = l and u = u and a = a] by (simp add: x1)
  ultimately show ?case
    using Cons.IH [of "lapseWaitingLocked x1 (cs_Name c) now" "ns @ n1"] by (simp add: ledger_simps x1)
qed simp

lemma tick_fields:
  assumes "ledger_ok l"
  shows "l_Consumers (fst (tick st pr dm l now)) = l_Consumers l" "l_sources (fst (tick st pr dm l now)) = l_sources l"
    "l_rebuilt (fst (tick st pr dm l now)) = l_rebuilt l" "ledger_ok (fst (tick st pr dm l now))"
    "book (fst (tick st pr dm l now)) x = refilter (lapse_slot now) (book l x)"
proof -
  let ?l1 = "foldl (tick_one now) l (map fst (l_books l))"
  have "distinct (map fst (l_books l))" using ledger_okD(2) [OF assms] by (simp add: tables_ok_def table_ok_def)
  note f = tick_one_fold [OF this, of now l]
    and c = tick_consumer_fold [of st pr dm now ?l1 "[]" "filter (\<lambda>c. cs_Dispatched c \<and> cs_Stream c \<noteq> StreamAdvisories) (l_Consumers l)"]
  show "l_Consumers (fst (tick st pr dm l now)) = l_Consumers l" "l_sources (fst (tick st pr dm l now)) = l_sources l"
    "l_rebuilt (fst (tick st pr dm l now)) = l_rebuilt l" "ledger_ok (fst (tick st pr dm l now))"
    using f c assms unfolding tick_eq by simp_all
  have "book l x = []" if "x \<notin> fst ` set (l_books l)"
    using that by (simp add: tbl_def map_of_eq_None_iff [THEN iffD2])
  then show "book (fst (tick st pr dm l now)) x = refilter (lapse_slot now) (book l x)"
    using f c unfolding tick_eq by (cases "x \<in> fst ` set (l_books l)") simp_all
qed

section \<open>The ledger as a state machine\<close>

datatype ledger_call =
    CAdmit string Key int bool time
  | CPublished string Key int time
  | CAnswered string Key int
  | CForgetGone string string string
  | CForget Key
  | CWaiting string Key Reason time
  | CWaitingCount string time
  | COutstanding string time
  | CObserve string RequestErrorClass time
  | CTick time
  | CAudit string "stale list" time
  | CRebuilt
  | CWake Key

inductive lstep :: "Ledger \<Rightarrow> ledger_call \<Rightarrow> Ledger \<Rightarrow> bool" where
  step_admit: "admit l d k seq first now = (dec, l') \<Longrightarrow> 0 \<le> now \<Longrightarrow> lstep l (CAdmit d k seq first now) l'"
| step_published: "lstep l (CPublished d k seq now) (Published l d k seq now)"
| step_answered: "lstep l (CAnswered d k seq) (Answered l d k seq)"
| step_forget_gone: "lstep l (CForgetGone kind ns name) (ForgetGone l kind ns name)"
| step_forget: "lstep l (CForget k) (Forget l k)"
| step_waiting: "lstep l (CWaiting d k reason now) (Waiting l d k reason now)"
| step_waiting_count: "WaitingCount l d now = (n, l') \<Longrightarrow> lstep l (CWaitingCount d now) l'"
| step_outstanding: "Outstanding_count l d now = (n, l') \<Longrightarrow> lstep l (COutstanding d now) l'"
| step_observe: "lstep l (CObserve subject cls now) (ObserveRequest ServedBy l subject cls now)"
| step_tick: "tick st pr dm l now = (l', warns) \<Longrightarrow> lstep l (CTick now) l'"
| step_audit: "audit_release l cutoff inFl d slots = (l', released) \<Longrightarrow> lstep l (CAudit d slots cutoff) l'"
| step_rebuilt: "rebuild_books R now [] (map fst (l_sources l)) = Inr books \<Longrightarrow> lstep l CRebuilt (rebuild_install l books)"
| step_wake: "Wakes l = Some (k, l') \<Longrightarrow> lstep l (CWake k) l'"

inductive_cases lstep_elim: "lstep l c l'"

inductive lrun :: "Ledger \<Rightarrow> ledger_call list \<Rightarrow> Ledger \<Rightarrow> bool" where
  run_none: "lrun l [] l"
| run_more: "lrun l cs l1 \<Longrightarrow> lstep l1 c l2 \<Longrightarrow> lrun l (cs @ [c]) l2"

lemma Wakes_fields: "Wakes l = Some (k, l') \<Longrightarrow> \<exists>ks. l_wakes l = k # ks \<and> l' = l\<lparr>l_wakes := ks\<rparr>"
  by (cases "l_wakes l") (auto simp: Wakes_def)

lemma ObserveRequest_fields: "\<exists>u. ObserveRequest sb l subject cls now = l\<lparr>l_unserved := u\<rparr>"
  by (auto simp: ObserveRequest_def split: option.split RequestErrorClass.split)

lemma Waiting_fields: "\<exists>w. Waiting l d k r now = l\<lparr>l_waiting := w\<rparr>"
  by (auto simp: Waiting_def)

lemma Waiting_ok: "ledger_ok l \<Longrightarrow> ledger_ok (Waiting l d k r now)"
  unfolding Waiting_def by (intro waiting_update_ok) (simp_all add: table_simps ledger_okD(3) tables_okD)

lemma lstep_ok:
  assumes "lstep l c l'" and l: "ledger_ok l"
  shows "ledger_ok l'"
  using assms(1)
proof cases
  case (step_observe subject cls now sb)
  then show ?thesis using ObserveRequest_fields [of sb l subject cls now] l by (auto simp: ledger_ok_def slots_ok_def)
next
  case (step_tick st pr dm now warns)
  then show ?thesis using tick_fields(4) [OF l, of st pr dm now] by simp
next
  case (step_wake k)
  then show ?thesis using Wakes_fields [of l k l'] l by (auto simp: ledger_ok_def slots_ok_def)
qed (auto simp: l admit_ok Published_ok Answered_ok ForgetGone_ok Forget_ok Waiting_ok WaitingCount_def Outstanding_count_def Let_def
      lapseWaitingLocked_ok lapseLocked_ok audit_release_fields(4) rebuild_install_ok)

lemma lstep_config:
  assumes "lstep l c l'" and l: "ledger_ok l"
  shows "l_sources l' = l_sources l" "l_Consumers l' = l_Consumers l"
proof -
  have "l_sources l' = l_sources l \<and> l_Consumers l' = l_Consumers l"
    using assms(1)
  proof cases
    case (step_observe subject cls now sb)
    then show ?thesis using ObserveRequest_fields [of sb l subject cls now] by auto
  next
    case (step_tick st pr dm now warns)
    then show ?thesis using tick_fields(1,2) [OF l, of st pr dm now] by simp
  next
    case (step_wake k)
    then show ?thesis using Wakes_fields [of l k l'] by auto
  next
    case (step_waiting d k r now)
    then show ?thesis using Waiting_fields [of l d k r now] by auto
  qed (auto simp: ledger_simps WaitingCount_def Outstanding_count_def Let_def audit_release_fields(1,2) rebuild_install_fields(1,2))
  then show "l_sources l' = l_sources l" "l_Consumers l' = l_Consumers l" by simp_all
qed

lemma lrun_ok: "lrun l cs l' \<Longrightarrow> ledger_ok l \<Longrightarrow> ledger_ok l' \<and> l_sources l' = l_sources l \<and> l_Consumers l' = l_Consumers l"
  by (induction rule: lrun.induct) (auto simp: lstep_ok lstep_config)

end
