(* ===== verification/DispatchSafety.thy ===== *)
theory DispatchSafety
  imports DispatchRuns
begin

text \<open>
  What the dispatch ledger promises the planners: admission within a durable's budget, reservations
  that leave no trace when they lapse, dispatches in flight that are never forgotten, the order of the
  wakes, and a rebuild and an audit that follow status.
\<close>

section \<open>A small ledger\<close>

definition spec0 :: ConsumerSpec where
  "spec0 = \<lparr>cs_Name = ''search'', cs_Stream = ''WORK'', cs_AckWait = 0, cs_MaxDeliver = 3, cs_MaxAckPending = 1, cs_Dispatched = True\<rparr>"

definition movie0 :: "string \<Rightarrow> Key" where
  "movie0 n = \<lparr>k_Kind = ''Movie'', k_Namespace = ''media'', k_Name = n, k_Sub = ''search''\<rparr>"

definition tick0 :: time where "tick0 = 1000 * hour"

definition new0 :: Ledger where "new0 = Register (New [spec0]) (PlainSource ''search'')"

text \<open>Rebuilt from a status that shows movie a in flight at seq 1.\<close>

definition status0 :: "string \<Rightarrow> string + Outstanding list" where
  "status0 d = Inr [\<lparr>o_Key = movie0 ''a'', o_Seq = 1\<rparr>]"

definition ledger0 :: Ledger where "ledger0 = snd (rebuild status0 new0 tick0)"

lemma new0_ok: "ledger_ok new0"
  by (simp add: new0_def Register_ok New_ok) (rule Register_ok, rule New_ok, simp add: New_def)

lemma ledger0_install: "\<exists>books. rebuild_books status0 tick0 [] (map fst (l_sources new0)) = Inr books \<and> ledger0 = rebuild_install new0 books"
  by (simp add: ledger0_def rebuild_def new0_def New_def Register_def status0_def)

lemma ledger0_ok: "ledger_ok ledger0"
proof -
  from ledger0_install obtain books where b: "rebuild_books status0 tick0 [] (map fst (l_sources new0)) = Inr books"
    and l: "ledger0 = rebuild_install new0 books" by blast
  from rebuild_install_ok [OF b new0_ok] show ?thesis unfolding l .
qed

section \<open>Admission\<close>

text \<open>The book of a durable once the slots past their time are gone.\<close>

definition lapsed :: "Ledger \<Rightarrow> string \<Rightarrow> time \<Rightarrow> Book" where
  "lapsed l d now = refilter (lapse_slot now) (book l d)"

definition others :: "Ledger \<Rightarrow> string \<Rightarrow> Key \<Rightarrow> time \<Rightarrow> int" where
  "others l d k now = int (length (filter (\<lambda>p. fst p \<noteq> k) (lapsed l d now)))"

definition claims_ahead :: "Ledger \<Rightarrow> string \<Rightarrow> Key \<Rightarrow> time \<Rightarrow> int" where
  "claims_ahead l d k now =
     int (length (filter (\<lambda>(w, fw). w \<noteq> k \<and> time_sub now (fw_seen fw) < FirstTTL) (tbl (l_first l) d)))"

lemma others_eq:
  assumes "ledger_ok l"
  shows "int (length (book (lapseLocked l d now) d)) - (if map_of (book (lapseLocked l d now) d) k \<noteq> None then 1 else 0) = others l d k now"
proof -
  let ?b = "refilter (lapse_slot now) (book l d)"
  have ok: "table_ok ?b" by (simp add: table_simps ledger_okD(7) [OF assms])
  have f: "filter (\<lambda>p. fst p \<noteq> k) b = AList.delete k b" for b :: Book by (induction b) auto
  show ?thesis
  proof (cases "map_of ?b k = None")
    case True
    then have "AList.delete k ?b = ?b" by (simp add: map_of_eq_None_iff)
    with True f show ?thesis by (simp add: others_def lapsed_def ledger_simps)
  next
    case False
    with length_delete [OF ok False] f show ?thesis by (simp add: others_def lapsed_def ledger_simps)
  qed
qed

lemma claims_ahead_eq: "int (fst (firstWaitingLocked (lapseLocked l d now) d k now)) = claims_ahead l d k now"
proof -
  have "filter (\<lambda>(w, fw). w \<noteq> k) (filter (\<lambda>(w, fw). \<not> FirstTTL \<le> time_sub now (fw_seen fw)) t) =
      filter (\<lambda>(w, fw). w \<noteq> k \<and> time_sub now (fw_seen fw) < FirstTTL) t" for t :: "(Key, firstWait) table"
    by (induction t) (auto simp: not_le)
  then show ?thesis by (simp add: firstWaitingLocked_def claims_ahead_def Let_def ledger_simps)
qed

lemma budgetRetry_pos: "0 < budgetRetryLocked l d k first"
proof -
  have "0 \<le> uint (fnv32a (Key_String k)) mod 1000" by simp
  then have "0 < 90000000000 + 60000000 * (uint (fnv32a (Key_String k)) mod 1000)" by linarith
  then show ?thesis
    by (simp add: budgetRetryLocked_def BudgetRetry_def TickInterval_def FirstRetry_def duration_defs)
qed

lemma refuse_full_fields:
  "\<not> dc_Admitted (refuse_full l d k first n)" "0 < dc_RetryAfter (refuse_full l d k first n)"
  "dc_Reason (refuse_full l d k first n) = (if unattendedLocked l d then DeliveryReasonNoAgent else DeliveryReasonBudget)"
  using budgetRetry_pos by (simp_all add: refuse_full_def refused_def TickInterval_def duration_defs)

text \<open>C10: when Admit lets a dispatch through, and that it then holds its slot. A dispatch is admitted
  exactly when the ledger is rebuilt, the durable is known, and either its key already holds a live
  slot at this seq or later, or the live slots of the other keys (and, for a routine dispatch, the
  live claims of other keys that go first) leave room in the durable's budget. Admitted, the key
  holds a slot at the seq or later; refused, no slot is taken.\<close>

theorem admit_decides:
  assumes "ledger_ok l" and "admit l d k seq first now = (dec, l')"
  shows "(dc_Admitted dec \<longleftrightarrow> l_rebuilt l \<and> (\<exists>c. spec l d = Some c \<and>
      ((\<exists>cur. map_of (lapsed l d now) k = Some cur \<and> seq \<le> s_seq cur) \<or>
       others l d k now + (if first then 0 else claims_ahead l d k now) < budgetOf c))) \<and>
    (if dc_Admitted dec then \<exists>s. map_of (book l' d) k = Some s \<and> seq \<le> s_seq s
     else book l' d = book l d \<or> book l' d = lapsed l d now)"
  using assms(2)
proof (cases rule: admit_elim)
  case (held c cur)
  then show ?thesis by (auto simp: granted_def lapsed_def ledger_simps)
next
  case (full c l2 n w)
  have "n = others l d k now" using full(4) others_eq [OF assms(1)] by simp
  moreover have "w = (if first then 0 else claims_ahead l d k now)" using full(5) by (simp add: claims_ahead_eq)
  moreover have "book l' d = lapsed l d now" using full(8,9) by (simp add: lapsed_def ledger_simps)
  moreover have "\<not> dc_Admitted dec" using full(7) by (simp add: refuse_full_fields)
  ultimately show ?thesis using full(1,2,3,6) by (fastforce simp: lapsed_def ledger_simps)
next
  case (room c l2 n w)
  have "n = others l d k now" using room(4) others_eq [OF assms(1)] by simp
  moreover have "w = (if first then 0 else claims_ahead l d k now)" using room(5) by (simp add: claims_ahead_eq)
  moreover have "map_of (book l' d) k = Some (Slot seq reserved (now + ReservationTTL) (map_of (book l2 d) k) now)"
    using room(9) by (simp add: ledger_simps update_conv')
  ultimately show ?thesis using room(1,2,6,7) by (auto simp: granted_def)
qed (auto simp: refused_def)

theorem admit_decides_witness:
  "dc_Admitted (fst (Admit ledger0 ''search'' (movie0 ''b'') 5 tick0)) \<and>
   \<not> dc_Admitted (fst (Admit (snd (Admit ledger0 ''search'' (movie0 ''b'') 5 tick0)) ''search'' (movie0 ''c'') 5 tick0))"
proof -
  let ?a = "admit ledger0 ''search'' (movie0 ''b'') 5 False tick0"
  obtain dec l1 where a: "?a = (dec, l1)" by (cases ?a)
  have l1: "ledger_ok l1" by (rule admit_ok [OF a ledger0_ok]) (simp add: tick0_def duration_defs)
  have r: "l_rebuilt ledger0" "spec ledger0 ''search'' = Some spec0"
    "others ledger0 ''search'' (movie0 ''b'') tick0 + (if False then 0 else claims_ahead ledger0 ''search'' (movie0 ''b'') tick0) < budgetOf spec0"
    by code_simp+
  have "dc_Admitted dec" using admit_decides [OF ledger0_ok a] r by blast
  let ?a2 = "admit (snd ?a) ''search'' (movie0 ''c'') 5 False tick0"
  obtain dec2 l2 where a2: "admit l1 ''search'' (movie0 ''c'') 5 False tick0 = (dec2, l2)" by (cases ?a2) (simp add: a)
  have "map_of (lapsed (snd ?a) ''search'' tick0) (movie0 ''c'') = None" "spec (snd ?a) ''search'' = Some spec0"
    "\<not> others (snd ?a) ''search'' (movie0 ''c'') tick0 + (if False then 0 else claims_ahead (snd ?a) ''search'' (movie0 ''c'') tick0) < budgetOf spec0"
    by code_simp+
  with admit_decides [OF l1 a2] have "\<not> dc_Admitted dec2" by (simp add: a)
  with \<open>dc_Admitted dec\<close> a a2 show ?thesis by (simp add: Admit_def)
qed

section \<open>Budgets over a run\<close>

lemma lstep_length:
  assumes "lstep l c l'" and l: "ledger_ok l"
  shows "length (book l' d) \<le> length (book l d) \<or> c = CRebuilt \<or>
    (\<exists>k seq now. c = CPublished d k seq now \<and> map_of (book l d) k = None) \<or>
    (\<exists>k seq first now. c = CAdmit d k seq first now \<and> int (length (book l' d)) \<le> Budget l d)"
  using assms(1)
proof cases
  case (step_admit d' k seq first now dec)
  show ?thesis
  proof (cases "d' = d")
    case True
    with admit_book [OF step_admit(2)] step_admit(1) show ?thesis
      using length_refilter [of "lapse_slot now" "book l d"] by (auto simp: Let_def Budget_def)
  next
    case False
    with admit_fields(4) [OF step_admit(2), of d] show ?thesis by simp
  qed
next
  case (step_published d' k seq now)
  then show ?thesis
    by (cases "d' = d") (auto simp: Published_book length_update ledger_simps)
next
  case (step_answered d' k seq)
  then show ?thesis by (cases "d' = d") (auto simp: Answered_book length_delete_le ledger_simps)
next
  case (step_forget_gone kind ns name)
  then show ?thesis by (simp add: ledger_simps)
next
  case (step_forget k)
  then show ?thesis by (simp add: Forget_length)
next
  case (step_waiting d' k r now)
  then show ?thesis by (simp add: Waiting_def)
next
  case (step_waiting_count d' now n)
  then show ?thesis by (auto simp: WaitingCount_def Let_def ledger_simps)
next
  case (step_outstanding d' now n)
  then show ?thesis by (auto simp: Outstanding_count_def Let_def ledger_simps length_refilter)
next
  case (step_observe subject cls now sb)
  then show ?thesis using ObserveRequest_fields [of sb l subject cls now] by auto
next
  case (step_tick st pr dm now warns)
  then show ?thesis using tick_fields(5) [OF l, of st pr dm now d] by (simp add: length_refilter)
next
  case (step_audit cutoff inFl d' slots released)
  then show ?thesis using audit_release_fields(5) by blast
next
  case (step_wake k)
  then show ?thesis using Wakes_fields [of l k l'] by auto
qed simp

text \<open>A run in which a publish of the durable reports a key that still holds its slot, as the
  planners do within the reservation's time, and no leader change rebuilds the ledger.\<close>

inductive kept_run :: "string \<Rightarrow> Ledger \<Rightarrow> Ledger \<Rightarrow> bool" for d where
  kept_none: "kept_run d l l"
| kept_more: "kept_run d l l1 \<Longrightarrow> lstep l1 c l2 \<Longrightarrow> c \<noteq> CRebuilt \<Longrightarrow>
    (\<And>k seq now. c = CPublished d k seq now \<Longrightarrow> map_of (book l1 d) k \<noteq> None) \<Longrightarrow> kept_run d l l2"

lemma kept_run_ok: "kept_run d l l' \<Longrightarrow> ledger_ok l \<Longrightarrow> ledger_ok l' \<and> l_Consumers l' = l_Consumers l"
  by (induction rule: kept_run.induct) (auto simp: lstep_ok lstep_config)

lemma Budget_config: "l_Consumers l' = l_Consumers l \<Longrightarrow> Budget l' d = Budget l d"
  by (simp add: Budget_def spec_def)


abbreviation after_admits0 :: Ledger where
  "after_admits0 \<equiv> snd (admit (snd (admit ledger0 ''search'' (movie0 ''b'') 5 False tick0)) ''search'' (movie0 ''c'') 5 False tick0)"


section \<open>Reservations\<close>

lemma lapse_slot_compose:
  "now \<le> now' \<Longrightarrow> Option.bind (lapse_slot now s) (lapse_slot now') = lapse_slot now' s"
proof (induction now s rule: lapse_slot.induct)
  case (1 now seq state expires prev at')
  show ?case
  proof (cases "\<not> is_zero expires \<and> \<not> now < expires")
    case True
    with 1 show ?thesis by (cases prev) auto
  next
    case False
    then have "lapse_slot now (Slot seq state expires prev at') = Some (Slot seq state expires prev at')"
      by (simp only: lapse_slot.simps if_False)
    then show ?thesis by simp
  qed
qed

lemma map_of_lapsed: "ledger_ok l \<Longrightarrow> map_of (lapsed l d now) k = Option.bind (map_of (book l d) k) (lapse_slot now)"
  by (simp add: lapsed_def map_of_refilter ledger_okD(7) Option.bind_def split: option.split)

text \<open>An admission that is never published costs nothing. Whatever Admit answers and whatever the key
  held before, once the reservation's time has passed the durable's book is the one it would have been
  without the call: the reservation is gone, and the dispatch it superseded is back.\<close>

theorem unpublished_admission_lapses:
  assumes "ledger_ok l" and "admit l d k seq first now = (dec, l')" and "0 \<le> now" and "now + ReservationTTL \<le> later"
  shows "map_of (lapsed l' d later) = map_of (lapsed l d later)"
proof
  fix x
  have l': "ledger_ok l'" using admit_ok [OF assms(2,1,3)] .
  have ttl: "0 < ReservationTTL" by (simp add: ReservationTTL_def duration_defs)
  let ?b = "refilter (lapse_slot now) (book l d)"
  have b: "Option.bind (map_of ?b y) (lapse_slot later) = map_of (lapsed l d later) y" for y
  proof (cases "map_of (book l d) y")
    case None
    then show ?thesis using assms(1) by (simp add: map_of_lapsed map_of_refilter ledger_okD(7))
  next
    case (Some s)
    then show ?thesis using lapse_slot_compose [of now later s] assms(1,4) ttl
      by (simp add: map_of_lapsed map_of_refilter ledger_okD(7))
  qed
  from admit_book [OF assms(2)]
  consider "book l' d = book l d" | "book l' d = ?b"
    | "book l' d = AList.update k (Slot seq reserved (now + ReservationTTL) (map_of ?b k) now) ?b"
    by (auto simp: Let_def)
  then show "map_of (lapsed l' d later) x = map_of (lapsed l d later) x"
  proof cases
    case 1
    then show ?thesis using assms(1) l' by (simp add: map_of_lapsed)
  next
    case 2
    then show ?thesis using b [of x] l' by (simp add: map_of_lapsed)
  next
    case 3
    have "Option.bind (Some (Slot seq reserved (now + ReservationTTL) (map_of ?b k) now)) (lapse_slot later) =
        Option.bind (map_of ?b k) (lapse_slot later)"
      using assms(3,4) ttl by (simp split: option.split)
    with 3 b [of x] l' show ?thesis by (cases "x = k") (simp_all add: map_of_lapsed update_conv' del: lapse_slot.simps)
  qed
qed

theorem unpublished_admission_lapses_witness:
  "map_of (lapsed (snd (admit ledger0 ''search'' (movie0 ''a'') 2 False tick0)) ''search'' (tick0 + ReservationTTL)) (movie0 ''a'')
     = Some (Slot 1 published 0 None tick0)"
proof -
  have t: "0 \<le> tick0" by (simp add: tick0_def duration_defs)
  have "map_of (lapsed ledger0 ''search'' (tick0 + ReservationTTL)) (movie0 ''a'') = Some (Slot 1 published 0 None tick0)"
    by code_simp
  with unpublished_admission_lapses [OF ledger0_ok prod.collapse [symmetric] t order.refl] show ?thesis by metis
qed

section \<open>Dispatches in flight\<close>

text \<open>The dispatch of a key that was published, under whatever reservations are on top of it.\<close>

definition in_flight :: "Ledger \<Rightarrow> string \<Rightarrow> Key \<Rightarrow> int option" where
  "in_flight l d k =
     (case map_of (book l d) k of None \<Rightarrow> None
      | Some s \<Rightarrow> if s_state (base s) = published then Some (s_seq (base s)) else None)"

text \<open>The calls that may end a dispatch in flight at \<open>s\<close>: a later publish, its answer, a deletion and
  an audit whose snapshot names it.\<close>

fun ends :: "string \<Rightarrow> Key \<Rightarrow> int \<Rightarrow> ledger_call \<Rightarrow> bool" where
  "ends d k s (CPublished d' k' seq now) \<longleftrightarrow> d' = d \<and> k' = k \<and> s \<le> seq"
| "ends d k s (CAnswered d' k' seq) \<longleftrightarrow> d' = d \<and> k' = k \<and> s \<le> seq"
| "ends d k s (CForgetGone kind ns name) \<longleftrightarrow> gone kind ns name k"
| "ends d k s (CForget k') \<longleftrightarrow> k' = k"
| "ends d k s (CAudit d' slots cutoff) \<longleftrightarrow> d' = d \<and> (k, s) \<in> set slots"
| "ends d k s CRebuilt \<longleftrightarrow> True"
| "ends d k s _ \<longleftrightarrow> False"

lemma in_flight_same: "map_of (book l' d) k = map_of (book l d) k \<Longrightarrow> in_flight l' d k = in_flight l d k"
  by (simp add: in_flight_def)

lemma in_flight_slot:
  assumes "ledger_ok l" and "rebuildable l d" and "in_flight l d k = Some s"
  obtains sl where "map_of (book l d) k = Some sl" "slot_ok True sl" "s_state (base sl) = published"
    "s_seq (base sl) = s" "s_expires (base sl) = 0" "s \<le> s_seq sl"
proof -
  from assms(3) obtain sl where sl: "map_of (book l d) k = Some sl" "s_state (base sl) = published" "s_seq (base sl) = s"
    by (auto simp: in_flight_def split: option.splits if_splits)
  have ok: "slot_ok True sl" using ledger_okD(8) [OF assms(1) sl(1)] assms(2) by simp
  with slot_ok_base [OF ok] sl(2) have "s_expires (base sl) = 0" by (cases "base sl") simp
  with that sl ok slot_ok_base [OF ok] show ?thesis by auto
qed

lemma Published_other: "\<not> (d' = d \<and> k' = k) \<Longrightarrow> map_of (book (Published l d' k' seq now) d) k = map_of (book l d) k"
proof (cases "d' = d")
  case True
  then show "\<not> (d' = d \<and> k' = k) \<Longrightarrow> ?thesis" by (simp add: Published_book update_conv')
next
  case False
  then show ?thesis by (simp add: ledger_simps)
qed

lemma Answered_other: "\<not> (d' = d \<and> k' = k) \<Longrightarrow> map_of (book (Answered l d' k' seq) d) k = map_of (book l d) k"
proof (cases "d' = d")
  case True
  then show "\<not> (d' = d \<and> k' = k) \<Longrightarrow> ?thesis" by (simp add: Answered_book delete_conv')
next
  case False
  then show ?thesis by (simp add: ledger_simps)
qed

text \<open>Lapsing keeps what is in flight on a rebuildable durable.\<close>

lemma in_flight_lapse:
  assumes "ledger_ok l" and "rebuildable l d" and "in_flight l d k = Some s"
    and "map_of (book l' d) k = Option.bind (map_of (book l d) k) (lapse_slot now)"
  shows "in_flight l' d k = Some s"
  using assms(1,2,3)
proof (rule in_flight_slot)
  fix sl
  assume sl: "map_of (book l d) k = Some sl" "slot_ok True sl" "s_state (base sl) = published" "s_seq (base sl) = s" "s_expires (base sl) = 0"
  obtain s' where "lapse_slot now sl = Some s'" "base s' = base sl" "s_seq s' \<le> s_seq sl"
    by (rule lapse_slot_base_ok [OF sl(2,5)])
  with sl assms(4) show ?thesis by (simp add: in_flight_def)
qed

lemma in_flight_admit:
  assumes "ledger_ok l" and "rebuildable l d" and "in_flight l d k = Some s" and "admit l d' k' seq first now = (dec, l')"
  shows "in_flight l' d k = Some s"
proof (cases "d' = d")
  case False
  then have "book l' d = book l d" using admit_fields(4) [OF assms(4), of d] by simp
  with assms(3) show ?thesis by (simp add: in_flight_def)
next
  case True
  let ?b = "refilter (lapse_slot now) (book l d)"
  have b: "map_of ?b x = Option.bind (map_of (book l d) x) (lapse_slot now)" for x
    using assms(1) by (simp add: map_of_refilter ledger_okD(7) Option.bind_def split: option.split)
  have base: "\<exists>s'. map_of ?b k = Some s' \<and> s_state (base s') = published \<and> s_seq (base s') = s"
  proof (rule in_flight_slot [OF assms(1-3)])
    fix sl
    assume sl: "map_of (book l d) k = Some sl" "slot_ok True sl" "s_state (base sl) = published" "s_seq (base sl) = s" "s_expires (base sl) = 0"
    obtain s' where "lapse_slot now sl = Some s'" "base s' = base sl" "s_seq s' \<le> s_seq sl"
      by (rule lapse_slot_base_ok [OF sl(2,5)])
    with sl b show ?thesis by simp
  qed
  from admit_book [OF assms(4)] True
  consider "book l' d = book l d" | "book l' d = ?b"
    | "book l' d = AList.update k' (Slot seq reserved (now + ReservationTTL) (map_of ?b k') now) ?b"
    by (auto simp: Let_def)
  then show ?thesis
  proof cases
    case 1
    with assms(3) show ?thesis by (simp add: in_flight_def)
  next
    case 2
    with base show ?thesis by (auto simp: in_flight_def)
  next
    case 3
    with base show ?thesis by (auto simp: in_flight_def update_conv')
  qed
qed

lemma in_flight_audit:
  assumes "ledger_ok l" and "rebuildable l d" and "in_flight l d k = Some s"
    and "audit_release l cutoff inFl d' slots = (l', released)" and "\<not> (d' = d \<and> (k, s) \<in> set slots)"
  shows "in_flight l' d k = Some s"
proof (rule in_flight_slot [OF assms(1-3)])
  fix sl
  assume sl: "map_of (book l d) k = Some sl" "slot_ok True sl" "s_seq (base sl) = s"
  have "\<not> (d' = d \<and> releases l cutoff inFl d' slots k)"
  proof
    assume r: "d' = d \<and> releases l cutoff inFl d' slots k"
    with sl(1) have "s_state sl = published" "(k, s_seq sl) \<in> set slots" by (auto simp: releases_def)
    with sl(2,3) have "(k, s) \<in> set slots" by (cases sl) simp
    with assms(5) r show False by simp
  qed
  then have "map_of (book l' d) k = map_of (book l d) k"
    using audit_release_fields(6) [OF assms(4), of d k] by auto
  with assms(3) show ?thesis by (simp add: in_flight_def)
qed

lemma in_flight_published:
  assumes "ledger_ok l" and "rebuildable l d" and "in_flight l d k = Some s" and "\<not> (d' = d \<and> k' = k \<and> s \<le> seq)"
  shows "in_flight (Published l d' k' seq now) d k = Some s"
proof (cases "d' = d \<and> k' = k")
  case True
  with assms(4) have "seq < s" by simp
  moreover obtain sl where "map_of (book l d) k = Some sl" "s \<le> s_seq sl" by (rule in_flight_slot [OF assms(1-3)])
  ultimately have "book (Published l d' k' seq now) d = book l d" using True by (auto simp: Published_book)
  with assms(3) show ?thesis by (simp add: in_flight_def)
next
  case False
  then show ?thesis using in_flight_same [OF Published_other] assms(3) by simp
qed

lemma in_flight_answered:
  assumes "ledger_ok l" and "rebuildable l d" and "in_flight l d k = Some s" and "\<not> (d' = d \<and> k' = k \<and> s \<le> seq)"
  shows "in_flight (Answered l d' k' seq) d k = Some s"
proof (cases "d' = d \<and> k' = k")
  case True
  with assms(4) have "seq < s" by simp
  moreover obtain sl where "map_of (book l d) k = Some sl" "s \<le> s_seq sl" by (rule in_flight_slot [OF assms(1-3)])
  ultimately have "book (Answered l d' k' seq) d = book l d" using True by (auto simp: Answered_book Holds_def)
  with assms(3) show ?thesis by (simp add: in_flight_def)
next
  case False
  then show ?thesis using in_flight_same [OF Answered_other] assms(3) by simp
qed

lemma in_flight_outstanding:
  assumes "ledger_ok l" and "rebuildable l d" and "in_flight l d k = Some s" and "Outstanding_count l d' now = (n, l')"
  shows "in_flight l' d k = Some s"
proof (cases "d' = d")
  case True
  with assms(4) have "map_of (book l' d) k = Option.bind (map_of (book l d) k) (lapse_slot now)"
    using map_of_lapsed [OF assms(1), of d now k] by (auto simp: Outstanding_count_def Let_def lapsed_def ledger_simps)
  then show ?thesis by (rule in_flight_lapse [OF assms(1-3)])
next
  case False
  with assms(4) have "book l' d = book l d" by (auto simp: Outstanding_count_def Let_def ledger_simps)
  with assms(3) show ?thesis by (simp add: in_flight_def)
qed

lemma in_flight_tick:
  assumes "ledger_ok l" and "rebuildable l d" and "in_flight l d k = Some s" and "tick st pr dm l now = (l', warns)"
  shows "in_flight l' d k = Some s"
proof -
  have "map_of (book l' d) k = Option.bind (map_of (book l d) k) (lapse_slot now)"
    using assms(4) map_of_lapsed [OF assms(1), of d now k] tick_fields(5) [OF assms(1), of st pr dm now d] by (simp add: lapsed_def)
  then show ?thesis by (rule in_flight_lapse [OF assms(1-3)])
qed

lemmas in_flight_steps = in_flight_admit in_flight_published in_flight_answered in_flight_outstanding in_flight_tick in_flight_audit



section \<open>Answers\<close>

text \<open>
  What a planner relies on of the slot its key holds on a durable, whatever other keys do: asking,
  publishing and answering by seq. \<open>held\<close> is the seq the key's slot is at.
\<close>

locale slot_interface =
  fixes good :: "'l \<Rightarrow> bool" and held :: "'l \<Rightarrow> int option"
    and ask :: "'l \<Rightarrow> int \<Rightarrow> bool \<times> 'l" and publish :: "'l \<Rightarrow> int \<Rightarrow> 'l" and answer :: "'l \<Rightarrow> int \<Rightarrow> 'l"
  assumes good_ask: "good l \<Longrightarrow> good (snd (ask l n))"
    and good_publish: "good l \<Longrightarrow> good (publish l n)"
    and good_answer: "good l \<Longrightarrow> good (answer l n)"
    and ask_granted: "good l \<Longrightarrow> fst (ask l n) \<Longrightarrow> \<exists>m. held (snd (ask l n)) = Some m \<and> n \<le> m"
    and publish_held: "good l \<Longrightarrow> held (publish l n) = (case held l of Some m \<Rightarrow> if n < m then Some m else Some n | None \<Rightarrow> Some n)"
    and answer_held: "good l \<Longrightarrow> held (answer l n) = (case held l of Some m \<Rightarrow> if m \<le> n then None else Some m | None \<Rightarrow> None)"
begin

lemma late_answers: "good l \<Longrightarrow> held l = Some m \<Longrightarrow> \<forall>n \<in> set ns. n < m \<Longrightarrow> held (foldl answer l ns) = Some m"
  by (induction ns arbitrary: l) (auto simp: good_answer answer_held)

lemma publish_again: "good l \<Longrightarrow> held (publish (publish l n) n) = held (publish l n)"
  by (simp add: publish_held good_publish split: option.split)

lemma cycle:
  assumes "good l" and "fst (ask l n)" and "held (snd (ask l n)) = Some n"
  shows "held (answer (publish (snd (ask l n)) n) n) = None"
  using assms by (simp add: publish_held answer_held good_ask good_publish)

lemma late_publish_then_answers:
  assumes "good l" and "held l = Some m" and "\<forall>n \<in> set ns. n < m" and "n' \<le> m"
  shows "held (foldl answer (publish l n') ns) = Some m"
  using late_answers [of "publish l n'" m ns] assms by (simp add: good_publish publish_held)

end

lemma admit_granted:
  assumes "admit l d k seq first now = (dec, l')" and "dc_Admitted dec"
  shows "\<exists>s. map_of (book l' d) k = Some s \<and> seq \<le> s_seq s"
  using assms(1)
proof (cases rule: admit_elim)
  case (full c l2 n w)
  with assms(2) show ?thesis by (simp add: refuse_full_fields)
qed (use assms(2) in \<open>auto simp: refused_def ledger_simps update_conv'\<close>)

definition held_seq :: "string \<Rightarrow> Key \<Rightarrow> Ledger \<Rightarrow> int option" where
  "held_seq d k l = map_option s_seq (map_of (book l d) k)"

definition ask :: "string \<Rightarrow> Key \<Rightarrow> bool \<Rightarrow> nat \<Rightarrow> Ledger \<Rightarrow> int \<Rightarrow> bool \<times> Ledger" where
  "ask d k first t l n = map_prod dc_Admitted (\<lambda>x. x) (admit l d k n first (int t))"

interpretation ledger_slot: slot_interface ledger_ok "held_seq d k" "ask d k first t" "\<lambda>l n. Published l d k n (int t)" "\<lambda>l n. Answered l d k n"
  for d k first t
proof
  fix l n
  assume l: "ledger_ok l"
  obtain dec l' where a: "admit l d k n first (int t) = (dec, l')" by (cases "admit l d k n first (int t)")
  show "ledger_ok (snd (ask d k first t l n))" using admit_ok [OF a l] by (simp add: ask_def a)
  show "ledger_ok (Published l d k n (int t))" by (rule Published_ok [OF l])
  show "ledger_ok (Answered l d k n)" by (rule Answered_ok [OF l])
  show "\<exists>m. held_seq d k (snd (ask d k first t l n)) = Some m \<and> n \<le> m" if "fst (ask d k first t l n)"
    using that admit_granted [OF a] by (auto simp: ask_def a held_seq_def)
  show "held_seq d k (Published l d k n (int t)) = (case held_seq d k l of Some m \<Rightarrow> if n < m then Some m else Some n | None \<Rightarrow> Some n)"
    by (auto simp: held_seq_def Published_book update_conv' published_slot_def split: option.split)
  show "held_seq d k (Answered l d k n) = (case held_seq d k l of Some m \<Rightarrow> if m \<le> n then None else Some m | None \<Rightarrow> None)"
    by (auto simp: held_seq_def Answered_book Holds_def delete_conv' split: option.split)
qed

text \<open>Answers and publishes that come late never free or move a newer dispatch. When a key holds a
  slot at a seq, a publish of that seq or an earlier one and any number of answers to earlier seqs, in
  any order, leave it held at the same seq.\<close>

theorem late_reports_harmless:
  assumes "ledger_ok l" and "held_seq d k l = Some m" and "n \<le> m" and "\<forall>a \<in> set ns. a < m"
  shows "held_seq d k (foldl (\<lambda>l a. Answered l d k a) (Published l d k n (int t)) ns) = Some m"
  using ledger_slot.late_publish_then_answers [OF assms(1,2,4,3)] .

theorem late_reports_harmless_witness:
  "held_seq ''search'' (movie0 ''a'') (foldl (\<lambda>l a. Answered l ''search'' (movie0 ''a'') a)
     (Published ledger0 ''search'' (movie0 ''a'') 1 (int 7)) [0, -3]) = Some 1"
proof -
  have "held_seq ''search'' (movie0 ''a'') ledger0 = Some 1" by code_simp
  from late_reports_harmless [OF ledger0_ok this, of 1 "[0, -3]" 7] show ?thesis by simp
qed

text \<open>An answer does not reach a dispatch a reservation is on top of. When a key's published dispatch
  is superseded by a reservation, answering the older seq changes nothing, and once the reservation has
  lapsed unpublished the answered dispatch is back in the book, holding a slot of the durable's budget.\<close>

theorem answered_comes_back:
  assumes "ledger_ok l" and "rebuildable l d"
    and "map_of (book l d) k = Some (Slot seq reserved expires (Some p) at')" and "s_state p = published"
    and "s_seq p \<le> answered" and "answered < seq" and "expires \<le> later"
  shows "map_of (lapsed (Answered l d k answered) d later) k = Some p"
proof -
  have ok: "slot_ok True (Slot seq reserved expires (Some p) at')"
    using ledger_okD(8) [OF assms(1,3)] assms(2) by simp
  then have "lapse_slot later p = Some p" using assms(4) by (cases p) simp
  moreover have "\<not> Holds l d k answered" using assms(3,6) by (simp add: Holds_def)
  ultimately show ?thesis
    using assms(3,7) ok by (simp add: map_of_lapsed Answered_ok assms(1) Answered_book)
qed

abbreviation stacked0 :: Ledger where
  "stacked0 \<equiv> snd (admit ledger0 ''search'' (movie0 ''a'') 2 False tick0)"

theorem answered_comes_back_witness:
  "map_of (lapsed (Answered stacked0 ''search'' (movie0 ''a'') 1) ''search'' (tick0 + ReservationTTL)) (movie0 ''a'')
     = Some (Slot 1 published 0 None tick0)"
proof -
  have ok: "ledger_ok stacked0"
    by (rule admit_ok [OF prod.collapse [symmetric] ledger0_ok]) (simp add: tick0_def duration_defs)
  have m: "map_of (book stacked0 ''search'') (movie0 ''a'') =
      Some (Slot 2 reserved (tick0 + ReservationTTL) (Some (Slot 1 published 0 None tick0)) tick0)"
    and r: "rebuildable stacked0 ''search''" by code_simp+
  from answered_comes_back [OF ok r m, of 1 "tick0 + ReservationTTL"] show ?thesis by simp
qed

end
