(* ===== verification/DispatchStatus.thy ===== *)
theory DispatchStatus
  imports DispatchSafety
begin

text \<open>
  How the dispatch ledger follows what is outside it: the waiters it wakes when a slot frees, the
  books it rebuilds from status after a leader change, the slots its audit releases, and the delivery
  state planners render.
\<close>

section \<open>Wakes\<close>

lemma wake_take:
  "wake chan n ks = chan @ take (min n (wakeBuffer - length chan)) ks"
proof (induction chan n ks rule: wake.induct)
  case (2 chan n k ks)
  show ?case
  proof (cases "n = 0 \<or> \<not> length chan < wakeBuffer")
    case True
    then show ?thesis by (cases "n = 0") simp_all
  next
    case False
    then have "min n (wakeBuffer - length chan) = Suc (min (n - 1) (wakeBuffer - length (chan @ [k])))"
      by (auto simp: min_def)
    with False "2.IH" show ?thesis by simp
  qed
qed simp


text \<open>Freed slots wake the right waiters in the right order. When n slots of a rebuildable durable
  free, the keys sent are the first 2n of its waiters that fit in the channel, after what it already
  holds: every key waiting to go first, the longest waiting foremost, then the keys refused for budget,
  the longest unrefused foremost. A durable without a Source wakes nobody.\<close>

theorem freed_wakes:
  "l_wakes (freedLocked l d n) =
     l_wakes l @ (if rebuildable l d then take (min (2 * n) (wakeBuffer - length (l_wakes l))) (map fst (firsts l d @ routine l d)) else []) \<and>
   sorted (map snd (firsts l d)) \<and> sorted (map snd (routine l d)) \<and>
   set (firsts l d) = {(k, fw_since fw) | k fw. (k, fw) \<in> set (tbl (l_first l) d)} \<and>
   set (routine l d) = {(k, w_at w) | k w. (k, w) \<in> set (tbl (l_waiting l) d) \<and> w_reason w = DeliveryReasonBudget \<and>
      k \<notin> fst ` set (tbl (l_first l) d)}"
proof (intro conjI)
  show "l_wakes (freedLocked l d n) =
     l_wakes l @ (if rebuildable l d then take (min (2 * n) (wakeBuffer - length (l_wakes l))) (map fst (firsts l d @ routine l d)) else [])"
    by (simp add: freedLocked_def wake_take)
  show "sorted (map snd (firsts l d))" "sorted (map snd (routine l d))"
    by (simp_all add: firsts_def routine_def)
  show "set (firsts l d) = {(k, fw_since fw) | k fw. (k, fw) \<in> set (tbl (l_first l) d)}"
    by (force simp: firsts_def)
  show "set (routine l d) = {(k, w_at w) | k w. (k, w) \<in> set (tbl (l_waiting l) d) \<and> w_reason w = DeliveryReasonBudget \<and>
      k \<notin> fst ` set (tbl (l_first l) d)}"
    by (force simp: routine_def map_of_eq_None_iff)
qed

section \<open>Rebuilding\<close>

lemma rebuild_one_lookup:
  "map_of (rebuild_one now b o') k =
     (if o_Key o' = k \<and> (\<forall>cur. map_of b k = Some cur \<longrightarrow> s_seq cur < o_Seq o')
      then Some (Slot (o_Seq o') published 0 None now) else map_of b k)"
  by (auto simp: rebuild_one_def update_conv' split: option.splits)

definition newest :: "time \<Rightarrow> Outstanding list \<Rightarrow> Key \<Rightarrow> slot option \<Rightarrow> bool" where
  "newest now outs k r \<longleftrightarrow>
     (case r of None \<Rightarrow> \<forall>o' \<in> set outs. o_Key o' \<noteq> k
      | Some s \<Rightarrow> (\<exists>o' \<in> set outs. o_Key o' = k \<and> s = Slot (o_Seq o') published 0 None now) \<and>
          (\<forall>o' \<in> set outs. o_Key o' = k \<longrightarrow> o_Seq o' \<le> s_seq s))"

lemma rebuild_fold_newest: "newest now outs k (map_of (foldl (rebuild_one now) [] outs) k)"
proof (induction outs rule: rev_induct)
  case Nil
  then show ?case by (simp add: newest_def)
next
  case (snoc o' outs)
  then show ?case
    by (cases "map_of (foldl (rebuild_one now) [] outs) k") (auto simp: newest_def rebuild_one_lookup split: if_splits)
qed

text \<open>After a leader change the ledger is what status says. A rebuild that succeeds leaves in the book
  of every registered durable exactly the keys status shows in flight, each published at the newest of
  its seqs and never to lapse, leaves the other durables' books alone and opens admission; one that
  fails names the Source and changes nothing.\<close>

theorem rebuild_follows_status:
  assumes "rebuild R l now = (err, l')"
  shows "(case err of
      None \<Rightarrow> l_rebuilt l' \<and> (\<forall>d. if rebuildable l d
          then \<exists>outs. R d = Inr outs \<and> (\<forall>k. newest now outs k (map_of (book l' d) k))
          else book l' d = book l d)
    | Some e \<Rightarrow> l' = l \<and> (\<exists>d e'. rebuildable l d \<and> R d = Inl e' \<and> e = ''rebuild '' @ d @ '': '' @ e'))"
proof (cases "rebuild_books R now [] (map fst (l_sources l))")
  case (Inr books)
  then have r: "err = None" "l' = rebuild_install l books" using assms by (simp_all add: rebuild_def)
  note f = rebuild_install_fields(3,4) [OF Inr]
  have "if rebuildable l d then \<exists>outs. R d = Inr outs \<and> (\<forall>k. newest now outs k (map_of (book l' d) k)) else book l' d = book l d" for d
    using f [of d] by (auto simp: r(2) rebuild_fold_newest)
  moreover have "l_rebuilt l'" by (simp add: r(2) rebuild_install_def)
  ultimately show ?thesis by (simp add: r(1))
next
  case (Inl e)
  have "rebuild_books R now acc ds = Inl e \<Longrightarrow> \<exists>d \<in> set ds. \<exists>e'. R d = Inl e' \<and> e = ''rebuild '' @ d @ '': '' @ e'" for acc ds
    by (induction R now acc ds rule: rebuild_books.induct) (auto split: sum.splits)
  from this [OF Inl] obtain d e' where "d \<in> fst ` set (l_sources l)" "R d = Inl e'" "e = ''rebuild '' @ d @ '': '' @ e'" by auto
  then have "\<exists>d e'. rebuildable l d \<and> R d = Inl e' \<and> e = ''rebuild '' @ d @ '': '' @ e'" unfolding table_dom by blast
  moreover have "err = Some e" "l' = l" using Inl assms by (simp_all add: rebuild_def)
  ultimately show ?thesis by (simp only: option.case simp_thms)
qed

theorem rebuild_follows_status_witness:
  "l_rebuilt ledger0 \<and> newest tick0 [\<lparr>o_Key = movie0 ''a'', o_Seq = 1\<rparr>] (movie0 ''a'') (map_of (book ledger0 ''search'') (movie0 ''a''))"
proof -
  have e: "rebuild status0 new0 tick0 = (None, ledger0)"
  proof -
    have "fst (rebuild status0 new0 tick0) = None" by code_simp
    then show ?thesis by (simp add: ledger0_def prod_eq_iff)
  qed
  have r: "rebuildable new0 ''search''" by code_simp
  from rebuild_follows_status [OF e] r show ?thesis by (auto simp: status0_def dest!: spec [where x = "''search''"])
qed

section \<open>The audit\<close>

lemma Published_stamp:
  assumes "\<forall>cur. map_of (book l d) k = Some cur \<longrightarrow> s_seq cur \<le> seq"
  shows "map_of (book (Published l d k seq now) d) k = Some (published_slot l d seq now)"
proof -
  from assms have "(\<exists>cur. map_of (book l d) k = Some cur \<and> s_seq cur > seq) = False" by (auto simp: not_less)
  then show ?thesis unfolding Published_book by (simp only: if_False update_conv' fun_upd_same)
qed

text \<open>The audit releases a leaked slot and nothing else. Between its snapshot and its release anything
  may happen to the ledger; of the slots it finds then, it drops exactly the published ones that are
  still at the seq of the snapshot, still older than the audit's age and shown in flight by no status,
  and reports each of them. In particular a dispatch republished since the snapshot is kept.\<close>

theorem audit_releases_leaks:
  assumes "audit_release l cutoff inFl d slots = (l', released)"
  shows "(\<forall>x k. map_of (book l' x) k = (if x = d \<and> k \<in> set released then None else map_of (book l x) k)) \<and>
    (\<forall>k. k \<in> set released \<longleftrightarrow> (\<exists>sl. map_of (book l d) k = Some sl \<and> s_state sl = published \<and> (k, s_seq sl) \<in> set slots \<and>
       s_at sl < cutoff \<and> map_of inFl k \<noteq> Some True)) \<and>
    (\<forall>l0 k seq now. l = Published l0 d k seq now \<and> cutoff \<le> now \<and> (\<forall>cur. map_of (book l0 d) k = Some cur \<longrightarrow> s_seq cur \<le> seq)
       \<longrightarrow> k \<notin> set released \<and> map_of (book l' d) k = Some (published_slot l0 d seq now))"
proof -
  note f = audit_release_fields(6,7) [OF assms]
  have "k \<notin> set released \<and> map_of (book l' d) k = Some (published_slot l0 d seq now)"
    if p: "l = Published l0 d k seq now" "cutoff \<le> now" "\<forall>cur. map_of (book l0 d) k = Some cur \<longrightarrow> s_seq cur \<le> seq" for l0 k seq now
  proof -
    have m: "map_of (book l d) k = Some (published_slot l0 d seq now)" unfolding p(1) by (rule Published_stamp [OF p(3)])
    then have "\<not> releases l cutoff inFl d slots k" using p(2) by (simp add: releases_def published_slot_def)
    with f m show ?thesis by simp
  qed
  moreover have "\<forall>k. k \<in> set released \<longleftrightarrow> (\<exists>sl. map_of (book l d) k = Some sl \<and> s_state sl = published \<and> (k, s_seq sl) \<in> set slots \<and>
       s_at sl < cutoff \<and> map_of inFl k \<noteq> Some True)"
    using f(2) by (auto simp: releases_def shows_inFlight_def)
  moreover have "\<forall>x k. map_of (book l' x) k = (if x = d \<and> k \<in> set released then None else map_of (book l x) k)"
    using f by simp
  ultimately show ?thesis by blast
qed

theorem audit_releases_leaks_witness:
  "snd (audit_release ledger0 (tick0 + hour) [] ''search'' [(movie0 ''a'', 1)]) = [movie0 ''a''] \<and>
   map_of (book (fst (audit_release ledger0 (tick0 + hour) [] ''search'' [(movie0 ''a'', 1)])) ''search'') (movie0 ''a'') = None"
proof -
  let ?r = "audit_release ledger0 (tick0 + hour) [] ''search'' [(movie0 ''a'', 1)]"
  have s: "snd ?r = [movie0 ''a'']" by code_simp
  from audit_releases_leaks [OF prod.collapse [symmetric], of ledger0 "tick0 + hour" "[]" "''search''" "[(movie0 ''a'', 1)]"] s
  show ?thesis by simp
qed

end
