(* ===== verification/MemKV.thy ===== *)
theory MemKV
  imports Prelude Tables
begin

text \<open>
  The in-memory key/value buckets of the bus (\<^verbatim>\<open>pkg/events/membus/kv.go\<close>) and the relay queue of their
  watches (\<^verbatim>\<open>pkg/events/internal/evqueue\<close>). A bucket's methods hold its mutex, so each is one function
  of the bucket; the clock's reading is its argument \<open>now\<close>. Values are of any type (the source's bytes);
  revisions are natural numbers, the source's \<^verbatim>\<open>uint64\<close> before 2^64 writes.
\<close>

section \<open>Data\<close>

datatype kv_error = ErrBucketNotFound | ErrClosed | ErrKeyNotFound | ErrKeyExists | ErrRevisionMismatch | ErrContext

datatype KVOp = KVPut | KVDelete | KVPurge

record 'v Entry =
  en_Bucket :: string
  en_Key :: string
  en_Value :: "'v option"
  en_Revision :: nat
  en_Created :: time
  en_Delta :: nat
  en_Operation :: KVOp

record 'v kvValue =
  v_value :: 'v
  v_rev :: nat
  v_created :: time
  v_expires :: time

record 'v Queue =
  q_items :: "'v Entry list"
  q_closed :: bool

definition Queue_New :: "'v Queue" where
  "Queue_New = \<lparr>q_items = [], q_closed = False\<rparr>"

definition Queue_Push :: "'v Queue \<Rightarrow> 'v Entry \<Rightarrow> 'v Queue" where
  "Queue_Push q v = (if q_closed q then q else q\<lparr>q_items := q_items q @ [v]\<rparr>)"

definition Queue_Close :: "'v Queue \<Rightarrow> 'v Queue" where
  "Queue_Close q = q\<lparr>q_closed := True\<rparr>"

text \<open>What \<^verbatim>\<open>Relay\<close> does next: hand on the oldest item, end once closed and drained, or wait.\<close>

datatype 'v relay = Hand "'v Entry" "'v Queue" | Ended | Idle

definition Queue_Relay :: "'v Queue \<Rightarrow> 'v relay" where
  "Queue_Relay q = (case q_items q of v # vs \<Rightarrow> Hand v (q\<lparr>q_items := vs\<rparr>) | [] \<Rightarrow> if q_closed q then Ended else Idle)"

text \<open>\<open>wt_ref\<close> is the watcher's address, by which the source tells watchers apart.\<close>

record 'v watcher =
  wt_ref :: nat
  wt_pattern :: string
  wt_q :: "'v Queue"

record 'v bucket =
  b_Name :: string
  b_TTL :: duration
  b_rev :: nat
  b_vals :: "(string, 'v kvValue) table"
  b_watchers :: "'v watcher list"
  b_created :: time

record WatchOptions =
  wo_UpdatesOnly :: bool
  wo_FromRevision :: nat

record KVStatus =
  ks_Bucket :: string
  ks_LastRevision :: nat
  ks_Created :: time

section \<open>Subjects\<close>

fun match_tokens :: "string list \<Rightarrow> string list \<Rightarrow> bool" where
  "match_tokens [] s \<longleftrightarrow> s = []"
| "match_tokens (ft # f) s \<longleftrightarrow>
     (if ft = ''>'' then s \<noteq> []
      else case s of [] \<Rightarrow> False
        | t # ts \<Rightarrow> if ft \<noteq> ''*'' \<and> ft \<noteq> t then False else match_tokens f ts)"

definition SubjectMatches :: "string \<Rightarrow> string \<Rightarrow> bool" where
  "SubjectMatches filt subject \<longleftrightarrow>
     (if filt = '''' \<or> filt = ''>'' then subject \<noteq> ''''
      else match_tokens (split_on CHR ''.'' '''' filt) (split_on CHR ''.'' '''' subject))"

section \<open>The bucket\<close>

text \<open>A key's expiry: its own, else the bucket's; 0 when it has none.\<close>

definition expiry :: "'v bucket \<Rightarrow> 'v kvValue \<Rightarrow> time" where
  "expiry b v = (if is_zero (v_expires v) \<and> b_TTL b > 0 then v_created v + b_TTL b else v_expires v)"

definition liveLocked :: "'v bucket \<Rightarrow> string \<Rightarrow> time \<Rightarrow> 'v kvValue option \<times> 'v bucket" where
  "liveLocked b key now =
     (case map_of (b_vals b) key of
        None \<Rightarrow> (None, b)
      | Some v \<Rightarrow>
          if \<not> is_zero (expiry b v) \<and> \<not> now < expiry b v
          then (None, b\<lparr>b_vals := AList.delete key (b_vals b)\<rparr>) else (Some v, b))"

definition notify_one :: "'v Entry \<Rightarrow> 'v watcher \<Rightarrow> 'v watcher" where
  "notify_one e w = (if \<not> SubjectMatches (wt_pattern w) (en_Key e) then w else w\<lparr>wt_q := Queue_Push (wt_q w) e\<rparr>)"

definition notifyLocked :: "'v bucket \<Rightarrow> 'v Entry \<Rightarrow> 'v bucket" where
  "notifyLocked b e = b\<lparr>b_watchers := map (notify_one e) (b_watchers b)\<rparr>"

definition put_entry :: "'v bucket \<Rightarrow> string \<Rightarrow> 'v kvValue \<Rightarrow> 'v Entry" where
  "put_entry b key v = \<lparr>en_Bucket = b_Name b, en_Key = key, en_Value = Some (v_value v), en_Revision = v_rev v,
     en_Created = v_created v, en_Delta = 0, en_Operation = KVPut\<rparr>"

definition delete_entry :: "'v bucket \<Rightarrow> string \<Rightarrow> time \<Rightarrow> 'v Entry" where
  "delete_entry b key now = \<lparr>en_Bucket = b_Name b, en_Key = key, en_Value = None, en_Revision = b_rev b,
     en_Created = now, en_Delta = 0, en_Operation = KVDelete\<rparr>"

definition writeLocked :: "'v bucket \<Rightarrow> string \<Rightarrow> 'v \<Rightarrow> time \<Rightarrow> duration \<Rightarrow> nat \<times> 'v bucket" where
  "writeLocked b key val now ttl =
     (let n = b_rev b + 1;
          v = \<lparr>v_value = val, v_rev = n, v_created = now, v_expires = (if ttl > 0 then now + ttl else 0)\<rparr>;
          b1 = b\<lparr>b_rev := n, b_vals := AList.update key v (b_vals b)\<rparr>
      in (n, notifyLocked b1 (put_entry b1 key v)))"

definition removeLocked :: "'v bucket \<Rightarrow> string \<Rightarrow> time \<Rightarrow> 'v bucket" where
  "removeLocked b key now =
     (let b1 = b\<lparr>b_vals := AList.delete key (b_vals b), b_rev := b_rev b + 1\<rparr>
      in notifyLocked b1 (delete_entry b1 key now))"

definition kv_Get :: "'v bucket \<Rightarrow> string \<Rightarrow> time \<Rightarrow> (kv_error + 'v Entry) \<times> 'v bucket" where
  "kv_Get b key now =
     (case liveLocked b key now of
        (None, b1) \<Rightarrow> (Inl ErrKeyNotFound, b1)
      | (Some v, b1) \<Rightarrow> (Inr (put_entry b1 key v), b1))"

definition kv_Create :: "'v bucket \<Rightarrow> string \<Rightarrow> 'v \<Rightarrow> duration \<Rightarrow> time \<Rightarrow> (kv_error + nat) \<times> 'v bucket" where
  "kv_Create b key val ttl now =
     (case liveLocked b key now of
        (Some v, b1) \<Rightarrow> (Inl ErrKeyExists, b1)
      | (None, b1) \<Rightarrow> (let (n, b2) = writeLocked b1 key val now ttl in (Inr n, b2)))"

definition kv_Update :: "'v bucket \<Rightarrow> string \<Rightarrow> 'v \<Rightarrow> nat \<Rightarrow> time \<Rightarrow> (kv_error + nat) \<times> 'v bucket" where
  "kv_Update b key val r now =
     (case liveLocked b key now of
        (None, b1) \<Rightarrow> (Inl ErrKeyNotFound, b1)
      | (Some v, b1) \<Rightarrow>
          if v_rev v \<noteq> r then (Inl ErrRevisionMismatch, b1)
          else (let (n, b2) = writeLocked b1 key val now 0 in (Inr n, b2)))"

definition kv_Put :: "'v bucket \<Rightarrow> string \<Rightarrow> 'v \<Rightarrow> time \<Rightarrow> (kv_error + nat) \<times> 'v bucket" where
  "kv_Put b key val now = (let (n, b1) = writeLocked b key val now 0 in (Inr n, b1))"

definition kv_Delete :: "'v bucket \<Rightarrow> string \<Rightarrow> time \<Rightarrow> (kv_error + unit) \<times> 'v bucket" where
  "kv_Delete b key now =
     (case liveLocked b key now of
        (None, b1) \<Rightarrow> (Inr (), b1)
      | (Some v, b1) \<Rightarrow> (Inr (), removeLocked b1 key now))"

definition kv_DeleteRevision :: "'v bucket \<Rightarrow> string \<Rightarrow> nat \<Rightarrow> time \<Rightarrow> (kv_error + unit) \<times> 'v bucket" where
  "kv_DeleteRevision b key r now =
     (case liveLocked b key now of
        (None, b1) \<Rightarrow> (Inl ErrRevisionMismatch, b1)
      | (Some v, b1) \<Rightarrow> if v_rev v \<noteq> r then (Inl ErrRevisionMismatch, b1) else (Inr (), removeLocked b1 key now))"

text \<open>Ranging over the keys, which drops the expired ones.\<close>

definition drop_expired :: "'v bucket \<Rightarrow> time \<Rightarrow> 'v bucket" where
  "drop_expired b now = foldl (\<lambda>x key. snd (liveLocked x key now)) b (map fst (b_vals b))"

definition initial_entries :: "'v bucket \<Rightarrow> string \<Rightarrow> nat \<Rightarrow> 'v Entry list" where
  "initial_entries b pattern from' =
     sort_key en_Revision (map (\<lambda>(k, v). put_entry b k v)
       (filter (\<lambda>(k, v). SubjectMatches pattern k \<and> \<not> v_rev v < from') (b_vals b)))"

definition kv_Watch :: "'v bucket \<Rightarrow> nat \<Rightarrow> string \<Rightarrow> WatchOptions \<Rightarrow> time \<Rightarrow> 'v bucket" where
  "kv_Watch b w pattern o' now =
     (let b1 = (if wo_UpdatesOnly o' then b else drop_expired b now);
          q = (if wo_UpdatesOnly o' then Queue_New
               else foldl Queue_Push Queue_New (initial_entries b1 pattern (wo_FromRevision o')))
      in b1\<lparr>b_watchers := b_watchers b1 @ [\<lparr>wt_ref = w, wt_pattern = pattern, wt_q = q\<rparr>]\<rparr>)"

text \<open>The end of a watch's context, and what its relay hands the reader next.\<close>

definition kv_Unwatch :: "'v bucket \<Rightarrow> nat \<Rightarrow> 'v bucket" where
  "kv_Unwatch b w = b\<lparr>b_watchers := filter (\<lambda>x. wt_ref x \<noteq> w) (b_watchers b)\<rparr>"

definition relay_one :: "nat \<Rightarrow> 'v watcher \<Rightarrow> 'v watcher" where
  "relay_one w x = (if wt_ref x \<noteq> w then x else case Queue_Relay (wt_q x) of Hand v q \<Rightarrow> x\<lparr>wt_q := q\<rparr> | _ \<Rightarrow> x)"

definition watch_Relay :: "'v bucket \<Rightarrow> nat \<Rightarrow> 'v Entry option \<times> 'v bucket" where
  "watch_Relay b w =
     (Option.bind (find (\<lambda>x. wt_ref x = w) (b_watchers b)) (\<lambda>x. case Queue_Relay (wt_q x) of Hand v q \<Rightarrow> Some v | _ \<Rightarrow> None),
      b\<lparr>b_watchers := map (relay_one w) (b_watchers b)\<rparr>)"

definition kv_Keys :: "'v bucket \<Rightarrow> time \<Rightarrow> string list \<times> 'v bucket" where
  "kv_Keys b now = (let b1 = drop_expired b now in (sort (map fst (b_vals b1)), b1))"

definition kv_Status :: "'v bucket \<Rightarrow> KVStatus" where
  "kv_Status b = \<lparr>ks_Bucket = b_Name b, ks_LastRevision = b_rev b, ks_Created = b_created b\<rparr>"

definition closeWatchers :: "'v bucket \<Rightarrow> 'v bucket \<times> 'v watcher list" where
  "closeWatchers b = (b\<lparr>b_watchers := []\<rparr>, map (\<lambda>w. w\<lparr>wt_q := Queue_Close (wt_q w)\<rparr>) (b_watchers b))"

section \<open>Handles\<close>

record 'v kvHandle =
  kh_bucket :: "'v bucket option"
  kh_closed :: bool

text \<open>A handle's call: the context, the bucket Ensure made and the open bus are checked first.\<close>

definition on_bucket :: "bool \<Rightarrow> 'v kvHandle \<Rightarrow> ('v bucket \<Rightarrow> (kv_error + 'a) \<times> 'v bucket) \<Rightarrow> (kv_error + 'a) \<times> 'v kvHandle" where
  "on_bucket cancelled h f =
     (if cancelled then (Inl ErrContext, h)
      else case kh_bucket h of
        None \<Rightarrow> (Inl ErrBucketNotFound, h)
      | Some b \<Rightarrow> if kh_closed h then (Inl ErrClosed, h)
                 else (let (r, b1) = f b in (r, h\<lparr>kh_bucket := Some b1\<rparr>)))"

end
