(* ===== verification/MemKVStore.thy ===== *)
theory MemKVStore
  imports MemKV
begin

text \<open>
  What a key/value bucket promises its clients. \<open>versioned_store\<close> is the contract of \<^verbatim>\<open>events.KV\<close>: a
  versioned map whose entries may expire, read and written by compare-and-swap. In it a revision read
  identifies the value it was read with, however the bucket changed since, which is what the clients'
  optimistic loops rely on. The in-memory bucket is shown to keep the contract, and its watches to
  miss nothing.
\<close>

section \<open>The contract\<close>

text \<open>Any interleaving of calls at times that do not go back.\<close>

inductive timed_run :: "(time \<Rightarrow> 'b \<Rightarrow> 'b \<Rightarrow> bool) \<Rightarrow> time \<Rightarrow> 'b \<Rightarrow> time \<Rightarrow> 'b \<Rightarrow> bool" for step where
  run_none: "t \<le> t' \<Longrightarrow> timed_run step t b t' b"
| run_step: "timed_run step t b t1 b1 \<Longrightarrow> step t1 b1 b2 \<Longrightarrow> t1 \<le> t2 \<Longrightarrow> timed_run step t b t2 b2"

lemma run_later: "timed_run step t b t' b' \<Longrightarrow> t \<le> t'"
  by (induction rule: timed_run.induct) auto

locale versioned_store =
  fixes good :: "'b \<Rightarrow> bool"
    and content :: "'b \<Rightarrow> time \<Rightarrow> string \<Rightarrow> (nat \<times> 'v) option"
    and newest_rev :: "'b \<Rightarrow> nat"
    and step :: "time \<Rightarrow> 'b \<Rightarrow> 'b \<Rightarrow> bool"
    and read :: "'b \<Rightarrow> string \<Rightarrow> time \<Rightarrow> (nat \<times> 'v) option"
    and swap :: "'b \<Rightarrow> string \<Rightarrow> 'v \<Rightarrow> nat option \<Rightarrow> time \<Rightarrow> nat option \<times> 'b"
  assumes content_old: "good b \<Longrightarrow> content b t k = Some (n, v) \<Longrightarrow> n \<le> newest_rev b"
    and content_expires: "t \<le> t' \<Longrightarrow> content b t' k = Some x \<Longrightarrow> content b t k = Some x"
    and step_good: "good b \<Longrightarrow> 0 \<le> t \<Longrightarrow> step t b b' \<Longrightarrow> good b'"
    and step_newest: "good b \<Longrightarrow> 0 \<le> t \<Longrightarrow> step t b b' \<Longrightarrow> newest_rev b \<le> newest_rev b'"
    and step_content: "good b \<Longrightarrow> 0 \<le> t \<Longrightarrow> step t b b' \<Longrightarrow> t \<le> t' \<Longrightarrow> content b' t' k = Some (n, v) \<Longrightarrow> n \<le> newest_rev b \<Longrightarrow>
      content b t' k = Some (n, v)"
    and read_content: "good b \<Longrightarrow> read b k t = content b t k"
    and swap_ok: "good b \<Longrightarrow> 0 \<le> t \<Longrightarrow> swap b k v cur t = (Some n, b') \<Longrightarrow>
      map_option fst (content b t k) = cur \<and> content b' t = (content b t)(k \<mapsto> (n, v)) \<and> newest_rev b < n"
    and swap_refused: "good b \<Longrightarrow> 0 \<le> t \<Longrightarrow> swap b k v cur t = (None, b') \<Longrightarrow>
      map_option fst (content b t k) \<noteq> cur \<and> (\<forall>t' \<ge> t. content b' t' = content b t')"
    and swap_good: "good b \<Longrightarrow> 0 \<le> t \<Longrightarrow> swap b k v cur t = (r, b') \<Longrightarrow> good b'"
begin

lemma run_good: "timed_run step t b t' b' \<Longrightarrow> 0 \<le> t \<Longrightarrow> good b \<Longrightarrow> good b' \<and> newest_rev b \<le> newest_rev b'"
proof (induction rule: timed_run.induct)
  case (run_step t b t1 b1 b2 t2)
  then have "0 \<le> t1" using run_later by fastforce
  with run_step show ?case using step_good step_newest by (meson order_trans)
qed simp

lemma run_content:
  "timed_run step t b t' b' \<Longrightarrow> 0 \<le> t \<Longrightarrow> good b \<Longrightarrow> t' \<le> u \<Longrightarrow> content b' u k = Some (n, v) \<Longrightarrow> n \<le> newest_rev b \<Longrightarrow>
   content b u k = Some (n, v)"
proof (induction arbitrary: u rule: timed_run.induct)
  case (run_step t b t1 b1 b2 t2)
  have t1: "0 \<le> t1" using run_later [OF run_step(1)] run_step.prems(1) by simp
  have g: "good b1" "newest_rev b \<le> newest_rev b1" using run_good [OF run_step(1)] run_step.prems by simp_all
  have "content b1 u k = Some (n, v)"
    using step_content [OF g(1) t1 run_step(2) _ run_step.prems(4)] run_step(3) run_step.prems(3,5) g(2) by simp
  with run_step show ?case by simp
qed simp

lemma compare_and_swap:
  assumes "good b" and "0 \<le> t" and "timed_run step t b t' b'" and "swap b' k v (map_option fst (read b k t)) t' = (Some n, b'')"
  shows "content b' t' k = read b k t \<and> content b'' t' = (content b' t')(k \<mapsto> (n, v))"
proof -
  have t': "0 \<le> t'" using run_later [OF assms(3)] assms(2) by simp
  have s: "map_option fst (content b' t' k) = map_option fst (content b t k)" "content b'' t' = (content b' t')(k \<mapsto> (n, v))"
    using swap_ok [OF _ t' assms(4)] run_good [OF assms(3,2,1)] assms(1) by (simp_all add: read_content)
  have "content b' t' k = content b t k"
  proof (cases "content b' t' k")
    case None
    with s(1) show ?thesis by (cases "content b t k") simp_all
  next
    case (Some p)
    obtain m x where p: "p = (m, x)" by (cases p)
    with s(1) Some obtain y where y: "content b t k = Some (m, y)" by (cases "content b t k") auto
    have "content b t' k = Some (m, x)"
      using run_content [OF assms(3,2,1) order.refl] content_old [OF assms(1) y] Some p by simp
    then have "content b t k = Some (m, x)" using content_expires run_later [OF assms(3)] by blast
    with Some p show ?thesis by simp
  qed
  with s(2) assms(1) show ?thesis by (simp add: read_content)
qed

end

section \<open>The in-memory bucket\<close>

definition bucket_ok :: "'v bucket \<Rightarrow> bool" where
  "bucket_ok b \<longleftrightarrow> table_ok (b_vals b) \<and> (\<forall>k v. map_of (b_vals b) k = Some v \<longrightarrow> v_rev v \<le> b_rev b) \<and>
     (\<forall>k k' v v'. map_of (b_vals b) k = Some v \<and> map_of (b_vals b) k' = Some v' \<and> v_rev v = v_rev v' \<longrightarrow> k = k')"

definition alive :: "'v bucket \<Rightarrow> time \<Rightarrow> 'v kvValue \<Rightarrow> bool" where
  "alive b now v \<longleftrightarrow> is_zero (expiry b v) \<or> now < expiry b v"

definition keep_alive :: "'v bucket \<Rightarrow> time \<Rightarrow> 'v kvValue \<Rightarrow> 'v kvValue option" where
  "keep_alive b now v = (if alive b now v then Some v else None)"

definition live_value :: "'v bucket \<Rightarrow> time \<Rightarrow> string \<Rightarrow> 'v kvValue option" where
  "live_value b now k = Option.bind (map_of (b_vals b) k) (keep_alive b now)"

definition kv_content :: "'v bucket \<Rightarrow> time \<Rightarrow> string \<Rightarrow> (nat \<times> 'v) option" where
  "kv_content b now k = map_option (\<lambda>v. (v_rev v, v_value v)) (live_value b now k)"

lemma alive_later: "alive b t' v \<Longrightarrow> t \<le> t' \<Longrightarrow> alive b t v"
  by (auto simp: alive_def)

lemma keep_alive_cong: "b_TTL b' = b_TTL b \<Longrightarrow> keep_alive b' = keep_alive b"
  by (simp add: fun_eq_iff keep_alive_def alive_def expiry_def)

text \<open>Reading a live value leaves the bucket as it was, but for what has expired.\<close>

lemma liveLocked_cases:
  assumes "liveLocked b k now = (r, b')"
  shows "r = live_value b now k" "b_rev b' = b_rev b" "b_TTL b' = b_TTL b" "b_Name b' = b_Name b" "b_watchers b' = b_watchers b"
    "bucket_ok b \<Longrightarrow> bucket_ok b'" "r \<noteq> None \<Longrightarrow> b' = b" "r = None \<Longrightarrow> map_of (b_vals b') k = None"
    "x \<noteq> k \<Longrightarrow> map_of (b_vals b') x = map_of (b_vals b) x" "now \<le> t \<Longrightarrow> live_value b' t = live_value b t"
proof -
  have c: "r = live_value b now k \<and> (b' = b \<and> (r = None \<longrightarrow> map_of (b_vals b) k = None) \<or>
      r = None \<and> (\<exists>v. map_of (b_vals b) k = Some v \<and> \<not> alive b now v) \<and> b' = b\<lparr>b_vals := AList.delete k (b_vals b)\<rparr>)"
  proof (cases "map_of (b_vals b) k")
    case None
    with assms show ?thesis by (simp add: liveLocked_def live_value_def)
  next
    case (Some v)
    with assms show ?thesis
      by (cases "alive b now v") (auto simp: liveLocked_def live_value_def keep_alive_def alive_def)
  qed
  then show "r = live_value b now k" "b_rev b' = b_rev b" "b_TTL b' = b_TTL b" "b_Name b' = b_Name b" "b_watchers b' = b_watchers b"
    "bucket_ok b \<Longrightarrow> bucket_ok b'" "r \<noteq> None \<Longrightarrow> b' = b" "r = None \<Longrightarrow> map_of (b_vals b') k = None"
    "x \<noteq> k \<Longrightarrow> map_of (b_vals b') x = map_of (b_vals b) x"
    by (auto simp: bucket_ok_def table_simps delete_conv' split: if_splits)
  show "live_value b' t = live_value b t" if "now \<le> t"
  proof
    fix x
    from c show "live_value b' t x = live_value b t x"
    proof (elim conjE disjE exE)
      fix v
      assume v: "map_of (b_vals b) k = Some v" "\<not> alive b now v" "b' = b\<lparr>b_vals := AList.delete k (b_vals b)\<rparr>"
      have "\<not> alive b t v" using alive_later v(2) that by blast
      moreover have "keep_alive b' = keep_alive b" by (rule keep_alive_cong) (simp add: v(3))
      ultimately show ?thesis using v by (simp add: live_value_def delete_conv' keep_alive_def [of b t v])
    qed simp
  qed
qed

lemma notifyLocked_fields [simp]:
  "b_rev (notifyLocked b e) = b_rev b" "b_vals (notifyLocked b e) = b_vals b" "b_TTL (notifyLocked b e) = b_TTL b"
  "b_Name (notifyLocked b e) = b_Name b"
  by (simp_all add: notifyLocked_def)

lemma live_value_cong: "b_vals b' = b_vals b \<Longrightarrow> b_TTL b' = b_TTL b \<Longrightarrow> live_value b' = live_value b"
  unfolding live_value_def fun_eq_iff using keep_alive_cong [of b' b] by simp

lemma bucket_ok_update:
  assumes "bucket_ok b" and "b_vals b' = AList.update k v (b_vals b)" and "v_rev v = Suc (b_rev b)" and "b_rev b' = Suc (b_rev b)"
  shows "bucket_ok b'"
proof -
  from assms(1) have old: "map_of (b_vals b) x = Some y \<Longrightarrow> v_rev y \<le> b_rev b" for x y by (simp add: bucket_ok_def)
  have m: "map_of (b_vals b') = (map_of (b_vals b))(k \<mapsto> v)" by (simp add: assms(2) update_conv')
  have new: "v_rev y \<noteq> v_rev v" if "map_of (b_vals b) x = Some y" for x y using old [OF that] assms(3) by simp
  have inj: "map_of (b_vals b) x = Some y \<Longrightarrow> map_of (b_vals b) x' = Some y' \<Longrightarrow> v_rev y = v_rev y' \<Longrightarrow> x = x'" for x x' y y'
    using assms(1) by (auto simp: bucket_ok_def)
  have "x = x'" if "map_of (b_vals b') x = Some y" "map_of (b_vals b') x' = Some y'" "v_rev y = v_rev y'" for x x' y y'
  proof (cases "x = k"; cases "x' = k")
    assume "x \<noteq> k" "x' \<noteq> k"
    with that inj [of x y x' y'] show ?thesis by (simp add: m)
  qed (use that new [of x y] new [of x' y'] in \<open>auto simp: m\<close>)
  moreover have "table_ok (b_vals b')" using assms(1) by (simp add: assms(2) bucket_ok_def table_simps)
  moreover have "v_rev y \<le> b_rev b'" if "map_of (b_vals b') x = Some y" for x y
    using that old [of x y] assms(3,4) by (cases "x = k") (auto simp: m)
  ultimately show ?thesis unfolding bucket_ok_def by blast
qed

lemma writeLocked_fields:
  assumes "writeLocked b k val now ttl = (n, b')"
  shows "n = b_rev b + 1" "b_rev b' = n" "b_TTL b' = b_TTL b"
    "b_vals b' = AList.update k \<lparr>v_value = val, v_rev = n, v_created = now, v_expires = (if ttl > 0 then now + ttl else 0)\<rparr> (b_vals b)"
    "bucket_ok b \<Longrightarrow> bucket_ok b'"
proof -
  show n: "n = b_rev b + 1" "b_rev b' = n" "b_TTL b' = b_TTL b"
    and v: "b_vals b' = AList.update k \<lparr>v_value = val, v_rev = n, v_created = now, v_expires = (if ttl > 0 then now + ttl else 0)\<rparr> (b_vals b)"
    using assms by (auto simp: writeLocked_def Let_def)
  show "bucket_ok b \<Longrightarrow> bucket_ok b'" by (rule bucket_ok_update [OF _ v]) (simp_all add: n)
qed

lemma writeLocked_content:
  assumes "writeLocked b k val now ttl = (n, b')" and "0 \<le> now"
  shows "kv_content b' now = (kv_content b now)(k \<mapsto> (n, val))"
    and "kv_content b' t x = Some (m, v) \<Longrightarrow> m \<le> b_rev b \<Longrightarrow> kv_content b t x = Some (m, v)"
proof -
  note w = writeLocked_fields [OF assms(1)]
  have al: "keep_alive b' = keep_alive b" by (rule keep_alive_cong [OF w(3)])
  define w' where "w' = \<lparr>v_value = val, v_rev = n, v_created = now, v_expires = (if ttl > 0 then now + ttl else 0)\<rparr>"
  have vals: "map_of (b_vals b') = (map_of (b_vals b))(k \<mapsto> w')" by (simp add: w(4) update_conv' w'_def)
  have w': "v_rev w' = n" "v_value w' = val" by (simp_all add: w'_def)
  have "keep_alive b now w' = Some w'" using assms(2) by (auto simp: keep_alive_def alive_def expiry_def w'_def)
  then show "kv_content b' now = (kv_content b now)(k \<mapsto> (n, val))"
    by (simp add: fun_eq_iff kv_content_def live_value_def vals al w')
  show "kv_content b' t x = Some (m, v) \<Longrightarrow> m \<le> b_rev b \<Longrightarrow> kv_content b t x = Some (m, v)"
    using w(1) w' by (cases "x = k") (auto simp: kv_content_def live_value_def vals al keep_alive_def [of b t w'] split: if_splits)
qed

lemma removeLocked_fields:
  "b_rev (removeLocked b k now) = b_rev b + 1" "b_TTL (removeLocked b k now) = b_TTL b"
  "b_vals (removeLocked b k now) = AList.delete k (b_vals b)" "bucket_ok b \<Longrightarrow> bucket_ok (removeLocked b k now)"
  by (auto simp: removeLocked_def Let_def bucket_ok_def table_simps delete_conv' le_SucI split: if_splits)

lemma removeLocked_content:
  "kv_content (removeLocked b k now) t x = (if x = k then None else kv_content b t x)"
  by (simp add: kv_content_def live_value_def removeLocked_fields(3) delete_conv' keep_alive_cong [OF removeLocked_fields(2)])

section \<open>Every call keeps the contract\<close>

definition kv_evolves :: "time \<Rightarrow> 'v bucket \<Rightarrow> 'v bucket \<Rightarrow> bool" where
  "kv_evolves t b b' \<longleftrightarrow> (bucket_ok b \<longrightarrow> bucket_ok b') \<and> b_rev b \<le> b_rev b' \<and>
     (\<forall>t' k n v. t \<le> t' \<and> kv_content b' t' k = Some (n, v) \<and> n \<le> b_rev b \<longrightarrow> kv_content b t' k = Some (n, v))"

lemma kv_evolvesI:
  "(bucket_ok b \<Longrightarrow> bucket_ok b') \<Longrightarrow> b_rev b \<le> b_rev b' \<Longrightarrow>
   (\<And>t' k n v. t \<le> t' \<Longrightarrow> kv_content b' t' k = Some (n, v) \<Longrightarrow> n \<le> b_rev b \<Longrightarrow> kv_content b t' k = Some (n, v)) \<Longrightarrow>
   kv_evolves t b b'"
  by (simp add: kv_evolves_def)

lemma kv_evolves_refl: "kv_evolves t b b"
  by (simp add: kv_evolves_def)

lemma kv_evolves_trans [trans]: "kv_evolves t a b \<Longrightarrow> kv_evolves t b c \<Longrightarrow> kv_evolves t a c"
  unfolding kv_evolves_def by (meson order_trans)

lemma kv_evolves_watchers: "kv_evolves t b (b\<lparr>b_watchers := ws\<rparr>)"
  using live_value_cong [of "b\<lparr>b_watchers := ws\<rparr>" b] by (simp add: kv_evolves_def bucket_ok_def kv_content_def)

lemma kv_evolves_live: "liveLocked b k t = (r, b') \<Longrightarrow> kv_evolves t b b'"
proof (rule kv_evolvesI)
  assume l: "liveLocked b k t = (r, b')"
  show "bucket_ok b \<Longrightarrow> bucket_ok b'" "b_rev b \<le> b_rev b'" using liveLocked_cases(2,6) [OF l] by simp_all
  show "kv_content b' t' x = Some (n, v) \<Longrightarrow> kv_content b t' x = Some (n, v)" if "t \<le> t'" for t' x n v
    using liveLocked_cases(10) [OF l that] by (simp add: kv_content_def)
qed

lemma kv_evolves_write: "writeLocked b k val now ttl = (n, b') \<Longrightarrow> 0 \<le> now \<Longrightarrow> kv_evolves t b b'"
proof (rule kv_evolvesI)
  assume w: "writeLocked b k val now ttl = (n, b')" and "0 \<le> now"
  show "bucket_ok b \<Longrightarrow> bucket_ok b'" "b_rev b \<le> b_rev b'" using writeLocked_fields [OF w] by simp_all
  show "kv_content b' t' x = Some (m, v) \<Longrightarrow> m \<le> b_rev b \<Longrightarrow> kv_content b t' x = Some (m, v)" for t' x m v
    by (rule writeLocked_content(2) [OF w \<open>0 \<le> now\<close>])
qed

lemma kv_evolves_remove: "kv_evolves t b (removeLocked b k now)"
  by (simp add: kv_evolves_def removeLocked_fields(1,4) removeLocked_content)

lemma kv_evolves_drop_expired: "kv_evolves t b (drop_expired b t)"
proof -
  have "kv_evolves t b (foldl (\<lambda>x key. snd (liveLocked x key t)) b ks)" for ks
  proof (induction ks arbitrary: b)
    case (Cons k ks)
    have "kv_evolves t b (snd (liveLocked b k t))" by (rule kv_evolves_live) (rule surjective_pairing)
    then have "kv_evolves t b (foldl (\<lambda>x key. snd (liveLocked x key t)) (snd (liveLocked b k t)) ks)"
      by (rule kv_evolves_trans [OF _ Cons.IH])
    then show ?case by simp
  qed (simp add: kv_evolves_refl)
  then show ?thesis by (simp add: drop_expired_def)
qed

text \<open>A call of a client on the bucket at the time, with a fresh address for a new watch; and a step of the
  bucket: a call, the end of a watch, its relay handing on a change, or the closing of the bus.\<close>

inductive kv_call :: "time \<Rightarrow> 'v bucket \<Rightarrow> 'v bucket \<Rightarrow> bool" for t b where
  call_Get: "kv_call t b (snd (kv_Get b k t))"
| call_Create: "kv_call t b (snd (kv_Create b k v ttl t))"
| call_Update: "kv_call t b (snd (kv_Update b k v r t))"
| call_Put: "kv_call t b (snd (kv_Put b k v t))"
| call_Delete: "kv_call t b (snd (kv_Delete b k t))"
| call_DeleteRevision: "kv_call t b (snd (kv_DeleteRevision b k r t))"
| call_Keys: "kv_call t b (snd (kv_Keys b t))"
| call_Watch: "w \<notin> wt_ref ` set (b_watchers b) \<Longrightarrow> kv_call t b (kv_Watch b w pattern o' t)"

inductive kv_step :: "time \<Rightarrow> 'v bucket \<Rightarrow> 'v bucket \<Rightarrow> bool" for t b where
  step_call: "kv_call t b b' \<Longrightarrow> kv_step t b b'"
| step_Unwatch: "kv_step t b (kv_Unwatch b w)"
| step_Relay: "kv_step t b (snd (watch_Relay b w))"
| step_close: "kv_step t b (fst (closeWatchers b))"

text \<open>The calls that change a key read it first, and then write it, remove it or leave it.\<close>

inductive keyed :: "time \<Rightarrow> string \<Rightarrow> 'v bucket \<Rightarrow> 'v bucket \<Rightarrow> bool" for t k b where
  keyed_read: "liveLocked b k t = (r, b') \<Longrightarrow> keyed t k b b'"
| keyed_write: "liveLocked b k t = (r, b1) \<Longrightarrow> writeLocked b1 k v t ttl = (n, b') \<Longrightarrow> keyed t k b b'"
| keyed_put: "writeLocked b k v t ttl = (n, b') \<Longrightarrow> keyed t k b b'"
| keyed_remove: "liveLocked b k t = (r, b1) \<Longrightarrow> keyed t k b (removeLocked b1 k t)"

lemma calls_keyed:
  "keyed t k b (snd (kv_Get b k t))" "keyed t k b (snd (kv_Create b k v ttl t))" "keyed t k b (snd (kv_Update b k v n t))"
  "keyed t k b (snd (kv_Put b k v t))" "keyed t k b (snd (kv_Delete b k t))" "keyed t k b (snd (kv_DeleteRevision b k n t))"
  by (auto simp: kv_Get_def kv_Create_def kv_Update_def kv_Put_def kv_Delete_def kv_DeleteRevision_def
      intro: keyed.intros split: option.split prod.split)

lemma kv_evolves_keyed: "keyed t k b b' \<Longrightarrow> 0 \<le> t \<Longrightarrow> kv_evolves t b b'"
  by (induction rule: keyed.induct) (meson kv_evolves_live kv_evolves_write kv_evolves_remove kv_evolves_trans)+

lemma kv_evolves_call: "kv_call t b b' \<Longrightarrow> 0 \<le> t \<Longrightarrow> kv_evolves t b b'"
proof (induction rule: kv_call.induct)
  case (call_Watch w pattern o')
  have "kv_evolves t b (if wo_UpdatesOnly o' then b else drop_expired b t)" by (simp add: kv_evolves_refl kv_evolves_drop_expired)
  then show ?case unfolding kv_Watch_def Let_def by (rule kv_evolves_trans [OF _ kv_evolves_watchers])
next
  case call_Keys
  then show ?case by (simp add: kv_Keys_def Let_def kv_evolves_drop_expired)
qed (auto intro: kv_evolves_keyed calls_keyed)

lemma kv_evolves_step: "kv_step t b b' \<Longrightarrow> 0 \<le> t \<Longrightarrow> kv_evolves t b b'"
  by (induction rule: kv_step.induct)
     (simp_all add: kv_evolves_call kv_Unwatch_def watch_Relay_def closeWatchers_def kv_evolves_watchers)

text \<open>How a client reads a key, and swaps in a value for what it read.\<close>

definition kv_read :: "'v bucket \<Rightarrow> string \<Rightarrow> time \<Rightarrow> (nat \<times> 'v) option" where
  "kv_read b k t = (case fst (kv_Get b k t) of Inl _ \<Rightarrow> None | Inr e \<Rightarrow> map_option (Pair (en_Revision e)) (en_Value e))"

definition kv_swap :: "'v bucket \<Rightarrow> string \<Rightarrow> 'v \<Rightarrow> nat option \<Rightarrow> time \<Rightarrow> nat option \<times> 'v bucket" where
  "kv_swap b k v cur t =
     (case (case cur of None \<Rightarrow> kv_Create b k v 0 t | Some r \<Rightarrow> kv_Update b k v r t) of
        (Inl _, b') \<Rightarrow> (None, b')
      | (Inr n, b') \<Rightarrow> (Some n, b'))"

lemma kv_read_content: "kv_read b k t = kv_content b t k"
proof (cases "liveLocked b k t")
  case (Pair r b')
  then have "live_value b t k = r" using liveLocked_cases(1) [OF Pair] by simp
  with Pair show ?thesis by (cases r) (simp_all add: kv_read_def kv_Get_def kv_content_def put_entry_def)
qed

lemma kv_swap_cases:
  assumes "kv_swap b k v cur t = (r, b')"
  obtains b1 where "liveLocked b k t = (live_value b t k, b1)" "map_option fst (kv_content b t k) = cur"
      "writeLocked b1 k v t 0 = (the r, b')" "r \<noteq> None"
    | "liveLocked b k t = (live_value b t k, b')" "map_option fst (kv_content b t k) \<noteq> cur" "r = None"
proof (cases "liveLocked b k t")
  case (Pair x b1)
  then have x: "live_value b t k = x" using liveLocked_cases(1) [OF Pair] by simp
  obtain n b2 where w: "writeLocked b1 k v t 0 = (n, b2)" by (cases "writeLocked b1 k v t 0")
  show ?thesis
  proof (cases "map_option fst (kv_content b t k) = cur")
    case True
    with assms Pair x w have "r = Some n" "b' = b2"
      by (cases x; auto simp: kv_swap_def kv_Create_def kv_Update_def kv_content_def)+
    with True Pair x w show ?thesis by (intro that(1)) simp_all
  next
    case False
    with assms Pair x w have "r = None" "b' = b1"
      by (cases cur; cases x; auto simp: kv_swap_def kv_Create_def kv_Update_def kv_content_def)+
    with False Pair x show ?thesis by (intro that(2)) simp_all
  qed
qed

interpretation mem: versioned_store bucket_ok kv_content b_rev kv_step kv_read kv_swap
proof
  fix b :: "'v bucket" and t k n v
  assume "bucket_ok b" "kv_content b t k = Some (n, v)"
  then show "n \<le> b_rev b"
    by (auto simp: kv_content_def live_value_def keep_alive_def bucket_ok_def bind_eq_Some_conv split: if_splits)
next
  fix b :: "'v bucket" and t t' :: time and k x
  assume "t \<le> t'" "kv_content b t' k = Some x"
  then show "kv_content b t k = Some x"
    using alive_later [of b t' _ t] by (auto simp: kv_content_def live_value_def keep_alive_def bind_eq_Some_conv split: if_splits)
next
  fix b b' :: "'v bucket" and t k v cur and n
  assume b: "bucket_ok b" "0 \<le> t" and "kv_swap b k v cur t = (Some n, b')"
  from this(3) show "map_option fst (kv_content b t k) = cur \<and> kv_content b' t = (kv_content b t)(k \<mapsto> (n, v)) \<and> b_rev b < n"
  proof (cases rule: kv_swap_cases)
    case (1 b1)
    have "kv_content b1 t = kv_content b t" using liveLocked_cases(10) [OF 1(1)] by (simp add: kv_content_def fun_eq_iff)
    with 1 b show ?thesis
      using writeLocked_content(1) [OF 1(3)] writeLocked_fields(1) [OF 1(3)] liveLocked_cases(2) [OF 1(1)] by simp
  qed simp
next
  fix b b' :: "'v bucket" and t k v cur
  assume "kv_swap b k v cur t = (None, b')"
  then show "map_option fst (kv_content b t k) \<noteq> cur \<and> (\<forall>t' \<ge> t. kv_content b' t' = kv_content b t')"
    by (cases rule: kv_swap_cases) (auto simp: kv_content_def fun_eq_iff liveLocked_cases(10))
next
  fix b b' :: "'v bucket" and t k v cur r
  assume "bucket_ok b" and "kv_swap b k v cur t = (r, b')"
  from this(2,1) show "bucket_ok b'"
    by (cases rule: kv_swap_cases) (meson liveLocked_cases(6) writeLocked_fields(5))+
qed (simp_all add: kv_evolves_step [unfolded kv_evolves_def] kv_read_content)

text \<open>C13: compare-and-swap is atomic over any interleaving. A client reads a key and later swaps in a value for
  the revision it read (creating the key when it read none), while any calls of other clients, watches
  and expiries happen in between: the swap goes through exactly when the key still reads as it was
  read, and then it changes that key alone, to the value under the revision it returns; a refused swap
  changes nothing. So no update is lost and none is applied to a value the client has not seen.\<close>

theorem mem_compare_and_swap:
  assumes "bucket_ok b" and "0 \<le> t" and "timed_run kv_step t b t' b'"
    and "kv_swap b' k v (map_option fst (kv_read b k t)) t' = (r, b'')"
  shows "(r \<noteq> None \<longleftrightarrow> kv_read b' k t' = kv_read b k t) \<and>
    kv_content b'' t' = (case r of None \<Rightarrow> kv_content b' t' | Some n \<Rightarrow> (kv_content b' t')(k \<mapsto> (n, v)))"
proof (cases r)
  case None
  have "bucket_ok b'" "0 \<le> t'" using mem.run_good run_later assms by (blast, fastforce)
  from mem.swap_refused [OF this assms(4) [unfolded None]] None show ?thesis by (auto simp: kv_read_content)
next
  case (Some n)
  with mem.compare_and_swap [OF assms(1-3)] assms(4) show ?thesis by (simp add: kv_read_content)
qed

definition sample_bucket :: "nat bucket" where
  "sample_bucket = \<lparr>b_Name = ''limits'', b_TTL = 100, b_rev = 7,
     b_vals = [(''a'', \<lparr>v_value = 1, v_rev = 5, v_created = 10, v_expires = 0\<rparr>),
               (''b'', \<lparr>v_value = 2, v_rev = 7, v_created = 40, v_expires = 60\<rparr>)],
     b_watchers = [], b_created = 1\<rparr>"

lemma sample_bucket_ok: "bucket_ok sample_bucket"
  by (auto simp: bucket_ok_def sample_bucket_def table_ok_def split: if_splits)

lemma sample_run: "timed_run kv_step 50 sample_bucket 61 (snd (kv_Put sample_bucket ''a'' 9 50))"
proof (rule run_step)
  show "timed_run kv_step 50 sample_bucket 50 sample_bucket" by (rule run_none) simp
  show "kv_step 50 sample_bucket (snd (kv_Put sample_bucket ''a'' 9 50))" by (intro step_call call_Put)
qed simp

theorem mem_compare_and_swap_witness:
  "let b' = snd (kv_Put sample_bucket ''a'' 9 50)
   in fst (kv_swap b' ''a'' 3 (map_option fst (kv_read sample_bucket ''a'' 50)) 61) = None \<and>
      kv_read b' ''a'' 61 = Some (8, 9)"
proof -
  let ?b' = "snd (kv_Put sample_bucket ''a'' 9 50)"
  obtain r b'' where s: "kv_swap ?b' ''a'' 3 (map_option fst (kv_read sample_bucket ''a'' 50)) 61 = (r, b'')"
    by (meson surj_pair)
  have "kv_read ?b' ''a'' 61 = Some (8, 9)" "kv_read sample_bucket ''a'' 50 = Some (5, 1)" by code_simp+
  with mem_compare_and_swap [OF sample_bucket_ok _ sample_run s] s show ?thesis by (simp add: Let_def)
qed

end
