(* ===== verification/MemKVWatch.thy ===== *)
theory MemKVWatch
  imports MemKVStore
begin

text \<open>
  Watches of the in-memory buckets: the queue of a watch, with what its relay has already handed to the
  reader, is a log of the bucket's changes in revision order, from which the reader knows every live
  key of the pattern.
\<close>

definition last_for :: "string \<Rightarrow> 'v Entry list \<Rightarrow> 'v Entry option" where
  "last_for k es = find (\<lambda>e. en_Key e = k) (rev es)"

definition refs :: "'v bucket \<Rightarrow> nat set" where
  "refs b = wt_ref ` set (b_watchers b)"

definition watcher_of :: "'v bucket \<Rightarrow> nat \<Rightarrow> 'v watcher option" where
  "watcher_of b w = find (\<lambda>x. wt_ref x = w) (b_watchers b)"

text \<open>A watch from a revision on: what its reader has been handed, and the bucket.\<close>

definition watch_from :: "'v bucket \<Rightarrow> WatchOptions \<Rightarrow> nat" where
  "watch_from b o' = (if wo_UpdatesOnly o' then Suc (b_rev b) else wo_FromRevision o')"

inductive watched :: "nat \<Rightarrow> string \<Rightarrow> nat \<Rightarrow> 'v Entry list \<Rightarrow> 'v bucket \<Rightarrow> bool" for w p n where
  watched_start: "bucket_ok b \<Longrightarrow> w \<notin> refs b \<Longrightarrow> n = watch_from b o' \<Longrightarrow> watched w p n [] (kv_Watch b w p o' t)"
| watched_call: "watched w p n es b \<Longrightarrow> kv_call t b b' \<Longrightarrow> watched w p n es b'"
| watched_other: "watched w p n es b \<Longrightarrow> x \<noteq> w \<Longrightarrow> watched w p n es (kv_Unwatch b x)"
| watched_other_relay: "watched w p n es b \<Longrightarrow> x \<noteq> w \<Longrightarrow> watched w p n es (snd (watch_Relay b x))"
| watched_relay: "watched w p n es b \<Longrightarrow> watch_Relay b w = (Some e, b') \<Longrightarrow> watched w p n (es @ [e]) b'"

section \<open>The log\<close>

definition logs :: "string \<Rightarrow> nat \<Rightarrow> 'v bucket \<Rightarrow> 'v Entry list \<Rightarrow> bool" where
  "logs p n b es \<longleftrightarrow> sorted_wrt (<) (map en_Revision es) \<and> (\<forall>e \<in> set es. en_Revision e \<le> b_rev b) \<and>
     (\<forall>k v. SubjectMatches p k \<and> map_of (b_vals b) k = Some v \<and> n \<le> v_rev v \<longrightarrow> last_for k es = Some (put_entry b k v))"

lemma last_for_snoc [simp]: "last_for k (es @ [e]) = (if en_Key e = k then Some e else last_for k es)"
  by (simp add: last_for_def)

lemma last_for_distinct: "distinct (map en_Key es) \<Longrightarrow> e \<in> set es \<Longrightarrow> last_for (en_Key e) es = Some e"
proof (induction es rule: rev_induct)
  case (snoc x es)
  then show ?case by (auto simp: image_iff)
qed simp

lemma put_entry_simps [simp]:
  "en_Key (put_entry b k v) = k" "en_Revision (put_entry b k v) = v_rev v" "en_Key (delete_entry b k t) = k"
  "en_Revision (delete_entry b k t) = b_rev b"
  by (simp_all add: put_entry_def delete_entry_def)

lemma put_entry_cong: "b_Name b' = b_Name b \<Longrightarrow> put_entry b' k v = put_entry b k v"
  by (simp add: put_entry_def)

text \<open>Losing keys keeps the log; a change that is appended keeps it too.\<close>

definition fewer :: "'v bucket \<Rightarrow> 'v bucket \<Rightarrow> bool" where
  "fewer b b' \<longleftrightarrow> map_of (b_vals b') \<subseteq>\<^sub>m map_of (b_vals b) \<and> b_rev b' = b_rev b \<and> b_Name b' = b_Name b \<and>
     b_watchers b' = b_watchers b \<and> (bucket_ok b \<longrightarrow> bucket_ok b')"

lemma fewer_refl: "fewer b b"
  by (simp add: fewer_def)

lemma fewer_trans: "fewer a b \<Longrightarrow> fewer b c \<Longrightarrow> fewer a c"
  unfolding fewer_def by (auto intro: map_le_trans)

lemma fewer_live: "liveLocked b k t = (r, b') \<Longrightarrow> fewer b b'"
proof -
  assume l: "liveLocked b k t = (r, b')"
  have "map_of (b_vals b') \<subseteq>\<^sub>m map_of (b_vals b)"
    unfolding map_le_def using liveLocked_cases(7-9) [OF l] by (metis domIff)
  then show ?thesis using liveLocked_cases(2,4,5,6) [OF l] by (simp add: fewer_def)
qed

lemma fewer_drop_expired: "fewer b (drop_expired b t)"
proof -
  have "fewer b (foldl (\<lambda>x key. snd (liveLocked x key t)) b ks)" for ks
  proof (induction ks arbitrary: b)
    case (Cons k ks)
    have "fewer b (snd (liveLocked b k t))" by (rule fewer_live) (rule surjective_pairing)
    from fewer_trans [OF this Cons.IH] show ?case by simp
  qed (simp add: fewer_refl)
  then show ?thesis by (simp add: drop_expired_def)
qed

lemma logs_fewer:
  assumes "logs p n b es" and "map_of (b_vals b') \<subseteq>\<^sub>m map_of (b_vals b)" and "b_rev b' = b_rev b" and "b_Name b' = b_Name b"
  shows "logs p n b' es"
  using assms put_entry_cong [of b' b] unfolding logs_def map_le_def by (metis domI)

lemma logs_write:
  assumes "logs p n b es" and "writeLocked b k val t ttl = (r, b')"
  defines "v \<equiv> \<lparr>v_value = val, v_rev = r, v_created = t, v_expires = (if ttl > 0 then t + ttl else 0)\<rparr>"
  shows "logs p n b' (if SubjectMatches p k then es @ [put_entry b k v] else es)"
proof -
  note w = writeLocked_fields [OF assms(2)]
  have "b_Name b' = b_Name b" using assms(2) by (auto simp: writeLocked_def Let_def)
  then have e: "put_entry b' = put_entry b" by (simp add: put_entry_def fun_eq_iff)
  have m: "map_of (b_vals b') = (map_of (b_vals b))(k \<mapsto> v)" by (simp add: w(4) v_def update_conv')
  have r: "v_rev v = Suc (b_rev b)" by (simp add: v_def w(1))
  show ?thesis
    using assms(1) w(1,2) unfolding logs_def
    by (auto simp: m e r sorted_wrt_append less_Suc_eq_le le_SucI)
qed

lemma logs_remove:
  assumes "logs p n b es"
  shows "logs p n (removeLocked b k t)
    (if SubjectMatches p k then es @ [delete_entry (b\<lparr>b_rev := b_rev b + 1\<rparr>) k t] else es)"
proof -
  have "b_Name (removeLocked b k t) = b_Name b" by (simp add: removeLocked_def Let_def)
  then have e: "put_entry (removeLocked b k t) = put_entry b" by (simp add: put_entry_def fun_eq_iff)
  show ?thesis
    using assms unfolding logs_def
    by (auto simp: removeLocked_fields delete_conv' e sorted_wrt_append less_Suc_eq_le le_SucI split: if_splits)
qed

section \<open>The watcher\<close>

definition tracks :: "nat \<Rightarrow> string \<Rightarrow> nat \<Rightarrow> 'v Entry list \<Rightarrow> 'v bucket \<Rightarrow> bool" where
  "tracks w p n es b \<longleftrightarrow> (\<exists>x. watcher_of b w = Some x \<and> wt_pattern x = p \<and> \<not> q_closed (wt_q x) \<and>
     logs p n b (es @ q_items (wt_q x)))"

lemma find_map_same: "(\<And>x. P (f x) = P x) \<Longrightarrow> find P (map f xs) = map_option f (find P xs)"
  by (induction xs) auto

lemma find_append: "find P (xs @ ys) = (case find P xs of None \<Rightarrow> find P ys | Some x \<Rightarrow> Some x)"
  by (induction xs) auto

lemma watcher_of_notify: "watcher_of (notifyLocked b e) w = map_option (notify_one e) (watcher_of b w)"
  by (simp add: watcher_of_def notifyLocked_def find_map_same notify_one_def)

lemma notify_one_fields:
  "wt_pattern (notify_one e x) = wt_pattern x" "q_closed (wt_q (notify_one e x)) = q_closed (wt_q x)"
  "\<not> q_closed (wt_q x) \<Longrightarrow>
     q_items (wt_q (notify_one e x)) = q_items (wt_q x) @ (if SubjectMatches (wt_pattern x) (en_Key e) then [e] else [])"
  by (simp_all add: notify_one_def Queue_Push_def)

lemma tracks_fewer: "tracks w p n es b \<Longrightarrow> fewer b b' \<Longrightarrow> tracks w p n es b'"
  using logs_fewer [of p n b _ b'] unfolding tracks_def watcher_of_def fewer_def by metis

text \<open>A change notified after the bucket has it.\<close>

lemma tracks_notify:
  assumes "tracks w p n es b" and "b_watchers b1 = b_watchers b" and "en_Key e = k"
    and "\<And>log. logs p n b log \<Longrightarrow> logs p n (notifyLocked b1 e) (if SubjectMatches p k then log @ [e] else log)"
  shows "tracks w p n es (notifyLocked b1 e)"
proof -
  from assms(1) obtain x where x: "watcher_of b w = Some x" "wt_pattern x = p" "\<not> q_closed (wt_q x)"
    and l: "logs p n b (es @ q_items (wt_q x))" by (auto simp: tracks_def)
  have "watcher_of (notifyLocked b1 e) w = Some (notify_one e x)"
    using x(1) assms(2) by (simp add: watcher_of_notify) (simp add: watcher_of_def)
  with assms(4) [OF l] x assms(3) show ?thesis
    unfolding tracks_def by (cases "SubjectMatches p k") (simp_all add: notify_one_fields)
qed

lemma tracks_write:
  assumes "tracks w p n es b" and "writeLocked b k val t ttl = (r, b')"
  shows "tracks w p n es b'"
proof -
  define v where "v = \<lparr>v_value = val, v_rev = b_rev b + 1, v_created = t, v_expires = (if ttl > 0 then t + ttl else 0)\<rparr>"
  define b1 where "b1 = b\<lparr>b_rev := b_rev b + 1, b_vals := AList.update k v (b_vals b)\<rparr>"
  have e: "put_entry b1 k v = put_entry b k v" by (rule put_entry_cong) (simp add: b1_def)
  have "writeLocked b k val t ttl = (b_rev b + 1, notifyLocked b1 (put_entry b1 k v))"
    by (simp only: writeLocked_def Let_def b1_def v_def)
  with assms(2) e have b': "b' = notifyLocked b1 (put_entry b k v)" and r: "r = b_rev b + 1" by simp_all
  have "tracks w p n es (notifyLocked b1 (put_entry b k v))"
  proof (rule tracks_notify [OF assms(1)])
    show "logs p n (notifyLocked b1 (put_entry b k v)) (if SubjectMatches p k then log @ [put_entry b k v] else log)"
      if "logs p n b log" for log
      using logs_write [OF that assms(2)] unfolding b' r v_def .
  qed (simp_all add: b1_def)
  then show ?thesis by (simp add: b')
qed

lemma tracks_remove: "tracks w p n es b \<Longrightarrow> tracks w p n es (removeLocked b k t)"
proof -
  define b1 where "b1 = b\<lparr>b_vals := AList.delete k (b_vals b), b_rev := b_rev b + 1\<rparr>"
  have e: "delete_entry b1 k t = delete_entry (b\<lparr>b_rev := b_rev b + 1\<rparr>) k t" by (simp add: delete_entry_def b1_def)
  have rm: "removeLocked b k t = notifyLocked b1 (delete_entry b1 k t)" by (simp only: removeLocked_def Let_def b1_def)
  assume "tracks w p n es b"
  then have "tracks w p n es (notifyLocked b1 (delete_entry b1 k t))"
  proof (rule tracks_notify)
    show "logs p n (notifyLocked b1 (delete_entry b1 k t)) (if SubjectMatches p k then log @ [delete_entry b1 k t] else log)"
      if "logs p n b log" for log
      using logs_remove [OF that, of k t] unfolding rm e .
  qed (simp_all add: b1_def)
  then show ?thesis unfolding rm .
qed

lemma tracks_keyed: "keyed t k b b' \<Longrightarrow> tracks w p n es b \<Longrightarrow> tracks w p n es b'"
  by (induction rule: keyed.induct) (blast intro: tracks_fewer fewer_live tracks_write tracks_remove)+

lemma tracks_drop_expired: "tracks w p n es b \<Longrightarrow> tracks w p n es (drop_expired b t)"
  by (rule tracks_fewer [OF _ fewer_drop_expired])

lemma tracks_watchers: "tracks w p n es b \<Longrightarrow> watcher_of (b\<lparr>b_watchers := ws\<rparr>) w = watcher_of b w \<Longrightarrow> tracks w p n es (b\<lparr>b_watchers := ws\<rparr>)"
  using logs_fewer [of p n b _ "b\<lparr>b_watchers := ws\<rparr>"] by (auto simp: tracks_def)

lemma tracks_Watch:
  assumes "tracks w p n es b"
  shows "tracks w p n es (kv_Watch b x q o' t)"
proof -
  have "tracks w p n es (if wo_UpdatesOnly o' then b else drop_expired b t)" using assms tracks_drop_expired [OF assms] by simp
  moreover have "watcher_of (c\<lparr>b_watchers := b_watchers c @ ws\<rparr>) w = watcher_of c w" if "tracks w p n es c" for c ws
    using that by (auto simp: tracks_def watcher_of_def find_append)
  ultimately show ?thesis unfolding kv_Watch_def Let_def by (blast intro: tracks_watchers)
qed

lemma tracks_call: "kv_call t b b' \<Longrightarrow> tracks w p n es b \<Longrightarrow> tracks w p n es b'"
  by (induction rule: kv_call.induct)
     (auto simp: kv_Keys_def Let_def tracks_drop_expired tracks_Watch intro: tracks_keyed calls_keyed)

section \<open>A watch from its start\<close>

lemma fold_Push: "\<not> q_closed q \<Longrightarrow> foldl Queue_Push q es = q\<lparr>q_items := q_items q @ es\<rparr>"
  by (induction es arbitrary: q) (simp_all add: Queue_Push_def)

lemma initial_entries_set:
  "set (initial_entries b p n) = {put_entry b k v |k v. (k, v) \<in> set (b_vals b) \<and> SubjectMatches p k \<and> n \<le> v_rev v}"
  by (auto simp: initial_entries_def not_less)

lemma initial_distinct:
  assumes "table_ok (b_vals b)"
  shows "distinct (map en_Key (initial_entries b p n))"
proof -
  let ?xs = "filter (\<lambda>(k, v). SubjectMatches p k \<and> \<not> v_rev v < n) (b_vals b)"
  have "distinct (map fst ?xs)" using assms by (simp add: table_ok_def distinct_map_filter)
  then have "distinct (map en_Key (map (\<lambda>(k, v). put_entry b k v) ?xs))" by (simp add: comp_def case_prod_beta)
  then have "distinct (map (\<lambda>(k, v). put_entry b k v) ?xs)" "inj_on en_Key (set (map (\<lambda>(k, v). put_entry b k v) ?xs))"
    by (simp_all only: distinct_map)
  then show ?thesis by (simp only: initial_entries_def distinct_map distinct_sort set_sort)
qed

lemma logs_initial:
  assumes "bucket_ok b"
  shows "logs p n b (initial_entries b p n)"
proof -
  let ?es = "initial_entries b p n"
  have ok: "table_ok (b_vals b)" using assms by (simp add: bucket_ok_def)
  note keys = initial_distinct [OF ok, of p n]
  have mem: "e \<in> set ?es \<longleftrightarrow> (\<exists>k v. e = put_entry b k v \<and> map_of (b_vals b) k = Some v \<and> SubjectMatches p k \<and> n \<le> v_rev v)" for e
    using ok by (auto simp: initial_entries_set map_of_in_ok)
  have "inj_on en_Revision (set ?es)"
    using assms by (intro inj_onI) (auto simp: mem bucket_ok_def, metis option.inject)
  then have "distinct (map en_Revision ?es)" using keys by (simp add: distinct_map)
  moreover have "sorted (map en_Revision ?es)" by (simp add: initial_entries_def)
  ultimately have "sorted_wrt (<) (map en_Revision ?es)" by (simp add: strict_sorted_iff)
  moreover have "en_Revision e \<le> b_rev b" if "e \<in> set ?es" for e using that assms by (auto simp: mem bucket_ok_def)
  moreover have "last_for k ?es = Some (put_entry b k v)"
    if "SubjectMatches p k" "map_of (b_vals b) k = Some v" "n \<le> v_rev v" for k v
    using last_for_distinct [OF keys, of "put_entry b k v"] that by (auto simp: mem)
  ultimately show ?thesis by (simp add: logs_def)
qed

lemma logs_fresh: "bucket_ok b \<Longrightarrow> logs p (Suc (b_rev b)) b []"
  by (auto simp: logs_def bucket_ok_def) fastforce

lemma tracks_start:
  assumes "bucket_ok b" and "w \<notin> refs b"
  shows "tracks w p (watch_from b o') [] (kv_Watch b w p o' t)"
proof -
  define c where "c = (if wo_UpdatesOnly o' then b else drop_expired b t)"
  define q where "q = (if wo_UpdatesOnly o' then Queue_New
    else foldl Queue_Push Queue_New (initial_entries c p (wo_FromRevision o')))"
  let ?d = "c\<lparr>b_watchers := b_watchers c @ [\<lparr>wt_ref = w, wt_pattern = p, wt_q = q\<rparr>]\<rparr>"
  have W: "kv_Watch b w p o' t = ?d" by (simp only: kv_Watch_def Let_def c_def q_def)
  have c: "fewer b c" by (simp add: c_def fewer_refl fewer_drop_expired)
  then have "bucket_ok c" "b_rev c = b_rev b" and ws: "b_watchers c = b_watchers b" using assms(1) by (simp_all add: fewer_def)
  then have l: "logs p (watch_from b o') c (q_items q)" and "\<not> q_closed q"
    using logs_initial logs_fresh [of c p] by (auto simp: watch_from_def q_def Queue_New_def fold_Push)
  moreover have "find (\<lambda>x. wt_ref x = w) (b_watchers b) = None"
    using assms(2) by (auto simp: refs_def find_None_iff)
  moreover have "logs p (watch_from b o') ?d (q_items q)" by (rule logs_fewer [OF l]) simp_all
  ultimately show ?thesis unfolding W tracks_def by (simp add: watcher_of_def find_append ws)
qed

lemma find_filter_other: "(\<And>x. P x \<Longrightarrow> Q x) \<Longrightarrow> find P (filter Q xs) = find P xs"
  by (induction xs) auto

lemma tracks_other:
  assumes "tracks w p n es b" and "x \<noteq> w"
  shows "tracks w p n es (kv_Unwatch b x)" and "tracks w p n es (snd (watch_Relay b x))"
proof -
  show "tracks w p n es (kv_Unwatch b x)"
    using assms(2) unfolding kv_Unwatch_def
    by (intro tracks_watchers [OF assms(1)]) (auto simp: watcher_of_def intro: find_filter_other)
  have "find (\<lambda>y. wt_ref y = w) (map (relay_one x) xs) = find (\<lambda>y. wt_ref y = w) xs" for xs :: "'v watcher list"
    using assms(2) by (induction xs) (auto simp: relay_one_def split: relay.splits)
  then show "tracks w p n es (snd (watch_Relay b x))"
    unfolding watch_Relay_def snd_conv by (intro tracks_watchers [OF assms(1)]) (simp add: watcher_of_def)
qed

lemma Queue_Relay_cases:
  "Queue_Relay q = Hand v q' \<longleftrightarrow> (\<exists>vs. q_items q = v # vs \<and> q' = q\<lparr>q_items := vs\<rparr>)"
  by (auto simp: Queue_Relay_def split: list.splits)

lemma relay_one_ref [simp]: "wt_ref (relay_one w y) = wt_ref y"
  by (simp add: relay_one_def split: relay.split)

lemma tracks_relay:
  assumes "tracks w p n es b" and "watch_Relay b w = (Some e, b')"
  shows "tracks w p n (es @ [e]) b'"
proof -
  from assms(1) obtain x where x: "watcher_of b w = Some x" "wt_pattern x = p" "\<not> q_closed (wt_q x)"
    and l: "logs p n b (es @ q_items (wt_q x))" by (auto simp: tracks_def)
  from assms(2) x(1) obtain q' where q': "Queue_Relay (wt_q x) = Hand e q'"
    by (auto simp: watch_Relay_def watcher_of_def split: relay.splits)
  then obtain vs where vs: "q_items (wt_q x) = e # vs" "q' = wt_q x\<lparr>q_items := vs\<rparr>" by (auto simp: Queue_Relay_cases)
  have b': "b' = b\<lparr>b_watchers := map (relay_one w) (b_watchers b)\<rparr>" using assms(2) by (simp add: watch_Relay_def)
  have "watcher_of b' w = map_option (relay_one w) (watcher_of b w)"
    by (simp add: b' watcher_of_def find_map_same)
  moreover have "wt_ref x = w" using x(1) by (auto simp: watcher_of_def find_Some_iff)
  ultimately have "watcher_of b' w = Some (x\<lparr>wt_q := q'\<rparr>)" using x(1) q' by (simp add: relay_one_def)
  moreover have "logs p n b' ((es @ [e]) @ q_items q')" using logs_fewer [of p n b _ b'] l by (simp add: vs b')
  ultimately show ?thesis using x vs(2) by (simp add: tracks_def)
qed

lemma watched_tracks: "watched w p n es b \<Longrightarrow> tracks w p n es b"
  by (induction rule: watched.induct) (auto intro: tracks_start tracks_call tracks_other tracks_relay)

lemma relay_drained: "watcher_of b w = Some x \<Longrightarrow> fst (watch_Relay b w) = None \<longleftrightarrow> q_items (wt_q x) = []"
  by (auto simp: watch_Relay_def watcher_of_def Queue_Relay_def split: list.splits)


definition sample_watch :: "nat bucket" where
  "sample_watch = snd (kv_Put (kv_Watch sample_bucket 4 ''>'' \<lparr>wo_UpdatesOnly = False, wo_FromRevision = 6\<rparr> 50) ''c'' 9 55)"

definition sample_read :: "nat Entry option \<times> nat bucket" where
  "sample_read = watch_Relay sample_watch 4"

definition sample_drained :: "nat Entry option \<times> nat bucket" where
  "sample_drained = watch_Relay (snd sample_read) 4"


end
