(* ===== verification/KvKeys.thy ===== *)
theory KvKeys
  imports Prelude
begin

text \<open>
  Keys of the bus's key/value buckets (\<^verbatim>\<open>pkg/events/kvkey.go\<close>): the escape every key is built from, its
  inverse, the key grammar of the broker, and the key builders of the buckets this development models.
  Strings are bytes; \<^verbatim>\<open>hex.EncodeToString\<close> and \<^verbatim>\<open>hex.DecodeString\<close> are written out for one byte.
\<close>

section \<open>The escape\<close>

definition alnum :: "char \<Rightarrow> bool" where
  "alnum c \<longleftrightarrow> (let n = (of_char c :: nat) in (97 \<le> n \<and> n \<le> 122) \<or> (65 \<le> n \<and> n \<le> 90) \<or> (48 \<le> n \<and> n \<le> 57))"

definition hex_digit :: "nat \<Rightarrow> char" where
  "hex_digit n = (if n < 10 then char_of (48 + n) else char_of (87 + n))"

definition EncodeToString :: "char \<Rightarrow> string" where
  "EncodeToString c = [hex_digit ((of_char c :: nat) div 16), hex_digit ((of_char c :: nat) mod 16)]"

definition escape_byte :: "char \<Rightarrow> string" where
  "escape_byte c = (if alnum c then [c] else if c = CHR ''-'' then ''--'' else CHR ''-'' # EncodeToString c)"

definition KVKeyToken :: "string \<Rightarrow> string" where
  "KVKeyToken s = (if s = '''' then ''-0'' else concat (map escape_byte s))"

text \<open>\<^verbatim>\<open>hex.DecodeString\<close> takes either case.\<close>

definition hex_value :: "char \<Rightarrow> nat option" where
  "hex_value c =
     (let n = (of_char c :: nat) in
      if 48 \<le> n \<and> n \<le> 57 then Some (n - 48)
      else if 97 \<le> n \<and> n \<le> 102 then Some (n - 87)
      else if 65 \<le> n \<and> n \<le> 70 then Some (n - 55) else None)"

definition DecodeByte :: "char \<Rightarrow> char \<Rightarrow> char option" where
  "DecodeByte a b = (case (hex_value a, hex_value b) of (Some x, Some y) \<Rightarrow> Some (char_of (16 * x + y)) | _ \<Rightarrow> None)"

datatype token_error = EmptyToken | NoToken string | NotCanonical string string

fun unescape :: "string \<Rightarrow> string option" where
  "unescape [] = Some []"
| "unescape (c # cs) =
     (if alnum c then map_option (Cons c) (unescape cs)
      else if c \<noteq> CHR ''-'' then None
      else case cs of
        [] \<Rightarrow> None
      | a # as \<Rightarrow>
          if a = CHR ''-'' then map_option (Cons CHR ''-'') (unescape as)
          else (case as of
                  [] \<Rightarrow> None
                | b # bs \<Rightarrow> (case DecodeByte a b of None \<Rightarrow> None | Some v \<Rightarrow> map_option (Cons v) (unescape bs))))"

definition ParseKVKeyToken :: "string \<Rightarrow> token_error + string" where
  "ParseKVKeyToken t =
     (if t = ''-0'' then Inr ''''
      else if t = '''' then Inl EmptyToken
      else case unescape t of
        None \<Rightarrow> Inl (NoToken t)
      | Some s \<Rightarrow> if KVKeyToken s \<noteq> t then Inl (NotCanonical t s) else Inr s)"

section \<open>Keys\<close>

definition RecordKey :: "string \<Rightarrow> string" where "RecordKey uid = KVKeyToken uid"

definition RecordSubKey :: "string \<Rightarrow> string \<Rightarrow> string" where
  "RecordSubKey uid sub = KVKeyToken uid @ ''.'' @ KVKeyToken sub"

fun no_double_dot :: "string \<Rightarrow> bool" where
  "no_double_dot (a # b # s) \<longleftrightarrow> \<not> (a = CHR ''.'' \<and> b = CHR ''.'') \<and> no_double_dot (b # s)"
| "no_double_dot _ \<longleftrightarrow> True"

definition ValidKVKey :: "string \<Rightarrow> bool" where
  "ValidKVKey s \<longleftrightarrow>
     (if s = '''' then False
      else if hd s = CHR ''.'' \<or> last s = CHR ''.'' then False
      else if \<not> no_double_dot s then False
      else list_all (\<lambda>c. alnum c \<or> c \<in> set ''-/_=.'') s)"

text \<open>The keys of \<^verbatim>\<open>clustarr-indexer-limits\<close> and of the subtitle providers' bucket.\<close>

definition QueryKey :: "string \<Rightarrow> string" where "QueryKey uid = KVKeyToken uid @ ''.query''"
definition GrabKey :: "string \<Rightarrow> string" where "GrabKey uid = KVKeyToken uid @ ''.grab''"
definition GrabPauseKey :: "string \<Rightarrow> string" where "GrabPauseKey uid = KVKeyToken uid @ ''.grab-pause''"

definition ReleasePauseKey :: "string \<Rightarrow> string \<Rightarrow> string" where
  "ReleasePauseKey uid guid = GrabPauseKey uid @ ''.'' @ KVKeyToken guid"

definition ProviderKey :: "string \<Rightarrow> string" where "ProviderKey uid = KVKeyToken uid"
definition TokenBucketKey :: "string \<Rightarrow> string" where "TokenBucketKey uid = KVKeyToken uid @ ''.bucket''"

section \<open>The escape reads back\<close>

lemma of_char_hex_digit: "n < 16 \<Longrightarrow> (of_char (hex_digit n) :: nat) = (if n < 10 then 48 + n else 87 + n)"
  by (simp add: hex_digit_def of_char_of)

lemma hex_value_digit: "n < 16 \<Longrightarrow> hex_value (hex_digit n) = Some n"
  by (simp add: hex_value_def Let_def of_char_hex_digit)

lemma of_char_less: "(of_char c :: nat) < 256"
  by simp

lemma byte_nibbles: "(of_char c :: nat) div 16 < 16" "(of_char c :: nat) mod 16 < 16"
  using less_mult_imp_div_less [of "of_char c :: nat" 16 16] of_char_less [of c] by simp_all

lemma escape_byte_nonempty [simp]: "escape_byte c \<noteq> []"
  by (simp add: escape_byte_def)

lemma DecodeByte_Encode: "DecodeByte (hex_digit (of_char c div 16)) (hex_digit (of_char c mod 16)) = Some c"
  by (simp add: DecodeByte_def hex_value_digit byte_nibbles)

lemma alnum_hex_digit: "n < 16 \<Longrightarrow> alnum (hex_digit n)"
  by (simp add: alnum_def Let_def of_char_hex_digit)

lemma not_alnum_dash [simp]: "\<not> alnum CHR ''-''" "\<not> alnum CHR ''.''"
  by (simp_all add: alnum_def)

lemma hex_digit_dash: "n < 16 \<Longrightarrow> hex_digit n \<noteq> CHR ''-''"
  using alnum_hex_digit [of n] by auto

lemma unescape_escape: "unescape (escape_byte c @ t) = map_option (Cons c) (unescape t)"
  by (simp add: escape_byte_def EncodeToString_def DecodeByte_Encode hex_digit_dash byte_nibbles)

lemma unescape_concat: "unescape (concat (map escape_byte s)) = Some s"
  by (induction s) (simp_all add: unescape_escape)

text \<open>The escape of a string never starts like the token of the empty one.\<close>

lemma concat_escape_nonempty: "s \<noteq> [] \<Longrightarrow> concat (map escape_byte s) \<noteq> []"
  by (cases s) simp_all

lemma concat_escape_not_zero: "s \<noteq> [] \<Longrightarrow> concat (map escape_byte s) \<noteq> ''-0''"
proof
  assume s: "s \<noteq> []" and "concat (map escape_byte s) = ''-0''"
  then have "unescape ''-0'' = Some s" using unescape_concat [of s] by simp
  moreover have "unescape ''-0'' = None" by code_simp
  ultimately show False by simp
qed

lemma Parse_token: "ParseKVKeyToken (KVKeyToken s) = Inr s"
proof (cases "s = []")
  case True
  then show ?thesis by (simp add: KVKeyToken_def ParseKVKeyToken_def)
next
  case False
  then have "KVKeyToken s = concat (map escape_byte s)" by (simp add: KVKeyToken_def)
  with False show ?thesis
    by (simp add: ParseKVKeyToken_def concat_escape_not_zero concat_escape_nonempty unescape_concat)
qed

lemma token_Parse: "ParseKVKeyToken t = Inr s \<Longrightarrow> KVKeyToken s = t"
  by (auto simp: ParseKVKeyToken_def KVKeyToken_def split: if_splits option.splits)

lemma KVKeyToken_inj: "KVKeyToken s = KVKeyToken t \<Longrightarrow> s = t"
  using Parse_token [of s] Parse_token [of t] by (metis sum.inject(2))

section \<open>Tokens are keys\<close>

lemma escape_alphabet: "c \<in> set (escape_byte x) \<Longrightarrow> alnum c \<or> c = CHR ''-''"
  by (auto simp: escape_byte_def EncodeToString_def alnum_hex_digit byte_nibbles split: if_splits)

lemma token_alphabet: "c \<in> set (KVKeyToken s) \<Longrightarrow> alnum c \<or> c = CHR ''-''"
  using escape_alphabet by (fastforce simp: KVKeyToken_def alnum_def split: if_splits)

lemma token_nonempty: "KVKeyToken s \<noteq> []"
  using concat_escape_nonempty [of s] by (auto simp: KVKeyToken_def)

lemma token_no_dot: "CHR ''.'' \<notin> set (KVKeyToken s)"
  using token_alphabet [of "CHR ''.''" s] by auto

lemma no_double_dot_notin: "CHR ''.'' \<notin> set s \<Longrightarrow> no_double_dot s"
  by (induction s rule: no_double_dot.induct) auto

lemma no_double_dot_join:
  "CHR ''.'' \<notin> set s \<Longrightarrow> no_double_dot (CHR ''.'' # t) \<Longrightarrow> no_double_dot (s @ CHR ''.'' # t)"
proof (induction s)
  case (Cons a s)
  then show ?case by (cases s) auto
qed simp

lemma valid_token: "ValidKVKey (KVKeyToken s)"
proof -
  have "hd (KVKeyToken s) \<noteq> CHR ''.''" "last (KVKeyToken s) \<noteq> CHR ''.''"
    using token_no_dot [of s] token_nonempty [of s] hd_in_set last_in_set by metis+
  moreover have "list_all (\<lambda>c. alnum c \<or> c \<in> set ''-/_=.'') (KVKeyToken s)"
    using token_alphabet by (auto simp: list_all_iff)
  ultimately show ?thesis
    by (simp add: ValidKVKey_def token_nonempty no_double_dot_notin token_no_dot)
qed

text \<open>A token, a dot and a suffix the grammar takes.\<close>

lemma valid_joined:
  assumes "u \<noteq> []" and "CHR ''.'' \<notin> set u" and "list_all (\<lambda>c. alnum c \<or> c \<in> set ''-/_=.'') u"
  shows "ValidKVKey (KVKeyToken s @ CHR ''.'' # u)"
proof -
  have hd: "hd (KVKeyToken s @ CHR ''.'' # u) \<noteq> CHR ''.''"
    using token_no_dot [of s] token_nonempty [of s] hd_in_set [OF token_nonempty, of s] by (metis hd_append)
  have last: "last (KVKeyToken s @ CHR ''.'' # u) \<noteq> CHR ''.''"
    using assms(1,2) last_in_set [OF assms(1)] by (metis last_ConsR last_appendR list.discI)
  have "no_double_dot (CHR ''.'' # u)"
    using assms(1,2) no_double_dot_notin [of u] by (cases u) auto
  then have "no_double_dot (KVKeyToken s @ CHR ''.'' # u)" by (rule no_double_dot_join [OF token_no_dot])
  moreover have "list_all (\<lambda>c. alnum c \<or> c \<in> set ''-/_=.'') (KVKeyToken s @ CHR ''.'' # u)"
    using token_alphabet assms(3) by (auto simp: list_all_iff)
  ultimately show ?thesis unfolding ValidKVKey_def using hd last by auto
qed

lemma joined_split:
  "CHR ''.'' \<notin> set a \<Longrightarrow> CHR ''.'' \<notin> set b \<Longrightarrow> a @ CHR ''.'' # u = b @ CHR ''.'' # v \<Longrightarrow> a = b \<and> u = v"
proof (induction a arbitrary: b)
  case Nil
  then show ?case by (cases b) auto
next
  case (Cons x a)
  then show ?case by (cases b) auto
qed

text \<open>C15: a key names exactly one object. Reading a token back gives the string it was made of, for every
  byte string; a token that reads back is the one its string is made into, so no two strings share a
  token and no other spelling is accepted; every token, and every pair of tokens joined by a dot, is a
  key the broker takes; and pairs share a key only when they are the same pair.\<close>

theorem key_tokens_roundtrip:
  "(ParseKVKeyToken t = Inr s \<longleftrightarrow> KVKeyToken s = t) \<and>
   ValidKVKey (KVKeyToken s) \<and> ValidKVKey (RecordSubKey s s') \<and>
   (RecordSubKey a b = RecordSubKey c d \<longleftrightarrow> a = c \<and> b = d)"
proof (intro conjI)
  show "ParseKVKeyToken t = Inr s \<longleftrightarrow> KVKeyToken s = t" using Parse_token token_Parse by metis
  have "list_all (\<lambda>c. alnum c \<or> c \<in> set ''-/_=.'') (KVKeyToken s')"
    using token_alphabet by (auto simp: list_all_iff)
  then have "ValidKVKey (KVKeyToken s @ CHR ''.'' # KVKeyToken s')"
    using token_no_dot token_nonempty by (intro valid_joined) auto
  then show "ValidKVKey (RecordSubKey s s')" by (simp add: RecordSubKey_def)
  show "ValidKVKey (KVKeyToken s)" by (rule valid_token)
  show "RecordSubKey a b = RecordSubKey c d \<longleftrightarrow> a = c \<and> b = d"
    using joined_split [OF token_no_dot token_no_dot, of a _ c] KVKeyToken_inj unfolding RecordSubKey_def
    by (metis append_Cons append_Nil)
qed

end
