(* ===== verification/KvClients.thy ===== *)
theory KvClients
  imports MemKVStore
begin

text \<open>
  Clients of a key/value bucket that read, decide and swap in a loop. A function that makes several
  calls of a bucket takes the world it runs in: what others do to the bucket before its \<open>n\<close>-th call, the
  bus's clock at that call, and whether the call fails before it reaches the bucket (a cancelled context,
  a closed bus). \<open>optimistic\<close> is the loop the sources write out, each for its own values: it is shown
  atomic once, for any decision, and the components' loops are instances of it.
\<close>

section \<open>Worlds\<close>

record 'v world =
  w_turn :: "nat \<Rightarrow> 'v bucket \<Rightarrow> 'v bucket"
  w_clock :: "nat \<Rightarrow> time"
  w_fault :: "nat \<Rightarrow> kv_error option"

definition call :: "'v world \<Rightarrow> nat \<Rightarrow> ('v bucket \<Rightarrow> time \<Rightarrow> (kv_error + 'a) \<times> 'v bucket) \<Rightarrow> 'v bucket \<Rightarrow>
    (kv_error + 'a) \<times> 'v bucket" where
  "call w i f b = (case w_fault w i of Some e \<Rightarrow> (Inl e, w_turn w i b) | None \<Rightarrow> f (w_turn w i b) (w_clock w i))"

definition alone :: "time \<Rightarrow> 'v world" where
  "alone t = \<lparr>w_turn = (\<lambda>_ b. b), w_clock = (\<lambda>_. t), w_fault = (\<lambda>_. None)\<rparr>"

datatype client_error = KVError kv_error | GaveUp "kv_error option"

text \<open>Others run between a function's calls, on the bucket's own clock.\<close>

definition orderly :: "'v world \<Rightarrow> bool" where
  "orderly w \<longleftrightarrow> (\<forall>b. bucket_ok b \<longrightarrow> timed_run kv_step 0 b (w_clock w 0) (w_turn w 0 b)) \<and>
     (\<forall>i b. bucket_ok b \<longrightarrow> timed_run kv_step (w_clock w i) b (w_clock w (Suc i)) (w_turn w (Suc i) b))"

definition reached :: "'v world \<Rightarrow> 'v bucket \<Rightarrow> nat \<Rightarrow> 'v bucket \<Rightarrow> bool" where
  "reached w b0 i b \<longleftrightarrow> bucket_ok b0 \<and> (case i of 0 \<Rightarrow> b = b0 | Suc j \<Rightarrow> timed_run kv_step 0 b0 (w_clock w j) b)"

lemma timed_run_trans: "timed_run step t1 b1 t2 b2 \<Longrightarrow> timed_run step t b t1 b1 \<Longrightarrow> timed_run step t b t2 b2"
proof (induction rule: timed_run.induct)
  case (run_none t1 t2 b1)
  from run_none(2,1) show ?case by (cases rule: timed_run.cases) (auto intro: timed_run.intros)
next
  case (run_step t1 b1 t2 b2 b3 t3)
  then show ?case by (blast intro: timed_run.run_step)
qed

lemma run_ok: "timed_run kv_step t b t' b' \<Longrightarrow> 0 \<le> t \<Longrightarrow> bucket_ok b \<Longrightarrow> bucket_ok b' \<and> 0 \<le> t'"
  using mem.run_good run_later by fastforce

lemma call_step: "kv_call t b b' \<Longrightarrow> timed_run kv_step t b t b'"
  using run_step [of kv_step t b t b b' t] run_none [of t t kv_step b] step_call [of t b b'] by simp

lemma reached_ok: "reached w b0 i b \<Longrightarrow> bucket_ok b"
  using run_ok by (auto simp: reached_def split: nat.splits)

lemma reached_turn:
  assumes "orderly w" and "reached w b0 i b"
  shows "timed_run kv_step 0 b0 (w_clock w i) (w_turn w i b)"
proof (cases i)
  case 0
  with assms show ?thesis by (simp add: reached_def orderly_def)
next
  case (Suc j)
  have "timed_run kv_step (w_clock w j) b (w_clock w i) (w_turn w i b)"
    using assms(1) reached_ok [OF assms(2)] Suc by (simp add: orderly_def)
  with assms(2) Suc show ?thesis by (auto simp: reached_def intro: timed_run_trans)
qed

lemma reached_call:
  assumes "orderly w" and "reached w b0 i b" and "kv_call (w_clock w i) (w_turn w i b) b'"
  shows "reached w b0 (Suc i) b'"
  using timed_run_trans [OF call_step [OF assms(3)] reached_turn [OF assms(1,2)]] assms(2) by (simp add: reached_def)

lemma alone_orderly: "0 \<le> t \<Longrightarrow> orderly (alone t)"
  by (simp add: orderly_def alone_def run_none)

section \<open>Reading and swapping\<close>

text \<open>A read that takes a missing key for a value, and the write for what was read.\<close>

definition get_current :: "string \<Rightarrow> 'v bucket \<Rightarrow> time \<Rightarrow> (kv_error + (nat \<times> 'v) option) \<times> 'v bucket" where
  "get_current k b t =
     (case kv_Get b k t of
        (Inl e, b') \<Rightarrow> if e = ErrKeyNotFound then (Inr None, b') else (Inl e, b')
      | (Inr ent, b') \<Rightarrow> (Inr (map_option (Pair (en_Revision ent)) (en_Value ent)), b'))"

definition put_current :: "string \<Rightarrow> 'v \<Rightarrow> nat option \<Rightarrow> 'v bucket \<Rightarrow> time \<Rightarrow> (kv_error + nat) \<times> 'v bucket" where
  "put_current k v cur b t = (case cur of None \<Rightarrow> kv_Create b k v 0 t | Some n \<Rightarrow> kv_Update b k v n t)"

lemma get_current_content: "get_current k b t = (Inr (kv_content b t k), snd (kv_Get b k t))"
proof (cases "liveLocked b k t")
  case (Pair x b')
  then have "live_value b t k = x" using liveLocked_cases(1) [OF Pair] by simp
  with Pair show ?thesis by (cases x) (simp_all add: get_current_def kv_Get_def kv_content_def put_entry_def)
qed

lemma put_current_swap:
  "put_current k v cur b t = (x, b') \<Longrightarrow> kv_swap b k v cur t = (case x of Inl _ \<Rightarrow> None | Inr m \<Rightarrow> Some m, b')"
  by (cases x) (auto simp: put_current_def kv_swap_def)

lemma put_current_call: "kv_call t b (snd (put_current k v cur b t))"
  by (simp add: put_current_def kv_call.intros split: option.split)

lemma Get_content: "t \<le> t' \<Longrightarrow> kv_content (snd (kv_Get b k t)) t' = kv_content b t'"
proof (cases "liveLocked b k t")
  case (Pair x b')
  assume "t \<le> t'"
  from liveLocked_cases(10) [OF Pair this] Pair show ?thesis
    by (cases x) (simp_all add: kv_Get_def kv_content_def fun_eq_iff)
qed

text \<open>A write for the revision the key has goes through.\<close>

lemma put_current_ok:
  assumes "map_option fst (kv_content b t k) = cur"
  shows "\<exists>m. fst (put_current k v cur b t) = Inr m"
proof -
  obtain b' where "liveLocked b k t = (live_value b t k, b')" using liveLocked_cases(1) by (metis surj_pair)
  with assms show ?thesis
    by (cases "live_value b t k") (auto simp: put_current_def kv_Create_def kv_Update_def kv_content_def split: prod.split)
qed

text \<open>A write that goes through meets the key as it was read.\<close>

lemma swap_atomic:
  assumes "bucket_ok b" and "0 \<le> t" and "timed_run kv_step t b t' b'"
    and "put_current k v (map_option fst (kv_content b t k)) b' t' = (Inr m, b'')"
  shows "kv_content b' t' k = kv_content b t k \<and> kv_content b'' t' = (kv_content b' t')(k \<mapsto> (m, v))"
proof -
  have "kv_swap b' k v (map_option fst (kv_read b k t)) t' = (Some m, b'')"
    using put_current_swap [OF assms(4)] by (simp add: kv_read_content)
  from mem.compare_and_swap [OF assms(1-3) this] show ?thesis by (simp add: kv_read_content)
qed

section \<open>The optimistic loop\<close>

text \<open>From what is read, the loop answers, or answers once a value is written; a conflict is another attempt.\<close>

fun optimistic :: "'v world \<Rightarrow> string \<Rightarrow> ((nat \<times> 'v) option \<Rightarrow> 'a + 'a \<times> 'v) \<Rightarrow> nat \<Rightarrow> nat \<Rightarrow> kv_error option \<Rightarrow> 'v bucket \<Rightarrow>
    (client_error + 'a) \<times> 'v bucket" where
  "optimistic w k decide 0 i lastErr b = (Inl (GaveUp lastErr), b)"
| "optimistic w k decide (Suc n) i lastErr b =
     (case call w i (get_current k) b of
        (Inl e, b1) \<Rightarrow> (Inl (KVError e), b1)
      | (Inr cur, b1) \<Rightarrow>
          (case decide cur of
             Inl x \<Rightarrow> (Inr x, b1)
           | Inr (x, v) \<Rightarrow>
               (case call w (i + 1) (put_current k v (map_option fst cur)) b1 of
                  (Inr _, b2) \<Rightarrow> (Inr x, b2)
                | (Inl e, b2) \<Rightarrow>
                    if e = ErrRevisionMismatch \<or> e = ErrKeyExists
                    then optimistic w k decide n (i + 2) (Some e) b2 else (Inl (KVError e), b2))))"

text \<open>An answer taking effect on a bucket at a moment.\<close>

definition took_effect :: "string \<Rightarrow> ((nat \<times> 'v) option \<Rightarrow> 'a + 'a \<times> 'v) \<Rightarrow> 'v bucket \<Rightarrow> time \<Rightarrow> 'a \<Rightarrow> 'v bucket \<Rightarrow> bool" where
  "took_effect k decide b t x b' \<longleftrightarrow>
     (case decide (kv_content b t k) of
        Inl y \<Rightarrow> x = y \<and> kv_content b' t = kv_content b t
      | Inr (y, v) \<Rightarrow> x = y \<and> (\<exists>n. kv_content b' t = (kv_content b t)(k \<mapsto> (n, v))))"

lemma optimistic_atomic:
  assumes "orderly w" and "reached w b0 i b" and "optimistic w k decide n i lastErr b = (Inr x, b')"
  shows "\<exists>t c. timed_run kv_step 0 b0 t c \<and> took_effect k decide c t x b'"
  using assms(2,3)
proof (induction n arbitrary: i lastErr b)
  case (Suc n)
  let ?c = "w_turn w i b" and ?t = "w_clock w i"
  note run = reached_turn [OF assms(1) Suc.prems(1)]
  have ok: "bucket_ok ?c" "0 \<le> ?t" using run_ok [OF run] Suc.prems(1) by (simp_all add: reached_def)
  have f: "w_fault w i = None" using Suc.prems(2) by (cases "w_fault w i") (auto simp: call_def)
  define b1 where "b1 = snd (kv_Get ?c k ?t)"
  have rd: "call w i (get_current k) b = (Inr (kv_content ?c ?t k), b1)" by (simp add: call_def f get_current_content b1_def)
  have r1: "reached w b0 (Suc i) b1" unfolding b1_def by (rule reached_call [OF assms(1) Suc.prems(1) call_Get])
  show ?case
  proof (cases "decide (kv_content ?c ?t k)")
    case (Inl y)
    with Suc.prems(2) rd have "x = y" "b' = b1" by simp_all
    with Inl have "took_effect k decide ?c ?t x b'" by (simp add: took_effect_def b1_def Get_content)
    with run show ?thesis by blast
  next
    case (Inr p)
    obtain y v where yv: "p = (y, v)" by (cases p)
    let ?d = "w_turn w (Suc i) b1" and ?t' = "w_clock w (Suc i)" and ?cur = "map_option fst (kv_content ?c ?t k)"
    note run' = reached_turn [OF assms(1) r1]
    obtain z b2 where z: "call w (i + 1) (put_current k v ?cur) b1 = (z, b2)" by (meson surj_pair)
    show ?thesis
    proof (cases z)
      case (Inr m)
      with z have w: "put_current k v ?cur ?d ?t' = (Inr m, b2)" by (auto simp: call_def split: option.splits)
      have "timed_run kv_step ?t ?c ?t' ?d"
        using timed_run_trans [of kv_step ?t b1 ?t' ?d ?t ?c] call_step [OF call_Get [of ?t ?c k]] assms(1) reached_ok [OF r1]
        by (simp add: orderly_def b1_def)
      from swap_atomic [OF ok this w] Suc.prems(2) rd z Inr yv \<open>decide _ = Inr p\<close>
      have "took_effect k decide ?d ?t' x b'" by (auto simp: took_effect_def)
      with run' show ?thesis by blast
    next
      case (Inl e)
      have "reached w b0 (Suc (Suc i)) b2"
      proof (cases "w_fault w (Suc i)")
        case None
        with z have "b2 = snd (put_current k v ?cur ?d ?t')" by (auto simp: call_def)
        then show ?thesis using reached_call [OF assms(1) r1 put_current_call] by simp
      next
        case (Some _)
        with z run' Suc.prems(1) show ?thesis by (simp add: call_def reached_def)
      qed
      with Suc.IH [of "i + 2" b2] Suc.prems(2) rd z Inl yv \<open>decide _ = Inr p\<close> show ?thesis by (auto split: if_splits)
    qed
  qed
qed simp

section \<open>Undisturbed\<close>

text \<open>A write lasts as long as the bucket keeps it.\<close>

definition lasting :: "'v bucket \<Rightarrow> time \<Rightarrow> time \<Rightarrow> bool" where
  "lasting b t t' \<longleftrightarrow> b_TTL b \<le> 0 \<or> t' < t + b_TTL b"

lemma writeLocked_later:
  assumes "writeLocked b k v t 0 = (n, b')" and "0 \<le> t" and "t \<le> t'"
  shows "kv_content b' t' k = (if lasting b t t' then Some (n, v) else None)"
proof -
  note w = writeLocked_fields [OF assms(1)]
  have "map_of (b_vals b') k = Some \<lparr>v_value = v, v_rev = n, v_created = t, v_expires = 0\<rparr>" by (simp add: w(4) update_conv')
  with assms(2,3) show ?thesis
    by (auto simp: kv_content_def live_value_def keep_alive_def alive_def expiry_def lasting_def w(3))
qed

definition stays :: "string \<Rightarrow> 'v option \<Rightarrow> 'v bucket \<Rightarrow> time \<Rightarrow> 'v bucket \<Rightarrow> bool" where
  "stays k v b t b' \<longleftrightarrow> b_TTL b' = b_TTL b \<and> (bucket_ok b \<longrightarrow> bucket_ok b') \<and>
     (\<forall>t' \<ge> t. case v of
        None \<Rightarrow> kv_content b' t' = kv_content b t'
      | Some x \<Rightarrow> map_option snd (kv_content b' t' k) = (if lasting b t t' then Some x else None))"

lemma optimistic_alone:
  assumes "0 \<le> t"
  obtains b' where "optimistic (alone t) k decide (Suc n) i lastErr b =
      (Inr (case decide (kv_content b t k) of Inl x \<Rightarrow> x | Inr (x, v) \<Rightarrow> x), b')"
    "stays k (case decide (kv_content b t k) of Inl x \<Rightarrow> None | Inr (x, v) \<Rightarrow> Some v) b t b'"
proof -
  obtain b1 where l: "liveLocked b k t = (live_value b t k, b1)" using liveLocked_cases(1) by (metis surj_pair)
  have b1: "snd (kv_Get b k t) = b1" using l by (simp add: kv_Get_def split: option.split)
  note c1 = liveLocked_cases [OF l]
  have l1: "liveLocked b1 k t = (live_value b t k, b1)"
    using c1(7,8) l by (cases "live_value b t k") (simp_all add: liveLocked_def)
  have rd: "call (alone t) j (get_current k) b = (Inr (kv_content b t k), b1)" for j
    by (simp add: call_def alone_def get_current_content b1)
  show ?thesis
  proof (cases "decide (kv_content b t k)")
    case (Inl x)
    have "stays k None b t b1" using c1(3,6) Get_content [of t _ b k] b1 by (simp add: stays_def)
    with Inl rd show ?thesis by (intro that [of b1]) simp_all
  next
    case (Inr p)
    obtain x v where p: "p = (x, v)" by (cases p)
    obtain m b2 where w: "writeLocked b1 k v t 0 = (m, b2)" by (meson surj_pair)
    have "call (alone t) j (put_current k v (map_option fst (kv_content b t k))) b1 = (Inr m, b2)" for j
      using l1 w by (cases "live_value b t k")
        (simp_all add: call_def alone_def put_current_def kv_Update_def kv_Create_def kv_content_def)
    moreover have "lasting b1 = lasting b" using c1(3) by (simp add: lasting_def fun_eq_iff)
    then have "stays k (Some v) b t b2"
      using writeLocked_fields(3,5) [OF w] writeLocked_later [OF w assms(1)] c1(3,6) by (simp add: stays_def)
    ultimately show ?thesis using Inr rd p by (intro that [of b2]) simp_all
  qed
qed

end
