(* ===== verification/IndexerLimits.thy ===== *)
theory IndexerLimits
  imports KvKeys KvClients
begin

text \<open>
  An indexer's limits (\<^verbatim>\<open>app/indexer/limits\<close>): the rings of queries and grabs made against it in its
  window, reserved by compare-and-swap in \<^verbatim>\<open>clustarr-indexer-limits\<close>, and the pauses its refusals set.

  The bucket is the in-memory bus's, called in a world where others run between the calls. The values of
  the bucket are what the JSON in it decodes to; \<open>json.Marshal\<close> of these types does not fail.
\<close>

section \<open>Data\<close>

definition LimitUnitHour :: string where "LimitUnitHour = ''hour''"

record Limits =
  lm_QueryLimit :: "int option"
  lm_GrabLimit :: "int option"
  lm_Unit :: string

record Indexer =
  ix_UID :: string
  ix_Limits :: "Limits option"

definition maxQueryEntries :: nat where "maxQueryEntries = 4096"
definition maxGrabEntries :: nat where "maxGrabEntries = 512"
definition casAttempts :: nat where "casAttempts = 3"

record Reservation =
  rs_Allowed :: bool
  rs_Counted :: bool
  rs_Count :: int
  rs_RetryAt :: time

record Usage =
  us_Count :: int
  us_RetryAt :: time

record ring_entry =
  re_GUID :: string
  re_At :: int

record grabPause =
  gp_Until :: int
  gp_Strikes :: int

datatype limit_value = Stamps "int list" | Entries "ring_entry list" | Paused grabPause | EmptyValue | Undecodable

type_synonym limit_bucket = "limit_value bucket"
type_synonym limit_world = "limit_value world"

record ring =
  rg_key :: "string \<Rightarrow> string"
  rg_max :: nat
  rg_decode :: "limit_value \<Rightarrow> ring_entry list option"
  rg_encode :: "ring_entry list \<Rightarrow> limit_value"

section \<open>The indexer's limits\<close>

definition Window :: "Indexer \<Rightarrow> duration" where
  "Window idx = (case ix_Limits idx of Some l \<Rightarrow> if lm_Unit l = LimitUnitHour then hour else 24 * hour | None \<Rightarrow> 24 * hour)"

definition positive :: "int option \<Rightarrow> int option" where
  "positive l = (case l of None \<Rightarrow> None | Some n \<Rightarrow> if n \<le> 0 then None else l)"

definition QueryLimit :: "Indexer \<Rightarrow> int option" where
  "QueryLimit idx = (case ix_Limits idx of None \<Rightarrow> None | Some l \<Rightarrow> positive (lm_QueryLimit l))"

definition GrabLimit :: "Indexer \<Rightarrow> int option" where
  "GrabLimit idx = (case ix_Limits idx of None \<Rightarrow> None | Some l \<Rightarrow> positive (lm_GrabLimit l))"

definition Crossed :: "Reservation \<Rightarrow> int option \<Rightarrow> bool" where
  "Crossed r limit \<longleftrightarrow> rs_Counted r \<and> positive limit = Some (rs_Count r)"

section \<open>Rings\<close>

definition queryRing :: ring where
  "queryRing = \<lparr>rg_key = QueryKey, rg_max = maxQueryEntries,
     rg_decode = (\<lambda>v. case v of Stamps ats \<Rightarrow> Some (map (\<lambda>at. \<lparr>re_GUID = '''', re_At = at\<rparr>) ats) | _ \<Rightarrow> None),
     rg_encode = (\<lambda>es. Stamps (map re_At es))\<rparr>"

definition grabRing :: ring where
  "grabRing = \<lparr>rg_key = GrabKey, rg_max = maxGrabEntries,
     rg_decode = (\<lambda>v. case v of Entries es \<Rightarrow> Some es | _ \<Rightarrow> None), rg_encode = Entries\<rparr>"

definition prune :: "ring_entry list \<Rightarrow> time \<Rightarrow> nat \<Rightarrow> ring_entry list" where
  "prune es cutoff maxEntries =
     (let out = filter (\<lambda>e. re_At e \<ge> unix cutoff) es
      in if length out > maxEntries then drop (length out - maxEntries) out else out)"

definition retryAt :: "ring_entry list \<Rightarrow> int option \<Rightarrow> duration \<Rightarrow> time" where
  "retryAt es limit window =
     (case positive limit of
        None \<Rightarrow> 0
      | Some l \<Rightarrow>
          if int (length es) < l then 0
          else unix_time (sort (map re_At es) ! (length es - nat l)) + (window + second))"

section \<open>Reservations\<close>

definition ring_decode :: "ring \<Rightarrow> limit_value option \<Rightarrow> ring_entry list" where
  "ring_decode r v = (case Option.bind v (rg_decode r) of None \<Rightarrow> [] | Some es \<Rightarrow> es)"

text \<open>\<^verbatim>\<open>ring.read\<close>: the live entries at the cutoff, the revision and whether the key exists.\<close>

definition ring_read :: "ring \<Rightarrow> Indexer \<Rightarrow> time \<Rightarrow> limit_bucket \<Rightarrow> time \<Rightarrow>
    (kv_error + ring_entry list \<times> nat \<times> bool) \<times> limit_bucket" where
  "ring_read r idx cutoff b t =
     (case kv_Get b (rg_key r (ix_UID idx)) t of
        (Inl e, b') \<Rightarrow> if e = ErrKeyNotFound then (Inr ([], 0, False), b') else (Inl e, b')
      | (Inr ent, b') \<Rightarrow> (Inr (prune (ring_decode r (en_Value ent)) cutoff (rg_max r), en_Revision ent, True), b'))"

definition held :: "ring_entry list \<Rightarrow> int option \<Rightarrow> duration \<Rightarrow> Reservation" where
  "held es limit window =
     \<lparr>rs_Allowed = True, rs_Counted = False, rs_Count = int (length es), rs_RetryAt = retryAt es limit window\<rparr>"

text \<open>What one attempt decides from the entries it read: a reservation without a write, or the entries to write.\<close>

definition reserve_decide :: "Indexer \<Rightarrow> ring \<Rightarrow> int option \<Rightarrow> string \<Rightarrow> time \<Rightarrow> time \<Rightarrow> bool \<Rightarrow> ring_entry list \<Rightarrow>
    Reservation + ring_entry list" where
  "reserve_decide idx r limit guid at now enforce es =
     (let window = Window idx; cutoff = now - window in
      if guid \<noteq> '''' \<and> list_ex (\<lambda>e. re_GUID e = guid) es then Inl (held es limit window)
      else if at < cutoff then Inl (held es limit window)
      else if enforce \<and> (case limit of None \<Rightarrow> False | Some l \<Rightarrow> int (length es) \<ge> l)
        then Inl (held es limit window\<lparr>rs_Allowed := False\<rparr>)
      else Inr (prune (es @ [\<lparr>re_GUID = guid, re_At = unix at\<rparr>]) cutoff (rg_max r)))"

definition counted :: "ring_entry list \<Rightarrow> int option \<Rightarrow> duration \<Rightarrow> Reservation" where
  "counted es limit window =
     \<lparr>rs_Allowed = True, rs_Counted = True, rs_Count = int (length es), rs_RetryAt = retryAt es limit window\<rparr>"

definition ring_write :: "ring \<Rightarrow> Indexer \<Rightarrow> ring_entry list \<Rightarrow> nat \<Rightarrow> bool \<Rightarrow> limit_bucket \<Rightarrow> time \<Rightarrow> (kv_error + nat) \<times> limit_bucket" where
  "ring_write r idx es revision have b t =
     (if have then kv_Update b (rg_key r (ix_UID idx)) (rg_encode r es) revision t
      else kv_Create b (rg_key r (ix_UID idx)) (rg_encode r es) 0 t)"

fun reserve_loop :: "limit_world \<Rightarrow> Indexer \<Rightarrow> ring \<Rightarrow> int option \<Rightarrow> string \<Rightarrow> time \<Rightarrow> time \<Rightarrow> bool \<Rightarrow> nat \<Rightarrow> nat \<Rightarrow> kv_error option \<Rightarrow>
    limit_bucket \<Rightarrow> (client_error + Reservation) \<times> limit_bucket" where
  "reserve_loop w idx r limit guid at now enforce 0 i lastErr b = (Inl (GaveUp lastErr), b)"
| "reserve_loop w idx r limit guid at now enforce (Suc n) i lastErr b =
     (case call w i (ring_read r idx (now - Window idx)) b of
        (Inl e, b1) \<Rightarrow> (Inl (KVError e), b1)
      | (Inr (es, revision, have), b1) \<Rightarrow>
          (case reserve_decide idx r limit guid at now enforce es of
             Inl res \<Rightarrow> (Inr res, b1)
           | Inr es' \<Rightarrow>
               (case call w (i + 1) (ring_write r idx es' revision have) b1 of
                  (Inr _, b2) \<Rightarrow> (Inr (counted es' limit (Window idx)), b2)
                | (Inl e, b2) \<Rightarrow>
                    if e = ErrRevisionMismatch \<or> e = ErrKeyExists
                    then reserve_loop w idx r limit guid at now enforce n (i + 2) (Some e) b2
                    else (Inl (KVError e), b2))))"

definition reserve :: "limit_world \<Rightarrow> Indexer \<Rightarrow> ring \<Rightarrow> int option \<Rightarrow> string \<Rightarrow> time \<Rightarrow> time \<Rightarrow> bool \<Rightarrow> limit_bucket \<Rightarrow>
    (client_error + Reservation) \<times> limit_bucket" where
  "reserve w idx r limit guid at now enforce b = reserve_loop w idx r limit guid at now enforce casAttempts 0 None b"

definition ReserveQuery :: "limit_world \<Rightarrow> Indexer \<Rightarrow> time \<Rightarrow> limit_bucket \<Rightarrow> (client_error + Reservation) \<times> limit_bucket" where
  "ReserveQuery w idx now b = reserve w idx queryRing (QueryLimit idx) '''' now now True b"

definition ReserveGrab :: "limit_world \<Rightarrow> Indexer \<Rightarrow> string \<Rightarrow> time \<Rightarrow> limit_bucket \<Rightarrow> (client_error + Reservation) \<times> limit_bucket" where
  "ReserveGrab w idx guid now b = reserve w idx grabRing (GrabLimit idx) guid now now True b"

definition CountGrabAt :: "limit_world \<Rightarrow> Indexer \<Rightarrow> string \<Rightarrow> time \<Rightarrow> time \<Rightarrow> limit_bucket \<Rightarrow> (client_error + Reservation) \<times> limit_bucket" where
  "CountGrabAt w idx guid at now b = reserve w idx grabRing (GrabLimit idx) guid (if now < at then now else at) now False b"

fun release_loop :: "limit_world \<Rightarrow> Indexer \<Rightarrow> string \<Rightarrow> time \<Rightarrow> nat \<Rightarrow> nat \<Rightarrow> kv_error option \<Rightarrow> limit_bucket \<Rightarrow>
    (client_error + unit) \<times> limit_bucket" where
  "release_loop w idx guid now 0 i lastErr b = (Inl (GaveUp lastErr), b)"
| "release_loop w idx guid now (Suc n) i lastErr b =
     (case call w i (ring_read grabRing idx (now - Window idx)) b of
        (Inl e, b1) \<Rightarrow> (Inl (KVError e), b1)
      | (Inr (es, revision, have), b1) \<Rightarrow>
          (let kept = filter (\<lambda>e. re_GUID e \<noteq> guid) es in
           if \<not> have \<or> length kept = length es then (Inr (), b1)
           else
             (case call w (i + 1) (\<lambda>c t. kv_Update c (rg_key grabRing (ix_UID idx)) (rg_encode grabRing kept) revision t) b1 of
                (Inr _, b2) \<Rightarrow> (Inr (), b2)
              | (Inl e, b2) \<Rightarrow>
                  if e = ErrRevisionMismatch then release_loop w idx guid now n (i + 2) (Some e) b2
                  else (Inl (KVError e), b2))))"

definition ReleaseGrab :: "limit_world \<Rightarrow> Indexer \<Rightarrow> string \<Rightarrow> time \<Rightarrow> limit_bucket \<Rightarrow> (client_error + unit) \<times> limit_bucket" where
  "ReleaseGrab w idx guid now b = release_loop w idx guid now casAttempts 0 None b"

definition usage :: "limit_world \<Rightarrow> Indexer \<Rightarrow> ring \<Rightarrow> int option \<Rightarrow> time \<Rightarrow> limit_bucket \<Rightarrow> (client_error + Usage) \<times> limit_bucket" where
  "usage w idx r limit now b =
     (case call w 0 (ring_read r idx (now - Window idx)) b of
        (Inl e, b1) \<Rightarrow> (Inl (KVError e), b1)
      | (Inr (es, _, _), b1) \<Rightarrow> (Inr \<lparr>us_Count = int (length es), us_RetryAt = retryAt es limit (Window idx)\<rparr>, b1))"

definition Queries :: "limit_world \<Rightarrow> Indexer \<Rightarrow> time \<Rightarrow> limit_bucket \<Rightarrow> (client_error + Usage) \<times> limit_bucket" where
  "Queries w idx now b = usage w idx queryRing (QueryLimit idx) now b"

definition Grabs :: "limit_world \<Rightarrow> Indexer \<Rightarrow> time \<Rightarrow> limit_bucket \<Rightarrow> (client_error + Usage) \<times> limit_bucket" where
  "Grabs w idx now b = usage w idx grabRing (GrabLimit idx) now b"

section \<open>Pauses\<close>

definition DefaultGrabPause :: duration where "DefaultGrabPause = 15 * minute"
definition MaxGrabPause :: duration where "MaxGrabPause = 6 * hour"

datatype pause_error = PauseKV kv_error | PauseDecode

definition readPauseKey :: "string \<Rightarrow> limit_bucket \<Rightarrow> time \<Rightarrow> (kv_error + limit_value option) \<times> limit_bucket" where
  "readPauseKey key b t =
     (case kv_Get b key t of
        (Inl e, b') \<Rightarrow> if e = ErrKeyNotFound then (Inr None, b') else (Inl e, b')
      | (Inr ent, b') \<Rightarrow> (Inr (en_Value ent), b'))"

text \<open>What \<^verbatim>\<open>readPauseKey\<close> makes of the value: no entry, an entry, or one that does not decode.\<close>

definition decodePause :: "limit_value option \<Rightarrow> pause_error + grabPause option" where
  "decodePause v =
     (case v of None \<Rightarrow> Inr None | Some EmptyValue \<Rightarrow> Inr None | Some (Paused p) \<Rightarrow> Inr (Some p) | Some _ \<Rightarrow> Inl PauseDecode)"

definition readPause :: "limit_world \<Rightarrow> string \<Rightarrow> limit_bucket \<Rightarrow> (pause_error + grabPause option) \<times> limit_bucket" where
  "readPause w key b =
     (case call w 0 (readPauseKey key) b of (Inl e, b1) \<Rightarrow> (Inl (PauseKV e), b1) | (Inr v, b1) \<Rightarrow> (decodePause v, b1))"

definition noPause :: grabPause where "noPause = \<lparr>gp_Until = 0, gp_Strikes = 0\<rparr>"

text \<open>The default pause, doubled on every repeat below the maximum.\<close>

function doublePause :: "int \<Rightarrow> int \<Rightarrow> duration \<Rightarrow> duration" where
  "doublePause i strikes pause = (if i < strikes \<and> pause < MaxGrabPause then doublePause (i + 1) strikes (pause * 2) else pause)"
  by pat_completeness auto
termination by (relation "measure (\<lambda>(i, s, _). nat (s - i))") auto

declare doublePause.simps [simp del]

definition pauseFor :: "int \<Rightarrow> duration \<Rightarrow> duration" where
  "pauseFor strikes retryAfter =
     (if retryAfter \<le> 0 then min (doublePause 1 strikes DefaultGrabPause) MaxGrabPause else retryAfter)"

definition putPause :: "limit_world \<Rightarrow> string \<Rightarrow> grabPause \<Rightarrow> limit_bucket \<Rightarrow> (kv_error + nat) \<times> limit_bucket" where
  "putPause w key p b = call w 1 (\<lambda>c t. kv_Put c key (Paused p) t) b"

definition PauseGrabs :: "limit_world \<Rightarrow> Indexer \<Rightarrow> duration \<Rightarrow> time \<Rightarrow> limit_bucket \<Rightarrow> (pause_error + time) \<times> limit_bucket" where
  "PauseGrabs w idx retryAfter now b =
     (case readPause w (GrabPauseKey (ix_UID idx)) b of
        (Inl e, b1) \<Rightarrow> (Inl e, b1)
      | (Inr p, b1) \<Rightarrow>
          (let cur = (case p of None \<Rightarrow> noPause | Some x \<Rightarrow> x);
               strikes = wrap32 (gp_Strikes cur + 1);
               until = now + pauseFor strikes retryAfter;
               standing = unix_time (gp_Until cur);
               until' = (if until < standing then standing else until)
           in case putPause w (GrabPauseKey (ix_UID idx)) \<lparr>gp_Until = unix until', gp_Strikes = strikes\<rparr> b1 of
                (Inl e, b2) \<Rightarrow> (Inl (PauseKV e), b2)
              | (Inr _, b2) \<Rightarrow> (Inr until', b2)))"

definition pausedAt :: "limit_world \<Rightarrow> string \<Rightarrow> time \<Rightarrow> limit_bucket \<Rightarrow> (pause_error + time option) \<times> limit_bucket" where
  "pausedAt w key now b =
     (case readPause w key b of
        (Inl e, b1) \<Rightarrow> (Inl e, b1)
      | (Inr None, b1) \<Rightarrow> (Inr None, b1)
      | (Inr (Some p), b1) \<Rightarrow>
          (let until = unix_time (gp_Until p) in (Inr (if \<not> now < until then None else Some until), b1)))"

definition GrabPaused :: "limit_world \<Rightarrow> Indexer \<Rightarrow> time \<Rightarrow> limit_bucket \<Rightarrow> (pause_error + time option) \<times> limit_bucket" where
  "GrabPaused w idx now b = pausedAt w (GrabPauseKey (ix_UID idx)) now b"

definition ReleasePaused :: "limit_world \<Rightarrow> Indexer \<Rightarrow> string \<Rightarrow> time \<Rightarrow> limit_bucket \<Rightarrow> (pause_error + time option) \<times> limit_bucket" where
  "ReleasePaused w idx guid now b = pausedAt w (ReleasePauseKey (ix_UID idx) guid) now b"

definition PauseRelease :: "limit_world \<Rightarrow> Indexer \<Rightarrow> string \<Rightarrow> duration \<Rightarrow> time \<Rightarrow> limit_bucket \<Rightarrow> (pause_error + time \<times> int) \<times> limit_bucket" where
  "PauseRelease w idx guid retryAfter now b =
     (let retryAfter' = (if retryAfter \<le> 0 then DefaultGrabPause else retryAfter); key = ReleasePauseKey (ix_UID idx) guid in
      case readPause w key b of
        (Inl e, b1) \<Rightarrow> (Inl e, b1)
      | (Inr p, b1) \<Rightarrow>
          (let until = now + retryAfter'; strikes = wrap32 (gp_Strikes (case p of None \<Rightarrow> noPause | Some x \<Rightarrow> x) + 1)
           in case putPause w key \<lparr>gp_Until = unix until, gp_Strikes = strikes\<rparr> b1 of
                (Inl e, b2) \<Rightarrow> (Inl (PauseKV e), b2)
              | (Inr _, b2) \<Rightarrow> (Inr (until, strikes), b2)))"

definition ReleaseCooldown :: "limit_world \<Rightarrow> Indexer \<Rightarrow> string \<Rightarrow> time \<Rightarrow> limit_bucket \<Rightarrow> (pause_error + (time \<times> int) option) \<times> limit_bucket" where
  "ReleaseCooldown w idx guid now b =
     (case readPause w (ReleasePauseKey (ix_UID idx) guid) b of
        (Inl e, b1) \<Rightarrow> (Inl e, b1)
      | (Inr None, b1) \<Rightarrow> (Inr None, b1)
      | (Inr (Some p), b1) \<Rightarrow>
          (let until = unix_time (gp_Until p) in (Inr (if \<not> now < until then None else Some (until, gp_Strikes p)), b1)))"

definition clearPause :: "limit_world \<Rightarrow> string \<Rightarrow> limit_bucket \<Rightarrow> (pause_error + unit) \<times> limit_bucket" where
  "clearPause w key b =
     (case call w 0 (\<lambda>c t. kv_Delete c key t) b of
        (Inl e, b1) \<Rightarrow> if e = ErrKeyNotFound then (Inr (), b1) else (Inl (PauseKV e), b1)
      | (Inr (), b1) \<Rightarrow> (Inr (), b1))"

definition ClearGrabPause :: "limit_world \<Rightarrow> Indexer \<Rightarrow> limit_bucket \<Rightarrow> (pause_error + unit) \<times> limit_bucket" where
  "ClearGrabPause w idx b = clearPause w (GrabPauseKey (ix_UID idx)) b"

definition ClearReleasePause :: "limit_world \<Rightarrow> Indexer \<Rightarrow> string \<Rightarrow> limit_bucket \<Rightarrow> (pause_error + unit) \<times> limit_bucket" where
  "ClearReleasePause w idx guid b = clearPause w (ReleasePauseKey (ix_UID idx) guid) b"

end
