(* ===== verification/LimitsRings.thy ===== *)
theory LimitsRings
  imports IndexerLimits
begin

text \<open>
  The rings of an indexer's limits. A reservation is atomic: whatever others do to the bucket while its
  loop runs, its outcome is the one an undisturbed reservation has at one moment. Undisturbed
  reservations keep every window within the limit, and the instant a refusal names is exactly when the
  window has room.
\<close>

section \<open>A reservation at one moment\<close>

definition ring_now :: "ring \<Rightarrow> Indexer \<Rightarrow> time \<Rightarrow> limit_bucket \<Rightarrow> time \<Rightarrow> ring_entry list" where
  "ring_now r idx now b t =
     prune (ring_decode r (map_option snd (kv_content b t (rg_key r (ix_UID idx))))) (now - Window idx) (rg_max r)"

text \<open>What the code decides from the ring as it is at the moment, and what it then writes.\<close>

definition reserve_at :: "Indexer \<Rightarrow> ring \<Rightarrow> int option \<Rightarrow> string \<Rightarrow> time \<Rightarrow> time \<Rightarrow> bool \<Rightarrow> limit_bucket \<Rightarrow> time \<Rightarrow>
    Reservation \<times> ring_entry list option" where
  "reserve_at idx r limit guid at now enforce b t =
     (case reserve_decide idx r limit guid at now enforce (ring_now r idx now b t) of
        Inl res \<Rightarrow> (res, None)
      | Inr es \<Rightarrow> (counted es limit (Window idx), Some es))"

section \<open>The loop is an optimistic one\<close>

definition reserve_choice :: "Indexer \<Rightarrow> ring \<Rightarrow> int option \<Rightarrow> string \<Rightarrow> time \<Rightarrow> time \<Rightarrow> bool \<Rightarrow> (nat \<times> limit_value) option \<Rightarrow>
    Reservation + Reservation \<times> limit_value" where
  "reserve_choice idx r limit guid at now enforce cur =
     (case reserve_decide idx r limit guid at now enforce
        (prune (ring_decode r (map_option snd cur)) (now - Window idx) (rg_max r)) of
        Inl res \<Rightarrow> Inl res
      | Inr es \<Rightarrow> Inr (counted es limit (Window idx), rg_encode r es))"

lemma ring_read_current:
  "ring_read r idx cutoff b t =
     (case get_current (rg_key r (ix_UID idx)) b t of
        (Inl e, b') \<Rightarrow> (Inl e, b')
      | (Inr cur, b') \<Rightarrow> (Inr (prune (ring_decode r (map_option snd cur)) cutoff (rg_max r),
          (case cur of None \<Rightarrow> 0 | Some x \<Rightarrow> fst x), cur \<noteq> None), b'))"
proof (cases "liveLocked b (rg_key r (ix_UID idx)) t")
  case (Pair x b')
  then show ?thesis
    by (cases x) (simp_all add: ring_read_def get_current_def kv_Get_def put_entry_def ring_decode_def prune_def)
qed

lemma ring_write_current:
  "ring_write r idx es n False = put_current (rg_key r (ix_UID idx)) (rg_encode r es) None"
  "ring_write r idx es n True = put_current (rg_key r (ix_UID idx)) (rg_encode r es) (Some n)"
  by (simp_all add: ring_write_def put_current_def fun_eq_iff)

lemma call_cong: "(\<And>b t. f b t = (case g b t of (Inl e, b') \<Rightarrow> (Inl e, b') | (Inr x, b') \<Rightarrow> (Inr (h x), b'))) \<Longrightarrow>
  call w i f b = (case call w i g b of (Inl e, b') \<Rightarrow> (Inl e, b') | (Inr x, b') \<Rightarrow> (Inr (h x), b'))"
  by (simp add: call_def split: option.split)

lemma reserve_loop_optimistic:
  "reserve_loop w idx r limit guid at now enforce n i lastErr b =
   optimistic w (rg_key r (ix_UID idx)) (reserve_choice idx r limit guid at now enforce) n i lastErr b"
proof (induction n arbitrary: i lastErr b)
  case (Suc n)
  have rd: "call w i (ring_read r idx (now - Window idx)) b =
    (case call w i (get_current (rg_key r (ix_UID idx))) b of
       (Inl e, b') \<Rightarrow> (Inl e, b')
     | (Inr cur, b') \<Rightarrow> (Inr (prune (ring_decode r (map_option snd cur)) (now - Window idx) (rg_max r),
         (case cur of None \<Rightarrow> 0 | Some x \<Rightarrow> fst x), cur \<noteq> None), b'))"
    by (rule call_cong) (rule ring_read_current)
  show ?case
  proof (cases "call w i (get_current (rg_key r (ix_UID idx))) b")
    case (Pair x b1)
    show ?thesis
    proof (cases x)
      case (Inr cur)
      let ?es = "prune (ring_decode r (map_option snd cur)) (now - Window idx) (rg_max r)"
      show ?thesis
      proof (cases "reserve_decide idx r limit guid at now enforce ?es")
        case (Inr es)
        with Pair rd \<open>x = _\<close> show ?thesis
          by (cases cur) (simp_all add: Suc reserve_choice_def [of _ _ _ _ _ _ _ cur] reserve_choice_def [of _ _ _ _ _ _ _ None]
            reserve_choice_def [of _ _ _ _ _ _ _ "Some _"] ring_write_current split: prod.split sum.split)
      qed (use Pair rd Inr in \<open>simp add: reserve_choice_def\<close>)
    qed (use Pair rd in simp)
  qed
qed simp

lemma reserve_choice_at:
  "reserve_choice idx r limit guid at now enforce (kv_content b t (rg_key r (ix_UID idx))) =
     (case reserve_at idx r limit guid at now enforce b t of
        (res, None) \<Rightarrow> Inl res
      | (res, Some es) \<Rightarrow> Inr (res, rg_encode r es))"
  by (simp add: reserve_choice_def reserve_at_def ring_now_def split: sum.split)

section \<open>A window never holds more than the limit\<close>

text \<open>Undisturbed, a reservation is the one at its moment.\<close>

lemma reserve_alone:
  assumes "0 \<le> t"
  obtains b' where "reserve (alone t) idx r limit guid at now enforce b = (Inr (fst (reserve_at idx r limit guid at now enforce b t)), b')"
    "stays (rg_key r (ix_UID idx)) (map_option (rg_encode r) (snd (reserve_at idx r limit guid at now enforce b t))) b t b'"
proof (rule optimistic_alone [OF assms, of "rg_key r (ix_UID idx)" "reserve_choice idx r limit guid at now enforce" 2 0 None b])
  fix b'
  assume "optimistic (alone t) (rg_key r (ix_UID idx)) (reserve_choice idx r limit guid at now enforce) (Suc 2) 0 None b =
      (Inr (case reserve_choice idx r limit guid at now enforce (kv_content b t (rg_key r (ix_UID idx))) of Inl x \<Rightarrow> x | Inr (x, v) \<Rightarrow> x), b')"
    and "stays (rg_key r (ix_UID idx)) (case reserve_choice idx r limit guid at now enforce (kv_content b t (rg_key r (ix_UID idx))) of
      Inl x \<Rightarrow> None | Inr (x, v) \<Rightarrow> Some v) b t b'"
  then show thesis
    by (intro that [of b'])
       (auto simp: reserve_def casAttempts_def reserve_loop_optimistic reserve_choice_at numeral_3_eq_3 simp del: optimistic.simps
         split: prod.splits option.splits)
qed

text \<open>The queries an indexer is sent when reservations follow one another at the times given.\<close>

fun serve_queries :: "Indexer \<Rightarrow> time list \<Rightarrow> limit_bucket \<Rightarrow> time list" where
  "serve_queries idx [] b = []"
| "serve_queries idx (t # ts) b =
     (case ReserveQuery (alone t) idx t b of
        (Inl _, b') \<Rightarrow> serve_queries idx ts b'
      | (Inr res, b') \<Rightarrow> if rs_Allowed res then t # serve_queries idx ts b' else serve_queries idx ts b')"

text \<open>The ring covers the queries sent: no cutoff a later reservation can have sees fewer of them.\<close>

definition ring_covers :: "Indexer \<Rightarrow> nat \<Rightarrow> limit_bucket \<Rightarrow> time \<Rightarrow> time list \<Rightarrow> bool" where
  "ring_covers idx l b s gs \<longleftrightarrow> gs = [] \<or>
     (\<exists>ats. length ats \<le> l \<and>
        (\<forall>u \<ge> unix (last gs - Window idx). length (filter (\<lambda>g. u \<le> unix g) gs) \<le> length (filter (\<lambda>a. u \<le> a) ats)) \<and>
        (\<forall>t \<ge> s. map_option snd (kv_content b t (QueryKey (ix_UID idx))) = Some (Stamps ats) \<or>
           kv_content b t (QueryKey (ix_UID idx)) = None \<and> last gs + Window idx + second \<le> t))"

lemma prune_short: "length es \<le> m \<Longrightarrow> prune es cutoff m = filter (\<lambda>e. unix cutoff \<le> re_At e) es"
  using order.trans [OF length_filter_le, of es m "\<lambda>e. unix cutoff \<le> re_At e"] by (simp add: prune_def Let_def)

lemma length_prune: "length (prune es cutoff m) \<le> m"
  by (simp add: prune_def Let_def)

lemma query_decide:
  assumes "QueryLimit idx = Some l" and "0 \<le> Window idx"
  shows "reserve_decide idx queryRing (QueryLimit idx) '''' t t True es =
    (if l \<le> int (length es) then Inl (held es (Some l) (Window idx)\<lparr>rs_Allowed := False\<rparr>)
     else Inr (prune (es @ [\<lparr>re_GUID = '''', re_At = unix t\<rparr>]) (t - Window idx) maxQueryEntries))"
  using assms by (simp add: reserve_decide_def Let_def queryRing_def)

lemma Window_nonneg: "0 \<le> Window idx"
  by (simp add: Window_def duration_defs split: option.split)

text \<open>At the time of the next reservation, the ring as it is read covers what is still in its window.\<close>

lemma covers_now:
  assumes "ring_covers idx l b s gs" and "gs \<noteq> []" and "last gs \<le> t" and "s \<le> t" and "l \<le> maxQueryEntries"
    and "\<forall>g \<in> set gs. g \<le> last gs" and "unix (t - Window idx) \<le> u"
  shows "length (filter (\<lambda>g. u \<le> unix g) gs) \<le> length (filter (\<lambda>e. u \<le> re_At e) (ring_now queryRing idx t b t))"
proof -
  from assms(1,2) obtain ats where ats: "length ats \<le> l"
    "\<forall>u \<ge> unix (last gs - Window idx). length (filter (\<lambda>g. u \<le> unix g) gs) \<le> length (filter (\<lambda>a. u \<le> a) ats)"
    and c: "map_option snd (kv_content b t (QueryKey (ix_UID idx))) = Some (Stamps ats) \<or>
      kv_content b t (QueryKey (ix_UID idx)) = None \<and> last gs + Window idx + second \<le> t"
    using assms(4) by (auto simp: ring_covers_def)
  have u: "unix (last gs - Window idx) \<le> u" using unix_mono [of "last gs - Window idx" "t - Window idx"] assms(3,7) by simp
  from c show ?thesis
  proof
    assume v: "map_option snd (kv_content b t (QueryKey (ix_UID idx))) = Some (Stamps ats)"
    have "ring_now queryRing idx t b t = filter (\<lambda>e. unix (t - Window idx) \<le> re_At e) (map (\<lambda>at. \<lparr>re_GUID = '''', re_At = at\<rparr>) ats)"
      unfolding ring_now_def using ats(1) assms(5) v
      by (simp add: queryRing_def ring_decode_def del: map_option_eq_Some) (simp add: prune_short)
    then have "map re_At (filter (\<lambda>e. u \<le> re_At e) (ring_now queryRing idx t b t)) = filter (\<lambda>a. u \<le> a) ats"
      using assms(7) by (auto simp: filter_map comp_def intro!: filter_cong)
    then show ?thesis using ats(2) u by (metis length_map)
  next
    assume "kv_content b t (QueryKey (ix_UID idx)) = None \<and> last gs + Window idx + second \<le> t"
    then have "unix (last gs) < u" using unix_later [of "last gs" "t - Window idx"] assms(7) by simp
    moreover have "unix g \<le> unix (last gs)" if "g \<in> set gs" for g using that assms(6) unix_mono by blast
    ultimately have "filter (\<lambda>g. u \<le> unix g) gs = []" by (fastforce simp: filter_empty_conv)
    then show ?thesis by simp
  qed
qed

lemma covers_later:
  assumes "ring_covers idx l b s gs" and "s \<le> t" and "\<And>t'. t \<le> t' \<Longrightarrow> kv_content b' t' = kv_content b t'"
  shows "ring_covers idx l b' t gs"
proof (cases "gs = []")
  case False
  with assms(1) obtain ats where ats: "length ats \<le> l"
    "\<forall>u \<ge> unix (last gs - Window idx). length (filter (\<lambda>g. u \<le> unix g) gs) \<le> length (filter (\<lambda>a. u \<le> a) ats)"
    "\<forall>t \<ge> s. map_option snd (kv_content b t (QueryKey (ix_UID idx))) = Some (Stamps ats) \<or>
      kv_content b t (QueryKey (ix_UID idx)) = None \<and> last gs + Window idx + second \<le> t"
    unfolding ring_covers_def by blast
  have "map_option snd (kv_content b' t' (QueryKey (ix_UID idx))) = Some (Stamps ats) \<or>
      kv_content b' t' (QueryKey (ix_UID idx)) = None \<and> last gs + Window idx + second \<le> t'" if "t \<le> t'" for t'
    using ats(3) [rule_format, of t'] assms(2,3) that by simp
  with ats(1,2) show ?thesis unfolding ring_covers_def by blast
qed (simp add: ring_covers_def)

lemma covers_step:
  assumes "ring_covers idx l b s gs" and "\<forall>g \<in> set gs. g \<le> t" and "sorted gs" and "s \<le> t" and "l \<le> maxQueryEntries"
    and "QueryLimit idx = Some (int l)" and "0 \<le> t" and "b_TTL b \<le> 0 \<or> Window idx + second \<le> b_TTL b"
    and "ReserveQuery (alone t) idx t b = (Inr res, b')"
  shows "ring_covers idx l b' t (gs @ (if rs_Allowed res then [t] else [])) \<and> b_TTL b' = b_TTL b"
proof -
  let ?k = "QueryKey (ix_UID idx)" and ?es = "ring_now queryRing idx t b t" and ?W = "Window idx"
  let ?new = "prune (?es @ [\<lparr>re_GUID = '''', re_At = unix t\<rparr>]) (t - ?W) maxQueryEntries"
  have last: "\<forall>g \<in> set gs. g \<le> last gs" using assms(3) by (induction gs rule: rev_induct) (auto simp: sorted_append)
  note d = query_decide [OF assms(6) Window_nonneg, of t ?es]
  have k: "rg_key queryRing (ix_UID idx) = ?k" by (simp add: queryRing_def)
  have st: "stays ?k (map_option (rg_encode queryRing) (snd (reserve_at idx queryRing (QueryLimit idx) '''' t t True b t))) b t b'"
    and res: "res = fst (reserve_at idx queryRing (QueryLimit idx) '''' t t True b t)"
    using reserve_alone [OF assms(7), of idx queryRing "QueryLimit idx" "''''" t t True b] assms(9)
    unfolding ReserveQuery_def k by (metis Pair_inject sum.inject(2))+
  have ttl: "b_TTL b' = b_TTL b" using st by (simp add: stays_def)
  show ?thesis
  proof (cases "int l \<le> int (length ?es)")
    case True
    then have r: "reserve_at idx queryRing (QueryLimit idx) '''' t t True b t =
        (held ?es (Some (int l)) ?W\<lparr>rs_Allowed := False\<rparr>, None)" by (simp add: reserve_at_def d)
    have "\<And>t'. t \<le> t' \<Longrightarrow> kv_content b' t' = kv_content b t'" using st by (simp add: r stays_def)
    from covers_later [OF assms(1,4) this] show ?thesis using ttl by (simp add: res r)
  next
    case False
    then have r: "reserve_at idx queryRing (QueryLimit idx) '''' t t True b t = (counted ?new (Some (int l)) ?W, Some ?new)"
      by (simp add: reserve_at_def d [unfolded assms(6)] assms(6))
    have new: "?new = ?es @ [\<lparr>re_GUID = '''', re_At = unix t\<rparr>]"
    proof -
      have "unix (t - ?W) \<le> re_At e" if "e \<in> set ?es" for e
        using that set_drop_subset by (fastforce simp: ring_now_def prune_def Let_def queryRing_def split: if_splits)
      moreover have "unix (t - ?W) \<le> unix t" by (rule unix_mono) (simp add: Window_nonneg)
      moreover have "length (?es @ [\<lparr>re_GUID = '''', re_At = unix t\<rparr>]) \<le> maxQueryEntries" using False assms(5) by simp
      ultimately show ?thesis by (subst prune_short) (auto simp: filter_id_conv)
    qed
    let ?ats = "map re_At ?es @ [unix t]"
    have cnt: "length (filter (\<lambda>g. u \<le> unix g) (gs @ [t])) \<le> length (filter (\<lambda>a. u \<le> a) ?ats)" if "unix (t - ?W) \<le> u" for u
    proof -
      have "length (filter (\<lambda>g. u \<le> unix g) gs) \<le> length (filter (\<lambda>e. u \<le> re_At e) ?es)"
        using covers_now [OF assms(1) _ _ assms(4,5) last that] assms(2) by (cases "gs = []") auto
      then show ?thesis by (simp add: filter_map comp_def)
    qed
    have enc: "rg_encode queryRing ?new = Stamps ?ats" unfolding new by (simp add: queryRing_def)
    have "map_option snd (kv_content b' t' ?k) = Some (Stamps ?ats) \<or> kv_content b' t' ?k = None \<and> t + ?W + second \<le> t'"
      if "t \<le> t'" for t'
    proof -
      have n: "map_option snd (kv_content b' t' ?k) = (if lasting b t t' then Some (Stamps ?ats) else None)"
        using st that by (simp add: r stays_def enc)
      show ?thesis
      proof (cases "lasting b t t'")
        case False
        with n assms(8) show ?thesis by (auto simp: lasting_def)
      qed (simp add: n)
    qed
    moreover have "length ?ats \<le> l" using False by simp
    ultimately have "ring_covers idx l b' t (gs @ [t])" using cnt unfolding ring_covers_def last_snoc by blast
    moreover have "rs_Allowed res" by (simp add: res r counted_def)
    ultimately show ?thesis using ttl by simp
  qed
qed

lemma length_filter_imp: "(\<And>x. P x \<Longrightarrow> Q x) \<Longrightarrow> length (filter P xs) \<le> length (filter Q xs)"
  by (induction xs) (auto intro: le_SucI)

lemma covers_window:
  assumes "ring_covers idx l b s (gs @ [t])" and "t \<le> T"
  shows "length (filter (\<lambda>g. T - Window idx \<le> g \<and> g \<le> T) (gs @ [t])) \<le> l"
proof -
  let ?u = "unix (t - Window idx)"
  from assms(1) obtain ats where "length ats \<le> l" "length (filter (\<lambda>g. ?u \<le> unix g) (gs @ [t])) \<le> length (filter (\<lambda>a. ?u \<le> a) ats)"
    by (auto simp: ring_covers_def)
  moreover have "length (filter (\<lambda>g. T - Window idx \<le> g \<and> g \<le> T) (gs @ [t])) \<le> length (filter (\<lambda>g. ?u \<le> unix g) (gs @ [t]))"
  proof -
    have "?u \<le> unix g" if "T - Window idx \<le> g" for g using that assms(2) by (intro unix_mono) simp
    then show ?thesis by (intro length_filter_imp) blast
  qed
  ultimately show ?thesis using length_filter_le [of "\<lambda>a. ?u \<le> a" ats] by linarith
qed

lemma serve_window:
  assumes "QueryLimit idx = Some (int l)" and "l \<le> maxQueryEntries" and "b_TTL b \<le> 0 \<or> Window idx + second \<le> b_TTL b"
    and "sorted ts" and "\<forall>t \<in> set ts. 0 \<le> t \<and> s \<le> t" and "ring_covers idx l b s gs" and "sorted gs" and "\<forall>g \<in> set gs. g \<le> s"
    and "\<forall>T. length (filter (\<lambda>g. T - Window idx \<le> g \<and> g \<le> T) gs) \<le> l"
  shows "length (filter (\<lambda>g. T - Window idx \<le> g \<and> g \<le> T) (gs @ serve_queries idx ts b)) \<le> l"
  using assms(3-)
proof (induction ts arbitrary: b s gs)
  case (Cons t ts)
  from reserve_alone [of t] Cons.prems(3) obtain res b' where r: "ReserveQuery (alone t) idx t b = (Inr res, b')"
    unfolding ReserveQuery_def by (metis list.set_intros(1))
  let ?gs = "gs @ (if rs_Allowed res then [t] else [])"
  have le: "\<forall>g \<in> set gs. g \<le> t" using Cons.prems(3,6) by fastforce
  have c: "ring_covers idx l b' t ?gs" "b_TTL b' = b_TTL b"
    using covers_step [OF Cons.prems(4) le Cons.prems(5) _ assms(2,1) _ Cons.prems(1) r] Cons.prems(3) by simp_all
  have "length (filter (\<lambda>g. T' - Window idx \<le> g \<and> g \<le> T') ?gs) \<le> l" for T'
    using Cons.prems(7) covers_window [of idx l b' t gs t T'] c(1) by (cases "rs_Allowed res"; cases "t \<le> T'") auto
  moreover have "sorted ?gs" "\<forall>g \<in> set ?gs. g \<le> t" using Cons.prems(5) le by (auto simp: sorted_append)
  ultimately have "length (filter (\<lambda>g. T - Window idx \<le> g \<and> g \<le> T) (?gs @ serve_queries idx ts b')) \<le> l"
    using Cons.IH [of b' t ?gs] c Cons.prems(1,2,3) by simp
  then show ?case by (cases "rs_Allowed res") (simp_all add: r)
qed simp

section \<open>When the window has room again\<close>

lemma count_ge_less:
  fixes xs :: "int list"
  assumes "sorted xs" and "0 < l" and "l \<le> length xs"
  shows "length (filter (\<lambda>x. u \<le> x) xs) < l \<longleftrightarrow> xs ! (length xs - l) < u"
proof -
  let ?i = "length xs - l"
  have split: "length (filter (\<lambda>x. u \<le> x) xs) = length (filter (\<lambda>x. u \<le> x) (take ?i xs)) + length (filter (\<lambda>x. u \<le> x) (drop ?i xs))"
    by (metis append_take_drop_id filter_append length_append)
  have d: "drop ?i xs = xs ! ?i # drop (Suc ?i) xs" using assms(2,3) by (simp add: Cons_nth_drop_Suc)
  have len: "length (drop ?i xs) = l" using assms(3) by simp
  show ?thesis
  proof (cases "u \<le> xs ! ?i")
    case True
    have "u \<le> x" if "x \<in> set (drop ?i xs)" for x
      using sorted_wrt_drop [OF assms(1), of ?i] that True unfolding d by auto
    then have "filter (\<lambda>x. u \<le> x) (drop ?i xs) = drop ?i xs" by simp
    with True split len show ?thesis by simp
  next
    case False
    have "x \<le> xs ! ?i" if "x \<in> set (take ?i xs)" for x
      using that assms(1) d append_take_drop_id [of ?i xs] sorted_append [of "take ?i xs" "drop ?i xs"] by auto
    with False have "filter (\<lambda>x. u \<le> x) (take ?i xs) = []" by (fastforce simp: filter_empty_conv)
    moreover have "length (filter (\<lambda>x. u \<le> x) (drop ?i xs)) < l"
      using False len length_filter_le [of "\<lambda>x. u \<le> x" "drop (Suc ?i) xs"] unfolding d by simp
    ultimately show ?thesis using split False by simp
  qed
qed

lemma retryAt_room:
  assumes "0 < l" and "l \<le> int (length es)"
  shows "int (length (filter (\<lambda>e. unix (t - W) \<le> re_At e) es)) < l \<longleftrightarrow> retryAt es (Some l) W \<le> t"
proof -
  let ?u = "unix (t - W)" and ?xs = "sort (map re_At es)" and ?a = "sort (map re_At es) ! (length es - nat l)"
  have "filter (\<lambda>e. ?u \<le> re_At e) es = filter ((\<lambda>x. ?u \<le> x) \<circ> re_At) es" by (simp add: comp_def)
  then have "length (filter (\<lambda>e. ?u \<le> re_At e) es) = length (filter (\<lambda>x. ?u \<le> x) ?xs)"
    by (metis filter_map filter_sort length_map length_sort)
  moreover have "length (filter (\<lambda>x. ?u \<le> x) ?xs) < nat l \<longleftrightarrow> ?a < ?u"
    using count_ge_less [of ?xs "nat l" ?u] assms by simp
  moreover have "?a < ?u \<longleftrightarrow> unix_time ?a + (W + second) \<le> t" using unix_less_iff [of ?a "t - W"] by auto
  moreover have "retryAt es (Some l) W = unix_time ?a + (W + second)" using assms by (simp add: retryAt_def positive_def)
  ultimately show ?thesis using assms(1) by (metis (no_types) of_nat_less_iff int_nat_eq less_imp_le)
qed

section \<open>Properties\<close>


text \<open>C17: an indexer is never sent more queries than its limit in any window. Reservations that follow one
  another at non-decreasing times, on a bucket that keeps a ring longer than the window and whatever
  the ring held before, let through at most \<^verbatim>\<open>spec.limits.queryLimit\<close> queries in every closed interval as
  long as the window, for a limit the ring can count to.\<close>

theorem queries_within_limit:
  assumes "QueryLimit idx = Some l" and "l \<le> 4096" and "b_TTL b \<le> 0 \<or> Window idx + second \<le> b_TTL b"
    and "sorted ts" and "\<forall>t \<in> set ts. 0 \<le> t"
  shows "int (length (filter (\<lambda>t. T - Window idx \<le> t \<and> t \<le> T) (serve_queries idx ts b))) \<le> l"
proof (cases ts)
  case (Cons s ss)
  have l: "0 < l" using assms(1) by (auto simp: QueryLimit_def positive_def split: option.splits if_splits)
  have "length (filter (\<lambda>t. T - Window idx \<le> t \<and> t \<le> T) ([] @ serve_queries idx ts b)) \<le> nat l"
    by (rule serve_window [of idx "nat l" b ts s])
       (use assms l Cons in \<open>auto simp: ring_covers_def maxQueryEntries_def\<close>)
  with l show ?thesis by simp
qed (use assms(1) in \<open>auto simp: QueryLimit_def positive_def split: option.splits if_splits\<close>)

text \<open>A refusal names exactly when to come back. A reservation refused at the limit returns the instant from
  which the ring, left as it is, has room: a reservation of the same query or grab at any time is
  counted exactly when that time has reached it.\<close>

theorem retry_exact:
  assumes "0 < l" and "length es \<le> rg_max r"
    and "reserve_decide idx r (Some l) guid now now True es = Inl res" and "\<not> rs_Allowed res"
  shows "(\<exists>es'. reserve_decide idx r (Some l) guid t t True (prune es (t - Window idx) (rg_max r)) = Inr es') \<longleftrightarrow>
    rs_RetryAt res \<le> t"
proof -
  have full: "l \<le> int (length es)" and guid: "guid = '''' \<or> (\<forall>e \<in> set es. re_GUID e \<noteq> guid)"
    and res: "rs_RetryAt res = retryAt es (Some l) (Window idx)"
    using assms(3,4) by (auto simp: reserve_decide_def Let_def held_def list_ex_iff split: if_splits)
  have "(\<exists>es'. reserve_decide idx r (Some l) guid t t True (prune es (t - Window idx) (rg_max r)) = Inr es') \<longleftrightarrow>
      int (length (filter (\<lambda>e. unix (t - Window idx) \<le> re_At e) es)) < l"
    using guid Window_nonneg [of idx] by (auto simp: reserve_decide_def Let_def list_ex_iff prune_short [OF assms(2)])
  also have "\<dots> \<longleftrightarrow> rs_RetryAt res \<le> t" unfolding res by (rule retryAt_room [OF assms(1) full])
  finally show ?thesis .
qed

section \<open>Samples\<close>

definition sample_indexer :: Indexer where
  "sample_indexer = \<lparr>ix_UID = ''u1'', ix_Limits = Some \<lparr>lm_QueryLimit = Some 2, lm_GrabLimit = None, lm_Unit = ''hour''\<rparr>\<rparr>"

definition sample_limits :: limit_bucket where
  "sample_limits = \<lparr>b_Name = ''clustarr-indexer-limits'', b_TTL = 48 * hour, b_rev = 0, b_vals = [], b_watchers = [], b_created = 0\<rparr>"

text \<open>Another client writes the ring between the read and the write of the first attempt.\<close>

definition sample_race :: limit_world where
  "sample_race = \<lparr>w_turn = (\<lambda>i b. if i = 1 then snd (kv_Put b ''u1.query'' (Stamps [3600]) unix_epoch) else b),
     w_clock = (\<lambda>_. unix_epoch), w_fault = (\<lambda>_. None)\<rparr>"

lemma sample_race_orderly: "orderly sample_race"
proof -
  have "0 \<le> unix_epoch" by (simp add: unix_epoch_def second_def)
  moreover have "timed_run kv_step unix_epoch b unix_epoch (snd (kv_Put b k v unix_epoch))" for b :: limit_bucket and k v
    by (intro call_step call_Put)
  ultimately show ?thesis by (simp add: orderly_def sample_race_def run_none)
qed


theorem queries_within_limit_witness:
  "int (length (filter (\<lambda>t. unix_time 3700 - Window sample_indexer \<le> t \<and> t \<le> unix_time 3700)
     (serve_queries sample_indexer [unix_time 100, unix_time 200, unix_time 300, unix_time 3800] sample_limits))) \<le> 2"
  by (rule queries_within_limit)
     (simp_all add: sample_indexer_def sample_limits_def QueryLimit_def positive_def Window_def LimitUnitHour_def duration_defs
       unix_time_def unix_epoch_def)

definition sample_ring :: "ring_entry list" where
  "sample_ring = [\<lparr>re_GUID = '''', re_At = 100\<rparr>, \<lparr>re_GUID = '''', re_At = 40\<rparr>]"

theorem retry_exact_witness:
  "(\<exists>es'. reserve_decide sample_indexer queryRing (Some 2) '''' (unix_time 3641) (unix_time 3641) True
      (prune sample_ring (unix_time 3641 - Window sample_indexer) (rg_max queryRing)) = Inr es')"
proof -
  define res where "res = held sample_ring (Some 2) (Window sample_indexer)\<lparr>rs_Allowed := False\<rparr>"
  have W: "Window sample_indexer = hour" by (simp add: Window_def sample_indexer_def LimitUnitHour_def)
  have "reserve_decide sample_indexer queryRing (Some 2) '''' (unix_time 200) (unix_time 200) True sample_ring = Inl res"
    by (simp add: reserve_decide_def res_def W duration_defs sample_ring_def)
  moreover have "length sample_ring \<le> rg_max queryRing" by (simp add: sample_ring_def queryRing_def maxQueryEntries_def)
  moreover have "rs_RetryAt res = unix_time 3641"
    by (simp add: res_def held_def retryAt_def positive_def sample_ring_def W unix_time_def duration_defs insort_key.simps)
  ultimately show ?thesis using retry_exact [of 2 sample_ring queryRing sample_indexer "''''" "unix_time 200" res "unix_time 3641"]
    by (simp add: res_def)
qed

end
