(* ===== verification/LimitsPauses.thy ===== *)
theory LimitsPauses
  imports LimitsRings
begin

text \<open>
  The pauses an indexer's refusals set. Recorded one after the other, a pause is never shortened and lasts
  at least as long as the refusal asked for; recorded at the same time by two workers, the later write
  replaces the longer pause, because the record is read and put, not compared and swapped.
\<close>

lemma doublePause_ge: "0 \<le> p \<Longrightarrow> p \<le> doublePause i s p"
proof (induction i s p rule: doublePause.induct)
  case (1 i s p)
  show ?case
  proof (cases "i < s \<and> p < MaxGrabPause")
    case True
    with 1 have "p * 2 \<le> doublePause (i + 1) s (p * 2)" by simp
    with 1(2) True show ?thesis by (subst doublePause.simps) simp
  qed (subst doublePause.simps, auto)
qed

text \<open>The \<open>n\<close>-th refusal in a row pauses for the default doubled \<open>n - 1\<close> times, up to the maximum.\<close>

lemma doublePause_power: "0 < p \<Longrightarrow> i \<le> s \<Longrightarrow> min (doublePause i s p) MaxGrabPause = min (p * 2 ^ nat (s - i)) MaxGrabPause"
proof (induction i s p rule: doublePause.induct)
  case (1 i s p)
  show ?case
  proof (cases "i < s \<and> p < MaxGrabPause")
    case True
    then have "nat (s - i) = Suc (nat (s - (i + 1)))" by arith
    with 1 True show ?thesis by (subst doublePause.simps) (simp add: mult.assoc)
  next
    case False
    have "p \<le> p * 2 ^ nat (s - i)" using 1(2) by simp
    with False 1(3) show ?thesis by (subst doublePause.simps) (auto simp: min_def)
  qed
qed

lemma pauseFor_escalates:
  assumes "retryAfter \<le> 0" and "1 \<le> s"
  shows "pauseFor s retryAfter = min (DefaultGrabPause * 2 ^ nat (s - 1)) MaxGrabPause"
  using doublePause_power [of DefaultGrabPause 1 s] assms by (simp add: pauseFor_def DefaultGrabPause_def duration_defs)

lemma pauseFor_ge: "(if 0 < retryAfter then retryAfter else DefaultGrabPause) \<le> pauseFor s retryAfter"
  using doublePause_ge [of DefaultGrabPause 1 s]
  by (auto simp: pauseFor_def DefaultGrabPause_def MaxGrabPause_def duration_defs)

lemma readPause_alone:
  "readPause (alone t) k b = (decodePause (map_option snd (kv_content b t k)), snd (kv_Get b k t))"
proof (cases "liveLocked b k t")
  case (Pair x b')
  then have "live_value b t k = x" using liveLocked_cases(1) [OF Pair] by simp
  with Pair show ?thesis
    by (cases x) (simp_all add: readPause_def call_def alone_def readPauseKey_def kv_Get_def kv_content_def put_entry_def)
qed

lemma putPause_alone:
  assumes "0 \<le> t"
  obtains n b' where "putPause (alone t) k p b = (Inr n, b')" "kv_content b' t k = Some (n, Paused p)"
proof -
  obtain n b' where w: "writeLocked b k (Paused p) t 0 = (n, b')" by (meson surj_pair)
  show ?thesis
    using that [of n b'] w writeLocked_content(1) [OF w assms] by (simp add: putPause_def call_def alone_def kv_Put_def)
qed

text \<open>A pause is never shortened and never cut short. A refusal recorded with nobody else writing returns an
  instant that is no earlier than the time the indexer asked to wait (or the default), nor than the end
  of the pause in force; and from then on the indexer reads as paused until that instant, to the second
  the record keeps.\<close>

theorem pause_never_shortened:
  assumes "0 \<le> t" and "PauseGrabs (alone t) idx retryAfter now b = (Inr until, b')"
  shows "now + (if 0 < retryAfter then retryAfter else DefaultGrabPause) \<le> until \<and>
    (\<forall>u. fst (GrabPaused (alone t) idx now b) = Inr (Some u) \<longrightarrow> u \<le> until) \<and>
    (\<forall>now'. fst (GrabPaused (alone t) idx now' b') =
       Inr (if now' < unix_time (unix until) then Some (unix_time (unix until)) else None))"
proof -
  let ?k = "GrabPauseKey (ix_UID idx)"
  define b1 where "b1 = snd (kv_Get b ?k t)"
  from assms(2) obtain p where p: "decodePause (map_option snd (kv_content b t ?k)) = Inr p"
    by (auto simp: PauseGrabs_def readPause_alone split: sum.splits)
  define cur where "cur = (case p of None \<Rightarrow> noPause | Some x \<Rightarrow> x)"
  define strikes where "strikes = wrap32 (gp_Strikes cur + 1)"
  define asked where "asked = now + pauseFor strikes retryAfter"
  define until' where "until' = (if asked < unix_time (gp_Until cur) then unix_time (gp_Until cur) else asked)"
  obtain n b2 where w: "putPause (alone t) ?k \<lparr>gp_Until = unix until', gp_Strikes = strikes\<rparr> b1 = (Inr n, b2)"
    "kv_content b2 t ?k = Some (n, Paused \<lparr>gp_Until = unix until', gp_Strikes = strikes\<rparr>)"
    by (rule putPause_alone [OF assms(1)])
  have "PauseGrabs (alone t) idx retryAfter now b = (Inr until', b2)"
    by (simp only: PauseGrabs_def readPause_alone p prod.case sum.case Let_def w(1)
        flip: b1_def cur_def strikes_def asked_def until'_def)
  with assms(2) have u: "until = until'" "b' = b2" by simp_all
  have "now + (if 0 < retryAfter then retryAfter else DefaultGrabPause) \<le> until"
    using pauseFor_ge [of retryAfter strikes] by (auto simp: u until'_def asked_def)
  moreover have "unix_time (gp_Until x) \<le> until" if "p = Some x" for x using that by (auto simp: u until'_def cur_def)
  ultimately show ?thesis
    using p w(2) by (auto simp: GrabPaused_def pausedAt_def readPause_alone u decodePause_def Let_def split: option.splits)
qed

definition sample_pause :: "(pause_error + time) \<times> limit_bucket" where
  "sample_pause = PauseGrabs (alone unix_epoch) sample_indexer 0 (unix_time 1000) sample_limits"

theorem pause_never_shortened_witness:
  "fst (GrabPaused (alone unix_epoch) sample_indexer (unix_time 1899) (snd sample_pause)) = Inr (Some (unix_time 1900)) \<and>
   fst (GrabPaused (alone unix_epoch) sample_indexer (unix_time 1900) (snd sample_pause)) = Inr None"
proof -
  have "fst sample_pause = Inr (unix_time 1900)" by code_simp
  then have p: "PauseGrabs (alone unix_epoch) sample_indexer 0 (unix_time 1000) sample_limits = (Inr (unix_time 1900), snd sample_pause)"
    unfolding sample_pause_def by (metis prod.collapse)
  have "0 \<le> unix_epoch" and "unix (unix_time 1900) = 1900" and "unix_time 1899 < unix_time 1900" by code_simp+
  with pause_never_shortened [OF _ p] show ?thesis by simp
qed

section \<open>Two refusals at once\<close>

text \<open>Another worker records a refusal of twelve hours between the read and the write of one of fifteen minutes.\<close>

definition race_pause :: limit_world where
  "race_pause = \<lparr>w_turn = (\<lambda>i b. if i = 1 then snd (PauseGrabs (alone unix_epoch) sample_indexer (12 * hour) (unix_time 1000) b) else b),
     w_clock = (\<lambda>_. unix_epoch), w_fault = (\<lambda>_. None)\<rparr>"

text \<open>The twelve hours the other worker was given are gone: the indexer is no longer paused after fifteen minutes.\<close>

lemma concurrent_pause_shortened:
  "fst (PauseGrabs (alone unix_epoch) sample_indexer (12 * hour) (unix_time 1000) sample_limits) = Inr (unix_time 1000 + 12 * hour) \<and>
   fst (PauseGrabs race_pause sample_indexer 0 (unix_time 1000) sample_limits) = Inr (unix_time 1900) \<and>
   fst (GrabPaused (alone unix_epoch) sample_indexer (unix_time 1900)
     (snd (PauseGrabs race_pause sample_indexer 0 (unix_time 1000) sample_limits))) = Inr None"
  by (intro conjI) code_simp+

section \<open>A ring that goes while it is reserved\<close>

text \<open>A ring whose key expires or is deleted between the read and the write of an attempt makes the reservation fail
  with \<^verbatim>\<open>ErrKeyNotFound\<close>: the loop takes only a mismatch or an existing key for a conflict to retry.\<close>

lemma lost_ring_fails:
  assumes "kv_content (w_turn w 0 b) (w_clock w 0) (rg_key r (ix_UID idx)) \<noteq> None"
    and "w_fault w 0 = None" and "w_fault w 1 = None"
    and "reserve_decide idx r limit guid at now enforce (ring_now r idx now (w_turn w 0 b) (w_clock w 0)) = Inr es"
    and "live_value (w_turn w 1 (snd (kv_Get (w_turn w 0 b) (rg_key r (ix_UID idx)) (w_clock w 0)))) (w_clock w 1) (rg_key r (ix_UID idx)) = None"
  shows "fst (reserve w idx r limit guid at now enforce b) = Inl (KVError ErrKeyNotFound)"
proof -
  let ?k = "rg_key r (ix_UID idx)" and ?c = "w_turn w 1 (snd (kv_Get (w_turn w 0 b) (rg_key r (ix_UID idx)) (w_clock w 0)))"
  obtain b' where "liveLocked ?c ?k (w_clock w 1) = (None, b')"
    using liveLocked_cases(1) assms(5) by (metis surj_pair)
  with assms(1-3) assms(4) [unfolded ring_now_def] show ?thesis
    by (auto simp: reserve_def casAttempts_def numeral_3_eq_3 call_def ring_read_current get_current_content ring_write_def kv_Update_def)
qed

end
