(* ===== verification/CaptionThrottle.thy ===== *)
theory CaptionThrottle
  imports KvKeys KvClients
begin

text \<open>
  The subtitle providers' shared throttle (\<^verbatim>\<open>app/caption/throttle\<close>, with the durations of
  \<^verbatim>\<open>pkg/subtitles/throttle.go\<close>): the token bucket every request of a provider takes a token from, and the
  state of a provider that errors, quotas and logins are merged into, both in
  \<^verbatim>\<open>clustarr-provider-throttle\<close> and both by compare-and-swap. An error is what \<^verbatim>\<open>errors.As\<close> finds of it: a
  provider error, or none.
\<close>

section \<open>Durations of a provider's errors\<close>

record ProviderError =
  pe_Kind :: string
  pe_RetryAfter :: duration

definition KindTooManyRequests :: string where "KindTooManyRequests = ''TooManyRequests''"
definition KindDownloadLimitExceeded :: string where "KindDownloadLimitExceeded = ''DownloadLimitExceeded''"
definition KindServiceUnavailable :: string where "KindServiceUnavailable = ''ServiceUnavailable''"
definition KindAPIThrottled :: string where "KindAPIThrottled = ''APIThrottled''"
definition KindParse :: string where "KindParse = ''Parse''"
definition KindTimeout :: string where "KindTimeout = ''Timeout''"
definition KindAuth :: string where "KindAuth = ''Auth''"
definition KindConfig :: string where "KindConfig = ''Config''"
definition KindNotFound :: string where "KindNotFound = ''NotFound''"

lemmas kind_defs = KindTooManyRequests_def KindDownloadLimitExceeded_def KindServiceUnavailable_def KindAPIThrottled_def
  KindParse_def KindTimeout_def KindAuth_def KindConfig_def KindNotFound_def

text \<open>Lookups of the two tables; a kind missing from the defaults reads as 0.\<close>

definition defaultDurations :: "string \<Rightarrow> duration" where
  "defaultDurations k =
     (case map_of [(KindTooManyRequests, hour), (KindDownloadLimitExceeded, 3 * hour), (KindServiceUnavailable, 20 * minute),
        (KindAPIThrottled, 10 * minute), (KindParse, 6 * hour), (KindTimeout, hour), (KindAuth, 12 * hour), (KindConfig, 12 * hour),
        (KindNotFound, 12 * hour)] k of None \<Rightarrow> 0 | Some d \<Rightarrow> d)"

definition providerOverrides :: "string \<Rightarrow> (string \<Rightarrow> duration option) option" where
  "providerOverrides p = map_option map_of (map_of
     [(''opensubtitlescom'', [(KindTooManyRequests, minute), (KindDownloadLimitExceeded, 6 * hour)]),
      (''subdl'', [(KindAPIThrottled, 15 * minute), (KindConfig, hour)]),
      (''subsource'', [(KindAuth, hour)])] p)"

definition ThrottleFor :: "string \<Rightarrow> ProviderError option \<Rightarrow> string \<times> duration" where
  "ThrottleFor provider err =
     (case err of
        None \<Rightarrow> (''unknown'', hour)
      | Some pe \<Rightarrow>
          if pe_RetryAfter pe > 0 then (pe_Kind pe, pe_RetryAfter pe)
          else case Option.bind (providerOverrides provider) (\<lambda>m. m (pe_Kind pe)) of
                 Some d \<Rightarrow> (pe_Kind pe, d)
               | None \<Rightarrow> (pe_Kind pe, defaultDurations (pe_Kind pe)))"

section \<open>Data\<close>

record Quota =
  qu_Remaining :: int
  qu_ResetAt :: "time option"

record State =
  st_ThrottledUntil :: "time option"
  st_ThrottleReason :: string
  st_Quota :: "Quota option"
  st_JWT :: string
  st_TokenExpiresAt :: "time option"
  st_APIServer :: string
  st_LastSuccessAt :: "time option"
  st_ErrorsLast120s :: int
  st_ErrorTimestamps :: "int list"

definition zeroState :: State where
  "zeroState = \<lparr>st_ThrottledUntil = None, st_ThrottleReason = '''', st_Quota = None, st_JWT = '''', st_TokenExpiresAt = None,
     st_APIServer = '''', st_LastSuccessAt = None, st_ErrorsLast120s = 0, st_ErrorTimestamps = []\<rparr>"

record bucketState =
  bs_TokensMilli :: int
  bs_UpdatedAt :: time

datatype throttle_value = StateValue State | TokenValue bucketState | Garbled

type_synonym throttle_bucket = "throttle_value bucket"
type_synonym throttle_world = "throttle_value world"

section \<open>The provider's state\<close>

definition stateCASAttempts :: nat where "stateCASAttempts = 25"
definition ErrorStrikeThreshold :: int where "ErrorStrikeThreshold = 5"
definition ErrorStrikeWindow :: duration where "ErrorStrikeWindow = 120 * second"
definition errorStrikeFloor :: duration where "errorStrikeFloor = hour"
definition maxErrorRingEntries :: nat where "maxErrorRingEntries = 64"

definition Throttled :: "State \<Rightarrow> time \<Rightarrow> bool" where
  "Throttled s now \<longleftrightarrow> (case st_ThrottledUntil s of None \<Rightarrow> False | Some u \<Rightarrow> now < u)"

definition decodeState :: "throttle_value \<Rightarrow> State option" where
  "decodeState v = (case v of StateValue s \<Rightarrow> Some s | _ \<Rightarrow> None)"

datatype get_error = GetKV kv_error | GetDecode

definition state_Get :: "throttle_world \<Rightarrow> string \<Rightarrow> throttle_bucket \<Rightarrow> (get_error + State) \<times> throttle_bucket" where
  "state_Get w uid b =
     (case call w 0 (get_current (ProviderKey uid)) b of
        (Inl e, b') \<Rightarrow> (Inl (GetKV e), b')
      | (Inr None, b') \<Rightarrow> (Inr zeroState, b')
      | (Inr (Some (_, v)), b') \<Rightarrow> ((case decodeState v of None \<Rightarrow> Inl GetDecode | Some s \<Rightarrow> Inr s), b'))"

text \<open>\<^verbatim>\<open>mutateState\<close> is the optimistic loop whose every attempt writes; a value that does not decode is replaced.\<close>

definition current_state :: "(nat \<times> throttle_value) option \<Rightarrow> State" where
  "current_state cur = (case Option.bind cur (decodeState \<circ> snd) of None \<Rightarrow> zeroState | Some s \<Rightarrow> s)"

definition mutate_choice :: "(State \<Rightarrow> State) \<Rightarrow> (nat \<times> throttle_value) option \<Rightarrow> State + State \<times> throttle_value" where
  "mutate_choice fn cur = (let st = fn (current_state cur) in Inr (st, StateValue st))"

definition mutateState :: "throttle_world \<Rightarrow> string \<Rightarrow> (State \<Rightarrow> State) \<Rightarrow> throttle_bucket \<Rightarrow> (client_error + State) \<times> throttle_bucket" where
  "mutateState w uid fn b = optimistic w (ProviderKey uid) (mutate_choice fn) stateCASAttempts 0 None b"

definition pruneErrorRing :: "int list \<Rightarrow> time \<Rightarrow> int list" where
  "pruneErrorRing ring now =
     (let cutoff = unix (now - ErrorStrikeWindow); out = filter (\<lambda>at. at \<ge> cutoff) ring
      in if length out > maxErrorRingEntries then drop (length out - maxErrorRingEntries) out else out)"

definition later_than :: "time \<Rightarrow> time option \<Rightarrow> bool" where
  "later_than t u \<longleftrightarrow> (case u of None \<Rightarrow> True | Some x \<Rightarrow> x < t)"

definition record_error :: "string \<Rightarrow> duration \<Rightarrow> time \<Rightarrow> State \<Rightarrow> State" where
  "record_error reason dur now st =
     (let until = now + dur;
          s1 = (if later_than until (st_ThrottledUntil st) then st\<lparr>st_ThrottledUntil := Some until, st_ThrottleReason := reason\<rparr> else st);
          ring = pruneErrorRing (st_ErrorTimestamps s1 @ [unix now]) now;
          s2 = s1\<lparr>st_ErrorTimestamps := ring, st_ErrorsLast120s := int (length ring)\<rparr>;
          floor' = now + errorStrikeFloor
      in if st_ErrorsLast120s s2 \<ge> ErrorStrikeThreshold \<and> later_than floor' (st_ThrottledUntil s2)
         then s2\<lparr>st_ThrottledUntil := Some floor'\<rparr> else s2)"

definition RecordError :: "throttle_world \<Rightarrow> string \<Rightarrow> string \<Rightarrow> ProviderError option \<Rightarrow> time \<Rightarrow> throttle_bucket \<Rightarrow>
    (client_error + State) \<times> throttle_bucket" where
  "RecordError w providerType uid cause now b =
     (let (reason, dur) = ThrottleFor providerType cause in mutateState w uid (record_error reason dur now) b)"

definition RecordSuccess :: "throttle_world \<Rightarrow> string \<Rightarrow> time \<Rightarrow> throttle_bucket \<Rightarrow> (client_error + State) \<times> throttle_bucket" where
  "RecordSuccess w uid now b = mutateState w uid (\<lambda>st. st\<lparr>st_LastSuccessAt := Some now\<rparr>) b"

definition SetQuota :: "throttle_world \<Rightarrow> string \<Rightarrow> int \<Rightarrow> time \<Rightarrow> throttle_bucket \<Rightarrow> (client_error + State) \<times> throttle_bucket" where
  "SetQuota w uid remaining resetAt b =
     mutateState w uid (\<lambda>st. st\<lparr>st_Quota := Some \<lparr>qu_Remaining = remaining,
       qu_ResetAt = (if is_zero resetAt then None else Some resetAt)\<rparr>\<rparr>) b"

definition SetAuth :: "throttle_world \<Rightarrow> string \<Rightarrow> string \<Rightarrow> string \<Rightarrow> time \<Rightarrow> throttle_bucket \<Rightarrow> (client_error + State) \<times> throttle_bucket" where
  "SetAuth w uid jwt apiServer expiresAt b =
     mutateState w uid (\<lambda>st. st\<lparr>st_JWT := jwt, st_APIServer := apiServer,
       st_TokenExpiresAt := (if is_zero expiresAt then None else Some expiresAt)\<rparr>) b"

section \<open>The token bucket\<close>

definition defaultRateMilli :: int where "defaultRateMilli = 5000"
definition minAcquireSleep :: duration where "minAcquireSleep = 5 * 1000000"

definition Milliseconds :: "duration \<Rightarrow> int" where "Milliseconds d = quot d 1000000"

definition rateOf :: "int \<Rightarrow> int" where "rateOf rateMilli = (if rateMilli \<le> 0 then defaultRateMilli else rateMilli)"

definition capacityMilli :: "int \<Rightarrow> int" where "capacityMilli rate = max rate 1000"

text \<open>\<^verbatim>\<open>getBucket\<close>'s value: the zero state for a key that is missing or does not decode.\<close>

definition current_bucket :: "(nat \<times> throttle_value) option \<Rightarrow> bucketState" where
  "current_bucket cur = (case cur of Some (_, TokenValue bs) \<Rightarrow> bs | _ \<Rightarrow> \<lparr>bs_TokensMilli = 0, bs_UpdatedAt = 0\<rparr>)"

definition tokens_at :: "int \<Rightarrow> time \<Rightarrow> bucketState \<Rightarrow> int" where
  "tokens_at rate now bs0 =
     (let bs = (if is_zero (bs_UpdatedAt bs0) then \<lparr>bs_TokensMilli = capacityMilli rate, bs_UpdatedAt = now\<rparr> else bs0);
          elapsed = max 0 (Milliseconds (time_sub now (bs_UpdatedAt bs)));
          refill = quot (wrap64 (elapsed * rate)) 1000;
          tokens = wrap64 (bs_TokensMilli bs + refill)
      in if tokens > capacityMilli rate then capacityMilli rate else tokens)"

datatype attempt = Granted bucketState | WaitFor duration

definition acquire_decide :: "int \<Rightarrow> time \<Rightarrow> bucketState \<Rightarrow> attempt" where
  "acquire_decide rate now bs =
     (let tokens = tokens_at rate now bs in
      if tokens \<ge> 1000 then Granted \<lparr>bs_TokensMilli = tokens - 1000, bs_UpdatedAt = now\<rparr>
      else WaitFor (max (quot (wrap64 (wrap64 (1000 - tokens) * second)) rate) minAcquireSleep))"

text \<open>The worker's clock and context, per turn of the loop: the context is checked at the top of a turn, which is
  also where a sleep that is cut short ends.\<close>

record worker =
  wk_now :: "nat \<Rightarrow> time"
  wk_cancelled :: "nat \<Rightarrow> bool"

datatype acquire_error = AcquireKV kv_error | AcquireCancelled

text \<open>\<open>Acquire\<close> loops until it has a token; \<open>None\<close> is a loop that has not returned within the turns given.\<close>

fun acquire_loop :: "throttle_world \<Rightarrow> worker \<Rightarrow> string \<Rightarrow> int \<Rightarrow> nat \<Rightarrow> nat \<Rightarrow> throttle_bucket \<Rightarrow>
    (acquire_error + unit) option \<times> throttle_bucket" where
  "acquire_loop w wk key rate 0 i b = (None, b)"
| "acquire_loop w wk key rate (Suc n) i b =
     (if wk_cancelled wk i then (Some (Inl AcquireCancelled), b)
      else case call w (2 * i) (get_current key) b of
        (Inl e, b1) \<Rightarrow> (Some (Inl (AcquireKV e)), b1)
      | (Inr cur, b1) \<Rightarrow>
          (case acquire_decide rate (wk_now wk i) (current_bucket cur) of
             WaitFor d \<Rightarrow> acquire_loop w wk key rate n (i + 1) b1
           | Granted bs \<Rightarrow>
               (case call w (2 * i + 1) (put_current key (TokenValue bs) (map_option fst cur)) b1 of
                  (Inr _, b2) \<Rightarrow> (Some (Inr ()), b2)
                | (Inl e, b2) \<Rightarrow>
                    if e = ErrRevisionMismatch \<or> e = ErrKeyExists then acquire_loop w wk key rate n (i + 1) b2
                    else (Some (Inl (AcquireKV e)), b2))))"

definition Acquire :: "throttle_world \<Rightarrow> worker \<Rightarrow> string \<Rightarrow> int \<Rightarrow> nat \<Rightarrow> throttle_bucket \<Rightarrow>
    (acquire_error + unit) option \<times> throttle_bucket" where
  "Acquire w wk uid rateMilli turns b = acquire_loop w wk (TokenBucketKey uid) (rateOf rateMilli) turns 0 b"

end
