(* ===== verification/ThrottleSafety.thy ===== *)
theory ThrottleSafety
  imports CaptionThrottle
begin

text \<open>
  The throttle of the subtitle providers: with clocks that do not go back, the token bucket keeps every
  stretch of time within its rate and burst, and a worker that waits gets its token; a recorded error
  never shortens a throttle and five in two minutes raise it to an hour. Clocks that disagree are another
  matter: a worker whose clock is behind moves the bucket's time back, and the others refill it again.
\<close>

section \<open>Arithmetic\<close>

lemma elapsed_bounds:
  "0 \<le> max 0 (Milliseconds (time_sub now upd))" "max 0 (Milliseconds (time_sub now upd)) \<le> 9223372036854"
  "upd \<le> now \<Longrightarrow> max 0 (Milliseconds (time_sub now upd)) * 1000000 \<le> now - upd"
proof -
  show "0 \<le> max 0 (Milliseconds (time_sub now upd))" by simp
  have le: "time_sub now upd \<le> 9223372036854775807" by (simp add: time_sub_def)
  show "max 0 (Milliseconds (time_sub now upd)) \<le> 9223372036854"
  proof (cases "0 \<le> time_sub now upd")
    case True
    then show ?thesis using zdiv_mono1 [OF le, of 1000000] by (simp add: Milliseconds_def quot_pos)
  next
    case False
    then show ?thesis by (simp add: Milliseconds_def quot_def div_int_pos_iff)
  qed
  assume "upd \<le> now"
  then have "0 \<le> time_sub now upd" "time_sub now upd \<le> now - upd" by (simp_all add: time_sub_def)
  then show "max 0 (Milliseconds (time_sub now upd)) * 1000000 \<le> now - upd"
    using div_ge_iff [of 1000000 "time_sub now upd div 1000000" "time_sub now upd"]
    by (simp add: Milliseconds_def quot_pos max_def)
qed

definition refill :: "int \<Rightarrow> time \<Rightarrow> time \<Rightarrow> int" where
  "refill rate now upd = max 0 (Milliseconds (time_sub now upd)) * rate div 1000"

lemma refill_exact:
  assumes "0 < rate" and "rate \<le> 1000000"
  shows "quot (wrap64 (max 0 (Milliseconds (time_sub now upd)) * rate)) 1000 = refill rate now upd"
    and "0 \<le> refill rate now upd" and "refill rate now upd \<le> 9223372036854000"
    and "upd \<le> now \<Longrightarrow> refill rate now upd * 1000000000 \<le> rate * (now - upd)"
proof -
  let ?e = "max 0 (Milliseconds (time_sub now upd))"
  have e: "0 \<le> ?e" "?e \<le> 9223372036854" by (rule elapsed_bounds)+
  have p: "0 \<le> ?e * rate" "?e * rate \<le> 9223372036854 * 1000000"
    using e assms by (simp, intro mult_mono) simp_all
  then have "is_int64 (?e * rate)" by (simp add: is_int64_def)
  then show "quot (wrap64 (?e * rate)) 1000 = refill rate now upd" using p(1) by (simp add: refill_def quot_pos)
  show "0 \<le> refill rate now upd" using p(1) by (simp add: refill_def pos_imp_zdiv_nonneg_iff)
  show "refill rate now upd \<le> 9223372036854000" using zdiv_mono1 [OF p(2), of 1000] by (simp add: refill_def)
  assume "upd \<le> now"
  have "refill rate now upd * 1000 \<le> ?e * rate" using div_ge_iff [of 1000 "refill rate now upd" "?e * rate"] by (simp add: refill_def)
  moreover have "?e * 1000000 * rate \<le> (now - upd) * rate"
    using elapsed_bounds(3) [OF \<open>upd \<le> now\<close>] assms(1) by (intro mult_right_mono) simp_all
  ultimately show "refill rate now upd * 1000000000 \<le> rate * (now - upd)" by (simp add: algebra_simps)
qed

text \<open>The tokens of a bucket the code wrote.\<close>

lemma tokens_at_exact:
  assumes "0 < rate" and "rate \<le> 1000000" and "0 \<le> \<tau>" and "\<tau> \<le> capacityMilli rate" and "upd \<noteq> 0"
  shows "tokens_at rate now \<lparr>bs_TokensMilli = \<tau>, bs_UpdatedAt = upd\<rparr> = min (capacityMilli rate) (\<tau> + refill rate now upd)"
proof -
  have "is_int64 (\<tau> + refill rate now upd)"
    using refill_exact(2,3) [OF assms(1,2), of now upd] assms(2-4) by (simp add: is_int64_def capacityMilli_def)
  then show ?thesis using assms(5) refill_exact(1) [OF assms(1,2), of now upd] by (simp add: tokens_at_def Let_def)
qed

lemma tokens_at_full:
  assumes "0 < rate" and "rate \<le> 1000000"
  shows "tokens_at rate now \<lparr>bs_TokensMilli = \<tau>, bs_UpdatedAt = 0\<rparr> = capacityMilli rate"
proof -
  have "refill rate now now = 0" by (simp add: refill_def time_sub_def Milliseconds_def quot_def)
  moreover have "is_int64 (capacityMilli rate)" using assms by (simp add: is_int64_def capacityMilli_def)
  ultimately show ?thesis using refill_exact(1) [OF assms, of now now] by (simp add: tokens_at_def Let_def)
qed

lemma tokens_at_le: "tokens_at rate now bs \<le> capacityMilli rate"
  by (simp add: tokens_at_def Let_def)

section \<open>One turn of the loop, undisturbed\<close>

definition token_choice :: "int \<Rightarrow> time \<Rightarrow> (nat \<times> throttle_value) option \<Rightarrow> bool + bool \<times> throttle_value" where
  "token_choice rate now cur =
     (case acquire_decide rate now (current_bucket cur) of
        WaitFor _ \<Rightarrow> Inl False
      | Granted bs \<Rightarrow> Inr (True, TokenValue bs))"

definition worker_at :: "time \<Rightarrow> worker" where
  "worker_at now = \<lparr>wk_now = (\<lambda>_. now), wk_cancelled = (\<lambda>_. False)\<rparr>"

lemma token_choice_eq:
  "token_choice rate now cur =
     (if tokens_at rate now (current_bucket cur) \<ge> 1000
      then Inr (True, TokenValue \<lparr>bs_TokensMilli = tokens_at rate now (current_bucket cur) - 1000, bs_UpdatedAt = now\<rparr>)
      else Inl False)"
  by (simp add: token_choice_def acquire_decide_def Let_def)

lemma acquire_one:
  assumes "0 \<le> t"
  obtains b' where
    "acquire_loop (alone t) (worker_at now) k rate 1 i b =
       (if tokens_at rate now (current_bucket (kv_content b t k)) \<ge> 1000 then Some (Inr ()) else None, b')"
    "stays k (if tokens_at rate now (current_bucket (kv_content b t k)) \<ge> 1000
       then Some (TokenValue \<lparr>bs_TokensMilli = tokens_at rate now (current_bucket (kv_content b t k)) - 1000, bs_UpdatedAt = now\<rparr>)
       else None) b t b'"
proof (rule optimistic_alone [OF assms, of k "token_choice rate now" 0 i None b])
  fix b'
  assume o: "optimistic (alone t) k (token_choice rate now) (Suc 0) i None b =
      (Inr (case token_choice rate now (kv_content b t k) of Inl x \<Rightarrow> x | Inr (x, v) \<Rightarrow> x), b')"
    and s: "stays k (case token_choice rate now (kv_content b t k) of Inl x \<Rightarrow> None | Inr (x, v) \<Rightarrow> Some v) b t b'"
  have rd: "call (alone t) j (get_current k) b = (Inr (kv_content b t k), snd (kv_Get b k t))" for j
    by (simp add: call_def alone_def get_current_content)
  have al: "call (alone t) j f c = f c t" for j f c by (simp add: call_def alone_def)
  show thesis
  proof (rule that [of b'])
    show "acquire_loop (alone t) (worker_at now) k rate 1 i b =
       (if tokens_at rate now (current_bucket (kv_content b t k)) \<ge> 1000 then Some (Inr ()) else None, b')"
      using o by (auto simp: rd al token_choice_eq worker_at_def acquire_decide_def Let_def split: sum.splits prod.splits if_splits)
  next
    show "stays k (if tokens_at rate now (current_bucket (kv_content b t k)) \<ge> 1000
       then Some (TokenValue \<lparr>bs_TokensMilli = tokens_at rate now (current_bucket (kv_content b t k)) - 1000, bs_UpdatedAt = now\<rparr>)
       else None) b t b'"
      using s by (cases "tokens_at rate now (current_bucket (kv_content b t k)) \<ge> 1000") (simp_all add: token_choice_eq)
  qed
qed

text \<open>The requests let through when workers try at the times given, each by its own clock.\<close>

fun serve_tokens :: "string \<Rightarrow> int \<Rightarrow> (time \<times> time) list \<Rightarrow> throttle_bucket \<Rightarrow> time list" where
  "serve_tokens uid rateMilli [] b = []"
| "serve_tokens uid rateMilli ((t, now) # ts) b =
     (case Acquire (alone t) (worker_at now) uid rateMilli 1 b of
        (Some (Inr _), b') \<Rightarrow> now # serve_tokens uid rateMilli ts b'
      | (_, b') \<Rightarrow> serve_tokens uid rateMilli ts b')"

section \<open>Rate and burst\<close>

definition burst :: "int \<Rightarrow> int" where "burst rate = capacityMilli rate * 1000000000"

text \<open>The bucket accounts for the requests let through: since any moment, they and its tokens are within the rate and the burst.\<close>

definition accounted :: "int \<Rightarrow> int \<Rightarrow> time list \<Rightarrow> bool" where
  "accounted rate \<tau> gs \<longleftrightarrow> 0 \<le> \<tau> \<and> \<tau> \<le> capacityMilli rate \<and> 0 < last gs \<and>
     (\<forall>u \<le> last gs. int (length (filter (\<lambda>g. u \<le> g) gs)) * 1000000000000 + \<tau> * 1000000000 \<le> burst rate + rate * (last gs - u))"

definition keeps_tokens :: "string \<Rightarrow> throttle_bucket \<Rightarrow> time \<Rightarrow> int \<Rightarrow> time \<Rightarrow> bool" where
  "keeps_tokens k b s \<tau> upd \<longleftrightarrow>
     (\<forall>t \<ge> s. map_option snd (kv_content b t k) = Some (TokenValue \<lparr>bs_TokensMilli = \<tau>, bs_UpdatedAt = upd\<rparr>) \<or>
        kv_content b t k = None \<and> upd + 1000 * second \<le> t)"

definition token_covers :: "string \<Rightarrow> int \<Rightarrow> throttle_bucket \<Rightarrow> time \<Rightarrow> time list \<Rightarrow> bool" where
  "token_covers k rate b s gs \<longleftrightarrow> gs = [] \<or> (\<exists>\<tau>. accounted rate \<tau> gs \<and> keeps_tokens k b s \<tau> (last gs))"

lemma token_covers_later:
  assumes "token_covers k rate b s gs" and "s \<le> t" and "\<And>t'. t \<le> t' \<Longrightarrow> kv_content b' t' = kv_content b t'"
  shows "token_covers k rate b' t gs"
proof -
  have "keeps_tokens k b' t \<tau> upd" if "keeps_tokens k b s \<tau> upd" for \<tau> upd
    using that assms(2,3) by (simp add: keeps_tokens_def)
  with assms(1) show ?thesis unfolding token_covers_def by blast
qed

text \<open>At the time of the next try, the tokens there are account for what was let through.\<close>

lemma tokens_accounted:
  assumes "0 < rate" and "rate \<le> 1000000" and "token_covers k rate b s gs" and "gs \<noteq> []" and "last gs \<le> t" and "s \<le> t" and "u \<le> last gs"
  shows "int (length (filter (\<lambda>g. u \<le> g) gs)) * 1000000000000 + tokens_at rate t (current_bucket (kv_content b t k)) * 1000000000
    \<le> burst rate + rate * (t - u)"
proof -
  define n where "n = int (length (filter (\<lambda>g. u \<le> g) gs)) * 1000000000000"
  from assms(3,4) obtain \<tau> where a: "accounted rate \<tau> gs" and c: "keeps_tokens k b s \<tau> (last gs)"
    unfolding token_covers_def by blast
  from a have \<tau>: "0 \<le> \<tau>" "\<tau> \<le> capacityMilli rate" "0 < last gs" by (simp_all add: accounted_def)
  have n': "n + \<tau> * 1000000000 \<le> burst rate + rate * (last gs - u)" using a assms(7) by (simp add: accounted_def n_def)
  have split: "rate * (t - u) = rate * (last gs - u) + rate * (t - last gs)" by (simp add: algebra_simps)
  from c [unfolded keeps_tokens_def, rule_format, OF assms(6)]
  have "n + tokens_at rate t (current_bucket (kv_content b t k)) * 1000000000 \<le> burst rate + rate * (t - u)"
  proof (elim disjE conjE)
    assume "map_option snd (kv_content b t k) = Some (TokenValue \<lparr>bs_TokensMilli = \<tau>, bs_UpdatedAt = last gs\<rparr>)"
    then have "current_bucket (kv_content b t k) = \<lparr>bs_TokensMilli = \<tau>, bs_UpdatedAt = last gs\<rparr>"
      by (auto simp: current_bucket_def)
    then have "tokens_at rate t (current_bucket (kv_content b t k)) \<le> \<tau> + refill rate t (last gs)"
      using tokens_at_exact [OF assms(1,2) \<tau>(1,2), of "last gs" t] \<tau>(3) by simp
    with n' split refill_exact(4) [OF assms(1,2,5)] show ?thesis by linarith
  next
    assume 2: "kv_content b t k = None" "last gs + 1000 * second \<le> t"
    have "tokens_at rate t (current_bucket (kv_content b t k)) = capacityMilli rate"
      using tokens_at_full [OF assms(1,2)] 2(1) by (simp add: current_bucket_def)
    moreover have r: "rate * 1000000000000 \<le> rate * (t - last gs)" using 2(2) assms(1) by (intro mult_left_mono) (simp_all add: second_def)
    have "burst rate \<le> rate * 1000000000000" using assms(1) by (simp add: burst_def capacityMilli_def max_def)
    then have "burst rate \<le> rate * (t - last gs)" using r by (rule order_trans)
    moreover have "capacityMilli rate * 1000000000 = burst rate" by (simp add: burst_def)
    ultimately show ?thesis using n' split \<tau>(1) by simp
  qed
  then show ?thesis by (simp only: n_def)
qed

lemma sorted_le_last: "sorted xs \<Longrightarrow> x \<in> set xs \<Longrightarrow> x \<le> last xs"
  by (induction xs rule: rev_induct) (auto simp: sorted_append)

lemma token_covers_step:
  assumes "0 < rate" and "rate \<le> 1000000" and "token_covers k rate b s gs" and "\<forall>g \<in> set gs. g \<le> t" and "s \<le> t" and "0 < t"
    and "b_TTL b \<le> 0 \<or> 1000 * second \<le> b_TTL b"
    and "acquire_loop (alone t) (worker_at t) k rate 1 i b = (r, b')" and "sorted gs"
  shows "b_TTL b' = b_TTL b \<and> token_covers k rate b' t (gs @ (if r = None then [] else [t]))"
proof -
  let ?n = "tokens_at rate t (current_bucket (kv_content b t k))"
  have r: "r = (if ?n \<ge> 1000 then Some (Inr ()) else None)"
    and st: "stays k (if ?n \<ge> 1000 then Some (TokenValue \<lparr>bs_TokensMilli = ?n - 1000, bs_UpdatedAt = t\<rparr>) else None) b t b'"
  proof -
    obtain b'' where "acquire_loop (alone t) (worker_at t) k rate 1 i b = (if ?n \<ge> 1000 then Some (Inr ()) else None, b'')"
      "stays k (if ?n \<ge> 1000 then Some (TokenValue \<lparr>bs_TokensMilli = ?n - 1000, bs_UpdatedAt = t\<rparr>) else None) b t b''"
      by (rule acquire_one [of t t k rate i b]) (use assms(6) in simp)
    with assms(8) show "r = (if ?n \<ge> 1000 then Some (Inr ()) else None)"
      "stays k (if ?n \<ge> 1000 then Some (TokenValue \<lparr>bs_TokensMilli = ?n - 1000, bs_UpdatedAt = t\<rparr>) else None) b t b'" by simp_all
  qed
  show ?thesis
  proof (cases "?n \<ge> 1000")
    case False
    then have "\<And>t'. t \<le> t' \<Longrightarrow> kv_content b' t' = kv_content b t'" "b_TTL b' = b_TTL b" using st by (simp_all add: stays_def)
    with token_covers_later [OF assms(3,5)] r False show ?thesis by simp
  next
    case True
    have c: "map_option snd (kv_content b' t' k) = Some (TokenValue \<lparr>bs_TokensMilli = ?n - 1000, bs_UpdatedAt = t\<rparr>) \<or>
        kv_content b' t' k = None \<and> t + 1000 * second \<le> t'" if "t \<le> t'" for t'
    proof -
      have s: "map_option snd (kv_content b' t' k) =
          (if lasting b t t' then Some (TokenValue \<lparr>bs_TokensMilli = ?n - 1000, bs_UpdatedAt = t\<rparr>) else None)"
        using st that True by (simp add: stays_def)
      show ?thesis
      proof (cases "lasting b t t'")
        case False
        with s have "kv_content b' t' k = None" by simp
        moreover have "t + 1000 * second \<le> t'" using False assms(7) by (auto simp: lasting_def)
        ultimately show ?thesis by blast
      qed (simp add: s)
    qed
    have n: "int (length (filter (\<lambda>g. u \<le> g) (gs @ [t]))) * 1000000000000 + (?n - 1000) * 1000000000 \<le> burst rate + rate * (t - u)"
      if "u \<le> t" for u
    proof (cases "gs \<noteq> [] \<and> u \<le> last gs")
      case True
      then have "last gs \<le> t" using assms(4) last_in_set by blast
      with tokens_accounted [OF assms(1-3) _ _ assms(5), of u] True that show ?thesis by simp
    next
      case False
      have "\<not> u \<le> g" if "g \<in> set gs" for g
        using that False sorted_le_last [OF assms(9) that] by (cases gs) auto
      then have "filter (\<lambda>g. u \<le> g) gs = []" by (simp add: filter_empty_conv)
      moreover have "?n * 1000000000 \<le> burst rate"
        using tokens_at_le [of rate t "current_bucket (kv_content b t k)"] by (simp add: burst_def)
      moreover have "0 \<le> rate * (t - u)" using assms(1) that by simp
      ultimately show ?thesis using that by (simp add: algebra_simps)
    qed
    have "0 \<le> ?n - 1000" "?n - 1000 \<le> capacityMilli rate" using True tokens_at_le [of rate t "current_bucket (kv_content b t k)"] by simp_all
    then have "accounted rate (?n - 1000) (gs @ [t])" using n assms(6) by (simp add: accounted_def del: filter_append)
    moreover have "keeps_tokens k b' t (?n - 1000) t" using c by (simp add: keeps_tokens_def)
    ultimately have "token_covers k rate b' t (gs @ [t])" unfolding token_covers_def last_snoc by blast
    then show ?thesis using r True st by (simp add: stays_def)
  qed
qed

lemma serve_tokens_window:
  assumes "0 < rate" and "rate \<le> 1000000" and "b_TTL b \<le> 0 \<or> 1000 * second \<le> b_TTL b" and "sorted ts"
    and "\<forall>t \<in> set ts. 0 < t \<and> s \<le> t" and "token_covers (TokenBucketKey uid) rate b s gs" and "sorted gs" and "\<forall>g \<in> set gs. g \<le> s"
    and "\<forall>u T. u \<le> T \<longrightarrow> int (length (filter (\<lambda>g. u \<le> g \<and> g \<le> T) gs)) * 1000000000000 \<le> burst rate + rate * (T - u)"
    and "u \<le> T"
  shows "int (length (filter (\<lambda>g. u \<le> g \<and> g \<le> T) (gs @ serve_tokens uid rate (map (\<lambda>t. (t, t)) ts) b))) * 1000000000000
    \<le> burst rate + rate * (T - u)"
  using assms(3-9)
proof (induction ts arbitrary: b s gs)
  case Nil
  then show ?case using assms(10) by simp
next
  case (Cons t ts)
  let ?k = "TokenBucketKey uid"
  have r': "rateOf rate = rate" using assms(1) by (simp add: rateOf_def)
  obtain r b' where r: "acquire_loop (alone t) (worker_at t) ?k rate 1 0 b = (r, b')" by (meson surj_pair)
  have rr: "r = None \<or> r = Some (Inr ())"
  proof (rule acquire_one [of t t ?k rate 0 b])
    show "0 \<le> t" using Cons.prems(3) by simp
  qed (use r in \<open>simp split: if_splits\<close>)
  let ?gs = "gs @ (if r = None then [] else [t])"
  have le: "\<forall>g \<in> set gs. g \<le> t" using Cons.prems(3,6) by fastforce
  have c: "b_TTL b' = b_TTL b" "token_covers ?k rate b' t ?gs"
    using token_covers_step [OF assms(1,2) Cons.prems(4) le _ _ Cons.prems(1) r Cons.prems(5)] Cons.prems(3) by simp_all
  have w: "int (length (filter (\<lambda>g. v \<le> g \<and> g \<le> T') ?gs)) * 1000000000000 \<le> burst rate + rate * (T' - v)" if "v \<le> T'" for v T'
  proof (cases "r = None \<or> T' < t \<or> t < v")
    case True
    then show ?thesis using Cons.prems(7) that by auto
  next
    case False
    then have a: "t \<le> T'" "v \<le> t" "r \<noteq> None" by simp_all
    then obtain \<tau> where "accounted rate \<tau> (gs @ [t])" using c(2) by (auto simp: token_covers_def)
    then have "0 \<le> \<tau>" "int (length (filter (\<lambda>g. v \<le> g) (gs @ [t]))) * 1000000000000 + \<tau> * 1000000000 \<le> burst rate + rate * (t - v)"
      using a(2) by (simp_all add: accounted_def del: filter_append)
    then have "int (length (filter (\<lambda>g. v \<le> g) (gs @ [t]))) * 1000000000000 \<le> burst rate + rate * (t - v)" by linarith
    moreover have "length (filter (\<lambda>g. v \<le> g \<and> g \<le> T') (gs @ [t])) \<le> length (filter (\<lambda>g. v \<le> g) (gs @ [t]))"
      by (induction gs) auto
    moreover have "rate * (t - v) \<le> rate * (T' - v)" using assms(1) a(1) by (intro mult_left_mono) simp_all
    ultimately show ?thesis using a(3) by simp
  qed
  have gs: "sorted ?gs" "\<forall>g \<in> set ?gs. g \<le> t" using Cons.prems(5) le by (auto simp: sorted_append)
  have ttl: "b_TTL b' \<le> 0 \<or> 1000 * second \<le> b_TTL b'" using Cons.prems(1) c(1) by simp
  have ts: "sorted ts" "\<forall>t' \<in> set ts. 0 < t' \<and> t \<le> t'" using Cons.prems(2,3) by simp_all
  have "int (length (filter (\<lambda>g. u \<le> g \<and> g \<le> T) (?gs @ serve_tokens uid rate (map (\<lambda>t. (t, t)) ts) b'))) * 1000000000000
      \<le> burst rate + rate * (T - u)"
    by (rule Cons.IH [OF ttl ts c(2) gs]) (use w in blast)
  with rr r show ?case by (elim disjE) (simp_all add: Acquire_def r' del: acquire_loop.simps)
qed


section \<open>A worker that waits gets its token\<close>

text \<open>A world in which nobody else writes and no call fails, with the bus's clock of each call.\<close>

definition quiet :: "(nat \<Rightarrow> time) \<Rightarrow> throttle_world" where
  "quiet clk = \<lparr>w_turn = (\<lambda>_ b. b), w_clock = clk, w_fault = (\<lambda>_. None)\<rparr>"

definition written :: "int \<Rightarrow> bucketState \<Rightarrow> bool" where
  "written rate bs \<longleftrightarrow> 0 \<le> bs_TokensMilli bs \<and> bs_TokensMilli bs \<le> capacityMilli rate"

lemma enough_time:
  assumes "0 < rate" and "rate \<le> 1000000" and "written rate bs" and "bs_UpdatedAt bs + 1000 * second \<le> now"
  shows "1000 \<le> tokens_at rate now bs"
proof -
  obtain \<tau> upd where bs: "bs = \<lparr>bs_TokensMilli = \<tau>, bs_UpdatedAt = upd\<rparr>" by (cases bs) auto
  have "1000000 * 1000000 \<le> time_sub now upd" using assms(4) by (simp add: time_sub_def bs second_def)
  then have "1000000 \<le> Milliseconds (time_sub now upd)"
    using div_ge_iff [of 1000000 1000000 "time_sub now upd"] by (simp add: Milliseconds_def quot_pos)
  then have "1000000 * 1 \<le> max 0 (Milliseconds (time_sub now upd)) * rate" using assms(1) by (intro mult_mono) simp_all
  then have "1000 \<le> refill rate now upd" using div_ge_iff [of 1000 1000] by (simp add: refill_def)
  then show ?thesis
    using assms(3) tokens_at_full [OF assms(1,2), of now \<tau>] tokens_at_exact [OF assms(1,2), of \<tau> upd now]
    by (cases "upd = 0") (simp_all add: bs written_def capacityMilli_def)
qed

lemma acquire_granted:
  assumes "\<And>i. \<not> wk_cancelled wk i" and "mono clk" and "\<And>t. clk (2 * i) \<le> t \<Longrightarrow> kv_content b t k = c"
    and "acquire_decide rate (wk_now wk i) (current_bucket c) = Granted bs"
  shows "fst (acquire_loop (quiet clk) wk k rate (Suc n) i b) = Some (Inr ())"
proof -
  let ?b1 = "snd (kv_Get b k (clk (2 * i)))" and ?t = "clk (2 * i + 1)"
  have le: "clk (2 * i) \<le> ?t" using assms(2) by (simp add: mono_def)
  have rd: "call (quiet clk) (2 * i) (get_current k) b = (Inr c, ?b1)"
    using assms(3) by (simp add: call_def quiet_def get_current_content)
  have "kv_content ?b1 ?t k = c" using Get_content [OF le, of b k] assms(3) [OF le] by simp
  then obtain m where "fst (put_current k (TokenValue bs) (map_option fst c) ?b1 ?t) = Inr m"
    using put_current_ok [of ?b1 ?t k] by blast
  then have "fst (call (quiet clk) (2 * i + 1) (put_current k (TokenValue bs) (map_option fst c)) ?b1) = Inr m"
    by (simp add: call_def quiet_def)
  with assms(1,4) rd show ?thesis by (auto split: prod.splits)
qed

lemma acquire_waits:
  assumes "0 < rate" and "rate \<le> 1000000" and "\<And>i. \<not> wk_cancelled wk i" and "mono clk"
    and "\<And>t. clk (2 * i) \<le> t \<Longrightarrow> kv_content b t k = c" and "written rate (current_bucket c)"
    and "bs_UpdatedAt (current_bucket c) + 1000 * second \<le> wk_now wk (i + n)"
  shows "fst (acquire_loop (quiet clk) wk k rate (Suc n) i b) = Some (Inr ())"
  using assms(5,7)
proof (induction n arbitrary: i b)
  case (Suc n)
  let ?b1 = "snd (kv_Get b k (clk (2 * i)))"
  show ?case
  proof (cases "acquire_decide rate (wk_now wk i) (current_bucket c)")
    case (Granted bs)
    from acquire_granted [OF assms(3,4) Suc.prems(1) Granted] show ?thesis .
  next
    case (WaitFor d)
    have "kv_content ?b1 t k = c" if "clk (2 * Suc i) \<le> t" for t
    proof -
      have "clk (2 * i) \<le> t" using that monoD [OF assms(4), of "2 * i" "2 * Suc i"] by simp
      then show ?thesis using Get_content [of "clk (2 * i)" t b k] Suc.prems(1) by simp
    qed
    then have "fst (acquire_loop (quiet clk) wk k rate (Suc n) (Suc i) ?b1) = Some (Inr ())"
      using Suc.IH [of "Suc i" ?b1] Suc.prems(2) by simp
    moreover have "call (quiet clk) (2 * i) (get_current k) b = (Inr c, ?b1)"
      using Suc.prems(1) by (simp add: call_def quiet_def get_current_content)
    ultimately show ?thesis
      using WaitFor assms(3) acquire_loop.simps(2) [of "quiet clk" wk k rate "Suc n" i b] by (simp del: acquire_loop.simps)
  qed
next
  case 0
  obtain bs where "acquire_decide rate (wk_now wk i) (current_bucket c) = Granted bs"
    using enough_time [OF assms(1,2,6)] 0(2) by (simp add: acquire_decide_def Let_def)
  from acquire_granted [OF assms(3,4) 0(1) this] show ?case .
qed


section \<open>Errors\<close>


lemma record_error_until:
  "st_ThrottledUntil (record_error reason dur now st) =
     Some (let u = (case st_ThrottledUntil st of None \<Rightarrow> now + dur | Some x \<Rightarrow> max x (now + dur))
           in if 5 \<le> length (pruneErrorRing (st_ErrorTimestamps st @ [unix now]) now) then max u (now + hour) else u)"
  by (cases "st_ThrottledUntil st")
     (auto simp: record_error_def Let_def later_than_def ErrorStrikeThreshold_def errorStrikeFloor_def max_def)

lemma record_error_fields:
  "st_ErrorsLast120s (record_error reason dur now st) = int (length (pruneErrorRing (st_ErrorTimestamps st @ [unix now]) now))"
  "st_JWT (record_error reason dur now st) = st_JWT st" "st_Quota (record_error reason dur now st) = st_Quota st"
  "st_LastSuccessAt (record_error reason dur now st) = st_LastSuccessAt st"
  by (simp_all add: record_error_def Let_def)

text \<open>A recorded error never shortens a throttle. Whatever others write meanwhile, an error that is recorded takes
  effect on the provider's state at one moment: from then on the provider is throttled until no earlier
  than its throttle at that moment, than the error's own duration from now, and, when five errors fall
  in the last two minutes, than an hour from now; the login, the quota and the last success are kept.\<close>

theorem error_never_shortens:
  assumes "bucket_ok b" and "orderly w" and "RecordError w ptype uid cause now b = (Inr st, b')"
  shows "\<exists>t c u n. timed_run kv_step 0 b t c \<and> kv_content b' t = (kv_content c t)(ProviderKey uid \<mapsto> (n, StateValue st)) \<and>
    (let old = current_state (kv_content c t (ProviderKey uid)) in
       st_ThrottledUntil st = Some u \<and> now + snd (ThrottleFor ptype cause) \<le> u \<and>
       (\<forall>x. st_ThrottledUntil old = Some x \<longrightarrow> x \<le> u) \<and> (5 \<le> st_ErrorsLast120s st \<longrightarrow> now + hour \<le> u) \<and>
       st_ErrorsLast120s st = int (length (pruneErrorRing (st_ErrorTimestamps old @ [unix now]) now)) \<and>
       st_JWT st = st_JWT old \<and> st_Quota st = st_Quota old \<and> st_LastSuccessAt st = st_LastSuccessAt old)"
proof -
  obtain reason dur where d: "ThrottleFor ptype cause = (reason, dur)" by (cases "ThrottleFor ptype cause")
  have reach: "reached w b 0 b" using assms(1) by (simp add: reached_def)
  have o: "optimistic w (ProviderKey uid) (mutate_choice (record_error reason dur now)) stateCASAttempts 0 None b = (Inr st, b')"
    using assms(3) by (simp add: RecordError_def mutateState_def d)
  obtain t c where run: "timed_run kv_step 0 b t c"
    and e: "took_effect (ProviderKey uid) (mutate_choice (record_error reason dur now)) c t st b'"
    using optimistic_atomic [OF assms(2) reach o] by blast
  define old where "old = current_state (kv_content c t (ProviderKey uid))"
  from e obtain n where st: "st = record_error reason dur now old"
    and n: "kv_content b' t = (kv_content c t)(ProviderKey uid \<mapsto> (n, StateValue st))"
    by (auto simp: took_effect_def mutate_choice_def Let_def old_def)
  obtain u where u: "st_ThrottledUntil st = Some u" "now + dur \<le> u" "\<forall>x. st_ThrottledUntil old = Some x \<longrightarrow> x \<le> u"
    "5 \<le> st_ErrorsLast120s st \<longrightarrow> now + hour \<le> u"
    "st_ErrorsLast120s st = int (length (pruneErrorRing (st_ErrorTimestamps old @ [unix now]) now))"
    "st_JWT st = st_JWT old \<and> st_Quota st = st_Quota old \<and> st_LastSuccessAt st = st_LastSuccessAt old"
    by (rule that [of "the (st_ThrottledUntil st)"]) (auto simp: st record_error_until record_error_fields Let_def split: option.split)
  show ?thesis
    by (intro exI [of _ t] exI [of _ c] exI [of _ u] exI [of _ n]) (use run n u d old_def in \<open>simp add: Let_def\<close>)
qed

section \<open>Samples\<close>

definition sample_throttle :: throttle_bucket where
  "sample_throttle = \<lparr>b_Name = ''clustarr-provider-throttle'', b_TTL = 24 * hour, b_rev = 0, b_vals = [], b_watchers = [], b_created = 0\<rparr>"


definition sample_worker :: worker where
  "sample_worker = \<lparr>wk_now = (\<lambda>i. unix_epoch + int i * minAcquireSleep), wk_cancelled = (\<lambda>_. False)\<rparr>"


theorem error_never_shortens_witness:
  "\<exists>st b' u. RecordError (alone unix_epoch) ''subdl'' ''p1'' None unix_epoch sample_throttle = (Inr st, b') \<and>
     st_ThrottledUntil st = Some u \<and> unix_epoch + hour \<le> u"
proof -
  have pos: "0 \<le> unix_epoch" by (simp add: unix_epoch_def second_def)
  have ok: "bucket_ok sample_throttle" by (simp add: bucket_ok_def sample_throttle_def table_simps)
  obtain st b' where r: "RecordError (alone unix_epoch) ''subdl'' ''p1'' None unix_epoch sample_throttle = (Inr st, b')"
  proof (rule optimistic_alone [OF pos, of "ProviderKey ''p1''" "mutate_choice (record_error ''unknown'' hour unix_epoch)" 24 0 None sample_throttle])
    fix b'
    assume "optimistic (alone unix_epoch) (ProviderKey ''p1'') (mutate_choice (record_error ''unknown'' hour unix_epoch)) (Suc 24) 0 None
        sample_throttle = (Inr (case mutate_choice (record_error ''unknown'' hour unix_epoch)
          (kv_content sample_throttle unix_epoch (ProviderKey ''p1'')) of Inl x \<Rightarrow> x | Inr (x, v) \<Rightarrow> x), b')"
    then show thesis
      by (intro that) (simp add: RecordError_def ThrottleFor_def mutateState_def stateCASAttempts_def del: optimistic.simps)
  qed
  from error_never_shortens [OF ok alone_orderly [OF pos] r] r show ?thesis by (auto simp: ThrottleFor_def Let_def)
qed

section \<open>Clocks that disagree\<close>

text \<open>Two workers at one moment, the clock of one ten seconds behind the other's: the worker behind sets the bucket's time
  back, and the one ahead refills it, so twenty requests pass at once at a rate and burst of five.\<close>

lemma skewed_clocks_overspend:
  "length (serve_tokens ''p1'' 5000
     (concat (replicate 10 [(unix_epoch, unix_epoch + 10 * second), (unix_epoch, unix_epoch)])) sample_throttle) = 20"
  by code_simp

text \<open>The floor five errors raise the throttle to keeps the reason of an earlier throttle.\<close>

lemma strike_floor_keeps_reason:
  "st_ThrottleReason (record_error KindTooManyRequests minute unix_epoch
     (zeroState\<lparr>st_ThrottledUntil := Some (unix_epoch + 2 * minute), st_ThrottleReason := KindAPIThrottled, st_ErrorTimestamps := [0, 0, 0, 0]\<rparr>)) =
     KindAPIThrottled"
  by code_simp

end
