(* ===== verification/QualityLadder.thy ===== *)
theory QualityLadder
  imports QualityModel
begin

text \<open>
  The qualities of the library: the quality
  ladders (\<^verbatim>\<open>pkg/quality/definition.go\<close>), the release parser's table of qualities (\<^verbatim>\<open>pkg/release/quality.go\<close>)
  and the correction of a parsed quality by a probe of the file (\<^verbatim>\<open>pkg/quality/augment.go\<close>). The two tables are
  shown to agree, and the correction to stay on them.
\<close>

section \<open>The ladders\<close>

text \<open>The three sizes are \<^verbatim>\<open>float64\<close> in the source; the ladders hold only whole ones.\<close>

record Definition =
  df_Quality :: Quality
  df_Name :: string
  df_Aliases :: "string list"
  df_Weight :: int
  df_MinMBPerMin :: int
  df_PrefMBPerMin :: int
  df_MaxMBPerMin :: int
  df_Group :: string

definition video_def :: "string \<Rightarrow> string list \<Rightarrow> int \<Rightarrow> string \<Rightarrow> int \<Rightarrow> string \<Rightarrow> int \<Rightarrow> int \<Rightarrow> string \<Rightarrow> Definition" where
  "video_def name aliases weight src res mod' pref max' grp =
     \<lparr>df_Quality = \<lparr>q_Name = name, q_Source = src, q_Resolution = res, q_Modifier = mod'\<rparr>, df_Name = name, df_Aliases = aliases,
      df_Weight = weight, df_MinMBPerMin = 0, df_PrefMBPerMin = pref, df_MaxMBPerMin = max', df_Group = grp\<rparr>"

definition plain_def :: "string \<Rightarrow> string list \<Rightarrow> int \<Rightarrow> Definition" where
  "plain_def name aliases weight = video_def name aliases weight '''' 0 '''' 0 0 ''''"

definition videoDefinitions :: "Definition list" where
  "videoDefinitions =
    [video_def ''Unknown'' [] 1 '''' 0 ModifierNone 95 100 '''',
     video_def ''WORKPRINT'' [] 2 SourceWorkprint 0 ModifierNone 95 100 '''',
     video_def ''CAM'' [] 3 SourceCam 0 ModifierNone 95 100 '''',
     video_def ''TELESYNC'' [] 4 SourceTelesync 0 ModifierNone 95 100 '''',
     video_def ''TELECINE'' [] 5 SourceTelecine 0 ModifierNone 95 100 '''',
     video_def ''REGIONAL'' [] 6 SourceDVD Resolution480p ModifierRegional 95 100 '''',
     video_def ''DVDSCR'' [] 7 SourceDVD Resolution480p ModifierScreener 95 100 '''',
     video_def ''SDTV'' [] 8 SourceTV Resolution480p ModifierNone 95 100 '''',
     video_def ''DVD'' [] 9 SourceDVD 0 ModifierNone 95 100 '''',
     video_def ''DVD-R'' [] 10 SourceDVD Resolution480p ModifierRemux 95 100 '''',
     video_def ''WEBDL-480p'' [] 11 SourceWebDL Resolution480p ModifierNone 95 100 ''WEB 480p'',
     video_def ''WEBRip-480p'' [] 11 SourceWebRip Resolution480p ModifierNone 95 100 ''WEB 480p'',
     video_def ''Bluray-480p'' [] 12 SourceBluray Resolution480p ModifierNone 95 100 '''',
     video_def ''Bluray-576p'' [] 13 SourceBluray Resolution576p ModifierNone 95 100 '''',
     video_def ''HDTV-720p'' [] 14 SourceTV Resolution720p ModifierNone 95 100 '''',
     video_def ''WEBDL-720p'' [] 15 SourceWebDL Resolution720p ModifierNone 95 100 ''WEB 720p'',
     video_def ''WEBRip-720p'' [] 15 SourceWebRip Resolution720p ModifierNone 95 100 ''WEB 720p'',
     video_def ''Bluray-720p'' [] 16 SourceBluray Resolution720p ModifierNone 95 100 '''',
     video_def ''HDTV-1080p'' [] 17 SourceTV Resolution1080p ModifierNone 95 100 '''',
     video_def ''WEBDL-1080p'' [] 18 SourceWebDL Resolution1080p ModifierNone 95 100 ''WEB 1080p'',
     video_def ''WEBRip-1080p'' [] 18 SourceWebRip Resolution1080p ModifierNone 95 100 ''WEB 1080p'',
     video_def ''Bluray-1080p'' [] 19 SourceBluray Resolution1080p ModifierNone 0 0 '''',
     video_def ''Remux-1080p'' [''Bluray-1080p Remux''] 20 SourceBluray Resolution1080p ModifierRemux 0 0 '''',
     video_def ''HDTV-2160p'' [] 21 SourceTV Resolution2160p ModifierNone 0 0 '''',
     video_def ''WEBDL-2160p'' [] 22 SourceWebDL Resolution2160p ModifierNone 0 0 ''WEB 2160p'',
     video_def ''WEBRip-2160p'' [] 22 SourceWebRip Resolution2160p ModifierNone 0 0 ''WEB 2160p'',
     video_def ''Bluray-2160p'' [] 23 SourceBluray Resolution2160p ModifierNone 0 0 '''',
     video_def ''Remux-2160p'' [''Bluray-2160p Remux''] 24 SourceBluray Resolution2160p ModifierRemux 0 0 '''',
     video_def ''BR-DISK'' [] 25 SourceBluray Resolution1080p ModifierBRDisk 0 0 '''',
     video_def ''Raw-HD'' [] 26 SourceTV Resolution1080p ModifierRawHD 0 0 '''']"

definition nonVideoDefinitions :: "string \<Rightarrow> Definition list" where
  "nonVideoDefinitions kind =
    (if kind = ''music'' then
      [plain_def ''Trash'' [''Trash Quality Lossy'', ''MP3-8'', ''MP3-16'', ''MP3-24'', ''MP3-32'', ''MP3-40'', ''MP3-48'', ''MP3-56'', ''MP3-64'', ''MP3-80''] 1,
       plain_def ''Poor'' [''Poor Quality Lossy'', ''MP3-96'', ''MP3-112'', ''MP3-128'', ''MP3-160'', ''OGG Vorbis Q5''] 2,
       plain_def ''Low'' [''Low Quality Lossy'', ''MP3-192'', ''MP3-224'', ''AAC-192'', ''WMA'', ''OGG Vorbis Q6''] 3,
       plain_def ''Mid'' [''Mid Quality Lossy'', ''MP3-256'', ''MP3-VBR-V2'', ''AAC-256'', ''OGG Vorbis Q7'', ''OGG Vorbis Q8''] 4,
       plain_def ''High'' [''High Quality Lossy'', ''MP3-320'', ''MP3-VBR-V0'', ''AAC-320'', ''AAC-VBR'', ''OGG Vorbis Q9'', ''OGG Vorbis Q10''] 5,
       plain_def ''FLAC'' [''Lossless'', ''ALAC'', ''APE'', ''WavPack''] 6,
       plain_def ''24bit Lossless'' [''FLAC 24bit'', ''ALAC 24bit''] 7,
       plain_def ''WAV'' [] 8]
     else if kind = ''book'' then
      [plain_def ''PDF'' [] 1,
       plain_def ''MOBI'' [] 2,
       plain_def ''EPUB'' [] 3,
       plain_def ''AZW3'' [] 4]
     else if kind = ''audiobook'' then
      [plain_def ''Unknown Audio'' [] 1,
       plain_def ''MP3'' [] 2,
       plain_def ''M4B'' [] 3,
       plain_def ''FLAC'' [] 4]
     else if kind = ''comic'' then
      [plain_def ''PDF'' [] 1,
       plain_def ''CBR'' [] 2,
       plain_def ''CBZ'' [] 3]
     else [])"

definition named :: "Definition \<Rightarrow> string \<Rightarrow> bool" where
  "named d name \<longleftrightarrow> name \<noteq> '''' \<and> (df_Name d = name \<or> name \<in> set (df_Aliases d))"

definition ladder :: "string \<Rightarrow> Definition list" where
  "ladder kind =
     (if kind = ''video'' then videoDefinitions
      else if kind \<in> {''music'', ''book'', ''audiobook'', ''comic''} then nonVideoDefinitions kind
      else [])"

definition Lookup :: "string \<Rightarrow> string \<Rightarrow> Definition option" where
  "Lookup kind name = find (\<lambda>d. named d name) (ladder kind)"

definition isNonVideo :: "Quality \<Rightarrow> bool" where
  "isNonVideo q \<longleftrightarrow> q_Source q = '''' \<and> q_Resolution q = 0"

definition holds :: "Definition \<Rightarrow> Quality \<Rightarrow> bool" where
  "holds d q =
     (if isNonVideo (df_Quality d) \<and> isNonVideo q
      then named d (q_Name q) \<or> (q_Name q \<noteq> '''' \<and> q_Name (df_Quality d) = q_Name q)
      else q_Source (df_Quality d) = q_Source q \<and> q_Resolution (df_Quality d) = q_Resolution q \<and>
           q_Modifier (df_Quality d) = q_Modifier q)"

section \<open>The parser's table and the probe\<close>

type_synonym qualityKey = "string \<times> int \<times> string"

definition qualityTable :: "(qualityKey \<times> string) list" where
  "qualityTable =
    [((SourceTV, Resolution480p, ModifierNone), ''SDTV''),
     ((SourceDVD, ResolutionUnknown, ModifierNone), ''DVD''),
     ((SourceWebDL, Resolution1080p, ModifierNone), ''WEBDL-1080p''),
     ((SourceTV, Resolution720p, ModifierNone), ''HDTV-720p''),
     ((SourceWebDL, Resolution720p, ModifierNone), ''WEBDL-720p''),
     ((SourceBluray, Resolution720p, ModifierNone), ''Bluray-720p''),
     ((SourceBluray, Resolution1080p, ModifierNone), ''Bluray-1080p''),
     ((SourceWebDL, Resolution480p, ModifierNone), ''WEBDL-480p''),
     ((SourceTV, Resolution1080p, ModifierNone), ''HDTV-1080p''),
     ((SourceTV, Resolution1080p, ModifierRawHD), ''Raw-HD''),
     ((SourceWebRip, Resolution480p, ModifierNone), ''WEBRip-480p''),
     ((SourceWebRip, Resolution720p, ModifierNone), ''WEBRip-720p''),
     ((SourceWebRip, Resolution1080p, ModifierNone), ''WEBRip-1080p''),
     ((SourceTV, Resolution2160p, ModifierNone), ''HDTV-2160p''),
     ((SourceWebRip, Resolution2160p, ModifierNone), ''WEBRip-2160p''),
     ((SourceWebDL, Resolution2160p, ModifierNone), ''WEBDL-2160p''),
     ((SourceBluray, Resolution2160p, ModifierNone), ''Bluray-2160p''),
     ((SourceBluray, Resolution480p, ModifierNone), ''Bluray-480p''),
     ((SourceBluray, Resolution576p, ModifierNone), ''Bluray-576p''),
     ((SourceBluray, Resolution1080p, ModifierBRDisk), ''BR-DISK''),
     ((SourceDVD, Resolution480p, ModifierRemux), ''DVD-R''),
     ((SourceWorkprint, ResolutionUnknown, ModifierNone), ''WORKPRINT''),
     ((SourceCam, ResolutionUnknown, ModifierNone), ''CAM''),
     ((SourceTelesync, ResolutionUnknown, ModifierNone), ''TELESYNC''),
     ((SourceTelecine, ResolutionUnknown, ModifierNone), ''TELECINE''),
     ((SourceDVD, Resolution480p, ModifierScreener), ''DVDSCR''),
     ((SourceDVD, Resolution480p, ModifierRegional), ''REGIONAL''),
     ((SourceBluray, Resolution1080p, ModifierRemux), ''Remux-1080p''),
     ((SourceBluray, Resolution2160p, ModifierRemux), ''Remux-2160p'')]"

definition QualityFor :: "string \<Rightarrow> int \<Rightarrow> string \<Rightarrow> Quality option" where
  "QualityFor src res mod' =
     (case map_of qualityTable (src, res, mod') of
        None \<Rightarrow> None
      | Some name \<Rightarrow> Some \<lparr>q_Name = name, q_Source = src, q_Resolution = res, q_Modifier = mod'\<rparr>)"

definition QualityRungs :: "string \<Rightarrow> string \<Rightarrow> Quality list" where
  "QualityRungs src mod' =
     sort_key q_Resolution
       (map (\<lambda>((s, r, m), name). \<lparr>q_Name = name, q_Source = src, q_Resolution = r, q_Modifier = mod'\<rparr>)
         (filter (\<lambda>((s, r, m), name). s = src \<and> m = mod') qualityTable))"

definition findBySourceAndResolution :: "string \<Rightarrow> int \<Rightarrow> string \<Rightarrow> Quality option" where
  "findBySourceAndResolution src res mod' =
     (case QualityFor src res mod' of
        Some q \<Rightarrow> Some q
      | None \<Rightarrow>
          let rungs = QualityRungs src mod'; atOrBelow = max res Resolution480p in
          if rungs \<noteq> [] \<and> q_Resolution (hd rungs) = ResolutionUnknown then Some (hd rungs)
          else foldl (\<lambda>nearest r. if q_Resolution r \<le> atOrBelow then Some r else nearest) None rungs)"

text \<open>The fields of a \<^verbatim>\<open>MediaInfo\<close> the correction reads.\<close>

record MediaInfo =
  mi_Width :: int
  mi_Height :: int
  mi_VideoBitrateKbps :: int
  mi_VideoCodec :: string

definition probedResolution :: "int \<Rightarrow> int \<Rightarrow> int" where
  "probedResolution width height =
     (if width \<le> 0 \<or> height \<le> 0 then ResolutionUnknown
      else if width \<ge> 3200 \<or> height \<ge> 2100 then Resolution2160p
      else if width \<ge> 1800 \<or> height \<ge> 1000 then Resolution1080p
      else if width \<ge> 1200 \<or> height \<ge> 700 then Resolution720p
      else if width \<ge> 1000 \<or> height \<ge> 560 then Resolution576p
      else Resolution480p)"

definition remuxFloorKbps :: int where "remuxFloorKbps = 20000"

definition falseRemux :: "Quality \<Rightarrow> MediaInfo \<Rightarrow> bool" where
  "falseRemux q m \<longleftrightarrow> q_Modifier q = ModifierRemux \<and> mi_VideoBitrateKbps m > 0 \<and> mi_VideoBitrateKbps m < remuxFloorKbps \<and>
     to_lower (mi_VideoCodec m) \<in> {''h264'', ''hevc'', ''vc1''}"

definition place :: "Quality \<Rightarrow> int \<Rightarrow> string \<Rightarrow> Quality option" where
  "place q res mod' =
     (case findBySourceAndResolution (q_Source q) res (if mod' = '''' then ModifierNone else mod') of
        Some f \<Rightarrow> Some f
      | None \<Rightarrow> if q_Source q \<noteq> SourceUnknown then None
                else Some \<lparr>q_Name = q_Name q, q_Source = '''', q_Resolution = res, q_Modifier = ''''\<rparr>)"

definition corrected_res :: "Quality \<Rightarrow> MediaInfo \<Rightarrow> int" where
  "corrected_res q m =
     (let probed = probedResolution (mi_Width m) (mi_Height m) in if probed \<noteq> ResolutionUnknown then probed else q_Resolution q)"

definition corrected_mod :: "Quality \<Rightarrow> MediaInfo \<Rightarrow> string" where
  "corrected_mod q m = (if falseRemux q m then ModifierNone else q_Modifier q)"

definition AugmentFromMediaInfo :: "Quality \<Rightarrow> MediaInfo option \<Rightarrow> Quality \<times> bool" where
  "AugmentFromMediaInfo q mi =
     (case mi of
        None \<Rightarrow> (q, False)
      | Some m \<Rightarrow>
          if mi_Width m = 0 \<or> mi_Height m = 0 then (q, False)
          else if corrected_res q m = q_Resolution q \<and> corrected_mod q m = q_Modifier q then (q, False)
          else (case place q (corrected_res q m) (corrected_mod q m) of
                  None \<Rightarrow> (q, False)
                | Some f \<Rightarrow>
                    let out = \<lparr>q_Name = q_Name f, q_Source = q_Source q, q_Resolution = q_Resolution f, q_Modifier = corrected_mod q m\<rparr>
                    in if out = q then (q, False) else (out, True)))"

section \<open>The tables agree\<close>

definition names_of :: "Definition \<Rightarrow> string list" where "names_of d = df_Name d # df_Aliases d"

lemma video_names_distinct: "distinct (concat (map names_of videoDefinitions))"
  by code_simp

lemma music_names_distinct: "distinct (concat (map names_of (nonVideoDefinitions ''music'')))"
  by code_simp

lemma other_names_distinct:
  "distinct (concat (map names_of (nonVideoDefinitions ''book'')))"
  "distinct (concat (map names_of (nonVideoDefinitions ''audiobook'')))"
  "distinct (concat (map names_of (nonVideoDefinitions ''comic'')))"
  by code_simp+

lemma ladder_names_distinct: "distinct (concat (map names_of (ladder k)))"
  by (simp add: ladder_def video_names_distinct music_names_distinct other_names_distinct)

text \<open>Every canonical name and every alias of a ladder resolves to the definition that has it.\<close>

lemma Lookup_named: "d \<in> set (ladder k) \<Longrightarrow> named d n \<Longrightarrow> Lookup k n = Some d"
  unfolding Lookup_def
  by (rule find_unique) (auto simp: named_def names_of_def intro: concat_share [OF ladder_names_distinct, where n = n])

definition table_qualities :: "Quality list" where
  "table_qualities = map (\<lambda>((s, r, m), n). \<lparr>q_Name = n, q_Source = s, q_Resolution = r, q_Modifier = m\<rparr>) qualityTable"

definition canonical :: "Quality \<Rightarrow> bool" where
  "canonical q \<longleftrightarrow> QualityFor (q_Source q) (q_Resolution q) (q_Modifier q) = Some q"

lemma QualityFor_in_table: "QualityFor s r m = Some q \<Longrightarrow> q \<in> set table_qualities"
  by (auto simp: QualityFor_def table_qualities_def image_iff split: option.splits dest!: map_of_SomeD) force

lemma canonical_in_table: "canonical q \<Longrightarrow> q \<in> set table_qualities"
  unfolding canonical_def by (rule QualityFor_in_table)

lemma table_on_ladder:
  "list_all (\<lambda>q. case Lookup ''video'' (q_Name q) of None \<Rightarrow> False
     | Some d \<Rightarrow> df_Quality d = q \<and> filter (\<lambda>x. holds x q) videoDefinitions = [d]) table_qualities"
  by code_simp

lemma unknown_never_held:
  "list_all (\<lambda>d. \<not> holds d \<lparr>q_Name = ''Unknown'', q_Source = SourceUnknown, q_Resolution = 0, q_Modifier = ''''\<rparr>) videoDefinitions"
  by code_simp

lemma video_triples_distinct:
  "distinct (map (\<lambda>d. (q_Source (df_Quality d), q_Resolution (df_Quality d), q_Modifier (df_Quality d))) videoDefinitions)"
  by code_simp

section \<open>The probe's correction\<close>

lemma table_keys_distinct: "distinct (map fst qualityTable)"
  by code_simp

lemma table_modifiers: "list_all (\<lambda>((s, r, m), n). m \<noteq> '''' \<and> s \<noteq> SourceUnknown) qualityTable"
  by code_simp

lemma canonical_iff: "canonical q \<longleftrightarrow> ((q_Source q, q_Resolution q, q_Modifier q), q_Name q) \<in> set qualityTable"
  by (cases q) (auto simp: canonical_def QualityFor_def map_of_eq_Some_iff [OF table_keys_distinct, symmetric] split: option.splits)

lemma canonical_parts: "canonical q \<Longrightarrow> q_Modifier q \<noteq> '''' \<and> q_Source q \<noteq> SourceUnknown"
  using table_modifiers by (auto simp: canonical_iff list_all_iff)

lemma rungs_canonical: "q \<in> set (QualityRungs src m) \<Longrightarrow> canonical q \<and> q_Source q = src \<and> q_Modifier q = m"
  by (auto simp: QualityRungs_def canonical_iff)

lemma foldl_last_in: "foldl (\<lambda>a r. if P r then Some r else a) a rs = Some f \<Longrightarrow> a = Some f \<or> (f \<in> set rs \<and> P f)"
  by (induction rs arbitrary: a) (auto split: if_splits)

lemma found_canonical:
  assumes "findBySourceAndResolution src res m = Some f"
  shows "canonical f \<and> q_Source f = src \<and> q_Modifier f = m \<and> q_Resolution f \<le> max res Resolution480p"
proof (cases "QualityFor src res m")
  case None
  let ?rs = "QualityRungs src m"
  show ?thesis
  proof (cases "?rs \<noteq> [] \<and> q_Resolution (hd ?rs) = ResolutionUnknown")
    case True
    with None assms have "f = hd ?rs" by (simp add: findBySourceAndResolution_def)
    with True rungs_canonical [of f src m] show ?thesis by (auto simp: quality_constants)
  next
    case False
    with None assms have "foldl (\<lambda>a r. if q_Resolution r \<le> max res Resolution480p then Some r else a) None ?rs = Some f"
      by (auto simp: findBySourceAndResolution_def Let_def)
    from foldl_last_in [OF this] rungs_canonical [of f src m] show ?thesis by auto
  qed
next
  case (Some q)
  with assms have "QualityFor src res m = Some f" by (simp add: findBySourceAndResolution_def)
  then show ?thesis by (auto simp: canonical_def QualityFor_def split: option.splits)
qed

lemma place_canonical: "canonical q \<Longrightarrow> m \<noteq> '''' \<Longrightarrow> place q res m = findBySourceAndResolution (q_Source q) res m"
  using canonical_parts [of q] by (auto simp: place_def split: option.splits)

text \<open>Of a quality of the table, the correction is the quality found for the probed resolution and modifier.\<close>

lemma Augment_canonical:
  assumes "canonical q" and "mi_Width m \<noteq> 0" and "mi_Height m \<noteq> 0"
  shows "AugmentFromMediaInfo q (Some m) =
    (if corrected_res q m = q_Resolution q \<and> corrected_mod q m = q_Modifier q then (q, False)
     else case findBySourceAndResolution (q_Source q) (corrected_res q m) (corrected_mod q m) of
       None \<Rightarrow> (q, False) | Some f \<Rightarrow> (f, f \<noteq> q))"
proof -
  have "corrected_mod q m \<noteq> ''''" using canonical_parts [OF assms(1)] by (simp add: corrected_mod_def ModifierNone_def)
  then have pl: "place q res (corrected_mod q m) = findBySourceAndResolution (q_Source q) res (corrected_mod q m)" for res
    by (rule place_canonical [OF assms(1)])
  have eq: "\<lparr>q_Name = q_Name f, q_Source = q_Source q, q_Resolution = q_Resolution f, q_Modifier = corrected_mod q m\<rparr> = f"
    if "findBySourceAndResolution (q_Source q) (corrected_res q m) (corrected_mod q m) = Some f" for f
    using found_canonical [OF that] by simp
  show ?thesis
    using assms(2,3) by (auto simp: AugmentFromMediaInfo_def Let_def pl eq split: option.splits)
qed

lemma not_falseRemux_None: "q_Modifier q = ModifierNone \<Longrightarrow> \<not> falseRemux q m"
  by (simp add: falseRemux_def quality_constants)

lemma Augment_again:
  assumes "canonical q" and "mi_Width m \<noteq> 0" and "mi_Height m \<noteq> 0" and "AugmentFromMediaInfo q (Some m) = (q', ch)"
  shows "AugmentFromMediaInfo q' (Some m) = (q', False)"
proof (cases "q' = q")
  case True
  then show ?thesis using assms by (auto simp: Augment_canonical split: if_splits option.splits)
next
  case False
  let ?find = "findBySourceAndResolution (q_Source q)"
  have f: "?find (corrected_res q m) (corrected_mod q m) = Some q'"
    using assms(4) False by (auto simp: Augment_canonical [OF assms(1-3)] split: if_splits option.splits)
  note q' = found_canonical [OF f]
  have md: "corrected_mod q' m = corrected_mod q m"
    using q' not_falseRemux_None [of q' m] by (auto simp: corrected_mod_def falseRemux_def split: if_splits)
  have "corrected_res q' m = corrected_res q m \<or> corrected_res q' m = q_Resolution q'" by (simp add: corrected_res_def Let_def)
  then show ?thesis
    using q' f md by (auto simp: Augment_canonical [OF _ assms(2,3)] split: option.splits)
qed

text \<open>C40: a probe never takes a quality off the ladder. A quality the parser's table defines, corrected by what a
  probe of the file says, is again one the table defines, and the ladder holds it in exactly one definition, the
  one its name looks up; the source is never touched, a corrected resolution is not above the probed one, and
  correcting it again by the same probe changes nothing.\<close>

theorem augment_on_ladder:
  assumes "canonical q" and "AugmentFromMediaInfo q mi = (q', changed)"
  shows "canonical q' \<and> q_Source q' = q_Source q \<and> (changed \<longleftrightarrow> q' \<noteq> q) \<and> AugmentFromMediaInfo q' mi = (q', False) \<and>
    (\<exists>d. Lookup ''video'' (q_Name q') = Some d \<and> df_Quality d = q' \<and> filter (\<lambda>x. holds x q') videoDefinitions = [d]) \<and>
    (\<forall>m. mi = Some m \<and> changed \<longrightarrow> q_Resolution q' \<le> max (corrected_res q m) Resolution480p)"
proof -
  have t: "\<exists>d. Lookup ''video'' (q_Name x) = Some d \<and> df_Quality d = x \<and> filter (\<lambda>y. holds y x) videoDefinitions = [d]"
    if "canonical x" for x
    using table_on_ladder canonical_in_table [OF that] by (auto simp: list_all_iff split: option.splits)
  show ?thesis
  proof (cases "\<exists>m. mi = Some m \<and> mi_Width m \<noteq> 0 \<and> mi_Height m \<noteq> 0")
    case False
    then have "AugmentFromMediaInfo x mi = (x, False)" for x by (cases mi) (auto simp: AugmentFromMediaInfo_def)
    with assms t show ?thesis by simp
  next
    case True
    then obtain m where m: "mi = Some m" "mi_Width m \<noteq> 0" "mi_Height m \<noteq> 0" by blast
    have again: "AugmentFromMediaInfo q' (Some m) = (q', False)"
      using assms m by (intro Augment_again [of q]) simp_all
    have "canonical q' \<and> q_Source q' = q_Source q \<and> (changed \<longleftrightarrow> q' \<noteq> q) \<and>
        (changed \<longrightarrow> q_Resolution q' \<le> max (corrected_res q m) Resolution480p)"
      using assms m(1) found_canonical [of "q_Source q" "corrected_res q m" "corrected_mod q m" q']
      by (auto simp: Augment_canonical [OF assms(1) m(2,3)] split: if_splits option.splits)
    with again t [of q'] m(1) show ?thesis by blast
  qed
qed

theorem augment_on_ladder_witness:
  "canonical \<lparr>q_Name = ''Bluray-480p'', q_Source = SourceBluray, q_Resolution = 480, q_Modifier = ModifierNone\<rparr>"
proof -
  let ?q = "\<lparr>q_Name = ''Remux-1080p'', q_Source = SourceBluray, q_Resolution = 1080, q_Modifier = ModifierRemux\<rparr>"
  let ?m = "Some \<lparr>mi_Width = 960, mi_Height = 540, mi_VideoBitrateKbps = 4000, mi_VideoCodec = ''HEVC''\<rparr>"
  have c: "canonical ?q" by code_simp
  have a: "AugmentFromMediaInfo ?q ?m =
      (\<lparr>q_Name = ''Bluray-480p'', q_Source = SourceBluray, q_Resolution = 480, q_Modifier = ModifierNone\<rparr>, True)"
    by code_simp
  show ?thesis using augment_on_ladder [OF c a] by blast
qed

end
