(* ===== verification/TranscodeAdmit.thy ===== *)
theory TranscodeAdmit
  imports Prelude "HOL-Library.Product_Lexorder" "HOL-Library.Multiset"
begin

text \<open>
  The slot scheduler of transcode admission (\<^verbatim>\<open>app/transcode/admission\<close>, \<^verbatim>\<open>admit.go\<close> and \<^verbatim>\<open>class.go\<close>): which
  Planned files are dispatched within the slots of each hardware class and the caps of each profile,
  and which class a file that chooses one per dispatch is sent to. A map from a class or a profile to a
  count, where an absent entry reads as zero, is a function; the counters count elements of slices.
  The string sort of \<^verbatim>\<open>sort.SliceStable\<close> by \<open>AdmitsBefore\<close> is \<open>sort_key\<close>, which is stable.
\<close>

section \<open>Data\<close>

record Slot =
  sl_Key :: string
  sl_Hardware :: string
  sl_Profile :: string
  sl_Priority :: int
  sl_Created :: time

record Budget =
  bd_Slots :: "string \<Rightarrow> int"
  bd_ProfileLimits :: "string \<Rightarrow> int"

definition HardwareCPU :: string where "HardwareCPU = ''cpu''"
definition HardwareNVIDIA :: string where "HardwareNVIDIA = ''nvidia''"
definition HardwareIntel :: string where "HardwareIntel = ''intel''"
definition HardwareAuto :: string where "HardwareAuto = ''auto''"
definition HardwareGPU :: string where "HardwareGPU = ''gpu''"

lemmas hardware_defs = HardwareCPU_def HardwareNVIDIA_def HardwareIntel_def HardwareAuto_def HardwareGPU_def

section \<open>Admission\<close>

definition AdmitsBefore :: "Slot \<Rightarrow> Slot \<Rightarrow> bool" where
  "AdmitsBefore a b \<longleftrightarrow>
     (if sl_Priority a \<noteq> sl_Priority b then sl_Priority a > sl_Priority b
      else if sl_Created a \<noteq> sl_Created b then sl_Created a < sl_Created b
      else sl_Key a < sl_Key b)"

definition admit_key :: "Slot \<Rightarrow> int \<times> time \<times> string" where
  "admit_key s = (- sl_Priority s, sl_Created s, sl_Key s)"

definition count_by :: "('a \<Rightarrow> string) \<Rightarrow> 'a list \<Rightarrow> string \<Rightarrow> int" where
  "count_by f xs k = int (length (filter (\<lambda>x. f x = k) xs))"

fun admit_loop :: "Budget \<Rightarrow> (string \<Rightarrow> int) \<Rightarrow> (string \<Rightarrow> int) \<Rightarrow> string list \<Rightarrow> Slot list \<Rightarrow> Slot list" where
  "admit_loop budget used perProfile seen [] = []"
| "admit_loop budget used perProfile seen (q # qs) =
     (if sl_Key q \<in> set seen then admit_loop budget used perProfile seen qs
      else if used (sl_Hardware q) \<ge> bd_Slots budget (sl_Hardware q)
        then admit_loop budget used perProfile (sl_Key q # seen) qs
      else if bd_ProfileLimits budget (sl_Profile q) > 0 \<and> perProfile (sl_Profile q) \<ge> bd_ProfileLimits budget (sl_Profile q)
        then admit_loop budget used perProfile (sl_Key q # seen) qs
      else q # admit_loop budget (used(sl_Hardware q := used (sl_Hardware q) + 1))
                 (perProfile(sl_Profile q := perProfile (sl_Profile q) + 1)) (sl_Key q # seen) qs)"

definition Admit :: "Slot list \<Rightarrow> Slot list \<Rightarrow> Budget \<Rightarrow> Slot list" where
  "Admit queued running budget =
     admit_loop budget (count_by sl_Hardware running) (count_by sl_Profile running) [] (sort_key admit_key queued)"

section \<open>Classes\<close>

text \<open>
  A file as the ledger counts it. A \<^verbatim>\<open>types.NamespacedName\<close> is the pair of namespace and name. The seven
  phases and the absent block of a transcode, and those of a graft, are datatypes.
\<close>

datatype TranscodePhase =
  TranscodePhaseNone | TranscodePhasePending | TranscodePhasePlanned | TranscodePhaseQueued | TranscodePhaseRunning
| TranscodePhaseSwapping | TranscodePhaseSucceeded | TranscodePhaseFailed | TranscodePhaseSkipped

datatype GraftPhase =
  GraftPhaseNone | GraftPhaseWaiting | GraftPhaseQueued | GraftPhaseRunning | GraftPhaseSwapping
| GraftPhaseSucceeded | GraftPhaseFailed

type_synonym nname = "string \<times> string"

record FileView =
  fv_UID :: string
  fv_Key :: nname
  fv_Seq :: int
  fv_Phase :: TranscodePhase
  fv_DispatchSeq :: int
  fv_Class :: string
  fv_Pool :: string
  fv_Profile :: string
  fv_ProfileUID :: string
  fv_PlannedAt :: time
  fv_NextAttemptAt :: time
  fv_Suspended :: bool
  fv_Priority :: int
  fv_Hardware :: string
  fv_Encodes :: bool
  fv_Encoder :: string
  fv_Fallback :: bool
  fv_JoinedGraft :: bool
  fv_GraftPhase :: GraftPhase
  fv_GraftReason :: string
  fv_GraftJobName :: string
  fv_DonorImportedAt :: time
  fv_Eligible :: bool
  fv_EligibleKnown :: bool
  fv_VerdictHolds :: bool

definition zero_FileView :: FileView where
  "zero_FileView = \<lparr>fv_UID = '''', fv_Key = ('''', ''''), fv_Seq = 0, fv_Phase = TranscodePhaseNone, fv_DispatchSeq = 0, fv_Class = '''',
     fv_Pool = '''', fv_Profile = '''', fv_ProfileUID = '''', fv_PlannedAt = 0, fv_NextAttemptAt = 0, fv_Suspended = False,
     fv_Priority = 0, fv_Hardware = '''', fv_Encodes = False, fv_Encoder = '''', fv_Fallback = False, fv_JoinedGraft = False,
     fv_GraftPhase = GraftPhaseNone, fv_GraftReason = '''', fv_GraftJobName = '''', fv_DonorImportedAt = 0, fv_Eligible = False,
     fv_EligibleKnown = False, fv_VerdictHolds = False\<rparr>"

definition GPUClasses :: "string list" where "GPUClasses = [HardwareNVIDIA, HardwareIntel]"

definition ChooseClass :: "(string \<Rightarrow> bool) \<Rightarrow> (string \<Rightarrow> bool) \<Rightarrow> (string \<Rightarrow> int) \<Rightarrow> bool \<Rightarrow> bool \<Rightarrow> string" where
  "ChooseClass gpuNodes unschedulable free fallback gpuOnly =
     (if fallback then HardwareCPU
      else let usable = filter (\<lambda>c. gpuNodes c \<and> \<not> unschedulable c) GPUClasses
           in case find (\<lambda>c. free c > 0) usable of
                Some c \<Rightarrow> c
              | None \<Rightarrow> if gpuOnly \<and> usable \<noteq> [] then '''' else HardwareCPU)"

definition hardwareOf :: "FileView \<Rightarrow> string" where
  "hardwareOf v = (if fv_Hardware v = '''' then HardwareAuto else fv_Hardware v)"

definition choosesClass :: "FileView \<Rightarrow> bool" where
  "choosesClass v \<longleftrightarrow> hardwareOf v = HardwareAuto \<or> hardwareOf v = HardwareGPU"

definition gpuOnly :: "FileView \<Rightarrow> bool" where
  "gpuOnly v \<longleftrightarrow> hardwareOf v = HardwareGPU"

definition HardwareForEncoder :: "string \<Rightarrow> string" where
  "HardwareForEncoder encoder =
     (if encoder = ''hevc_nvenc'' then HardwareNVIDIA
      else if encoder = ''hevc_qsv'' \<or> encoder = ''hevc_vaapi'' then HardwareIntel else HardwareCPU)"

definition classFor :: "FileView \<Rightarrow> string" where
  "classFor v =
     (if hardwareOf v = HardwareNVIDIA \<or> hardwareOf v = HardwareIntel then hardwareOf v
      else if fv_Fallback v \<or> fv_Encoder v = '''' then HardwareCPU
      else HardwareForEncoder (fv_Encoder v))"

record candidate =
  cd_uid :: string
  cd_v :: FileView
  cd_slot :: Slot

definition WaitingForGPU :: string where "WaitingForGPU = ''waiting for a free GPU slot (hardware: gpu)''"
definition ReasonWaitingForSlot :: string where "ReasonWaitingForSlot = ''WaitingForSlot''"
definition ReasonWaitingForGPU :: string where "ReasonWaitingForGPU = ''WaitingForGPU''"
definition ReasonPoolDraining :: string where "ReasonPoolDraining = ''PoolDraining''"

record hold =
  hd_uid :: string
  hd_msg :: string
  hd_cause :: string

text \<open>A pool, as \<^verbatim>\<open>pool.Key\<close>: profile, its UID and the class. What a pass reads of the cluster is an argument.\<close>

type_synonym pool_key = "string \<times> string \<times> string"

definition classOf :: "(string \<Rightarrow> bool) \<Rightarrow> (string \<Rightarrow> string \<Rightarrow> bool) \<Rightarrow> (string \<Rightarrow> int) \<Rightarrow> candidate \<Rightarrow> string" where
  "classOf gpu unschedulable free c =
     (if choosesClass (cd_v c) \<and> fv_Encodes (cd_v c)
      then ChooseClass gpu (unschedulable (fv_Profile (cd_v c))) free (fv_Fallback (cd_v c)) (gpuOnly (cd_v c))
      else classFor (cd_v c))"

fun assign_loop :: "(string \<Rightarrow> bool) \<Rightarrow> (string \<Rightarrow> string \<Rightarrow> bool) \<Rightarrow> (pool_key \<Rightarrow> string option) \<Rightarrow> (string \<Rightarrow> string) \<Rightarrow> (string \<Rightarrow> int) \<Rightarrow>
    (string \<Rightarrow> int) \<Rightarrow> (string \<Rightarrow> int) \<Rightarrow> candidate list \<Rightarrow> candidate list \<times> hold list" where
  "assign_loop gpu unschedulable held profileUIDs limits free perProfile [] = ([], [])"
| "assign_loop gpu unschedulable held profileUIDs limits free perProfile (c # cs) =
     (let class = classOf gpu unschedulable free c; profile = fv_Profile (cd_v c) in
      if class = '''' then
        (let (queued, holds) = assign_loop gpu unschedulable held profileUIDs limits free perProfile cs
         in (queued, \<lparr>hd_uid = cd_uid c, hd_msg = WaitingForGPU, hd_cause = ReasonWaitingForGPU\<rparr> # holds))
      else case held (profile, profileUIDs profile, class) of
        Some msg \<Rightarrow>
          (let (queued, holds) = assign_loop gpu unschedulable held profileUIDs limits free perProfile cs
           in (queued, \<lparr>hd_uid = cd_uid c, hd_msg = msg, hd_cause = ReasonPoolDraining\<rparr> # holds))
      | None \<Rightarrow>
          (let c' = c\<lparr>cd_slot := (cd_slot c)\<lparr>sl_Hardware := class\<rparr>\<rparr>;
               p = sl_Profile (cd_slot c);
               taken = (free class > 0 \<and> (limits p \<le> 0 \<or> perProfile p < limits p));
               (queued, holds) =
                 assign_loop gpu unschedulable held profileUIDs limits
                   (if taken then free(class := free class - 1) else free)
                   (if taken then perProfile(p := perProfile p + 1) else perProfile) cs
           in (c' # queued, holds)))"

definition assignClasses :: "candidate list \<Rightarrow> Slot list \<Rightarrow> (string \<Rightarrow> bool) \<Rightarrow> (string \<Rightarrow> string \<Rightarrow> bool) \<Rightarrow> (pool_key \<Rightarrow> string option) \<Rightarrow>
    (string \<Rightarrow> string) \<Rightarrow> (string \<Rightarrow> int) \<Rightarrow> (string \<Rightarrow> int) \<Rightarrow> candidate list \<times> hold list" where
  "assignClasses cands running gpu unschedulable held profileUIDs limits slots =
     assign_loop gpu unschedulable held profileUIDs limits (\<lambda>h. slots h - count_by sl_Hardware running h)
       (count_by sl_Profile running) (sort_key (admit_key \<circ> cd_slot) cands)"

section \<open>The order\<close>

lemma AdmitsBefore_key: "AdmitsBefore a b \<longleftrightarrow> admit_key a < admit_key b"
  by (auto simp: AdmitsBefore_def admit_key_def less_prod_def' less_le)

lemma admit_key_inj: "inj_on sl_Key S \<Longrightarrow> inj_on admit_key S"
  by (auto simp: inj_on_def admit_key_def)

end
