(* ===== verification/TranscodeLedger.thy ===== *)
theory TranscodeLedger
  imports TranscodeAdmit Tables
begin

text \<open>
  The admission ledger of the transcodes (\<^verbatim>\<open>app/transcode/admission\<close>): the files it has seen, the grants and
  directives it issued, the backoffs and the pools' states, with every method that changes them
  (\<^verbatim>\<open>ledger.go\<close>, \<^verbatim>\<open>grants.go\<close>, \<^verbatim>\<open>window.go\<close>, \<^verbatim>\<open>graft.go\<close>, \<^verbatim>\<open>pools.go\<close>) and the view of a file it counts by
  (\<^verbatim>\<open>fileview.go\<close>). Each method runs under the ledger's mutex, so it is one function of the ledger; the
  clock it reads is its argument \<open>now\<close>. Maps the code ranges over are tables, those it only indexes are
  functions, with the zero value where a read of an absent key cannot be told from it. What the loop's queue
  receives is appended to \<open>lg_enqueued\<close> once a waker is installed; the two wake channels are a flag (buffer 1)
  and a list of at most 64 names. Gauges and logs are left out.
\<close>

section \<open>Data\<close>

definition GrantPriority :: int where "GrantPriority = 100"
definition grantTTL :: duration where "grantTTL = 2 * minute"
definition grantBackoffMax :: duration where "grantBackoffMax = 30 * minute"
definition grantBackoffMin :: duration where "grantBackoffMin = minute"
definition admissionBackstop :: duration where "admissionBackstop = minute"

lemmas timing_defs = grantTTL_def grantBackoffMax_def grantBackoffMin_def admissionBackstop_def

datatype GrantKind = GrantNone | GrantWindow | GrantDispatch | GrantGraftSlot

datatype DirectiveKind = DirectiveReroute

record Directive =
  dr_Kind :: DirectiveKind
  dr_Seq :: int
  dr_Reason :: string
  dr_KeepGPU :: bool

text \<open>Of the limits a device's pods published, by tier, admission reads the count of video engines.\<close>

record Device =
  dv_Tier :: string
  dv_Limits :: "(string, int) table"

record Snapshot =
  sn_Grant :: GrantKind
  sn_Class :: string
  sn_Directive :: "Directive option"
  sn_WaitReason :: string
  sn_WaitCause :: string
  sn_Device :: Device
  sn_PublishFailed :: string
  sn_WithdrawFailed :: string

record Options =
  op_Slots :: "string \<Rightarrow> int option"
  op_Window :: int
  op_GraftConcurrency :: int

record entry =
  en_view :: FileView
  en_observedAt :: time
  en_key :: string

record grant =
  gr_kind :: GrantKind
  gr_class :: string
  gr_profile :: string
  gr_expires :: time
  gr_inUse :: bool

record backoff =
  bk_until :: time
  bk_delay :: duration

record wait =
  wt_reason :: string
  wt_cause :: string

record PoolState =
  ps_UnschedulableUntil :: time
  ps_FailedAt :: time
  ps_BackoffUntil :: time
  ps_BackoffDelay :: duration
  ps_Recreate :: bool

record Ledger =
  lg_o :: Options
  lg_files :: "(string, entry) table"
  lg_byKey :: "nname \<Rightarrow> string option"
  lg_grants :: "(string, grant) table"
  lg_backoffs :: "(string, backoff) table"
  lg_directives :: "string \<Rightarrow> Directive option"
  lg_pools :: "(pool_key, PoolState) table"
  lg_devices :: "string \<Rightarrow> Device"
  lg_waits :: "string \<Rightarrow> wait"
  lg_leaseMissingSince :: "string \<Rightarrow> time option"
  lg_publishFailed :: "string \<Rightarrow> string"
  lg_withdrawFailed :: "string \<Rightarrow> string"
  lg_profileUIDs :: "string \<Rightarrow> string option"
  lg_dispatched :: "(pool_key, int) table"
  lg_rebuilt :: bool
  lg_waker :: bool
  lg_enqueued :: "(nname \<times> int) list"
  lg_wake :: bool
  lg_profileWake :: "string list"

definition zero_Device :: Device where "zero_Device = \<lparr>dv_Tier = '''', dv_Limits = []\<rparr>"
definition zero_wait :: wait where "zero_wait = \<lparr>wt_reason = '''', wt_cause = ''''\<rparr>"
definition zero_PoolState :: PoolState where
  "zero_PoolState = \<lparr>ps_UnschedulableUntil = 0, ps_FailedAt = 0, ps_BackoffUntil = 0, ps_BackoffDelay = 0, ps_Recreate = False\<rparr>"

definition NewLedger :: "Options \<Rightarrow> Ledger" where
  "NewLedger o' = \<lparr>lg_o = o', lg_files = [], lg_byKey = (\<lambda>_. None), lg_grants = [], lg_backoffs = [], lg_directives = (\<lambda>_. None),
     lg_pools = [], lg_devices = (\<lambda>_. zero_Device), lg_waits = (\<lambda>_. zero_wait), lg_leaseMissingSince = (\<lambda>_. None),
     lg_publishFailed = (\<lambda>_. ''''), lg_withdrawFailed = (\<lambda>_. ''''), lg_profileUIDs = (\<lambda>_. None), lg_dispatched = [],
     lg_rebuilt = False, lg_waker = False, lg_enqueued = [], lg_wake = False, lg_profileWake = []\<rparr>"

definition str :: "string option \<Rightarrow> string" where
  "str x = (case x of None \<Rightarrow> '''' | Some s \<Rightarrow> s)"

definition nn_String :: "nname \<Rightarrow> string" where
  "nn_String k = fst k @ ''/'' @ snd k"

section \<open>Phases\<close>

definition rank :: "TranscodePhase \<Rightarrow> int" where
  "rank p = (if p = TranscodePhaseQueued then 1 else if p = TranscodePhaseRunning then 2 else 3)"

definition windowPhase :: "TranscodePhase \<Rightarrow> bool" where
  "windowPhase p \<longleftrightarrow> p = TranscodePhasePending \<or> p = TranscodePhasePlanned \<or> p = TranscodePhaseQueued \<or>
     p = TranscodePhaseRunning \<or> p = TranscodePhaseSwapping"

definition slotPhase :: "TranscodePhase \<Rightarrow> bool" where
  "slotPhase p \<longleftrightarrow> p = TranscodePhaseQueued \<or> p = TranscodePhaseRunning"

definition ReasonJoinedTranscode :: string where "ReasonJoinedTranscode = ''JoinedTranscode''"

record GraftFile =
  gf_UID :: string
  gf_Key :: nname
  gf_Phase :: GraftPhase
  gf_Reason :: string
  gf_JobName :: string
  gf_DonorImportedAt :: time
  gf_JoinInFlight :: bool
  gf_Granted :: bool
  gf_OnBackoff :: bool

definition holdsGraftSlot :: "GraftFile \<Rightarrow> bool" where
  "holdsGraftSlot f \<longleftrightarrow> gf_Phase f = GraftPhaseQueued \<or> (gf_Phase f = GraftPhaseRunning \<and> gf_Reason f \<noteq> ReasonJoinedTranscode)"

definition graftHoldsSlot :: "FileView \<Rightarrow> bool" where
  "graftHoldsSlot v = holdsGraftSlot \<lparr>gf_UID = '''', gf_Key = ('''', ''''), gf_Phase = fv_GraftPhase v, gf_Reason = fv_GraftReason v,
     gf_JobName = '''', gf_DonorImportedAt = 0, gf_JoinInFlight = False, gf_Granted = False, gf_OnBackoff = False\<rparr>"

section \<open>Wakes\<close>

definition enqueueLocked :: "Ledger \<Rightarrow> nname \<Rightarrow> int \<Rightarrow> Ledger" where
  "enqueueLocked l key prio = (if lg_waker l then l\<lparr>lg_enqueued := lg_enqueued l @ [(key, prio)]\<rparr> else l)"

definition signalLocked :: "Ledger \<Rightarrow> Ledger" where
  "signalLocked l = l\<lparr>lg_wake := True\<rparr>"

definition Wake :: "Ledger \<Rightarrow> Ledger" where
  "Wake l = signalLocked l"

definition setWaker :: "Ledger \<Rightarrow> Ledger" where
  "setWaker l = l\<lparr>lg_waker := True\<rparr>"

definition SetSlots :: "Ledger \<Rightarrow> (string \<Rightarrow> int option) \<Rightarrow> Ledger" where
  "SetSlots l slots = signalLocked (l\<lparr>lg_o := (lg_o l)\<lparr>op_Slots := slots\<rparr>\<rparr>)"

definition SetWindow :: "Ledger \<Rightarrow> int \<Rightarrow> Ledger" where
  "SetWindow l window = signalLocked (l\<lparr>lg_o := (lg_o l)\<lparr>op_Window := window\<rparr>\<rparr>)"

definition Rebuilt :: "Ledger \<Rightarrow> bool" where
  "Rebuilt l = lg_rebuilt l"

definition markRebuilt :: "Ledger \<Rightarrow> Ledger" where
  "markRebuilt l = signalLocked (l\<lparr>lg_rebuilt := True\<rparr>)"

section \<open>Observations\<close>

definition retireLocked :: "Ledger \<Rightarrow> string \<Rightarrow> Ledger" where
  "retireLocked l uid =
     l\<lparr>lg_byKey := (case map_of (lg_files l) uid of None \<Rightarrow> lg_byKey l | Some e \<Rightarrow> (lg_byKey l)(fv_Key (en_view e) := None)),
       lg_files := AList.delete uid (lg_files l), lg_grants := AList.delete uid (lg_grants l),
       lg_backoffs := AList.delete uid (lg_backoffs l), lg_directives := (lg_directives l)(uid := None),
       lg_waits := (lg_waits l)(uid := zero_wait), lg_leaseMissingSince := (lg_leaseMissingSince l)(uid := None),
       lg_publishFailed := (lg_publishFailed l)(uid := ''''), lg_withdrawFailed := (lg_withdrawFailed l)(uid := '''')\<rparr>"

definition merged :: "Ledger \<Rightarrow> FileView \<Rightarrow> entry option \<Rightarrow> FileView" where
  "merged l v cur =
     (let v = (case cur of
                 Some c \<Rightarrow> if \<not> fv_EligibleKnown v
                   then v\<lparr>fv_Eligible := fv_Eligible (en_view c), fv_EligibleKnown := fv_EligibleKnown (en_view c)\<rparr> else v
               | None \<Rightarrow> v)
      in if fv_ProfileUID v = '''' then v\<lparr>fv_ProfileUID := str (lg_profileUIDs l (fv_Profile v))\<rparr> else v)"

text \<open>Whether the observation of \<open>v\<close> ends a grant that is not in use.\<close>

definition overtaken :: "grant \<Rightarrow> FileView \<Rightarrow> bool" where
  "overtaken g v \<longleftrightarrow>
     \<not> gr_inUse g \<and>
     (if gr_kind g = GrantGraftSlot then graftHoldsSlot v
      else windowPhase (fv_Phase v) \<or> gr_kind g = GrantDispatch)"

definition storeLocked :: "Ledger \<Rightarrow> FileView \<Rightarrow> entry option \<Rightarrow> time \<Rightarrow> Ledger" where
  "storeLocked l v0 cur now =
     (let v = merged l v0 cur; uid = fv_UID v in
      l\<lparr>lg_files := AList.update uid \<lparr>en_view = v, en_observedAt = now, en_key = nn_String (fv_Key v)\<rparr> (lg_files l),
        lg_byKey := (lg_byKey l)(fv_Key v \<mapsto> uid),
        lg_grants := (case map_of (lg_grants l) uid of
                        Some g \<Rightarrow> if overtaken g v then AList.delete uid (lg_grants l) else lg_grants l
                      | None \<Rightarrow> lg_grants l),
        lg_directives := (case lg_directives l uid of
                            Some d \<Rightarrow> if \<not> slotPhase (fv_Phase v) \<or> fv_DispatchSeq v \<noteq> dr_Seq d
                                      then (lg_directives l)(uid := None) else lg_directives l
                          | None \<Rightarrow> lg_directives l),
        lg_waits := (if fv_Phase v \<noteq> TranscodePhasePlanned then (lg_waits l)(uid := zero_wait) else lg_waits l),
        lg_leaseMissingSince := (if slotPhase (fv_Phase v) then lg_leaseMissingSince l else (lg_leaseMissingSince l)(uid := None)),
        lg_publishFailed := (if slotPhase (fv_Phase v) then lg_publishFailed l else (lg_publishFailed l)(uid := '''')),
        lg_withdrawFailed := (if slotPhase (fv_Phase v) then lg_withdrawFailed l else (lg_withdrawFailed l)(uid := ''''))\<rparr>)"

definition stale_view :: "FileView \<Rightarrow> FileView \<Rightarrow> bool" where
  "stale_view v cur \<longleftrightarrow> fv_Seq v < fv_Seq cur \<or> (fv_Seq v = fv_Seq cur \<and> rank (fv_Phase v) < rank (fv_Phase cur))"

definition observeLocked :: "Ledger \<Rightarrow> FileView \<Rightarrow> time \<Rightarrow> Ledger \<times> bool" where
  "observeLocked l v now =
     (let l = (case lg_byKey l (fv_Key v) of
                 Some old \<Rightarrow> if old \<noteq> fv_UID v then retireLocked l old else l
               | None \<Rightarrow> l);
          cur = map_of (lg_files l) (fv_UID v)
      in case cur of
           Some c \<Rightarrow> if stale_view v (en_view c) then (l, False) else (storeLocked l v cur now, True)
         | None \<Rightarrow> (storeLocked l v cur now, True))"

definition Observe :: "Ledger \<Rightarrow> FileView \<Rightarrow> time \<Rightarrow> Ledger" where
  "Observe l v now = signalLocked (fst (observeLocked l v now))"

definition Forget :: "Ledger \<Rightarrow> nname \<Rightarrow> Ledger \<times> string \<times> bool" where
  "Forget l key =
     (case lg_byKey l key of
        None \<Rightarrow> (l, '''', False)
      | Some uid \<Rightarrow>
          let open' = ((case map_of (lg_files l) uid of
                          None \<Rightarrow> False
                        | Some e \<Rightarrow> slotPhase (fv_Phase (en_view e)) \<or> fv_Phase (en_view e) = TranscodePhaseSwapping) \<or>
                       map_of (lg_grants l) uid \<noteq> None)
          in (signalLocked (retireLocked l uid), uid, open'))"

definition InFlightOrGranted :: "Ledger \<Rightarrow> string \<Rightarrow> bool" where
  "InFlightOrGranted l uid \<longleftrightarrow>
     map_of (lg_grants l) uid \<noteq> None \<or>
     (case map_of (lg_files l) uid of
        None \<Rightarrow> False
      | Some e \<Rightarrow> slotPhase (fv_Phase (en_view e)) \<or> fv_Phase (en_view e) = TranscodePhaseSwapping)"

section \<open>Grants\<close>

definition live_grant :: "time \<Rightarrow> grant \<Rightarrow> bool" where
  "live_grant now g \<longleftrightarrow> gr_inUse g \<or> now < gr_expires g"

definition snapshotLocked :: "Ledger \<Rightarrow> string \<Rightarrow> time \<Rightarrow> Snapshot" where
  "snapshotLocked l uid now =
     (let (kind, class, device) = (case map_of (lg_grants l) uid of
            Some g \<Rightarrow> if live_grant now g then (gr_kind g, gr_class g, lg_devices l (gr_class g)) else (GrantNone, '''', zero_Device)
          | None \<Rightarrow> (GrantNone, '''', zero_Device))
      in \<lparr>sn_Grant = kind, sn_Class = class, sn_Directive = lg_directives l uid, sn_WaitReason = wt_reason (lg_waits l uid),
          sn_WaitCause = wt_cause (lg_waits l uid), sn_Device = device, sn_PublishFailed = lg_publishFailed l uid,
          sn_WithdrawFailed = lg_withdrawFailed l uid\<rparr>)"

definition Snapshot_of :: "Ledger \<Rightarrow> string \<Rightarrow> time \<Rightarrow> Snapshot" where
  "Snapshot_of l uid now = snapshotLocked l uid now"

definition TakeGrant :: "Ledger \<Rightarrow> string \<Rightarrow> time \<Rightarrow> Ledger \<times> Snapshot \<times> bool" where
  "TakeGrant l uid now =
     (case map_of (lg_grants l) uid of
        None \<Rightarrow> (l, snapshotLocked l uid now, False)
      | Some g \<Rightarrow>
          if \<not> live_grant now g then (l, snapshotLocked l uid now, False)
          else let l' = l\<lparr>lg_grants := AList.update uid (g\<lparr>gr_inUse := True\<rparr>) (lg_grants l)\<rparr>
               in (l', snapshotLocked l' uid now, True))"

definition Confirm :: "Ledger \<Rightarrow> string \<Rightarrow> Ledger" where
  "Confirm l uid = signalLocked (l\<lparr>lg_grants := AList.delete uid (lg_grants l), lg_backoffs := AList.delete uid (lg_backoffs l)\<rparr>)"

definition backOffLocked :: "Ledger \<Rightarrow> string \<Rightarrow> time \<Rightarrow> Ledger" where
  "backOffLocked l uid now =
     (let delay = (case map_of (lg_backoffs l) uid of
                     None \<Rightarrow> grantBackoffMin
                   | Some prev \<Rightarrow> min (bk_delay prev * 2) grantBackoffMax)
      in l\<lparr>lg_backoffs := AList.update uid \<lparr>bk_until = now + delay, bk_delay = delay\<rparr> (lg_backoffs l)\<rparr>)"

definition Release :: "Ledger \<Rightarrow> string \<Rightarrow> time \<Rightarrow> Ledger" where
  "Release l uid now =
     signalLocked (if map_of (lg_grants l) uid \<noteq> None
                   then backOffLocked (l\<lparr>lg_grants := AList.delete uid (lg_grants l)\<rparr>) uid now else l)"

definition ReleaseUnconfirmed :: "Ledger \<Rightarrow> string \<Rightarrow> Ledger" where
  "ReleaseUnconfirmed l uid =
     (case map_of (lg_grants l) uid of
        None \<Rightarrow> l
      | Some g \<Rightarrow> if gr_inUse g then signalLocked (l\<lparr>lg_grants := AList.delete uid (lg_grants l)\<rparr>) else l)"

definition expire_one :: "time \<Rightarrow> Ledger \<Rightarrow> string \<times> grant \<Rightarrow> Ledger" where
  "expire_one now l p =
     (if live_grant now (snd p) then l
      else backOffLocked (l\<lparr>lg_grants := AList.delete (fst p) (lg_grants l)\<rparr>) (fst p) now)"

definition expireLocked :: "Ledger \<Rightarrow> time \<Rightarrow> Ledger" where
  "expireLocked l now = foldl (expire_one now) l (lg_grants l)"

definition onBackoffLocked :: "Ledger \<Rightarrow> string \<Rightarrow> time \<Rightarrow> bool" where
  "onBackoffLocked l uid now = (case map_of (lg_backoffs l) uid of None \<Rightarrow> False | Some b \<Rightarrow> now < bk_until b)"

definition grantLocked :: "Ledger \<Rightarrow> string \<Rightarrow> nname \<Rightarrow> GrantKind \<Rightarrow> string \<Rightarrow> string \<Rightarrow> time \<Rightarrow> Ledger" where
  "grantLocked l uid key kind class profile now =
     enqueueLocked (l\<lparr>lg_grants := AList.update uid
       \<lparr>gr_kind = kind, gr_class = class, gr_profile = profile, gr_expires = now + grantTTL, gr_inUse = False\<rparr> (lg_grants l)\<rparr>)
       key GrantPriority"

definition NoteLeaseMissing :: "Ledger \<Rightarrow> string \<Rightarrow> bool \<Rightarrow> time \<Rightarrow> Ledger \<times> time" where
  "NoteLeaseMissing l uid missing now =
     (if \<not> missing then (l\<lparr>lg_leaseMissingSince := (lg_leaseMissingSince l)(uid := None)\<rparr>, 0)
      else case lg_leaseMissingSince l uid of
             Some since \<Rightarrow> (l, since)
           | None \<Rightarrow> (l\<lparr>lg_leaseMissingSince := (lg_leaseMissingSince l)(uid \<mapsto> now)\<rparr>, now))"

definition PublishFailed :: "Ledger \<Rightarrow> string \<Rightarrow> string option \<Rightarrow> Ledger" where
  "PublishFailed l uid err = l\<lparr>lg_publishFailed := (lg_publishFailed l)(uid := str err)\<rparr>"

definition WithdrawFailed :: "Ledger \<Rightarrow> string \<Rightarrow> string option \<Rightarrow> Ledger" where
  "WithdrawFailed l uid err = l\<lparr>lg_withdrawFailed := (lg_withdrawFailed l)(uid := str err)\<rparr>"

end
