(* ===== verification/TranscodeTypes.thy ===== *)
theory TranscodeTypes
  imports GrabIntents QualityLadder TranscodeLedger
begin

text \<open>
  The data of a file's transcode: its block in the status (\<^verbatim>\<open>api/catalog/v1alpha1/mediafile_transcode_types.go\<close>), the profile, the
  task and the record that answers it (\<^verbatim>\<open>app/transcode/task\<close>), and the task's construction (\<^verbatim>\<open>app/transcode/jobspec\<close>). A
  nil pointer is \<open>None\<close>; an empty phase is \<open>TranscodePhaseNone\<close>. Fields no modelled function reads are left out.
\<close>

section \<open>Text\<close>

text \<open>The characters of a byte string, each a byte string, as a conversion to runes and back gives them: a byte that starts no
  valid encoding is the replacement character.\<close>

definition cont_byte :: "nat \<Rightarrow> nat \<Rightarrow> char \<Rightarrow> bool" where
  "cont_byte lo hi c \<longleftrightarrow> lo \<le> of_char c \<and> (of_char c :: nat) \<le> hi"

definition rune_length :: "string \<Rightarrow> nat" where
  "rune_length s =
     (case s of [] \<Rightarrow> 0 | c # cs \<Rightarrow>
        let b = (of_char c :: nat);
            any = cont_byte 128 191;
            lead = (\<lambda>n second. length cs \<ge> n \<and> n > 0 \<and> second (hd cs) \<and> list_all any (take (n - 1) (tl cs)))
        in if b < 128 then 1
           else if 194 \<le> b \<and> b \<le> 223 \<and> lead 1 any then 2
           else if 224 \<le> b \<and> b \<le> 239 \<and> lead 2 (cont_byte (if b = 224 then 160 else 128) (if b = 237 then 159 else 191)) then 3
           else if 240 \<le> b \<and> b \<le> 244 \<and> lead 3 (cont_byte (if b = 240 then 144 else 128) (if b = 244 then 143 else 191)) then 4
           else 0)"

function runes :: "string \<Rightarrow> string list" where
  "runes s =
     (if s = [] then []
      else let n = rune_length s in
           if n = 0 then [CHR 0xEF, CHR 0xBF, CHR 0xBD] # runes (tl s) else take n s # runes (drop n s))"
  by pat_completeness auto
termination
  by (relation "measure length") (auto simp: Let_def)

declare runes.simps [simp del]

definition truncate_runes :: "string \<Rightarrow> nat \<Rightarrow> string" where
  "truncate_runes s n = (let r = runes s in if length r \<le> n then s else concat (take n r))"

definition tail :: "string \<Rightarrow> nat \<Rightarrow> string" where
  "tail s n = (let r = runes s in if length r \<le> n then s else concat (drop (length r - n) r))"

definition firstNonEmpty :: "string \<Rightarrow> string \<Rightarrow> string" where
  "firstNonEmpty a b = (if a \<noteq> '''' then a else b)"

text \<open>\<^verbatim>\<open>fmt\<close>'s \<^verbatim>\<open>%q\<close> of printable text.\<close>

definition fmt_q :: "string \<Rightarrow> string" where
  "fmt_q s = CHR 0x22 # concat (map (\<lambda>c. if c = CHR 0x22 \<or> c = CHR 0x5C then [CHR 0x5C, c] else [c]) s) @ [CHR 0x22]"

section \<open>The blocks\<close>

definition TranscodeModeTranscode :: string where "TranscodeModeTranscode = ''transcode''"
definition TranscodeModeRemuxOnly :: string where "TranscodeModeRemuxOnly = ''remuxOnly''"

record TranscodePlan =
  tpl_Mode :: string
  tpl_Encoder :: string
  tpl_VideoAction :: string
  tpl_Decode :: string
  tpl_HDRMode :: string
  tpl_PlanHash :: string
  tpl_Dropped :: "string list"

definition Describe :: "TranscodePlan option \<Rightarrow> string" where
  "Describe p =
     (case p of None \<Rightarrow> ''''
      | Some p \<Rightarrow> if tpl_Mode p = TranscodeModeRemuxOnly then ''remux to MP4, video copied''
                  else if tpl_Encoder p \<noteq> '''' then ''encode with '' @ tpl_Encoder p else ''encode'')"

record TranscodeOutput =
  to_OutputPath :: string
  to_OutputSizeBytes :: int
  to_OutputToSourcePercent :: int
  to_VMAFCentis :: "int option"

record TranscodeGraftJoin =
  tj_DonorRelease :: string
  tj_DonorImportedAt :: "time option"
  tj_Languages :: "string list"
  tj_ProbeHash :: string

record TranscodeState =
  tb_Phase :: TranscodePhase
  tb_Reason :: string
  tb_Message :: string
  tb_Profile :: string
  tb_ProfileHash :: string
  tb_ProbeHash :: string
  tb_Plan :: "TranscodePlan option"
  tb_Hardware :: string
  tb_Priority :: int
  tb_Suspended :: bool
  tb_PlannedAt :: "time option"
  tb_Class :: string
  tb_Pool :: string
  tb_FallbackReason :: string
  tb_Attempts :: int
  tb_NextAttemptAt :: "time option"
  tb_Blocked :: bool
  tb_Dispatch :: "Dispatch option"
  tb_WorkerPod :: string
  tb_StartedAt :: "time option"
  tb_FinishedAt :: "time option"
  tb_Result :: "TranscodeOutput option"
  tb_StderrTail :: string
  tb_Compliant :: bool
  tb_ProfileTag :: string
  tb_JoinedGraft :: "TranscodeGraftJoin option"

definition zero_block :: TranscodeState where
  "zero_block =
     \<lparr>tb_Phase = TranscodePhaseNone, tb_Reason = '''', tb_Message = '''', tb_Profile = '''', tb_ProfileHash = '''', tb_ProbeHash = '''', tb_Plan = None,
      tb_Hardware = '''', tb_Priority = 0, tb_Suspended = False, tb_PlannedAt = None, tb_Class = '''', tb_Pool = '''', tb_FallbackReason = '''',
      tb_Attempts = 0, tb_NextAttemptAt = None, tb_Blocked = False, tb_Dispatch = None, tb_WorkerPod = '''', tb_StartedAt = None,
      tb_FinishedAt = None, tb_Result = None, tb_StderrTail = '''', tb_Compliant = False, tb_ProfileTag = '''', tb_JoinedGraft = None\<rparr>"

record GraftSegment =
  sg_DonorStartMillis :: int
  sg_TargetStartMillis :: int
  sg_LengthMillis :: int

record GraftState =
  gs_Phase :: GraftPhase
  gs_Reason :: string
  gs_Message :: string
  gs_DonorRelease :: string
  gs_DonorImportedAt :: "time option"
  gs_Languages :: "string list"
  gs_ProbeHash :: string
  gs_DonorFault :: bool
  gs_JoinedTranscodeSeq :: int
  gs_Dispatch :: "Dispatch option"
  gs_JobName :: string
  gs_RateName :: string
  gs_RateMicros :: int
  gs_RateMarginMilli :: int
  gs_CoveragePercent :: int
  gs_Segments :: "GraftSegment list"
  gs_ResidualMillis :: int
  gs_Within80Percent :: int
  gs_Tag :: string
  gs_StartedAt :: "time option"
  gs_CompletedAt :: "time option"

definition zero_graft :: GraftState where
  "zero_graft =
     \<lparr>gs_Phase = GraftPhaseNone, gs_Reason = '''', gs_Message = '''', gs_DonorRelease = '''', gs_DonorImportedAt = None, gs_Languages = [], gs_ProbeHash = '''',
      gs_DonorFault = False, gs_JoinedTranscodeSeq = 0, gs_Dispatch = None, gs_JobName = '''', gs_RateName = '''', gs_RateMicros = 0, gs_RateMarginMilli = 0,
      gs_CoveragePercent = 0, gs_Segments = [], gs_ResidualMillis = 0, gs_Within80Percent = 0, gs_Tag = '''', gs_StartedAt = None, gs_CompletedAt = None\<rparr>"

text \<open>The probe of a file: what the quality ladder reads of it, and what the transcode planner does.\<close>

record MediaProbe = MediaInfo +
  mi_Container :: string
  mi_PixelFormat :: string
  mi_VideoBitDepth :: int
  mi_Hdr :: string
  mi_RuntimeMillis :: int
  mi_VideoEncoder :: string
  mi_TranscodeProfile :: string
  mi_AudioLanguages :: "string list"

record MediaFileStatus =
  ms_LastSeq :: int
  ms_ProbeHash :: string
  ms_ProbedAt :: "time option"
  ms_MediaInfo :: "MediaProbe option"
  ms_Transcode :: "TranscodeState option"
  ms_Graft :: "GraftState option"
  ms_GraftTag :: string
  ms_GraftedAt :: "time option"

record MediaFile =
  mf_UID :: string
  mf_Key :: nname
  mf_Kind :: string
  mf_MediaKeys :: "string list"
  mf_Path :: string
  mf_SizeBytes :: int
  mf_Original :: "bool option"
  mf_Labels :: "(string \<times> string) list"
  mf_Annotations :: "(string \<times> string) list"
  mf_Status :: MediaFileStatus

section \<open>Profiles\<close>

record TranscodeProfile =
  tp_Name :: string
  tp_UID :: string
  tp_Created :: time
  tp_Default :: bool
  tp_Selector :: "string option"
  tp_Hardware :: string
  tp_Priority :: int
  tp_ActiveDeadline :: duration
  tp_ReplaceSource :: "bool option"
  tp_KeepCodecs :: "string list"
  tp_MaxVideoBitrateKbps :: int

definition ReplaceSource :: "TranscodeProfile \<Rightarrow> bool" where
  "ReplaceSource tp = (case tp_ReplaceSource tp of None \<Rightarrow> True | Some b \<Rightarrow> b)"

definition DefaultActiveDeadline :: duration where "DefaultActiveDeadline = 48 * hour"

definition active_deadline :: "duration \<Rightarrow> duration" where
  "active_deadline d = (if d > 0 then d else DefaultActiveDeadline)"

definition ActiveDeadline :: "TranscodeProfile \<Rightarrow> duration" where
  "ActiveDeadline tp = active_deadline (tp_ActiveDeadline tp)"

section \<open>Tasks and records\<close>

record TaskInputs =
  ti_ProfileHash :: string
  ti_PlanHash :: string
  ti_Class :: string
  ti_SourcePath :: string
  ti_ProbeHash :: string
  ti_OutputPath :: string

text \<open>A graft: one track of a donor muxed into the file (\<^verbatim>\<open>app/transcode/grafttask\<close>).\<close>

record GraftInputs =
  gi_TargetProbeHash :: string
  gi_DonorAudio :: string
  gi_DonorRelease :: string
  gi_Language :: string
  gi_Anchor :: string

record GraftTask =
  gt_Schema :: string
  gt_FileKey :: nname
  gt_FileUID :: string
  gt_Item :: string
  gt_Seq :: int
  gt_Inputs :: GraftInputs
  gt_Target :: string
  gt_TargetProbeHash :: string
  gt_Root :: string
  gt_Donor :: string
  gt_Language :: string
  gt_Languages :: "string list"
  gt_Anchor :: string
  gt_Default :: bool
  gt_RecycleBin :: string

record Task =
  tk_FileUID :: string
  tk_FileKey :: nname
  tk_Seq :: int
  tk_Class :: string
  tk_ProfileName :: string
  tk_ProfileHash :: string
  tk_SourcePath :: string
  tk_SourceProbeHash :: string
  tk_SourceSizeBytes :: int
  tk_OriginalLanguage :: string
  tk_OutputPath :: string
  tk_RootPath :: string
  tk_RecycleBin :: string
  tk_OutputRoot :: string
  tk_PlanHash :: string
  tk_Deadline :: duration
  tk_Graft :: "GraftTask option"
  tk_Inputs :: TaskInputs

definition OutcomeSucceeded :: string where "OutcomeSucceeded = ''succeeded''"
definition OutcomeSkipped :: string where "OutcomeSkipped = ''skipped''"
definition OutcomeFailed :: string where "OutcomeFailed = ''failed''"
definition OutcomeCancelled :: string where "OutcomeCancelled = ''cancelled''"

definition task_ReasonSourceChanged :: string where "task_ReasonSourceChanged = ''SourceChanged''"
definition ReasonRetriable :: string where "ReasonRetriable = ''Retriable''"
definition ReasonGPUUnavailable :: string where "ReasonGPUUnavailable = ''GPUUnavailable''"
definition ReasonGPUEncodeFailed :: string where "ReasonGPUEncodeFailed = ''GPUEncodeFailed''"

record TaskResult =
  rs_OutputPath :: string
  rs_OutputSizeBytes :: int
  rs_OutputToSourcePercent :: int
  rs_VMAFCentis :: "int option"

text \<open>What a graft run reports.\<close>

record GraftResult =
  ga_Phase :: string
  ga_Reason :: string
  ga_Message :: string
  ga_RateName :: string
  ga_RateMicros :: int
  ga_RateMarginMilli :: int
  ga_CoveragePercent :: int
  ga_Segments :: "GraftSegment list"
  ga_ResidualMillis :: int
  ga_Within80Percent :: int
  ga_GraftTag :: string
  ga_DonorAudio :: string
  ga_OutputSizeBytes :: int

record Answer =
  an_Outcome :: string
  an_Reason :: string
  an_Message :: string
  an_Pod :: string
  an_StartedAt :: "time option"
  an_FinishedAt :: "time option"
  an_Result :: "TaskResult option"
  an_StderrTail :: string
  an_Graft :: "GraftResult option"

definition zero_answer :: Answer where
  "zero_answer = \<lparr>an_Outcome = '''', an_Reason = '''', an_Message = '''', an_Pod = '''', an_StartedAt = None, an_FinishedAt = None, an_Result = None, an_StderrTail = '''', an_Graft = None\<rparr>"

definition StateRequested :: string where "StateRequested = ''requested''"
definition StateWithdrawn :: string where "StateWithdrawn = ''withdrawn''"
definition StateClaimed :: string where "StateClaimed = ''claimed''"
definition StateAnswered :: string where "StateAnswered = ''answered''"
definition StateFailed :: string where "StateFailed = ''failed''"

definition RepublishWindow :: duration where "RepublishWindow = 50 * minute"
definition MaxFactWindow :: duration where "MaxFactWindow = 7 * 24 * hour"

record Record =
  rd_FileUID :: string
  rd_FileKey :: nname
  rd_Seq :: int
  rd_State :: string
  rd_RequestedAt :: time
  rd_ClaimedAt :: "time option"
  rd_AnsweredAt :: "time option"
  rd_Writer :: string
  rd_Failure :: string
  rd_Inputs :: TaskInputs
  rd_Answer :: "Answer option"

definition Fact :: "Record \<Rightarrow> bool" where
  "Fact r \<longleftrightarrow> rd_State r = StateAnswered \<and> (case rd_Answer r of None \<Rightarrow> False | Some a \<Rightarrow> an_Outcome a = OutcomeSucceeded)"

definition records_FactWindow :: "duration \<Rightarrow> duration \<Rightarrow> duration" where
  "records_FactWindow deadline grace = min (wrap64 (deadline + grace)) MaxFactWindow"

section \<open>The task of a dispatch\<close>

text \<open>\<^verbatim>\<open>filepath.Clean\<close>, on the elements of a path: empty ones and \<open>.\<close> go, \<open>..\<close> takes back the last one.\<close>

definition clean_step :: "bool \<Rightarrow> string list \<Rightarrow> string \<Rightarrow> string list" where
  "clean_step rooted out e =
     (if e = '''' \<or> e = ''.'' then out
      else if e = ''..'' then
        (if out \<noteq> [] \<and> last out \<noteq> ''..'' then butlast out else if rooted then out else out @ [e])
      else out @ [e])"

definition join_slash :: "string list \<Rightarrow> string" where
  "join_slash es = (case es of [] \<Rightarrow> '''' | e # es \<Rightarrow> e @ concat (map (\<lambda>x. CHR ''/'' # x) es))"

definition path_Clean :: "string \<Rightarrow> string" where
  "path_Clean p =
     (let rooted = has_prefix p ''/'';
          body = join_slash (foldl (clean_step rooted) [] (split_on (CHR ''/'') [] p))
      in if rooted then CHR ''/'' # body else if body = '''' then ''.'' else body)"

text \<open>\<^verbatim>\<open>filepath.Ext\<close>: from the last dot of the last element.\<close>

definition path_Ext :: "string \<Rightarrow> string" where
  "path_Ext p =
     (let base = rev (takeWhile (\<lambda>c. c \<noteq> CHR ''/'') (rev p))
      in if CHR ''.'' \<in> set base then CHR ''.'' # rev (takeWhile (\<lambda>c. c \<noteq> CHR ''.'') (rev base)) else '''')"

record RootFolder =
  rf_Path :: string
  rf_RecycleBin :: string

definition Within :: "string \<Rightarrow> string \<Rightarrow> bool" where
  "Within dir path = has_prefix (path_Clean path) (path_Clean dir @ ''/'')"

definition deeper_root :: "string \<Rightarrow> RootFolder option \<Rightarrow> RootFolder \<Rightarrow> RootFolder option" where
  "deeper_root source best rf =
     (if \<not> Within (rf_Path rf) source then best
      else case best of None \<Rightarrow> Some rf
           | Some b \<Rightarrow> if length (path_Clean (rf_Path rf)) > length (path_Clean (rf_Path b)) then Some rf else best)"

definition RootFolderFor :: "RootFolder list \<Rightarrow> string \<Rightarrow> RootFolder option" where
  "RootFolderFor folders source = foldl (deeper_root source) None folders"

definition OutputContainer :: string where "OutputContainer = ''mp4''"

definition OutputPath :: "string \<Rightarrow> string \<Rightarrow> string \<Rightarrow> bool \<Rightarrow> string + string" where
  "OutputPath source0 profileName container replaceSource =
     (let ext = (if to_lower container = '''' then ''mkv'' else to_lower container);
          source = path_Clean source0;
          srcExt = path_Ext source;
          stem = take (length source - length srcExt) source
      in if \<not> has_prefix source ''/'' then Inl (''source '' @ fmt_q source @ '' is not absolute'')
         else if replaceSource then
           (if equal_fold (trim_prefix srcExt ''.'') ext then Inr source else Inr (stem @ ''.'' @ ext))
         else Inr (stem @ '' - '' @ profileName @ ''.'' @ ext))"

definition RecycleBinOf :: "RootFolder \<Rightarrow> string" where
  "RecycleBinOf rf = (if rf_RecycleBin rf \<noteq> '''' then rf_RecycleBin rf else ''/data/.recycle'')"

definition ErrNoRootFolder :: string where "ErrNoRootFolder = ''not under any RootFolder''"

definition task_of :: "MediaFile \<Rightarrow> TranscodeProfile \<Rightarrow> string \<Rightarrow> int \<Rightarrow> string \<Rightarrow> TranscodePlan option \<Rightarrow> string \<Rightarrow> string \<Rightarrow> RootFolder \<Rightarrow> string \<Rightarrow> Task" where
  "task_of mf tp hash seq class plan source out rf outRoot =
     (let planHash = (case plan of None \<Rightarrow> '''' | Some p \<Rightarrow> tpl_PlanHash p); probe = ms_ProbeHash (mf_Status mf)
      in \<lparr>tk_FileUID = mf_UID mf, tk_FileKey = mf_Key mf, tk_Seq = seq, tk_Class = class, tk_ProfileName = tp_Name tp, tk_ProfileHash = hash,
          tk_SourcePath = source, tk_SourceProbeHash = probe, tk_SourceSizeBytes = mf_SizeBytes mf, tk_OriginalLanguage = '''',
          tk_OutputPath = out, tk_RootPath = rf_Path rf, tk_RecycleBin = RecycleBinOf rf, tk_OutputRoot = outRoot, tk_PlanHash = planHash,
          tk_Deadline = ActiveDeadline tp, tk_Graft = None,
          tk_Inputs = \<lparr>ti_ProfileHash = hash, ti_PlanHash = planHash, ti_Class = class, ti_SourcePath = source, ti_ProbeHash = probe, ti_OutputPath = out\<rparr>\<rparr>)"

definition BuildTask :: "MediaFile \<Rightarrow> TranscodeProfile \<Rightarrow> string \<Rightarrow> RootFolder list \<Rightarrow> int \<Rightarrow> string \<Rightarrow> TranscodePlan option \<Rightarrow> string + Task" where
  "BuildTask mf tp hash folders seq class plan =
     (let source = path_Clean (mf_Path mf) in
      case RootFolderFor folders source of
        None \<Rightarrow> Inl (''source '' @ source @ '': '' @ ErrNoRootFolder)
      | Some rf \<Rightarrow>
          (case OutputPath source (tp_Name tp) OutputContainer (ReplaceSource tp) of
             Inl err \<Rightarrow> Inl (''invalid output path: '' @ err)
           | Inr out \<Rightarrow>
               if path_Clean out \<noteq> source then
                 (case RootFolderFor folders out of
                    None \<Rightarrow> Inl (''output '' @ out @ '': '' @ ErrNoRootFolder)
                  | Some orf \<Rightarrow> Inr (task_of mf tp hash seq class plan source out rf (rf_Path orf)))
               else Inr (task_of mf tp hash seq class plan source out rf '''')))"

lemma BuildTask_fields:
  assumes "BuildTask mf tp hash folders seq class plan = Inr t"
  shows "tk_Seq t = seq \<and> tk_Class t = class \<and> tk_FileUID t = mf_UID mf \<and> tk_ProfileHash t = hash \<and> tk_SourceProbeHash t = ms_ProbeHash (mf_Status mf)"
  using assms by (auto simp: BuildTask_def task_of_def Let_def split: option.splits sum.splits if_splits)

end
