(* ===== verification/TranscodeSelect.thy ===== *)
theory TranscodeSelect
  imports TranscodeTypes
begin

text \<open>
  Which files are transcoded, and under which profile (\<^verbatim>\<open>app/transcode/transcodeplan/select.go\<close>, \<^verbatim>\<open>eligible.go\<close>). The match of a
  label selector is Kubernetes' and the hash of a profile a SHA-256: they are the parameters \<open>selects\<close>, which answers \<open>None\<close> for a
  selector it cannot read, and \<open>profileHash\<close>.
\<close>

section \<open>The selection of a profile\<close>

definition EligibleKinds :: "string list" where "EligibleKinds = [''movie'', ''episode'']"

definition EligibleKind :: "string \<Rightarrow> bool" where
  "EligibleKind k \<longleftrightarrow> k \<in> set EligibleKinds"

definition Tag :: "string \<Rightarrow> string \<Rightarrow> string" where
  "Tag profileName profileHash = profileName @ ''@'' @ profileHash"

definition SelectorMatches :: "(string \<Rightarrow> (string \<times> string) list \<Rightarrow> bool option) \<Rightarrow> TranscodeProfile \<Rightarrow> (string \<times> string) list \<Rightarrow> bool" where
  "SelectorMatches selects p labels =
     (case tp_Selector p of None \<Rightarrow> False | Some sel \<Rightarrow> (case selects sel labels of None \<Rightarrow> False | Some b \<Rightarrow> b))"

definition ProfileLess :: "TranscodeProfile \<Rightarrow> TranscodeProfile \<Rightarrow> bool" where
  "ProfileLess a b = (if tp_Created a \<noteq> tp_Created b then tp_Created a < tp_Created b else tp_Name a < tp_Name b)"

definition DefaultWinner :: "TranscodeProfile list \<Rightarrow> TranscodeProfile option" where
  "DefaultWinner profiles = scan_best tp_Default ProfileLess profiles"

definition WinningProfile :: "(string \<Rightarrow> (string \<times> string) list \<Rightarrow> bool option) \<Rightarrow> (string \<times> string) list \<Rightarrow> TranscodeProfile list \<Rightarrow> TranscodeProfile option \<Rightarrow> TranscodeProfile option" where
  "WinningProfile selects labels profiles def' =
     (case scan_best (\<lambda>p. SelectorMatches selects p labels) ProfileLess profiles of Some best \<Rightarrow> Some best | None \<Rightarrow> def')"

definition ReasonDuplicateDefault :: string where "ReasonDuplicateDefault = ''DuplicateDefault''"

definition ValidateProfile :: "TranscodeProfile \<Rightarrow> TranscodeProfile list \<Rightarrow> bool \<times> string \<times> string" where
  "ValidateProfile tp profiles =
     (case DefaultWinner profiles of
        Some winner \<Rightarrow>
          if tp_Default tp \<and> tp_Name winner \<noteq> tp_Name tp
          then (True, ReasonDuplicateDefault, ''profile '' @ fmt_q (tp_Name winner) @
                 '' is also marked spec.default and takes precedence (created earlier, or sorts first on a tie)'')
          else (False, '''', '''')
      | None \<Rightarrow> (False, '''', ''''))"

definition ManagedFiles :: "MediaFile list \<Rightarrow> (string \<times> string \<times> string \<Rightarrow> bool) \<Rightarrow> (MediaFile \<Rightarrow> string) \<Rightarrow> MediaFile list" where
  "ManagedFiles files items itemName = filter (\<lambda>mf. EligibleKind (mf_Kind mf) \<longrightarrow> items (mf_Kind mf, fst (mf_Key mf), itemName mf)) files"

definition select_one :: "(string \<Rightarrow> (string \<times> string) list \<Rightarrow> bool option) \<Rightarrow> TranscodeProfile \<Rightarrow> TranscodeProfile list \<Rightarrow> TranscodeProfile option \<Rightarrow> MediaFile list \<times> bool \<Rightarrow> MediaFile \<Rightarrow> MediaFile list \<times> bool" where
  "select_one selects tp profiles def' acc mf =
     (let (matching, overlapped) = acc in
      if \<not> EligibleKind (mf_Kind mf) then acc
      else case WinningProfile selects (mf_Labels mf) profiles def' of
             None \<Rightarrow> acc
           | Some winner \<Rightarrow>
               if tp_Name winner = tp_Name tp then (matching @ [mf], overlapped)
               else if SelectorMatches selects tp (mf_Labels mf) then (matching, True) else acc)"

definition SelectFiles :: "(string \<Rightarrow> (string \<times> string) list \<Rightarrow> bool option) \<Rightarrow> TranscodeProfile \<Rightarrow> TranscodeProfile list \<Rightarrow> TranscodeProfile option \<Rightarrow> MediaFile list \<Rightarrow> MediaFile list \<times> bool" where
  "SelectFiles selects tp profiles def' files = foldl (select_one selects tp profiles def') ([], False) files"

section \<open>What is transcoded already\<close>

definition inMatroska :: "MediaFile \<Rightarrow> bool" where
  "inMatroska mf =
     (let probed = (case ms_MediaInfo (mf_Status mf) of None \<Rightarrow> '''' | Some mi \<Rightarrow> mi_Container mi);
          c = (if probed = '''' then trim_prefix (path_Ext (mf_Path mf)) ''.'' else probed)
      in to_lower c \<in> {''mkv'', ''mka'', ''webm'', ''matroska''})"

definition RecordsATranscode :: "TranscodeState option \<Rightarrow> bool" where
  "RecordsATranscode tr = (case tr of None \<Rightarrow> False | Some b \<Rightarrow> tb_Phase b = TranscodePhaseSucceeded \<or> tb_Phase b = TranscodePhaseNone)"

definition AlreadyTranscoded :: "MediaFile \<Rightarrow> string \<Rightarrow> bool" where
  "AlreadyTranscoded mf profile =
     (let tagged = (case ms_MediaInfo (mf_Status mf) of None \<Rightarrow> False | Some mi \<Rightarrow> mi_TranscodeProfile mi \<noteq> '''');
          tr = ms_Transcode (mf_Status mf)
      in if tagged \<and> inMatroska mf then False
         else if tagged \<or> mf_Original mf = Some False then True
         else RecordsATranscode tr \<and> (case tr of None \<Rightarrow> False | Some b \<Rightarrow> has_prefix (tb_ProfileTag b) (Tag profile '''')))"

definition Probed :: "MediaFile \<Rightarrow> bool" where
  "Probed mf \<longleftrightarrow> ms_ProbeHash (mf_Status mf) \<noteq> '''' \<and> ms_MediaInfo (mf_Status mf) \<noteq> None"

definition KeptH264Dropped :: "MediaFile \<Rightarrow> TranscodeProfile \<Rightarrow> bool" where
  "KeptH264Dropped mf profile =
     (case ms_MediaInfo (mf_Status mf) of None \<Rightarrow> False
      | Some mi \<Rightarrow> mi_TranscodeProfile mi \<noteq> '''' \<and> mi_VideoCodec mi = ''h264'' \<and> ''h264'' \<notin> set (tp_KeepCodecs profile))"

definition transcodeEncoders :: "string list" where
  "transcodeEncoders = [''libx265'', ''libkvazaar'', ''libsvtav1'', ''libaom-av1'', ''librav1e'']"

definition TranscodedElsewhere :: "MediaProbe \<Rightarrow> bool" where
  "TranscodedElsewhere mi =
     (let fields = strings_Fields (to_lower (mi_VideoEncoder mi)) in
      if length fields < 2 \<or> \<not> has_prefix (hd fields) ''lavc'' then False
      else let enc = last fields in enc \<in> set transcodeEncoders \<or> has_prefix enc ''hevc_'' \<or> has_prefix enc ''av1_'')"

definition VideoCopied :: string where "VideoCopied = ''copy''"
definition VideoEncoded :: string where "VideoEncoded = ''encode''"

definition recorded_action :: "TranscodeState option \<Rightarrow> string" where
  "recorded_action tr =
     (if RecordsATranscode tr then (case tr of None \<Rightarrow> '''' | Some b \<Rightarrow> (case tb_Plan b of None \<Rightarrow> '''' | Some p \<Rightarrow> tpl_VideoAction p)) else '''')"

definition NormalisedKbps :: "int \<Rightarrow> int \<Rightarrow> int \<Rightarrow> int" where
  "NormalisedKbps kbps width height =
     (if kbps \<le> 0 then 0 else if width \<le> 0 \<or> height \<le> 0 then kbps else quot (wrap64 (wrap64 (kbps * 1920) * 1080)) (wrap64 (width * height)))"

definition RemuxOverLimit :: "MediaFile \<Rightarrow> TranscodeProfile \<Rightarrow> bool" where
  "RemuxOverLimit mf profile =
     (case ms_MediaInfo (mf_Status mf) of None \<Rightarrow> False
      | Some mi \<Rightarrow>
          if tp_MaxVideoBitrateKbps profile \<le> 0 \<or> mi_TranscodeProfile mi = '''' \<or> mi_VideoCodec mi \<noteq> ''hevc'' \<or> TranscodedElsewhere mi then False
          else if recorded_action (ms_Transcode (mf_Status mf)) = VideoEncoded then False
          else NormalisedKbps (mi_VideoBitrateKbps mi) (mi_Width mi) (mi_Height mi) > tp_MaxVideoBitrateKbps profile)"

definition hdrFormats :: "string list" where
  "hdrFormats = [''pq10'', ''hdr10'', ''hdr10plus'', ''hlg10'', ''dolbyVision'', ''dolbyVisionHdr10'', ''dolbyVisionSdr'', ''dolbyVisionHlg'', ''dolbyVisionHdr10Plus'']"

definition EightBitTarget :: "int \<Rightarrow> string \<Rightarrow> bool" where
  "EightBitTarget height hdr \<longleftrightarrow> hdr \<notin> set hdrFormats \<and> height > 0 \<and> height \<le> 1080"

definition TenBitRemux :: "MediaFile \<Rightarrow> bool" where
  "TenBitRemux mf =
     (case ms_MediaInfo (mf_Status mf) of None \<Rightarrow> False
      | Some mi \<Rightarrow>
          if mi_TranscodeProfile mi = '''' \<or> mi_VideoCodec mi \<noteq> ''hevc'' \<or> TranscodedElsewhere mi \<or>
             (mi_VideoBitDepth mi \<noteq> 10 \<and> \<not> contains (mi_PixelFormat mi) ''10'') then False
          else let action = recorded_action (ms_Transcode (mf_Status mf)) in
               if action \<noteq> '''' then action = VideoCopied else EightBitTarget (mi_Height mi) (mi_Hdr mi))"

section \<open>Eligibility\<close>

definition ReasonUnprobed :: string where "ReasonUnprobed = ''Unprobed''"
definition ReasonProbePending :: string where "ReasonProbePending = ''ProbePending''"
definition ReasonGrafting :: string where "ReasonGrafting = ''Grafting''"
definition ReasonUpgradeDownloading :: string where "ReasonUpgradeDownloading = ''UpgradeDownloading''"
definition ReasonTranscoded :: string where "ReasonTranscoded = ''Transcoded''"
definition AnnotationTranscodeExclude :: string where "AnnotationTranscodeExclude = ''transcode.clustarr.io/exclude''"

record Eligibility =
  el_Eligible :: bool
  el_Profile :: "TranscodeProfile option"
  el_Hash :: string
  el_Tag :: string
  el_Pending :: string
  el_Why :: string
  el_Excluded :: bool
  el_Priority :: int

definition zero_eligibility :: Eligibility where
  "zero_eligibility = \<lparr>el_Eligible = False, el_Profile = None, el_Hash = '''', el_Tag = '''', el_Pending = '''', el_Why = '''', el_Excluded = False, el_Priority = 0\<rparr>"

record File =
  fl_MF :: MediaFile
  fl_Labels :: "(string \<times> string) list option"
  fl_Status :: "MediaFileStatus option"
  fl_ProbeCurrent :: bool
  fl_ItemExists :: bool
  fl_ItemExcluded :: bool
  fl_StandaloneGraft :: bool
  fl_UpgradeDownloading :: bool
  fl_Priority :: "int option"

definition judge :: "File \<Rightarrow> TranscodeProfile \<Rightarrow> TranscodeProfile list \<Rightarrow> Eligibility \<Rightarrow> Eligibility" where
  "judge f profile profiles e =
     (let view = (case fl_Status f of None \<Rightarrow> fl_MF f | Some st \<Rightarrow> (fl_MF f)\<lparr>mf_Status := st\<rparr>);
          (invalid, _, msg) = ValidateProfile profile profiles;
          kind = mf_Kind (fl_MF f)
      in if invalid then e\<lparr>el_Why := ''its winning profile is Invalid: '' @ msg\<rparr>
         else if \<not> fl_ItemExists f then e\<lparr>el_Why := ''its '' @ kind @ '' is gone''\<rparr>
         else if AlreadyTranscoded view (tp_Name profile) \<and> \<not> KeptH264Dropped view profile \<and> \<not> RemuxOverLimit view profile \<and> \<not> TenBitRemux view
         then e\<lparr>el_Why := ReasonTranscoded\<rparr>
         else if \<not> Probed view then e\<lparr>el_Why := ''never probed'', el_Pending := ReasonUnprobed\<rparr>
         else if \<not> fl_ProbeCurrent f then e\<lparr>el_Why := ''a probe of new bytes is pending'', el_Pending := ReasonProbePending\<rparr>
         else if fl_StandaloneGraft f then e\<lparr>el_Why := ''a standalone graft rewrites it'', el_Pending := ReasonGrafting\<rparr>
         else if fl_UpgradeDownloading f then e\<lparr>el_Why := ''an upgrade of its '' @ kind @ '' is downloading'', el_Pending := ReasonUpgradeDownloading\<rparr>
         else e\<lparr>el_Eligible := True\<rparr>)"

definition Eligible :: "(string \<Rightarrow> (string \<times> string) list \<Rightarrow> bool option) \<Rightarrow> (TranscodeProfile \<Rightarrow> string) \<Rightarrow> File \<Rightarrow> TranscodeProfile list \<Rightarrow> Eligibility" where
  "Eligible selects profileHash f profiles =
     (if \<not> EligibleKind (mf_Kind (fl_MF f)) then zero_eligibility\<lparr>el_Why := ''not a movie or episode''\<rparr>
      else if fl_ItemExcluded f \<or> map_of (mf_Annotations (fl_MF f)) AnnotationTranscodeExclude = Some ''true''
      then zero_eligibility\<lparr>el_Excluded := True, el_Why := ''excluded by '' @ AnnotationTranscodeExclude\<rparr>
      else
        let labels = (case fl_Labels f of None \<Rightarrow> mf_Labels (fl_MF f) | Some l \<Rightarrow> l) in
        case WinningProfile selects labels profiles (DefaultWinner profiles) of
          None \<Rightarrow> zero_eligibility\<lparr>el_Why := ''no TranscodeProfile selects it''\<rparr>
        | Some p \<Rightarrow>
            let hash = profileHash p in
            judge f p profiles
              (zero_eligibility\<lparr>el_Profile := Some p, el_Hash := hash, el_Tag := Tag (tp_Name p) hash,
                 el_Priority := (case fl_Priority f of None \<Rightarrow> tp_Priority p | Some n \<Rightarrow> n)\<rparr>))"

end
