(* ===== verification/TranscodePlanner.thy ===== *)
theory TranscodePlanner
  imports TranscodeSelect
begin

text \<open>
  The transcode planner (\<^verbatim>\<open>app/transcode/transcodeplan\<close>): one pass over one file, from its block, the record of its last dispatch,
  its eligibility and what admission granted it, to the next block and what the pass owes. Parameters (\<open>PlanEnv\<close>) are the encoding plan
  of a file (\<^verbatim>\<open>PlanFor\<close>, which reads the encoding standard), the name of a pool, the hash of an invalid nonce and the parser of
  an RFC 3339 time. \<^verbatim>\<open>DeepCopy\<close> is the identity.
\<close>

section \<open>Inputs and decisions\<close>

definition DecisionSkip :: string where "DecisionSkip = ''skip''"
definition DecisionCopyVideo :: string where "DecisionCopyVideo = ''copyVideo''"

record Planning =
  pn_Reject :: string
  pn_Decision :: string
  pn_Reason :: string
  pn_Action :: string
  pn_Encoder :: string
  pn_Decode :: string
  pn_HDR :: string
  pn_Hash :: string
  pn_Dropped :: "string list"

record PlanFailure =
  pf_Reason :: string
  pf_Message :: string

definition Skips :: "Planning \<Rightarrow> bool" where
  "Skips p \<longleftrightarrow> pn_Reject p \<noteq> '''' \<or> pn_Decision p = DecisionSkip"

definition StatusPlan :: "Planning \<Rightarrow> TranscodePlan option" where
  "StatusPlan s =
     (if pn_Decision s = DecisionSkip then None
      else let copy = (pn_Decision s = DecisionCopyVideo) in
           Some \<lparr>tpl_Mode = (if copy then TranscodeModeRemuxOnly else TranscodeModeTranscode), tpl_Encoder = (if copy then ''copy'' else pn_Encoder s),
                 tpl_VideoAction = pn_Action s, tpl_Decode = pn_Decode s, tpl_HDRMode = pn_HDR s, tpl_PlanHash = pn_Hash s, tpl_Dropped = pn_Dropped s\<rparr>)"

record PlanEnv =
  env_PlanFor :: "TranscodeProfile \<Rightarrow> string \<Rightarrow> MediaFile \<Rightarrow> MediaFileStatus \<Rightarrow> string option \<Rightarrow> Device \<Rightarrow> string \<Rightarrow> PlanFailure + Planning"
  env_PoolName :: "pool_key \<Rightarrow> string"
  env_NonceHex :: "string \<Rightarrow> string"
  env_ParseTime :: "string \<Rightarrow> time option"

record LeaseView =
  lv_Missing :: bool
  lv_MissingSince :: time

record Intents =
  it_Retry :: string
  it_Cancel :: string
  it_Suspend :: string
  it_Priority :: string
  it_Hardware :: string

record HandledNonces =
  hn_TranscodeRetry :: string
  hn_TranscodeCancel :: string

record Joinable =
  jn_Task :: GraftTask
  jn_Join :: TranscodeGraftJoin

record Inputs =
  in_File :: MediaFile
  in_OriginalLanguage :: string
  in_Prev :: "TranscodeState option"
  in_Draft :: MediaFileStatus
  in_ProbeCurrent :: bool
  in_Eligibility :: Eligibility
  in_Ledger :: Snapshot
  in_Now :: time
  in_Record :: "Record option"
  in_RecordRev :: int
  in_Folders :: "RootFolder list"
  in_Issue :: "(int \<Rightarrow> int) option"
  in_Lease :: LeaseView
  in_TaskStored :: "bool option"
  in_Profiles :: "(string \<times> TranscodeProfile) list option"
  in_Intents :: Intents
  in_Nonces :: HandledNonces
  in_DeadLettered :: string
  in_SpecPathMissing :: bool
  in_OutputExists :: bool
  in_OutputSize :: int
  in_PrevGraft :: "GraftState option"
  in_Joinable :: "Joinable option"

definition input_profile :: "Inputs \<Rightarrow> string \<Rightarrow> TranscodeProfile option" where
  "input_profile i name =
     (case in_Profiles i of
        Some m \<Rightarrow> map_of m name
      | None \<Rightarrow> (case el_Profile (in_Eligibility i) of Some p \<Rightarrow> if tp_Name p = name then Some p else None | None \<Rightarrow> None))"

datatype GrantOutcome = GrantKeep | GrantConfirm | GrantRelease

record Event =
  evt_Type :: string
  evt_Reason :: string
  evt_Message :: string

record HistoryEvent =
  he_Action :: string
  he_Seq :: int
  he_Reason :: string

text \<open>The observation of a finished dispatch; the ratio of sizes is kept as the percentage it is computed from.\<close>

record Terminal =
  tm_Class :: string
  tm_Succeeded :: bool
  tm_Wall :: duration
  tm_Height :: int
  tm_Runtime :: duration
  tm_SizePercent :: int
  tm_Resolution :: string

record Decision =
  dc_Block :: "TranscodeState option"
  dc_Grant :: GrantOutcome
  dc_Due :: time
  dc_Again :: bool
  dc_Events :: "Event list"
  dc_ConfirmSeq :: int
  dc_Request :: "Record option"
  dc_RequestRev :: int
  dc_Publish :: "Task option"
  dc_Republish :: bool
  dc_History :: "HistoryEvent list"
  dc_Observe :: "Terminal option"
  dc_Unpaced :: bool
  dc_Records :: "string list"
  dc_Withdraw :: int
  dc_Nonces :: "HandledNonces option"
  dc_Dispatched :: string

definition decided :: "TranscodeState option \<Rightarrow> Decision" where
  "decided b =
     \<lparr>dc_Block = b, dc_Grant = GrantKeep, dc_Due = 0, dc_Again = False, dc_Events = [], dc_ConfirmSeq = 0, dc_Request = None, dc_RequestRev = 0,
      dc_Publish = None, dc_Republish = False, dc_History = [], dc_Observe = None, dc_Unpaced = False, dc_Records = [], dc_Withdraw = 0,
      dc_Nonces = None, dc_Dispatched = ''''\<rparr>"

definition normal_event :: "string \<Rightarrow> string \<Rightarrow> Event" where
  "normal_event reason msg = \<lparr>evt_Type = ''Normal'', evt_Reason = reason, evt_Message = msg\<rparr>"

definition warning_event :: "string \<Rightarrow> string \<Rightarrow> Event" where
  "warning_event reason msg = \<lparr>evt_Type = ''Warning'', evt_Reason = reason, evt_Message = msg\<rparr>"

definition maxMessage :: nat where "maxMessage = 1024"
definition maxFallbackReason :: nat where "maxFallbackReason = 256"
definition maxStderrTail :: nat where "maxStderrTail = 1024"

definition republishEvery :: duration where "republishEvery = minute"
definition TranscodeLeaseTTL :: duration where "TranscodeLeaseTTL = 90 * second"
definition LeaseLostGrace :: duration where "LeaseLostGrace = 2 * TranscodeLeaseTTL"
definition inflightRecheck :: duration where "inflightRecheck = minute"
definition deadlineGrace :: duration where "deadlineGrace = hour"

definition ReasonSuspended :: string where "ReasonSuspended = ''Suspended''"
definition ReasonUnclaimed :: string where "ReasonUnclaimed = ''Unclaimed''"
definition ReasonWorkerLost :: string where "ReasonWorkerLost = ''WorkerLost''"
definition ReasonRerouted :: string where "ReasonRerouted = ''Rerouted''"
definition ReasonPlanSkip :: string where "ReasonPlanSkip = ''PlanSkip''"
definition ReasonCancelled :: string where "ReasonCancelled = ''Cancelled''"
definition ReasonProfileGone :: string where "ReasonProfileGone = ''ProfileGone''"
definition ReasonExcluded :: string where "ReasonExcluded = ''Excluded''"
definition ReasonRetriesExhausted :: string where "ReasonRetriesExhausted = ''RetriesExhausted''"
definition ReasonInvalidSource :: string where "ReasonInvalidSource = ''InvalidSource''"
definition ReasonDeadLettered :: string where "ReasonDeadLettered = ''DeadLettered''"
definition ReasonDeadlineExceeded :: string where "ReasonDeadlineExceeded = ''DeadlineExceeded''"
definition ReasonSourceChanged :: string where "ReasonSourceChanged = ''SourceChanged''"
definition ReasonOrphaned :: string where "ReasonOrphaned = ''Orphaned''"
definition ReasonReclaimed :: string where "ReasonReclaimed = ''Reclaimed''"

section \<open>The next step for an answered dispatch\<close>

definition MaxAttempts :: int where "MaxAttempts = 5"

definition RequeueBackoff :: "duration list" where "RequeueBackoff = [minute, 5 * minute, 15 * minute, 30 * minute]"

record Next =
  nx_Phase :: TranscodePhase
  nx_Reason :: string
  nx_Message :: string
  nx_Block :: bool
  nx_Requeue :: bool
  nx_After :: duration
  nx_FallbackCPU :: bool
  nx_NoOp :: bool

definition next_phase :: "TranscodePhase \<Rightarrow> string \<Rightarrow> string \<Rightarrow> Next" where
  "next_phase phase reason msg =
     \<lparr>nx_Phase = phase, nx_Reason = reason, nx_Message = msg, nx_Block = False, nx_Requeue = False, nx_After = 0, nx_FallbackCPU = False, nx_NoOp = False\<rparr>"

definition retry :: "string \<Rightarrow> string \<Rightarrow> TranscodeState \<Rightarrow> Next" where
  "retry reason msg st =
     (if tb_Attempts st \<ge> MaxAttempts
      then (next_phase TranscodePhaseFailed ReasonRetriesExhausted
              (fmt_d (tb_Attempts st) @ '' attempts; the last failed with '' @ reason @ '': '' @ msg))\<lparr>nx_Block := True\<rparr>
      else let i = min (max (tb_Attempts st - 1) 0) (int (length RequeueBackoff) - 1)
           in (next_phase TranscodePhasePlanned reason msg)\<lparr>nx_Requeue := True, nx_After := RequeueBackoff ! nat i\<rparr>)"

definition Decide :: "Answer \<Rightarrow> TranscodeState \<Rightarrow> bool \<Rightarrow> bool \<Rightarrow> Next" where
  "Decide a st auto kept =
     (if an_Outcome a = OutcomeSucceeded then next_phase (if kept then TranscodePhaseSucceeded else TranscodePhaseSwapping) '''' ''''
      else if an_Outcome a = OutcomeSkipped then next_phase TranscodePhaseSkipped (an_Reason a) (an_Message a)
      else if an_Outcome a = OutcomeCancelled then (next_phase TranscodePhaseNone '''' '''')\<lparr>nx_NoOp := True\<rparr>
      else if an_Reason a = ReasonGPUUnavailable \<or> an_Reason a = ReasonGPUEncodeFailed then
        (if auto \<and> tb_Class st \<noteq> HardwareCPU
         then (next_phase TranscodePhasePlanned (an_Reason a) (an_Message a))\<lparr>nx_Requeue := True, nx_FallbackCPU := True\<rparr>
         else retry (an_Reason a) (an_Message a) st)
      else if an_Reason a = ReasonRetriable then retry (an_Reason a) (an_Message a) st
      else if an_Reason a = task_ReasonSourceChanged then next_phase TranscodePhaseFailed (an_Reason a) (an_Message a)
      else (next_phase TranscodePhaseFailed (an_Reason a) (an_Message a))\<lparr>nx_Block := True\<rparr>)"

definition outputOf :: "TaskResult option \<Rightarrow> TranscodeOutput option" where
  "outputOf r = map_option (\<lambda>r. \<lparr>to_OutputPath = rs_OutputPath r, to_OutputSizeBytes = rs_OutputSizeBytes r,
     to_OutputToSourcePercent = rs_OutputToSourcePercent r, to_VMAFCentis = rs_VMAFCentis r\<rparr>) r"

definition answer_facts :: "TranscodeState \<Rightarrow> Answer \<Rightarrow> TranscodeState" where
  "answer_facts b a =
     b\<lparr>tb_StderrTail := (if an_StderrTail a \<noteq> '''' then tail (an_StderrTail a) maxStderrTail else tb_StderrTail b),
       tb_StartedAt := (if an_StartedAt a \<noteq> None \<and> tb_StartedAt b = None then an_StartedAt a else tb_StartedAt b),
       tb_WorkerPod := (if an_Pod a \<noteq> '''' then truncate_runes (an_Pod a) 253 else tb_WorkerPod b)\<rparr>"

definition requeued :: "TranscodeState \<Rightarrow> Next \<Rightarrow> time \<Rightarrow> TranscodeState" where
  "requeued b n now =
     b\<lparr>tb_Phase := TranscodePhasePlanned, tb_WorkerPod := '''', tb_NextAttemptAt := (if nx_After n > 0 then Some (now + nx_After n) else None),
       tb_Reason := nx_Reason n,
       tb_FallbackReason := (if nx_FallbackCPU n
          then truncate_runes (''GPU attempt '' @ fmt_d (tb_Attempts b) @ '' on '' @ tb_Class b @ '': '' @ nx_Reason n @ '': '' @ nx_Message n) maxFallbackReason
          else tb_FallbackReason b),
       tb_Message := truncate_runes (''attempt '' @ fmt_d (tb_Attempts b) @ '' failed ('' @ nx_Reason n @ ''): '' @ nx_Message n @ ''; requeued'') maxMessage\<rparr>"

definition applyAnswer :: "TranscodeState \<Rightarrow> Answer \<Rightarrow> Next \<Rightarrow> time \<Rightarrow> TranscodeState" where
  "applyAnswer b0 a n now =
     (let b = answer_facts b0 a; at = (case an_FinishedAt a of None \<Rightarrow> now | Some t \<Rightarrow> t) in
      if nx_NoOp n then b
      else if nx_Requeue n then requeued b n now
      else if nx_Phase n = TranscodePhaseSwapping then
        b\<lparr>tb_Phase := nx_Phase n, tb_Reason := '''', tb_FinishedAt := Some at, tb_Result := outputOf (an_Result a),
          tb_Message := (''transcode succeeded; waiting for the output'' @ [CHR 0x27] @ ''s probe'')\<rparr>
      else if nx_Phase n = TranscodePhaseSucceeded then
        b\<lparr>tb_Phase := nx_Phase n, tb_Reason := '''', tb_FinishedAt := Some at, tb_Result := outputOf (an_Result a), tb_Compliant := False,
          tb_ProfileTag := Tag (tb_Profile b) (tb_ProfileHash b), tb_Message := ''transcoded to a copy beside the kept source''\<rparr>
      else if nx_Phase n = TranscodePhaseSkipped then
        b\<lparr>tb_Phase := nx_Phase n, tb_Reason := firstNonEmpty (nx_Reason n) ReasonPlanSkip, tb_FinishedAt := Some at,
          tb_Message := truncate_runes (nx_Message n) maxMessage\<rparr>
      else
        b\<lparr>tb_Phase := TranscodePhaseFailed, tb_Reason := nx_Reason n, tb_Blocked := nx_Block n, tb_FinishedAt := Some at,
          tb_Message := truncate_runes (nx_Message n) maxMessage\<rparr>)"

definition resolutionClass :: "int \<Rightarrow> string" where
  "resolutionClass height = (if height \<le> 0 then ''unknown'' else if height \<le> 576 then ''sd'' else if height \<le> 1080 then ''hd'' else ''uhd'')"

definition terminalOf :: "TranscodeState \<Rightarrow> MediaFileStatus \<Rightarrow> Terminal option" where
  "terminalOf b st =
     (case (tb_StartedAt b, tb_FinishedAt b) of
        (Some s, Some f) \<Rightarrow>
          let height = (case ms_MediaInfo st of None \<Rightarrow> 0 | Some mi \<Rightarrow> mi_Height mi) in
          Some \<lparr>tm_Class = (if tb_Class b = '''' then (case tb_Plan b of None \<Rightarrow> '''' | Some p \<Rightarrow> HardwareForEncoder (tpl_Encoder p)) else tb_Class b),
                tm_Succeeded = (tb_Phase b = TranscodePhaseSwapping \<or> tb_Phase b = TranscodePhaseSucceeded),
                tm_Wall = max (time_sub f s) 0, tm_Height = height,
                tm_Runtime = (case ms_MediaInfo st of None \<Rightarrow> 0 | Some mi \<Rightarrow> wrap64 (mi_RuntimeMillis mi * 1000000)),
                tm_SizePercent = (case tb_Result b of None \<Rightarrow> 0 | Some r \<Rightarrow> max (to_OutputToSourcePercent r) 0),
                tm_Resolution = resolutionClass height\<rparr>
      | _ \<Rightarrow> None)"

section \<open>Facts\<close>

definition FactWindow :: "duration \<Rightarrow> duration" where
  "FactWindow deadline = records_FactWindow deadline deadlineGrace"

definition deadlineOf :: "Inputs \<Rightarrow> TranscodeState \<Rightarrow> duration" where
  "deadlineOf i b = (case input_profile i (tb_Profile b) of Some tp \<Rightarrow> ActiveDeadline tp | None \<Rightarrow> active_deadline 0)"

definition InFactWindow :: "TranscodeState \<Rightarrow> duration \<Rightarrow> time \<Rightarrow> bool" where
  "InFactWindow b deadline now =
     (case tb_Dispatch b of None \<Rightarrow> False | Some dp \<Rightarrow> dp_Withdrawn dp \<and> now < dp_DispatchedAt dp + FactWindow deadline)"

definition keepFact :: "Inputs \<Rightarrow> TranscodeState option" where
  "keepFact i = (case in_Prev i of None \<Rightarrow> None | Some b \<Rightarrow> if InFactWindow b (deadlineOf i b) (in_Now i) then Some b else None)"

definition factAfterWithdrawal :: "Inputs \<Rightarrow> bool" where
  "factAfterWithdrawal i =
     (case (in_Prev i, in_Record i) of
        (Some b, Some r) \<Rightarrow> InFactWindow b (deadlineOf i b) (in_Now i) \<and> map_option dp_Seq (tb_Dispatch b) = Some (rd_Seq r) \<and> Fact r
      | _ \<Rightarrow> False)"

definition fileMissingSwap :: "Inputs \<Rightarrow> bool" where
  "fileMissingSwap i =
     (case (in_Prev i, in_Record i) of
        (Some b, Some r) \<Rightarrow>
          in_SpecPathMissing i \<and> in_OutputExists i \<and> map_option dp_Seq (tb_Dispatch b) = Some (rd_Seq r) \<and>
          ti_OutputPath (rd_Inputs r) \<noteq> '''' \<and> ti_OutputPath (rd_Inputs r) \<noteq> mf_Path (in_File i) \<and>
          tb_Phase b \<noteq> TranscodePhaseSwapping \<and> tb_Phase b \<noteq> TranscodePhaseSucceeded
      | _ \<Rightarrow> False)"

definition close_dispatch :: "TranscodeState \<Rightarrow> int \<Rightarrow> bool \<Rightarrow> TranscodeState" where
  "close_dispatch b answered withdrawn =
     b\<lparr>tb_Dispatch := map_option (\<lambda>dp. dp\<lparr>dp_AnsweredSeq := answered, dp_Withdrawn := withdrawn\<rparr>) (tb_Dispatch b)\<rparr>"

definition dispatch_seq :: "TranscodeState \<Rightarrow> int" where
  "dispatch_seq b = (case tb_Dispatch b of None \<Rightarrow> 0 | Some dp \<Rightarrow> dp_Seq dp)"

definition recoverSwap :: "Inputs \<Rightarrow> TranscodeState \<Rightarrow> Record \<Rightarrow> Decision" where
  "recoverSwap i prev r =
     (let out = ti_OutputPath (rd_Inputs r); seq = dispatch_seq prev;
          msg = truncate_runes (mf_Path (in_File i) @ '' is gone and attempt '' @ fmt_d seq @ [CHR 0x27] @ ''s output '' @ out @ '' exists: probing it'') maxMessage;
          b = (close_dispatch prev seq False)\<lparr>tb_Phase := TranscodePhaseSwapping, tb_Reason := '''', tb_Blocked := False, tb_WorkerPod := '''',
                 tb_Result := Some \<lparr>to_OutputPath = out, to_OutputSizeBytes = in_OutputSize i, to_OutputToSourcePercent = 0, to_VMAFCentis = None\<rparr>,
                 tb_FinishedAt := Some (in_Now i), tb_Message := msg\<rparr>
      in (decided (Some b))\<lparr>dc_Again := True, dc_Unpaced := True, dc_Events := [normal_event ''SwapRecovered'' msg]\<rparr>)"

end
