(* ===== verification/TranscodeRows.thy ===== *)
theory TranscodeRows
  imports TranscodePlanner
begin

text \<open>
  The rows of the transcode planner: withdrawals (\<^verbatim>\<open>withdraw.go\<close>), a dispatch in flight (\<^verbatim>\<open>inflight.go\<close>), a dispatch grant
  (\<^verbatim>\<open>dispatch.go\<close>), the window and the swap (\<^verbatim>\<open>plan.go\<close>), the intents (\<^verbatim>\<open>intent.go\<close>), and \<^verbatim>\<open>Plan\<close> itself. A row that mutates its block takes
  it as an argument and returns it in the decision.
\<close>

section \<open>Incorporating an answer\<close>

definition hardware_of :: "TranscodeProfile \<Rightarrow> string" where
  "hardware_of tp = (if tp_Hardware tp = '''' then HardwareAuto else tp_Hardware tp)"

definition block_choosesClass :: "TranscodeState \<Rightarrow> Eligibility \<Rightarrow> bool" where
  "block_choosesClass b e =
     (let hw = (if tb_Hardware b = '''' then (case el_Profile e of None \<Rightarrow> '''' | Some p \<Rightarrow> hardware_of p) else tb_Hardware b)
      in hw = '''' \<or> hw = HardwareAuto \<or> hw = HardwareGPU)"

definition kept :: "Inputs \<Rightarrow> TranscodeState \<Rightarrow> Answer \<Rightarrow> bool" where
  "kept i b a =
     (case (input_profile i (tb_Profile b), an_Result a) of
        (Some tp, Some r) \<Rightarrow> rs_OutputPath r \<noteq> '''' \<and> rs_OutputPath r \<noteq> mf_Path (in_File i) \<and> \<not> ReplaceSource tp
      | _ \<Rightarrow> False)"

definition answer_of :: "Inputs \<Rightarrow> TranscodeState \<Rightarrow> Record \<Rightarrow> Answer \<times> Next" where
  "answer_of i b r =
     (case (if rd_State r = StateFailed then None else rd_Answer r) of
        None \<Rightarrow>
          let msg = (if rd_Failure r = '''' then ''the dispatch failed on its last delivery'' else rd_Failure r)
          in (zero_answer\<lparr>an_Outcome := OutcomeFailed, an_Reason := ReasonRetriable, an_Message := msg, an_FinishedAt := rd_AnsweredAt r\<rparr>,
              retry ReasonRetriable msg b)
      | Some a0 \<Rightarrow>
          let a = a0\<lparr>an_FinishedAt := (case an_FinishedAt a0 of None \<Rightarrow> rd_AnsweredAt r | t \<Rightarrow> t)\<rparr>
          in (a, Decide a b (block_choosesClass b (in_Eligibility i)) (kept i b a)))"

definition answered_block :: "Inputs \<Rightarrow> TranscodeState \<Rightarrow> Record \<Rightarrow> TranscodeState" where
  "answered_block i b r =
     (let (a, n) = answer_of i b r; b' = applyAnswer b a n (in_Now i)
      in case tb_Dispatch b' of None \<Rightarrow> b' | Some dp \<Rightarrow> close_dispatch b' (max (dp_AnsweredSeq dp) (rd_Seq r)) False)"

definition incorporate :: "Inputs \<Rightarrow> TranscodeState \<Rightarrow> Record \<Rightarrow> Decision" where
  "incorporate i b r =
     (let b' = answered_block i b r; noop = nx_NoOp (snd (answer_of i b r));
          action = (if tb_Phase b' = TranscodePhaseSwapping \<or> tb_Phase b' = TranscodePhaseSucceeded then ''succeeded''
                    else if tb_Phase b' = TranscodePhaseSkipped then ''skipped'' else ''failed'')
      in (decided (Some b'))\<lparr>
           dc_Unpaced := True, dc_Records := [rd_State r], dc_Again := (tb_Phase b' = TranscodePhaseSwapping),
           dc_History := (if noop then [] else [\<lparr>he_Action = action, he_Seq = rd_Seq r, he_Reason = tb_Reason b'\<rparr>]),
           dc_Observe := (if tb_Phase b' \<noteq> TranscodePhasePlanned \<and> \<not> noop then terminalOf b' (in_Draft i) else None),
           dc_Events := (if tb_Phase b' = TranscodePhaseFailed then [warning_event (firstNonEmpty (tb_Reason b') ''Failed'') (tb_Message b')] else [])\<rparr>)"

section \<open>Withdrawals\<close>

definition withdrawalFailedPrefix :: string where "withdrawalFailedPrefix = ''withdrawal failed: ''"

definition withdrawingMessage :: "int \<Rightarrow> string" where "withdrawingMessage seq = ''withdrawing attempt '' @ fmt_d seq"

definition withdrawing :: "TranscodeState \<Rightarrow> bool" where
  "withdrawing b =
     (case tb_Dispatch b of None \<Rightarrow> False
      | Some dp \<Rightarrow> InFlight dp \<and> (tb_Message b = withdrawingMessage (dp_Seq dp) \<or> has_prefix (tb_Message b) withdrawalFailedPrefix))"

definition startWithdrawal :: "TranscodeState \<Rightarrow> string \<Rightarrow> Decision" where
  "startWithdrawal b cause =
     (let seq = dispatch_seq b in
      (decided (Some (b\<lparr>tb_Reason := cause, tb_Message := withdrawingMessage seq\<rparr>)))\<lparr>dc_Withdraw := seq, dc_Unpaced := True,
         dc_Events := [normal_event ''Withdrawn'' (withdrawingMessage seq @ '': '' @ cause)]\<rparr>)"

definition rewithdraw :: "Inputs \<Rightarrow> TranscodeState \<Rightarrow> Decision" where
  "rewithdraw i b =
     (let msg = sn_WithdrawFailed (in_Ledger i) in
      (decided (Some (if msg \<noteq> '''' then b\<lparr>tb_Message := truncate_runes (withdrawalFailedPrefix @ msg) maxMessage\<rparr> else b)))\<lparr>
        dc_Withdraw := dispatch_seq b, dc_Due := in_Now i + inflightRecheck\<rparr>)"

definition withdrawn_phase :: "Inputs \<Rightarrow> TranscodeState \<Rightarrow> TranscodeState" where
  "withdrawn_phase i b =
     (let attempt = ''attempt '' @ fmt_d (dispatch_seq b) in
      if tb_Reason b = ReasonCancelled then b\<lparr>tb_Phase := TranscodePhaseSkipped, tb_Message := attempt @ '' cancelled''\<rparr>
      else if tb_Reason b = ReasonProfileGone then b\<lparr>tb_Phase := TranscodePhaseSkipped, tb_Message := ''its TranscodeProfile was deleted''\<rparr>
      else if tb_Reason b = ReasonExcluded then
        b\<lparr>tb_Phase := TranscodePhaseSkipped, tb_Message := attempt @ '' withdrawn: excluded by '' @ AnnotationTranscodeExclude\<rparr>
      else if tb_Reason b = ReasonDeadLettered then
        b\<lparr>tb_Phase := TranscodePhaseFailed, tb_Blocked := True, tb_Message := attempt @ '' was dead-lettered after its last delivery''\<rparr>
      else if tb_Reason b = ReasonDeadlineExceeded then
        b\<lparr>tb_Phase := TranscodePhaseFailed, tb_Blocked := False, tb_Message := attempt @ '' ran past its deadline''\<rparr>
      else if tb_Reason b = ReasonSourceChanged then
        b\<lparr>tb_Phase := TranscodePhasePending, tb_Reason := ReasonProbePending, tb_Message := ''a probe of new bytes is pending''\<rparr>
      else if tb_Reason b = ReasonUnclaimed then
        b\<lparr>tb_Phase := TranscodePhasePlanned, tb_Message := attempt @ '' was not claimed within 50m; requeued''\<rparr>
      else if tb_Reason b = ReasonRerouted then
        b\<lparr>tb_Phase := TranscodePhasePlanned, tb_Message := attempt @ '' withdrawn: rerouted'',
          tb_FallbackReason := (case sn_Directive (in_Ledger i) of
             Some dir \<Rightarrow> if \<not> dr_KeepGPU dir then truncate_runes (dr_Reason dir) maxFallbackReason else tb_FallbackReason b
           | None \<Rightarrow> tb_FallbackReason b)\<rparr>
      else b\<lparr>tb_Phase := TranscodePhasePlanned, tb_Message := attempt @ '' withdrawn: '' @ tb_Reason b\<rparr>)"

definition finishWithdrawal :: "Inputs \<Rightarrow> TranscodeState \<Rightarrow> Decision" where
  "finishWithdrawal i b0 =
     (let seq = dispatch_seq b0;
          b1 = withdrawn_phase i ((close_dispatch b0 seq True)\<lparr>tb_WorkerPod := '''', tb_StartedAt := None\<rparr>);
          b = (if tb_Phase b1 = TranscodePhaseFailed \<or> tb_Phase b1 = TranscodePhaseSkipped then b1\<lparr>tb_FinishedAt := Some (in_Now i)\<rparr> else b1)
      in (decided (Some b))\<lparr>dc_Unpaced := True, dc_History := [\<lparr>he_Action = ''withdrawn'', he_Seq = seq, he_Reason = tb_Reason b\<rparr>],
           dc_Events := [normal_event ''Withdrawn'' (tb_Message b)]\<rparr>)"

definition withdrawnAt :: "Record option \<Rightarrow> int \<Rightarrow> bool" where
  "withdrawnAt rec seq = (case rec of None \<Rightarrow> False | Some r \<Rightarrow> rd_Seq r = seq \<and> rd_State r = StateWithdrawn)"

definition tok :: "string \<Rightarrow> string" where
  "tok s = (if s = '''' then ''_''
            else map (\<lambda>c. if c \<in> set ''. *>/'' \<or> c = CHR 0x5C \<or> (of_char c :: nat) < 32 \<or> (of_char c :: nat) = 127 then CHR ''-'' else c) s)"

definition has_suffix :: "string \<Rightarrow> string \<Rightarrow> bool" where
  "has_suffix s t \<longleftrightarrow> length t \<le> length s \<and> drop (length s - length t) s = t"

definition deadLettered :: "PlanEnv \<Rightarrow> Inputs \<Rightarrow> TranscodeState \<Rightarrow> bool" where
  "deadLettered env i b =
     (let v = in_DeadLettered i; (subject, at, _) = cut (CHR ''@'') v in
      v \<noteq> '''' \<and> has_prefix subject ''clustarr.work.transcode.task.'' \<and> has_suffix subject (''.'' @ tok (mf_UID (in_File i))) \<and>
      \<not> (case (env_ParseTime env at, tb_Dispatch b) of (Some t, Some dp) \<Rightarrow> t < dp_DispatchedAt dp | _ \<Rightarrow> False))"

definition cancel_pending :: "PlanEnv \<Rightarrow> Inputs \<Rightarrow> bool" where
  "cancel_pending env i \<longleftrightarrow> it_Cancel (in_Intents i) \<noteq> '''' \<and>
     HandledNonce (env_NonceHex env) (it_Cancel (in_Intents i)) \<noteq> hn_TranscodeCancel (in_Nonces i)"

definition unclaimed_late :: "Inputs \<Rightarrow> Dispatch \<Rightarrow> bool" where
  "unclaimed_late i dp =
     (case in_Record i of None \<Rightarrow> False
      | Some r \<Rightarrow> rd_Seq r = dp_Seq dp \<and> rd_State r = StateRequested \<and> \<not> in_Now i < dp_DispatchedAt dp + RepublishWindow)"

definition past_deadline :: "Inputs \<Rightarrow> TranscodeProfile \<Rightarrow> Dispatch \<Rightarrow> bool" where
  "past_deadline i tp dp =
     (case in_Record i of None \<Rightarrow> False
      | Some r \<Rightarrow> rd_Seq r = dp_Seq dp \<and> rd_State r = StateClaimed \<and>
          in_Now i > (case rd_ClaimedAt r of None \<Rightarrow> dp_DispatchedAt dp | Some t \<Rightarrow> t) + wrap64 (ActiveDeadline tp + deadlineGrace))"

definition withdrawCause :: "PlanEnv \<Rightarrow> Inputs \<Rightarrow> TranscodeState \<Rightarrow> Dispatch \<Rightarrow> string \<times> Event list" where
  "withdrawCause env i b dp =
     (let seq = dp_Seq dp; queued = (tb_Phase b = TranscodePhaseQueued) in
      if cancel_pending env i \<and> ValidNonce (it_Cancel (in_Intents i)) then (ReasonCancelled, [])
      else if it_Suspend (in_Intents i) = ''true'' then (ReasonSuspended, [])
      else if el_Excluded (in_Eligibility i) then (ReasonExcluded, [])
      else if deadLettered env i b then
        (ReasonDeadLettered, [warning_event ReasonDeadLettered (''the task of attempt '' @ fmt_d seq @ '' was dead-lettered'')])
      else case input_profile i (tb_Profile b) of
        None \<Rightarrow> (ReasonProfileGone, [])
      | Some tp \<Rightarrow>
          if tb_Pool b \<noteq> '''' \<and> tb_Pool b \<noteq> env_PoolName env (tp_Name tp, tp_UID tp, tb_Class b) then (ReasonOrphaned, [])
          else if (case sn_Directive (in_Ledger i) of Some d \<Rightarrow> dr_Kind d = DirectiveReroute \<and> dr_Seq d = seq | None \<Rightarrow> False) then (ReasonRerouted, [])
          else if queued \<and> ms_ProbeHash (in_Draft i) \<noteq> tb_ProbeHash b then (ReasonSourceChanged, [])
          else if queued \<and> unclaimed_late i dp then
            (ReasonUnclaimed, [warning_event ''DispatchUnclaimed'' (''attempt '' @ fmt_d seq @ '' was not claimed within '' @ fmt_duration RepublishWindow)])
          else if tb_Phase b = TranscodePhaseRunning \<and> past_deadline i tp dp then (ReasonDeadlineExceeded, [])
          else ('''', []))"

section \<open>A dispatch in flight\<close>

definition buildTask :: "Inputs \<Rightarrow> MediaFile \<Rightarrow> TranscodeProfile \<Rightarrow> string \<Rightarrow> int \<Rightarrow> string \<Rightarrow> TranscodePlan option \<Rightarrow> string + Task" where
  "buildTask i mf tp hash seq class plan =
     map_sum id (\<lambda>t. t\<lparr>tk_OriginalLanguage := in_OriginalLanguage i\<rparr>) (BuildTask mf tp hash (in_Folders i) seq class plan)"

definition taskFor :: "Inputs \<Rightarrow> TranscodeState \<Rightarrow> string + Task" where
  "taskFor i b =
     (case input_profile i (tb_Profile b) of
        None \<Rightarrow> Inl ''its TranscodeProfile is gone''
      | Some tp \<Rightarrow>
          buildTask i ((in_File i)\<lparr>mf_Status := (in_Draft i)\<lparr>ms_ProbeHash := tb_ProbeHash b\<rparr>\<rparr>) tp (tb_ProfileHash b) (dispatch_seq b) (tb_Class b) (tb_Plan b))"

definition requested :: "MediaFile \<Rightarrow> int \<Rightarrow> TaskInputs \<Rightarrow> time \<Rightarrow> Record" where
  "requested mf seq inputs now =
     \<lparr>rd_FileUID = mf_UID mf, rd_FileKey = mf_Key mf, rd_Seq = seq, rd_State = StateRequested, rd_RequestedAt = now, rd_ClaimedAt = None,
      rd_AnsweredAt = None, rd_Writer = '''', rd_Failure = '''', rd_Inputs = inputs, rd_Answer = None\<rparr>"

definition SameJoin :: "Joinable option \<Rightarrow> TranscodeGraftJoin option \<Rightarrow> bool" where
  "SameJoin j rec =
     (case (j, rec) of
        (Some j, Some r) \<Rightarrow> let a = jn_Join j in
          tj_DonorRelease a = tj_DonorRelease r \<and> tj_ProbeHash a = tj_ProbeHash r \<and> tj_Languages a = tj_Languages r \<and>
          tj_DonorImportedAt a = tj_DonorImportedAt r
      | _ \<Rightarrow> False)"

definition owe :: "Inputs \<Rightarrow> TranscodeState \<Rightarrow> bool \<Rightarrow> Decision" where
  "owe i b write =
     (case (taskFor i b, tb_Dispatch b) of
        (Inr t, Some dp) \<Rightarrow>
          (decided (Some b))\<lparr>dc_Due := in_Now i + republishEvery,
            dc_Request := (if write then Some (requested (in_File i) (dp_Seq dp) (tk_Inputs t) (dp_DispatchedAt dp)) else None),
            dc_RequestRev := (if write then in_RecordRev i else 0),
            dc_Publish := Some (if SameJoin (in_Joinable i) (tb_JoinedGraft b) then t\<lparr>tk_Graft := map_option jn_Task (in_Joinable i)\<rparr> else t),
            dc_Republish := \<not> write\<rparr>
      | _ \<Rightarrow> (decided (Some b))\<lparr>dc_Due := in_Now i + inflightRecheck\<rparr>)"

definition lost :: "Inputs \<Rightarrow> bool" where
  "lost i \<longleftrightarrow> lv_Missing (in_Lease i) \<and> lv_MissingSince (in_Lease i) \<noteq> 0 \<and> time_sub (in_Now i) (lv_MissingSince (in_Lease i)) > LeaseLostGrace \<and>
     in_TaskStored i = Some False"

definition running_row :: "Inputs \<Rightarrow> TranscodeState \<Rightarrow> Decision \<Rightarrow> Decision" where
  "running_row i b d =
     (let seq = dispatch_seq b in
      if tb_Phase b = TranscodePhaseRunning \<and> lost i then
        let msg = ''the worker of attempt '' @ fmt_d seq @ '' is gone: its lease lapsed and its task is no longer stored'';
            a = zero_answer\<lparr>an_Outcome := OutcomeFailed, an_Reason := ReasonWorkerLost, an_Message := msg\<rparr>;
            b1 = applyAnswer b a (retry ReasonWorkerLost msg b) (in_Now i);
            b2 = b1\<lparr>tb_Dispatch := map_option (\<lambda>dp. dp\<lparr>dp_AnsweredSeq := seq\<rparr>) (tb_Dispatch b1)\<rparr>
        in d\<lparr>dc_Block := Some b2, dc_Due := in_Now i + inflightRecheck,
             dc_History := dc_History d @ [\<lparr>he_Action = ''failed'', he_Seq = seq, he_Reason = ReasonWorkerLost\<rparr>],
             dc_Events := dc_Events d @ [warning_event ReasonWorkerLost msg], dc_Unpaced := True, dc_Records := [''lost''], dc_Dispatched := ''lost''\<rparr>
      else d\<lparr>dc_Block := Some b, dc_Due := in_Now i + inflightRecheck\<rparr>)"

definition runningMessage :: "int \<Rightarrow> TranscodePlan option \<Rightarrow> string" where
  "runningMessage seq p =
     (let d = Describe p in if d \<noteq> '''' then ''attempt '' @ fmt_d seq @ '' running: '' @ d else ''attempt '' @ fmt_d seq @ '' running'')"

definition claimed_row :: "Inputs \<Rightarrow> TranscodeState \<Rightarrow> Record \<Rightarrow> Decision" where
  "claimed_row i b r =
     (let seq = dispatch_seq b; w = truncate_runes (rd_Writer r) 253;
          at = (case rd_ClaimedAt r of None \<Rightarrow> tb_StartedAt b | t \<Rightarrow> t)
      in if tb_Phase b \<noteq> TranscodePhaseRunning then
           running_row i (b\<lparr>tb_Phase := TranscodePhaseRunning, tb_Reason := '''', tb_Message := runningMessage seq (tb_Plan b), tb_WorkerPod := w, tb_StartedAt := at\<rparr>)
             ((decided None)\<lparr>dc_History := [\<lparr>he_Action = ''started'', he_Seq = seq, he_Reason = ''''\<rparr>], dc_Unpaced := True\<rparr>)
         else if w \<noteq> '''' \<and> w \<noteq> tb_WorkerPod b then
           running_row i (b\<lparr>tb_WorkerPod := w, tb_StartedAt := at\<rparr>)
             ((decided None)\<lparr>dc_Events := [normal_event ReasonReclaimed (''attempt '' @ fmt_d seq @ '' was claimed again by '' @ w @ '' after '' @
                firstNonEmpty (tb_WorkerPod b) ''an earlier worker'')], dc_Unpaced := True\<rparr>)
         else running_row i b (decided None))"

definition recheck :: "Inputs \<Rightarrow> TranscodeState \<Rightarrow> Decision" where
  "recheck i b = (decided (Some b))\<lparr>dc_Due := in_Now i + inflightRecheck\<rparr>"

definition requested_row :: "Inputs \<Rightarrow> TranscodeState \<Rightarrow> Dispatch \<Rightarrow> Decision" where
  "requested_row i b dp =
     (if time_sub (in_Now i) (dp_DispatchedAt dp) < RepublishWindow then
        let d = owe i b False; msg = sn_PublishFailed (in_Ledger i) in
        if msg \<noteq> '''' then
          d\<lparr>dc_Block := map_option (\<lambda>b. b\<lparr>tb_Message := truncate_runes (''attempt '' @ fmt_d (dp_Seq dp) @ '': publish failed: '' @ msg @ ''; retrying'') maxMessage\<rparr>) (dc_Block d)\<rparr>
        else d
      else recheck i b)"

definition inflight_rows :: "Inputs \<Rightarrow> TranscodeState \<Rightarrow> Dispatch \<Rightarrow> Decision" where
  "inflight_rows i b dp =
     (let seq = dp_Seq dp; queued = (tb_Phase b = TranscodePhaseQueued) in
      case in_Record i of
        None \<Rightarrow> if queued then owe i b True else running_row i b (decided None)
      | Some r \<Rightarrow>
          if queued \<and> Fact r \<and> rd_Seq r < seq \<and> rd_Seq r > dp_AnsweredSeq dp then
            let d = incorporate i b r in
            d\<lparr>dc_Block := map_option (\<lambda>b. b\<lparr>tb_Dispatch := map_option (\<lambda>dp. dp\<lparr>dp_AnsweredSeq := seq\<rparr>) (tb_Dispatch b)\<rparr>) (dc_Block d)\<rparr>
          else if rd_Seq r < seq then (if queued then owe i b True else running_row i b (decided None))
          else if rd_Seq r > seq then recheck i b
          else if rd_State r = StateAnswered \<or> rd_State r = StateFailed then incorporate i b r
          else if rd_State r = StateRequested then requested_row i b dp
          else if rd_State r = StateClaimed then claimed_row i b r
          else recheck i b)"

definition answered_at :: "Record option \<Rightarrow> int \<Rightarrow> Record option" where
  "answered_at rec seq =
     (case rec of None \<Rightarrow> None
      | Some r \<Rightarrow> if rd_Seq r = seq \<and> (rd_State r = StateAnswered \<or> rd_State r = StateFailed) then Some r else None)"

definition planInFlight :: "PlanEnv \<Rightarrow> Inputs \<Rightarrow> TranscodeState \<Rightarrow> Decision" where
  "planInFlight env i b =
     (case tb_Dispatch b of
        None \<Rightarrow> recheck i b
      | Some dp \<Rightarrow>
          (case answered_at (in_Record i) (dp_Seq dp) of
             Some r \<Rightarrow> incorporate i b r
           | None \<Rightarrow>
               if withdrawing b \<and> withdrawnAt (in_Record i) (dp_Seq dp) \<and> sn_WithdrawFailed (in_Ledger i) = ''''
               then (finishWithdrawal i b)\<lparr>dc_Dispatched := ''withdrawn''\<rparr>
               else if withdrawing b then rewithdraw i b
               else let (cause, evs) = withdrawCause env i b dp in
                    if cause \<noteq> '''' then
                      let d = startWithdrawal b cause in
                      d\<lparr>dc_Events := dc_Events d @ evs, dc_Dispatched := (if cause = ReasonUnclaimed then ''unclaimed'' else '''')\<rparr>
                    else inflight_rows i b dp))"

end
