(* ===== verification/TranscodeDecide.thy ===== *)
theory TranscodeDecide
  imports TranscodeRows
begin

text \<open>
  The transcode planner's window, swap and dispatch rows, its intents, and \<^verbatim>\<open>Plan\<close> (\<^verbatim>\<open>plan.go\<close>, \<^verbatim>\<open>dispatch.go\<close>, \<^verbatim>\<open>intent.go\<close>,
  \<^verbatim>\<open>graftplan/join.go\<close>). A dispatch grant its row does not use plans the file again without the grant; \<open>Plan_with\<close> is
  \<^verbatim>\<open>Plan\<close> with the dispatch row as an argument, so that the recursion, which is one level deep, is plain composition.
\<close>

section \<open>The swap\<close>

definition mediaTag :: "MediaFileStatus \<Rightarrow> string" where
  "mediaTag st = (case ms_MediaInfo st of None \<Rightarrow> '''' | Some mi \<Rightarrow> mi_TranscodeProfile mi)"

definition succeededTag :: "TranscodeState \<Rightarrow> string" where
  "succeededTag b =
     (if tb_ProfileTag b \<noteq> '''' then tb_ProfileTag b
      else if tb_Profile b = '''' \<or> tb_ProfileHash b = '''' then '''' else Tag (tb_Profile b) (tb_ProfileHash b))"

definition legacy :: "TranscodeState \<Rightarrow> TranscodeState option" where
  "legacy p =
     (if tb_ProfileTag p = '''' then None
      else Some (zero_block\<lparr>tb_Phase := TranscodePhaseSucceeded, tb_Compliant := tb_Compliant p, tb_ProfileTag := tb_ProfileTag p\<rparr>))"

definition SwapIncorporated :: "TranscodeState \<Rightarrow> MediaFileStatus \<Rightarrow> bool \<times> bool" where
  "SwapIncorporated prev draft =
     (case (tb_FinishedAt prev, ms_ProbedAt draft) of
        (Some finished, Some probed) \<Rightarrow>
          if finished > probed then (False, False)
          else (True, case ms_MediaInfo draft of None \<Rightarrow> True | Some mi \<Rightarrow> mi_TranscodeProfile mi \<noteq> Tag (tb_Profile prev) (tb_ProfileHash prev))
      | _ \<Rightarrow> (False, False))"

definition planSwap :: "Inputs \<Rightarrow> TranscodeState \<Rightarrow> Decision" where
  "planSwap i b =
     (let (swapped, mismatch) = SwapIncorporated b (in_Draft i); tag = Tag (tb_Profile b) (tb_ProfileHash b) in
      if \<not> swapped then decided (Some b)
      else if mismatch then
        let msg = truncate_runes (''the swapped file carries CLUSTARR_PROFILE '' @ fmt_q (mediaTag (in_Draft i)) @ '', not '' @ fmt_q tag @ ''; the takeover was refused'') maxMessage
        in (decided (Some (b\<lparr>tb_Phase := TranscodePhaseFailed, tb_Blocked := True, tb_Reason := ReasonInvalidSource, tb_Message := msg\<rparr>)))\<lparr>
             dc_Events := [warning_event ReasonInvalidSource msg]\<rparr>
      else
        (decided (Some (b\<lparr>tb_Phase := TranscodePhaseSucceeded, tb_Reason := '''', tb_Message := ''transcode incorporated'', tb_Compliant := True,
           tb_ProfileTag := tag, tb_Result := None, tb_ProbeHash := ms_ProbeHash (in_Draft i)\<rparr>)))\<lparr>
          dc_Events := [normal_event ''Succeeded'' (''incorporated '' @ tag)]\<rparr>)"

section \<open>The window\<close>

definition verdictHolds :: "TranscodeState option \<Rightarrow> Eligibility \<Rightarrow> MediaFileStatus \<Rightarrow> bool" where
  "verdictHolds p e st =
     (case p of None \<Rightarrow> False
      | Some b \<Rightarrow> (tb_Phase b = TranscodePhaseSkipped \<or> tb_Phase b = TranscodePhaseFailed) \<and> tb_ProfileHash b = el_Hash e \<and> tb_ProbeHash b = ms_ProbeHash st)"

text \<open>A window's block reads the winning profile, which an eligible or pending file has (\<open>winner_known\<close>).\<close>

definition windowBlock :: "Inputs \<Rightarrow> TranscodeState" where
  "windowBlock i =
     (let e = in_Eligibility i in
      zero_block\<lparr>tb_Profile := (case el_Profile e of None \<Rightarrow> '''' | Some p \<Rightarrow> tp_Name p), tb_ProfileHash := el_Hash e, tb_ProfileTag := el_Tag e,
        tb_ProbeHash := ms_ProbeHash (in_Draft i), tb_Hardware := (case el_Profile e of None \<Rightarrow> '''' | Some p \<Rightarrow> hardware_of p), tb_Priority := el_Priority e,
        tb_Dispatch := (case in_Prev i of None \<Rightarrow> None | Some prev \<Rightarrow> tb_Dispatch prev)\<rparr>)"

definition pendingBlock :: "Inputs \<Rightarrow> TranscodeState" where
  "pendingBlock i = (windowBlock i)\<lparr>tb_Phase := TranscodePhasePending, tb_Reason := el_Pending (in_Eligibility i), tb_Message := el_Why (in_Eligibility i)\<rparr>"

definition plan_for :: "PlanEnv \<Rightarrow> Inputs \<Rightarrow> string option \<Rightarrow> PlanFailure + Planning" where
  "plan_for env i class =
     (case el_Profile (in_Eligibility i) of
        None \<Rightarrow> Inl \<lparr>pf_Reason = '''', pf_Message = ''''\<rparr>
      | Some p \<Rightarrow> env_PlanFor env p (el_Hash (in_Eligibility i)) (in_File i) (in_Draft i) class (sn_Device (in_Ledger i)) (in_OriginalLanguage i))"

definition planned_block :: "PlanEnv \<Rightarrow> Inputs \<Rightarrow> TranscodeState" where
  "planned_block env i =
     (let b = windowBlock i in
      case plan_for env i None of
        Inl fail \<Rightarrow> b\<lparr>tb_Phase := TranscodePhaseFailed, tb_Reason := pf_Reason fail, tb_Message := truncate_runes (pf_Message fail) maxMessage, tb_Blocked := True\<rparr>
      | Inr p \<Rightarrow>
          if Skips p then
            b\<lparr>tb_Phase := TranscodePhaseSkipped, tb_Reason := ReasonPlanSkip,
              tb_Message := truncate_runes (''skipped: '' @ firstNonEmpty (pn_Reject p) (pn_Reason p)) maxMessage\<rparr>
          else
            b\<lparr>tb_Phase := TranscodePhasePlanned, tb_Reason := ReasonWaitingForSlot, tb_Message := ''waiting for a free slot'',
              tb_PlannedAt := Some (in_Now i), tb_Plan := StatusPlan p\<rparr>)"

definition planWindow :: "PlanEnv \<Rightarrow> Inputs \<Rightarrow> Decision" where
  "planWindow env i =
     (let e = in_Eligibility i in
      if verdictHolds (in_Prev i) e (in_Draft i) then (decided (in_Prev i))\<lparr>dc_Grant := GrantRelease\<rparr>
      else if \<not> el_Eligible e \<and> el_Pending e = '''' then (decided (keepFact i))\<lparr>dc_Grant := GrantRelease\<rparr>
      else if el_Pending e \<noteq> '''' then (decided (Some (pendingBlock i)))\<lparr>dc_Grant := GrantConfirm\<rparr>
      else (decided (Some (planned_block env i)))\<lparr>dc_Grant := GrantConfirm\<rparr>)"

definition planInWindow :: "PlanEnv \<Rightarrow> Inputs \<Rightarrow> TranscodeState \<Rightarrow> Decision" where
  "planInWindow env i b =
     (let e = in_Eligibility i; pending = (tb_Phase b = TranscodePhasePending); w = sn_WaitReason (in_Ledger i) in
      if \<not> el_Eligible e \<and> el_Pending e = '''' then decided (keepFact i)
      else if pending \<and> el_Eligible e then (planWindow env i)\<lparr>dc_Grant := GrantKeep\<rparr>
      else if pending then decided (Some (b\<lparr>tb_Reason := el_Pending e, tb_Message := el_Why e\<rparr>))
      else if el_Pending e \<noteq> '''' then decided (Some (pendingBlock i))
      else if w \<noteq> '''' \<and> w \<noteq> tb_Message b then
        decided (Some (b\<lparr>tb_Reason := sn_WaitCause (in_Ledger i), tb_Message := truncate_runes w maxMessage\<rparr>))
      else decided (Some b))"

section \<open>Intents\<close>

definition AnnotationTranscodeRetry :: string where "AnnotationTranscodeRetry = ''transcode.clustarr.io/retry''"
definition AnnotationTranscodeCancel :: string where "AnnotationTranscodeCancel = ''transcode.clustarr.io/cancel''"
definition AnnotationTranscodeSuspend :: string where "AnnotationTranscodeSuspend = ''transcode.clustarr.io/suspend''"
definition AnnotationTranscodePriority :: string where "AnnotationTranscodePriority = ''transcode.clustarr.io/priority''"
definition AnnotationTranscodeHardware :: string where "AnnotationTranscodeHardware = ''transcode.clustarr.io/hardware''"

definition ReasonInvalidAnnotation :: string where "ReasonInvalidAnnotation = ''InvalidAnnotation''"
definition ReasonNothingToRetry :: string where "ReasonNothingToRetry = ''NothingToRetry''"
definition ReasonNothingToCancel :: string where "ReasonNothingToCancel = ''NothingToCancel''"
definition ReasonRetried :: string where "ReasonRetried = ''Retried''"

definition ParseIntents :: "(string \<times> string) list \<Rightarrow> Intents" where
  "ParseIntents a =
     (let at = (\<lambda>k. case map_of a k of None \<Rightarrow> '''' | Some v \<Rightarrow> v) in
      \<lparr>it_Retry = at AnnotationTranscodeRetry, it_Cancel = at AnnotationTranscodeCancel, it_Suspend = at AnnotationTranscodeSuspend,
       it_Priority = at AnnotationTranscodePriority, it_Hardware = at AnnotationTranscodeHardware\<rparr>)"

text \<open>\<^verbatim>\<open>strconv.ParseInt(v, 10, 32)\<close>.\<close>

definition ParsePriority :: "string \<Rightarrow> int option" where
  "ParsePriority v =
     (let (neg, ds) = (case v of [] \<Rightarrow> (False, []) | c # cs \<Rightarrow> if c = CHR ''-'' then (True, cs) else if c = CHR ''+'' then (False, cs) else (False, v));
          n = (if neg then - digits_value ds else digits_value ds)
      in if ds = [] \<or> \<not> list_all is_digit ds \<or> \<not> is_int32 n then None else Some n)"

definition validHardware :: "string \<Rightarrow> bool" where
  "validHardware v \<longleftrightarrow> v \<in> set [HardwareCPU, HardwareNVIDIA, HardwareIntel, HardwareAuto, HardwareGPU]"

definition retry_pending :: "PlanEnv \<Rightarrow> Inputs \<Rightarrow> bool" where
  "retry_pending env i \<longleftrightarrow> it_Retry (in_Intents i) \<noteq> '''' \<and>
     HandledNonce (env_NonceHex env) (it_Retry (in_Intents i)) \<noteq> hn_TranscodeRetry (in_Nonces i)"

definition retriable_verdict :: "Inputs \<Rightarrow> bool" where
  "retriable_verdict i =
     (case in_Prev i of None \<Rightarrow> False
      | Some b \<Rightarrow> (tb_Phase b = TranscodePhaseFailed \<or> tb_Phase b = TranscodePhaseSkipped) \<and> tb_ProfileHash b = el_Hash (in_Eligibility i))"

definition handle_retry :: "Inputs \<Rightarrow> Inputs \<times> Event" where
  "handle_retry i =
     (if \<not> ValidNonce (it_Retry (in_Intents i)) then
        (i, warning_event ReasonInvalidAnnotation (AnnotationTranscodeRetry @ '' is not a valid nonce; ignored''))
      else if retriable_verdict i then
        (i\<lparr>in_Prev := None\<rparr>, normal_event ReasonRetried (''the transcode verdict was cleared by '' @ AnnotationTranscodeRetry))
      else (i, normal_event ReasonNothingToRetry ''no Failed or Skipped transcode for the current profile to retry''))"

definition cancelled_block :: "Inputs \<Rightarrow> TranscodeState \<Rightarrow> TranscodeState" where
  "cancelled_block i b =
     b\<lparr>tb_Phase := TranscodePhaseSkipped, tb_Reason := ReasonCancelled, tb_Message := ''cancelled by '' @ AnnotationTranscodeCancel, tb_FinishedAt := Some (in_Now i)\<rparr>"

definition handle_cancel :: "Inputs \<Rightarrow> Inputs \<times> Event list" where
  "handle_cancel i =
     (let nothing = (i, [normal_event ReasonNothingToCancel ''no transcode in the window to cancel'']) in
      if \<not> ValidNonce (it_Cancel (in_Intents i)) then
        (i, [warning_event ReasonInvalidAnnotation (AnnotationTranscodeCancel @ '' is not a valid nonce; ignored'')])
      else case in_Prev i of
        None \<Rightarrow> nothing
      | Some b \<Rightarrow>
          if tb_Phase b = TranscodePhaseQueued \<or> tb_Phase b = TranscodePhaseRunning then (i, [])
          else if tb_Phase b = TranscodePhasePending \<or> tb_Phase b = TranscodePhasePlanned then
            (i\<lparr>in_Prev := Some (cancelled_block i b)\<rparr>, [normal_event ReasonCancelled (''cancelled by '' @ AnnotationTranscodeCancel)])
          else nothing)"

definition applyIntents :: "PlanEnv \<Rightarrow> Inputs \<Rightarrow> Inputs \<times> HandledNonces option \<times> Event list" where
  "applyIntents env i =
     (if \<not> in_ProbeCurrent i \<or> el_Pending (in_Eligibility i) = ReasonGrafting then (i, None, [])
      else if \<not> retry_pending env i \<and> \<not> cancel_pending env i then (i, None, [])
      else
        let (i1, evs1) = (if retry_pending env i then (let (x, ev) = handle_retry i in (x, [ev])) else (i, []));
            (i2, evs2) = (if cancel_pending env i then handle_cancel i1 else (i1, []));
            n = in_Nonces i;
            n = (if retry_pending env i then n\<lparr>hn_TranscodeRetry := HandledNonce (env_NonceHex env) (it_Retry (in_Intents i))\<rparr> else n);
            n = (if cancel_pending env i then n\<lparr>hn_TranscodeCancel := HandledNonce (env_NonceHex env) (it_Cancel (in_Intents i))\<rparr> else n)
        in (i2, Some n, evs1 @ evs2))"

definition inWindow :: "TranscodePhase \<Rightarrow> bool" where
  "inWindow p \<longleftrightarrow> p \<in> {TranscodePhasePending, TranscodePhasePlanned, TranscodePhaseQueued, TranscodePhaseRunning, TranscodePhaseSwapping}"

definition standing_block :: "Inputs \<Rightarrow> TranscodeState \<Rightarrow> TranscodeState" where
  "standing_block i b =
     (let it = in_Intents i; p = el_Profile (in_Eligibility i);
          b = b\<lparr>tb_Suspended := (it_Suspend it = ''true''),
                tb_Priority := (case ParsePriority (it_Priority it) of Some n \<Rightarrow> n
                                | None \<Rightarrow> (case p of Some tp \<Rightarrow> tp_Priority tp | None \<Rightarrow> tb_Priority b)),
                tb_Hardware := (if it_Hardware it \<noteq> '''' \<and> validHardware (it_Hardware it) then it_Hardware it
                                else case p of Some tp \<Rightarrow> hardware_of tp | None \<Rightarrow> tb_Hardware b)\<rparr>
      in if tb_Phase b \<noteq> TranscodePhasePlanned then b
         else if it_Suspend it = ''true'' then b\<lparr>tb_Reason := ReasonSuspended, tb_Message := ''suspended by '' @ AnnotationTranscodeSuspend\<rparr>
         else if tb_Reason b = ReasonSuspended then b\<lparr>tb_Reason := ReasonWaitingForSlot, tb_Message := ''waiting for a free slot''\<rparr>
         else b)"

definition standing_events :: "Inputs \<Rightarrow> Event list" where
  "standing_events i =
     (let it = in_Intents i in
      (if it_Priority it \<noteq> '''' \<and> ParsePriority (it_Priority it) = None
       then [warning_event ReasonInvalidAnnotation (AnnotationTranscodePriority @ '' is not a decimal int32; ignored'')] else []) @
      (if it_Hardware it \<noteq> '''' \<and> \<not> validHardware (it_Hardware it)
       then [warning_event ReasonInvalidAnnotation (AnnotationTranscodeHardware @ '' is not cpu, nvidia, intel, auto or gpu; ignored'')] else []))"

definition applyStanding :: "Inputs \<Rightarrow> Decision \<Rightarrow> Decision" where
  "applyStanding i d =
     (case dc_Block d of
        None \<Rightarrow> d
      | Some b \<Rightarrow> if \<not> inWindow (tb_Phase b) then d
                  else d\<lparr>dc_Block := Some (standing_block i b), dc_Events := dc_Events d @ standing_events i\<rparr>)"

section \<open>Plan\<close>

definition succeeded_block :: "Inputs \<Rightarrow> TranscodeState \<Rightarrow> TranscodeState" where
  "succeeded_block i b =
     (let tag = succeededTag b in
      if tag \<noteq> '''' \<and> mediaTag (in_Draft i) = tag
      then b\<lparr>tb_ProbeHash := ms_ProbeHash (in_Draft i), tb_ProfileTag := tag, tb_Compliant := True\<rparr>
      else b\<lparr>tb_Compliant := False, tb_ProfileTag := ''''\<rparr>)"

definition settled_plan :: "Inputs \<Rightarrow> Decision" where
  "settled_plan i =
     (case in_Prev i of
        None \<Rightarrow> decided None
      | Some b \<Rightarrow>
          if tb_Phase b = TranscodePhaseSucceeded \<and> tb_ProbeHash b \<noteq> '''' \<and> tb_ProbeHash b \<noteq> ms_ProbeHash (in_Draft i)
          then decided (Some (succeeded_block i b))
          else if tb_Reason b = ReasonProfileGone \<and> (case tb_Dispatch b of None \<Rightarrow> False | Some dp \<Rightarrow> dp_Withdrawn dp)
          then decided (keepFact i)
          else decided (Some b))"

definition plan_with :: "(Inputs \<Rightarrow> Decision) \<Rightarrow> PlanEnv \<Rightarrow> Inputs \<Rightarrow> Decision" where
  "plan_with dispatch env i =
     (case in_Prev i of
        None \<Rightarrow>
          if sn_Grant (in_Ledger i) = GrantDispatch then dispatch i
          else if sn_Grant (in_Ledger i) = GrantWindow then planWindow env i
          else settled_plan i
      | Some b \<Rightarrow>
          if tb_Phase b = TranscodePhaseNone then decided (legacy b)
          else if factAfterWithdrawal i then incorporate i b (the (in_Record i))
          else if fileMissingSwap i then recoverSwap i b (the (in_Record i))
          else if tb_Phase b = TranscodePhaseSwapping then planSwap i b
          else if sn_Grant (in_Ledger i) = GrantDispatch then dispatch i
          else if tb_Phase b = TranscodePhaseQueued \<or> tb_Phase b = TranscodePhaseRunning then planInFlight env i b
          else if sn_Grant (in_Ledger i) = GrantWindow then planWindow env i
          else if tb_Phase b = TranscodePhasePending \<or> tb_Phase b = TranscodePhasePlanned then planInWindow env i b
          else settled_plan i)"

definition Plan_with :: "(Inputs \<Rightarrow> Decision) \<Rightarrow> PlanEnv \<Rightarrow> Inputs \<Rightarrow> Decision" where
  "Plan_with dispatch env i =
     (let (i', nonces, evs) = applyIntents env i; d = plan_with dispatch env i'
      in applyStanding i' (d\<lparr>dc_Nonces := nonces, dc_Events := evs @ dc_Events d\<rparr>))"

definition unincorporatedFact :: "Record option \<Rightarrow> TranscodeState \<Rightarrow> bool" where
  "unincorporatedFact rec b =
     (case (rec, tb_Dispatch b) of
        (Some r, Some dp) \<Rightarrow> Fact r \<and> rd_Seq r = dp_Seq dp \<and> (dp_Withdrawn dp \<or> dp_Seq dp > dp_AnsweredSeq dp)
      | _ \<Rightarrow> False)"

definition JoinPending :: "TranscodeState \<Rightarrow> GraftState option \<Rightarrow> int \<times> bool" where
  "JoinPending tc b =
     (case (tb_JoinedGraft tc, tb_Dispatch tc, b) of
        (Some j, Some dp, Some g) \<Rightarrow>
          let s = dp_Seq dp in
          if gs_JoinedTranscodeSeq g < s then (s, True)
          else if gs_JoinedTranscodeSeq g = s then (s, gs_Phase g = GraftPhaseRunning \<and> gs_Reason g = ReasonJoinedTranscode)
          else (s, False)
      | _ \<Rightarrow> (0, False))"

definition runsIn :: "Planning \<Rightarrow> string \<Rightarrow> bool" where
  "runsIn p class \<longleftrightarrow> pn_Action p \<noteq> ''encode'' \<or> HardwareForEncoder (pn_Encoder p) = class"

definition issue :: "Inputs \<Rightarrow> int" where
  "issue i =
     (let s = (case in_Record i of None \<Rightarrow> 0 | Some r \<Rightarrow> rd_Seq r) in
      case in_Issue i of Some f \<Rightarrow> f s | None \<Rightarrow> nextSeq s 0 (in_Now i))"

definition zero_Snapshot :: Snapshot where
  "zero_Snapshot = \<lparr>sn_Grant = GrantNone, sn_Class = '''', sn_Directive = None, sn_WaitReason = '''', sn_WaitCause = '''', sn_Device = zero_Device,
     sn_PublishFailed = '''', sn_WithdrawFailed = ''''\<rparr>"

definition not_eligible_inputs :: "Inputs \<Rightarrow> Inputs" where
  "not_eligible_inputs i =
     i\<lparr>in_OriginalLanguage := '''', in_Ledger := zero_Snapshot, in_Lease := \<lparr>lv_Missing = False, lv_MissingSince = 0\<rparr>, in_TaskStored := None,
       in_Intents := \<lparr>it_Retry = '''', it_Cancel = '''', it_Suspend = '''', it_Priority = '''', it_Hardware = ''''\<rparr>,
       in_Nonces := \<lparr>hn_TranscodeRetry = '''', hn_TranscodeCancel = ''''\<rparr>, in_DeadLettered := '''', in_SpecPathMissing := False,
       in_OutputExists := False, in_OutputSize := 0, in_PrevGraft := None, in_Joinable := None\<rparr>"

definition dispatched_block :: "PlanEnv \<Rightarrow> Inputs \<Rightarrow> TranscodeState \<Rightarrow> TranscodeProfile \<Rightarrow> int \<Rightarrow> TranscodePlan option \<Rightarrow> TranscodeState" where
  "dispatched_block env i b p seq plan =
     (let e = in_Eligibility i; class = sn_Class (in_Ledger i); pool = env_PoolName env (tp_Name p, tp_UID p, class) in
      b\<lparr>tb_Phase := TranscodePhaseQueued, tb_Reason := '''', tb_Blocked := False,
        tb_Message := ''attempt '' @ fmt_d seq @ '' dispatched to '' @ pool @ '': '' @ Describe plan,
        tb_Dispatch := Some \<lparr>dp_Seq = seq, dp_AnsweredSeq = 0, dp_DispatchedAt = in_Now i, dp_Withdrawn = False, dp_Destination = '''', dp_Delivery = None\<rparr>,
        tb_Attempts := wrap32 (tb_Attempts b + 1), tb_Class := class, tb_Pool := pool, tb_Plan := plan,
        tb_Profile := tp_Name p, tb_ProfileHash := el_Hash e, tb_ProfileTag := el_Tag e, tb_ProbeHash := ms_ProbeHash (in_Draft i),
        tb_WorkerPod := '''', tb_StartedAt := None, tb_FinishedAt := None, tb_NextAttemptAt := None, tb_StderrTail := '''',
        tb_JoinedGraft := map_option jn_Join (in_Joinable i), tb_Result := None\<rparr>)"

definition dispatch_now :: "PlanEnv \<Rightarrow> Inputs \<Rightarrow> TranscodeState \<Rightarrow> TranscodeProfile \<Rightarrow> Planning \<Rightarrow> Decision" where
  "dispatch_now env i b p planning =
     (let class = sn_Class (in_Ledger i); seq = issue i; plan = StatusPlan planning; e = in_Eligibility i in
      case buildTask i ((in_File i)\<lparr>mf_Status := in_Draft i\<rparr>) p (el_Hash e) seq class plan of
        Inl err \<Rightarrow>
          (decided (Some (b\<lparr>tb_Phase := TranscodePhaseFailed, tb_Blocked := True, tb_Reason := ReasonInvalidSource,
             tb_Message := truncate_runes (''cannot dispatch: '' @ err) maxMessage\<rparr>)))\<lparr>dc_Grant := GrantRelease\<rparr>
      | Inr t \<Rightarrow>
          let b' = dispatched_block env i b p seq plan;
              t' = (case in_Joinable i of None \<Rightarrow> t | Some j \<Rightarrow> t\<lparr>tk_Graft := Some (jn_Task j)\<rparr>)
          in (decided (Some b'))\<lparr>dc_Grant := GrantConfirm, dc_ConfirmSeq := seq, dc_Request := Some (requested (in_File i) seq (tk_Inputs t) (in_Now i)),
               dc_RequestRev := in_RecordRev i, dc_Publish := Some t', dc_History := [\<lparr>he_Action = ''queued'', he_Seq = seq, he_Reason = ''''\<rparr>],
               dc_Due := in_Now i + republishEvery, dc_Unpaced := True, dc_Events := [normal_event ''Dispatched'' (tb_Message b')]\<rparr>)"

definition dispatch_planned :: "PlanEnv \<Rightarrow> Inputs \<Rightarrow> TranscodeState \<Rightarrow> TranscodeProfile \<Rightarrow> Decision" where
  "dispatch_planned env i b p =
     (let class = sn_Class (in_Ledger i); release = (\<lambda>b. (decided (Some b))\<lparr>dc_Grant := GrantRelease\<rparr>) in
      case plan_for env i (Some class) of
        Inl fail \<Rightarrow>
          release (b\<lparr>tb_Phase := TranscodePhaseFailed, tb_Blocked := True, tb_Reason := pf_Reason fail, tb_Message := truncate_runes (pf_Message fail) maxMessage\<rparr>)
      | Inr planning \<Rightarrow>
          if Skips planning then
            release (b\<lparr>tb_Phase := TranscodePhaseSkipped, tb_Reason := ReasonPlanSkip, tb_Plan := None,
              tb_Message := truncate_runes (''skipped: '' @ firstNonEmpty (pn_Reject planning) (pn_Reason planning)) maxMessage\<rparr>)
          else if \<not> runsIn planning class then
            release (b\<lparr>tb_FallbackReason := (if block_choosesClass b (in_Eligibility i)
                then truncate_runes (''a plan for '' @ class @ '' encodes with '' @ pn_Encoder planning @ '', which needs no GPU'') maxFallbackReason
                else tb_FallbackReason b), tb_Plan := StatusPlan planning\<rparr>)
          else dispatch_now env i b p planning)"

definition no_dispatch :: "Inputs \<Rightarrow> Decision" where "no_dispatch i = decided None"

definition planDispatch :: "PlanEnv \<Rightarrow> Inputs \<Rightarrow> Decision" where
  "planDispatch env i =
     (let again = (\<lambda>i'. (Plan_with no_dispatch env i')\<lparr>dc_Grant := GrantRelease\<rparr>);
          rest = i\<lparr>in_Ledger := zero_Snapshot\<lparr>sn_WaitReason := sn_WaitReason (in_Ledger i), sn_WaitCause := sn_WaitCause (in_Ledger i)\<rparr>\<rparr> in
      case in_Prev i of
        None \<Rightarrow> again rest
      | Some prev \<Rightarrow>
          if tb_Phase prev \<noteq> TranscodePhasePlanned then again rest
          else if unincorporatedFact (in_Record i) prev then (incorporate i prev (the (in_Record i)))\<lparr>dc_Grant := GrantRelease\<rparr>
          else let (s, pending) = JoinPending prev (in_PrevGraft i) in
               if pending then
                 (decided (Some (prev\<lparr>tb_Message := truncate_runes (''waiting for the joined graft of attempt '' @ fmt_d s @ '' to be recorded'') maxMessage\<rparr>)))\<lparr>
                   dc_Grant := GrantRelease, dc_Due := in_Now i + inflightRecheck\<rparr>
               else case el_Profile (in_Eligibility i) of
                      None \<Rightarrow> again (not_eligible_inputs i)
                    | Some p \<Rightarrow> if \<not> el_Eligible (in_Eligibility i) then again (not_eligible_inputs i) else dispatch_planned env i prev p)"

definition Plan :: "PlanEnv \<Rightarrow> Inputs \<Rightarrow> Decision" where
  "Plan env i = Plan_with (planDispatch env) env i"

text \<open>Without a dispatch grant the dispatch row is not reached, so what \<^verbatim>\<open>planDispatch\<close> plans again is \<^verbatim>\<open>Plan\<close>.\<close>

lemma intents_keep:
  "applyIntents env i = (i', n, evs) \<Longrightarrow> i' = i\<lparr>in_Prev := in_Prev i'\<rparr>"
  by (auto simp: applyIntents_def handle_retry_def handle_cancel_def Let_def split: if_splits option.splits prod.splits)

lemma plan_with_no_grant: "sn_Grant (in_Ledger i) \<noteq> GrantDispatch \<Longrightarrow> plan_with f env i = plan_with g env i"
  by (simp add: plan_with_def split: option.split)

lemma Plan_no_grant:
  assumes "sn_Grant (in_Ledger i) \<noteq> GrantDispatch"
  shows "Plan_with f env i = Plan env i"
proof -
  obtain i' n evs where a: "applyIntents env i = (i', n, evs)" by (metis prod.exhaust)
  from intents_keep [OF this] have "in_Ledger i' = in_Ledger i" by (metis Inputs.select_convs(7) Inputs.surjective Inputs.update_convs(3))
  with assms show ?thesis by (simp add: Plan_def Plan_with_def a plan_with_no_grant [of i' f env "planDispatch env"])
qed

end
