(* ===== verification/QualityUpgrade.thy ===== *)
theory QualityUpgrade
  imports QualityLadder
begin

text \<open>
  A resolved quality profile (\<^verbatim>\<open>pkg/quality/profile.go\<close>) and the decision whether a candidate replaces what is
  there (\<^verbatim>\<open>pkg/quality/upgrade.go\<close>, \<^verbatim>\<open>bitrate.go\<close>). Upgrades are shown to come to an end for a profile that does not prefer propers
  or has one video quality per tier, and to go round in a circle in a tier of two.
\<close>

section \<open>The profile\<close>

record BitrateLimit =
  bt_Min :: int
  bt_Max :: int

text \<open>
  A \<^verbatim>\<open>Profile\<close>, without its table of sizes, whose limits are \<^verbatim>\<open>float64\<close>, and its hash. A format the profile does not score
  is \<open>None\<close> in the scores.
\<close>

record Profile =
  pf_Tiers :: "Definition list list"
  pf_CutoffIndex :: int
  pf_UpgradeAllowed :: bool
  pf_MinFormatScore :: int
  pf_CutoffFormatScore :: int
  pf_MinUpgradeFormatScore :: int
  pf_Scores :: "string \<Rightarrow> int option"
  pf_Language :: string
  pf_LanguageName :: string
  pf_AudioLanguages :: "string list"
  pf_GraftAudio :: bool
  pf_AudioDefault :: string
  pf_AudioCompleteFirst :: bool
  pf_AudioOptional :: "string list"
  pf_ScoreSet :: string
  pf_ProperPolicy :: string
  pf_Bitrates :: "int \<Rightarrow> BitrateLimit option"
  pf_PreferredProtocol :: string
  pf_PreferSmallest :: bool
  pf_MediaKind :: string

definition isVideoKind :: "string \<Rightarrow> bool" where
  "isVideoKind kind \<longleftrightarrow> kind = '''' \<or> kind = ''video''"

definition scoresFormats :: "Profile \<Rightarrow> bool" where
  "scoresFormats p = isVideoKind (pf_MediaKind p)"

definition ScoreFormats :: "Profile \<Rightarrow> string list \<Rightarrow> int" where
  "ScoreFormats p formats =
     foldl (\<lambda>score slug. wrap64 (score + (case pf_Scores p slug of None \<Rightarrow> 0 | Some s \<Rightarrow> s))) 0 formats"

fun index_from :: "nat \<Rightarrow> Definition list list \<Rightarrow> Quality \<Rightarrow> nat option" where
  "index_from i [] q = None"
| "index_from i (tier # tiers) q = (if list_ex (\<lambda>d. holds d q) tier then Some i else index_from (Suc i) tiers q)"

definition Index :: "Profile \<Rightarrow> Quality \<Rightarrow> nat option" where
  "Index p q = index_from 0 (pf_Tiers p) q"

definition Allowed :: "Profile \<Rightarrow> Quality \<Rightarrow> bool" where
  "Allowed p q \<longleftrightarrow> Index p q \<noteq> None"

definition CutoffMet :: "Profile \<Rightarrow> Quality \<Rightarrow> bool" where
  "CutoffMet p q = (case Index p q of None \<Rightarrow> False | Some idx \<Rightarrow> int idx \<le> pf_CutoffIndex p)"

definition BitrateOutOfRange :: "Profile \<Rightarrow> Quality \<Rightarrow> int \<Rightarrow> string" where
  "BitrateOutOfRange p q bytesPerSecond =
     (case pf_Bitrates p (q_Resolution q) of
        None \<Rightarrow> ''''
      | Some lim \<Rightarrow>
          if bytesPerSecond \<le> 0 then ''''
          else if bt_Min lim > 0 \<and> bytesPerSecond < bt_Min lim
          then fmt_d bytesPerSecond @ '' bytes per second is below the profile's '' @ fmt_d (q_Resolution q) @
               ''p minimum of '' @ fmt_d (bt_Min lim)
          else if bt_Max lim > 0 \<and> bytesPerSecond > bt_Max lim
          then fmt_d bytesPerSecond @ '' bytes per second is above the profile's '' @ fmt_d (q_Resolution q) @
               ''p maximum of '' @ fmt_d (bt_Max lim)
          else '''')"

definition Lists :: "Profile \<Rightarrow> Quality \<Rightarrow> bool" where
  "Lists p q \<longleftrightarrow> Index p q \<noteq> None"

section \<open>The upgrade decision\<close>

record Candidate =
  cd_Quality :: Quality
  cd_Revision :: Revision
  cd_FormatScore :: int

datatype Verdict = Upgrade | ExistingBetterQuality | UpgradesNotAllowed | ExistingBetterRevision | QualityCutoffMet
  | FormatScoreNotHigher | FormatCutoffMet | FormatIncrementTooSmall

definition compareRevision :: "Revision \<Rightarrow> Revision \<Rightarrow> int" where
  "compareRevision a b =
     (if rev_Real a \<noteq> rev_Real b then wrap32 (rev_Real a - rev_Real b)
      else wrap32 (EffectiveVersion a - EffectiveVersion b))"

definition same_def :: "Quality \<Rightarrow> Quality \<Rightarrow> bool" where
  "same_def a b \<longleftrightarrow> q_Source a = q_Source b \<and> q_Resolution a = q_Resolution b \<and> q_Modifier a = q_Modifier b \<and>
     (\<not> isNonVideo a \<or> q_Name a = q_Name b)"

definition UpgradeDecision :: "Profile \<Rightarrow> Candidate \<Rightarrow> Candidate \<Rightarrow> Verdict" where
  "UpgradeDecision p current candidate =
     (case Index p (cd_Quality candidate) of
        None \<Rightarrow> ExistingBetterQuality
      | Some newIdx \<Rightarrow>
          let curIdx = (case Index p (cd_Quality current) of None \<Rightarrow> length (pf_Tiers p) | Some i \<Rightarrow> i);
              qualityCompare = int curIdx - int newIdx;
              sameDef = (qualityCompare = 0 \<and> same_def (cd_Quality current) (cd_Quality candidate));
              preferPropers = (pf_ProperPolicy p \<noteq> ''doNotPrefer'');
              revCompare = compareRevision (cd_Revision candidate) (cd_Revision current)
          in if qualityCompare > 0 \<and> \<not> CutoffMet p (cd_Quality current) then Upgrade
             else if qualityCompare < 0 then ExistingBetterQuality
             else if sameDef \<and> preferPropers \<and> revCompare > 0 then Upgrade
             else if \<not> pf_UpgradeAllowed p then UpgradesNotAllowed
             else if sameDef \<and> preferPropers \<and> revCompare < 0 then ExistingBetterRevision
             else if qualityCompare > 0 then QualityCutoffMet
             else if cd_FormatScore candidate \<le> cd_FormatScore current then FormatScoreNotHigher
             else if cd_FormatScore current \<ge> pf_CutoffFormatScore p then FormatCutoffMet
             else if cd_FormatScore candidate < wrap64 (cd_FormatScore current + pf_MinUpgradeFormatScore p)
               then FormatIncrementTooSmall
             else Upgrade)"

section \<open>Tiers\<close>

lemma index_from_Some:
  "index_from i ts q = Some j \<Longrightarrow> i \<le> j \<and> j < i + length ts \<and> (\<exists>d \<in> set (ts ! (j - i)). holds d q) \<and>
     (\<forall>k < j - i. \<forall>d \<in> set (ts ! k). \<not> holds d q)"
proof (induction i ts q rule: index_from.induct)
  case (2 i tier tiers q)
  show ?case
  proof (cases "list_ex (\<lambda>d. holds d q) tier")
    case True
    with 2 show ?thesis by (auto simp: list_ex_iff)
  next
    case False
    with 2 have ih: "Suc i \<le> j" "j < Suc i + length tiers" "\<exists>d \<in> set (tiers ! (j - Suc i)). holds d q"
      "\<forall>k < j - Suc i. \<forall>d \<in> set (tiers ! k). \<not> holds d q" by auto
    moreover have "j - i = Suc (j - Suc i)" using ih(1) by arith
    ultimately show ?thesis using False by (auto simp: list_ex_iff less_Suc_eq_0_disj)
  qed
qed simp

lemma index_from_None: "index_from i ts q = None \<longleftrightarrow> (\<forall>t \<in> set ts. \<forall>d \<in> set t. \<not> holds d q)"
  by (induction i ts q rule: index_from.induct) (auto simp: list_ex_iff)

lemma Index_Some: "Index p q = Some j \<Longrightarrow> j < length (pf_Tiers p) \<and> (\<exists>d \<in> set (pf_Tiers p ! j). holds d q)"
  unfolding Index_def by (drule index_from_Some) auto

section \<open>Upgrades come to an end\<close>

text \<open>What an upgrade improves: the tier, the revision of the same quality, or the format score in the tier.\<close>

lemma upgrade_improves:
  assumes "UpgradeDecision p cur cand = Upgrade"
  obtains newIdx where "Index p (cd_Quality cand) = Some newIdx"
    and "(case Index p (cd_Quality cur) of None \<Rightarrow> True | Some i \<Rightarrow> newIdx < i) \<or>
      Index p (cd_Quality cur) = Some newIdx \<and>
      (same_def (cd_Quality cur) (cd_Quality cand) \<and> pf_ProperPolicy p \<noteq> ''doNotPrefer'' \<and>
         compareRevision (cd_Revision cand) (cd_Revision cur) > 0 \<or>
       \<not> (same_def (cd_Quality cur) (cd_Quality cand) \<and> pf_ProperPolicy p \<noteq> ''doNotPrefer'' \<and>
          compareRevision (cd_Revision cand) (cd_Revision cur) < 0) \<and>
       cd_FormatScore cur < cd_FormatScore cand \<and> cd_FormatScore cur < pf_CutoffFormatScore p)"
proof -
  obtain newIdx where n: "Index p (cd_Quality cand) = Some newIdx"
    using assms by (auto simp: UpgradeDecision_def split: option.splits)
  show thesis
  proof (rule that [OF n], cases "Index p (cd_Quality cur)")
    case (Some i)
    with n assms show "(case Index p (cd_Quality cur) of None \<Rightarrow> True | Some i \<Rightarrow> newIdx < i) \<or>
      Index p (cd_Quality cur) = Some newIdx \<and>
      (same_def (cd_Quality cur) (cd_Quality cand) \<and> pf_ProperPolicy p \<noteq> ''doNotPrefer'' \<and>
         compareRevision (cd_Revision cand) (cd_Revision cur) > 0 \<or>
       \<not> (same_def (cd_Quality cur) (cd_Quality cand) \<and> pf_ProperPolicy p \<noteq> ''doNotPrefer'' \<and>
          compareRevision (cd_Revision cand) (cd_Revision cur) < 0) \<and>
       cd_FormatScore cur < cd_FormatScore cand \<and> cd_FormatScore cur < pf_CutoffFormatScore p)"
      unfolding UpgradeDecision_def Let_def by (auto split: if_splits)
  qed simp
qed

definition revision_ok :: "Revision \<Rightarrow> bool" where
  "revision_ok r \<longleftrightarrow> 0 \<le> rev_Real r \<and> is_int32 (rev_Real r) \<and> is_int32 (rev_Version r)"

lemma compareRevision_order:
  assumes "revision_ok a" and "revision_ok b"
  shows "compareRevision a b > 0 \<longleftrightarrow> rev_Real b < rev_Real a \<or> (rev_Real b = rev_Real a \<and> EffectiveVersion b < EffectiveVersion a)"
    and "compareRevision a b < 0 \<longleftrightarrow> rev_Real a < rev_Real b \<or> (rev_Real a = rev_Real b \<and> EffectiveVersion a < EffectiveVersion b)"
proof -
  have "is_int32 (rev_Real a - rev_Real b)" "is_int32 (EffectiveVersion a - EffectiveVersion b)"
    using assms by (auto simp: revision_ok_def is_int32_def EffectiveVersion_def)
  then show "compareRevision a b > 0 \<longleftrightarrow> rev_Real b < rev_Real a \<or> (rev_Real b = rev_Real a \<and> EffectiveVersion b < EffectiveVersion a)"
    and "compareRevision a b < 0 \<longleftrightarrow> rev_Real a < rev_Real b \<or> (rev_Real a = rev_Real b \<and> EffectiveVersion a < EffectiveVersion b)"
    by (auto simp: compareRevision_def)
qed

text \<open>One video quality to a tier: what ties in tier is the same quality.\<close>

definition single_tiers :: "Profile \<Rightarrow> bool" where
  "single_tiers p \<longleftrightarrow> (\<forall>t \<in> set (pf_Tiers p). length t \<le> 1 \<and> (\<forall>d \<in> set t. \<not> isNonVideo (df_Quality d)))"

lemma single_same:
  assumes "single_tiers p" and "Index p a = Some i" and "Index p b = Some i"
  shows "same_def a b"
proof -
  from Index_Some [OF assms(2)] Index_Some [OF assms(3)] obtain d e where
    de: "i < length (pf_Tiers p)" "d \<in> set (pf_Tiers p ! i)" "holds d a" "e \<in> set (pf_Tiers p ! i)" "holds e b" by blast
  with assms(1) have t: "length (pf_Tiers p ! i) \<le> 1" "\<not> isNonVideo (df_Quality d)"
    by (auto simp: single_tiers_def dest: nth_mem)
  with de have "e = d" by (cases "pf_Tiers p ! i") auto
  with de t(2) show ?thesis by (auto simp: holds_def same_def_def isNonVideo_def)
qed

text \<open>How far a file is from where no upgrade is left: its tier, its revision (when the profile prefers propers), its score.\<close>

definition upgrade_rank :: "Profile \<Rightarrow> Candidate \<Rightarrow> nat \<times> nat \<times> nat \<times> nat" where
  "upgrade_rank p c =
     ((case Index p (cd_Quality c) of None \<Rightarrow> length (pf_Tiers p) | Some i \<Rightarrow> i),
      (if pf_ProperPolicy p = ''doNotPrefer'' then 0 else nat (2 ^ 31 - rev_Real (cd_Revision c))),
      (if pf_ProperPolicy p = ''doNotPrefer'' then 0 else nat (2 ^ 31 - EffectiveVersion (cd_Revision c))),
      nat (pf_CutoffFormatScore p - cd_FormatScore c))"

abbreviation rank_less :: "((nat \<times> nat \<times> nat \<times> nat) \<times> (nat \<times> nat \<times> nat \<times> nat)) set" where
  "rank_less \<equiv> less_than <*lex*> less_than <*lex*> less_than <*lex*> less_than"

lemma upgrade_rank_less:
  assumes "UpgradeDecision p cur cand = Upgrade" and "revision_ok (cd_Revision cur)" and "revision_ok (cd_Revision cand)"
    and "pf_ProperPolicy p = ''doNotPrefer'' \<or> single_tiers p"
  shows "(upgrade_rank p cand, upgrade_rank p cur) \<in> rank_less"
proof -
  from upgrade_improves [OF assms(1)] obtain n where n: "Index p (cd_Quality cand) = Some n"
    and c: "(case Index p (cd_Quality cur) of None \<Rightarrow> True | Some i \<Rightarrow> n < i) \<or>
      Index p (cd_Quality cur) = Some n \<and>
      (same_def (cd_Quality cur) (cd_Quality cand) \<and> pf_ProperPolicy p \<noteq> ''doNotPrefer'' \<and>
         compareRevision (cd_Revision cand) (cd_Revision cur) > 0 \<or>
       \<not> (same_def (cd_Quality cur) (cd_Quality cand) \<and> pf_ProperPolicy p \<noteq> ''doNotPrefer'' \<and>
          compareRevision (cd_Revision cand) (cd_Revision cur) < 0) \<and>
       cd_FormatScore cur < cd_FormatScore cand \<and> cd_FormatScore cur < pf_CutoffFormatScore p)"
    by blast
  have bound: "rev_Real r < 2 ^ 31" "EffectiveVersion r < 2 ^ 31" if "revision_ok r" for r
    using that by (auto simp: revision_ok_def is_int32_def EffectiveVersion_def)
  note bs = bound [OF assms(2)] bound [OF assms(3)]
  show ?thesis
  proof (cases "Index p (cd_Quality cur)")
    case None
    with n Index_Some [OF n] show ?thesis by (simp add: upgrade_rank_def)
  next
    case (Some i)
    have same: "same_def (cd_Quality cur) (cd_Quality cand)" if "i = n" "pf_ProperPolicy p \<noteq> ''doNotPrefer''"
      using assms(4) single_same [OF _ Some, of "cd_Quality cand"] that n by auto
    from c Some have "n < i \<or> i = n" by auto
    then show ?thesis
    proof
      assume "n < i"
      with Some n show ?thesis by (simp add: upgrade_rank_def)
    next
      assume i: "i = n"
      show ?thesis
      proof (cases "pf_ProperPolicy p = ''doNotPrefer''")
        case True
        with c Some i have "cd_FormatScore cur < cd_FormatScore cand" "cd_FormatScore cur < pf_CutoffFormatScore p" by auto
        with True Some i n show ?thesis by (simp add: upgrade_rank_def)
      next
        case False
        note s = same [OF i False]
        let ?r = "cd_Revision cur" and ?r' = "cd_Revision cand"
        have "rev_Real ?r < rev_Real ?r' \<or> rev_Real ?r = rev_Real ?r' \<and> (EffectiveVersion ?r < EffectiveVersion ?r' \<or>
            EffectiveVersion ?r = EffectiveVersion ?r' \<and> cd_FormatScore cur < cd_FormatScore cand \<and> cd_FormatScore cur < pf_CutoffFormatScore p)"
          using c Some i s False compareRevision_order [OF assms(3,2)] by auto
        then show ?thesis using False Some i n bs by (auto simp: upgrade_rank_def)
      qed
    qed
  qed
qed

text \<open>C35: upgrades come to an end. For a profile that does not prefer propers, or whose tiers hold one video quality
  each, there is no infinite sequence of files in which each was grabbed as an upgrade of the one before,
  whatever is offered: every upgrade moves to a better tier, or in its tier to a later revision, or at its
  revision to a higher score below the cutoff.\<close>

theorem upgrades_end:
  assumes "pf_ProperPolicy p = ''doNotPrefer'' \<or> single_tiers p" and "\<And>i. revision_ok (cd_Revision (f i))"
  shows "\<exists>i. UpgradeDecision p (f i) (f (Suc i)) \<noteq> Upgrade"
proof (rule ccontr)
  assume "\<nexists>i. UpgradeDecision p (f i) (f (Suc i)) \<noteq> Upgrade"
  then have "(upgrade_rank p (f (Suc i)), upgrade_rank p (f i)) \<in> rank_less" for i
    using upgrade_rank_less [OF _ assms(2) assms(2) assms(1)] by blast
  moreover have "wf rank_less" by (intro wf_lex_prod wf_less_than)
  ultimately show False using wf_iff_no_infinite_down_chain [THEN iffD1, of rank_less] exI [of _ "\<lambda>i. upgrade_rank p (f i)"] by simp
qed

definition profile0 :: Profile where
  "profile0 = \<lparr>pf_Tiers = map (map (\<lambda>n. the (Lookup ''video'' n))) [[''Bluray-1080p''], [''WEBDL-1080p'']],
     pf_CutoffIndex = 0, pf_UpgradeAllowed = True, pf_MinFormatScore = 0, pf_CutoffFormatScore = 10000,
     pf_MinUpgradeFormatScore = 1, pf_Scores = (\<lambda>_. None), pf_Language = '''', pf_LanguageName = '''', pf_AudioLanguages = [],
     pf_GraftAudio = False, pf_AudioDefault = '''', pf_AudioCompleteFirst = False, pf_AudioOptional = [], pf_ScoreSet = ''default'',
     pf_ProperPolicy = ''preferAndUpgrade'', pf_Bitrates = (\<lambda>_. None), pf_PreferredProtocol = ''any'', pf_PreferSmallest = False,
     pf_MediaKind = ''video''\<rparr>"

definition file0 :: "string \<Rightarrow> int \<Rightarrow> int \<Rightarrow> Candidate" where
  "file0 name version score = \<lparr>cd_Quality = df_Quality (the (Lookup ''video'' name)),
     cd_Revision = \<lparr>rev_Version = version, rev_Real = 0, rev_Repack = False\<rparr>, cd_FormatScore = score\<rparr>"

lemma single_tiers_profile0: "single_tiers profile0"
  by code_simp

theorem upgrades_end_witness:
  "\<exists>i. UpgradeDecision profile0 (file0 ''WEBDL-1080p'' 1 (min 3 (int i))) (file0 ''WEBDL-1080p'' 1 (min 3 (int (Suc i)))) \<noteq> Upgrade"
proof (rule upgrades_end)
  show "pf_ProperPolicy profile0 = ''doNotPrefer'' \<or> single_tiers profile0" using single_tiers_profile0 ..
  show "revision_ok (cd_Revision (file0 ''WEBDL-1080p'' 1 (min 3 (int i))))" for i
    by (simp add: file0_def revision_ok_def is_int32_def)
qed

text \<open>
  Without these, upgrades may go in a circle: in a tier of two qualities a proper replaces its original whatever
  its score, the other quality replaces the proper by its score, and the original replaces that by its own.
\<close>

lemma upgrades_in_a_circle:
  "let p = profile0\<lparr>pf_Tiers := [map (\<lambda>n. the (Lookup ''video'' n)) [''WEBDL-1080p'', ''WEBRip-1080p'']]\<rparr>;
       a = file0 ''WEBDL-1080p'' 1 10; b = file0 ''WEBDL-1080p'' 2 0; c = file0 ''WEBRip-1080p'' 1 5
   in UpgradeDecision p a b = Upgrade \<and> UpgradeDecision p b c = Upgrade \<and> UpgradeDecision p c a = Upgrade"
  by code_simp

text \<open>A profile that does not allow upgrades still upgrades a file below its cutoff.\<close>

lemma upgrade_though_not_allowed:
  "UpgradeDecision (profile0\<lparr>pf_UpgradeAllowed := False\<rparr>) (file0 ''WEBDL-1080p'' 1 0) (file0 ''Bluray-1080p'' 1 0) = Upgrade"
  by code_simp

end
