(* ===== verification/AudioPolicy.thy ===== *)
theory AudioPolicy
  imports QualityUpgrade
begin

text \<open>
  Languages and the audio policy of a profile: the language table (\<^verbatim>\<open>pkg/quality/catalogue/languages.go\<close>), the
  normal form of a language tag (\<^verbatim>\<open>pkg/lang\<close>), and what a file's or a release's languages mean for a profile
  (\<^verbatim>\<open>pkg/decision/audiolanguage.go\<close>, \<^verbatim>\<open>audiopolicy.go\<close>, \<^verbatim>\<open>language.go\<close>, \<^verbatim>\<open>dub.go\<close>). The parser of BCP-47 tags
  (\<^verbatim>\<open>golang.org/x/text/language\<close>) is the parameter \<open>parse\<close>: of a string, the canonical tag it spells, whether no base
  language could be found for it and whether that is a private-use one; \<open>None\<close> is an error. A list of languages that
  is not known (\<^verbatim>\<open>nil\<close>) is \<open>None\<close>.
\<close>

section \<open>The language table\<close>

datatype Language = Language (lg_ID: int) (lg_Name: string) (lg_Tag: string)

definition languages :: "Language list" where
  "languages =
    [Language (-2) ''Original'' '''',
     Language (-1) ''Any'' '''',
     Language 0 ''Unknown'' '''',
     Language 1 ''English'' ''en'',
     Language 2 ''French'' ''fr'',
     Language 3 ''Spanish'' ''es'',
     Language 4 ''German'' ''de'',
     Language 5 ''Italian'' ''it'',
     Language 6 ''Danish'' ''da'',
     Language 7 ''Dutch'' ''nl'',
     Language 8 ''Japanese'' ''ja'',
     Language 9 ''Icelandic'' ''is'',
     Language 10 ''Chinese'' ''zh'',
     Language 11 ''Russian'' ''ru'',
     Language 12 ''Polish'' ''pl'',
     Language 13 ''Vietnamese'' ''vi'',
     Language 14 ''Swedish'' ''sv'',
     Language 15 ''Norwegian'' ''no'',
     Language 16 ''Finnish'' ''fi'',
     Language 17 ''Turkish'' ''tr'',
     Language 18 ''Portuguese'' ''pt'',
     Language 19 ''Flemish'' '''',
     Language 20 ''Greek'' ''el'',
     Language 21 ''Korean'' ''ko'',
     Language 22 ''Hungarian'' ''hu'',
     Language 23 ''Hebrew'' ''he'',
     Language 24 ''Lithuanian'' ''lt'',
     Language 25 ''Czech'' ''cs'',
     Language 26 ''Hindi'' ''hi'',
     Language 27 ''Romanian'' ''ro'',
     Language 28 ''Thai'' ''th'',
     Language 29 ''Bulgarian'' ''bg'',
     Language 30 ''Portuguese (Brazil)'' '''',
     Language 31 ''Arabic'' ''ar'',
     Language 32 ''Ukrainian'' ''uk'',
     Language 33 ''Persian'' ''fa'',
     Language 34 ''Bengali'' ''bn'',
     Language 35 ''Slovak'' ''sk'',
     Language 36 ''Latvian'' ''lv'',
     Language 37 ''Spanish (Latino)'' '''',
     Language 38 ''Catalan'' ''ca'',
     Language 39 ''Croatian'' ''hr'',
     Language 40 ''Serbian'' ''sr'',
     Language 41 ''Bosnian'' ''bs'',
     Language 42 ''Estonian'' ''et'',
     Language 43 ''Tamil'' ''ta'',
     Language 44 ''Indonesian'' ''id'',
     Language 45 ''Telugu'' ''te'',
     Language 46 ''Macedonian'' ''mk'',
     Language 47 ''Slovenian'' ''sl'',
     Language 48 ''Malayalam'' ''ml'',
     Language 49 ''Kannada'' ''kn'',
     Language 50 ''Albanian'' ''sq'',
     Language 51 ''Afrikaans'' ''af'',
     Language 52 ''Marathi'' ''mr'',
     Language 53 ''Tagalog'' ''tl'',
     Language 54 ''Urdu'' ''ur'',
     Language 55 ''Romansh'' ''rm'',
     Language 56 ''Mongolian'' ''mn'',
     Language 57 ''Georgian'' ''ka'']"

definition LanguageByID :: "int \<Rightarrow> string option" where
  "LanguageByID i = map_option lg_Name (find (\<lambda>l. lg_ID l = i) languages)"

definition LanguageTag :: "string \<Rightarrow> string option" where
  "LanguageTag name = map_option lg_Tag (find (\<lambda>l. lg_Tag l \<noteq> '''' \<and> equal_fold (lg_Name l) name) languages)"

definition LanguageName :: "string \<Rightarrow> string option" where
  "LanguageName tag =
     (let primary = fst (cut (CHR ''-'') tag) in
      if primary = '''' then None
      else map_option lg_Name (find (\<lambda>l. lg_Tag l \<noteq> '''' \<and> equal_fold (lg_Tag l) primary) languages))"

section \<open>Tags\<close>

type_synonym tag_parser = "string \<Rightarrow> (string \<times> bool \<times> bool) option"

definition Normalize :: "tag_parser \<Rightarrow> string \<Rightarrow> string option" where
  "Normalize parse code =
     (let s = replace_byte (CHR ''_'') ''-'' (trim_space code) in
      if s = '''' then None
      else case parse s of
        None \<Rightarrow> None
      | Some (tag, noBase, privateUse) \<Rightarrow>
          if to_lower (fst (cut (CHR ''-'') tag)) \<in> {''und'', ''mul'', ''zxx''} then None
          else if noBase \<or> privateUse then None
          else Some tag)"

definition ResolveLanguageName :: "tag_parser \<Rightarrow> string \<Rightarrow> string option" where
  "ResolveLanguageName parse s0 =
     (let s = trim_space s0 in
      if s = '''' then None
      else case find (\<lambda>l. lg_Name l \<noteq> '''' \<and> equal_fold (lg_Name l) s) languages of
        Some l \<Rightarrow> Some (lg_Name l)
      | None \<Rightarrow> (case Normalize parse s of Some t \<Rightarrow> LanguageName t | None \<Rightarrow> None))"

definition originalLanguageName :: "tag_parser \<Rightarrow> string \<Rightarrow> string" where
  "originalLanguageName parse tag =
     (if tag = '''' then ''''
      else case LanguageName tag of
        Some name \<Rightarrow> name
      | None \<Rightarrow>
          (case Normalize parse tag of
             None \<Rightarrow> ''''
           | Some normalized \<Rightarrow> (case LanguageName normalized of Some name \<Rightarrow> name | None \<Rightarrow> '''')))"

definition baseLanguage :: "string \<Rightarrow> string" where
  "baseLanguage tag = to_lower (fst (cut (CHR ''-'') tag))"

definition containsFold :: "string list \<Rightarrow> string \<Rightarrow> bool" where
  "containsFold haystack needle \<longleftrightarrow> list_ex (\<lambda>s. equal_fold s needle) haystack"

section \<open>A file's audio\<close>

definition audioAnchor :: "Profile \<Rightarrow> string" where
  "audioAnchor p =
     (if ''original'' \<in> set (pf_AudioLanguages p) then ''original''
      else if pf_AudioDefault p \<noteq> '''' then pf_AudioDefault p
      else case pf_AudioLanguages p of [] \<Rightarrow> '''' | l # ls \<Rightarrow> l)"

definition LacksLanguage :: "tag_parser \<Rightarrow> Profile \<Rightarrow> string \<Rightarrow> string list option \<Rightarrow> bool" where
  "LacksLanguage parse p originalTag audio =
     (case audio of
        None \<Rightarrow> False
      | Some as \<Rightarrow>
          let want = (if pf_AudioLanguages p \<noteq> [] then audioAnchor p else pf_Language p) in
          if want = '''' \<or> want = ''any'' then False
          else case Normalize parse (if want = ''original'' then originalTag else want) of
            None \<Rightarrow> False
          | Some w \<Rightarrow> \<not> list_ex (\<lambda>a. baseLanguage a = baseLanguage w) as)"

definition audioTags :: "tag_parser \<Rightarrow> string list \<Rightarrow> string \<Rightarrow> string list \<Rightarrow> string list" where
  "audioTags parse ls originalTag except =
     foldl (\<lambda>out l. case Normalize parse (if l = ''original'' then originalTag else l) of
              None \<Rightarrow> out
            | Some w \<Rightarrow> if w \<notin> set out \<and> w \<notin> set except then out @ [w] else out) [] ls"

definition WantedAudio :: "tag_parser \<Rightarrow> Profile \<Rightarrow> string \<Rightarrow> string list" where
  "WantedAudio parse p originalTag = audioTags parse (pf_AudioLanguages p) originalTag []"

definition OptionalAudio :: "tag_parser \<Rightarrow> Profile \<Rightarrow> string \<Rightarrow> string list" where
  "OptionalAudio parse p originalTag = audioTags parse (pf_AudioOptional p) originalTag (WantedAudio parse p originalTag)"

definition lacking :: "string list option \<Rightarrow> string list \<Rightarrow> string list" where
  "lacking audio ws =
     (case audio of None \<Rightarrow> []
      | Some as \<Rightarrow> filter (\<lambda>w. \<not> list_ex (\<lambda>a. baseLanguage a = baseLanguage w) as) ws)"

definition MissingAudio :: "tag_parser \<Rightarrow> Profile \<Rightarrow> string \<Rightarrow> string list option \<Rightarrow> string list" where
  "MissingAudio parse p originalTag audio = lacking audio (WantedAudio parse p originalTag)"

definition MissingOptionalAudio :: "tag_parser \<Rightarrow> Profile \<Rightarrow> string \<Rightarrow> string list option \<Rightarrow> string list" where
  "MissingOptionalAudio parse p originalTag audio = lacking audio (OptionalAudio parse p originalTag)"

definition IncompleteAudio :: "tag_parser \<Rightarrow> Profile \<Rightarrow> string \<Rightarrow> string list option \<Rightarrow> bool" where
  "IncompleteAudio parse p originalTag audio \<longleftrightarrow> \<not> pf_GraftAudio p \<and> MissingAudio parse p originalTag audio \<noteq> []"

definition ReplaceableAudio :: "tag_parser \<Rightarrow> Profile \<Rightarrow> string \<Rightarrow> string list option \<Rightarrow> bool" where
  "ReplaceableAudio parse p originalTag audio \<longleftrightarrow>
     (\<not> pf_GraftAudio p \<or> pf_AudioCompleteFirst p) \<and> MissingAudio parse p originalTag audio \<noteq> []"

definition AudioUpgradeable :: "tag_parser \<Rightarrow> Profile \<Rightarrow> string \<Rightarrow> string list option \<Rightarrow> bool" where
  "AudioUpgradeable parse p originalTag audio \<longleftrightarrow>
     ReplaceableAudio parse p originalTag audio \<or>
     (\<not> pf_GraftAudio p \<or> pf_AudioCompleteFirst p) \<and> MissingOptionalAudio parse p originalTag audio \<noteq> []"

definition CompletesAudio :: "tag_parser \<Rightarrow> Profile \<Rightarrow> string \<Rightarrow> string list option \<Rightarrow> bool" where
  "CompletesAudio parse p originalTag audio \<longleftrightarrow>
     pf_AudioLanguages p \<noteq> [] \<and> audio \<noteq> None \<and> MissingAudio parse p originalTag audio = [] \<and>
     MissingOptionalAudio parse p originalTag audio = []"

text \<open>The languages of a probe's audio tracks, given as the tracks' language codes; \<open>None\<close> is no probe.\<close>

fun audio_languages_from :: "tag_parser \<Rightarrow> string list \<Rightarrow> string list \<Rightarrow> string list option" where
  "audio_languages_from parse out [] = Some out"
| "audio_languages_from parse out (a # as) =
     (case Normalize parse a of
        None \<Rightarrow> None
      | Some t \<Rightarrow> if t = ''unk'' then None
                  else audio_languages_from parse (if t \<in> set out then out else out @ [t]) as)"

definition AudioLanguages :: "tag_parser \<Rightarrow> string list option \<Rightarrow> string list option" where
  "AudioLanguages parse mi =
     (case mi of None \<Rightarrow> None | Some tracks \<Rightarrow> if tracks = [] then None else audio_languages_from parse [] tracks)"

section \<open>A release's audio\<close>

record audioNames =
  an_original :: string
  an_wanted :: "string list"
  an_optional :: "string list"
  an_anchor :: string

definition resolveAudioNames :: "tag_parser \<Rightarrow> Profile \<Rightarrow> string \<Rightarrow> audioNames" where
  "resolveAudioNames parse p originalLanguage =
     (let name = (\<lambda>l. if l = ''original'' then originalLanguage else originalLanguageName parse l);
          wanted = foldl (\<lambda>ws l. if name l \<noteq> '''' \<and> \<not> containsFold ws (name l) then ws @ [name l] else ws) [] (pf_AudioLanguages p);
          optional = foldl (\<lambda>os l. if name l \<noteq> '''' \<and> \<not> containsFold wanted (name l) \<and> \<not> containsFold os (name l)
                                    then os @ [name l] else os) [] (pf_AudioOptional p)
      in \<lparr>an_original = originalLanguage, an_wanted = wanted, an_optional = optional,
          an_anchor = (if audioAnchor p \<noteq> '''' then name (audioAnchor p) else '''')\<rparr>)"

text \<open>The fields of a \<^verbatim>\<open>ParsedRelease\<close> the decision rules read; the hints are those of its \<^verbatim>\<open>Hints\<close>.\<close>

record ParsedRelease =
  pr_Languages :: "string list"
  pr_LanguageUnknown :: bool
  pr_DualAudio :: bool
  pr_FullSeason :: bool
  pr_Episodes :: "int list"
  pr_Absolute :: "int list"
  pr_HDR :: "string list"
  pr_Codec :: "string list"

definition namesWantedLanguages :: "audioNames \<Rightarrow> Profile \<Rightarrow> ParsedRelease \<Rightarrow> bool" where
  "namesWantedLanguages an p parsed =
     (if pr_LanguageUnknown parsed then False
      else if pf_AudioLanguages p = [] \<or> an_anchor an = '''' then True
      else containsFold (pr_Languages parsed) (an_anchor an))"

section \<open>A dub's state\<close>

datatype dub_state = Ungoverned | Dubbed | Incomplete | NotDubbed

definition is_english :: "tag_parser \<Rightarrow> string \<Rightarrow> bool" where
  "is_english parse l = (case Normalize parse l of None \<Rightarrow> False | Some t \<Rightarrow> l \<noteq> ''original'' \<and> baseLanguage t = ''en'')"

definition ForDub :: "tag_parser \<Rightarrow> Profile \<Rightarrow> dub_state \<Rightarrow> Profile" where
  "ForDub parse p s =
     (if s \<noteq> NotDubbed \<and> s \<noteq> Incomplete then p
      else let english = filter (is_english parse) (pf_AudioLanguages p);
               keep = filter (\<lambda>l. \<not> is_english parse l) (pf_AudioLanguages p)
           in if english = [] \<or> keep = [] then p
              else p\<lparr>pf_AudioLanguages := keep, pf_AudioOptional := (if s = Incomplete then english else [])\<rparr>)"

end
