(* ===== verification/GraftPlanner.thy ===== *)
theory GraftPlanner
  imports TranscodeDecide AudioPolicy
begin

text \<open>
  The graft planner (\<^verbatim>\<open>app/transcode/graftplan\<close>): one pass over a file whose item lacks an audio language and has a donor for it. A graft runs alone, as a Job of its own, or
  rides along with the file's transcode. \<^verbatim>\<open>Plan\<close> writes the graft's block, tag and time into the status it is given and returns what the apply owes. The parser of language tags and the name of a
  Job, which ends in a hash, are the parameters of \<open>GraftEnv\<close>.
\<close>

section \<open>Inputs and decisions\<close>

record GraftEnv =
  ge_Parse :: tag_parser
  ge_JobName :: "string \<Rightarrow> int \<Rightarrow> string"

definition JobDeadline :: duration where "JobDeadline = 2 * hour"
definition JoinWait :: duration where "JoinWait = 6 * hour"
definition FailureBackoff :: duration where "FailureBackoff = 15 * minute"
definition JobGrace :: duration where "JobGrace = 2 * minute"
definition graft_FactWindow :: duration where "graft_FactWindow = JobDeadline + JobGrace"
definition graft_recheck :: duration where "graft_recheck = minute"
definition joinWaitRecheck :: duration where "joinWaitRecheck = 30 * minute"

definition ReasonTranscodeRunning :: string where "ReasonTranscodeRunning = ''TranscodeRunning''"
definition ReasonWaitingForTranscode :: string where "ReasonWaitingForTranscode = ''WaitingForTranscode''"
definition ReasonBackoff :: string where "ReasonBackoff = ''Backoff''"
definition ReasonJobLost :: string where "ReasonJobLost = ''JobLost''"

definition PhaseSucceeded :: string where "PhaseSucceeded = ''Succeeded''"
definition ReasonGrafted :: string where "ReasonGrafted = ''Grafted''"
definition ReasonPresent :: string where "ReasonPresent = ''Present''"
definition ReasonInvalidTask :: string where "ReasonInvalidTask = ''InvalidTask''"
definition ReasonDonorLacksLanguage :: string where "ReasonDonorLacksLanguage = ''DonorLacksLanguage''"
definition ReasonAlignmentRejected :: string where "ReasonAlignmentRejected = ''AlignmentRejected''"
definition ReasonVerifyFailed :: string where "ReasonVerifyFailed = ''VerifyFailed''"
definition ReasonMuxFailed :: string where "ReasonMuxFailed = ''MuxFailed''"
definition TaskSchema :: string where "TaskSchema = ''graft.Task.v2''"

record GraftView =
  gv_File :: MediaFile
  gv_Prev :: MediaFileStatus
  gv_Draft :: MediaFileStatus
  gv_Now :: time
  gv_ProbeCurrent :: bool
  gv_Issue :: "int \<Rightarrow> int"

record AudioDonor =
  ad_Path :: string
  ad_Release :: string
  ad_ImportedAt :: time

record AudioState =
  as_Missing :: "string list"
  as_Donor :: "AudioDonor option"

record GraftItem =
  im_UID :: string
  im_Audio :: "AudioState option"
  im_Anchor :: string
  im_Grafts :: bool
  im_Default :: string

record GraftJob =
  jb_Name :: string
  jb_Finished :: bool
  jb_FinishedAt :: time
  jb_Message :: string

record GraftRecord =
  gc_FileUID :: string
  gc_FileKey :: nname
  gc_Seq :: int
  gc_State :: string
  gc_RequestedAt :: time
  gc_ClaimedAt :: "time option"
  gc_AnsweredAt :: "time option"
  gc_Writer :: string
  gc_Failure :: string
  gc_Inputs :: GraftInputs
  gc_Answer :: "GraftResult option"

record GraftInput =
  gx_Item :: "GraftItem option"
  gx_Root :: string
  gx_RecycleBin :: string
  gx_Record :: "GraftRecord option"
  gx_Transcode :: "Record option"
  gx_Job :: "GraftJob option"
  gx_Granted :: bool

datatype GraftEffect =
  EffectRequest int GraftRecord | EffectWithdraw int | EffectCreateJob int GraftTask string | EffectDeleteJob string | EffectConfirm int

record GraftDecision =
  gd_Effects :: "GraftEffect list"
  gd_Due :: time
  gd_Events :: "Event list"
  gd_Records :: "string list"
  gd_Unpaced :: bool
  gd_Again :: bool

definition zero_decision :: GraftDecision where
  "zero_decision = \<lparr>gd_Effects = [], gd_Due = 0, gd_Events = [], gd_Records = [], gd_Unpaced = False, gd_Again = False\<rparr>"

definition due :: "GraftDecision \<Rightarrow> time \<Rightarrow> GraftDecision" where
  "due d t = (if t \<noteq> 0 \<and> (gd_Due d = 0 \<or> t < gd_Due d) then d\<lparr>gd_Due := t\<rparr> else d)"

definition owes :: "GraftDecision \<Rightarrow> GraftEffect list \<Rightarrow> GraftDecision" where
  "owes d es = d\<lparr>gd_Effects := gd_Effects d @ es\<rparr>"

definition recorded :: "GraftDecision \<Rightarrow> string \<Rightarrow> GraftDecision" where
  "recorded d state = d\<lparr>gd_Records := gd_Records d @ [state], gd_Unpaced := True\<rparr>"

section \<open>Text and languages\<close>

function valid_utf8 :: "string \<Rightarrow> bool" where
  "valid_utf8 s = (if s = [] then True else if rune_length s = 0 then False else valid_utf8 (drop (rune_length s) s))"
  by pat_completeness auto
termination
  by (relation "measure length") auto

declare valid_utf8.simps [simp del]

function trim_invalid :: "string \<Rightarrow> string" where
  "trim_invalid s = (if s = [] \<or> valid_utf8 s then s else trim_invalid (butlast s))"
  by pat_completeness auto
termination
  by (relation "measure length") auto

declare trim_invalid.simps [simp del]

definition MaxMessage :: nat where "MaxMessage = 1024"

definition clampTo :: "string \<Rightarrow> nat \<Rightarrow> string" where
  "clampTo s n = (if length s \<le> n then s else trim_invalid (take n s))"

definition Clamp :: "string \<Rightarrow> string" where
  "Clamp s = clampTo s MaxMessage"

definition baseTag :: "string \<Rightarrow> string" where
  "baseTag t = to_lower (fst (cut (CHR ''-'') t))"

definition isDefault :: "string \<Rightarrow> string \<Rightarrow> bool" where
  "isDefault def' l \<longleftrightarrow> def' \<noteq> '''' \<and> def' \<noteq> ''original'' \<and> baseTag def' = baseTag l"

definition probed_bases :: "tag_parser \<Rightarrow> MediaProbe \<Rightarrow> string list" where
  "probed_bases parse mi = map baseTag (List.map_filter (Normalize parse) (mi_AudioLanguages mi))"

fun first_lacking :: "tag_parser \<Rightarrow> string list \<Rightarrow> string list \<Rightarrow> string" where
  "first_lacking parse have [] = ''''"
| "first_lacking parse have (l # ls) =
     (case Normalize parse l of
        Some t \<Rightarrow> if baseTag t \<notin> set have then t else first_lacking parse have ls
      | None \<Rightarrow> first_lacking parse have ls)"

definition FirstMissing :: "tag_parser \<Rightarrow> string list \<Rightarrow> MediaProbe option \<Rightarrow> string" where
  "FirstMissing parse langs mi = (case mi of None \<Rightarrow> '''' | Some m \<Rightarrow> first_lacking parse (probed_bases parse m) langs)"

text \<open>\<^verbatim>\<open>strings.Join\<close> with a comma and a space, and \<^verbatim>\<open>Truncate(time.Second)\<close>.\<close>

definition join_languages :: "string list \<Rightarrow> string" where
  "join_languages xs = (case xs of [] \<Rightarrow> '''' | x # ys \<Rightarrow> x @ concat (map (\<lambda>y. '', '' @ y) ys))"

definition truncate_second :: "time \<Rightarrow> time" where
  "truncate_second t = t - t mod second"

section \<open>Predicates\<close>

definition DonorFault :: "string \<Rightarrow> bool" where
  "DonorFault reason \<longleftrightarrow> reason = ReasonAlignmentRejected \<or> reason = ReasonVerifyFailed \<or> reason = ReasonMuxFailed \<or> reason = ReasonDonorLacksLanguage"

definition Standalone :: "GraftState option \<Rightarrow> bool" where
  "Standalone b =
     (case b of None \<Rightarrow> False
      | Some b \<Rightarrow> gs_Phase b = GraftPhaseQueued \<or> (gs_Phase b = GraftPhaseRunning \<and> gs_Reason b \<noteq> ReasonJoinedTranscode))"

definition JoinInFlight :: "TranscodeState option \<Rightarrow> bool" where
  "JoinInFlight tc =
     (case tc of None \<Rightarrow> False | Some b \<Rightarrow> tb_JoinedGraft b \<noteq> None \<and> (case tb_Dispatch b of None \<Rightarrow> False | Some dp \<Rightarrow> InFlight dp))"

definition graft_Fact :: "GraftRecord \<Rightarrow> bool" where
  "graft_Fact r = (case gc_Answer r of None \<Rightarrow> False | Some a \<Rightarrow> ga_Phase a = PhaseSucceeded \<and> ga_Reason a = ReasonGrafted)"

definition item_donor :: "GraftItem option \<Rightarrow> (GraftItem \<times> AudioState \<times> AudioDonor) option" where
  "item_donor it =
     (case it of None \<Rightarrow> None
      | Some x \<Rightarrow> (case im_Audio x of None \<Rightarrow> None | Some a \<Rightarrow> (case as_Donor a of None \<Rightarrow> None | Some dn \<Rightarrow> Some (x, a, dn))))"

definition exists_graft :: "GraftView \<Rightarrow> GraftItem option \<Rightarrow> bool" where
  "exists_graft v it =
     (case item_donor it of
        None \<Rightarrow> False
      | Some (x, a, dn) \<Rightarrow>
          mf_MediaKeys (gv_File v) = [] \<and> im_Grafts x \<and> im_Anchor x \<noteq> '''' \<and>
          (as_Missing a \<noteq> [] \<or>
           (case ms_Graft (gv_Prev v) of None \<Rightarrow> False
            | Some b \<Rightarrow> gs_ProbeHash b \<noteq> '''' \<and> gs_ProbeHash b = ms_ProbeHash (gv_Draft v))))"

definition factOpen :: "GraftView \<Rightarrow> GraftState \<Rightarrow> bool" where
  "factOpen v b = (case gs_Dispatch b of None \<Rightarrow> False | Some dp \<Rightarrow> dp_Withdrawn dp \<and> gv_Now v < dp_DispatchedAt dp + graft_FactWindow)"

definition closedAt :: "GraftRecord \<Rightarrow> int \<Rightarrow> bool" where
  "closedAt r s \<longleftrightarrow> gc_Seq r = s \<and> (gc_State r = StateAnswered \<or> gc_State r = StateFailed)"

definition answerTime :: "time option \<Rightarrow> time \<Rightarrow> time" where
  "answerTime answered now = (case answered of Some t \<Rightarrow> truncate_second t | None \<Rightarrow> now)"

definition sameAttempt :: "GraftState \<Rightarrow> AudioDonor \<Rightarrow> string \<Rightarrow> bool" where
  "sameAttempt b donor probe \<longleftrightarrow> gs_DonorRelease b = ad_Release donor \<and> gs_ProbeHash b = probe \<and> gs_DonorImportedAt b = Some (ad_ImportedAt donor)"

definition joinOpen :: "TranscodeState option \<Rightarrow> int \<Rightarrow> bool" where
  "joinOpen tc s =
     (case tc of None \<Rightarrow> False
      | Some b \<Rightarrow> tb_JoinedGraft b \<noteq> None \<and> (case tb_Dispatch b of None \<Rightarrow> False | Some dp \<Rightarrow> dp_Seq dp = s \<and> InFlight dp))"

definition jobLost :: "GraftJob option \<Rightarrow> GraftRecord option \<Rightarrow> int \<Rightarrow> time \<Rightarrow> bool" where
  "jobLost job rec s now =
     (if (case rec of None \<Rightarrow> False | Some r \<Rightarrow> closedAt r s) then False
      else case job of
        None \<Rightarrow> (case rec of None \<Rightarrow> False | Some r \<Rightarrow> gc_Seq r = s \<and> gc_State r = StateClaimed)
      | Some j \<Rightarrow> jb_Finished j \<and> \<not> now < jb_FinishedAt j + JobGrace)"

section \<open>Tasks\<close>

definition inputsOf :: "GraftEnv \<Rightarrow> GraftView \<Rightarrow> GraftState \<Rightarrow> GraftInput \<Rightarrow> GraftInputs" where
  "inputsOf env v b x =
     \<lparr>gi_TargetProbeHash = gs_ProbeHash b,
      gi_DonorAudio = (case item_donor (gx_Item x) of None \<Rightarrow> '''' | Some (_, _, dn) \<Rightarrow> ad_Path dn),
      gi_DonorRelease = gs_DonorRelease b, gi_Language = FirstMissing (ge_Parse env) (gs_Languages b) (ms_MediaInfo (gv_Draft v)),
      gi_Anchor = (case gx_Item x of None \<Rightarrow> '''' | Some it \<Rightarrow> im_Anchor it)\<rparr>"

definition requested_graft :: "GraftView \<Rightarrow> int \<Rightarrow> time \<Rightarrow> GraftInputs \<Rightarrow> GraftRecord" where
  "requested_graft v s at x =
     \<lparr>gc_FileUID = mf_UID (gv_File v), gc_FileKey = mf_Key (gv_File v), gc_Seq = s, gc_State = StateRequested, gc_RequestedAt = at, gc_ClaimedAt = None,
      gc_AnsweredAt = None, gc_Writer = '''', gc_Failure = '''', gc_Inputs = x, gc_Answer = None\<rparr>"

definition taskOf :: "GraftView \<Rightarrow> GraftInput \<Rightarrow> GraftItem \<Rightarrow> int \<Rightarrow> GraftInputs \<Rightarrow> string list \<Rightarrow> GraftTask" where
  "taskOf v x it s inputs langs =
     \<lparr>gt_Schema = TaskSchema, gt_FileKey = mf_Key (gv_File v), gt_FileUID = mf_UID (gv_File v), gt_Item = im_UID it, gt_Seq = s, gt_Inputs = inputs,
      gt_Target = mf_Path (gv_File v), gt_TargetProbeHash = gi_TargetProbeHash inputs, gt_Root = gx_Root x, gt_Donor = gi_DonorAudio inputs,
      gt_Language = gi_Language inputs, gt_Languages = langs, gt_Anchor = gi_Anchor inputs, gt_Default = isDefault (im_Default it) (gi_Language inputs),
      gt_RecycleBin = gx_RecycleBin x\<rparr>"

definition owedTask :: "GraftEnv \<Rightarrow> GraftView \<Rightarrow> GraftInput \<Rightarrow> GraftState \<Rightarrow> int \<Rightarrow> GraftTask option" where
  "owedTask env v x b s =
     (case gx_Item x of
        None \<Rightarrow> None
      | Some it \<Rightarrow>
          if gx_Root x = '''' then None
          else let inputs = (case gx_Record x of Some r \<Rightarrow> if gc_Seq r = s then gc_Inputs r else inputsOf env v b x | None \<Rightarrow> inputsOf env v b x)
               in if gi_Language inputs = '''' \<or> gi_DonorAudio inputs = '''' \<or> gi_Anchor inputs = '''' then None
                  else Some (taskOf v x it s inputs (gs_Languages b)))"

definition Join :: "GraftEnv \<Rightarrow> GraftView \<Rightarrow> GraftInput \<Rightarrow> Joinable option" where
  "Join env v x =
     (let b = ms_Graft (gv_Prev v) in
      if \<not> exists_graft v (gx_Item x) \<or> Standalone b \<or> ms_MediaInfo (gv_Draft v) = None \<or> gx_Root x = '''' then None
      else case item_donor (gx_Item x) of
        None \<Rightarrow> None
      | Some (it, audio, donor) \<Rightarrow>
          if (case b of None \<Rightarrow> False
              | Some g \<Rightarrow> sameAttempt g donor (ms_ProbeHash (gv_Draft v)) \<and> (gs_Phase g = GraftPhaseFailed \<and> gs_DonorFault g \<or> gs_Phase g = GraftPhaseSucceeded))
          then None
          else let l = FirstMissing (ge_Parse env) (as_Missing audio) (ms_MediaInfo (gv_Draft v)) in
               if l = '''' then None
               else Some
                 \<lparr>jn_Task = \<lparr>gt_Schema = '''', gt_FileKey = ('''', ''''), gt_FileUID = '''', gt_Item = '''', gt_Seq = 0,
                      gt_Inputs = \<lparr>gi_TargetProbeHash = '''', gi_DonorAudio = '''', gi_DonorRelease = '''', gi_Language = '''', gi_Anchor = ''''\<rparr>,
                      gt_Target = mf_Path (gv_File v), gt_TargetProbeHash = ms_ProbeHash (gv_Draft v), gt_Root = gx_Root x, gt_Donor = ad_Path donor,
                      gt_Language = l, gt_Languages = as_Missing audio, gt_Anchor = im_Anchor it, gt_Default = isDefault (im_Default it) l,
                      gt_RecycleBin = gx_RecycleBin x\<rparr>,
                  jn_Join = \<lparr>tj_DonorRelease = ad_Release donor, tj_DonorImportedAt = Some (ad_ImportedAt donor), tj_Languages = as_Missing audio,
                      tj_ProbeHash = ms_ProbeHash (gv_Draft v)\<rparr>\<rparr>)"

end
