(* ===== verification/GraftRows.thy ===== *)
theory GraftRows
  imports GraftPlanner
begin

text \<open>
  The rows of the graft planner and \<^verbatim>\<open>Plan\<close> (\<^verbatim>\<open>graftplan/plan.go\<close>). A row that mutates the block takes it as an argument and returns it with the decision; one that
  writes the status returns the status.
\<close>

section \<open>Results\<close>

definition incorporate_graft :: "GraftState \<Rightarrow> GraftResult \<Rightarrow> time \<Rightarrow> GraftState" where
  "incorporate_graft b res at =
     (let b = b\<lparr>gs_CompletedAt := Some at, gs_RateName := ga_RateName res, gs_RateMicros := ga_RateMicros res, gs_RateMarginMilli := ga_RateMarginMilli res,
                gs_CoveragePercent := ga_CoveragePercent res, gs_ResidualMillis := ga_ResidualMillis res, gs_Within80Percent := ga_Within80Percent res,
                gs_Segments := take 16 (ga_Segments res), gs_Reason := ga_Reason res, gs_Message := Clamp (ga_Message res), gs_DonorFault := False, gs_JobName := ''''\<rparr>
      in if ga_Phase res = PhaseSucceeded \<and> ga_Reason res = ReasonGrafted then b\<lparr>gs_Phase := GraftPhaseSwapping, gs_Tag := ga_GraftTag res\<rparr>
         else if ga_Phase res = PhaseSucceeded then b\<lparr>gs_Phase := GraftPhaseSucceeded\<rparr>
         else if DonorFault (ga_Reason res) then b\<lparr>gs_Phase := GraftPhaseFailed, gs_DonorFault := True\<rparr>
         else b\<lparr>gs_Phase := GraftPhaseWaiting, gs_Reason := ReasonBackoff, gs_Message := Clamp (ga_Reason res @ '': '' @ ga_Message res)\<rparr>)"

definition swapped :: "GraftView \<Rightarrow> GraftState \<Rightarrow> MediaFileStatus \<Rightarrow> GraftDecision \<Rightarrow> MediaFileStatus \<times> GraftDecision" where
  "swapped v b out d =
     (let p = gv_Draft v in
      if ms_ProbeHash p = '''' \<or> ms_ProbeHash p = gs_ProbeHash b \<or> ms_ProbedAt p = None \<or>
         (case (gs_CompletedAt b, ms_ProbedAt p) of (Some c, Some t) \<Rightarrow> c > t | _ \<Rightarrow> False)
      then (out, due d (gv_Now v + graft_recheck))
      else (out\<lparr>ms_Graft := Some (b\<lparr>gs_Phase := GraftPhaseSucceeded, gs_ProbeHash := ms_ProbeHash p\<rparr>), ms_GraftTag := gs_Tag b, ms_GraftedAt := Some (gv_Now v)\<rparr>,
            d\<lparr>gd_Unpaced := True, gd_Events := gd_Events d @ [normal_event ReasonGrafted (''the grafted dub is in the file ('' @ gs_Tag b @ '')'')]\<rparr>))"

definition ended_without :: "Record option \<Rightarrow> TranscodeState option \<Rightarrow> int \<Rightarrow> bool" where
  "ended_without rec tc s =
     (case rec of
        None \<Rightarrow> \<not> joinOpen tc s
      | Some r \<Rightarrow> rd_Seq r > s \<or> (rd_Seq r = s \<and> (rd_State r = StateAnswered \<or> rd_State r = StateFailed \<or> rd_State r = StateWithdrawn)))"

definition joined_answer :: "Record option \<Rightarrow> int \<Rightarrow> (Record \<times> GraftResult) option" where
  "joined_answer rec s =
     (case rec of None \<Rightarrow> None
      | Some r \<Rightarrow>
          if rd_Seq r = s \<and> rd_State r = StateAnswered
          then (case rd_Answer r of None \<Rightarrow> None | Some a \<Rightarrow> map_option (Pair r) (an_Graft a)) else None)"

definition joined :: "GraftView \<Rightarrow> GraftInput \<Rightarrow> GraftState \<Rightarrow> GraftDecision \<Rightarrow> GraftState \<times> GraftDecision" where
  "joined v x b d =
     (let s = gs_JoinedTranscodeSeq b in
      case joined_answer (gx_Transcode x) s of
        Some (r, g) \<Rightarrow> (incorporate_graft b g (answerTime (rd_AnsweredAt r) (gv_Now v)), recorded d (rd_State r))
      | None \<Rightarrow>
          if ended_without (gx_Transcode x) (ms_Transcode (gv_Draft v)) s
          then (b\<lparr>gs_Phase := GraftPhaseWaiting, gs_Reason := ReasonWaitingForSlot,
                  gs_Message := ''transcode attempt '' @ fmt_d s @ '' ended without its graft'', gs_CompletedAt := Some (gv_Now v)\<rparr>, d)
          else (b, due d (gv_Now v + graft_recheck)))"

section \<open>A standalone graft\<close>

definition set_dispatch :: "GraftState \<Rightarrow> int \<Rightarrow> bool \<Rightarrow> GraftState" where
  "set_dispatch b answered withdrawn =
     b\<lparr>gs_Dispatch := map_option (\<lambda>dp. dp\<lparr>dp_AnsweredSeq := answered, dp_Withdrawn := withdrawn\<rparr>) (gs_Dispatch b)\<rparr>"

definition jobDue :: "GraftJob option \<Rightarrow> GraftDecision \<Rightarrow> GraftDecision" where
  "jobDue j d = (case j of None \<Rightarrow> d | Some j \<Rightarrow> if jb_Finished j then due d (jb_FinishedAt j + JobGrace) else d)"

definition lostMessage :: "GraftJob option \<Rightarrow> int \<Rightarrow> string" where
  "lostMessage j s =
     (let msg = ''graft attempt '' @ fmt_d s @ '': the Job ended without an answer''
      in Clamp (case j of None \<Rightarrow> msg | Some j \<Rightarrow> if jb_Message j \<noteq> '''' then msg @ '': '' @ jb_Message j else msg))"

definition closed_row :: "GraftView \<Rightarrow> GraftState \<Rightarrow> Dispatch \<Rightarrow> GraftRecord \<Rightarrow> GraftDecision \<Rightarrow> GraftState \<times> GraftDecision" where
  "closed_row v b dp r d =
     (let at = answerTime (gc_AnsweredAt r) (gv_Now v);
          b1 = (case (if gc_State r = StateFailed then None else gc_Answer r) of
                  None \<Rightarrow> b\<lparr>gs_Phase := GraftPhaseWaiting, gs_Reason := ReasonBackoff, gs_CompletedAt := Some at, gs_JobName := '''',
                            gs_Message := Clamp (firstNonEmpty (gc_Failure r) ''the graft pod gave no answer'')\<rparr>
                | Some a \<Rightarrow> incorporate_graft b a at);
          b2 = set_dispatch b1 (dp_Seq dp) (dp_Withdrawn dp);
          d1 = owes (recorded d (gc_State r)) [EffectDeleteJob (gs_JobName b)]
      in (b2, if gs_Phase b2 = GraftPhaseWaiting then due d1 (the (gs_CompletedAt b2) + FailureBackoff) else d1))"

definition lost_row :: "GraftView \<Rightarrow> GraftState \<Rightarrow> string \<Rightarrow> int \<Rightarrow> bool \<Rightarrow> GraftDecision \<Rightarrow> GraftState \<times> GraftDecision" where
  "lost_row v b msg s withdrawn d =
     ((set_dispatch b s withdrawn)\<lparr>gs_Phase := GraftPhaseFailed, gs_Reason := ReasonJobLost, gs_CompletedAt := Some (gv_Now v), gs_Message := msg, gs_JobName := ''''\<rparr>,
      due (owes d [EffectDeleteJob (gs_JobName b)]) (gv_Now v + FailureBackoff))"

definition graft_claimed_row :: "GraftView \<Rightarrow> GraftInput \<Rightarrow> GraftState \<Rightarrow> GraftRecord \<Rightarrow> GraftDecision \<Rightarrow> GraftState \<times> GraftDecision" where
  "graft_claimed_row v x b r d =
     (b\<lparr>gs_Phase := GraftPhaseRunning, gs_StartedAt := (case gc_ClaimedAt r of None \<Rightarrow> gs_StartedAt b | Some t \<Rightarrow> Some (truncate_second t)),
        gs_Message := Clamp (''graft pod '' @ gc_Writer r)\<rparr>,
      jobDue (gx_Job x) (due (if gs_Phase b \<noteq> GraftPhaseRunning then recorded d (gc_State r) else d) (gv_Now v + graft_recheck)))"

definition owed_row :: "GraftEnv \<Rightarrow> GraftView \<Rightarrow> GraftInput \<Rightarrow> GraftState \<Rightarrow> Dispatch \<Rightarrow> GraftDecision \<Rightarrow> GraftState \<times> GraftDecision" where
  "owed_row env v x b dp d =
     (let s = dp_Seq dp;
          d1 = (if (case gx_Record x of None \<Rightarrow> True | Some r \<Rightarrow> gc_Seq r < s)
                then owes d [EffectRequest s (requested_graft v s (dp_DispatchedAt dp) (inputsOf env v b x))] else d);
          d2 = (case (gx_Job x, owedTask env v x b s) of (None, Some t) \<Rightarrow> owes d1 [EffectCreateJob s t (gs_JobName b)] | _ \<Rightarrow> d1)
      in (b, jobDue (gx_Job x) (due d2 (gv_Now v + graft_recheck))))"

definition earlier_fact :: "GraftRecord option \<Rightarrow> Dispatch \<Rightarrow> GraftResult option" where
  "earlier_fact rec dp =
     (case rec of None \<Rightarrow> None
      | Some r \<Rightarrow> if gc_Seq r < dp_Seq dp \<and> gc_State r = StateAnswered \<and> graft_Fact r \<and> gc_Seq r > dp_AnsweredSeq dp then gc_Answer r else None)"

definition at_seq :: "GraftRecord option \<Rightarrow> int \<Rightarrow> string \<Rightarrow> bool" where
  "at_seq rec s state = (case rec of None \<Rightarrow> False | Some r \<Rightarrow> gc_Seq r = s \<and> gc_State r = state)"

definition inFlight_graft :: "GraftEnv \<Rightarrow> GraftView \<Rightarrow> GraftInput \<Rightarrow> GraftState \<Rightarrow> GraftDecision \<Rightarrow> GraftState \<times> GraftDecision" where
  "inFlight_graft env v x b d =
     (case gs_Dispatch b of
        None \<Rightarrow> (b\<lparr>gs_Phase := GraftPhaseWaiting, gs_Reason := ReasonWaitingForSlot, gs_Message := ''an in-flight graft without a dispatch''\<rparr>, d)
      | Some dp \<Rightarrow>
          let s = dp_Seq dp; r = gx_Record x; now = gv_Now v in
          (case (earlier_fact r dp, r) of
             (Some a, Some rec) \<Rightarrow>
               (incorporate_graft (set_dispatch b s (dp_Withdrawn dp)) a (answerTime (gc_AnsweredAt rec) now),
                owes (recorded d (gc_State rec)) [EffectDeleteJob (gs_JobName b)])
           | _ \<Rightarrow>
               if (case r of None \<Rightarrow> False | Some rec \<Rightarrow> closedAt rec s) then closed_row v b dp (the r) d
               else if at_seq r s StateWithdrawn then lost_row v b (lostMessage (gx_Job x) s) s True d
               else if (case r of None \<Rightarrow> False | Some rec \<Rightarrow> gc_Seq rec > s)
               then lost_row v b (Clamp (''graft attempt '' @ fmt_d s @ '': the record moved on to '' @ fmt_d (gc_Seq (the r)))) s (dp_Withdrawn dp) d
               else if gs_Reason b = ReasonJobLost \<or> jobLost (gx_Job x) r s now
               then (b\<lparr>gs_Reason := ReasonJobLost, gs_Message := ''withdrawing attempt '' @ fmt_d s\<rparr>, due (owes d [EffectWithdraw s]) (now + second))
               else if at_seq r s StateClaimed then graft_claimed_row v x b (the r) d
               else owed_row env v x b dp d))"

section \<open>A file with no graft in flight\<close>

definition waitingOf :: "GraftState \<Rightarrow> string \<Rightarrow> string \<Rightarrow> GraftState" where
  "waitingOf base reason msg = base\<lparr>gs_Phase := GraftPhaseWaiting, gs_Reason := reason, gs_Message := msg\<rparr>"

definition base_graft :: "GraftView \<Rightarrow> GraftState option \<Rightarrow> AudioState \<Rightarrow> AudioDonor \<Rightarrow> GraftState" where
  "base_graft v b audio donor =
     zero_graft\<lparr>gs_DonorRelease := ad_Release donor, gs_DonorImportedAt := Some (ad_ImportedAt donor), gs_Languages := as_Missing audio,
       gs_ProbeHash := ms_ProbeHash (gv_Draft v), gs_Dispatch := (case b of None \<Rightarrow> None | Some g \<Rightarrow> gs_Dispatch g),
       gs_JoinedTranscodeSeq := (case b of None \<Rightarrow> 0 | Some g \<Rightarrow> gs_JoinedTranscodeSeq g)\<rparr>"

datatype standing = Stands | RetryAt time | Lapsed

definition verdict_standing :: "GraftView \<Rightarrow> GraftState option \<Rightarrow> AudioDonor \<Rightarrow> standing" where
  "verdict_standing v b donor =
     (case b of None \<Rightarrow> Lapsed
      | Some g \<Rightarrow>
          if \<not> sameAttempt g donor (ms_ProbeHash (gv_Draft v)) then Lapsed
          else if gs_Phase g = GraftPhaseFailed \<and> gs_DonorFault g \<or> gs_Phase g = GraftPhaseSucceeded then Stands
          else if gs_Phase g = GraftPhaseFailed \<or> (gs_Phase g = GraftPhaseWaiting \<and> gs_Reason g = ReasonBackoff)
          then (case gs_CompletedAt g of None \<Rightarrow> Lapsed | Some t \<Rightarrow> if gv_Now v < t + FailureBackoff then RetryAt (t + FailureBackoff) else Lapsed)
          else Lapsed)"

definition transcode_wait :: "GraftView \<Rightarrow> GraftState option \<Rightarrow> GraftState \<Rightarrow> GraftDecision \<Rightarrow> (GraftState \<times> GraftDecision) option" where
  "transcode_wait v b base d =
     (case ms_Transcode (gv_Draft v) of None \<Rightarrow> None
      | Some tc \<Rightarrow>
          if tb_Phase tc = TranscodePhaseQueued \<or> tb_Phase tc = TranscodePhaseRunning \<or> tb_Phase tc = TranscodePhaseSwapping
          then Some (waitingOf base ReasonTranscodeRunning (''the file'' @ [CHR 0x27] @ ''s transcode is in flight; the graft follows it''), due d (gv_Now v + graft_recheck))
          else if tb_Phase tc = TranscodePhasePending \<or> tb_Phase tc = TranscodePhasePlanned then
            let since = (case b of
                  Some g \<Rightarrow> if gs_Phase g = GraftPhaseWaiting \<and> gs_Reason g = ReasonWaitingForTranscode
                            then (case gs_StartedAt g of Some t \<Rightarrow> t | None \<Rightarrow> gv_Now v) else gv_Now v
                | None \<Rightarrow> gv_Now v); until = since + JoinWait
            in if gv_Now v < until
               then Some ((waitingOf base ReasonWaitingForTranscode (''waiting for the file'' @ [CHR 0x27] @ ''s transcode, to graft in the same pass''))\<lparr>gs_StartedAt := Some since\<rparr>,
                          due (due d until) (gv_Now v + joinWaitRecheck))
               else None
          else None)"

definition dispatch_graft :: "GraftEnv \<Rightarrow> GraftView \<Rightarrow> GraftInput \<Rightarrow> GraftState \<Rightarrow> GraftItem \<Rightarrow> AudioState \<Rightarrow> AudioDonor \<Rightarrow> string \<Rightarrow> GraftDecision \<Rightarrow> GraftState \<times> GraftDecision" where
  "dispatch_graft env v x base it audio donor l d =
     (let s = gv_Issue v (case gx_Record x of None \<Rightarrow> 0 | Some r \<Rightarrow> gc_Seq r);
          inputs = \<lparr>gi_TargetProbeHash = ms_ProbeHash (gv_Draft v), gi_DonorAudio = ad_Path donor, gi_DonorRelease = ad_Release donor, gi_Language = l, gi_Anchor = im_Anchor it\<rparr>;
          job = ge_JobName env (snd (mf_Key (gv_File v))) s;
          q = base\<lparr>gs_Phase := GraftPhaseQueued, gs_Reason := '''', gs_JobName := job, gs_Message := ''attempt '' @ fmt_d s @ '': graft Job '' @ job,
                gs_Dispatch := Some \<lparr>dp_Seq = s,
                  dp_AnsweredSeq = (case gs_Dispatch base of Some dp \<Rightarrow> if dp_Withdrawn dp then 0 else dp_AnsweredSeq dp | None \<Rightarrow> 0),
                  dp_DispatchedAt = gv_Now v, dp_Withdrawn = False, dp_Destination = '''', dp_Delivery = None\<rparr>,
                gs_StartedAt := None, gs_CompletedAt := None\<rparr>;
          d1 = owes (d\<lparr>gd_Unpaced := True\<rparr>) [EffectRequest s (requested_graft v s (gv_Now v) inputs), EffectCreateJob s (taskOf v x it s inputs (as_Missing audio)) job, EffectConfirm s];
          d2 = due d1 (gv_Now v + graft_recheck)
      in (q, d2\<lparr>gd_Events := gd_Events d2 @ [normal_event ''Dispatched'' (''graft attempt '' @ fmt_d s @ '': '' @ l @ '' from '' @ ad_Release donor)]\<rparr>))"

definition missing_row :: "GraftEnv \<Rightarrow> GraftView \<Rightarrow> GraftInput \<Rightarrow> GraftState option \<Rightarrow> GraftItem \<Rightarrow> AudioState \<Rightarrow> AudioDonor \<Rightarrow> string \<Rightarrow> GraftDecision \<Rightarrow> GraftState option \<times> GraftDecision" where
  "missing_row env v x b it audio donor l d =
     (let base = base_graft v b audio donor in
      case verdict_standing v b donor of
        Stands \<Rightarrow> (b, d)
      | RetryAt t \<Rightarrow> (b, due d t)
      | Lapsed \<Rightarrow>
          (case transcode_wait v b base d of
             Some (w, d') \<Rightarrow> (Some w, d')
           | None \<Rightarrow>
               if gx_Root x = '''' then
                 (Some (base\<lparr>gs_Phase := GraftPhaseFailed, gs_Reason := ReasonInvalidTask, gs_CompletedAt := Some (gv_Now v),
                    gs_Message := Clamp (''the file '' @ mf_Path (gv_File v) @ '' is under no RootFolder'')\<rparr>), d)
               else if \<not> gx_Granted x then
                 (let w = waitingOf base ReasonWaitingForSlot ''waiting for a graft slot'' in
                  (Some (case b of Some g \<Rightarrow> if gs_Phase g = GraftPhaseWaiting \<and> gs_Reason g = ReasonWaitingForSlot then w\<lparr>gs_Message := gs_Message g\<rparr> else w | None \<Rightarrow> w), d))
               else (let (q, d') = dispatch_graft env v x base it audio donor l d in (Some q, d'))))"

definition idle :: "GraftEnv \<Rightarrow> GraftView \<Rightarrow> GraftInput \<Rightarrow> GraftState option \<Rightarrow> GraftItem \<Rightarrow> AudioState \<Rightarrow> AudioDonor \<Rightarrow> GraftDecision \<Rightarrow> GraftState option \<times> GraftDecision" where
  "idle env v x b it audio donor d =
     (if ms_MediaInfo (gv_Draft v) = None then (b, d)
      else let l = FirstMissing (ge_Parse env) (as_Missing audio) (ms_MediaInfo (gv_Draft v)) in
           if l = '''' then
             (if (case b of None \<Rightarrow> False | Some g \<Rightarrow> gs_Phase g = GraftPhaseSucceeded \<and> gs_ProbeHash g = ms_ProbeHash (gv_Draft v)) then (b, d)
              else (Some ((base_graft v b audio donor)\<lparr>gs_Phase := GraftPhaseSucceeded, gs_Reason := ReasonPresent, gs_CompletedAt := Some (gv_Now v),
                      gs_Message := Clamp (''the file carries '' @ join_languages (as_Missing audio))\<rparr>), d))
           else missing_row env v x b it audio donor l d)"

section \<open>Plan\<close>

definition joins :: "TranscodeState option \<Rightarrow> GraftState option \<Rightarrow> (TranscodeGraftJoin \<times> int) option" where
  "joins tc b =
     (case tc of None \<Rightarrow> None
      | Some t \<Rightarrow>
          (case (tb_JoinedGraft t, tb_Dispatch t) of
             (Some j, Some dp) \<Rightarrow>
               if (case b of None \<Rightarrow> InFlight dp | Some g \<Rightarrow> gs_JoinedTranscodeSeq g < dp_Seq dp) then Some (j, dp_Seq dp) else None
           | _ \<Rightarrow> None))"

definition joined_block :: "GraftView \<Rightarrow> GraftState option \<Rightarrow> TranscodeGraftJoin \<Rightarrow> int \<Rightarrow> GraftState" where
  "joined_block v b j s =
     zero_graft\<lparr>gs_Phase := GraftPhaseRunning, gs_Reason := ReasonJoinedTranscode, gs_Message := ''grafting in the same pass as transcode attempt '' @ fmt_d s,
       gs_DonorRelease := tj_DonorRelease j, gs_DonorImportedAt := tj_DonorImportedAt j, gs_Languages := tj_Languages j, gs_ProbeHash := tj_ProbeHash j,
       gs_JoinedTranscodeSeq := s, gs_StartedAt := Some (gv_Now v), gs_Dispatch := (case b of None \<Rightarrow> None | Some g \<Rightarrow> gs_Dispatch g)\<rparr>"

definition settled_row :: "GraftEnv \<Rightarrow> GraftView \<Rightarrow> GraftInput \<Rightarrow> GraftState option \<Rightarrow> GraftDecision \<Rightarrow> GraftState option \<times> GraftDecision" where
  "settled_row env v x b d =
     (case joins (ms_Transcode (gv_Draft v)) b of
        Some (j, s) \<Rightarrow> (Some (joined_block v b j s), d\<lparr>gd_Unpaced := True\<rparr>)
      | None \<Rightarrow>
          if \<not> exists_graft v (gx_Item x) then (if (case b of None \<Rightarrow> True | Some g \<Rightarrow> \<not> factOpen v g) then None else b, d)
          else (case item_donor (gx_Item x) of
                  None \<Rightarrow> (b, d)
                | Some (it, audio, donor) \<Rightarrow> idle env v x b it audio donor d))"

definition late_fact :: "GraftView \<Rightarrow> GraftInput \<Rightarrow> GraftState \<Rightarrow> (GraftRecord \<times> GraftResult) option" where
  "late_fact v x b =
     (case (gx_Record x, gs_Dispatch b) of
        (Some r, Some dp) \<Rightarrow> if closedAt r (dp_Seq dp) \<and> graft_Fact r then map_option (Pair r) (gc_Answer r) else None
      | _ \<Rightarrow> None)"

definition plan_graft :: "GraftEnv \<Rightarrow> GraftView \<Rightarrow> GraftInput \<Rightarrow> MediaFileStatus \<Rightarrow> GraftDecision \<Rightarrow> MediaFileStatus \<times> GraftDecision" where
  "plan_graft env v x out d =
     (case ms_Graft out of
        None \<Rightarrow> (let (g, d') = settled_row env v x None d in (out\<lparr>ms_Graft := g\<rparr>, d'))
      | Some b \<Rightarrow>
          if gs_Phase b = GraftPhaseSwapping then swapped v b out d
          else if gs_Phase b = GraftPhaseRunning \<and> gs_Reason b = ReasonJoinedTranscode then (let (g, d') = joined v x b d in (out\<lparr>ms_Graft := Some g\<rparr>, d'))
          else if Standalone (Some b) then (let (g, d') = inFlight_graft env v x b d in (out\<lparr>ms_Graft := Some g\<rparr>, d'))
          else if factOpen v b then
            (case late_fact v x b of
               Some (r, a) \<Rightarrow>
                 let g = incorporate_graft b a (answerTime (gc_AnsweredAt r) (gv_Now v))
                 in (out\<lparr>ms_Graft := Some (g\<lparr>gs_Dispatch := map_option (\<lambda>dp. dp\<lparr>dp_Withdrawn := False\<rparr>) (gs_Dispatch g)\<rparr>)\<rparr>, recorded d (gc_State r))
             | None \<Rightarrow>
                 let d1 = due d ((case gs_Dispatch b of None \<Rightarrow> 0 | Some dp \<Rightarrow> dp_DispatchedAt dp) + graft_FactWindow);
                     (g, d') = settled_row env v x (Some b) d1
                 in (out\<lparr>ms_Graft := g\<rparr>, d'))
          else (let (g, d') = settled_row env v x (Some b) d in (out\<lparr>ms_Graft := g\<rparr>, d')))"

definition became_swapping :: "GraftState option \<Rightarrow> GraftState option \<Rightarrow> bool" where
  "became_swapping prev b =
     ((case b of None \<Rightarrow> False | Some g \<Rightarrow> gs_Phase g = GraftPhaseSwapping) \<and> (case prev of None \<Rightarrow> True | Some g \<Rightarrow> gs_Phase g \<noteq> GraftPhaseSwapping))"

definition Plan_graft :: "GraftEnv \<Rightarrow> GraftView \<Rightarrow> GraftInput \<Rightarrow> MediaFileStatus \<Rightarrow> MediaFileStatus \<times> GraftDecision" where
  "Plan_graft env v x out0 =
     (let prev = gv_Prev v; out = out0\<lparr>ms_Graft := ms_Graft prev, ms_GraftTag := ms_GraftTag prev, ms_GraftedAt := ms_GraftedAt prev\<rparr> in
      if \<not> gv_ProbeCurrent v then (out, zero_decision)
      else let (out', d) = plan_graft env v x out zero_decision
           in (out', if became_swapping (ms_Graft prev) (ms_Graft out') then d\<lparr>gd_Again := True\<rparr> else d))"

end
