(* ===== verification/TranscodePlanFacts.thy ===== *)
theory TranscodePlanFacts
  imports TranscodeDecide
begin

text \<open>
  What each row of the transcode planner does to the part of a block that admission and the workers read: its phase, class, profile, pool
  and dispatch (\<open>core\<close>).
\<close>

definition core :: "TranscodeState \<Rightarrow> TranscodePhase \<times> string \<times> string \<times> string \<times> Dispatch option" where
  "core b = (tb_Phase b, tb_Class b, tb_Profile b, tb_Pool b, tb_Dispatch b)"

definition in_slot :: "TranscodeState option \<Rightarrow> bool" where
  "in_slot b = (case b of None \<Rightarrow> False | Some b \<Rightarrow> slotPhase (tb_Phase b))"

lemma in_slot_simps [simp]: "in_slot None = False" "in_slot (Some b) = slotPhase (tb_Phase b)"
  by (simp_all add: in_slot_def)

lemma slotPhase_simps [simp]:
  "slotPhase TranscodePhaseQueued" "slotPhase TranscodePhaseRunning" "\<not> slotPhase TranscodePhaseNone" "\<not> slotPhase TranscodePhasePending"
  "\<not> slotPhase TranscodePhasePlanned" "\<not> slotPhase TranscodePhaseSwapping" "\<not> slotPhase TranscodePhaseSucceeded" "\<not> slotPhase TranscodePhaseFailed"
  "\<not> slotPhase TranscodePhaseSkipped"
  by (simp_all add: slotPhase_def)

lemma slotPhase_cases: "slotPhase p \<longleftrightarrow> p = TranscodePhaseQueued \<or> p = TranscodePhaseRunning"
  by (auto simp: slotPhase_def)

lemma decided_simps [simp]:
  "dc_Block (decided b) = b" "dc_Grant (decided b) = GrantKeep" "dc_Publish (decided b) = None" "dc_Request (decided b) = None"
  "dc_Withdraw (decided b) = 0" "dc_Republish (decided b) = False" "dc_ConfirmSeq (decided b) = 0" "dc_Events (decided b) = []"
  by (simp_all add: decided_def)

section \<open>The standing intents\<close>

lemma standing_core [simp]: "core (standing_block i b) = core b"
  by (simp add: core_def standing_block_def Let_def)

lemma standing_block_of:
  "map_option core (dc_Block (applyStanding i d)) = map_option core (dc_Block d)"
  by (auto simp: applyStanding_def split: option.split)

lemma standing_fields [simp]:
  "dc_Grant (applyStanding i d) = dc_Grant d" "dc_Publish (applyStanding i d) = dc_Publish d" "dc_Request (applyStanding i d) = dc_Request d"
  "dc_Withdraw (applyStanding i d) = dc_Withdraw d" "dc_ConfirmSeq (applyStanding i d) = dc_ConfirmSeq d" "dc_Republish (applyStanding i d) = dc_Republish d"
  by (simp_all add: applyStanding_def split: option.split)

lemma in_slot_core: "map_option core x = map_option core y \<Longrightarrow> in_slot x = in_slot y"
  by (cases x; cases y) (auto simp: core_def)

section \<open>The answered rows\<close>

lemma answer_facts_fields [simp]:
  "tb_Phase (answer_facts b a) = tb_Phase b" "tb_Class (answer_facts b a) = tb_Class b" "tb_Profile (answer_facts b a) = tb_Profile b"
  "tb_Pool (answer_facts b a) = tb_Pool b" "tb_Dispatch (answer_facts b a) = tb_Dispatch b" "tb_Attempts (answer_facts b a) = tb_Attempts b"
  by (simp_all add: answer_facts_def)

lemma applyAnswer_fields [simp]:
  "tb_Class (applyAnswer b a n now) = tb_Class b" "tb_Profile (applyAnswer b a n now) = tb_Profile b" "tb_Pool (applyAnswer b a n now) = tb_Pool b"
  "tb_Dispatch (applyAnswer b a n now) = tb_Dispatch b" "tb_Attempts (applyAnswer b a n now) = tb_Attempts b"
  by (simp_all add: applyAnswer_def requeued_def Let_def)

lemma applyAnswer_phase:
  "tb_Phase (applyAnswer b a n now) =
     (if nx_NoOp n then tb_Phase b
      else if nx_Requeue n then TranscodePhasePlanned
      else if nx_Phase n \<in> {TranscodePhaseSwapping, TranscodePhaseSucceeded, TranscodePhaseSkipped} then nx_Phase n
      else TranscodePhaseFailed)"
  by (simp add: applyAnswer_def requeued_def Let_def)

lemma next_phase_fields [simp]:
  "nx_Phase (next_phase p r m) = p" "nx_Reason (next_phase p r m) = r" "nx_Message (next_phase p r m) = m" "\<not> nx_Block (next_phase p r m)"
  "\<not> nx_Requeue (next_phase p r m)" "\<not> nx_NoOp (next_phase p r m)" "nx_After (next_phase p r m) = 0"
  by (simp_all add: next_phase_def)

lemma close_fields [simp]:
  "tb_Phase (close_dispatch b s w) = tb_Phase b" "tb_Class (close_dispatch b s w) = tb_Class b" "tb_Profile (close_dispatch b s w) = tb_Profile b"
  "tb_Pool (close_dispatch b s w) = tb_Pool b" "tb_Attempts (close_dispatch b s w) = tb_Attempts b" "tb_Blocked (close_dispatch b s w) = tb_Blocked b"
  "tb_NextAttemptAt (close_dispatch b s w) = tb_NextAttemptAt b"
  "tb_Dispatch (close_dispatch b s w) = map_option (\<lambda>dp. dp\<lparr>dp_AnsweredSeq := s, dp_Withdrawn := w\<rparr>) (tb_Dispatch b)"
  by (simp_all add: close_dispatch_def)

lemma answered_fields [simp]:
  "tb_Class (answered_block i b r) = tb_Class b" "tb_Profile (answered_block i b r) = tb_Profile b" "tb_Pool (answered_block i b r) = tb_Pool b"
  "tb_Attempts (answered_block i b r) = tb_Attempts b"
  "tb_Dispatch (answered_block i b r) = map_option (\<lambda>dp. dp\<lparr>dp_AnsweredSeq := max (dp_AnsweredSeq dp) (rd_Seq r), dp_Withdrawn := False\<rparr>) (tb_Dispatch b)"
  by (simp_all add: answered_block_def Let_def split: prod.split option.split)

lemma answered_phase:
  "tb_Phase (answered_block i b r) =
     (let n = snd (answer_of i b r) in
      if nx_NoOp n then tb_Phase b
      else if nx_Requeue n then TranscodePhasePlanned
      else if nx_Phase n \<in> {TranscodePhaseSwapping, TranscodePhaseSucceeded, TranscodePhaseSkipped} then nx_Phase n
      else TranscodePhaseFailed)"
  by (simp add: answered_block_def applyAnswer_phase Let_def split: prod.split option.split)

lemma incorporate_fields [simp]:
  "dc_Block (incorporate i b r) = Some (answered_block i b r)" "dc_Grant (incorporate i b r) = GrantKeep" "dc_Publish (incorporate i b r) = None"
  "dc_Request (incorporate i b r) = None" "dc_Withdraw (incorporate i b r) = 0"
  by (simp_all add: incorporate_def Let_def)

text \<open>A fact becomes a swap, or a success beside a kept source.\<close>

lemma fact_phase:
  assumes "Fact r"
  shows "tb_Phase (answered_block i b r) \<in> {TranscodePhaseSwapping, TranscodePhaseSucceeded}"
  using assms
  by (auto simp: answered_phase answer_of_def Fact_def Decide_def Let_def StateAnswered_def StateFailed_def split: option.splits)

section \<open>The rows of a file outside a slot\<close>

lemma windowBlock_phase [simp]: "tb_Phase (windowBlock i) = TranscodePhaseNone"
  by (simp add: windowBlock_def zero_block_def Let_def)

lemma window_rows:
  "in_slot (dc_Block (planWindow env i)) \<Longrightarrow> False" if "\<not> in_slot (in_Prev i)"
  using that
  by (auto simp: planWindow_def planned_block_def pendingBlock_def keepFact_def verdictHolds_def Let_def split: if_splits option.splits sum.splits)

lemma in_window_rows:
  assumes "in_Prev i = Some b" "\<not> slotPhase (tb_Phase b)"
  shows "\<not> in_slot (dc_Block (planInWindow env i b))"
  using assms window_rows [of i env]
  by (auto simp: planInWindow_def pendingBlock_def keepFact_def Let_def split: if_splits)

lemma settled_rows: "\<not> in_slot (in_Prev i) \<Longrightarrow> \<not> in_slot (dc_Block (settled_plan i))"
  by (auto simp: settled_plan_def succeeded_block_def keepFact_def Let_def split: if_splits option.splits)

lemma swap_rows: "\<not> slotPhase (tb_Phase b) \<Longrightarrow> \<not> in_slot (dc_Block (planSwap i b))"
  by (auto simp: planSwap_def Let_def split: prod.splits if_splits)

lemma recover_rows: "dc_Block (recoverSwap i b r) = Some x \<Longrightarrow> tb_Phase x = TranscodePhaseSwapping"
  by (auto simp: recoverSwap_def Let_def)

lemma legacy_rows: "\<not> in_slot (legacy b)"
  by (simp add: legacy_def)

lemma intents_slot:
  assumes "applyIntents env i = (i', n, evs)"
  shows "in_slot (in_Prev i') = in_slot (in_Prev i)" "in_slot (in_Prev i) \<Longrightarrow> i' = i"
  using assms
  by (auto simp: applyIntents_def handle_retry_def handle_cancel_def retriable_verdict_def cancelled_block_def Let_def slotPhase_cases
      split: if_splits option.splits prod.splits)

end
