(* ===== verification/TranscodePlanSafety.thy ===== *)
theory TranscodePlanSafety
  imports TranscodePlanFacts
begin

text \<open>
  The safety of the transcode planner: when a file takes a slot, when it gives it back, and that a change on disk is never overlooked.
\<close>

section \<open>Taking a slot\<close>

lemma fact_after: "factAfterWithdrawal i \<Longrightarrow> Fact (the (in_Record i))"
  by (auto simp: factAfterWithdrawal_def split: option.splits)

lemma fact_not_slot: "Fact r \<Longrightarrow> \<not> slotPhase (tb_Phase (answered_block i b r))"
  using fact_phase [of r i b] by auto

lemma idle_rows:
  assumes "\<not> in_slot (in_Prev i)" and "sn_Grant (in_Ledger i) \<noteq> GrantDispatch"
  shows "\<not> in_slot (dc_Block (plan_with f env i))"
proof (cases "in_Prev i")
  case None
  with assms show ?thesis using window_rows [of i env] by (auto simp: plan_with_def settled_rows)
next
  case (Some b)
  with assms have "\<not> slotPhase (tb_Phase b)" by simp
  with assms Some show ?thesis
    using window_rows [of i env] fact_after [of i] fact_not_slot [of "the (in_Record i)" i b]
    by (auto simp: plan_with_def settled_rows swap_rows legacy_rows in_window_rows recoverSwap_def Let_def slotPhase_cases)
qed

lemma Plan_with_split:
  assumes "applyIntents env i = (i', n, evs)"
  shows "map_option core (dc_Block (Plan_with f env i)) = map_option core (dc_Block (plan_with f env i'))"
    and "dc_Grant (Plan_with f env i) = dc_Grant (plan_with f env i')" and "dc_Publish (Plan_with f env i) = dc_Publish (plan_with f env i')"
    and "dc_Request (Plan_with f env i) = dc_Request (plan_with f env i')" and "dc_ConfirmSeq (Plan_with f env i) = dc_ConfirmSeq (plan_with f env i')"
    and "dc_Republish (Plan_with f env i) = dc_Republish (plan_with f env i')" and "dc_Withdraw (Plan_with f env i) = dc_Withdraw (plan_with f env i')"
  by (simp_all add: Plan_with_def assms standing_block_of Let_def)

lemma intents_ledger: "applyIntents env i = (i', n, evs) \<Longrightarrow> in_Ledger i' = in_Ledger i"
  by (drule intents_keep) (metis Inputs.select_convs(7) Inputs.surjective Inputs.update_convs(3))

lemma intents_planned:
  assumes "applyIntents env i = (i', n, evs)" and "in_Prev i' = Some b" and "tb_Phase b = TranscodePhasePlanned"
  shows "i' = i"
  using assms
  by (auto simp: applyIntents_def handle_retry_def handle_cancel_def retriable_verdict_def cancelled_block_def Let_def
      split: if_splits option.splits prod.splits)

lemma idle_Plan_with:
  assumes "\<not> in_slot (in_Prev i)" and "sn_Grant (in_Ledger i) \<noteq> GrantDispatch"
  shows "\<not> in_slot (dc_Block (Plan_with f env i))"
proof -
  obtain i' n evs where a: "applyIntents env i = (i', n, evs)" by (metis prod.exhaust)
  have "\<not> in_slot (dc_Block (plan_with f env i'))"
    by (rule idle_rows) (use assms intents_slot(1) [OF a] intents_ledger [OF a] in simp_all)
  with in_slot_core [OF Plan_with_split(1) [OF a]] show ?thesis by simp
qed

lemma rest_fields [simp]:
  "sn_Grant zero_Snapshot = GrantNone" "in_Prev (not_eligible_inputs i) = in_Prev i" "sn_Grant (in_Ledger (not_eligible_inputs i)) = GrantNone"
  by (simp_all add: zero_Snapshot_def not_eligible_inputs_def)

definition dispatches :: "PlanEnv \<Rightarrow> Inputs \<Rightarrow> Decision \<Rightarrow> bool" where
  "dispatches env i d \<longleftrightarrow>
     (\<exists>prev p t r. in_Prev i = Some prev \<and> tb_Phase prev = TranscodePhasePlanned \<and> \<not> unincorporatedFact (in_Record i) prev \<and>
        el_Profile (in_Eligibility i) = Some p \<and> el_Eligible (in_Eligibility i) \<and> dc_Grant d = GrantConfirm \<and> dc_ConfirmSeq d = issue i \<and>
        dc_Publish d = Some t \<and> \<not> dc_Republish d \<and> tk_Seq t = issue i \<and> tk_Class t = sn_Class (in_Ledger i) \<and> dc_Request d = Some r \<and>
        rd_Seq r = issue i \<and> rd_State r = StateRequested \<and>
        map_option core (dc_Block d) = Some (TranscodePhaseQueued, sn_Class (in_Ledger i), tp_Name p, env_PoolName env (tp_Name p, tp_UID p, sn_Class (in_Ledger i)),
          Some \<lparr>dp_Seq = issue i, dp_AnsweredSeq = 0, dp_DispatchedAt = in_Now i, dp_Withdrawn = False, dp_Destination = '''', dp_Delivery = None\<rparr>))"

lemma buildTask_fields: "buildTask i mf tp hash seq class plan = Inr t \<Longrightarrow> tk_Seq t = seq \<and> tk_Class t = class"
  by (cases "BuildTask mf tp hash (in_Folders i) seq class plan") (auto simp: buildTask_def dest: BuildTask_fields)

lemma planned_rows:
  assumes "in_Prev i = Some prev" and "tb_Phase prev = TranscodePhasePlanned" and "\<not> unincorporatedFact (in_Record i) prev"
    and "el_Profile (in_Eligibility i) = Some p" and "el_Eligible (in_Eligibility i)" and "in_slot (dc_Block (dispatch_planned env i prev p))"
  shows "dispatches env i (dispatch_planned env i prev p)"
proof -
  from assms(2,6) obtain planning where d: "dispatch_planned env i prev p = dispatch_now env i prev p planning"
    and s: "in_slot (dc_Block (dispatch_now env i prev p planning))"
    by (auto simp: dispatch_planned_def Let_def split: sum.splits if_splits)
  from s obtain t where t: "buildTask i ((in_File i)\<lparr>mf_Status := in_Draft i\<rparr>) p (el_Hash (in_Eligibility i)) (issue i) (sn_Class (in_Ledger i)) (StatusPlan planning) = Inr t"
    by (auto simp: dispatch_now_def Let_def split: sum.splits)
  from t buildTask_fields [OF t] assms show ?thesis
    unfolding d dispatches_def
    by (simp add: dispatch_now_def dispatched_block_def core_def requested_def Let_def split: option.split)
qed

lemma dispatch_rows:
  assumes "\<not> in_slot (in_Prev i)" and "in_slot (dc_Block (planDispatch env i))"
  shows "dispatches env i (planDispatch env i)"
proof -
  have again: "\<not> in_slot (dc_Block (Plan_with no_dispatch env j))" if "in_Prev j = in_Prev i" "sn_Grant (in_Ledger j) = GrantNone" for j
    by (rule idle_Plan_with) (use assms(1) that in simp_all)
  obtain prev where prev: "in_Prev i = Some prev" "tb_Phase prev = TranscodePhasePlanned" "\<not> unincorporatedFact (in_Record i) prev"
    using assms(2) again by (auto simp: planDispatch_def Let_def unincorporatedFact_def fact_not_slot split: option.splits if_splits)
  with assms(2) again obtain p where "el_Profile (in_Eligibility i) = Some p" "el_Eligible (in_Eligibility i)"
    "planDispatch env i = dispatch_planned env i prev p"
    by (auto simp: planDispatch_def Let_def split: option.splits if_splits prod.splits)
  with planned_rows [OF prev] assms(2) show ?thesis by simp
qed

lemma enters_slot:
  assumes "\<not> in_slot (in_Prev i)" and "in_slot (dc_Block (Plan env i))"
  shows "sn_Grant (in_Ledger i) = GrantDispatch \<and> dispatches env i (Plan env i)"
proof -
  obtain i' n evs where a: "applyIntents env i = (i', n, evs)" by (metis prod.exhaust)
  note split = Plan_with_split [OF a, of "planDispatch env"]
  have slot: "in_slot (dc_Block (plan_with (planDispatch env) env i'))" using assms(2) in_slot_core [OF split(1)] by (simp add: Plan_def)
  have idle: "\<not> in_slot (in_Prev i')" using assms(1) intents_slot(1) [OF a] by simp
  with slot idle_rows have g: "sn_Grant (in_Ledger i') = GrantDispatch" by blast
  have p: "plan_with (planDispatch env) env i' = planDispatch env i'"
    using slot idle g fact_after [of i'] fact_not_slot
    by (auto simp: plan_with_def swap_rows legacy_rows recoverSwap_def Let_def split: option.splits if_splits)
  with dispatch_rows [OF idle] slot have d: "dispatches env i' (planDispatch env i')" by simp
  then have "i' = i" using intents_planned [OF a] by (auto simp: dispatches_def)
  have "dispatches env i (Plan env i)"
    using d unfolding dispatches_def Plan_def split p unfolding \<open>i' = i\<close> .
  with g \<open>i' = i\<close> show ?thesis by simp
qed

text \<open>C25: a file takes a slot only on a dispatch grant, and uses it up. When a pass moves a file into Queued or Running, its block was Planned and no change
  on disk was waiting to be incorporated, its file is eligible, admission had granted it a dispatch, the block carries the granted class and a pool
  of that class, the grant is confirmed, and the block, the record and the published task all carry one new sequence number.\<close>

theorem slot_needs_grant:
  assumes "\<not> in_slot (in_Prev i)" and "in_slot (dc_Block (Plan env i))"
  shows "sn_Grant (in_Ledger i) = GrantDispatch \<and> dispatches env i (Plan env i)"
  using assms by (rule enters_slot)

section \<open>Keeping a slot\<close>

text \<open>What ends a dispatch: an answer or a failure in the record at its sequence, a change on disk an earlier one made, a withdrawal that
  went through, a worker whose lease and task are gone, or the output found in place of the source.\<close>

definition slot_over :: "Inputs \<Rightarrow> TranscodeState \<Rightarrow> Dispatch \<Rightarrow> bool" where
  "slot_over i b dp \<longleftrightarrow>
     factAfterWithdrawal i \<or> fileMissingSwap i \<or> answered_at (in_Record i) (dp_Seq dp) \<noteq> None \<or>
     (case in_Record i of None \<Rightarrow> False | Some r \<Rightarrow> Fact r \<and> dp_AnsweredSeq dp < rd_Seq r \<and> rd_Seq r < dp_Seq dp) \<or>
     (withdrawing b \<and> withdrawnAt (in_Record i) (dp_Seq dp)) \<or> lost i"

definition keeps :: "TranscodeState \<Rightarrow> Dispatch \<Rightarrow> Decision \<Rightarrow> bool" where
  "keeps b dp d \<longleftrightarrow>
     (\<exists>phase. map_option core (dc_Block d) = Some (phase, tb_Class b, tb_Profile b, tb_Pool b, Some dp) \<and> slotPhase phase \<and>
        (tb_Phase b = TranscodePhaseRunning \<longrightarrow> phase = TranscodePhaseRunning)) \<and>
     dc_Grant d \<noteq> GrantConfirm \<and> (\<forall>t. dc_Publish d = Some t \<longrightarrow> tk_Seq t = dp_Seq dp) \<and> dc_Withdraw d \<in> {0, dp_Seq dp}"

lemma taskFor_seq: "taskFor i b = Inr t \<Longrightarrow> tk_Seq t = dispatch_seq b"
  by (auto simp: taskFor_def dest: buildTask_fields split: option.splits)

definition in_flight :: "TranscodeState \<Rightarrow> Dispatch \<Rightarrow> bool" where
  "in_flight b dp \<longleftrightarrow> slotPhase (tb_Phase b) \<and> tb_Dispatch b = Some dp"

lemma in_flight_seq: "in_flight b dp \<Longrightarrow> dispatch_seq b = dp_Seq dp"
  by (simp add: dispatch_seq_def in_flight_def)

lemma keeps_plain: "in_flight b dp \<Longrightarrow> core x = core b \<Longrightarrow> keeps b dp ((decided (Some x))\<lparr>dc_Due := t\<rparr>)"
  by (auto simp: keeps_def core_def in_flight_def)

lemma keeps_owe: "in_flight b dp \<Longrightarrow> keeps b dp (owe i b w)"
  using taskFor_seq [of i b] in_flight_seq [of b dp]
  by (auto simp: owe_def keeps_def core_def in_flight_def split: sum.splits)

lemma keeps_running:
  assumes "in_flight b dp" and "\<not> lost i" and "core x = core b \<or> core x = core (b\<lparr>tb_Phase := TranscodePhaseRunning\<rparr>)"
    and "dc_Grant d = GrantKeep" and "dc_Publish d = None" and "dc_Withdraw d = 0"
  shows "keeps b dp (running_row i x d)"
  using assms by (auto simp: running_row_def keeps_def core_def in_flight_def Let_def)

lemma keeps_claimed: "in_flight b dp \<Longrightarrow> \<not> lost i \<Longrightarrow> keeps b dp (claimed_row i b r)"
  unfolding claimed_row_def Let_def by (auto intro!: keeps_running simp: core_def)

lemma keeps_requested: "in_flight b dp \<Longrightarrow> keeps b dp (requested_row i b dp)"
  using keeps_owe [of b dp i False] keeps_plain [of b dp b]
  by (auto simp: requested_row_def recheck_def keeps_def core_def Let_def)

lemma keeps_rows:
  assumes "in_flight b dp" and "\<not> slot_over i b dp"
  shows "keeps b dp (inflight_rows i b dp)"
proof (cases "in_Record i")
  case None
  with assms show ?thesis by (auto simp: inflight_rows_def slot_over_def intro!: keeps_owe keeps_running)
next
  case (Some r)
  with assms show ?thesis
    by (auto simp: inflight_rows_def recheck_def slot_over_def answered_at_def Let_def intro!: keeps_owe keeps_running keeps_plain keeps_claimed keeps_requested
        split: if_splits)
qed

lemma keeps_in_flight:
  assumes "in_flight b dp" and "\<not> slot_over i b dp"
  shows "keeps b dp (planInFlight env i b)"
proof -
  have none: "answered_at (in_Record i) (dp_Seq dp) = None" using assms by (simp add: slot_over_def)
  have "keeps b dp (rewithdraw i b)"
    using assms(1) in_flight_seq [OF assms(1)] by (auto simp: rewithdraw_def keeps_def core_def in_flight_def Let_def)
  moreover have "keeps b dp ((startWithdrawal b cause)\<lparr>dc_Events := e, dc_Dispatched := x\<rparr>)" for cause e x
    using assms(1) in_flight_seq [OF assms(1)] by (auto simp: startWithdrawal_def keeps_def core_def in_flight_def Let_def)
  moreover have "tb_Dispatch b = Some dp" using assms(1) by (simp add: in_flight_def)
  ultimately show ?thesis
    using keeps_rows [OF assms] assms(2) by (auto simp: planInFlight_def none slot_over_def Let_def split: prod.split)
qed

lemma slot_over_cong: "slot_over (i\<lparr>in_Ledger := x\<rparr>) b dp = slot_over i b dp"
  by (simp add: slot_over_def factAfterWithdrawal_def fileMissingSwap_def lost_def deadlineOf_def input_profile_def split: option.split)

lemma keeps_cong:
  "map_option core (dc_Block d) = map_option core (dc_Block d') \<Longrightarrow> dc_Grant d' \<noteq> GrantConfirm \<Longrightarrow> dc_Publish d = dc_Publish d' \<Longrightarrow> dc_Withdraw d = dc_Withdraw d' \<Longrightarrow>
   keeps b dp d \<Longrightarrow> keeps b dp d'"
  by (auto simp: keeps_def)

lemma keeps_Plan_with:
  assumes "in_Prev i = Some b" and "slotPhase (tb_Phase b)" and "tb_Dispatch b = Some dp" and "\<not> slot_over i b dp"
    and "sn_Grant (in_Ledger i) = GrantDispatch \<Longrightarrow> keeps b dp (f i)"
  shows "keeps b dp (Plan_with f env i)"
proof -
  obtain i' n evs where a: "applyIntents env i = (i', n, evs)" by (metis prod.exhaust)
  with intents_slot(2) [OF a] assms(1,2) have "i' = i" by simp
  note split = Plan_with_split [OF a [unfolded this], of f]
  have "keeps b dp (plan_with f env i)"
    using assms keeps_in_flight [of b dp i env] by (auto simp: plan_with_def slot_over_def slotPhase_cases in_flight_def)
  then show ?thesis by (rule keeps_cong [rotated 4]) (use split \<open>keeps b dp (plan_with f env i)\<close> in \<open>simp_all add: keeps_def\<close>)
qed

text \<open>C26: a dispatch keeps its slot until there is evidence that it is over. While the record at its sequence has no answer and no failure, its withdrawal has not gone through,
  its worker is not known to be lost and no change on disk has turned up, every pass leaves the file Queued or Running (and Running once it runs) under the same class, profile,
  pool and dispatch, whatever is asked of it (a cancel, a suspend, a deleted profile, a reroute); it publishes no task but the one of that dispatch and withdraws no other.\<close>

theorem slot_kept:
  assumes "in_Prev i = Some b" and "slotPhase (tb_Phase b)" and "tb_Dispatch b = Some dp" and "\<not> slot_over i b dp"
  shows "keeps b dp (Plan env i)"
  unfolding Plan_def
proof (rule keeps_Plan_with [OF assms])
  let ?rest = "i\<lparr>in_Ledger := zero_Snapshot\<lparr>sn_WaitReason := sn_WaitReason (in_Ledger i), sn_WaitCause := sn_WaitCause (in_Ledger i)\<rparr>\<rparr>"
  have "keeps b dp (Plan_with no_dispatch env ?rest)"
    by (rule keeps_Plan_with) (use assms in \<open>simp_all add: slot_over_cong\<close>)
  then show "keeps b dp (planDispatch env i)"
    using assms(1,2) by (auto simp: planDispatch_def keeps_def Let_def slotPhase_cases)
qed

section \<open>Changes on disk\<close>

definition incorporated :: "int \<Rightarrow> Decision \<Rightarrow> bool" where
  "incorporated seq d \<longleftrightarrow>
     (\<exists>phase class profile pool dp. map_option core (dc_Block d) = Some (phase, class, profile, pool, Some dp) \<and>
        phase \<in> {TranscodePhaseSwapping, TranscodePhaseSucceeded} \<and> dp_Seq dp = seq \<and> seq \<le> dp_AnsweredSeq dp \<and> \<not> dp_Withdrawn dp)"

lemma fact_incorporates:
  assumes "Fact r" and "tb_Dispatch b = Some dp" and "rd_Seq r = dp_Seq dp"
  shows "incorporated (dp_Seq dp) (incorporate i b r)"
  using fact_phase [OF assms(1), of i b] assms(2,3) by (auto simp: incorporated_def core_def)

lemma recovered_incorporates: "tb_Dispatch b = Some dp \<Longrightarrow> incorporated (dp_Seq dp) (recoverSwap i b r)"
  by (simp add: incorporated_def recoverSwap_def core_def dispatch_seq_def Let_def)

lemma incorporated_cong: "map_option core (dc_Block d) = map_option core (dc_Block d') \<Longrightarrow> incorporated seq d \<Longrightarrow> incorporated seq d'"
  by (simp add: incorporated_def)

lemma window_fact:
  assumes "in_Prev i = Some b" and "in_Record i = Some r" and "Fact r" and "tb_Dispatch b = Some dp" and "rd_Seq r = dp_Seq dp"
    and "InFactWindow b (deadlineOf i b) (in_Now i)" and "tb_Phase b \<noteq> TranscodePhaseNone"
  shows "incorporated (dp_Seq dp) (plan_with f env i)"
proof -
  have "factAfterWithdrawal i" using assms by (simp add: factAfterWithdrawal_def)
  with assms fact_incorporates [OF assms(3-5)] show ?thesis by (simp add: plan_with_def)
qed

lemma slot_fact:
  assumes "in_Prev i = Some b" and "in_Record i = Some r" and "Fact r" and "tb_Dispatch b = Some dp" and "rd_Seq r = dp_Seq dp"
    and "slotPhase (tb_Phase b)" and "sn_Grant (in_Ledger i) = GrantDispatch \<Longrightarrow> incorporated (dp_Seq dp) (f i)"
  shows "incorporated (dp_Seq dp) (plan_with f env i)"
proof -
  have "answered_at (Some r) (dp_Seq dp) = Some r" using assms(3,5) by (simp add: answered_at_def Fact_def)
  with assms fact_incorporates [OF assms(3-5)] recovered_incorporates [OF assms(4)] show ?thesis
    by (auto simp: plan_with_def planInFlight_def slotPhase_cases)
qed

lemma retry_keeps: "\<not> retriable_verdict i \<Longrightarrow> fst (handle_retry i) = i"
  by (simp add: handle_retry_def)

lemma cancel_prev: "in_Prev i = Some b \<Longrightarrow> fst (handle_cancel i) \<in> {i, i\<lparr>in_Prev := Some (cancelled_block i b)\<rparr>}"
  by (simp add: handle_cancel_def Let_def)

lemma intents_prev:
  assumes "in_Prev i = Some b" and "\<not> (retry_pending env i \<and> retriable_verdict i)"
  shows "fst (applyIntents env i) \<in> {i, i\<lparr>in_Prev := Some (cancelled_block i b)\<rparr>}"
  using assms retry_keeps [of i] cancel_prev [of i b]
  by (cases "handle_retry i"; cases "handle_cancel i") (auto simp: applyIntents_def Let_def)

lemma cancelled_fields [simp]:
  "tb_Dispatch (cancelled_block i b) = tb_Dispatch b" "tb_Profile (cancelled_block i b) = tb_Profile b" "tb_Phase (cancelled_block i b) = TranscodePhaseSkipped"
  by (simp_all add: cancelled_block_def)

lemma intents_fact:
  assumes "applyIntents env i = (i', n, evs)" and "in_Prev i = Some b" and "\<not> (retry_pending env i \<and> retriable_verdict i)"
    and "InFactWindow b (deadlineOf i b) (in_Now i)" and "tb_Phase b \<noteq> TranscodePhaseNone"
  shows "\<exists>b'. in_Prev i' = Some b' \<and> tb_Dispatch b' = tb_Dispatch b \<and> InFactWindow b' (deadlineOf i' b') (in_Now i') \<and> tb_Phase b' \<noteq> TranscodePhaseNone \<and>
    in_Record i' = in_Record i"
proof -
  have "InFactWindow (cancelled_block i b) t u = InFactWindow b t u" "deadlineOf (i\<lparr>in_Prev := x\<rparr>) b' = deadlineOf i b'"
    "deadlineOf i (cancelled_block i b) = deadlineOf i b" for t u x b'
    by (simp_all add: InFactWindow_def deadlineOf_def input_profile_def split: option.split)
  with intents_prev [OF assms(2,3)] assms show ?thesis by auto
qed

text \<open>C27: a change on disk is never overlooked. When the record holds the success of a file's dispatch, a pass incorporates it, whatever else is asked: a dispatch in flight
  even while it is being withdrawn, and a withdrawn one in any phase within its fact window, unless the user cleared the verdict in this very pass. The block then awaits the swap (or has
  succeeded beside a kept source) with its dispatch closed.\<close>

theorem fact_incorporated:
  assumes "in_Prev i = Some b" and "in_Record i = Some r" and "Fact r" and "tb_Dispatch b = Some dp" and "rd_Seq r = dp_Seq dp"
    and "slotPhase (tb_Phase b) \<or>
      InFactWindow b (deadlineOf i b) (in_Now i) \<and> tb_Phase b \<noteq> TranscodePhaseNone \<and> \<not> (retry_pending env i \<and> retriable_verdict i)"
  shows "incorporated (dp_Seq dp) (Plan env i)"
proof -
  have planned: "incorporated (dp_Seq dp) (Plan_with f env i)"
    if f: "slotPhase (tb_Phase b) \<Longrightarrow> sn_Grant (in_Ledger i) = GrantDispatch \<Longrightarrow> incorporated (dp_Seq dp) (f i)"
      and i: "in_Prev i = Some b" "in_Record i = Some r" and cases: "slotPhase (tb_Phase b) \<or>
      InFactWindow b (deadlineOf i b) (in_Now i) \<and> tb_Phase b \<noteq> TranscodePhaseNone \<and> \<not> (retry_pending env i \<and> retriable_verdict i)" for f i
  proof -
    obtain i' n evs where a: "applyIntents env i = (i', n, evs)" by (metis prod.exhaust)
    have "incorporated (dp_Seq dp) (plan_with f env i')"
    proof (cases "slotPhase (tb_Phase b)")
      case True
      with i intents_slot(2) [OF a] have "i' = i" by simp
      with slot_fact [OF i assms(3-5) True, of f env] f [OF True] show ?thesis by simp
    next
      case False
      with cases intents_fact [OF a i(1)] obtain b' where "in_Prev i' = Some b'" "tb_Dispatch b' = Some dp"
        "InFactWindow b' (deadlineOf i' b') (in_Now i')" "tb_Phase b' \<noteq> TranscodePhaseNone" "in_Record i' = Some r"
        using assms(4) i(2) by auto
      then show ?thesis using assms(3,5) by (intro window_fact)
    qed
    then show ?thesis by (rule incorporated_cong [OF Plan_with_split(1) [OF a, symmetric]])
  qed
  show ?thesis unfolding Plan_def
  proof (rule planned [OF _ assms(1,2,6)])
    assume s: "slotPhase (tb_Phase b)"
    let ?rest = "i\<lparr>in_Ledger := zero_Snapshot\<lparr>sn_WaitReason := sn_WaitReason (in_Ledger i), sn_WaitCause := sn_WaitCause (in_Ledger i)\<rparr>\<rparr>"
    have "incorporated (dp_Seq dp) (Plan_with no_dispatch env ?rest)" by (rule planned) (use assms(1,2) s in simp_all)
    then show "incorporated (dp_Seq dp) (planDispatch env i)"
      using assms(1) s by (auto simp: planDispatch_def incorporated_def Let_def slotPhase_cases)
  qed
qed

end
