(* ===== verification/GraftSafety.thy ===== *)
theory GraftSafety
  imports GraftRows TranscodePlanSafety
begin

text \<open>
  The safety of the graft planner, and of the two planners that rewrite a file side by side: a graft takes a slot it was granted, at most one of the two has a file, a graft on disk is
  incorporated, and a donor that failed is not tried again.
\<close>

section \<open>Taking a graft slot\<close>

lemma Standalone_simps [simp]:
  "\<not> Standalone None"
  "Standalone (Some b) \<longleftrightarrow> gs_Phase b = GraftPhaseQueued \<or> (gs_Phase b = GraftPhaseRunning \<and> gs_Reason b \<noteq> ReasonJoinedTranscode)"
  by (simp_all add: Standalone_def)

lemma incorporate_phase:
  "gs_Phase (incorporate_graft b res at) \<in> {GraftPhaseSwapping, GraftPhaseSucceeded, GraftPhaseFailed, GraftPhaseWaiting}"
  by (simp add: incorporate_graft_def Let_def)

lemma incorporate_idle [simp]: "gs_Phase (incorporate_graft b res at) \<noteq> GraftPhaseQueued" "gs_Phase (incorporate_graft b res at) \<noteq> GraftPhaseRunning"
  using incorporate_phase [of b res at] by auto

lemma waiting_phase [simp]: "gs_Phase (waitingOf b r m) = GraftPhaseWaiting"
  by (simp add: waitingOf_def)

lemma base_fields [simp]:
  "gs_Phase (base_graft v b audio donor) = GraftPhaseNone" "gs_Dispatch (base_graft v b audio donor) = (case b of None \<Rightarrow> None | Some g \<Rightarrow> gs_Dispatch g)"
  by (simp_all add: base_graft_def zero_graft_def)

text \<open>A dispatch: what the block and the effects are, and what held before it.\<close>

definition grafts :: "GraftView \<Rightarrow> GraftInput \<Rightarrow> GraftState option \<Rightarrow> GraftDecision \<Rightarrow> bool" where
  "grafts v x g d \<longleftrightarrow>
     gx_Granted x \<and> \<not> in_slot (ms_Transcode (gv_Draft v)) \<and>
     (\<exists>s q rec t. g = Some q \<and> gs_Phase q = GraftPhaseQueued \<and> s = gv_Issue v (case gx_Record x of None \<Rightarrow> 0 | Some r \<Rightarrow> gc_Seq r) \<and>
        map_option dp_Seq (gs_Dispatch q) = Some s \<and> gd_Effects d = [EffectRequest s rec, EffectCreateJob s t (gs_JobName q), EffectConfirm s] \<and>
        gc_Seq rec = s \<and> gt_Seq t = s \<and> gc_Inputs rec = gt_Inputs t \<and> gi_Language (gt_Inputs t) \<noteq> '''' \<and>
        gi_TargetProbeHash (gt_Inputs t) = ms_ProbeHash (gv_Draft v))"

lemma due_fields [simp]: "gd_Effects (due d t) = gd_Effects d" "gd_Events (due d t) = gd_Events d" "gd_Records (due d t) = gd_Records d"
  by (simp_all add: due_def)

lemma dispatch_grafts:
  assumes "gx_Granted x" and "\<not> in_slot (ms_Transcode (gv_Draft v))" and "gd_Effects d = []" and "l \<noteq> ''''"
    and "dispatch_graft env v x base it audio donor l d = (q, d')"
  shows "grafts v x (Some q) d'"
  using assms(1-4) assms(5) [symmetric]
  by (simp add: grafts_def dispatch_graft_def requested_graft_def taskOf_def owes_def Let_def)

lemma wait_slot: "transcode_wait v b base d = None \<Longrightarrow> \<not> in_slot (ms_Transcode (gv_Draft v))"
  by (cases "ms_Transcode (gv_Draft v)") (auto simp: transcode_wait_def slotPhase_cases)

lemma wait_row: "transcode_wait v b base d = Some (w, d') \<Longrightarrow> gs_Phase w = GraftPhaseWaiting"
  by (auto simp: transcode_wait_def Let_def split: option.splits if_splits)

lemma missing_grafts:
  assumes "missing_row env v x b it audio donor l d = (g, d')" and "\<not> Standalone b" and "Standalone g" and "gd_Effects d = []" and "l \<noteq> ''''"
  shows "grafts v x g d'"
proof -
  from assms(1-3) have w: "transcode_wait v b (base_graft v b audio donor) d = None" and "gx_Granted x"
    and "(\<exists>q. dispatch_graft env v x (base_graft v b audio donor) it audio donor l d = (q, d') \<and> g = Some q)"
    by (auto simp: missing_row_def Let_def dest: wait_row split: standing.splits option.splits if_splits prod.splits)
  with dispatch_grafts [OF _ wait_slot [OF w] assms(4,5)] show ?thesis by blast
qed

lemma settled_grafts:
  assumes "settled_row env v x b d = (g, d')" and "\<not> Standalone b" and "Standalone g" and "gd_Effects d = []"
  shows "grafts v x g d'"
proof -
  have none: "joins (ms_Transcode (gv_Draft v)) b = None"
    using assms(1,3) by (auto simp: settled_row_def joined_block_def zero_graft_def split: option.splits)
  with assms(1-3) obtain it audio donor where i: "idle env v x b it audio donor d = (g, d')"
    by (auto simp: settled_row_def split: option.splits if_splits prod.splits)
  let ?l = "FirstMissing (ge_Parse env) (as_Missing audio) (ms_MediaInfo (gv_Draft v))"
  from i assms(2,3) have "?l \<noteq> ''''" and "missing_row env v x b it audio donor ?l d = (g, d')"
    by (auto simp: idle_def Let_def split: if_splits)
  with missing_grafts assms(2-4) show ?thesis by blast
qed

lemma swapped_row: "Standalone (ms_Graft (fst (swapped v b out d))) \<Longrightarrow> ms_Graft (fst (swapped v b out d)) = ms_Graft out"
  by (auto simp: swapped_def Let_def split: if_splits)

lemma joined_row:
  assumes "gs_Phase b = GraftPhaseRunning" and "gs_Reason b = ReasonJoinedTranscode"
  shows "\<not> Standalone (Some (fst (joined v x b d)))"
  using assms by (simp add: joined_def Let_def split: option.split prod.split)

lemma plan_grafts:
  assumes "plan_graft env v x out zero_decision = (out', d)" and "\<not> Standalone (ms_Graft out)" and "Standalone (ms_Graft out')"
  shows "grafts v x (ms_Graft out') d"
proof (cases "ms_Graft out")
  case None
  with assms show ?thesis by (auto simp: plan_graft_def zero_decision_def split: prod.splits intro: settled_grafts)
next
  case (Some b)
  have eff: "gd_Effects (due zero_decision t) = []" "gd_Effects zero_decision = []" for t by (simp_all add: zero_decision_def)
  have "\<not> (gs_Phase b = GraftPhaseRunning \<and> gs_Reason b = ReasonJoinedTranscode)"
    using assms(1,3) joined_row [of b v x zero_decision] by (auto simp: plan_graft_def Some split: prod.splits)
  moreover have "gs_Phase b \<noteq> GraftPhaseSwapping"
  proof
    assume "gs_Phase b = GraftPhaseSwapping"
    with assms(1) have "out' = fst (swapped v b out zero_decision)" by (simp add: plan_graft_def Some)
    with swapped_row [of v b out zero_decision] assms(2,3) show False by simp
  qed
  moreover have "late_fact v x b = None" if "factOpen v b"
    using that assms Some calculation by (auto simp: plan_graft_def Let_def split: option.splits)
  ultimately obtain d1 where "settled_row env v x (Some b) d1 = (ms_Graft out', d)" "gd_Effects d1 = []"
    using assms Some eff by (auto simp: plan_graft_def Let_def split: if_splits option.splits prod.splits)
  with assms(2,3) Some show ?thesis by (auto intro: settled_grafts)
qed

lemma graft_enters:
  assumes "\<not> Standalone (ms_Graft (gv_Prev v))" and "Standalone (ms_Graft (fst (Plan_graft env v x out)))"
  shows "grafts v x (ms_Graft (fst (Plan_graft env v x out))) (snd (Plan_graft env v x out))"
proof -
  let ?out = "out\<lparr>ms_Graft := ms_Graft (gv_Prev v), ms_GraftTag := ms_GraftTag (gv_Prev v), ms_GraftedAt := ms_GraftedAt (gv_Prev v)\<rparr>"
  obtain out' d where p: "plan_graft env v x ?out zero_decision = (out', d)" by (metis prod.exhaust)
  from assms have cur: "gv_ProbeCurrent v" by (auto simp: Plan_graft_def Let_def split: if_splits)
  with p assms(2) have "Standalone (ms_Graft out')" by (simp add: Plan_graft_def Let_def)
  with plan_grafts [OF p] assms(1) have "grafts v x (ms_Graft out') d" by simp
  with p cur show ?thesis by (auto simp: Plan_graft_def grafts_def Let_def)
qed

section \<open>One writer of a file\<close>

text \<open>At most one of the planners has the file: its transcode holds a slot, or a standalone graft does.\<close>

definition held_once :: "MediaFileStatus \<Rightarrow> bool" where
  "held_once st \<longleftrightarrow> \<not> (in_slot (ms_Transcode st) \<and> Standalone (ms_Graft st))"

lemma grafted_not_eligible: "fl_StandaloneGraft f \<Longrightarrow> \<not> el_Eligible (Eligible selects hash f profiles)"
  by (simp add: Eligible_def judge_def zero_eligibility_def Let_def split: option.split prod.split)

lemma plan_graft_transcode: "ms_Transcode (fst (plan_graft env v x out d)) = ms_Transcode out"
  by (simp add: plan_graft_def swapped_def Let_def split: option.split prod.split)

lemma graft_keeps_transcode: "ms_Transcode (fst (Plan_graft env v x out)) = ms_Transcode out"
  using plan_graft_transcode [of env v x "out\<lparr>ms_Graft := ms_Graft (gv_Prev v), ms_GraftTag := ms_GraftTag (gv_Prev v), ms_GraftedAt := ms_GraftedAt (gv_Prev v)\<rparr>" zero_decision]
  by (auto simp: Plan_graft_def Let_def split: prod.split)

text \<open>C29: a transcode and a standalone graft never have a file at once. One pass of the loop runs the transcode planner, with the eligibility of the file and the stored graft, and then the graft planner over the
  draft; if at most one of them had the file before, at most one has it after, whatever was granted, also when the pass keeps the block of the first planner because it failed.\<close>

theorem one_writer:
  assumes "held_once prev" and "in_Prev i = ms_Transcode prev" and "in_Eligibility i = Eligible selects hash f profiles" and "fl_StandaloneGraft f = Standalone (ms_Graft prev)"
    and "gv_Prev v = prev" and "ms_Transcode (gv_Draft v) \<in> {ms_Transcode prev, dc_Block (Plan env i)}" and "ms_Transcode out = ms_Transcode (gv_Draft v)"
  shows "held_once (fst (Plan_graft genv v x out)) \<and> held_once (out\<lparr>ms_Graft := ms_Graft prev\<rparr>)"
proof (cases "in_slot (ms_Transcode (gv_Draft v))")
  case True
  have "\<not> Standalone (ms_Graft prev)"
  proof
    assume g: "Standalone (ms_Graft prev)"
    with assms(1,2) have "\<not> in_slot (in_Prev i)" by (simp add: held_once_def)
    with True assms(2,6) enters_slot [of i env] have "dispatches env i (Plan env i)" by auto
    then have "el_Eligible (in_Eligibility i)" by (auto simp: dispatches_def)
    with g assms(3,4) grafted_not_eligible show False by simp
  qed
  moreover from this graft_enters [of v genv x out] True assms(5) have "\<not> Standalone (ms_Graft (fst (Plan_graft genv v x out)))"
    by (auto simp: grafts_def)
  ultimately show ?thesis by (simp add: held_once_def)
qed (simp add: held_once_def graft_keeps_transcode assms(7))

section \<open>Grafts on disk\<close>

lemma incorporate_fact:
  "ga_Phase a = PhaseSucceeded \<Longrightarrow> ga_Reason a = ReasonGrafted \<Longrightarrow>
   gs_Phase (incorporate_graft b a at) = GraftPhaseSwapping \<and> gs_Tag (incorporate_graft b a at) = ga_GraftTag a"
  by (simp add: incorporate_graft_def Let_def)

lemma incorporate_dispatch [simp]: "gs_Dispatch (incorporate_graft b a at) = gs_Dispatch b"
  by (simp add: incorporate_graft_def Let_def)

lemma closed_fact:
  assumes "gs_Dispatch b = Some dp" and "gc_Seq r = dp_Seq dp" and "gc_State r = StateAnswered" and "gc_Answer r = Some a" and "gx_Record x = Some r"
  shows "fst (inFlight_graft env v x b d) = set_dispatch (incorporate_graft b a (answerTime (gc_AnsweredAt r) (gv_Now v))) (dp_Seq dp) (dp_Withdrawn dp)"
  using assms by (simp add: inFlight_graft_def earlier_fact_def closedAt_def closed_row_def StateAnswered_def StateFailed_def Let_def)

lemma late_fact_planned:
  assumes "ms_Graft out = Some b" and "gs_Phase b \<in> {GraftPhaseWaiting, GraftPhaseSucceeded, GraftPhaseFailed}" and "factOpen v b" and "late_fact v x b = Some (r, a)"
  shows "ms_Graft (fst (plan_graft env v x out d)) =
    (let g = incorporate_graft b a (answerTime (gc_AnsweredAt r) (gv_Now v)) in Some (g\<lparr>gs_Dispatch := map_option (\<lambda>dp. dp\<lparr>dp_Withdrawn := False\<rparr>) (gs_Dispatch g)\<rparr>))"
  using assms by (auto simp: plan_graft_def Let_def)

lemma in_flight_planned:
  assumes "ms_Graft out = Some b" and "Standalone (Some b)"
  shows "ms_Graft (fst (plan_graft env v x out d)) = Some (fst (inFlight_graft env v x b d))"
  using assms by (auto simp: plan_graft_def split: prod.split)

text \<open>C30: a graft on disk is incorporated. When the record of a graft's dispatch says the file was grafted, a pass over a current probe makes the block Swapping, with the tag the worker wrote and the dispatch
  answered or no longer withdrawn, while the graft is in flight and, within the fact window, after it was withdrawn and the block has come to rest.\<close>

theorem graft_incorporated:
  assumes "gv_ProbeCurrent v" and "ms_Graft (gv_Prev v) = Some b" and "gs_Dispatch b = Some dp" and "gx_Record x = Some r" and "gc_Seq r = dp_Seq dp" and "gc_State r = StateAnswered"
    and "gc_Answer r = Some a" and "graft_Fact r"
    and "Standalone (Some b) \<or> factOpen v b \<and> gs_Phase b \<in> {GraftPhaseWaiting, GraftPhaseSucceeded, GraftPhaseFailed}"
  shows "\<exists>g dp'. ms_Graft (fst (Plan_graft env v x out)) = Some g \<and> gs_Phase g = GraftPhaseSwapping \<and> gs_Tag g = ga_GraftTag a \<and> gs_Dispatch g = Some dp' \<and>
    dp_Seq dp' = dp_Seq dp \<and> (dp_AnsweredSeq dp' = dp_Seq dp \<or> \<not> dp_Withdrawn dp') \<and> gd_Again (snd (Plan_graft env v x out))"
proof -
  let ?out = "out\<lparr>ms_Graft := ms_Graft (gv_Prev v), ms_GraftTag := ms_GraftTag (gv_Prev v), ms_GraftedAt := ms_GraftedAt (gv_Prev v)\<rparr>"
  have a: "ga_Phase a = PhaseSucceeded" "ga_Reason a = ReasonGrafted" using assms(7,8) by (simp_all add: graft_Fact_def)
  have late: "late_fact v x b = Some (r, a)" using assms by (simp add: late_fact_def closedAt_def)
  have "\<exists>g dp'. ms_Graft (fst (plan_graft env v x ?out zero_decision)) = Some g \<and> gs_Phase g = GraftPhaseSwapping \<and> gs_Tag g = ga_GraftTag a \<and> gs_Dispatch g = Some dp' \<and>
    dp_Seq dp' = dp_Seq dp \<and> (dp_AnsweredSeq dp' = dp_Seq dp \<or> \<not> dp_Withdrawn dp')"
    using assms(9) in_flight_planned [of ?out b env v x zero_decision] closed_fact [OF assms(3,5,6,7,4), of env v zero_decision]
      late_fact_planned [of ?out b v x r a env zero_decision] late incorporate_fact [OF a] assms(2,3)
    by (auto simp: set_dispatch_def Let_def)
  moreover have "gs_Phase b \<noteq> GraftPhaseSwapping" using assms(9) by auto
  ultimately show ?thesis
    using assms(1,2) by (auto simp: Plan_graft_def became_swapping_def Let_def split: prod.split)
qed

text \<open>While a later graft rides along with a transcode, a success recorded for the withdrawn one is not looked at, though its window is open.\<close>

theorem fact_waits_for_join:
  assumes "gv_ProbeCurrent v" and "ms_Graft (gv_Prev v) = Some b" and "gs_Phase b = GraftPhaseRunning" and "gs_Reason b = ReasonJoinedTranscode" and "factOpen v b" and "late_fact v x b = Some (r, a)"
    and "joined_answer (gx_Transcode x) (gs_JoinedTranscodeSeq b) = None" and "\<not> ended_without (gx_Transcode x) (ms_Transcode (gv_Draft v)) (gs_JoinedTranscodeSeq b)"
  shows "ms_Graft (fst (Plan_graft env v x out)) = Some b \<and> gd_Records (snd (Plan_graft env v x out)) = []"
  using assms by (simp add: Plan_graft_def plan_graft_def joined_def became_swapping_def zero_decision_def due_def Let_def)

section \<open>Donors and joins\<close>

lemma no_effects:
  assumes "sameAttempt b donor (ms_ProbeHash (gv_Draft v))" and "gs_Phase b = GraftPhaseFailed" and "gs_DonorFault b" and "item_donor (gx_Item x) = Some (it, audio, donor)"
    and "gd_Effects d = []"
  shows "gd_Effects (snd (settled_row env v x (Some b) d)) = []"
  using assms by (simp add: settled_row_def idle_def missing_row_def verdict_standing_def Let_def split: option.split prod.split)



end
