(* ===== verification/TranscodePass.thy ===== *)
theory TranscodePass
  imports TranscodeLedger
begin

text \<open>
  The admission pass (\<^verbatim>\<open>app/transcode/admission\<close>, \<^verbatim>\<open>pass.go\<close>) with what it is made of: the window of each profile
  (\<^verbatim>\<open>window.go\<close>), the graft slots of each namespace (\<^verbatim>\<open>graft.go\<close>), the pools (\<^verbatim>\<open>pools.go\<close>) and the yield to the
  video conversions of another program on the same GPU (\<^verbatim>\<open>videolease.go\<close>). A pool's name ends in a hash; it is the parameter
  \<open>poolName\<close>. Where the code sorts by a key that may tie only between files of one namespace and name, the
  model sorts stably.
\<close>

section \<open>Pools\<close>

definition dispatched_key :: "(pool_key \<Rightarrow> string) \<Rightarrow> Ledger \<Rightarrow> FileView \<Rightarrow> pool_key option" where
  "dispatched_key poolName l v =
     (if \<not> slotPhase (fv_Phase v) \<or> fv_Class v = '''' then None
      else case lg_profileUIDs l (fv_Profile v) of
             None \<Rightarrow> None
           | Some uid \<Rightarrow>
               let k = (fv_Profile v, uid, fv_Class v) in
               if fv_Pool v \<noteq> '''' \<and> fv_Pool v \<noteq> poolName k then None else Some k)"

definition dispatchedLocked :: "(pool_key \<Rightarrow> string) \<Rightarrow> Ledger \<Rightarrow> (pool_key, int) table" where
  "dispatchedLocked poolName l =
     foldl (\<lambda>out (uid, e). case dispatched_key poolName l (en_view e) of
                             None \<Rightarrow> out
                           | Some k \<Rightarrow> AList.update k ((case map_of out k of None \<Rightarrow> 0 | Some n \<Rightarrow> n) + 1) out)
           [] (lg_files l)"

definition DispatchedPerPool :: "(pool_key \<Rightarrow> string) \<Rightarrow> Ledger \<Rightarrow> pool_key \<Rightarrow> int \<times> bool" where
  "DispatchedPerPool poolName l k =
     (if \<not> lg_rebuilt l then (0, False)
      else (case map_of (dispatchedLocked poolName l) k of None \<Rightarrow> 0 | Some n \<Rightarrow> n, True))"

definition PoolState_of :: "Ledger \<Rightarrow> pool_key \<Rightarrow> PoolState" where
  "PoolState_of l k = (case map_of (lg_pools l) k of None \<Rightarrow> zero_PoolState | Some p \<Rightarrow> p)"

definition UpdatePool :: "Ledger \<Rightarrow> pool_key \<Rightarrow> (PoolState \<Rightarrow> PoolState) \<Rightarrow> Ledger" where
  "UpdatePool l k f = signalLocked (l\<lparr>lg_pools := AList.update k (f (PoolState_of l k)) (lg_pools l)\<rparr>)"

definition SetUnschedulable :: "Ledger \<Rightarrow> pool_key \<Rightarrow> time \<Rightarrow> Ledger" where
  "SetUnschedulable l k until = UpdatePool l k (\<lambda>p. p\<lparr>ps_UnschedulableUntil := until\<rparr>)"

definition pool_unschedulable :: "Ledger \<Rightarrow> pool_key \<Rightarrow> time \<Rightarrow> bool" where
  "pool_unschedulable l k now = (case map_of (lg_pools l) k of None \<Rightarrow> False | Some p \<Rightarrow> now < ps_UnschedulableUntil p)"

definition unschedulableLocked :: "Ledger \<Rightarrow> time \<Rightarrow> string \<Rightarrow> string \<Rightarrow> bool" where
  "unschedulableLocked l now profile class \<longleftrightarrow>
     class \<in> set GPUClasses \<and> pool_unschedulable l (profile, str (lg_profileUIDs l profile), class) now"

text \<open>What \<^verbatim>\<open>Holding\<close> asks of a pool's Job: its owner, whether it failed and when, whether it may be changed in place, and
  whether its template differs from the profile's.\<close>

record PoolJob =
  pj_OwnerUID :: string
  pj_Failed :: bool
  pj_FailedAt :: time
  pj_Mutable :: bool
  pj_Drifted :: bool

definition Classes :: "string list" where "Classes = [HardwareCPU, HardwareNVIDIA, HardwareIntel]"

definition HeldPrefix :: string where "HeldPrefix = ''waiting for pool ''"

definition hold_message :: "(pool_key \<Rightarrow> string) \<Rightarrow> (time \<Rightarrow> string) \<Rightarrow> Ledger \<Rightarrow> (string \<Rightarrow> PoolJob option) \<Rightarrow> time \<Rightarrow> pool_key \<Rightarrow> string option" where
  "hold_message poolName rfc l stored now k =
     (let (profile, uid, class) = k; name = poolName k; st = map_of (lg_pools l) k in
      case stored name of
        None \<Rightarrow>
          (case st of
             Some p \<Rightarrow> if now < ps_BackoffUntil p
               then Some (HeldPrefix @ name @ '' to recover: it failed at '' @ rfc (ps_FailedAt p) @ '' and is recreated at '' @ rfc (ps_BackoffUntil p))
               else None
           | None \<Rightarrow> None)
      | Some j \<Rightarrow>
          if pj_OwnerUID j \<noteq> uid
          then Some (HeldPrefix @ name @ '': that Job's controller owner reference is not TranscodeProfile '' @ profile @ '' (uid '' @ uid @
                 ''), so transcode will not touch it; delete the Job and the pool is recreated'')
          else if pj_Failed j then Some (HeldPrefix @ name @ '' to recover: it failed at '' @ rfc (pj_FailedAt j))
          else if pj_Mutable j then None
          else if (case st of Some p \<Rightarrow> ps_Recreate p | None \<Rightarrow> False) then Some (HeldPrefix @ name @ '' to drain before it is recreated'')
          else if pj_Drifted j then Some (HeldPrefix @ name @ '' to drain before its profile change applies'')
          else None)"

definition Holding :: "(pool_key \<Rightarrow> string) \<Rightarrow> (time \<Rightarrow> string) \<Rightarrow> Ledger \<Rightarrow> (string \<Rightarrow> PoolJob option) \<Rightarrow> (string \<times> string) list \<Rightarrow> time \<Rightarrow> pool_key \<Rightarrow> string option" where
  "Holding poolName rfc l stored profiles now k =
     (if \<exists>p \<in> set profiles. \<exists>c \<in> set Classes. k = (fst p, snd p, c) then hold_message poolName rfc l stored now k else None)"

section \<open>Yielding to video conversions\<close>

definition YieldingToPlex :: string where "YieldingToPlex = ''waiting: Plex is converting video on the GPU''"

text \<open>The share of an engine a stream is reserved is a quarter, so the engines reserved are the quotient rounded up.\<close>

definition VideoAllowance :: "int \<Rightarrow> int \<Rightarrow> int" where
  "VideoAllowance engines streams =
     (let engines = max engines 1 in
      if streams \<le> 0 then engines
      else let reserved = max ((streams + 3) div 4) 1 in max (engines - reserved) 0)"

definition videoEngines :: "Device \<Rightarrow> int" where
  "videoEngines d = foldl (\<lambda>n p. max n (snd p)) 0 (dv_Limits d)"

definition yieldMessage :: "int \<Rightarrow> int \<Rightarrow> string" where
  "yieldMessage streams beside =
     (if beside \<le> 0 then YieldingToPlex
      else YieldingToPlex @ '' ('' @ fmt_d streams @ '' stream(s); '' @ fmt_d beside @ '' encode(s) run beside them)'')"

section \<open>The window\<close>

record ProfileView =
  pv_Name :: string
  pv_UID :: string
  pv_Priority :: int
  pv_MaxConcurrent :: int
  pv_Hardware :: string

definition window_grant :: "Ledger \<Rightarrow> string \<Rightarrow> string option" where
  "window_grant l uid =
     (case map_of (lg_grants l) uid of
        Some g \<Rightarrow> if gr_kind g = GrantWindow then Some (gr_profile g) else None
      | None \<Rightarrow> None)"

definition open_of :: "Ledger \<Rightarrow> string \<Rightarrow> int" where
  "open_of l profile =
     int (length (filter (\<lambda>(uid, e). (fv_Profile (en_view e) = profile \<and> windowPhase (fv_Phase (en_view e))) \<or>
                                     window_grant l uid = Some profile) (lg_files l)))"

definition Open :: "Ledger \<Rightarrow> string \<Rightarrow> int" where
  "Open l profile = open_of l profile"

definition bump :: "(string \<Rightarrow> int option) \<Rightarrow> string \<Rightarrow> string \<Rightarrow> int option" where
  "bump out k = (case out k of None \<Rightarrow> out | Some n \<Rightarrow> out(k \<mapsto> n + 1))"

definition open_step :: "Ledger \<Rightarrow> (string \<Rightarrow> int option) \<Rightarrow> string \<times> entry \<Rightarrow> string \<Rightarrow> int option" where
  "open_step l out p =
     (let v = en_view (snd p) in
      if out (fv_Profile v) \<noteq> None \<and> windowPhase (fv_Phase v) then bump out (fv_Profile v)
      else case window_grant l (fst p) of None \<Rightarrow> out | Some profile \<Rightarrow> bump out profile)"

definition openCounts :: "Ledger \<Rightarrow> (string, ProfileView) table \<Rightarrow> string \<Rightarrow> int option" where
  "openCounts l profiles = foldl (open_step l) (\<lambda>name. if map_of profiles name = None then None else Some 0) (lg_files l)"

definition inBacklogLocked :: "Ledger \<Rightarrow> string \<Rightarrow> entry \<Rightarrow> string \<Rightarrow> time \<Rightarrow> bool" where
  "inBacklogLocked l uid e profile now \<longleftrightarrow>
     (let v = en_view e in
      fv_Profile v = profile \<and> fv_Eligible v \<and> \<not> windowPhase (fv_Phase v) \<and> \<not> fv_VerdictHolds v \<and>
      map_of (lg_grants l) uid = None \<and> \<not> onBackoffLocked l uid now)"

definition backlogLocked :: "Ledger \<Rightarrow> string \<Rightarrow> time \<Rightarrow> entry list" where
  "backlogLocked l profile now =
     sort_key (\<lambda>e. (- fv_Priority (en_view e), en_key e)) (map snd (filter (\<lambda>(uid, e). inBacklogLocked l uid e profile now) (lg_files l)))"

definition backlogLenLocked :: "Ledger \<Rightarrow> string \<Rightarrow> time \<Rightarrow> int" where
  "backlogLenLocked l profile now = int (length (filter (\<lambda>(uid, e). inBacklogLocked l uid e profile now) (lg_files l)))"

definition Backlog :: "Ledger \<Rightarrow> string \<Rightarrow> time \<Rightarrow> int" where
  "Backlog l profile now = backlogLenLocked l profile now"

fun fill_loop :: "Ledger \<Rightarrow> string \<Rightarrow> time \<Rightarrow> int \<Rightarrow> entry list \<Rightarrow> Ledger" where
  "fill_loop l name now n [] = l"
| "fill_loop l name now n (e # es) =
     (if op_Window (lg_o l) > 0 \<and> n \<ge> op_Window (lg_o l) then l
      else fill_loop (grantLocked l (fv_UID (en_view e)) (fv_Key (en_view e)) GrantWindow '''' name now) name now (n + 1) es)"

definition fill_profile :: "(string \<Rightarrow> int option) \<Rightarrow> time \<Rightarrow> Ledger \<Rightarrow> string \<times> ProfileView \<Rightarrow> Ledger" where
  "fill_profile opens now l p =
     (let n = (case opens (fst p) of None \<Rightarrow> 0 | Some n \<Rightarrow> n) in
      if op_Window (lg_o l) > 0 \<and> n \<ge> op_Window (lg_o l) then l
      else fill_loop l (fst p) now n (backlogLocked l (fst p) now))"

definition fillWindowLocked :: "Ledger \<Rightarrow> (string, ProfileView) table \<Rightarrow> time \<Rightarrow> Ledger" where
  "fillWindowLocked l profiles now = foldl (fill_profile (openCounts l profiles) now) l profiles"

section \<open>Graft slots\<close>

definition DefaultConcurrency :: int where "DefaultConcurrency = 2"

definition graftCandidate :: "GraftFile \<Rightarrow> bool" where
  "graftCandidate f \<longleftrightarrow> gf_Phase f = GraftPhaseWaiting \<and> gf_Reason f = ReasonWaitingForSlot \<and>
     \<not> gf_JoinInFlight f \<and> \<not> gf_Granted f \<and> \<not> gf_OnBackoff f"

definition GraftInUse :: "string \<Rightarrow> GraftFile list \<Rightarrow> (string \<Rightarrow> string list) \<Rightarrow> (string \<Rightarrow> int) \<Rightarrow> int" where
  "GraftInUse ns files jobs grants =
     (let holders = filter (\<lambda>f. fst (gf_Key f) = ns \<and> holdsGraftSlot f) files;
          names = remdups (jobs ns @ map gf_JobName (filter (\<lambda>f. gf_JobName f \<noteq> '''') holders))
      in int (length names) + int (length (filter (\<lambda>f. gf_JobName f = '''') holders)) + grants ns)"

definition graft_picks :: "string \<Rightarrow> GraftFile list \<Rightarrow> (string \<Rightarrow> string list) \<Rightarrow> (string \<Rightarrow> int) \<Rightarrow> int \<Rightarrow> GraftFile list" where
  "graft_picks ns files jobs grants limit =
     take (nat (limit - GraftInUse ns files jobs grants))
       (sort_key (\<lambda>f. (gf_DonorImportedAt f, nn_String (gf_Key f))) (filter (\<lambda>f. graftCandidate f \<and> fst (gf_Key f) = ns) files))"

definition GraftGrants :: "GraftFile list \<Rightarrow> (string \<Rightarrow> string list) \<Rightarrow> (string \<Rightarrow> int) \<Rightarrow> int \<Rightarrow> string list" where
  "GraftGrants files jobs grants limit0 =
     (let limit = (if limit0 \<le> 0 then DefaultConcurrency else limit0)
      in concat (map (\<lambda>ns. map gf_UID (graft_picks ns files jobs grants limit))
           (sort (remdups (map (fst \<circ> gf_Key) (filter graftCandidate files))))))"

definition graftRelevant :: "GraftPhase \<Rightarrow> bool" where
  "graftRelevant p \<longleftrightarrow> p = GraftPhaseWaiting \<or> p = GraftPhaseQueued \<or> p = GraftPhaseRunning"

definition graft_file :: "Ledger \<Rightarrow> time \<Rightarrow> string \<times> entry \<Rightarrow> GraftFile" where
  "graft_file l now p =
     (let uid = fst p; v = en_view (snd p) in
      \<lparr>gf_UID = uid, gf_Key = fv_Key v, gf_Phase = fv_GraftPhase v, gf_Reason = fv_GraftReason v, gf_JobName = fv_GraftJobName v,
       gf_DonorImportedAt = fv_DonorImportedAt v, gf_JoinInFlight = fv_JoinedGraft v,
       gf_Granted = (map_of (lg_grants l) uid \<noteq> None), gf_OnBackoff = onBackoffLocked l uid now\<rparr>)"

definition graft_files :: "Ledger \<Rightarrow> time \<Rightarrow> GraftFile list" where
  "graft_files l now = map (graft_file l now) (filter (\<lambda>p. graftRelevant (fv_GraftPhase (en_view (snd p)))) (lg_files l))"

definition graft_grants :: "Ledger \<Rightarrow> time \<Rightarrow> string \<Rightarrow> int" where
  "graft_grants l now ns =
     int (length (filter (\<lambda>(uid, g). gr_kind g = GrantGraftSlot \<and> live_grant now g \<and>
       (case map_of (lg_files l) uid of None \<Rightarrow> False | Some e \<Rightarrow> fst (fv_Key (en_view e)) = ns)) (lg_grants l)))"

definition grant_graft :: "time \<Rightarrow> Ledger \<Rightarrow> string \<Rightarrow> Ledger" where
  "grant_graft now l uid =
     (case map_of (lg_files l) uid of
        None \<Rightarrow> l
      | Some e \<Rightarrow> grantLocked l uid (fv_Key (en_view e)) GrantGraftSlot '''' '''' now)"

definition grantGraftSlotsLocked :: "Ledger \<Rightarrow> (string \<Rightarrow> string list) \<Rightarrow> time \<Rightarrow> Ledger" where
  "grantGraftSlotsLocked l jobs now =
     foldl (grant_graft now) l (GraftGrants (graft_files l now) jobs (graft_grants l now) (op_GraftConcurrency (lg_o l)))"

section \<open>The pass\<close>

definition unschedulableAfter :: duration where "unschedulableAfter = 10 * minute"

record PassInputs =
  pi_Profiles :: "(string, ProfileView) table"
  pi_GPUNodes :: "string \<Rightarrow> bool"
  pi_Devices :: "string \<Rightarrow> Device"
  pi_Unhealthy :: "(string, string) table"
  pi_Held :: "pool_key \<Rightarrow> string option"
  pi_GraftJobs :: "string \<Rightarrow> string list"
  pi_VideoStreams :: int

definition uidsOf :: "(string, ProfileView) table \<Rightarrow> string \<Rightarrow> string option" where
  "uidsOf profiles name = map_option pv_UID (map_of profiles name)"

definition profileLimits :: "(string, ProfileView) table \<Rightarrow> string \<Rightarrow> int" where
  "profileLimits profiles name =
     (case map_of profiles name of Some p \<Rightarrow> if pv_MaxConcurrent p > 0 then pv_MaxConcurrent p else 0 | None \<Rightarrow> 0)"

definition orphanedLocked :: "(pool_key \<Rightarrow> string) \<Rightarrow> Ledger \<Rightarrow> FileView \<Rightarrow> bool" where
  "orphanedLocked poolName l v =
     (case lg_profileUIDs l (fv_Profile v) of
        None \<Rightarrow> True
      | Some uid \<Rightarrow> fv_Pool v \<noteq> '''' \<and> fv_Pool v \<noteq> poolName (fv_Profile v, uid, fv_Class v))"

definition directive :: "Ledger \<Rightarrow> string \<Rightarrow> nname option \<Rightarrow> int \<Rightarrow> string \<Rightarrow> bool \<Rightarrow> Ledger" where
  "directive l uid key seq reason keepGPU =
     (let l' = l\<lparr>lg_directives := (lg_directives l)(uid \<mapsto>
                  \<lparr>dr_Kind = DirectiveReroute, dr_Seq = seq, dr_Reason = reason, dr_KeepGPU = keepGPU\<rparr>)\<rparr>
      in case key of None \<Rightarrow> l' | Some k \<Rightarrow> enqueueLocked l' k GrantPriority)"

definition reroute_reason :: "(pool_key \<Rightarrow> string) \<Rightarrow> Ledger \<Rightarrow> (string, string) table \<Rightarrow> time \<Rightarrow> FileView \<Rightarrow> string" where
  "reroute_reason poolName l unhealthy now v =
     (let k = (fv_Profile v, str (lg_profileUIDs l (fv_Profile v)), fv_Class v) in
      if pool_unschedulable l k now
      then ''GPU pool '' @ poolName k @ '' unschedulable for '' @ fmt_d (quot unschedulableAfter minute) @ ''m''
      else str (map_of unhealthy (fv_Class v)))"

definition reroute_one :: "(pool_key \<Rightarrow> string) \<Rightarrow> (string, string) table \<Rightarrow> time \<Rightarrow> Ledger \<Rightarrow> string \<times> entry \<Rightarrow> Ledger" where
  "reroute_one poolName unhealthy now l p =
     (let uid = fst p; v = en_view (snd p) in
      if fv_Phase v \<noteq> TranscodePhaseQueued \<or> fv_Suspended v \<or> \<not> choosesClass v \<or> fv_Class v = HardwareCPU \<or> fv_Class v = '''' then l
      else if (case lg_directives l uid of Some d \<Rightarrow> dr_Seq d = fv_DispatchSeq v | None \<Rightarrow> False) then l
      else let reason = reroute_reason poolName l unhealthy now v in
           if reason = '''' then l else directive l uid (Some (fv_Key v)) (fv_DispatchSeq v) reason (gpuOnly v))"

definition rerouteLocked :: "(pool_key \<Rightarrow> string) \<Rightarrow> Ledger \<Rightarrow> (string, string) table \<Rightarrow> time \<Rightarrow> Ledger" where
  "rerouteLocked poolName l unhealthy now = foldl (reroute_one poolName unhealthy now) l (lg_files l)"

definition Reroute :: "Ledger \<Rightarrow> string \<Rightarrow> int \<Rightarrow> string \<Rightarrow> bool \<Rightarrow> Ledger" where
  "Reroute l uid seq reason keepGPU =
     directive l uid (map_option (\<lambda>e. fv_Key (en_view e)) (map_of (lg_files l) uid)) seq reason keepGPU"

definition held_slot :: "(pool_key \<Rightarrow> string) \<Rightarrow> Ledger \<Rightarrow> entry \<Rightarrow> bool" where
  "held_slot poolName l e \<longleftrightarrow> slotPhase (fv_Phase (en_view e)) \<and> \<not> orphanedLocked poolName l (en_view e)"

definition competes :: "Ledger \<Rightarrow> (string, ProfileView) table \<Rightarrow> time \<Rightarrow> string \<times> entry \<Rightarrow> bool" where
  "competes l profiles now p \<longleftrightarrow>
     (let uid = fst p; v = en_view (snd p) in
      fv_Phase v = TranscodePhasePlanned \<and> map_of profiles (fv_Profile v) \<noteq> None \<and> \<not> fv_Suspended v \<and>
      \<not> (fv_NextAttemptAt v \<noteq> 0 \<and> fv_NextAttemptAt v > now) \<and> map_of (lg_grants l) uid = None \<and>
      \<not> onBackoffLocked l uid now \<and> \<not> (fv_EligibleKnown v \<and> \<not> fv_Eligible v) \<and> lg_directives l uid = None)"

definition candidate_at :: "(string, ProfileView) table \<Rightarrow> string \<times> entry \<Rightarrow> candidate" where
  "candidate_at profiles p =
     (let v = en_view (snd p);
          prio = (if fv_Priority v = 0 then (case map_of profiles (fv_Profile v) of Some q \<Rightarrow> pv_Priority q | None \<Rightarrow> 0) else fv_Priority v)
      in \<lparr>cd_uid = fst p, cd_v = v,
          cd_slot = \<lparr>sl_Key = en_key (snd p), sl_Hardware = '''', sl_Profile = fv_Profile v, sl_Priority = prio, sl_Created = fv_PlannedAt v\<rparr>\<rparr>)"

definition running_file :: "entry \<Rightarrow> Slot" where
  "running_file e = \<lparr>sl_Key = en_key e, sl_Hardware = fv_Class (en_view e), sl_Profile = fv_Profile (en_view e), sl_Priority = 0, sl_Created = 0\<rparr>"

definition running_grant :: "string \<times> grant \<Rightarrow> Slot" where
  "running_grant p = \<lparr>sl_Key = fst p, sl_Hardware = gr_class (snd p), sl_Profile = gr_profile (snd p), sl_Priority = 0, sl_Created = 0\<rparr>"

definition held_grant :: "Ledger \<Rightarrow> time \<Rightarrow> string \<times> grant \<Rightarrow> bool" where
  "held_grant l now p \<longleftrightarrow>
     gr_kind (snd p) = GrantDispatch \<and> live_grant now (snd p) \<and>
     \<not> (case map_of (lg_files l) (fst p) of None \<Rightarrow> False | Some e \<Rightarrow> slotPhase (fv_Phase (en_view e)))"

definition candidatesLocked :: "(pool_key \<Rightarrow> string) \<Rightarrow> Ledger \<Rightarrow> (string, ProfileView) table \<Rightarrow> time \<Rightarrow> candidate list \<times> Slot list" where
  "candidatesLocked poolName l profiles now =
     (map (candidate_at profiles) (filter (competes l profiles now) (lg_files l)),
      map running_file (filter (held_slot poolName l) (map snd (lg_files l))) @
      map running_grant (filter (held_grant l now) (lg_grants l)))"

definition grant_slot :: "(string, candidate) table \<Rightarrow> time \<Rightarrow> Ledger \<Rightarrow> Slot \<Rightarrow> Ledger" where
  "grant_slot byKey now l s =
     (case map_of byKey (sl_Key s) of
        None \<Rightarrow> l
      | Some c \<Rightarrow>
          let l' = grantLocked l (cd_uid c) (fv_Key (cd_v c)) GrantDispatch (sl_Hardware s) (fv_Profile (cd_v c)) now
          in l'\<lparr>lg_waits := (lg_waits l')(cd_uid c := zero_wait)\<rparr>)"

definition grantDispatchLocked :: "Ledger \<Rightarrow> candidate list \<Rightarrow> Slot list \<Rightarrow> time \<Rightarrow> Ledger" where
  "grantDispatchLocked l queued admitted now =
     foldl (grant_slot (rev (map (\<lambda>c. (sl_Key (cd_slot c), c)) queued)) now) l admitted"

definition set_wait :: "Ledger \<Rightarrow> string \<Rightarrow> nname \<Rightarrow> wait \<Rightarrow> Ledger" where
  "set_wait l uid key w =
     (if lg_waits l uid = w then l else enqueueLocked (l\<lparr>lg_waits := (lg_waits l)(uid := w)\<rparr>) key GrantPriority)"

definition wait_hold :: "string \<Rightarrow> Ledger \<Rightarrow> hold \<Rightarrow> Ledger" where
  "wait_hold yielding l h =
     (case map_of (lg_files l) (hd_uid h) of
        None \<Rightarrow> l
      | Some e \<Rightarrow>
          set_wait l (hd_uid h) (fv_Key (en_view e))
            \<lparr>wt_reason = (if yielding \<noteq> '''' \<and> hd_msg h = WaitingForGPU then yielding else hd_msg h), wt_cause = hd_cause h\<rparr>)"

definition wait_queued :: "string \<Rightarrow> Slot list \<Rightarrow> Ledger \<Rightarrow> candidate \<Rightarrow> Ledger" where
  "wait_queued yielding admitted l c =
     (if sl_Key (cd_slot c) \<in> sl_Key ` set admitted then l
      else set_wait l (cd_uid c) (fv_Key (cd_v c))
             \<lparr>wt_reason = (if yielding \<noteq> '''' \<and> sl_Hardware (cd_slot c) = HardwareIntel then yielding
                           else ''waiting for a free '' @ sl_Hardware (cd_slot c) @ '' slot''), wt_cause = ReasonWaitingForSlot\<rparr>)"

definition waitReasonsLocked :: "Ledger \<Rightarrow> candidate list \<Rightarrow> Slot list \<Rightarrow> hold list \<Rightarrow> string \<Rightarrow> Ledger" where
  "waitReasonsLocked l queued admitted holds yielding =
     foldl (wait_queued yielding admitted) (foldl (wait_hold yielding) l holds) queued"

definition wakeProfileLocked :: "Ledger \<Rightarrow> string \<Rightarrow> Ledger" where
  "wakeProfileLocked l name = (if length (lg_profileWake l) < 64 then l\<lparr>lg_profileWake := lg_profileWake l @ [name]\<rparr> else l)"

text \<open>Of \<^verbatim>\<open>metricsLocked\<close>, what changes the ledger: the count of each pool, and a wake for each profile one of whose counts changed.\<close>

definition metricsLocked :: "(pool_key \<Rightarrow> string) \<Rightarrow> Ledger \<Rightarrow> Ledger" where
  "metricsLocked poolName l =
     (let new = dispatchedLocked poolName l; old = lg_dispatched l;
          woken = remdups (map (fst \<circ> fst) (filter (\<lambda>(k, n). (case map_of old k of None \<Rightarrow> 0 | Some m \<Rightarrow> m) \<noteq> n) new) @
                           map (fst \<circ> fst) (filter (\<lambda>(k, n). map_of new k = None) old))
      in foldl wakeProfileLocked (l\<lparr>lg_dispatched := new\<rparr>) woken)"

definition soon :: "time \<Rightarrow> time \<Rightarrow> time \<Rightarrow> time" where
  "soon now next t = (if t > now \<and> t < next then t else next)"

definition wake_times :: "Ledger \<Rightarrow> time list" where
  "wake_times l =
     map (\<lambda>(uid, e). fv_NextAttemptAt (en_view e)) (filter (\<lambda>(uid, e). fv_Phase (en_view e) = TranscodePhasePlanned) (lg_files l)) @
     map (\<lambda>(uid, g). gr_expires g) (filter (\<lambda>(uid, g). \<not> gr_inUse g) (lg_grants l)) @
     map (\<lambda>(uid, b). bk_until b) (lg_backoffs l) @
     concat (map (\<lambda>(k, p). [ps_UnschedulableUntil p, ps_BackoffUntil p]) (lg_pools l))"

definition nextWakeLocked :: "Ledger \<Rightarrow> time \<Rightarrow> duration" where
  "nextWakeLocked l now = max (foldl (soon now) (now + admissionBackstop) (wake_times l) - now) second"

definition slots_of :: "(string \<Rightarrow> int option) \<Rightarrow> string \<Rightarrow> int" where
  "slots_of m h = (case m h of None \<Rightarrow> 0 | Some n \<Rightarrow> n)"

text \<open>The budget of a pass: while another program converts video, new encodes on the Intel GPU fit on the engines it leaves.\<close>

definition budget_of :: "Options \<Rightarrow> PassInputs \<Rightarrow> (string \<Rightarrow> int option) \<times> string" where
  "budget_of o' i =
     (case op_Slots o' HardwareIntel of
        Some n \<Rightarrow>
          if pi_VideoStreams i > 0
          then let beside = min n (VideoAllowance (videoEngines (pi_Devices i HardwareIntel)) (pi_VideoStreams i))
               in ((op_Slots o')(HardwareIntel \<mapsto> beside), yieldMessage (pi_VideoStreams i) beside)
          else (op_Slots o', '''')
      | None \<Rightarrow> (op_Slots o', ''''))"

definition hold_unhealthy :: "(string, ProfileView) table \<Rightarrow> (pool_key \<Rightarrow> string option) \<Rightarrow> string \<times> string \<Rightarrow> pool_key \<Rightarrow> string option" where
  "hold_unhealthy profiles held cm k =
     (if snd (snd k) = fst cm \<and> (\<exists>p \<in> snd ` set profiles. pv_Name p = fst k \<and> pv_UID p = fst (snd k)) \<and> str (held k) = ''''
      then Some (snd cm) else held k)"

definition Pass :: "(pool_key \<Rightarrow> string) \<Rightarrow> Ledger \<Rightarrow> PassInputs \<Rightarrow> time \<Rightarrow> Ledger \<times> duration" where
  "Pass poolName l0 i now =
     (let l = expireLocked (l0\<lparr>lg_devices := pi_Devices i, lg_profileUIDs := uidsOf (pi_Profiles i)\<rparr>) now in
      if \<not> lg_rebuilt l then (l, admissionBackstop)
      else
        let held = foldl (hold_unhealthy (pi_Profiles i)) (pi_Held i) (pi_Unhealthy i);
            gpu = (\<lambda>c. pi_GPUNodes i c \<and> map_of (pi_Unhealthy i) c = None);
            l = rerouteLocked poolName l (pi_Unhealthy i) now;
            (cands, running) = candidatesLocked poolName l (pi_Profiles i) now;
            limits = profileLimits (pi_Profiles i);
            (budget, yielding) = budget_of (lg_o l) i;
            (queued, holds) = assignClasses cands running gpu (unschedulableLocked l now) held
                                (\<lambda>name. str (lg_profileUIDs l name)) limits (slots_of budget);
            admitted = Admit (map cd_slot queued) running \<lparr>bd_Slots = slots_of budget, bd_ProfileLimits = limits\<rparr>;
            l = grantDispatchLocked l queued admitted now;
            l = waitReasonsLocked l queued admitted holds yielding;
            l = fillWindowLocked l (pi_Profiles i) now;
            l = grantGraftSlotsLocked l (pi_GraftJobs i) now;
            l = metricsLocked poolName l
        in (l, nextWakeLocked l now))"

end
