(* ===== verification/TranscodeSafety.thy ===== *)
theory TranscodeSafety
  imports TranscodeAdmit
begin

text \<open>
  Transcode admission keeps its budget, fills it, respects the order of the queue and does not depend on the
  order its inputs arrive in; and the class assignment that runs before it predicts it, so a file that
  chooses its class is never sent to a GPU queue it would only wait in.
\<close>

section \<open>The loop\<close>

lemma count_by_simps [simp]:
  "count_by f [] k = 0" "count_by f (x # xs) k = (if f x = k then 1 else 0) + count_by f xs k" "0 \<le> count_by f xs k"
  by (simp_all add: count_by_def)

definition blocked :: "Budget \<Rightarrow> (string \<Rightarrow> int) \<Rightarrow> (string \<Rightarrow> int) \<Rightarrow> Slot \<Rightarrow> bool" where
  "blocked budget used perProfile q \<longleftrightarrow> used (sl_Hardware q) \<ge> bd_Slots budget (sl_Hardware q) \<or>
     bd_ProfileLimits budget (sl_Profile q) > 0 \<and> perProfile (sl_Profile q) \<ge> bd_ProfileLimits budget (sl_Profile q)"

definition added :: "(string \<Rightarrow> int) \<Rightarrow> (Slot \<Rightarrow> string) \<Rightarrow> Slot list \<Rightarrow> string \<Rightarrow> int" where
  "added m f xs k = m k + count_by f xs k"

lemma added_simps [simp]: "added m f [] = m" "added m f (x # xs) = added (m(f x := m (f x) + 1)) f xs"
  by (auto simp: added_def fun_eq_iff)

lemma added_ge: "m k \<le> added m f xs k"
  by (simp add: added_def)

text \<open>With every key once, the loop admits exactly what is not blocked when its turn comes.\<close>

fun admit_fresh :: "Budget \<Rightarrow> (string \<Rightarrow> int) \<Rightarrow> (string \<Rightarrow> int) \<Rightarrow> Slot list \<Rightarrow> Slot list" where
  "admit_fresh budget used perProfile [] = []"
| "admit_fresh budget used perProfile (q # qs) =
     (if blocked budget used perProfile q then admit_fresh budget used perProfile qs
      else q # admit_fresh budget (used(sl_Hardware q := used (sl_Hardware q) + 1))
                 (perProfile(sl_Profile q := perProfile (sl_Profile q) + 1)) qs)"

lemma admit_loop_fresh:
  "distinct (map sl_Key qs) \<Longrightarrow> set (map sl_Key qs) \<inter> set seen = {} \<Longrightarrow> admit_loop budget used pp seen qs = admit_fresh budget used pp qs"
  by (induction qs arbitrary: used pp seen) (auto simp: blocked_def)

lemma admit_fresh_set: "set (admit_fresh budget used pp qs) \<subseteq> set qs"
  by (induction qs arbitrary: used pp) auto

lemma admit_fresh_sublist: "sorted_wrt R qs \<Longrightarrow> sorted_wrt R (admit_fresh budget used pp qs)"
proof (induction qs arbitrary: used pp)
  case (Cons q qs)
  then show ?case using admit_fresh_set by (fastforce)
qed simp

lemma admit_fresh_budget:
  "a \<in> set (admit_fresh budget used pp qs) \<Longrightarrow>
   added used sl_Hardware (admit_fresh budget used pp qs) (sl_Hardware a) \<le> bd_Slots budget (sl_Hardware a) \<and>
   (0 < bd_ProfileLimits budget (sl_Profile a) \<longrightarrow>
      added pp sl_Profile (admit_fresh budget used pp qs) (sl_Profile a) \<le> bd_ProfileLimits budget (sl_Profile a))"
proof (induction qs arbitrary: used pp a)
  case (Cons q qs)
  show ?case
  proof (cases "blocked budget used pp q")
    case False
    let ?u = "used(sl_Hardware q := used (sl_Hardware q) + 1)" and ?p = "pp(sl_Profile q := pp (sl_Profile q) + 1)"
    let ?A = "admit_fresh budget ?u ?p qs"
    have room: "added ?u sl_Hardware ?A (sl_Hardware q) \<le> bd_Slots budget (sl_Hardware q)"
    proof (cases "\<exists>x \<in> set ?A. sl_Hardware x = sl_Hardware q")
      case True
      then show ?thesis using Cons.IH by metis
    next
      case False
      then have "count_by sl_Hardware ?A (sl_Hardware q) = 0" by (simp add: count_by_def filter_empty_conv)
      with \<open>\<not> blocked budget used pp q\<close> show ?thesis by (simp add: added_def blocked_def)
    qed
    have room': "added ?p sl_Profile ?A (sl_Profile q) \<le> bd_ProfileLimits budget (sl_Profile q)" if "0 < bd_ProfileLimits budget (sl_Profile q)"
    proof (cases "\<exists>x \<in> set ?A. sl_Profile x = sl_Profile q")
      case True
      then show ?thesis using Cons.IH that by metis
    next
      case False
      then have "count_by sl_Profile ?A (sl_Profile q) = 0" by (simp add: count_by_def filter_empty_conv)
      with \<open>\<not> blocked budget used pp q\<close> that show ?thesis by (simp add: added_def blocked_def)
    qed
    from Cons.prems False have "a = q \<or> a \<in> set ?A" by simp
    then show ?thesis
    proof
      assume "a = q"
      then show ?thesis using room room' False by simp
    next
      assume "a \<in> set ?A"
      from Cons.IH [OF this] False show ?thesis by (simp del: fun_upd_apply)
    qed
  qed (use Cons in simp)
qed simp

lemma blocked_more: "blocked budget used pp q \<Longrightarrow> blocked budget (added used sl_Hardware xs) (added pp sl_Profile ys) q"
  using added_ge [of used "sl_Hardware q" sl_Hardware xs] added_ge [of pp "sl_Profile q" sl_Profile ys] by (auto simp: blocked_def)

text \<open>What is not admitted is blocked by what is, and what is admitted of its class and profile is ahead of it.\<close>

lemma admit_fresh_refused:
  assumes "q \<in> set qs" and "q \<notin> set (admit_fresh budget used pp qs)"
  shows "blocked budget (added used sl_Hardware (admit_fresh budget used pp qs)) (added pp sl_Profile (admit_fresh budget used pp qs)) q"
  using assms
proof (induction qs arbitrary: used pp)
  case (Cons x qs)
  show ?case
  proof (cases "blocked budget used pp x")
    case True
    with Cons show ?thesis by (cases "q = x") (auto intro: blocked_more)
  qed (use Cons in auto)
qed simp

lemma blocked_none:
  assumes "blocked budget used pp q" and "sl_Hardware a = sl_Hardware q" and "sl_Profile a = sl_Profile q"
  shows "a \<notin> set (admit_fresh budget used pp qs)"
  using assms(1)
proof (induction qs arbitrary: used pp)
  case (Cons x qs)
  have "blocked budget (used(sl_Hardware x := used (sl_Hardware x) + 1)) (pp(sl_Profile x := pp (sl_Profile x) + 1)) q"
    using blocked_more [OF Cons.prems, of "[x]" "[x]"] by simp
  moreover have "blocked budget used pp a" using Cons.prems assms(2,3) by (simp add: blocked_def)
  ultimately show ?case using Cons by auto
qed simp

lemma admit_fresh_order:
  assumes "sorted_wrt R qs" and "a \<in> set (admit_fresh budget used pp qs)" and "q \<in> set qs" and "q \<notin> set (admit_fresh budget used pp qs)"
    and "sl_Hardware a = sl_Hardware q" and "sl_Profile a = sl_Profile q"
  shows "R a q"
  using assms(1-4)
proof (induction qs arbitrary: used pp)
  case (Cons x qs)
  show ?case
  proof (cases "blocked budget used pp x")
    case True
    with Cons show ?thesis using blocked_none [OF _ assms(5,6)] by (cases "q = x") auto
  next
    case False
    with Cons show ?thesis by (cases "a = x") auto
  qed
qed simp

lemma Admit_fresh:
  "distinct (map sl_Key queued) \<Longrightarrow>
   Admit queued running budget = admit_fresh budget (count_by sl_Hardware running) (count_by sl_Profile running) (sort_key admit_key queued)"
proof -
  assume d: "distinct (map sl_Key queued)"
  then have "distinct (map sl_Key (sort_key admit_key queued))" by (simp add: distinct_map)
  then show ?thesis unfolding Admit_def by (rule admit_loop_fresh) simp
qed

lemma admit_keys_sorted:
  assumes "distinct (map sl_Key queued)"
  shows "sorted_wrt (\<lambda>a b. admit_key a < admit_key b) (sort_key admit_key queued)"
proof -
  have "inj_on admit_key (set queued)" "distinct queued" using assms admit_key_inj by (auto simp: distinct_map)
  then have "distinct (map admit_key (sort_key admit_key queued))" by (simp add: distinct_map)
  moreover have "sorted (map admit_key (sort_key admit_key queued))" by simp
  ultimately have "sorted_wrt (<) (map admit_key (sort_key admit_key queued))" by (simp add: strict_sorted_iff)
  then show ?thesis by (simp add: sorted_wrt_map)
qed

text \<open>C20: admission keeps the budget, fills it and respects the queue. For queued transcodes with keys of their own, what
  \<^verbatim>\<open>Admit\<close> returns are some of them, in the order of the queue; every class and every capped profile it
  admits to is, with what already runs, within its budget, even when others were over it before; every
  transcode it leaves is one whose class or profile is full; and of two of one class and profile, one it
  admits and one it leaves, the admitted one was ahead.\<close>

theorem admit_correct:
  assumes "distinct (map sl_Key queued)" and "A = Admit queued running budget"
  shows "set A \<subseteq> set queued \<and> sorted_wrt AdmitsBefore A \<and>
    (\<forall>a \<in> set A. count_by sl_Hardware running (sl_Hardware a) + count_by sl_Hardware A (sl_Hardware a) \<le> bd_Slots budget (sl_Hardware a) \<and>
       (0 < bd_ProfileLimits budget (sl_Profile a) \<longrightarrow>
          count_by sl_Profile running (sl_Profile a) + count_by sl_Profile A (sl_Profile a) \<le> bd_ProfileLimits budget (sl_Profile a))) \<and>
    (\<forall>q \<in> set queued - set A.
       bd_Slots budget (sl_Hardware q) \<le> count_by sl_Hardware running (sl_Hardware q) + count_by sl_Hardware A (sl_Hardware q) \<or>
       0 < bd_ProfileLimits budget (sl_Profile q) \<and>
         bd_ProfileLimits budget (sl_Profile q) \<le> count_by sl_Profile running (sl_Profile q) + count_by sl_Profile A (sl_Profile q)) \<and>
    (\<forall>a \<in> set A. \<forall>q \<in> set queued - set A.
       sl_Hardware a = sl_Hardware q \<and> sl_Profile a = sl_Profile q \<longrightarrow> AdmitsBefore a q)"
proof (intro conjI ballI)
  let ?qs = "sort_key admit_key queued"
  note A = Admit_fresh [OF assms(1), of running budget, folded assms(2)]
  note s = admit_keys_sorted [OF assms(1)]
  show "set A \<subseteq> set queued" using admit_fresh_set [of budget _ _ ?qs] by (simp add: A)
  show "sorted_wrt AdmitsBefore A" using admit_fresh_sublist [OF s] by (simp add: A AdmitsBefore_key [abs_def])
  fix a
  assume a: "a \<in> set A"
  show "count_by sl_Hardware running (sl_Hardware a) + count_by sl_Hardware A (sl_Hardware a) \<le> bd_Slots budget (sl_Hardware a)"
    "0 < bd_ProfileLimits budget (sl_Profile a) \<longrightarrow>
       count_by sl_Profile running (sl_Profile a) + count_by sl_Profile A (sl_Profile a) \<le> bd_ProfileLimits budget (sl_Profile a)"
    using admit_fresh_budget a by (simp_all add: A added_def)
  fix q
  assume q: "q \<in> set queued - set A"
  show "sl_Hardware a = sl_Hardware q \<and> sl_Profile a = sl_Profile q \<longrightarrow> AdmitsBefore a q"
    using admit_fresh_order [OF s, of a] a q by (simp add: A AdmitsBefore_key)
next
  fix q
  assume "q \<in> set queued - set A"
  then show "bd_Slots budget (sl_Hardware q) \<le> count_by sl_Hardware running (sl_Hardware q) + count_by sl_Hardware A (sl_Hardware q) \<or>
       0 < bd_ProfileLimits budget (sl_Profile q) \<and>
         bd_ProfileLimits budget (sl_Profile q) \<le> count_by sl_Profile running (sl_Profile q) + count_by sl_Profile A (sl_Profile q)"
    using admit_fresh_refused [of q "sort_key admit_key queued" budget "count_by sl_Hardware running" "count_by sl_Profile running"]
      Admit_fresh [OF assms(1), of running budget] by (simp add: assms(2) blocked_def added_def)
qed

text \<open>Admission is a function of what is queued and what runs, not of the order they arrive in: two lists of the same
  transcodes, with keys of their own, and two lists of the same running ones give the same answer, in the
  same order.\<close>

theorem admit_any_order:
  assumes "distinct (map sl_Key queued)" and "mset queued' = mset queued" and "mset running' = mset running"
  shows "Admit queued' running' budget = Admit queued running budget"
proof -
  have "inj_on admit_key (set queued)" using assms(1) admit_key_inj by (auto simp: distinct_map)
  then have "sort_key admit_key queued' = sort_key admit_key queued"
    using assms(2) mset_eq_setD [OF assms(2)] by (intro sort_key_inj_key_eq) simp_all
  moreover have "count_by f running' = count_by f running" for f :: "Slot \<Rightarrow> string"
  proof
    fix k
    have "mset (filter (\<lambda>x. f x = k) running') = mset (filter (\<lambda>x. f x = k) running)" using assms(3) by simp
    from mset_eq_length [OF this] show "count_by f running' k = count_by f running k" by (simp add: count_by_def)
  qed
  ultimately show ?thesis by (simp add: Admit_def)
qed

section \<open>The class assignment predicts admission\<close>

lemma admit_key_hardware [simp]: "admit_key (s\<lparr>sl_Hardware := h\<rparr>) = admit_key s"
  by (simp add: admit_key_def)

lemma ChooseClass_free: "ChooseClass gpu un free fb only \<in> set GPUClasses \<Longrightarrow> 0 < free (ChooseClass gpu un free fb only)"
proof -
  assume g: "ChooseClass gpu un free fb only \<in> set GPUClasses"
  let ?usable = "filter (\<lambda>c. gpu c \<and> \<not> un c) GPUClasses"
  have "HardwareCPU \<notin> set GPUClasses" "'''' \<notin> set GPUClasses" by (simp_all add: GPUClasses_def hardware_defs)
  with g obtain c where "find (\<lambda>c. free c > 0) ?usable = Some c" "ChooseClass gpu un free fb only = c"
    by (auto simp: ChooseClass_def Let_def split: if_splits option.splits)
  then show ?thesis by (auto simp: find_Some_iff)
qed

text \<open>One candidate of the assignment: passed over, or queued under its class, taking a slot when it will be admitted.\<close>

lemma assign_cases:
  assumes "assign_loop gpu un held pu limits free pp (c # cs) = (queued, holds)"
  obtains (over) holds' where "assign_loop gpu un held pu limits free pp cs = (queued, holds')"
    | (queue) queued' taken where
      "queued = c\<lparr>cd_slot := (cd_slot c)\<lparr>sl_Hardware := classOf gpu un free c\<rparr>\<rparr> # queued'"
      "taken \<longleftrightarrow> 0 < free (classOf gpu un free c) \<and> (limits (sl_Profile (cd_slot c)) \<le> 0 \<or> pp (sl_Profile (cd_slot c)) < limits (sl_Profile (cd_slot c)))"
      "assign_loop gpu un held pu limits
         (if taken then free(classOf gpu un free c := free (classOf gpu un free c) - 1) else free)
         (if taken then pp(sl_Profile (cd_slot c) := pp (sl_Profile (cd_slot c)) + 1) else pp) cs = (queued', holds)"
proof -
  let ?k = "(fv_Profile (cd_v c), pu (fv_Profile (cd_v c)), classOf gpu un free c)"
  show ?thesis
  proof (cases "classOf gpu un free c = '''' \<or> held ?k \<noteq> None")
    case True
    then have "\<exists>holds'. assign_loop gpu un held pu limits free pp cs = (queued, holds')"
      using assms by (auto simp: Let_def split: if_splits option.splits prod.splits)
    then show ?thesis using over by blast
  next
    case False
    define taken where "taken \<longleftrightarrow> 0 < free (classOf gpu un free c) \<and>
      (limits (sl_Profile (cd_slot c)) \<le> 0 \<or> pp (sl_Profile (cd_slot c)) < limits (sl_Profile (cd_slot c)))"
    obtain Q H where r: "assign_loop gpu un held pu limits
         (if taken then free(classOf gpu un free c := free (classOf gpu un free c) - 1) else free)
         (if taken then pp(sl_Profile (cd_slot c) := pp (sl_Profile (cd_slot c)) + 1) else pp) cs = (Q, H)" by (meson surj_pair)
    have "queued = c\<lparr>cd_slot := (cd_slot c)\<lparr>sl_Hardware := classOf gpu un free c\<rparr>\<rparr> # Q" "holds = H"
      using assms False r by (simp_all add: Let_def flip: taken_def)
    with queue taken_def r show ?thesis by blast
  qed
qed

lemma assign_sorted:
  assumes "assign_loop gpu un held pu limits free pp cs = (queued, holds)" and "sorted_wrt R (map f cs)"
    and f: "\<And>x h. f (x\<lparr>cd_slot := (cd_slot x)\<lparr>sl_Hardware := h\<rparr>\<rparr>) = f x"
  shows "sorted_wrt R (map f queued) \<and> f ` set queued \<subseteq> f ` set cs"
  using assms(1,2)
proof (induction cs arbitrary: free pp queued holds)
  case (Cons c cs)
  from Cons.prems(1) show ?case
  proof (cases rule: assign_cases)
    case (over holds')
    from Cons.IH [OF this] Cons.prems(2) show ?thesis by auto
  next
    case (queue queued' taken)
    have s: "sorted_wrt R (map f cs)" using Cons.prems(2) by simp
    have IH: "sorted_wrt R (map f queued')" "f ` set queued' \<subseteq> f ` set cs" using Cons.IH [OF queue(3) s] by blast+
    have "R (f c) (f x)" if "x \<in> set queued'" for x using that IH(2) Cons.prems(2) by (auto simp: image_subset_iff image_iff)
    with IH show ?thesis by (auto simp: queue(1) f)
  qed
qed simp

lemma distinct_sorted_wrt: "distinct xs \<longleftrightarrow> sorted_wrt (\<noteq>) xs"
  by (induction xs) auto

definition profile_full :: "(string \<Rightarrow> int) \<Rightarrow> (string \<Rightarrow> int) \<Rightarrow> Slot list \<Rightarrow> string \<Rightarrow> bool" where
  "profile_full limits pp A p \<longleftrightarrow> 0 < limits p \<and> limits p \<le> added pp sl_Profile A p"

lemma assign_predicts:
  assumes "assign_loop gpu un held pu limits free pp cs = (queued, holds)"
    and "\<And>h. free h = slots h - used h" and "c \<in> set queued" and "choosesClass (cd_v c)" and "fv_Encodes (cd_v c)"
    and "sl_Hardware (cd_slot c) \<in> set GPUClasses"
  defines "A \<equiv> admit_fresh \<lparr>bd_Slots = slots, bd_ProfileLimits = limits\<rparr> used pp (map cd_slot queued)"
  shows "cd_slot c \<in> set A \<or> profile_full limits pp A (sl_Profile (cd_slot c))"
  using assms(1-3) unfolding A_def
proof (induction cs arbitrary: free used pp queued holds)
  case (Cons x cs)
  let ?B = "\<lparr>bd_Slots = slots, bd_ProfileLimits = limits\<rparr>"
  from Cons.prems(1) show ?case
  proof (cases rule: assign_cases)
    case (over holds')
    from Cons.IH [OF this Cons.prems(2,3)] show ?thesis .
  next
    case (queue queued' taken)
    let ?h = "classOf gpu un free x" and ?p = "sl_Profile (cd_slot x)"
    let ?x = "x\<lparr>cd_slot := (cd_slot x)\<lparr>sl_Hardware := ?h\<rparr>\<rparr>"
    have blk: "blocked ?B used pp (cd_slot ?x) \<longleftrightarrow> \<not> taken" using queue(2) Cons.prems(2) [of ?h] by (auto simp: blocked_def)
    show ?thesis
    proof (cases taken)
      case True
      have f: "(free(?h := free ?h - 1)) h = slots h - (used(?h := used ?h + 1)) h" for h using Cons.prems(2) by simp
      have r: "assign_loop gpu un held pu limits (free(?h := free ?h - 1)) (pp(?p := pp ?p + 1)) cs = (queued', holds)"
        using queue(3) True by simp
      have A: "admit_fresh ?B used pp (map cd_slot queued) =
          cd_slot ?x # admit_fresh ?B (used(?h := used ?h + 1)) (pp(?p := pp ?p + 1)) (map cd_slot queued')"
        using True blk by (simp add: queue(1) del: fun_upd_apply)
      show ?thesis
      proof (cases "c = ?x")
        case False
        with Cons.prems(3) queue(1) have "c \<in> set queued'" by simp
        from Cons.IH [OF r f this] show ?thesis unfolding A by (auto simp: profile_full_def simp del: fun_upd_apply)
      qed (simp add: A)
    next
      case False
      have r: "assign_loop gpu un held pu limits free pp cs = (queued', holds)" using queue(3) False by simp
      have A: "admit_fresh ?B used pp (map cd_slot queued) = admit_fresh ?B used pp (map cd_slot queued')"
        using False blk by (simp add: queue(1))
      show ?thesis
      proof (cases "c = ?x")
        case True
        then have "?h \<in> set GPUClasses" "?h = ChooseClass gpu (un (fv_Profile (cd_v x))) free (fv_Fallback (cd_v x)) (gpuOnly (cd_v x))"
          using assms(4-6) by (simp_all add: classOf_def)
        then have "0 < free ?h" using ChooseClass_free by metis
        with False queue(2) have "0 < limits ?p" "limits ?p \<le> pp ?p" by auto
        then have "profile_full limits pp (admit_fresh ?B used pp (map cd_slot queued)) ?p"
          using added_ge [of pp ?p sl_Profile] by (auto simp: profile_full_def intro: order_trans)
        then show ?thesis by (simp add: True)
      next
        case False
        with Cons.prems(3) queue(1) have "c \<in> set queued'" by simp
        from Cons.IH [OF r Cons.prems(2) this] show ?thesis unfolding A .
      qed
    qed
  qed
qed simp

text \<open>The class assignment predicts admission. A file that chooses its class per dispatch and is sent to a GPU class is
  admitted by the \<^verbatim>\<open>Admit\<close> of the same pass, on what \<^verbatim>\<open>assignClasses\<close> queued and with the same budget,
  unless its profile is at its cap: it is never sent to a GPU whose slots are gone while the CPU could
  have taken it, whatever ran before and whoever was ahead.\<close>

theorem assignment_predicts_admission:
  assumes "distinct (map (sl_Key \<circ> cd_slot) cands)"
    and "assignClasses cands running gpu unschedulable held profileUIDs limits slots = (queued, holds)"
    and "c \<in> set queued" and "choosesClass (cd_v c)" and "fv_Encodes (cd_v c)" and "sl_Hardware (cd_slot c) \<in> {HardwareNVIDIA, HardwareIntel}"
    and "A = Admit (map cd_slot queued) running \<lparr>bd_Slots = slots, bd_ProfileLimits = limits\<rparr>"
  shows "cd_slot c \<in> set A \<or>
    0 < limits (sl_Profile (cd_slot c)) \<and>
    limits (sl_Profile (cd_slot c)) \<le> count_by sl_Profile running (sl_Profile (cd_slot c)) + count_by sl_Profile A (sl_Profile (cd_slot c))"
proof -
  let ?cs = "sort_key (admit_key \<circ> cd_slot) cands"
  note r = assms(2) [unfolded assignClasses_def]
  have "inj_on (admit_key \<circ> cd_slot) (set cands)" "distinct cands" using assms(1) by (auto simp: distinct_map inj_on_def admit_key_def)
  then have "distinct (map (admit_key \<circ> cd_slot) ?cs)" by (simp add: distinct_map)
  moreover have "sorted (map (admit_key \<circ> cd_slot) ?cs)" by simp
  ultimately have "sorted_wrt (<) (map (admit_key \<circ> cd_slot) ?cs)" by (simp add: strict_sorted_iff)
  then have s: "sorted_wrt (<) (map admit_key (map cd_slot queued))" using assign_sorted [OF r, of "(<)" "admit_key \<circ> cd_slot"] by simp
  then have sorted: "sort_key admit_key (map cd_slot queued) = map cd_slot queued"
    by (intro sort_key_id_if_sorted) (simp only: strict_sorted_iff)
  have "sorted_wrt (\<noteq>) (map (sl_Key \<circ> cd_slot) ?cs)" using assms(1) by (simp add: distinct_map flip: distinct_sorted_wrt)
  then have keys: "distinct (map sl_Key (map cd_slot queued))" using assign_sorted [OF r, of "(\<noteq>)" "sl_Key \<circ> cd_slot"] by (simp add: distinct_sorted_wrt)
  have A: "A = admit_fresh \<lparr>bd_Slots = slots, bd_ProfileLimits = limits\<rparr> (count_by sl_Hardware running) (count_by sl_Profile running)
      (map cd_slot queued)"
    using Admit_fresh [OF keys] assms(7) sorted by simp
  have g: "sl_Hardware (cd_slot c) \<in> set GPUClasses" using assms(6) by (simp add: GPUClasses_def)
  from assign_predicts [OF r _ assms(3-5) g, of slots "count_by sl_Hardware running"] show ?thesis
    by (auto simp: A profile_full_def added_def)
qed

section \<open>Samples\<close>

definition sample_slot :: "string \<Rightarrow> string \<Rightarrow> int \<Rightarrow> Slot" where
  "sample_slot k h p = \<lparr>sl_Key = k, sl_Hardware = h, sl_Profile = ''hd'', sl_Priority = p, sl_Created = 7\<rparr>"

definition sample_budget :: Budget where
  "sample_budget = \<lparr>bd_Slots = (\<lambda>h. if h = HardwareNVIDIA then 2 else if h = HardwareCPU then 1 else 0), bd_ProfileLimits = (\<lambda>_. 3)\<rparr>"

definition sample_queue :: "Slot list" where
  "sample_queue = [sample_slot ''a'' HardwareNVIDIA 1, sample_slot ''b'' HardwareNVIDIA 5, sample_slot ''c'' HardwareCPU 0]"

theorem admit_correct_witness:
  "Admit sample_queue [sample_slot ''z'' HardwareNVIDIA 0] sample_budget =
     [sample_slot ''b'' HardwareNVIDIA 5, sample_slot ''c'' HardwareCPU 0] \<and>
   bd_Slots sample_budget HardwareNVIDIA \<le> count_by sl_Hardware [sample_slot ''z'' HardwareNVIDIA 0] HardwareNVIDIA +
     count_by sl_Hardware [sample_slot ''b'' HardwareNVIDIA 5, sample_slot ''c'' HardwareCPU 0] HardwareNVIDIA"
proof -
  have A: "Admit sample_queue [sample_slot ''z'' HardwareNVIDIA 0] sample_budget =
      [sample_slot ''b'' HardwareNVIDIA 5, sample_slot ''c'' HardwareCPU 0]" by code_simp
  have "distinct (map sl_Key sample_queue)" by code_simp
  from admit_correct [OF this A [symmetric]] A show ?thesis
    by (simp add: sample_queue_def sample_slot_def sample_budget_def hardware_defs)
qed

theorem admit_any_order_witness:
  "Admit (rev sample_queue) [] sample_budget = Admit sample_queue [] sample_budget"
proof -
  have "distinct (map sl_Key sample_queue)" by code_simp
  then show ?thesis by (rule admit_any_order) simp_all
qed

definition sample_candidate :: "string \<Rightarrow> string \<Rightarrow> candidate" where
  "sample_candidate k h = \<lparr>cd_uid = k, cd_v = zero_FileView\<lparr>fv_Profile := ''hd'', fv_Hardware := h, fv_Encodes := True,
     fv_Encoder := ''hevc_nvenc''\<rparr>, cd_slot = sample_slot k '''' 1\<rparr>"

definition sample_assigned :: "candidate list \<times> hold list" where
  "sample_assigned = assignClasses [sample_candidate ''a'' ''auto'', sample_candidate ''b'' ''gpu''] [sample_slot ''z'' HardwareNVIDIA 0]
     (\<lambda>_. True) (\<lambda>_ _. False) (\<lambda>_. None) (\<lambda>_. ''u'') (bd_ProfileLimits sample_budget) (bd_Slots sample_budget)"

theorem assignment_predicts_admission_witness:
  "\<exists>c. c \<in> set (fst sample_assigned) \<and> sl_Hardware (cd_slot c) = HardwareNVIDIA \<and>
     cd_slot c \<in> set (Admit (map cd_slot (fst sample_assigned)) [sample_slot ''z'' HardwareNVIDIA 0] sample_budget)"
proof -
  let ?c = "(sample_candidate ''a'' ''auto'')\<lparr>cd_slot := sample_slot ''a'' HardwareNVIDIA 1\<rparr>"
  let ?A = "Admit (map cd_slot (fst sample_assigned)) [sample_slot ''z'' HardwareNVIDIA 0] sample_budget"
  have r: "assignClasses [sample_candidate ''a'' ''auto'', sample_candidate ''b'' ''gpu''] [sample_slot ''z'' HardwareNVIDIA 0]
     (\<lambda>_. True) (\<lambda>_ _. False) (\<lambda>_. None) (\<lambda>_. ''u'') (bd_ProfileLimits sample_budget) (bd_Slots sample_budget) =
     (fst sample_assigned, snd sample_assigned)" by (simp add: sample_assigned_def)
  have "distinct (map (sl_Key \<circ> cd_slot) [sample_candidate ''a'' ''auto'', sample_candidate ''b'' ''gpu''])" by code_simp
  moreover have b: "\<lparr>bd_Slots = bd_Slots sample_budget, bd_ProfileLimits = bd_ProfileLimits sample_budget\<rparr> = sample_budget"
    by (simp add: sample_budget_def)
  ultimately have p: "?c \<in> set (fst sample_assigned) \<Longrightarrow> choosesClass (cd_v ?c) \<Longrightarrow> fv_Encodes (cd_v ?c) \<Longrightarrow>
      sl_Hardware (cd_slot ?c) = HardwareNVIDIA \<Longrightarrow> cd_slot ?c \<in> set ?A \<or>
      bd_ProfileLimits sample_budget (sl_Profile (cd_slot ?c)) \<le>
        count_by sl_Profile [sample_slot ''z'' HardwareNVIDIA 0] (sl_Profile (cd_slot ?c)) + count_by sl_Profile ?A (sl_Profile (cd_slot ?c))"
    using assignment_predicts_admission [OF _ r, of ?c ?A, unfolded b] by blast
  have "?c \<in> set (fst sample_assigned)" "choosesClass (cd_v ?c)" "fv_Encodes (cd_v ?c)" "sl_Hardware (cd_slot ?c) = HardwareNVIDIA"
    "\<not> bd_ProfileLimits sample_budget ''hd'' \<le> count_by sl_Profile [sample_slot ''z'' HardwareNVIDIA 0] ''hd'' + count_by sl_Profile ?A ''hd''"
    by code_simp+
  moreover have "sl_Profile (cd_slot ?c) = ''hd''" by code_simp
  ultimately show ?thesis using p by (intro exI [of _ ?c]) auto
qed

end
