(* ===== verification/TranscodeBudget.thy ===== *)
theory TranscodeBudget
  imports TranscodePass TranscodeSafety
begin

text \<open>
  What the admission ledger keeps: its well-formedness, and the slots. A file holds a slot of its class through its
  Queued or Running block, unless its pool is gone, or through a live dispatch grant; \<open>slot_of\<close> says which. Every method but the pass
  can only free slots (the locale \<open>frees_slots\<close>, interpreted on each of them), and a pass takes no slot past the
  budget, so no interleaving of the remediation loop with the passes does.
\<close>

section \<open>Well-formedness\<close>

definition ledger_wf :: "Ledger \<Rightarrow> bool" where
  "ledger_wf l \<longleftrightarrow>
     table_ok (lg_files l) \<and> table_ok (lg_grants l) \<and> table_ok (lg_backoffs l) \<and>
     (\<forall>u e. map_of (lg_files l) u = Some e \<longrightarrow>
        fv_UID (en_view e) = u \<and> en_key e = nn_String (fv_Key (en_view e)) \<and> CHR ''/'' \<notin> set (fst (fv_Key (en_view e))) \<and>
        lg_byKey l (fv_Key (en_view e)) = Some u) \<and>
     (\<forall>k u. lg_byKey l k = Some u \<longrightarrow> (\<exists>e. map_of (lg_files l) u = Some e \<and> fv_Key (en_view e) = k)) \<and>
     (\<forall>u. map_of (lg_grants l) u \<noteq> None \<longrightarrow> map_of (lg_files l) u \<noteq> None) \<and>
     (\<forall>u. map_of (lg_backoffs l) u \<noteq> None \<longrightarrow> map_of (lg_files l) u \<noteq> None)"

lemma wf_tables: "ledger_wf l \<Longrightarrow> table_ok (lg_files l)" "ledger_wf l \<Longrightarrow> table_ok (lg_grants l)" "ledger_wf l \<Longrightarrow> table_ok (lg_backoffs l)"
  by (simp_all add: ledger_wf_def)

lemma wf_entry:
  assumes "ledger_wf l" and "map_of (lg_files l) u = Some e"
  shows "fv_UID (en_view e) = u" "en_key e = nn_String (fv_Key (en_view e))" "CHR ''/'' \<notin> set (fst (fv_Key (en_view e)))"
    "lg_byKey l (fv_Key (en_view e)) = Some u"
  using assms unfolding ledger_wf_def by blast+

lemma wf_key: "ledger_wf l \<Longrightarrow> lg_byKey l k = Some u \<Longrightarrow> \<exists>e. map_of (lg_files l) u = Some e \<and> fv_Key (en_view e) = k"
  unfolding ledger_wf_def by blast

lemma wf_granted: "ledger_wf l \<Longrightarrow> map_of (lg_grants l) u = Some g \<Longrightarrow> \<exists>e. map_of (lg_files l) u = Some e"
  unfolding ledger_wf_def by blast

lemma wf_backed: "ledger_wf l \<Longrightarrow> map_of (lg_backoffs l) u = Some b \<Longrightarrow> \<exists>e. map_of (lg_files l) u = Some e"
  unfolding ledger_wf_def by blast

text \<open>Only the files, the keys, the grants and the backoffs are constrained.\<close>

lemma wf_cong:
  "ledger_wf l \<Longrightarrow> lg_files l' = lg_files l \<Longrightarrow> lg_byKey l' = lg_byKey l \<Longrightarrow> lg_grants l' = lg_grants l \<Longrightarrow>
   lg_backoffs l' = lg_backoffs l \<Longrightarrow> ledger_wf l'"
  unfolding ledger_wf_def by simp

lemma wf_change:
  assumes "ledger_wf l" and "lg_files l' = lg_files l" and "lg_byKey l' = lg_byKey l" and "table_ok (lg_grants l')" and "table_ok (lg_backoffs l')"
    and "\<And>u. map_of (lg_grants l') u \<noteq> None \<Longrightarrow> map_of (lg_files l) u \<noteq> None"
    and "\<And>u. map_of (lg_backoffs l') u \<noteq> None \<Longrightarrow> map_of (lg_files l) u \<noteq> None"
  shows "ledger_wf l'"
  using assms(1) unfolding ledger_wf_def by (simp add: assms(2-))

lemma nn_String_inj: "CHR ''/'' \<notin> set (fst a) \<Longrightarrow> CHR ''/'' \<notin> set (fst b) \<Longrightarrow> nn_String a = nn_String b \<Longrightarrow> a = b"
proof -
  assume n: "CHR ''/'' \<notin> set (fst a)" "CHR ''/'' \<notin> set (fst b)" and "nn_String a = nn_String b"
  then have eq: "fst a @ CHR ''/'' # snd a = fst b @ CHR ''/'' # snd b" by (simp add: nn_String_def)
  have "takeWhile (\<lambda>c. c \<noteq> CHR ''/'') (fst a @ CHR ''/'' # snd a) = fst a"
    "takeWhile (\<lambda>c. c \<noteq> CHR ''/'') (fst b @ CHR ''/'' # snd b) = fst b"
    using n by (auto simp: takeWhile_append)
  with eq have "fst a = fst b" by metis
  with eq show "a = b" by (simp add: prod_eq_iff)
qed

lemma wf_keys_inj:
  assumes "ledger_wf l" and "map_of (lg_files l) u = Some e" and "map_of (lg_files l) u' = Some e'" and "en_key e = en_key e'"
  shows "u = u'"
proof -
  note e = wf_entry [OF assms(1,2)] and e' = wf_entry [OF assms(1,3)]
  from e(2) e'(2) assms(4) have "nn_String (fv_Key (en_view e)) = nn_String (fv_Key (en_view e'))" by simp
  with e(3) e'(3) have "fv_Key (en_view e) = fv_Key (en_view e')" by (rule nn_String_inj)
  with e(4) e'(4) show ?thesis by simp
qed

section \<open>The slots\<close>

definition dispatch_slot :: "Ledger \<Rightarrow> time \<Rightarrow> string \<Rightarrow> (string \<times> string) option" where
  "dispatch_slot l now u =
     (case map_of (lg_grants l) u of
        Some g \<Rightarrow> if gr_kind g = GrantDispatch \<and> live_grant now g then Some (gr_class g, gr_profile g) else None
      | None \<Rightarrow> None)"

definition slot_of :: "(pool_key \<Rightarrow> string) \<Rightarrow> Ledger \<Rightarrow> time \<Rightarrow> string \<Rightarrow> (string \<times> string) option" where
  "slot_of poolName l now u =
     (case map_of (lg_files l) u of
        Some e \<Rightarrow> if slotPhase (fv_Phase (en_view e))
                  then if orphanedLocked poolName l (en_view e) then None else Some (fv_Class (en_view e), fv_Profile (en_view e))
                  else dispatch_slot l now u
      | None \<Rightarrow> dispatch_slot l now u)"

lemma slot_of_cong:
  assumes "map_of (lg_files l') u = map_of (lg_files l) u" and "lg_profileUIDs l' = lg_profileUIDs l" and "map_of (lg_grants l') u = map_of (lg_grants l) u"
  shows "slot_of poolName l' now u = slot_of poolName l now u"
proof -
  have "orphanedLocked poolName l' = orphanedLocked poolName l" "dispatch_slot l' now u = dispatch_slot l now u"
    using assms by (simp_all add: fun_eq_iff orphanedLocked_def dispatch_slot_def)
  then show ?thesis unfolding slot_of_def assms(1) by (simp only:)
qed

definition holders :: "(pool_key \<Rightarrow> string) \<Rightarrow> Ledger \<Rightarrow> time \<Rightarrow> (string \<times> string \<Rightarrow> bool) \<Rightarrow> string set" where
  "holders poolName l now P = {u. \<exists>x. slot_of poolName l now u = Some x \<and> P x}"

definition running :: "(pool_key \<Rightarrow> string) \<Rightarrow> Ledger \<Rightarrow> time \<Rightarrow> Slot list" where
  "running poolName l now = map running_file (filter (held_slot poolName l) (map snd (lg_files l))) @
     map running_grant (filter (held_grant l now) (lg_grants l))"

text \<open>The list a pass counts is the set of the holders.\<close>

lemma running_counts:
  assumes "table_ok (lg_files l)" and "table_ok (lg_grants l)"
  shows "length (filter (\<lambda>s. P (sl_Hardware s, sl_Profile s)) (running poolName l now)) = card (holders poolName l now P)"
    and "finite (holders poolName l now P)"
proof -
  let ?F = "{u. \<exists>e. map_of (lg_files l) u = Some e \<and> held_slot poolName l e \<and> P (fv_Class (en_view e), fv_Profile (en_view e))}"
  let ?G = "{u. \<exists>g. map_of (lg_grants l) u = Some g \<and> held_grant l now (u, g) \<and> P (gr_class g, gr_profile g)}"
  have "length (filter (\<lambda>s. P (sl_Hardware s, sl_Profile s)) (map running_file (filter (held_slot poolName l) (map snd (lg_files l))))) =
      length (filter (\<lambda>p. held_slot poolName l (snd p) \<and> P (fv_Class (en_view (snd p)), fv_Profile (en_view (snd p)))) (lg_files l))"
    by (simp add: filter_map comp_def running_file_def conj_commute)
  also have "\<dots> = card ?F" by (simp add: length_filter_card [OF assms(1)])
  moreover have "length (filter (\<lambda>s. P (sl_Hardware s, sl_Profile s)) (map running_grant (filter (held_grant l now) (lg_grants l)))) =
      length (filter (\<lambda>p. held_grant l now p \<and> P (gr_class (snd p), gr_profile (snd p))) (lg_grants l))"
    by (simp add: filter_map comp_def running_grant_def conj_commute)
  moreover have "\<dots> = card ?G" by (simp add: length_filter_card [OF assms(2)])
  moreover have fin: "finite ?F" "finite ?G"
    by (rule finite_subset [of _ "dom (map_of (lg_files l))"]; auto simp: finite_dom_map_of)
      (rule finite_subset [of _ "dom (map_of (lg_grants l))"]; auto simp: finite_dom_map_of)
  moreover have "?F \<inter> ?G = {}" by (auto simp: held_slot_def held_grant_def)
  moreover have eq: "holders poolName l now P = ?F \<union> ?G"
  proof (rule set_eqI)
    fix u
    show "u \<in> holders poolName l now P \<longleftrightarrow> u \<in> ?F \<union> ?G"
      by (cases "map_of (lg_files l) u"; cases "map_of (lg_grants l) u")
        (auto simp: holders_def slot_of_def dispatch_slot_def held_slot_def held_grant_def)
  qed
  ultimately show "length (filter (\<lambda>s. P (sl_Hardware s, sl_Profile s)) (running poolName l now)) = card (holders poolName l now P)"
    by (simp add: running_def card_Un_disjoint)
  from fin eq show "finite (holders poolName l now P)" by simp
qed

text \<open>A step that takes no slot.\<close>

definition no_more :: "(pool_key \<Rightarrow> string) \<Rightarrow> Ledger \<Rightarrow> time \<Rightarrow> Ledger \<Rightarrow> time \<Rightarrow> bool" where
  "no_more poolName l now l' now' \<longleftrightarrow> (\<forall>u x. slot_of poolName l' now' u = Some x \<longrightarrow> slot_of poolName l now u = Some x)"

lemma no_more_refl [simp]: "no_more poolName l now l now"
  by (simp add: no_more_def)

lemma no_more_trans: "no_more poolName l t l' t' \<Longrightarrow> no_more poolName l' t' l'' t'' \<Longrightarrow> no_more poolName l t l'' t''"
  by (simp add: no_more_def)

lemma no_more_holders: "no_more poolName l t l' t' \<Longrightarrow> holders poolName l' t' P \<subseteq> holders poolName l t P"
  by (auto simp: no_more_def holders_def)

lemma live_grant_later: "now \<le> now' \<Longrightarrow> live_grant now' g \<Longrightarrow> live_grant now g"
  by (auto simp: live_grant_def)

lemma no_more_later: "now \<le> now' \<Longrightarrow> no_more poolName l now l now'"
  by (auto simp: no_more_def slot_of_def dispatch_slot_def dest: live_grant_later split: option.splits if_splits)

lemma no_more_grants:
  assumes "lg_files l' = lg_files l" and "lg_profileUIDs l' = lg_profileUIDs l"
    and "\<And>u x. dispatch_slot l' now u = Some x \<Longrightarrow> dispatch_slot l now u = Some x"
  shows "no_more poolName l now l' now"
  using assms by (auto simp: no_more_def slot_of_def orphanedLocked_def split: option.splits if_splits)

lemma no_more_same:
  "lg_files l' = lg_files l \<Longrightarrow> lg_profileUIDs l' = lg_profileUIDs l \<Longrightarrow> lg_grants l' = lg_grants l \<Longrightarrow> no_more poolName l now l' now"
  by (rule no_more_grants) (simp_all add: dispatch_slot_def)

section \<open>Methods that take no slot\<close>

locale frees_slots =
  fixes poolName :: "pool_key \<Rightarrow> string" and guard :: "Ledger \<Rightarrow> time \<Rightarrow> bool" and op :: "Ledger \<Rightarrow> time \<Rightarrow> Ledger"
  assumes keeps_wf: "ledger_wf l \<Longrightarrow> guard l now \<Longrightarrow> ledger_wf (op l now)"
    and frees: "ledger_wf l \<Longrightarrow> guard l now \<Longrightarrow> no_more poolName l now (op l now) now"
    and keeps_slots: "op_Slots (lg_o (op l now)) = op_Slots (lg_o l)"
begin

lemma holders_shrink: "ledger_wf l \<Longrightarrow> guard l now \<Longrightarrow> holders poolName (op l now) now P \<subseteq> holders poolName l now P"
  by (rule no_more_holders) (rule frees)

lemma card_shrinks: "ledger_wf l \<Longrightarrow> guard l now \<Longrightarrow> card (holders poolName (op l now) now P) \<le> card (holders poolName l now P)"
  by (rule card_mono) (simp_all add: running_counts(2) wf_tables holders_shrink)

end

lemma signal_simps [simp]:
  "lg_files (signalLocked l) = lg_files l" "lg_byKey (signalLocked l) = lg_byKey l" "lg_grants (signalLocked l) = lg_grants l"
  "lg_backoffs (signalLocked l) = lg_backoffs l" "lg_profileUIDs (signalLocked l) = lg_profileUIDs l" "lg_o (signalLocked l) = lg_o l"
  "lg_directives (signalLocked l) = lg_directives l" "lg_rebuilt (signalLocked l) = lg_rebuilt l"
  by (simp_all add: signalLocked_def)

lemma signal_wf [simp]: "ledger_wf (signalLocked l) = ledger_wf l"
  by (simp add: ledger_wf_def)

lemma signal_slot [simp]: "slot_of poolName (signalLocked l) now u = slot_of poolName l now u"
  by (rule slot_of_cong) simp_all

lemma signal_no_more [simp]: "no_more poolName l now (signalLocked l') now' = no_more poolName l now l' now'"
  by (simp add: no_more_def)

lemma enqueue_simps [simp]:
  "lg_files (enqueueLocked l k p) = lg_files l" "lg_byKey (enqueueLocked l k p) = lg_byKey l" "lg_grants (enqueueLocked l k p) = lg_grants l"
  "lg_backoffs (enqueueLocked l k p) = lg_backoffs l" "lg_profileUIDs (enqueueLocked l k p) = lg_profileUIDs l" "lg_o (enqueueLocked l k p) = lg_o l"
  "lg_directives (enqueueLocked l k p) = lg_directives l" "lg_rebuilt (enqueueLocked l k p) = lg_rebuilt l"
  by (simp_all add: enqueueLocked_def)

subsection \<open>Observations\<close>

text \<open>A UID names one object of the cluster, under one namespace and name, and a namespace has no slash.\<close>

definition object_view :: "Ledger \<Rightarrow> FileView \<Rightarrow> bool" where
  "object_view l v \<longleftrightarrow> CHR ''/'' \<notin> set (fst (fv_Key v)) \<and> (\<forall>e. map_of (lg_files l) (fv_UID v) = Some e \<longrightarrow> fv_Key (en_view e) = fv_Key v)"

text \<open>
  How the remediation loop observes: a file enters Queued or Running with a dispatch grant of that class and profile in use; it stays
  there under the same class, profile and pool; and when it leaves, the pass that took a dispatch grant has
  confirmed or released it.
\<close>

definition takes :: "Ledger \<Rightarrow> FileView \<Rightarrow> bool" where
  "takes l v = (case map_of (lg_grants l) (fv_UID v) of
     Some g \<Rightarrow> gr_inUse g \<and> gr_kind g = GrantDispatch \<and> gr_class g = fv_Class v \<and> gr_profile g = fv_Profile v
   | None \<Rightarrow> False)"

definition dispatching :: "Ledger \<Rightarrow> string \<Rightarrow> bool" where
  "dispatching l uid = (case map_of (lg_grants l) uid of Some g \<Rightarrow> gr_inUse g \<and> gr_kind g = GrantDispatch | None \<Rightarrow> False)"

definition loop_view :: "Ledger \<Rightarrow> FileView \<Rightarrow> bool" where
  "loop_view l v =
     (case map_of (lg_files l) (fv_UID v) of
        Some e \<Rightarrow>
          if slotPhase (fv_Phase (en_view e))
          then if slotPhase (fv_Phase v)
               then fv_Class v = fv_Class (en_view e) \<and> fv_Profile v = fv_Profile (en_view e) \<and> fv_Pool v = fv_Pool (en_view e)
               else \<not> dispatching l (fv_UID v)
          else slotPhase (fv_Phase v) \<longrightarrow> takes l v
      | None \<Rightarrow> slotPhase (fv_Phase v) \<longrightarrow> takes l v)"

lemma merged_fields [simp]:
  "fv_UID (merged l v cur) = fv_UID v" "fv_Key (merged l v cur) = fv_Key v" "fv_Seq (merged l v cur) = fv_Seq v"
  "fv_Phase (merged l v cur) = fv_Phase v" "fv_Class (merged l v cur) = fv_Class v" "fv_Profile (merged l v cur) = fv_Profile v"
  "fv_Pool (merged l v cur) = fv_Pool v" "fv_GraftPhase (merged l v cur) = fv_GraftPhase v" "fv_GraftReason (merged l v cur) = fv_GraftReason v"
  by (simp_all add: merged_def Let_def split: option.split)

lemma retire_fields [simp]:
  "map_of (lg_files (retireLocked l uid)) = (map_of (lg_files l))(uid := None)"
  "map_of (lg_grants (retireLocked l uid)) = (map_of (lg_grants l))(uid := None)"
  "map_of (lg_backoffs (retireLocked l uid)) = (map_of (lg_backoffs l))(uid := None)"
  "lg_profileUIDs (retireLocked l uid) = lg_profileUIDs l" "lg_o (retireLocked l uid) = lg_o l"
  by (simp_all add: retireLocked_def delete_conv' fun_eq_iff)

lemma retire_wf:
  assumes wf: "ledger_wf l"
  shows "ledger_wf (retireLocked l uid)"
proof -
  have tables: "table_ok (lg_files (retireLocked l uid))" "table_ok (lg_grants (retireLocked l uid))" "table_ok (lg_backoffs (retireLocked l uid))"
    using wf_tables [OF wf] by (simp_all add: retireLocked_def table_simps)
  have key: "lg_byKey (retireLocked l uid) k = (case lg_byKey l k of Some u \<Rightarrow> if u = uid then None else Some u | None \<Rightarrow> None)" for k
  proof (cases "map_of (lg_files l) uid")
    case None
    then show ?thesis using wf_key [OF wf, of k] by (auto simp: retireLocked_def split: option.split)
  next
    case (Some e)
    then show ?thesis using wf_key [OF wf, of k] wf_entry [OF wf Some] by (auto simp: retireLocked_def split: option.split)
  qed
  show ?thesis
    using wf tables unfolding ledger_wf_def key by (simp split: option.split)
qed

lemma retire_no_more: "no_more poolName l now (retireLocked l uid) now"
proof -
  have "slot_of poolName l now u = Some x" if "slot_of poolName (retireLocked l uid) now u = Some x" for u x
  proof (cases "u = uid")
    case True
    with that show ?thesis by (simp add: slot_of_def dispatch_slot_def)
  next
    case False
    then have "slot_of poolName (retireLocked l uid) now u = slot_of poolName l now u" by (intro slot_of_cong) simp_all
    with that show ?thesis by simp
  qed
  then show ?thesis by (simp add: no_more_def)
qed

lemma store_fields [simp]:
  "map_of (lg_files (storeLocked l v cur now)) = (map_of (lg_files l))(fv_UID v \<mapsto>
     \<lparr>en_view = merged l v cur, en_observedAt = now, en_key = nn_String (fv_Key v)\<rparr>)"
  "map_of (lg_grants (storeLocked l v cur now)) = (map_of (lg_grants l))(fv_UID v :=
     (case map_of (lg_grants l) (fv_UID v) of Some g \<Rightarrow> if overtaken g (merged l v cur) then None else Some g | None \<Rightarrow> None))"
  "lg_backoffs (storeLocked l v cur now) = lg_backoffs l" "lg_profileUIDs (storeLocked l v cur now) = lg_profileUIDs l"
  "lg_byKey (storeLocked l v cur now) = (lg_byKey l)(fv_Key v \<mapsto> fv_UID v)" "lg_o (storeLocked l v cur now) = lg_o l"
  by (auto simp: storeLocked_def Let_def delete_conv' update_conv' fun_eq_iff split: option.split)

lemma store_wf:
  assumes wf: "ledger_wf l" and v: "object_view l v" and k: "lg_byKey l (fv_Key v) \<in> {None, Some (fv_UID v)}"
  shows "ledger_wf (storeLocked l v cur now)"
proof -
  have "table_ok (lg_files (storeLocked l v cur now))" "table_ok (lg_grants (storeLocked l v cur now))"
    using wf_tables [OF wf] by (auto simp: storeLocked_def Let_def table_simps split: option.split)
  moreover have "fv_Key (en_view e) \<noteq> fv_Key v" if "map_of (lg_files l) u = Some e" "u \<noteq> fv_UID v" for u e
    using wf_entry(4) [OF wf that(1)] that(2) k by auto
  moreover have "u \<noteq> fv_UID v" if "lg_byKey l x = Some u" "x \<noteq> fv_Key v" for x u
    using wf_key [OF wf that(1)] that(2) v by (auto simp: object_view_def)
  ultimately show ?thesis
    using wf v unfolding ledger_wf_def object_view_def by (simp split: option.splits)
qed

lemma store_no_more:
  assumes v: "loop_view l v"
  shows "no_more poolName l now (storeLocked l v cur now) now"
proof -
  have "slot_of poolName l now u = Some x" if s: "slot_of poolName (storeLocked l v cur now) now u = Some x" for u x
  proof (cases "u = fv_UID v")
    case False
    then have "slot_of poolName (storeLocked l v cur now) now u = slot_of poolName l now u" by (intro slot_of_cong) simp_all
    with s show ?thesis by simp
  next
    case True
    with s v show ?thesis
      by (cases "map_of (lg_files l) u"; cases "map_of (lg_grants l) u")
        (auto simp: slot_of_def dispatch_slot_def orphanedLocked_def loop_view_def takes_def dispatching_def overtaken_def live_grant_def
          split: if_splits option.splits)
  qed
  then show ?thesis by (simp add: no_more_def)
qed

definition settled_key :: "Ledger \<Rightarrow> FileView \<Rightarrow> Ledger" where
  "settled_key l v = (case lg_byKey l (fv_Key v) of Some old \<Rightarrow> if old \<noteq> fv_UID v then retireLocked l old else l | None \<Rightarrow> l)"

lemma observe_cases:
  "fst (observeLocked l v now) = settled_key l v \<or>
   fst (observeLocked l v now) = storeLocked (settled_key l v) v (map_of (lg_files (settled_key l v)) (fv_UID v)) now"
  by (simp add: observeLocked_def settled_key_def Let_def split: option.split)

lemma settled_key_facts:
  assumes wf: "ledger_wf l"
  shows "ledger_wf (settled_key l v)" "no_more poolName l now (settled_key l v) now" "lg_byKey (settled_key l v) (fv_Key v) \<in> {None, Some (fv_UID v)}"
    "object_view l v \<Longrightarrow> object_view (settled_key l v) v" "loop_view l v \<Longrightarrow> loop_view (settled_key l v) v"
    "lg_o (settled_key l v) = lg_o l"
proof -
  show "lg_byKey (settled_key l v) (fv_Key v) \<in> {None, Some (fv_UID v)}"
    using wf_key [OF wf, of "fv_Key v"] by (auto simp: settled_key_def retireLocked_def split: option.split)
next
  have "map_of (lg_files (settled_key l v)) (fv_UID v) = map_of (lg_files l) (fv_UID v)"
    "map_of (lg_grants (settled_key l v)) (fv_UID v) = map_of (lg_grants l) (fv_UID v)"
    by (simp_all add: settled_key_def split: option.split)
  then show "loop_view (settled_key l v) v" if "loop_view l v"
    using that unfolding loop_view_def takes_def dispatching_def by (simp only:)
qed (auto simp: settled_key_def wf retire_wf retire_no_more object_view_def split: option.split)

lemma observe_wf: "ledger_wf l \<Longrightarrow> object_view l v \<Longrightarrow> ledger_wf (fst (observeLocked l v now))"
  using observe_cases [of l v now] store_wf settled_key_facts by metis

lemma observe_no_more: "ledger_wf l \<Longrightarrow> loop_view l v \<Longrightarrow> no_more poolName l now (fst (observeLocked l v now)) now"
  using observe_cases [of l v now] store_no_more settled_key_facts(2,5) no_more_trans by metis

lemma observe_options: "lg_o (fst (observeLocked l v now)) = lg_o l"
  using observe_cases [of l v now] by (auto simp: settled_key_def split: option.split)

interpretation observing: frees_slots poolName "\<lambda>l now. object_view l v \<and> loop_view l v" "\<lambda>l now. Observe l v now" for poolName v
  by unfold_locales (simp_all add: Observe_def observe_wf observe_no_more observe_options)

interpretation forgetting: frees_slots poolName "\<lambda>l now. True" "\<lambda>l now. fst (Forget l key)" for poolName key
  by unfold_locales (simp_all add: Forget_def Let_def retire_wf retire_no_more split: option.split)

subsection \<open>Grants\<close>

lemma wf_del_grant:
  "ledger_wf l \<Longrightarrow> lg_files l' = lg_files l \<Longrightarrow> lg_byKey l' = lg_byKey l \<Longrightarrow> lg_grants l' = AList.delete uid (lg_grants l) \<Longrightarrow>
   lg_backoffs l' = lg_backoffs l \<Longrightarrow> ledger_wf l'"
  by (rule wf_change [of l]) (auto simp: wf_tables table_simps delete_conv' dest: wf_granted wf_backed split: if_splits)

lemma wf_backOff:
  "ledger_wf l \<Longrightarrow> map_of (lg_files l) uid \<noteq> None \<Longrightarrow> ledger_wf (backOffLocked l uid now)"
  by (rule wf_change [of l]) (auto simp: backOffLocked_def Let_def wf_tables table_simps update_conv' dest: wf_granted wf_backed split: if_splits)

lemma backOff_simps [simp]:
  "lg_files (backOffLocked l uid now) = lg_files l" "lg_byKey (backOffLocked l uid now) = lg_byKey l" "lg_grants (backOffLocked l uid now) = lg_grants l"
  "lg_profileUIDs (backOffLocked l uid now) = lg_profileUIDs l" "lg_o (backOffLocked l uid now) = lg_o l"
  "lg_directives (backOffLocked l uid now) = lg_directives l" "lg_rebuilt (backOffLocked l uid now) = lg_rebuilt l"
  by (simp_all add: backOffLocked_def Let_def)

lemma no_more_delete:
  "lg_files l' = lg_files l \<Longrightarrow> lg_profileUIDs l' = lg_profileUIDs l \<Longrightarrow> lg_grants l' = AList.delete uid (lg_grants l) \<Longrightarrow> no_more poolName l now l' now"
  by (rule no_more_grants) (auto simp: dispatch_slot_def delete_conv' split: option.splits if_splits)

lemma take_wf: "ledger_wf l \<Longrightarrow> ledger_wf (fst (TakeGrant l uid now))"
  by (cases "map_of (lg_grants l) uid")
    (auto simp: TakeGrant_def Let_def wf_tables table_simps update_conv' dest: wf_granted wf_backed split: if_splits intro!: wf_change [of l])

lemma take_no_more: "no_more poolName l now (fst (TakeGrant l uid now)) now"
proof (cases "map_of (lg_grants l) uid")
  case (Some g)
  show ?thesis
  proof (cases "live_grant now g")
    case True
    with Some show ?thesis
      by (intro no_more_grants)
        (auto simp: TakeGrant_def Let_def dispatch_slot_def update_conv' live_grant_def split: if_splits option.splits)
  qed (simp add: TakeGrant_def Some)
qed (simp add: TakeGrant_def)

interpretation taking: frees_slots poolName "\<lambda>l now. True" "\<lambda>l now. fst (TakeGrant l uid now)" for poolName uid
  by unfold_locales (simp_all add: take_wf take_no_more, simp add: TakeGrant_def Let_def split: option.split)

lemma confirm_wf: "ledger_wf l \<Longrightarrow> ledger_wf (Confirm l uid)"
  by (rule wf_change [of l]) (auto simp: Confirm_def wf_tables table_simps delete_conv' dest: wf_granted wf_backed split: if_splits)

interpretation confirming: frees_slots poolName "\<lambda>l now. True" "\<lambda>l now. Confirm l uid" for poolName uid
  by unfold_locales (simp add: confirm_wf, simp add: Confirm_def no_more_delete, simp add: Confirm_def)

lemma release_wf: "ledger_wf l \<Longrightarrow> ledger_wf (Release l uid now)"
  by (auto simp: Release_def intro!: wf_backOff wf_del_grant [of l] dest: wf_granted)

interpretation releasing: frees_slots poolName "\<lambda>l now. True" "\<lambda>l now. Release l uid now" for poolName uid
  by unfold_locales (simp add: release_wf, simp_all add: Release_def no_more_delete)

lemma unconfirmed_wf: "ledger_wf l \<Longrightarrow> ledger_wf (ReleaseUnconfirmed l uid)"
  by (auto simp: ReleaseUnconfirmed_def intro!: wf_del_grant [of l] split: option.split)

interpretation unconfirming: frees_slots poolName "\<lambda>l now. True" "\<lambda>l now. ReleaseUnconfirmed l uid" for poolName uid
  by unfold_locales (simp add: unconfirmed_wf, simp_all add: ReleaseUnconfirmed_def no_more_delete split: option.split)

subsection \<open>Everything else\<close>

lemma frees_slots_same:
  assumes "\<And>l now. lg_files (op l now) = lg_files l" and "\<And>l now. lg_byKey (op l now) = lg_byKey l" and "\<And>l now. lg_grants (op l now) = lg_grants l"
    and "\<And>l now. lg_backoffs (op l now) = lg_backoffs l" and "\<And>l now. lg_profileUIDs (op l now) = lg_profileUIDs l"
    and "\<And>l now. op_Slots (lg_o (op l now)) = op_Slots (lg_o l)"
  shows "frees_slots poolName (\<lambda>l now. True) op"
  by unfold_locales (simp_all add: assms no_more_same wf_cong [where l' = "op _ _"])

interpretation leasing: frees_slots poolName "\<lambda>l now. True" "\<lambda>l now. fst (NoteLeaseMissing l uid missing now)" for poolName uid missing
  by (rule frees_slots_same) (simp_all add: NoteLeaseMissing_def split: option.split)

interpretation publishing: frees_slots poolName "\<lambda>l now. True" "\<lambda>l now. PublishFailed l uid err" for poolName uid err
  by (rule frees_slots_same) (simp_all add: PublishFailed_def)

interpretation withdrawing: frees_slots poolName "\<lambda>l now. True" "\<lambda>l now. WithdrawFailed l uid err" for poolName uid err
  by (rule frees_slots_same) (simp_all add: WithdrawFailed_def)

interpretation pooling: frees_slots poolName "\<lambda>l now. True" "\<lambda>l now. UpdatePool l k f" for poolName k f
  by (rule frees_slots_same) (simp_all add: UpdatePool_def)

interpretation waking: frees_slots poolName "\<lambda>l now. True" "\<lambda>l now. Wake l" for poolName
  by (rule frees_slots_same) (simp_all add: Wake_def)

interpretation starting: frees_slots poolName "\<lambda>l now. True" "\<lambda>l now. setWaker l" for poolName
  by (rule frees_slots_same) (simp_all add: setWaker_def)

interpretation windowing: frees_slots poolName "\<lambda>l now. True" "\<lambda>l now. SetWindow l window" for poolName window
  by (rule frees_slots_same) (simp_all add: SetWindow_def)

interpretation rebuilding: frees_slots poolName "\<lambda>l now. True" "\<lambda>l now. markRebuilt l" for poolName
  by (rule frees_slots_same) (simp_all add: markRebuilt_def)

lemma directive_simps [simp]:
  "lg_files (directive l u k s r g) = lg_files l" "lg_byKey (directive l u k s r g) = lg_byKey l" "lg_grants (directive l u k s r g) = lg_grants l"
  "lg_backoffs (directive l u k s r g) = lg_backoffs l" "lg_profileUIDs (directive l u k s r g) = lg_profileUIDs l"
  "lg_o (directive l u k s r g) = lg_o l" "lg_rebuilt (directive l u k s r g) = lg_rebuilt l"
  by (simp_all add: directive_def Let_def split: option.split)

interpretation rerouting: frees_slots poolName "\<lambda>l now. True" "\<lambda>l now. Reroute l uid seq reason keepGPU" for poolName uid seq reason keepGPU
  by (rule frees_slots_same) (simp_all add: Reroute_def)

end
