(* ===== verification/TranscodeRuns.thy ===== *)
theory TranscodeRuns
  imports TranscodeBudget
begin

text \<open>
  The admission pass against the budget: the stages of a pass, what each does to the grants, and the runs of the
  ledger, any interleaving of the loop's calls with passes.
\<close>

section \<open>Changes of grants only\<close>

definition grants_only :: "Ledger \<Rightarrow> Ledger \<Rightarrow> bool" where
  "grants_only l l' \<longleftrightarrow>
     lg_files l' = lg_files l \<and> lg_byKey l' = lg_byKey l \<and> lg_backoffs l' = lg_backoffs l \<and> lg_profileUIDs l' = lg_profileUIDs l \<and>
     lg_o l' = lg_o l \<and> lg_rebuilt l' = lg_rebuilt l \<and> lg_directives l' = lg_directives l \<and> (table_ok (lg_grants l) \<longrightarrow> table_ok (lg_grants l')) \<and>
     (\<forall>u. map_of (lg_grants l) u \<noteq> None \<longrightarrow> map_of (lg_grants l') u \<noteq> None)"

lemma grants_only_refl [simp]: "grants_only l l"
  by (simp add: grants_only_def)

lemma grants_only_trans: "grants_only l l' \<Longrightarrow> grants_only l' l'' \<Longrightarrow> grants_only l l''"
  by (simp add: grants_only_def)

lemma grants_only_foldl:
  "(\<And>l x. x \<in> set xs \<Longrightarrow> grants_only l (f l x)) \<Longrightarrow> grants_only l (foldl f l xs)"
  by (induction xs arbitrary: l) (auto intro: grants_only_trans)

lemma grants_only_same:
  "lg_files l' = lg_files l \<Longrightarrow> lg_byKey l' = lg_byKey l \<Longrightarrow> lg_backoffs l' = lg_backoffs l \<Longrightarrow> lg_profileUIDs l' = lg_profileUIDs l \<Longrightarrow>
   lg_o l' = lg_o l \<Longrightarrow> lg_rebuilt l' = lg_rebuilt l \<Longrightarrow> lg_directives l' = lg_directives l \<Longrightarrow> lg_grants l' = lg_grants l \<Longrightarrow> grants_only l l'"
  by (simp add: grants_only_def)

definition new_grant :: "GrantKind \<Rightarrow> string \<Rightarrow> string \<Rightarrow> time \<Rightarrow> grant" where
  "new_grant kind class profile now = \<lparr>gr_kind = kind, gr_class = class, gr_profile = profile, gr_expires = now + grantTTL, gr_inUse = False\<rparr>"

lemma new_grant_simps [simp]:
  "gr_kind (new_grant k c p now) = k" "gr_class (new_grant k c p now) = c" "gr_profile (new_grant k c p now) = p"
  "gr_inUse (new_grant k c p now) = False" "gr_expires (new_grant k c p now) = now + grantTTL" "live_grant now (new_grant k c p now)"
  by (simp_all add: new_grant_def live_grant_def timing_defs minute_def second_def)

lemma grantLocked_grants [simp]: "map_of (lg_grants (grantLocked l uid key kind class profile now)) = (map_of (lg_grants l))(uid \<mapsto> new_grant kind class profile now)"
  by (simp add: grantLocked_def update_conv' new_grant_def)

lemma grantLocked_only [simp]: "grants_only l (grantLocked l uid key kind class profile now)"
  by (auto simp: grants_only_def grantLocked_def table_simps update_conv')

lemma no_more_granted:
  assumes "grants_only l l'" and "\<And>u g. map_of (lg_grants l') u = Some g \<Longrightarrow> map_of (lg_grants l) u = Some g \<or> gr_kind g \<noteq> GrantDispatch"
  shows "no_more poolName l now l' now"
  using assms(1)
  by (intro no_more_grants) (auto simp: grants_only_def dispatch_slot_def dest!: assms(2) split: option.splits if_splits)

lemma no_more_foldl:
  "(\<And>l x. x \<in> set xs \<Longrightarrow> no_more poolName l now (f l x) now) \<Longrightarrow> no_more poolName l now (foldl f l xs) now"
  by (induction xs arbitrary: l) (auto intro: no_more_trans)

lemma grantLocked_no_more: "kind \<noteq> GrantDispatch \<Longrightarrow> no_more poolName l now (grantLocked l uid key kind class profile now) now"
  by (rule no_more_granted) (auto split: if_splits)

lemma wf_grants_only:
  assumes "ledger_wf l" and "grants_only l l'" and "\<And>u. map_of (lg_grants l') u \<noteq> None \<Longrightarrow> map_of (lg_files l) u \<noteq> None"
  shows "ledger_wf l'"
  by (rule wf_change [OF assms(1)]) (use assms in \<open>auto simp: grants_only_def wf_tables dest: wf_backed\<close>)

text \<open>A stage of a pass grants to files of the ledger only.\<close>

definition grants_files :: "Ledger \<Rightarrow> Ledger \<Rightarrow> bool" where
  "grants_files l l' \<longleftrightarrow> grants_only l l' \<and>
     (\<forall>u. map_of (lg_grants l') u \<noteq> None \<longrightarrow> map_of (lg_grants l) u \<noteq> None \<or> map_of (lg_files l) u \<noteq> None)"

lemma grants_filesI: "grants_only l l' \<Longrightarrow> (\<And>u. map_of (lg_grants l') u \<noteq> None \<Longrightarrow> map_of (lg_grants l) u \<noteq> None \<or> map_of (lg_files l) u \<noteq> None) \<Longrightarrow> grants_files l l'"
  by (simp add: grants_files_def)

lemma grants_files_trans:
  assumes "grants_files l l'" and "grants_files l' l''"
  shows "grants_files l l''"
proof (rule grants_filesI)
  show "grants_only l l''" using assms grants_only_trans by (auto simp: grants_files_def)
  fix u
  assume "map_of (lg_grants l'') u \<noteq> None"
  then have "map_of (lg_grants l') u \<noteq> None \<or> map_of (lg_files l') u \<noteq> None" using assms(2) unfolding grants_files_def by blast
  moreover have "lg_files l' = lg_files l" using assms(1) by (simp add: grants_files_def grants_only_def)
  ultimately show "map_of (lg_grants l) u \<noteq> None \<or> map_of (lg_files l) u \<noteq> None" using assms(1) unfolding grants_files_def by auto
qed

lemma grants_files_wf: "ledger_wf l \<Longrightarrow> grants_files l l' \<Longrightarrow> ledger_wf l'"
  by (rule wf_grants_only) (auto simp: grants_files_def dest: wf_granted)

section \<open>The stages\<close>

subsection \<open>Expiry\<close>

lemma expire_one_fields [simp]:
  "lg_files (expire_one now l p) = lg_files l" "lg_byKey (expire_one now l p) = lg_byKey l" "lg_profileUIDs (expire_one now l p) = lg_profileUIDs l"
  "lg_o (expire_one now l p) = lg_o l" "lg_rebuilt (expire_one now l p) = lg_rebuilt l" "lg_directives (expire_one now l p) = lg_directives l"
  "lg_grants (expire_one now l p) = (if live_grant now (snd p) then lg_grants l else AList.delete (fst p) (lg_grants l))"
  by (simp_all add: expire_one_def)

lemma expire_fold_fields:
  "lg_files (foldl (expire_one now) l ps) = lg_files l \<and> lg_byKey (foldl (expire_one now) l ps) = lg_byKey l \<and>
   lg_profileUIDs (foldl (expire_one now) l ps) = lg_profileUIDs l \<and> lg_o (foldl (expire_one now) l ps) = lg_o l \<and>
   lg_rebuilt (foldl (expire_one now) l ps) = lg_rebuilt l \<and> lg_directives (foldl (expire_one now) l ps) = lg_directives l"
  by (induction ps arbitrary: l) simp_all

lemma expire_simps [simp]:
  "lg_files (expireLocked l now) = lg_files l" "lg_byKey (expireLocked l now) = lg_byKey l" "lg_profileUIDs (expireLocked l now) = lg_profileUIDs l"
  "lg_o (expireLocked l now) = lg_o l" "lg_rebuilt (expireLocked l now) = lg_rebuilt l" "lg_directives (expireLocked l now) = lg_directives l"
  by (simp_all add: expireLocked_def expire_fold_fields)

lemma expire_fold_grants:
  "map_of (lg_grants (foldl (expire_one now) l ps)) u = (if \<exists>g. (u, g) \<in> set ps \<and> \<not> live_grant now g then None else map_of (lg_grants l) u)"
  by (induction ps arbitrary: l) (auto simp: delete_conv')

lemma expire_grants:
  "ledger_wf l \<Longrightarrow> map_of (lg_grants (expireLocked l now)) u = (case map_of (lg_grants l) u of Some g \<Rightarrow> if live_grant now g then Some g else None | None \<Rightarrow> None)"
  unfolding expireLocked_def expire_fold_grants by (auto simp: map_of_in_ok wf_tables split: option.split)

lemma expire_fold_wf:
  "ledger_wf l \<Longrightarrow> (\<And>p. p \<in> set ps \<Longrightarrow> map_of (lg_files l) (fst p) \<noteq> None) \<Longrightarrow> ledger_wf (foldl (expire_one now) l ps)"
proof (induction ps arbitrary: l)
  case (Cons p ps)
  have "map_of (lg_files l) (fst p) \<noteq> None" by (rule Cons.prems(2)) simp
  with Cons.prems(1) have "ledger_wf (expire_one now l p)"
    by (auto simp: expire_one_def intro!: wf_backOff wf_del_grant [of l])
  with Cons show ?case by simp
qed simp

lemma expire_wf: "ledger_wf l \<Longrightarrow> ledger_wf (expireLocked l now)"
  unfolding expireLocked_def by (rule expire_fold_wf) (auto simp: map_of_in_ok wf_tables dest: wf_granted)

lemma expire_no_more: "ledger_wf l \<Longrightarrow> no_more poolName l now (expireLocked l now) now"
  by (rule no_more_grants) (auto simp: dispatch_slot_def expire_grants split: option.splits if_splits)

subsection \<open>What a stage grants\<close>

text \<open>Every grant after the stage was there before, or is one \<open>J\<close> accounts for.\<close>

definition grants_new :: "Ledger \<Rightarrow> Ledger \<Rightarrow> (string \<Rightarrow> grant \<Rightarrow> bool) \<Rightarrow> bool" where
  "grants_new l l' J \<longleftrightarrow> grants_only l l' \<and> (\<forall>u g. map_of (lg_grants l') u = Some g \<longrightarrow> map_of (lg_grants l) u = Some g \<or> J u g)"

lemma grants_new_refl [simp]: "grants_new l l J"
  by (simp add: grants_new_def)

lemma grants_new_same: "grants_only l l' \<Longrightarrow> lg_grants l' = lg_grants l \<Longrightarrow> grants_new l l' J"
  by (simp add: grants_new_def)

lemma grants_new_trans: "grants_new l l' J \<Longrightarrow> grants_new l' l'' J \<Longrightarrow> grants_new l l'' J"
  unfolding grants_new_def using grants_only_trans by blast

lemma grants_new_mono: "grants_new l l' J \<Longrightarrow> (\<And>u g. J u g \<Longrightarrow> J' u g) \<Longrightarrow> grants_new l l' J'"
  unfolding grants_new_def by blast

lemma grants_new_grant: "J uid (new_grant kind class profile now) \<Longrightarrow> grants_new l (grantLocked l uid key kind class profile now) J"
  by (auto simp: grants_new_def split: if_splits)

lemma grants_new_from:
  assumes "\<And>l x. x \<in> set xs \<Longrightarrow> grants_only l0 l \<Longrightarrow> grants_new l (f l x) J" and "grants_new l0 l J"
  shows "grants_new l0 (foldl f l xs) J"
  using assms
proof (induction xs arbitrary: l)
  case (Cons x xs)
  have "grants_new l (f l x) J" by (rule Cons.prems(1)) (use Cons.prems(2) in \<open>simp_all add: grants_new_def\<close>)
  with Cons.prems(2) have "grants_new l0 (f l x) J" by (rule grants_new_trans)
  with Cons show ?case by simp
qed simp

lemma grants_new_foldl:
  "(\<And>l x. x \<in> set xs \<Longrightarrow> grants_only l0 l \<Longrightarrow> grants_new l (f l x) J) \<Longrightarrow> grants_new l0 (foldl f l0 xs) J"
  by (rule grants_new_from) simp_all

lemma grants_new_no_more: "grants_new l l' J \<Longrightarrow> (\<And>u g. J u g \<Longrightarrow> gr_kind g \<noteq> GrantDispatch) \<Longrightarrow> no_more poolName l now l' now"
  by (rule no_more_granted) (auto simp: grants_new_def)

lemma grants_new_files: "grants_new l l' J \<Longrightarrow> (\<And>u g. J u g \<Longrightarrow> map_of (lg_files l) u \<noteq> None) \<Longrightarrow> grants_files l l'"
  by (rule grants_filesI) (fastforce simp: grants_new_def)+

subsection \<open>Reroutes, waits and counts\<close>

lemma reroute_one_fields [simp]:
  "lg_files (reroute_one n uh now l p) = lg_files l" "lg_byKey (reroute_one n uh now l p) = lg_byKey l" "lg_grants (reroute_one n uh now l p) = lg_grants l"
  "lg_backoffs (reroute_one n uh now l p) = lg_backoffs l" "lg_profileUIDs (reroute_one n uh now l p) = lg_profileUIDs l"
  "lg_o (reroute_one n uh now l p) = lg_o l" "lg_rebuilt (reroute_one n uh now l p) = lg_rebuilt l"
  by (simp_all add: reroute_one_def Let_def)

lemma reroute_fold_fields:
  "lg_files (foldl (reroute_one n uh now) l ps) = lg_files l \<and> lg_byKey (foldl (reroute_one n uh now) l ps) = lg_byKey l \<and>
   lg_grants (foldl (reroute_one n uh now) l ps) = lg_grants l \<and> lg_backoffs (foldl (reroute_one n uh now) l ps) = lg_backoffs l \<and>
   lg_profileUIDs (foldl (reroute_one n uh now) l ps) = lg_profileUIDs l \<and> lg_o (foldl (reroute_one n uh now) l ps) = lg_o l \<and>
   lg_rebuilt (foldl (reroute_one n uh now) l ps) = lg_rebuilt l"
  by (induction ps arbitrary: l) simp_all

lemma reroute_simps [simp]:
  "lg_files (rerouteLocked n l uh now) = lg_files l" "lg_byKey (rerouteLocked n l uh now) = lg_byKey l" "lg_grants (rerouteLocked n l uh now) = lg_grants l"
  "lg_backoffs (rerouteLocked n l uh now) = lg_backoffs l" "lg_profileUIDs (rerouteLocked n l uh now) = lg_profileUIDs l"
  "lg_o (rerouteLocked n l uh now) = lg_o l" "lg_rebuilt (rerouteLocked n l uh now) = lg_rebuilt l"
  by (simp_all add: rerouteLocked_def reroute_fold_fields)

lemma reroute_wf: "ledger_wf l \<Longrightarrow> ledger_wf (rerouteLocked n l uh now)"
  by (rule wf_cong [of l]) simp_all

lemma set_wait_new: "grants_new l (set_wait l uid key w) J"
  by (rule grants_new_same) (auto simp: set_wait_def intro: grants_only_same)

lemma waits_new: "grants_new l (waitReasonsLocked l queued admitted holds yielding) J"
  unfolding waitReasonsLocked_def
  by (rule grants_new_trans; rule grants_new_foldl) (auto simp: wait_hold_def wait_queued_def set_wait_new split: option.split)

lemma metrics_new: "grants_new l (metricsLocked poolName l) J"
proof -
  have "grants_new l (l\<lparr>lg_dispatched := d\<rparr>) J" for d by (rule grants_new_same) (simp_all add: grants_only_same)
  moreover have "grants_new l (wakeProfileLocked l name) J" for l name
    by (rule grants_new_same) (auto simp: wakeProfileLocked_def intro: grants_only_same)
  then have "grants_new l (foldl wakeProfileLocked l names) J" for l names by (rule grants_new_foldl)
  ultimately show ?thesis unfolding metricsLocked_def Let_def by (blast intro: grants_new_trans)
qed

subsection \<open>The window\<close>

lemma fill_loop_new:
  "grants_new l (fill_loop l name now n es) (\<lambda>u g. \<exists>e \<in> set es. u = fv_UID (en_view e) \<and> g = new_grant GrantWindow '''' name now)"
proof (induction es arbitrary: l n)
  case (Cons e es)
  let ?l = "grantLocked l (fv_UID (en_view e)) (fv_Key (en_view e)) GrantWindow '''' name now"
  let ?J = "\<lambda>es u g. \<exists>e \<in> set es. u = fv_UID (en_view e) \<and> g = new_grant GrantWindow '''' name now"
  have "grants_new l ?l (?J (e # es))" by (rule grants_new_grant) simp
  moreover have "grants_new ?l (fill_loop ?l name now (n + 1) es) (?J (e # es))"
    by (rule grants_new_mono [OF Cons.IH]) auto
  ultimately have "grants_new l (fill_loop ?l name now (n + 1) es) (?J (e # es))" by (rule grants_new_trans)
  then show ?case by simp
qed simp

lemma backlog_set:
  assumes "ledger_wf l" and "e \<in> set (backlogLocked l name now)"
  shows "map_of (lg_files l) (fv_UID (en_view e)) = Some e" "inBacklogLocked l (fv_UID (en_view e)) e name now"
proof -
  from assms(2) obtain u where u: "(u, e) \<in> set (lg_files l)" "inBacklogLocked l u e name now" by (auto simp: backlogLocked_def)
  then have "map_of (lg_files l) u = Some e" using map_of_in_ok wf_tables(1) [OF assms(1)] by metis
  moreover from wf_entry(1) [OF assms(1) this] have "fv_UID (en_view e) = u" .
  ultimately show "map_of (lg_files l) (fv_UID (en_view e)) = Some e" "inBacklogLocked l (fv_UID (en_view e)) e name now" using u(2) by simp_all
qed

definition window_case :: "Ledger \<Rightarrow> (string, ProfileView) table \<Rightarrow> time \<Rightarrow> string \<Rightarrow> grant \<Rightarrow> bool" where
  "window_case l profiles now u g \<longleftrightarrow>
     (\<exists>e name. map_of (lg_files l) u = Some e \<and> name \<in> fst ` set profiles \<and> inBacklogLocked l u e name now \<and> g = new_grant GrantWindow '''' name now)"

lemma backlog_earlier:
  assumes "grants_only l l'" and "inBacklogLocked l' u e name now"
  shows "inBacklogLocked l u e name now"
  using assms by (auto simp: grants_only_def inBacklogLocked_def onBackoffLocked_def Let_def)

lemma fill_new:
  assumes wf: "ledger_wf l"
  shows "grants_new l (fillWindowLocked l profiles now) (window_case l profiles now)"
proof -
  have files: "window_case l profiles now u g \<Longrightarrow> map_of (lg_files l) u \<noteq> None" for u g by (auto simp: window_case_def)
  have step: "grants_new l' (fill_profile opens now l' p) (window_case l profiles now)"
    if p: "p \<in> set profiles" and l': "grants_new l l' (window_case l profiles now)" for l' p opens
  proof -
    from l' have o: "grants_only l l'" by (simp add: grants_new_def)
    have wf': "ledger_wf l'" by (rule grants_files_wf [OF wf]) (rule grants_new_files [OF l' files])
    have "grants_new l' (fill_loop l' (fst p) now n (backlogLocked l' (fst p) now)) (window_case l profiles now)" for n
    proof (rule grants_new_mono [OF fill_loop_new])
      fix u g
      assume "\<exists>e \<in> set (backlogLocked l' (fst p) now). u = fv_UID (en_view e) \<and> g = new_grant GrantWindow '''' (fst p) now"
      then obtain e where e: "e \<in> set (backlogLocked l' (fst p) now)" "u = fv_UID (en_view e)" "g = new_grant GrantWindow '''' (fst p) now" by blast
      note b = backlog_set [OF wf' e(1), folded e(2)]
      from o b have "map_of (lg_files l) u = Some e" "inBacklogLocked l u e (fst p) now"
        by (auto simp: grants_only_def intro: backlog_earlier [OF o])
      with p e(3) show "window_case l profiles now u g" by (auto simp: window_case_def)
    qed
    then show ?thesis by (simp add: fill_profile_def Let_def)
  qed
  have "grants_new l (foldl (fill_profile opens now) l' ps) (window_case l profiles now)"
    if "set ps \<subseteq> set profiles" "grants_new l l' (window_case l profiles now)" for opens ps l'
    using that
  proof (induction ps arbitrary: l')
    case (Cons p ps)
    then have "grants_new l (fill_profile opens now l' p) (window_case l profiles now)"
      using step [of p l' opens] grants_new_trans by auto
    with Cons show ?case by simp
  qed simp
  then show ?thesis unfolding fillWindowLocked_def by simp
qed

subsection \<open>Graft slots\<close>

definition graft_case :: "Ledger \<Rightarrow> time \<Rightarrow> string \<Rightarrow> grant \<Rightarrow> bool" where
  "graft_case l now u g \<longleftrightarrow>
     (\<exists>e. map_of (lg_files l) u = Some e \<and> graftCandidate (graft_file l now (u, e)) \<and> g = new_grant GrantGraftSlot '''' '''' now)"

lemma graft_picks_set: "f \<in> set (graft_picks ns files jobs grants limit) \<Longrightarrow> f \<in> set files \<and> graftCandidate f \<and> fst (gf_Key f) = ns"
  unfolding graft_picks_def by (drule in_set_takeD) simp

lemma graft_grants_set:
  assumes "ledger_wf l" and "u \<in> set (GraftGrants (graft_files l now) jobs grants limit)"
  shows "\<exists>e. map_of (lg_files l) u = Some e \<and> graftCandidate (graft_file l now (u, e))"
proof -
  from assms(2) obtain f where "f \<in> set (graft_files l now)" "graftCandidate f" "u = gf_UID f"
    by (auto simp: GraftGrants_def Let_def dest!: graft_picks_set)
  then obtain v e where "(v, e) \<in> set (lg_files l)" "f = graft_file l now (v, e)" by (auto simp: graft_files_def)
  then show ?thesis
    using map_of_in_ok [OF wf_tables(1) [OF assms(1)]] \<open>graftCandidate f\<close> \<open>u = gf_UID f\<close> by (auto simp: graft_file_def Let_def)
qed

lemma graft_new:
  assumes wf: "ledger_wf l"
  shows "grants_new l (grantGraftSlotsLocked l jobs now) (graft_case l now)"
  unfolding grantGraftSlotsLocked_def
proof (rule grants_new_foldl)
  fix l' u
  assume u: "u \<in> set (GraftGrants (graft_files l now) jobs (graft_grants l now) (op_GraftConcurrency (lg_o l)))"
  then show "grants_new l' (grant_graft now l' u) (graft_case l now)"
    using graft_grants_set [OF wf u] by (auto simp: grant_graft_def graft_case_def intro!: grants_new_grant split: option.split)
qed

subsection \<open>Dispatch\<close>

lemma candidates_running: "snd (candidatesLocked poolName l profiles now) = running poolName l now"
  by (simp add: candidatesLocked_def running_def)

lemma candidates_set:
  assumes "ledger_wf l" and "c \<in> set (fst (candidatesLocked poolName l profiles now))"
  shows "\<exists>e. map_of (lg_files l) (cd_uid c) = Some e \<and> competes l profiles now (cd_uid c, e) \<and> c = candidate_at profiles (cd_uid c, e)"
proof -
  from assms(2) obtain u e where "(u, e) \<in> set (lg_files l)" "competes l profiles now (u, e)" "c = candidate_at profiles (u, e)"
    by (auto simp: candidatesLocked_def)
  moreover have "cd_uid (candidate_at profiles (u, e)) = u" by (simp add: candidate_at_def Let_def)
  ultimately show ?thesis using map_of_in_ok [OF wf_tables(1) [OF assms(1)]] by auto
qed

lemma candidate_at_simps [simp]:
  "cd_uid (candidate_at profiles (u, e)) = u" "cd_v (candidate_at profiles (u, e)) = en_view e"
  "sl_Key (cd_slot (candidate_at profiles (u, e))) = en_key e" "sl_Profile (cd_slot (candidate_at profiles (u, e))) = fv_Profile (en_view e)"
  by (simp_all add: candidate_at_def Let_def)

lemma candidates_distinct:
  assumes wf: "ledger_wf l"
  shows "distinct (map (sl_Key \<circ> cd_slot) (fst (candidatesLocked poolName l profiles now)))"
proof -
  have "sl_Key \<circ> cd_slot \<circ> candidate_at profiles = (\<lambda>p. en_key (snd p))" by (auto simp: fun_eq_iff)
  moreover have "inj_on (\<lambda>p. en_key (snd p)) (set (lg_files l))"
  proof (rule inj_onI)
    fix p q
    assume pq: "p \<in> set (lg_files l)" "q \<in> set (lg_files l)" "en_key (snd p) = en_key (snd q)"
    obtain u e u' e' where [simp]: "p = (u, e)" "q = (u', e')" by (cases p; cases q)
    from pq have m: "map_of (lg_files l) u = Some e" "map_of (lg_files l) u' = Some e'" using map_of_in_ok [OF wf_tables(1) [OF wf]] by auto
    from pq(3) have "en_key e = en_key e'" by simp
    from wf_keys_inj [OF wf m this] m show "p = q" by simp
  qed
  moreover have "distinct (lg_files l)" using wf_tables(1) [OF wf] by (simp add: table_ok_def distinct_map)
  ultimately show ?thesis
    by (simp add: candidatesLocked_def distinct_map inj_on_subset comp_assoc [symmetric] inj_on_def)
qed

text \<open>The candidates a class is assigned to are candidates of the pass, each under its own key.\<close>

lemma assign_queued:
  assumes "distinct (map (sl_Key \<circ> cd_slot) cands)" and "assignClasses cands run gpu un held uids limits slots = (queued, holds)"
  shows "distinct (map (sl_Key \<circ> cd_slot) queued)"
    and "c \<in> set queued \<Longrightarrow> \<exists>c0 \<in> set cands. cd_uid c = cd_uid c0 \<and> cd_v c = cd_v c0 \<and> sl_Key (cd_slot c) = sl_Key (cd_slot c0) \<and> sl_Profile (cd_slot c) = sl_Profile (cd_slot c0)"
proof -
  let ?sorted = "sort_key (admit_key \<circ> cd_slot) cands"
  let ?f = "\<lambda>c. (cd_uid c, cd_v c, sl_Key (cd_slot c), sl_Profile (cd_slot c))"
  note loop = assms(2) [unfolded assignClasses_def]
  have "distinct (map (sl_Key \<circ> cd_slot) ?sorted)" using assms(1) by (simp add: distinct_map)
  then have "sorted_wrt (\<noteq>) (map (sl_Key \<circ> cd_slot) ?sorted)" by (simp only: distinct_sorted_wrt)
  with assign_sorted [OF loop, of "(\<noteq>)" "sl_Key \<circ> cd_slot"] show "distinct (map (sl_Key \<circ> cd_slot) queued)"
    by (simp add: distinct_sorted_wrt)
  have "sorted_wrt (\<lambda>_ _. True) (map ?f ?sorted)" by (simp add: sorted_wrt_iff_nth_less)
  from assign_sorted [OF loop this] have "?f ` set queued \<subseteq> ?f ` set ?sorted" by simp
  then show "c \<in> set queued \<Longrightarrow> \<exists>c0 \<in> set cands. cd_uid c = cd_uid c0 \<and> cd_v c = cd_v c0 \<and> sl_Key (cd_slot c) = sl_Key (cd_slot c0) \<and> sl_Profile (cd_slot c) = sl_Profile (cd_slot c0)"
    by (auto simp: image_subset_iff image_iff)
qed

lemma Admit_subset: "distinct (map sl_Key queued) \<Longrightarrow> set (Admit queued run budget) \<subseteq> set queued"
  using admit_fresh_set by (fastforce simp: Admit_fresh)

lemma Admit_distinct:
  assumes "distinct (map sl_Key queued)"
  shows "distinct (map sl_Key (Admit queued run budget))"
proof -
  have "distinct (map sl_Key (sort_key admit_key queued))" using assms by (simp add: distinct_map)
  then have "sorted_wrt (\<lambda>a b. sl_Key a \<noteq> sl_Key b) (sort_key admit_key queued)"
    by (simp only: distinct_sorted_wrt sorted_wrt_map)
  then have "sorted_wrt (\<lambda>a b. sl_Key a \<noteq> sl_Key b) (Admit queued run budget)"
    unfolding Admit_fresh [OF assms] by (rule admit_fresh_sublist)
  then show ?thesis by (simp add: distinct_sorted_wrt sorted_wrt_map)
qed

lemma Admit_counts:
  assumes "distinct (map sl_Key queued)" and "a \<in> set (Admit queued run budget)"
  shows "count_by sl_Hardware run (sl_Hardware a) + count_by sl_Hardware (Admit queued run budget) (sl_Hardware a) \<le> bd_Slots budget (sl_Hardware a)"
    and "0 < bd_ProfileLimits budget (sl_Profile a) \<Longrightarrow>
      count_by sl_Profile run (sl_Profile a) + count_by sl_Profile (Admit queued run budget) (sl_Profile a) \<le> bd_ProfileLimits budget (sl_Profile a)"
  using admit_fresh_budget [of a budget "count_by sl_Hardware run" "count_by sl_Profile run" "sort_key admit_key queued"] assms(2)
  by (simp_all add: Admit_fresh [OF assms(1)] added_def)

definition dispatch_case :: "candidate list \<Rightarrow> Slot list \<Rightarrow> time \<Rightarrow> string \<Rightarrow> grant \<Rightarrow> bool" where
  "dispatch_case queued admitted now u g \<longleftrightarrow>
     (\<exists>c \<in> set queued. cd_uid c = u \<and> cd_slot c \<in> set admitted \<and> g = new_grant GrantDispatch (sl_Hardware (cd_slot c)) (fv_Profile (cd_v c)) now)"

lemma grant_slot_grants:
  "grants_new l (grant_slot byKey now l s)
     (\<lambda>u g. \<exists>c. map_of byKey (sl_Key s) = Some c \<and> u = cd_uid c \<and> g = new_grant GrantDispatch (sl_Hardware s) (fv_Profile (cd_v c)) now)"
proof (cases "map_of byKey (sl_Key s)")
  case (Some c)
  let ?l = "grantLocked l (cd_uid c) (fv_Key (cd_v c)) GrantDispatch (sl_Hardware s) (fv_Profile (cd_v c)) now"
  have "grants_only l ?l" by simp
  moreover have "grants_only ?l (?l\<lparr>lg_waits := w\<rparr>)" for w by (rule grants_only_same) simp_all
  ultimately have "grants_only l (?l\<lparr>lg_waits := w\<rparr>)" for w by (rule grants_only_trans)
  then show ?thesis by (auto simp: grant_slot_def Let_def Some grants_new_def split: if_splits)
qed (simp add: grant_slot_def)

lemma dispatch_new:
  assumes keys: "distinct (map (sl_Key \<circ> cd_slot) queued)" and adm: "set admitted \<subseteq> cd_slot ` set queued"
  shows "grants_new l (grantDispatchLocked l queued admitted now) (dispatch_case queued admitted now)"
  unfolding grantDispatchLocked_def
proof (rule grants_new_foldl)
  fix l' s
  assume s: "s \<in> set admitted"
  let ?byKey = "rev (map (\<lambda>c. (sl_Key (cd_slot c), c)) queued)"
  show "grants_new l' (grant_slot ?byKey now l' s) (dispatch_case queued admitted now)"
  proof (rule grants_new_mono [OF grant_slot_grants], elim exE conjE)
    fix u g c
    assume c: "map_of ?byKey (sl_Key s) = Some c" "u = cd_uid c" "g = new_grant GrantDispatch (sl_Hardware s) (fv_Profile (cd_v c)) now"
    from map_of_SomeD [OF c(1)] have cq: "c \<in> set queued" "sl_Key (cd_slot c) = sl_Key s" by auto
    from s adm obtain c' where c': "c' \<in> set queued" "cd_slot c' = s" by auto
    from keys cq c' have "c = c'" by (auto simp: distinct_map inj_on_def)
    with c cq c' s show "dispatch_case queued admitted now u g" by (auto simp: dispatch_case_def)
  qed
qed

section \<open>The pass\<close>

text \<open>The ledger as a pass reads it: its inputs taken over and the expired grants dropped.\<close>

definition at_pass :: "Ledger \<Rightarrow> PassInputs \<Rightarrow> time \<Rightarrow> Ledger" where
  "at_pass l i now = expireLocked (l\<lparr>lg_devices := pi_Devices i, lg_profileUIDs := uidsOf (pi_Profiles i)\<rparr>) now"

lemma pass_before_rebuild: "\<not> lg_rebuilt l \<Longrightarrow> fst (Pass poolName l i now) = at_pass l i now"
  by (simp add: Pass_def at_pass_def Let_def)

lemma at_pass_simps [simp]:
  "lg_files (at_pass l i now) = lg_files l" "lg_byKey (at_pass l i now) = lg_byKey l" "lg_o (at_pass l i now) = lg_o l"
  "lg_rebuilt (at_pass l i now) = lg_rebuilt l" "lg_profileUIDs (at_pass l i now) = uidsOf (pi_Profiles i)" "lg_directives (at_pass l i now) = lg_directives l"
  by (simp_all add: at_pass_def)

lemma at_pass_wf: "ledger_wf l \<Longrightarrow> ledger_wf (at_pass l i now)"
  unfolding at_pass_def by (rule expire_wf) (rule wf_cong [of l], simp_all)

lemma at_pass_grants:
  "ledger_wf l \<Longrightarrow> map_of (lg_grants (at_pass l i now)) u = (case map_of (lg_grants l) u of Some g \<Rightarrow> if live_grant now g then Some g else None | None \<Rightarrow> None)"
  unfolding at_pass_def by (subst expire_grants) (simp_all add: wf_cong [of l])

definition budget_at :: "Ledger \<Rightarrow> PassInputs \<Rightarrow> Budget" where
  "budget_at l i = \<lparr>bd_Slots = slots_of (fst (budget_of (lg_o l) i)), bd_ProfileLimits = profileLimits (pi_Profiles i)\<rparr>"

lemma pass_stages:
  assumes "lg_rebuilt l"
  obtains l2 l3 queued admitted gpu un held uids holds y where
    "l2 = rerouteLocked poolName (at_pass l i now) (pi_Unhealthy i) now"
    "assignClasses (fst (candidatesLocked poolName l2 (pi_Profiles i) now)) (running poolName l2 now) gpu un held uids
       (profileLimits (pi_Profiles i)) (bd_Slots (budget_at l i)) = (queued, holds)"
    "admitted = Admit (map cd_slot queued) (running poolName l2 now) (budget_at l i)"
    "l3 = fillWindowLocked (waitReasonsLocked (grantDispatchLocked l2 queued admitted now) queued admitted holds y) (pi_Profiles i) now"
    "fst (Pass poolName l i now) = metricsLocked poolName (grantGraftSlotsLocked l3 (pi_GraftJobs i) now)"
proof -
  define l2 where "l2 = rerouteLocked poolName (at_pass l i now) (pi_Unhealthy i) now"
  define held where "held = foldl (hold_unhealthy (pi_Profiles i)) (pi_Held i) (pi_Unhealthy i)"
  define gpu where "gpu = (\<lambda>c. pi_GPUNodes i c \<and> map_of (pi_Unhealthy i) c = None)"
  obtain cands where c: "candidatesLocked poolName l2 (pi_Profiles i) now = (cands, running poolName l2 now)"
    using candidates_running [of poolName l2 "pi_Profiles i" now] by (metis prod.collapse)
  obtain bud y where b: "budget_of (lg_o l) i = (bud, y)" by (metis surj_pair)
  have b2: "budget_of (lg_o l2) i = (bud, y)" by (simp add: l2_def b)
  obtain queued holds where q: "assignClasses cands (running poolName l2 now) gpu
      (unschedulableLocked l2 now) held (\<lambda>name. str (lg_profileUIDs l2 name)) (profileLimits (pi_Profiles i)) (slots_of bud) = (queued, holds)"
    by (metis surj_pair)
  let ?adm = "Admit (map cd_slot queued) (running poolName l2 now) \<lparr>bd_Slots = slots_of bud, bd_ProfileLimits = profileLimits (pi_Profiles i)\<rparr>"
  let ?l3 = "fillWindowLocked (waitReasonsLocked (grantDispatchLocked l2 queued ?adm now) queued ?adm holds y) (pi_Profiles i) now"
  have "fst (Pass poolName l i now) = metricsLocked poolName (grantGraftSlotsLocked ?l3 (pi_GraftJobs i) now)"
    unfolding Pass_def Let_def at_pass_def [symmetric] held_def [symmetric] gpu_def [symmetric] l2_def [symmetric]
    by (simp add: assms c b2 q)
  with l2_def q c b show thesis
    by (intro that [of l2 gpu "unschedulableLocked l2 now" held "\<lambda>name. str (lg_profileUIDs l2 name)" queued holds ?adm ?l3 y])
      (simp_all add: budget_at_def)
qed

text \<open>Every grant a pass leaves: it was live before, or one of the three kinds it issues.\<close>

lemma pass_new:
  assumes wf: "ledger_wf l" and rb: "lg_rebuilt l"
  obtains l2 queued admitted l3 where
    "l2 = rerouteLocked poolName (at_pass l i now) (pi_Unhealthy i) now" "ledger_wf l2"
    "distinct (map sl_Key (map cd_slot queued))" "admitted = Admit (map cd_slot queued) (running poolName l2 now) (budget_at l i)"
    "\<forall>c \<in> set queued. \<exists>e. map_of (lg_files l) (cd_uid c) = Some e \<and> competes l2 (pi_Profiles i) now (cd_uid c, e) \<and>
       cd_v c = en_view e \<and> sl_Profile (cd_slot c) = fv_Profile (en_view e)"
    "grants_new l2 l3 (\<lambda>u g. dispatch_case queued admitted now u g)"
    "grants_new l3 (fst (Pass poolName l i now)) (\<lambda>u g. window_case l3 (pi_Profiles i) now u g \<or> graft_case l3 now u g)"
proof -
  from rb obtain l2 l5 queued admitted gpu un held uids holds y where
    l2: "l2 = rerouteLocked poolName (at_pass l i now) (pi_Unhealthy i) now"
    and asg: "assignClasses (fst (candidatesLocked poolName l2 (pi_Profiles i) now)) (running poolName l2 now) gpu un held uids
      (profileLimits (pi_Profiles i)) (bd_Slots (budget_at l i)) = (queued, holds)"
    and adm: "admitted = Admit (map cd_slot queued) (running poolName l2 now) (budget_at l i)"
    and l5: "l5 = fillWindowLocked (waitReasonsLocked (grantDispatchLocked l2 queued admitted now) queued admitted holds y) (pi_Profiles i) now"
    and p: "fst (Pass poolName l i now) = metricsLocked poolName (grantGraftSlotsLocked l5 (pi_GraftJobs i) now)"
    by (rule pass_stages)
  have wf2: "ledger_wf l2" unfolding l2 by (intro reroute_wf at_pass_wf wf)
  have f2: "lg_files l2 = lg_files l" by (simp add: l2)
  note keys = assign_queued(1) [OF candidates_distinct [OF wf2] asg]
  have cand: "\<exists>e. map_of (lg_files l) (cd_uid c) = Some e \<and> competes l2 (pi_Profiles i) now (cd_uid c, e) \<and>
      cd_v c = en_view e \<and> sl_Profile (cd_slot c) = fv_Profile (en_view e)" if "c \<in> set queued" for c
  proof -
    from assign_queued(2) [OF candidates_distinct [OF wf2] asg that] obtain c0 where
      c0: "c0 \<in> set (fst (candidatesLocked poolName l2 (pi_Profiles i) now))" "cd_uid c = cd_uid c0" "cd_v c = cd_v c0"
        "sl_Profile (cd_slot c) = sl_Profile (cd_slot c0)" by blast
    from candidates_set [OF wf2 c0(1)] c0 f2 show ?thesis by (metis candidate_at_simps(2,4))
  qed
  let ?l3 = "waitReasonsLocked (grantDispatchLocked l2 queued admitted now) queued admitted holds y"
  have "set admitted \<subseteq> cd_slot ` set queued" unfolding adm using Admit_subset keys by (metis list.set_map map_map)
  from dispatch_new [OF keys this] waits_new have g3: "grants_new l2 ?l3 (dispatch_case queued admitted now)" by (rule grants_new_trans)
  have "grants_files l2 ?l3" by (rule grants_new_files [OF g3]) (use cand f2 in \<open>fastforce simp: dispatch_case_def\<close>)
  with wf2 have wf3: "ledger_wf ?l3" by (rule grants_files_wf)
  let ?J = "\<lambda>u g. window_case ?l3 (pi_Profiles i) now u g \<or> graft_case ?l3 now u g"
  have g5: "grants_new ?l3 l5 ?J" unfolding l5 by (rule grants_new_mono [OF fill_new [OF wf3]]) simp
  have "grants_files ?l3 l5" unfolding l5 by (rule grants_new_files [OF fill_new [OF wf3]]) (auto simp: window_case_def)
  with wf3 have wf5: "ledger_wf l5" by (rule grants_files_wf)
  have only5: "grants_only ?l3 l5" using g5 by (simp add: grants_new_def)
  have "graft_case ?l3 now u g" if "graft_case l5 now u g" for u g
    using that only5 by (auto simp: graft_case_def graft_file_def graftCandidate_def Let_def grants_only_def onBackoffLocked_def)
  then have "grants_new l5 (fst (Pass poolName l i now)) ?J"
    unfolding p using graft_new [OF wf5] metrics_new by (blast intro: grants_new_trans grants_new_mono)
  with g5 have "grants_new ?l3 (fst (Pass poolName l i now)) ?J" by (rule grants_new_trans)
  with l2 wf2 keys adm cand g3 show thesis by (intro that [of l2 queued admitted ?l3]) simp_all
qed

end
