(* ===== verification/TranscodeInvariant.thy ===== *)
theory TranscodeInvariant
  imports TranscodeRuns
begin

text \<open>
  The properties of the admission ledger: a pass, and every interleaving of the remediation loop with passes, stays within the slots;
  and a pass grants only to files that are free to take it.
\<close>

section \<open>A pass and the slots\<close>

lemma dispatch_slots:
  assumes "grants_new l2 l3 (dispatch_case queued admitted now)" and "slot_of poolName l3 now u = Some x"
  shows "slot_of poolName l2 now u = Some x \<or>
    (\<exists>c \<in> set queued. cd_uid c = u \<and> cd_slot c \<in> set admitted \<and> x = (sl_Hardware (cd_slot c), fv_Profile (cd_v c)))"
proof -
  from assms(1) have f: "lg_files l3 = lg_files l2" "lg_profileUIDs l3 = lg_profileUIDs l2" by (simp_all add: grants_new_def grants_only_def)
  show ?thesis
  proof (cases "map_of (lg_grants l3) u = map_of (lg_grants l2) u")
    case True
    with f have "slot_of poolName l3 now u = slot_of poolName l2 now u" by (intro slot_of_cong) simp_all
    with assms(2) show ?thesis by simp
  next
    case False
    with assms(1) obtain g where g: "map_of (lg_grants l3) u = Some g" "dispatch_case queued admitted now u g"
      unfolding grants_new_def grants_only_def by (metis option.exhaust)
    have "orphanedLocked poolName l3 = orphanedLocked poolName l2" using f by (simp add: fun_eq_iff orphanedLocked_def)
    with assms(2) g f show ?thesis
      by (cases "map_of (lg_files l2) u") (auto simp: slot_of_def dispatch_slot_def dispatch_case_def split: if_splits)
  qed
qed

lemma pass_holders:
  assumes wf: "ledger_wf l" and rb: "lg_rebuilt l"
  obtains queued admitted where
    "distinct (map sl_Key queued)" "admitted = Admit queued (running poolName (at_pass l i now) now) (budget_at l i)"
    "\<forall>P. card (holders poolName (fst (Pass poolName l i now)) now P) \<le>
       card (holders poolName (at_pass l i now) now P) + length (filter (\<lambda>s. P (sl_Hardware s, sl_Profile s)) admitted)"
    "ledger_wf (fst (Pass poolName l i now))"
proof -
  from wf rb obtain l2 queued admitted l3 where
    l2: "l2 = rerouteLocked poolName (at_pass l i now) (pi_Unhealthy i) now" and wf2: "ledger_wf l2"
    and keys: "distinct (map sl_Key (map cd_slot queued))" and adm: "admitted = Admit (map cd_slot queued) (running poolName l2 now) (budget_at l i)"
    and cand: "\<forall>c \<in> set queued. \<exists>e. map_of (lg_files l) (cd_uid c) = Some e \<and> competes l2 (pi_Profiles i) now (cd_uid c, e) \<and>
       cd_v c = en_view e \<and> sl_Profile (cd_slot c) = fv_Profile (en_view e)"
    and g3: "grants_new l2 l3 (dispatch_case queued admitted now)"
    and gp: "grants_new l3 (fst (Pass poolName l i now)) (\<lambda>u g. window_case l3 (pi_Profiles i) now u g \<or> graft_case l3 now u g)"
    by (rule pass_new [where poolName = poolName and i = i and now = now])
  have same: "slot_of poolName l2 now u = slot_of poolName (at_pass l i now) now u" for u unfolding l2 by (rule slot_of_cong) simp_all
  have run: "running poolName l2 now = running poolName (at_pass l i now) now"
    unfolding l2 running_def held_slot_def held_grant_def orphanedLocked_def by simp
  have files: "grants_files l2 l3" by (rule grants_new_files [OF g3]) (use cand in \<open>fastforce simp: dispatch_case_def l2\<close>)
  with wf2 have wf3: "ledger_wf l3" by (rule grants_files_wf)
  have "grants_files l3 (fst (Pass poolName l i now))"
    by (rule grants_new_files [OF gp]) (auto simp: window_case_def graft_case_def)
  with wf3 have wf': "ledger_wf (fst (Pass poolName l i now))" by (rule grants_files_wf)
  have nm: "no_more poolName l3 now (fst (Pass poolName l i now)) now"
    by (rule grants_new_no_more [OF gp]) (auto simp: window_case_def graft_case_def)
  have "card (holders poolName (fst (Pass poolName l i now)) now P) \<le>
       card (holders poolName (at_pass l i now) now P) + length (filter (\<lambda>s. P (sl_Hardware s, sl_Profile s)) admitted)" for P
  proof -
    let ?S = "{c \<in> set queued. cd_slot c \<in> set admitted \<and> P (sl_Hardware (cd_slot c), sl_Profile (cd_slot c))}"
    have sub: "holders poolName (fst (Pass poolName l i now)) now P \<subseteq> holders poolName (at_pass l i now) now P \<union> cd_uid ` ?S"
    proof
      fix u
      assume "u \<in> holders poolName (fst (Pass poolName l i now)) now P"
      then obtain x where x: "slot_of poolName l3 now u = Some x" "P x" using nm by (auto simp: holders_def no_more_def)
      from dispatch_slots [OF g3 x(1)] show "u \<in> holders poolName (at_pass l i now) now P \<union> cd_uid ` ?S"
      proof
        assume "slot_of poolName l2 now u = Some x"
        with x(2) have "u \<in> holders poolName (at_pass l i now) now P" unfolding holders_def same by blast
        then show ?thesis by simp
      next
        assume "\<exists>c \<in> set queued. cd_uid c = u \<and> cd_slot c \<in> set admitted \<and> x = (sl_Hardware (cd_slot c), fv_Profile (cd_v c))"
        then obtain c where c: "c \<in> set queued" "cd_uid c = u" "cd_slot c \<in> set admitted" "x = (sl_Hardware (cd_slot c), fv_Profile (cd_v c))" by blast
        with cand x(2) have "c \<in> ?S" by fastforce
        with c(2) show ?thesis by blast
      qed
    qed
    have inj: "inj_on cd_slot ?S" using keys by (auto simp: distinct_map inj_on_def)
    have "card (cd_uid ` ?S) \<le> card ?S" by (rule card_image_le) simp
    also have "\<dots> = card (cd_slot ` ?S)" by (rule card_image [OF inj, symmetric])
    also have "\<dots> \<le> card (set (filter (\<lambda>s. P (sl_Hardware s, sl_Profile s)) admitted))" by (rule card_mono) auto
    also have "\<dots> \<le> length (filter (\<lambda>s. P (sl_Hardware s, sl_Profile s)) admitted)" by (rule card_length)
    finally have "card (cd_uid ` ?S) \<le> length (filter (\<lambda>s. P (sl_Hardware s, sl_Profile s)) admitted)" .
    moreover have "finite (holders poolName (at_pass l i now) now P)" using running_counts(2) wf_tables at_pass_wf [OF wf] by blast
    ultimately show ?thesis using card_mono [OF _ sub] card_Un_le [of "holders poolName (at_pass l i now) now P" "cd_uid ` ?S"] by simp
  qed
  with keys adm wf' show thesis by (intro that [of "map cd_slot queued" admitted]) (simp_all add: run)
qed

lemma budget_within: "bd_Slots (budget_at l i) h \<le> slots_of (op_Slots (lg_o l)) h"
  by (simp add: budget_at_def budget_of_def slots_of_def Let_def split: option.split)

definition used :: "(pool_key \<Rightarrow> string) \<Rightarrow> Ledger \<Rightarrow> time \<Rightarrow> string \<Rightarrow> int" where
  "used poolName l now class = int (card (holders poolName l now (\<lambda>x. fst x = class)))"

definition used_by :: "(pool_key \<Rightarrow> string) \<Rightarrow> Ledger \<Rightarrow> time \<Rightarrow> string \<Rightarrow> int" where
  "used_by poolName l now profile = int (card (holders poolName l now (\<lambda>x. snd x = profile)))"

lemma used_counts:
  assumes "ledger_wf l"
  shows "count_by sl_Hardware (running poolName l now) class = used poolName l now class"
    and "count_by sl_Profile (running poolName l now) profile = used_by poolName l now profile"
  using running_counts(1) [OF wf_tables(1) [OF assms] wf_tables(2) [OF assms], of "\<lambda>x. fst x = class" poolName now]
    running_counts(1) [OF wf_tables(1) [OF assms] wf_tables(2) [OF assms], of "\<lambda>x. snd x = profile" poolName now]
  by (simp_all add: count_by_def used_def used_by_def)

lemma at_most:
  assumes "\<And>a. a \<in> set A \<Longrightarrow> f a = k \<Longrightarrow> count_by f run k + count_by f A k \<le> (b :: int)"
  shows "count_by f run k + int (length (filter (\<lambda>s. f s = k) A)) \<le> max b (count_by f run k)"
proof (cases "\<exists>a \<in> set A. f a = k")
  case True
  with assms have "count_by f run k + count_by f A k \<le> b" by blast
  then show ?thesis by (simp add: count_by_def)
next
  case False
  then have "filter (\<lambda>s. f s = k) A = []" by (auto simp: filter_empty_conv)
  then show ?thesis by simp
qed

lemma pass_bounds:
  assumes wf: "ledger_wf l"
  shows "ledger_wf (fst (Pass poolName l i now))"
    and "used poolName (fst (Pass poolName l i now)) now class \<le> max (slots_of (op_Slots (lg_o l)) class) (used poolName (at_pass l i now) now class)"
    and "0 < profileLimits (pi_Profiles i) profile \<Longrightarrow>
      used_by poolName (fst (Pass poolName l i now)) now profile \<le> max (profileLimits (pi_Profiles i) profile) (used_by poolName (at_pass l i now) now profile)"
proof -
  have all: "ledger_wf (fst (Pass poolName l i now)) \<and>
    used poolName (fst (Pass poolName l i now)) now class \<le> max (slots_of (op_Slots (lg_o l)) class) (used poolName (at_pass l i now) now class) \<and>
    (0 < profileLimits (pi_Profiles i) profile \<longrightarrow>
      used_by poolName (fst (Pass poolName l i now)) now profile \<le> max (profileLimits (pi_Profiles i) profile) (used_by poolName (at_pass l i now) now profile))"
  proof (cases "lg_rebuilt l")
    case False
    then show ?thesis by (simp add: pass_before_rebuild at_pass_wf [OF wf])
  next
    case True
    from wf True obtain queued admitted where
      keys: "distinct (map sl_Key queued)" and adm: "admitted = Admit queued (running poolName (at_pass l i now) now) (budget_at l i)"
      and c: "\<forall>P. card (holders poolName (fst (Pass poolName l i now)) now P) \<le>
        card (holders poolName (at_pass l i now) now P) + length (filter (\<lambda>s. P (sl_Hardware s, sl_Profile s)) admitted)"
      and wf': "ledger_wf (fst (Pass poolName l i now))" by (rule pass_holders [where poolName = poolName and i = i and now = now])
    let ?run = "running poolName (at_pass l i now) now"
    note u = used_counts [OF at_pass_wf [OF wf]]
    have "count_by sl_Hardware ?run class + int (length (filter (\<lambda>s. sl_Hardware s = class) admitted)) \<le> max (bd_Slots (budget_at l i) class) (count_by sl_Hardware ?run class)"
      by (rule at_most) (use Admit_counts(1) [OF keys] adm in \<open>blast\<close>)
    then have "used poolName (fst (Pass poolName l i now)) now class \<le> max (slots_of (op_Slots (lg_o l)) class) (used poolName (at_pass l i now) now class)"
      using c [rule_format, of "\<lambda>x. fst x = class"] budget_within [of l i "class"] unfolding u by (simp add: used_def)
    moreover have "used_by poolName (fst (Pass poolName l i now)) now profile \<le> max (profileLimits (pi_Profiles i) profile) (used_by poolName (at_pass l i now) now profile)"
      if "0 < profileLimits (pi_Profiles i) profile"
    proof -
      have "count_by sl_Profile ?run profile + int (length (filter (\<lambda>s. sl_Profile s = profile) admitted)) \<le> max (profileLimits (pi_Profiles i) profile) (count_by sl_Profile ?run profile)"
        by (rule at_most) (use Admit_counts(2) [OF keys, of _ ?run "budget_at l i"] adm that in \<open>auto simp: budget_at_def\<close>)
      then show ?thesis using c [rule_format, of "\<lambda>x. snd x = profile"] unfolding u by (simp add: used_by_def)
    qed
    ultimately show ?thesis using wf' by blast
  qed
  then show "ledger_wf (fst (Pass poolName l i now))"
    "used poolName (fst (Pass poolName l i now)) now class \<le> max (slots_of (op_Slots (lg_o l)) class) (used poolName (at_pass l i now) now class)"
    "0 < profileLimits (pi_Profiles i) profile \<Longrightarrow>
      used_by poolName (fst (Pass poolName l i now)) now profile \<le> max (profileLimits (pi_Profiles i) profile) (used_by poolName (at_pass l i now) now profile)"
    by blast+
qed

section \<open>Runs\<close>

text \<open>
  The calls on a ledger. The loop's observations follow its protocol (\<open>loop_view\<close>), and a pass does not read back a profile whose
  files it has already left out of the count; the other calls are free.
\<close>

datatype ledger_call =
    CallObserve FileView | CallForget nname | CallTake string | CallConfirm string | CallRelease string | CallUnconfirmed string
  | CallLease string bool | CallPublishFailed string "string option" | CallWithdrawFailed string "string option"
  | CallUpdatePool pool_key "PoolState \<Rightarrow> PoolState" | CallSetWindow int | CallMarkRebuilt | CallReroute string int string bool
  | CallPass PassInputs

primrec perform :: "(pool_key \<Rightarrow> string) \<Rightarrow> Ledger \<Rightarrow> time \<Rightarrow> ledger_call \<Rightarrow> Ledger" where
  "perform n l now (CallObserve v) = Observe l v now"
| "perform n l now (CallForget key) = fst (Forget l key)"
| "perform n l now (CallTake uid) = fst (TakeGrant l uid now)"
| "perform n l now (CallConfirm uid) = Confirm l uid"
| "perform n l now (CallRelease uid) = Release l uid now"
| "perform n l now (CallUnconfirmed uid) = ReleaseUnconfirmed l uid"
| "perform n l now (CallLease uid missing) = fst (NoteLeaseMissing l uid missing now)"
| "perform n l now (CallPublishFailed uid err) = PublishFailed l uid err"
| "perform n l now (CallWithdrawFailed uid err) = WithdrawFailed l uid err"
| "perform n l now (CallUpdatePool k f) = UpdatePool l k f"
| "perform n l now (CallSetWindow w) = SetWindow l w"
| "perform n l now CallMarkRebuilt = markRebuilt l"
| "perform n l now (CallReroute uid seq reason keep) = Reroute l uid seq reason keep"
| "perform n l now (CallPass i) = fst (Pass n l i now)"

definition profiles_stay :: "(pool_key \<Rightarrow> string) \<Rightarrow> Ledger \<Rightarrow> PassInputs \<Rightarrow> bool" where
  "profiles_stay poolName l i \<longleftrightarrow>
     (\<forall>p \<in> set (lg_files l). slotPhase (fv_Phase (en_view (snd p))) \<longrightarrow> orphanedLocked poolName l (en_view (snd p)) \<longrightarrow>
        orphanedLocked poolName (l\<lparr>lg_profileUIDs := uidsOf (pi_Profiles i)\<rparr>) (en_view (snd p)))"

primrec allowed :: "(pool_key \<Rightarrow> string) \<Rightarrow> Ledger \<Rightarrow> ledger_call \<Rightarrow> bool" where
  "allowed n l (CallObserve v) \<longleftrightarrow> object_view l v \<and> loop_view l v"
| "allowed n l (CallForget key) \<longleftrightarrow> True"
| "allowed n l (CallTake uid) \<longleftrightarrow> True"
| "allowed n l (CallConfirm uid) \<longleftrightarrow> True"
| "allowed n l (CallRelease uid) \<longleftrightarrow> True"
| "allowed n l (CallUnconfirmed uid) \<longleftrightarrow> True"
| "allowed n l (CallLease uid missing) \<longleftrightarrow> True"
| "allowed n l (CallPublishFailed uid err) \<longleftrightarrow> True"
| "allowed n l (CallWithdrawFailed uid err) \<longleftrightarrow> True"
| "allowed n l (CallUpdatePool k f) \<longleftrightarrow> True"
| "allowed n l (CallSetWindow w) \<longleftrightarrow> True"
| "allowed n l CallMarkRebuilt \<longleftrightarrow> True"
| "allowed n l (CallReroute uid seq reason keep) \<longleftrightarrow> True"
| "allowed n l (CallPass i) \<longleftrightarrow> profiles_stay n l i"

inductive ledger_run :: "(pool_key \<Rightarrow> string) \<Rightarrow> Ledger \<Rightarrow> time \<Rightarrow> Ledger \<Rightarrow> time \<Rightarrow> bool" for poolName l t where
  run_none: "ledger_run poolName l t l t"
| run_call: "ledger_run poolName l t l1 t1 \<Longrightarrow> t1 \<le> t2 \<Longrightarrow> allowed poolName l1 c \<Longrightarrow> ledger_run poolName l t (perform poolName l1 t2 c) t2"

lemma at_pass_no_more:
  assumes wf: "ledger_wf l" and "profiles_stay poolName l i"
  shows "no_more poolName l now (at_pass l i now) now"
proof -
  have d: "dispatch_slot l now u = Some x" if "dispatch_slot (at_pass l i now) now u = Some x" for u x
    using that by (auto simp: dispatch_slot_def at_pass_grants [OF wf] split: option.splits if_splits)
  have o: "orphanedLocked poolName (at_pass l i now) v = orphanedLocked poolName (l\<lparr>lg_profileUIDs := uidsOf (pi_Profiles i)\<rparr>) v" for v
    by (simp add: orphanedLocked_def)
  have "slot_of poolName l now u = Some x" if s: "slot_of poolName (at_pass l i now) now u = Some x" for u x
  proof (cases "map_of (lg_files l) u")
    case None
    with s d show ?thesis by (simp add: slot_of_def)
  next
    case (Some e)
    then have "(u, e) \<in> set (lg_files l)" by (rule map_of_SomeD)
    with assms(2) have "slotPhase (fv_Phase (en_view e)) \<Longrightarrow> orphanedLocked poolName l (en_view e) \<Longrightarrow> orphanedLocked poolName (at_pass l i now) (en_view e)"
      unfolding profiles_stay_def o by (metis snd_conv)
    with s d Some show ?thesis by (auto simp: slot_of_def split: if_splits)
  qed
  then show ?thesis by (simp add: no_more_def)
qed

lemma pass_options: "ledger_wf l \<Longrightarrow> lg_o (fst (Pass poolName l i now)) = lg_o l"
proof (cases "lg_rebuilt l")
  case True
  assume wf: "ledger_wf l"
  from wf True obtain l2 queued admitted l3 where
    "l2 = rerouteLocked poolName (at_pass l i now) (pi_Unhealthy i) now" "ledger_wf l2"
    "distinct (map sl_Key (map cd_slot queued))" "admitted = Admit (map cd_slot queued) (running poolName l2 now) (budget_at l i)"
    "\<forall>c \<in> set queued. \<exists>e. map_of (lg_files l) (cd_uid c) = Some e \<and> competes l2 (pi_Profiles i) now (cd_uid c, e) \<and>
       cd_v c = en_view e \<and> sl_Profile (cd_slot c) = fv_Profile (en_view e)"
    "grants_new l2 l3 (dispatch_case queued admitted now)"
    "grants_new l3 (fst (Pass poolName l i now)) (\<lambda>u g. window_case l3 (pi_Profiles i) now u g \<or> graft_case l3 now u g)"
    by (rule pass_new [where poolName = poolName and i = i and now = now])
  then show ?thesis by (simp add: grants_new_def grants_only_def)
qed (simp add: pass_before_rebuild)

lemma used_mono: "ledger_wf l \<Longrightarrow> no_more poolName l t l' t' \<Longrightarrow> used poolName l' t' class \<le> used poolName l t class"
  unfolding used_def by (simp add: card_mono no_more_holders running_counts(2) wf_tables)

lemma call_keeps:
  assumes wf: "ledger_wf l" and ok: "allowed poolName l c"
  shows "ledger_wf (perform poolName l now c) \<and> op_Slots (lg_o (perform poolName l now c)) = op_Slots (lg_o l) \<and>
    used poolName (perform poolName l now c) now class \<le> max (slots_of (op_Slots (lg_o l)) class) (used poolName l now class)"
proof (cases "\<exists>i. c = CallPass i")
  case True
  then obtain i where c: "c = CallPass i" by blast
  with ok have "used poolName (at_pass l i now) now class \<le> used poolName l now class"
    by (intro used_mono [OF wf] at_pass_no_more [OF wf]) simp
  with pass_bounds(1,2) [OF wf, of poolName i now] pass_options [OF wf] show ?thesis
    by (fastforce simp: c intro: order_trans)
next
  case False
  have "ledger_wf (perform poolName l now c) \<and> op_Slots (lg_o (perform poolName l now c)) = op_Slots (lg_o l) \<and>
      no_more poolName l now (perform poolName l now c) now"
    using ok False wf
    by (cases c) (simp_all add: observing.keeps_wf observing.frees observing.keeps_slots forgetting.keeps_wf forgetting.frees forgetting.keeps_slots
        taking.keeps_wf taking.frees taking.keeps_slots confirming.keeps_wf confirming.frees confirming.keeps_slots
        releasing.keeps_wf releasing.frees releasing.keeps_slots unconfirming.keeps_wf unconfirming.frees unconfirming.keeps_slots
        leasing.keeps_wf leasing.frees leasing.keeps_slots publishing.keeps_wf publishing.frees publishing.keeps_slots
        withdrawing.keeps_wf withdrawing.frees withdrawing.keeps_slots pooling.keeps_wf pooling.frees pooling.keeps_slots
        windowing.keeps_wf windowing.frees windowing.keeps_slots rebuilding.keeps_wf rebuilding.frees rebuilding.keeps_slots
        rerouting.keeps_wf rerouting.frees rerouting.keeps_slots)
  then show ?thesis using used_mono [OF wf, of poolName now "perform poolName l now c" now "class"] by simp
qed

lemma run_keeps:
  assumes "ledger_run poolName l t l' t'" and wf: "ledger_wf l"
  shows "ledger_wf l' \<and> op_Slots (lg_o l') = op_Slots (lg_o l) \<and>
    used poolName l' t' class \<le> max (slots_of (op_Slots (lg_o l)) class) (used poolName l t class)"
  using assms(1)
proof induction
  case (run_call l1 t1 t2 c)
  then have "used poolName l1 t2 class \<le> used poolName l1 t1 class" by (intro used_mono no_more_later) simp_all
  with run_call call_keeps [of l1 poolName c t2 "class"] show ?case by auto
qed (simp add: wf)


text \<open>A pass respects both limits. Whatever the ledger holds, after a pass the running files of a class are within its slots, and those of
  a profile within its \<^verbatim>\<open>maxConcurrent\<close>, unless there were more before it already.\<close>

theorem pass_within_limits:
  assumes "ledger_wf l" and "0 < profileLimits (pi_Profiles i) profile"
  shows "let before = snd (candidatesLocked poolName (at_pass l i now) (pi_Profiles i) now);
             after = snd (candidatesLocked poolName (fst (Pass poolName l i now)) (pi_Profiles i) now)
         in count_by sl_Hardware after class \<le> max (slots_of (op_Slots (lg_o l)) class) (count_by sl_Hardware before class) \<and>
            count_by sl_Profile after profile \<le> max (profileLimits (pi_Profiles i) profile) (count_by sl_Profile before profile)"
  using pass_bounds(2) [OF assms(1), of poolName i now "class"]
    pass_bounds(3) [OF assms, where poolName = poolName and now = now] pass_bounds(1) [OF assms(1)]
  by (simp add: candidates_running used_counts at_pass_wf [OF assms(1)])

end
