(* ===== verification/TranscodeGrants.thy ===== *)
theory TranscodeGrants
  imports TranscodeInvariant
begin

text \<open>
  What a pass grants: whom it may grant to, the window of a profile filled best first, the counts of the window, and the graft slots; with
  sample ledgers on which the ledger's properties are instantiated.
\<close>

section \<open>Whom a pass grants\<close>

lemma reroute_one_directives: "lg_directives l u \<noteq> None \<Longrightarrow> lg_directives (reroute_one n uh now l p) u \<noteq> None"
  by (auto simp: reroute_one_def directive_def enqueueLocked_def Let_def split: if_splits)

lemma reroute_fold_directives: "lg_directives l u \<noteq> None \<Longrightarrow> lg_directives (foldl (reroute_one n uh now) l ps) u \<noteq> None"
proof (induction ps arbitrary: l)
  case (Cons p ps)
  show ?case unfolding foldl_Cons by (rule Cons.IH) (rule reroute_one_directives [OF Cons.prems])
qed simp

lemma reroute_directives: "lg_directives (rerouteLocked n l uh now) u = None \<Longrightarrow> lg_directives l u = None"
  using reroute_fold_directives unfolding rerouteLocked_def by blast

definition may_take :: "Ledger \<Rightarrow> PassInputs \<Rightarrow> time \<Rightarrow> string \<Rightarrow> grant \<Rightarrow> FileView \<Rightarrow> bool" where
  "may_take l i now u g v =
     (case gr_kind g of
        GrantNone \<Rightarrow> False
      | GrantWindow \<Rightarrow> fv_Profile v = gr_profile g \<and> fv_Eligible v \<and> \<not> windowPhase (fv_Phase v) \<and> \<not> fv_VerdictHolds v
      | GrantDispatch \<Rightarrow>
          fv_Phase v = TranscodePhasePlanned \<and> fv_Profile v = gr_profile g \<and> uidsOf (pi_Profiles i) (gr_profile g) \<noteq> None \<and> \<not> fv_Suspended v \<and>
          (fv_NextAttemptAt v = 0 \<or> fv_NextAttemptAt v \<le> now) \<and> (fv_EligibleKnown v \<longrightarrow> fv_Eligible v) \<and> lg_directives l u = None
      | GrantGraftSlot \<Rightarrow> fv_GraftPhase v = GraftPhaseWaiting \<and> fv_GraftReason v = ReasonWaitingForSlot \<and> \<not> fv_JoinedGraft v)"

text \<open>A new grant \<open>g\<close> for a file without one in \<open>lx\<close>, which is a stage of the pass.\<close>

definition granted_freely :: "Ledger \<Rightarrow> PassInputs \<Rightarrow> time \<Rightarrow> Ledger \<Rightarrow> string \<Rightarrow> grant \<Rightarrow> bool" where
  "granted_freely l i now lx u g \<longleftrightarrow>
     map_of (lg_grants lx) u = None \<and> gr_expires g = now + grantTTL \<and> \<not> gr_inUse g \<and> \<not> onBackoffLocked (at_pass l i now) u now \<and>
     (\<exists>e. map_of (lg_files l) u = Some e \<and> may_take l i now u g (en_view e))"

definition pass_stage :: "Ledger \<Rightarrow> PassInputs \<Rightarrow> time \<Rightarrow> Ledger \<Rightarrow> bool" where
  "pass_stage l i now lx \<longleftrightarrow> lg_files lx = lg_files l \<and> lg_backoffs lx = lg_backoffs (at_pass l i now)"

lemma window_free: "pass_stage l i now lx \<Longrightarrow> window_case lx (pi_Profiles i) now u g \<Longrightarrow> granted_freely l i now lx u g"
  by (auto simp: granted_freely_def pass_stage_def window_case_def may_take_def inBacklogLocked_def Let_def onBackoffLocked_def)

lemma graft_free: "pass_stage l i now lx \<Longrightarrow> graft_case lx now u g \<Longrightarrow> granted_freely l i now lx u g"
  by (auto simp: granted_freely_def pass_stage_def graft_case_def may_take_def graftCandidate_def graft_file_def Let_def onBackoffLocked_def)

lemma dispatch_free:
  assumes "l2 = rerouteLocked poolName (at_pass l i now) (pi_Unhealthy i) now" and "dispatch_case queued admitted now u g"
    and "\<forall>c \<in> set queued. \<exists>e. map_of (lg_files l) (cd_uid c) = Some e \<and> competes l2 (pi_Profiles i) now (cd_uid c, e) \<and>
       cd_v c = en_view e \<and> sl_Profile (cd_slot c) = fv_Profile (en_view e)"
  shows "granted_freely l i now l2 u g"
proof -
  from assms(2) obtain c where c: "c \<in> set queued" "cd_uid c = u" "g = new_grant GrantDispatch (sl_Hardware (cd_slot c)) (fv_Profile (cd_v c)) now"
    by (auto simp: dispatch_case_def)
  with assms(3) obtain e where e: "map_of (lg_files l) u = Some e" "competes l2 (pi_Profiles i) now (u, e)" "cd_v c = en_view e" by auto
  then have "map_of (lg_grants l2) u = None" "\<not> onBackoffLocked (at_pass l i now) u now" "lg_directives l u = None"
    using reroute_directives [of poolName "at_pass l i now" "pi_Unhealthy i" now u]
    by (auto simp: competes_def Let_def onBackoffLocked_def assms(1))
  with e c show ?thesis by (auto simp: granted_freely_def may_take_def competes_def Let_def uidsOf_def)
qed

lemma pass_free:
  assumes wf: "ledger_wf l" and "lg_rebuilt l" and g: "map_of (lg_grants (fst (Pass poolName l i now))) u = Some g" and new: "map_of (lg_grants l) u \<noteq> Some g"
  shows "\<exists>lx. granted_freely l i now lx u g \<and> (map_of (lg_grants lx) u = None \<longrightarrow> map_of (lg_grants (at_pass l i now)) u = None)"
proof -
  from assms(1,2) obtain l2 queued admitted l3 where
    l2: "l2 = rerouteLocked poolName (at_pass l i now) (pi_Unhealthy i) now" and "ledger_wf l2"
    and "distinct (map sl_Key (map cd_slot queued))" and "admitted = Admit (map cd_slot queued) (running poolName l2 now) (budget_at l i)"
    and cand: "\<forall>c \<in> set queued. \<exists>e. map_of (lg_files l) (cd_uid c) = Some e \<and> competes l2 (pi_Profiles i) now (cd_uid c, e) \<and>
       cd_v c = en_view e \<and> sl_Profile (cd_slot c) = fv_Profile (en_view e)"
    and g3: "grants_new l2 l3 (dispatch_case queued admitted now)"
    and gp: "grants_new l3 (fst (Pass poolName l i now)) (\<lambda>u g. window_case l3 (pi_Profiles i) now u g \<or> graft_case l3 now u g)"
    by (rule pass_new [where poolName = poolName and i = i and now = now])
  have only: "grants_only l2 l3" using g3 by (simp add: grants_new_def)
  then have stage: "pass_stage l i now l3" by (simp add: pass_stage_def l2 grants_only_def)
  have "map_of (lg_grants l2) u \<noteq> Some g" using new by (auto simp: l2 at_pass_grants [OF wf] split: option.splits if_splits)
  with g g3 gp have "dispatch_case queued admitted now u g \<or> window_case l3 (pi_Profiles i) now u g \<or> graft_case l3 now u g"
    unfolding grants_new_def by blast
  then have "granted_freely l i now l2 u g \<or> granted_freely l i now l3 u g"
    using dispatch_free [OF l2 _ cand] window_free [OF stage] graft_free [OF stage] by blast
  moreover have "map_of (lg_grants l3) u = None \<Longrightarrow> map_of (lg_grants l2) u = None" using only by (auto simp: grants_only_def)
  ultimately show ?thesis by (auto simp: l2)
qed

text \<open>C22: a pass grants only to files that are free to take it. A grant a pass issues is new, expires after the grant's time to live and goes to a file
  the ledger knows, which holds no live grant and is not backing off; a window place goes to an eligible file outside the window with no standing verdict, a dispatch
  to a Planned file of an existing profile that is not suspended, not waiting for its next attempt, not known to be ineligible and
  under no directive, and a graft slot to a waiting graft no transcode carries. Before the rebuild nothing is granted.\<close>

theorem pass_grants_free:
  assumes wf: "ledger_wf l" and g: "map_of (lg_grants (fst (Pass poolName l i now))) u = Some g" and new: "map_of (lg_grants l) u \<noteq> Some g"
  shows "lg_rebuilt l \<and> gr_expires g = now + grantTTL \<and> \<not> gr_inUse g \<and>
    (\<forall>g0. map_of (lg_grants l) u = Some g0 \<longrightarrow> \<not> live_grant now g0) \<and> \<not> onBackoffLocked (at_pass l i now) u now \<and>
    (\<exists>e. map_of (lg_files l) u = Some e \<and> may_take l i now u g (en_view e))"
proof (cases "lg_rebuilt l")
  case False
  with g new show ?thesis by (auto simp: pass_before_rebuild at_pass_grants [OF wf] split: option.splits if_splits)
next
  case True
  with pass_free [OF wf _ g new] show ?thesis
    by (auto simp: granted_freely_def at_pass_grants [OF wf] split: option.splits if_splits)
qed

section \<open>The window\<close>

subsection \<open>The counts\<close>

definition counted :: "(string, ProfileView) table \<Rightarrow> Ledger \<Rightarrow> string \<times> entry \<Rightarrow> string option" where
  "counted profiles l p =
     (if map_of profiles (fv_Profile (en_view (snd p))) \<noteq> None \<and> windowPhase (fv_Phase (en_view (snd p)))
      then Some (fv_Profile (en_view (snd p))) else window_grant l (fst p))"

lemma bump_at: "bump out k name = map_option (\<lambda>n. if k = name then n + 1 else n) (out name)"
  by (cases "out name"; cases "out k") (auto simp: bump_def)

lemma open_step_at:
  "(\<And>k. out k = None \<longleftrightarrow> map_of profiles k = None) \<Longrightarrow>
   open_step l out p name = map_option (\<lambda>n. if counted profiles l p = Some name then n + 1 else n) (out name)"
  by (cases "out name"; cases "window_grant l (fst p)") (auto simp: open_step_def counted_def Let_def bump_at option.map_ident)

lemma open_fold:
  assumes "\<And>k. out k = None \<longleftrightarrow> map_of profiles k = None"
  shows "foldl (open_step l) out ps name = map_option (\<lambda>n. n + int (length (filter (\<lambda>p. counted profiles l p = Some name) ps))) (out name)"
  using assms
proof (induction ps arbitrary: out)
  case (Cons p ps)
  have "open_step l out p k = None \<longleftrightarrow> map_of profiles k = None" for k by (simp add: open_step_at [OF Cons.prems] Cons.prems)
  then have "foldl (open_step l) (open_step l out p) ps name =
      map_option (\<lambda>n. n + int (length (filter (\<lambda>p. counted profiles l p = Some name) ps))) (open_step l out p name)" by (rule Cons.IH)
  then show ?case unfolding foldl_Cons open_step_at [OF Cons.prems, of _ _ name] by (cases "out name") simp_all
qed (simp add: option.map_ident)

lemma openCounts_None: "map_of profiles name = None \<Longrightarrow> openCounts l profiles name = None"
  unfolding openCounts_def by (subst open_fold [of _ profiles]) auto

lemma openCounts_filter:
  assumes "map_of profiles name \<noteq> None"
  shows "openCounts l profiles name = Some (int (length (filter (\<lambda>p. counted profiles l p = Some name) (lg_files l))))"
  unfolding openCounts_def by (subst open_fold [of _ profiles]) (use assms in auto)

text \<open>The counts of all windows in one walk are the counts one by one. For every profile of the pass, \<^verbatim>\<open>openCounts\<close> is \<^verbatim>\<open>Open\<close>, provided
  that no file holding a place in one profile's window holds a window grant of another.\<close>

theorem openCounts_open:
  assumes "map_of profiles name \<noteq> None"
    and "\<And>u e. (u, e) \<in> set (lg_files l) \<Longrightarrow> windowPhase (fv_Phase (en_view e)) \<Longrightarrow> window_grant l u = Some name \<Longrightarrow> fv_Profile (en_view e) = name"
  shows "openCounts l profiles name = Some (Open l name)"
proof -
  have "filter (\<lambda>p. counted profiles l p = Some name) (lg_files l) =
      filter (\<lambda>(uid, e). (fv_Profile (en_view e) = name \<and> windowPhase (fv_Phase (en_view e))) \<or> window_grant l uid = Some name) (lg_files l)"
  proof (rule filter_cong [OF refl], clarify)
    fix u e
    assume "(u, e) \<in> set (lg_files l)"
    from assms(2) [OF this] assms(1)
    show "(counted profiles l (u, e) = Some name) =
        (fv_Profile (en_view e) = name \<and> windowPhase (fv_Phase (en_view e)) \<or> window_grant l u = Some name)"
      unfolding counted_def by (cases "windowPhase (fv_Phase (en_view e))") auto
  qed
  then show ?thesis by (simp add: openCounts_filter [OF assms(1)] Open_def open_of_def)
qed

subsection \<open>Filling it\<close>

definition grant_window :: "string \<Rightarrow> time \<Rightarrow> Ledger \<Rightarrow> entry \<Rightarrow> Ledger" where
  "grant_window name now l e = grantLocked l (fv_UID (en_view e)) (fv_Key (en_view e)) GrantWindow '''' name now"

text \<open>The entries of a backlog that fit beside \<open>n\<close> open places.\<close>

definition fitting :: "int \<Rightarrow> int \<Rightarrow> 'a list \<Rightarrow> 'a list" where
  "fitting window n xs = (if window > 0 then take (nat (window - n)) xs else xs)"

lemma grant_window_options [simp]: "lg_o (grant_window name now l e) = lg_o l"
  using grantLocked_only unfolding grants_only_def grant_window_def by blast

lemma fill_loop_fitting: "fill_loop l name now n es = foldl (grant_window name now) l (fitting (op_Window (lg_o l)) n es)"
proof (induction es arbitrary: l n)
  case (Cons e es)
  let ?w = "op_Window (lg_o l)"
  show ?case
  proof (cases "?w > 0 \<and> n \<ge> ?w")
    case False
    then have "fitting ?w n (e # es) = e # fitting ?w (n + 1) es"
      by (cases "nat (?w - n)") (auto simp: fitting_def intro!: arg_cong [where f = "\<lambda>k. take k es"])
    with False Cons.IH [of "grant_window name now l e" "n + 1"] show ?thesis by (auto simp: grant_window_def [symmetric])
  qed (simp add: fitting_def)
qed (simp add: fitting_def)

lemma grant_window_fold:
  "map_of (lg_grants (foldl (grant_window name now) l es)) u =
     (if u \<in> (fv_UID \<circ> en_view) ` set es then Some (new_grant GrantWindow '''' name now) else map_of (lg_grants l) u)"
  by (induction es arbitrary: l) (auto simp: grant_window_def)

lemma grant_window_fold_only: "grants_only l (foldl (grant_window name now) l es)"
  by (rule grants_only_foldl) (simp add: grant_window_def)

lemma backlog_cong:
  assumes "grants_only l l'" and "\<And>u e. (u, e) \<in> set (lg_files l) \<Longrightarrow> fv_Profile (en_view e) = name \<Longrightarrow> map_of (lg_grants l') u = map_of (lg_grants l) u"
  shows "backlogLocked l' name now = backlogLocked l name now"
proof -
  have "lg_files l' = lg_files l" using assms(1) by (simp add: grants_only_def)
  moreover have "filter (\<lambda>(uid, e). inBacklogLocked l' uid e name now) (lg_files l) = filter (\<lambda>(uid, e). inBacklogLocked l uid e name now) (lg_files l)"
    by (rule filter_cong [OF refl]) (use assms in \<open>auto simp: inBacklogLocked_def onBackoffLocked_def grants_only_def Let_def\<close>)
  ultimately show ?thesis by (simp add: backlogLocked_def)
qed

definition room :: "Ledger \<Rightarrow> (string \<Rightarrow> int option) \<Rightarrow> time \<Rightarrow> string \<Rightarrow> entry list" where
  "room l opens now name = fitting (op_Window (lg_o l)) (case opens name of None \<Rightarrow> 0 | Some n \<Rightarrow> n) (backlogLocked l name now)"

lemma fill_profile_room: "fill_profile opens now l p = foldl (grant_window (fst p) now) l (room l opens now (fst p))"
  by (simp add: fill_profile_def room_def fill_loop_fitting Let_def fitting_def)

lemma room_set: "e \<in> set (room l opens now name) \<Longrightarrow> e \<in> set (backlogLocked l name now)"
  by (auto simp: room_def fitting_def split: if_splits dest: in_set_takeD)

lemma room_profile: "ledger_wf l \<Longrightarrow> e \<in> set (room l opens now name) \<Longrightarrow> fv_Profile (en_view e) = name"
  using backlog_set(2) room_set by (fastforce simp: inBacklogLocked_def Let_def)

text \<open>The profiles are filled independently of one another.\<close>

lemma fill_fold:
  assumes "ledger_wf l" and "distinct (map fst ps)" and "grants_only l l'" 
    and "\<And>u e. (u, e) \<in> set (lg_files l) \<Longrightarrow> fv_Profile (en_view e) \<in> fst ` set ps \<Longrightarrow> map_of (lg_grants l') u = map_of (lg_grants l) u"
  shows "map_of (lg_grants (foldl (fill_profile opens now) l' ps)) u =
     (case find (\<lambda>name. u \<in> (fv_UID \<circ> en_view) ` set (room l opens now name)) (map fst ps) of
        Some name \<Rightarrow> Some (new_grant GrantWindow '''' name now) | None \<Rightarrow> map_of (lg_grants l') u)"
  using assms(2-)
proof (induction ps arbitrary: l')
  case (Cons p ps)
  let ?n = "fst p" and ?R = "\<lambda>name. (fv_UID \<circ> en_view) ` set (room l opens now name)"
  have "backlogLocked l' ?n now = backlogLocked l ?n now"
    by (rule backlog_cong [OF Cons.prems(2)]) (use Cons.prems(3) in auto)
  then have r: "room l' opens now ?n = room l opens now ?n" using Cons.prems(2) by (simp add: room_def grants_only_def)
  let ?l = "fill_profile opens now l' p"
  have g: "map_of (lg_grants ?l) u = (if u \<in> ?R ?n then Some (new_grant GrantWindow '''' ?n now) else map_of (lg_grants l') u)" for u
    by (simp add: fill_profile_room r grant_window_fold)
  have only: "grants_only l ?l" using Cons.prems(2) grant_window_fold_only grants_only_trans unfolding fill_profile_room by blast
  have prof: "fv_Profile (en_view e) = name" if "(u, e) \<in> set (lg_files l)" "u \<in> ?R name" for u e name
  proof -
    from that(2) obtain e' where e': "e' \<in> set (room l opens now name)" "u = fv_UID (en_view e')" by auto
    from backlog_set(1) [OF assms(1) room_set [OF e'(1)]] e'(2) that(1) have "e' = e" using map_of_in_ok [OF wf_tables(1) [OF assms(1)]] by auto
    with room_profile [OF assms(1) e'(1)] show ?thesis by simp
  qed
  have "map_of (lg_grants ?l) u = map_of (lg_grants l) u" if "(u, e) \<in> set (lg_files l)" "fv_Profile (en_view e) \<in> fst ` set ps" for u e
  proof -
    from Cons.prems(1) have "?n \<notin> fst ` set ps" by simp
    with that(2) have "fv_Profile (en_view e) \<noteq> ?n" by metis
    with prof [OF that(1), of ?n] have "u \<notin> ?R ?n" by blast
    with Cons.prems(3) [OF that(1)] that(2) show ?thesis by (simp add: g)
  qed
  from Cons.IH [OF _ only this] Cons.prems(1)
  have IH: "map_of (lg_grants (foldl (fill_profile opens now) ?l ps)) u =
      (case find (\<lambda>name. u \<in> ?R name) (map fst ps) of Some name \<Rightarrow> Some (new_grant GrantWindow '''' name now) | None \<Rightarrow> map_of (lg_grants ?l) u)" by simp
  have "find (\<lambda>name. u \<in> ?R name) (map fst ps) = None" if "u \<in> ?R ?n"
  proof -
    from that obtain e where "map_of (lg_files l) u = Some e" using backlog_set(1) [OF assms(1) room_set] by fastforce
    then have "(u, e) \<in> set (lg_files l)" by (rule map_of_SomeD)
    with prof that have "u \<in> ?R name \<Longrightarrow> name = ?n" for name by metis
    moreover have "?n \<notin> set (map fst ps)" using Cons.prems(1) by simp
    ultimately show ?thesis unfolding find_None_iff by metis
  qed
  with IH g show ?case by (auto split: option.splits)
qed simp

lemma backlog_distinct: "ledger_wf l \<Longrightarrow> distinct (map (fv_UID \<circ> en_view) (backlogLocked l name now))"
proof -
  assume wf: "ledger_wf l"
  let ?f = "filter (\<lambda>(uid, e). inBacklogLocked l uid e name now) (lg_files l)"
  have "map (fv_UID \<circ> en_view) (map snd ?f) = map fst ?f"
    using wf_entry(1) [OF wf] map_of_in_ok [OF wf_tables(1) [OF wf]] by auto
  moreover have "distinct (map fst ?f)" using wf_tables(1) [OF wf] by (simp add: table_ok_def distinct_map_filter)
  ultimately have "distinct (map (fv_UID \<circ> en_view) (map snd ?f))" by (simp only:)
  then show ?thesis unfolding backlogLocked_def by (simp only: distinct_map distinct_sort set_sort)
qed

lemma fill_grants:
  assumes wf: "ledger_wf l" and "table_ok profiles" and name: "map_of profiles name \<noteq> None" and e: "map_of (lg_files l) u = Some e" "fv_Profile (en_view e) = name"
  shows "map_of (lg_grants (fillWindowLocked l profiles now)) u =
     (if u \<in> (fv_UID \<circ> en_view) ` set (room l (openCounts l profiles) now name) then Some (new_grant GrantWindow '''' name now) else map_of (lg_grants l) u)"
proof -
  let ?R = "\<lambda>n. (fv_UID \<circ> en_view) ` set (room l (openCounts l profiles) now n)"
  have other: "n = name" if "u \<in> ?R n" for n
    using that backlog_set(1) [OF wf room_set] room_profile [OF wf] e by fastforce
  have "name \<in> set (map fst profiles)" using name by (simp add: map_of_eq_None_iff)
  then have "find (\<lambda>n. u \<in> ?R n) (map fst profiles) = (if u \<in> ?R name then Some name else None)"
    using other by (cases "find (\<lambda>n. u \<in> ?R n) (map fst profiles)") (metis find_None_iff, metis find_SomeD)
  with assms(2) fill_fold [OF wf, of profiles l "openCounts l profiles" now u] show ?thesis
    by (simp add: fillWindowLocked_def table_ok_def)
qed

lemma window_grant_filled:
  assumes wf: "ledger_wf l" and l': "l' = fillWindowLocked l profiles now" and e: "map_of (lg_files l) u = Some e" "fv_Profile (en_view e) \<noteq> name"
  shows "window_grant l' u = Some name \<longleftrightarrow> window_grant l u = Some name"
proof -
  have new: "map_of (lg_grants l') u = Some g \<Longrightarrow> map_of (lg_grants l) u = Some g \<or> window_case l profiles now u g" for g
    using fill_new [OF wf, of profiles now] unfolding grants_new_def l' by blast
  have kept: "map_of (lg_grants l) u \<noteq> None \<Longrightarrow> map_of (lg_grants l') u \<noteq> None"
    using fill_new [OF wf, of profiles now] unfolding grants_new_def grants_only_def l' by blast
  show ?thesis
  proof (cases "map_of (lg_grants l) u")
    case None
    with new have "map_of (lg_grants l') u = Some g \<Longrightarrow> window_case l profiles now u g" for g by fastforce
    then have "window_grant l' u \<noteq> Some name" using e
      by (auto simp: window_grant_def window_case_def inBacklogLocked_def Let_def split: option.splits if_splits)
    with None show ?thesis by (simp add: window_grant_def)
  next
    case (Some g)
    then have "\<not> window_case l profiles now u g'" for g' by (auto simp: window_case_def inBacklogLocked_def Let_def)
    with new kept Some have "map_of (lg_grants l') u = Some g" by fastforce
    with Some show ?thesis by (simp add: window_grant_def)
  qed
qed

text \<open>A profile whose window has \<open>n\<close> places taken, its backlog, the files that fit and the ledger after the window was filled.\<close>

definition filling :: "Ledger \<Rightarrow> (string, ProfileView) table \<Rightarrow> string \<Rightarrow> int \<Rightarrow> time \<Rightarrow> entry list \<Rightarrow> entry list \<Rightarrow> Ledger \<Rightarrow> bool" where
  "filling l profiles name n now best fits l' \<longleftrightarrow>
     ledger_wf l \<and> table_ok profiles \<and> openCounts l profiles name = Some n \<and> best = backlogLocked l name now \<and>
     fits = (if op_Window (lg_o l) > 0 then take (nat (op_Window (lg_o l) - n)) best else best) \<and> l' = fillWindowLocked l profiles now"

lemma filling_profile: "filling l profiles name n now best fits l' \<Longrightarrow> map_of profiles name \<noteq> None"
  using openCounts_None [of profiles name l] by (auto simp: filling_def)

lemma filling_fits:
  assumes "filling l profiles name n now best fits l'"
  shows "fits = room l (openCounts l profiles) now name" and "set fits \<subseteq> set best" and "distinct (map (fv_UID \<circ> en_view) best)" and "distinct (map (fv_UID \<circ> en_view) fits)"
proof -
  show fits: "fits = room l (openCounts l profiles) now name" using assms by (simp add: filling_def room_def fitting_def)
  show "set fits \<subseteq> set best" unfolding fits using room_set assms by (auto simp: filling_def)
  show dist: "distinct (map (fv_UID \<circ> en_view) best)" using assms backlog_distinct by (auto simp: filling_def)
  then show "distinct (map (fv_UID \<circ> en_view) fits)" using assms by (auto simp: filling_def take_map [symmetric] intro: distinct_take)
qed

lemma filling_waits:
  assumes "filling l profiles name n now best fits l'" and "e \<in> set best"
  shows "map_of (lg_files l) (fv_UID (en_view e)) = Some e" and "fv_Profile (en_view e) = name" and "\<not> windowPhase (fv_Phase (en_view e))"
    and "map_of (lg_grants l) (fv_UID (en_view e)) = None"
  using backlog_set [of l e name now] assms by (auto simp: filling_def inBacklogLocked_def Let_def)

lemma filling_grants:
  assumes "filling l profiles name n now best fits l'" and "map_of (lg_files l) u = Some e" and "fv_Profile (en_view e) = name"
  shows "map_of (lg_grants l') u = (if u \<in> (fv_UID \<circ> en_view) ` set fits then Some (new_grant GrantWindow '''' name now) else map_of (lg_grants l) u)"
  using fill_grants [OF _ _ filling_profile [OF assms(1)] assms(2,3)] assms(1) filling_fits(1) [OF assms(1)] by (auto simp: filling_def)

lemma filling_counted:
  assumes f: "filling l profiles name n now best fits l'" and e: "map_of (lg_files l) u = Some e"
  shows "counted profiles l' (u, e) = Some name \<longleftrightarrow> counted profiles l (u, e) = Some name \<or> u \<in> (fv_UID \<circ> en_view) ` set fits"
proof -
  have wait: "fv_Profile (en_view e) = name \<and> \<not> windowPhase (fv_Phase (en_view e))" if "u \<in> (fv_UID \<circ> en_view) ` set fits"
    using that filling_fits(2) [OF f] filling_waits [OF f] e by fastforce
  show ?thesis
  proof (cases "map_of profiles (fv_Profile (en_view e)) \<noteq> None \<and> windowPhase (fv_Phase (en_view e))")
    case True
    with wait show ?thesis by (auto simp: counted_def)
  next
    case False
    have "window_grant l' u = Some name \<longleftrightarrow> window_grant l u = Some name \<or> u \<in> (fv_UID \<circ> en_view) ` set fits"
    proof (cases "fv_Profile (en_view e) = name")
      case True
      show ?thesis unfolding window_grant_def filling_grants [OF f e True] by simp
    next
      case False
      with window_grant_filled [OF _ _ e False] f wait show ?thesis by (auto simp: filling_def)
    qed
    with False show ?thesis by (auto simp: counted_def)
  qed
qed

lemma filling_open:
  assumes f: "filling l profiles name n now best fits l'"
  shows "openCounts l' profiles name = Some (n + int (length fits))"
proof -
  note name = filling_profile [OF f]
  have wf: "ledger_wf l" using f by (simp add: filling_def)
  have files: "lg_files l' = lg_files l" using fill_new [OF wf] f by (auto simp: filling_def grants_new_def grants_only_def)
  let ?A = "\<lambda>l'. {u. \<exists>e. map_of (lg_files l) u = Some e \<and> counted profiles l' (u, e) = Some name}"
  let ?F = "(fv_UID \<circ> en_view) ` set fits"
  have n: "n = int (card (?A l))" "openCounts l' profiles name = Some (int (card (?A l')))"
    using openCounts_filter [OF name, of l] openCounts_filter [OF name, of l'] f length_filter_card [OF wf_tables(1) [OF wf]] by (simp_all add: files filling_def)
  have best: "map_of (lg_files l) (fv_UID (en_view e)) = Some e \<and> counted profiles l (fv_UID (en_view e), e) \<noteq> Some name" if "e \<in> set fits" for e
    using filling_waits [OF f, of e] filling_fits(2) [OF f] that by (auto simp: counted_def window_grant_def)
  have "?A l' = ?A l \<union> ?F" using filling_counted [OF f] best by fastforce
  moreover have "?A l \<inter> ?F = {}" using best by fastforce
  moreover have "finite (?A l)" by (rule finite_subset [of _ "dom (map_of (lg_files l))"]) (auto simp: finite_dom_map_of)
  moreover have "card ?F = length fits" using filling_fits(4) [OF f] by (metis distinct_card length_map set_map)
  ultimately show ?thesis by (simp add: n card_Un_disjoint)
qed

text \<open>C23: the window of a profile is filled exactly, best first. A pass that finds \<open>n\<close> places of a profile's window taken gives a window grant to the files that fit,
  from the front of its backlog, which is ordered by priority and then by name, and to no other file of the backlog; the window
  then holds \<open>n\<close> and those, never more than its size unless it did before, and an unlimited window takes the whole backlog.\<close>

theorem window_filled:
  assumes "ledger_wf l" and "table_ok profiles" and "openCounts l profiles name = Some n" and "best = backlogLocked l name now"
    and "fits = (if op_Window (lg_o l) > 0 then take (nat (op_Window (lg_o l) - n)) best else best)" and "l' = fillWindowLocked l profiles now"
  shows "(\<forall>e \<in> set best. map_of (lg_grants l') (fv_UID (en_view e)) = (if e \<in> set fits then Some (new_grant GrantWindow '''' name now) else None)) \<and>
    sorted (map (\<lambda>e. (- fv_Priority (en_view e), en_key e)) best) \<and>
    openCounts l' profiles name = Some (n + int (length fits)) \<and>
    (op_Window (lg_o l) > 0 \<longrightarrow> n + int (length fits) \<le> max (op_Window (lg_o l)) n)"
proof (intro conjI ballI impI)
  have f: "filling l profiles name n now best fits l'" using assms by (simp add: filling_def)
  show "map_of (lg_grants l') (fv_UID (en_view e)) = (if e \<in> set fits then Some (new_grant GrantWindow '''' name now) else None)" if e: "e \<in> set best" for e
  proof -
    have "fv_UID (en_view e) \<in> (fv_UID \<circ> en_view) ` set fits \<longleftrightarrow> e \<in> set fits"
      using filling_fits(2,3) [OF f] e by (auto simp: distinct_map inj_on_def)
    then show ?thesis using filling_grants [OF f] filling_waits [OF f e] by simp
  qed
  show "sorted (map (\<lambda>e. (- fv_Priority (en_view e), en_key e)) best)" unfolding assms(4) backlogLocked_def by simp
  show "openCounts l' profiles name = Some (n + int (length fits))" by (rule filling_open [OF f])
  show "n + int (length fits) \<le> max (op_Window (lg_o l)) n" if "op_Window (lg_o l) > 0" using that by (auto simp: assms(5))
qed

section \<open>Samples\<close>

lemma object_view_code [code]:
  "object_view l v \<longleftrightarrow> CHR ''/'' \<notin> set (fst (fv_Key v)) \<and> (case map_of (lg_files l) (fv_UID v) of None \<Rightarrow> True | Some e \<Rightarrow> fv_Key (en_view e) = fv_Key v)"
  by (auto simp: object_view_def split: option.split)

lemma new_wf: "ledger_wf (NewLedger o')"
  by (simp add: ledger_wf_def NewLedger_def table_simps)

text \<open>The stages of a pass as functions of evaluated arguments, for the evaluation of the samples.\<close>

definition pass_end :: "(pool_key \<Rightarrow> string) \<Rightarrow> PassInputs \<Rightarrow> time \<Rightarrow> Ledger \<Rightarrow> Ledger \<times> duration" where
  "pass_end n i now l = (metricsLocked n l, nextWakeLocked (metricsLocked n l) now)"

definition pass_grants :: "(pool_key \<Rightarrow> string) \<Rightarrow> PassInputs \<Rightarrow> time \<Rightarrow> Ledger \<Rightarrow> candidate list \<Rightarrow> Slot list \<Rightarrow> hold list \<Rightarrow> string \<Rightarrow> Ledger" where
  "pass_grants n i now l queued admitted holds y =
     grantGraftSlotsLocked (fillWindowLocked (waitReasonsLocked (grantDispatchLocked l queued admitted now) queued admitted holds y) (pi_Profiles i) now) (pi_GraftJobs i) now"

definition pass_admit :: "(pool_key \<Rightarrow> string) \<Rightarrow> PassInputs \<Rightarrow> time \<Rightarrow> Ledger \<Rightarrow> Slot list \<Rightarrow> Budget \<Rightarrow> string \<Rightarrow> candidate list \<times> hold list \<Rightarrow> Ledger" where
  "pass_admit n i now l run b y q = pass_grants n i now l (fst q) (Admit (map cd_slot (fst q)) run b) (snd q) y"

definition pass_assign :: "(pool_key \<Rightarrow> string) \<Rightarrow> PassInputs \<Rightarrow> time \<Rightarrow> Ledger \<Rightarrow> candidate list \<times> Slot list \<Rightarrow> (string \<Rightarrow> int option) \<times> string \<Rightarrow> Ledger" where
  "pass_assign n i now l c b =
     pass_admit n i now l (snd c) \<lparr>bd_Slots = slots_of (fst b), bd_ProfileLimits = profileLimits (pi_Profiles i)\<rparr> (snd b)
       (assignClasses (fst c) (snd c) (\<lambda>c. pi_GPUNodes i c \<and> map_of (pi_Unhealthy i) c = None) (unschedulableLocked l now)
          (foldl (hold_unhealthy (pi_Profiles i)) (pi_Held i) (pi_Unhealthy i)) (\<lambda>name. str (lg_profileUIDs l name)) (profileLimits (pi_Profiles i)) (slots_of (fst b)))"

definition pass_rebuilt :: "(pool_key \<Rightarrow> string) \<Rightarrow> PassInputs \<Rightarrow> time \<Rightarrow> Ledger \<Rightarrow> Ledger \<times> duration" where
  "pass_rebuilt n i now l = pass_end n i now (pass_assign n i now l (candidatesLocked n l (pi_Profiles i) now) (budget_of (lg_o l) i))"

definition pass_start :: "(pool_key \<Rightarrow> string) \<Rightarrow> PassInputs \<Rightarrow> time \<Rightarrow> Ledger \<Rightarrow> Ledger \<times> duration" where
  "pass_start n i now l = (if lg_rebuilt l then pass_rebuilt n i now (rerouteLocked n l (pi_Unhealthy i) now) else (l, admissionBackstop))"

lemma Pass_code [code]: "Pass n l i now = pass_start n i now (at_pass l i now)"
  unfolding Pass_def pass_start_def pass_rebuilt_def pass_assign_def pass_admit_def pass_grants_def pass_end_def at_pass_def Let_def split_beta
  by simp

definition pool0 :: "pool_key \<Rightarrow> string" where
  "pool0 k = fst k @ ''-'' @ snd (snd k)"

definition sample_view :: "string \<Rightarrow> TranscodePhase \<Rightarrow> int \<Rightarrow> FileView" where
  "sample_view uid phase prio = zero_FileView\<lparr>fv_UID := uid, fv_Key := (''media'', uid), fv_Seq := 1, fv_Phase := phase, fv_Profile := ''hd'',
     fv_Class := (if slotPhase phase then ''cpu'' else ''''), fv_Hardware := ''cpu'', fv_Priority := prio, fv_Eligible := True, fv_EligibleKnown := True\<rparr>"

definition sample_inputs :: PassInputs where
  "sample_inputs = \<lparr>pi_Profiles = [(''hd'', \<lparr>pv_Name = ''hd'', pv_UID = ''p'', pv_Priority = 50, pv_MaxConcurrent = 1, pv_Hardware = ''cpu''\<rparr>)],
     pi_GPUNodes = (\<lambda>_. False), pi_Devices = (\<lambda>_. zero_Device), pi_Unhealthy = [], pi_Held = (\<lambda>_. None), pi_GraftJobs = (\<lambda>_. []), pi_VideoStreams = 0\<rparr>"

text \<open>Two planned files and two eligible ones outside the window of three, one slot.\<close>

definition sample_ledger :: Ledger where
  "sample_ledger = markRebuilt (foldl (\<lambda>l v. Observe l v 0)
     (NewLedger \<lparr>op_Slots = (\<lambda>c. if c = ''cpu'' then Some 1 else None), op_Window = 3, op_GraftConcurrency = 0\<rparr>)
     [sample_view ''a'' TranscodePhasePlanned 0, sample_view ''b'' TranscodePhasePlanned 0,
      sample_view ''c'' TranscodePhaseNone 10, sample_view ''d'' TranscodePhaseNone 90])"

fun observations_ok :: "Ledger \<Rightarrow> FileView list \<Rightarrow> bool" where
  "observations_ok l [] \<longleftrightarrow> True"
| "observations_ok l (v # vs) \<longleftrightarrow> object_view l v \<and> observations_ok (Observe l v 0) vs"

lemma observations_wf: "ledger_wf l \<Longrightarrow> observations_ok l vs \<Longrightarrow> ledger_wf (foldl (\<lambda>l v. Observe l v 0) l vs)"
  by (induction vs arbitrary: l) (simp_all add: Observe_def observe_wf)

lemma sample_wf: "ledger_wf sample_ledger"
proof -
  let ?l = "NewLedger \<lparr>op_Slots = (\<lambda>c. if c = ''cpu'' then Some 1 else None), op_Window = 3, op_GraftConcurrency = 0\<rparr>"
  let ?vs = "[sample_view ''a'' TranscodePhasePlanned 0, sample_view ''b'' TranscodePhasePlanned 0,
      sample_view ''c'' TranscodePhaseNone 10, sample_view ''d'' TranscodePhaseNone 90]"
  have "observations_ok ?l ?vs" by code_simp
  from observations_wf [OF new_wf this] show ?thesis unfolding sample_ledger_def markRebuilt_def signal_wf by (rule wf_cong) simp_all
qed

fun sample_run :: "Ledger \<Rightarrow> ledger_call list \<Rightarrow> Ledger" where
  "sample_run l [] = l"
| "sample_run l (c # cs) = sample_run (perform pool0 l 1 c) cs"

fun sample_allowed :: "Ledger \<Rightarrow> ledger_call list \<Rightarrow> bool" where
  "sample_allowed l [] \<longleftrightarrow> True"
| "sample_allowed l (c # cs) \<longleftrightarrow> allowed pool0 l c \<and> sample_allowed (perform pool0 l 1 c) cs"

lemma sample_run_runs:
  "ledger_run pool0 l0 0 l t \<Longrightarrow> t \<le> 1 \<Longrightarrow> sample_allowed l cs \<Longrightarrow> \<exists>t' \<le> 1. ledger_run pool0 l0 0 (sample_run l cs) t'"
proof (induction cs arbitrary: l t)
  case (Cons c cs)
  from run_call [OF Cons.prems(1,2), of c] Cons.prems(3) have "ledger_run pool0 l0 0 (perform pool0 l 1 c) 1" by simp
  from Cons.IH [OF this] Cons.prems(3) show ?case by simp
qed auto

definition sample_calls :: "ledger_call list" where
  "sample_calls = [CallPass sample_inputs, CallTake ''a'', CallObserve (sample_view ''a'' TranscodePhaseQueued 0), CallConfirm ''a'', CallPass sample_inputs]"


theorem pass_within_limits_witness:
  "count_by sl_Profile (snd (candidatesLocked pool0 (fst (Pass pool0 sample_ledger sample_inputs 1)) (pi_Profiles sample_inputs) 1)) ''hd'' \<le> 1"
proof -
  have p: "0 < profileLimits (pi_Profiles sample_inputs) ''hd''" "profileLimits (pi_Profiles sample_inputs) ''hd'' = 1"
    "count_by sl_Profile (snd (candidatesLocked pool0 (at_pass sample_ledger sample_inputs 1) (pi_Profiles sample_inputs) 1)) ''hd'' = 0" by code_simp+
  from pass_within_limits [OF sample_wf p(1), of pool0 1 "''cpu''"] p(2,3) show ?thesis by (simp add: Let_def)
qed

theorem pass_grants_free_witness:
  "map_of (lg_grants (fst (Pass pool0 sample_ledger sample_inputs 1))) ''a'' = Some (new_grant GrantDispatch ''cpu'' ''hd'' 1) \<and>
   (\<exists>e. map_of (lg_files sample_ledger) ''a'' = Some e \<and> fv_Phase (en_view e) = TranscodePhasePlanned)"
proof -
  have g: "map_of (lg_grants (fst (Pass pool0 sample_ledger sample_inputs 1))) ''a'' = Some (new_grant GrantDispatch ''cpu'' ''hd'' 1)"
    "map_of (lg_grants sample_ledger) ''a'' \<noteq> Some (new_grant GrantDispatch ''cpu'' ''hd'' 1)" by code_simp+
  from pass_grants_free [OF sample_wf g] g(1) show ?thesis by (auto simp: may_take_def)
qed

theorem openCounts_open_witness: "openCounts sample_ledger (pi_Profiles sample_inputs) ''hd'' = Some 2"
proof -
  have p: "map_of (pi_Profiles sample_inputs) ''hd'' \<noteq> None" "Open sample_ledger ''hd'' = 2" by code_simp+
  have "list_all (\<lambda>(u, e). window_grant sample_ledger u \<noteq> Some ''hd'') (lg_files sample_ledger)" by code_simp
  then have "openCounts sample_ledger (pi_Profiles sample_inputs) ''hd'' = Some (Open sample_ledger ''hd'')"
    by (intro openCounts_open [OF p(1)]) (auto simp: list_all_iff)
  with p(2) show ?thesis by simp
qed

theorem window_filled_witness:
  "map_of (lg_grants (fillWindowLocked sample_ledger (pi_Profiles sample_inputs) 1)) ''d'' = Some (new_grant GrantWindow '''' ''hd'' 1) \<and>
   map_of (lg_grants (fillWindowLocked sample_ledger (pi_Profiles sample_inputs) 1)) ''c'' = None \<and>
   openCounts (fillWindowLocked sample_ledger (pi_Profiles sample_inputs) 1) (pi_Profiles sample_inputs) ''hd'' = Some 3"
proof -
  let ?best = "backlogLocked sample_ledger ''hd'' 1"
  have o: "openCounts sample_ledger (pi_Profiles sample_inputs) ''hd'' = Some 2" by code_simp
  have t: "table_ok (pi_Profiles sample_inputs)" by code_simp
  have b: "map (fv_UID \<circ> en_view) ?best = [''d'', ''c'']" "0 < op_Window (lg_o sample_ledger)" "op_Window (lg_o sample_ledger) = 3" by code_simp+
  then obtain x y where xy: "?best = [x, y]" "fv_UID (en_view x) = ''d''" "fv_UID (en_view y) = ''c''" by (auto simp: map_eq_Cons_conv)
  from window_filled [OF sample_wf t o refl refl refl, of 1] b xy show ?thesis by (auto simp: take_Cons')
qed

text \<open>The one walk counts less than \<^verbatim>\<open>Open\<close> for a file in one window that still uses a grant of another.\<close>

lemma open_counts_differ:
  "let l = sample_ledger\<lparr>lg_grants := [(''a'', (new_grant GrantWindow '''' ''uhd'' 0)\<lparr>gr_inUse := True\<rparr>)]\<rparr>;
       profiles = pi_Profiles sample_inputs @ [(''uhd'', \<lparr>pv_Name = ''uhd'', pv_UID = ''q'', pv_Priority = 50, pv_MaxConcurrent = 0, pv_Hardware = ''cpu''\<rparr>)]
   in openCounts l profiles ''uhd'' = Some 0 \<and> Open l ''uhd'' = 1"
  by code_simp

end
