(* ===== verification/TranscodeRebuild.thy ===== *)
theory TranscodeRebuild
  imports TranscodeSelect TranscodeGrants
begin

text \<open>
  The rebuild of the admission ledger from the apiserver (\<^verbatim>\<open>app/transcode/admission/rebuild.go\<close>) and the view of a file it observes
  (\<^verbatim>\<open>fileview.go\<close>). What the apiserver lists for a namespace and a phase, what a Get answers, what the cache holds and the eligibility of a file are
  arguments; a failed request is \<open>None\<close>. A rebuild reads the clock once.
\<close>

section \<open>The view of a file\<close>

definition or_zero :: "int option \<Rightarrow> int \<Rightarrow> int" where
  "or_zero x d = (case x of None \<Rightarrow> d | Some t \<Rightarrow> t)"

definition with_eligibility :: "FileView \<Rightarrow> Eligibility option \<Rightarrow> FileView" where
  "with_eligibility v e =
     (case e of
        None \<Rightarrow> v
      | Some x \<Rightarrow>
          let v = v\<lparr>fv_Eligible := el_Eligible x, fv_EligibleKnown := True, fv_Priority := el_Priority x\<rparr>
          in case el_Profile x of None \<Rightarrow> v | Some p \<Rightarrow> v\<lparr>fv_Profile := tp_Name p, fv_Hardware := tp_Hardware p\<rparr>)"

definition with_block :: "FileView \<Rightarrow> string \<Rightarrow> TranscodeState option \<Rightarrow> Eligibility option \<Rightarrow> FileView" where
  "with_block v probeHash block e =
     (case block of
        None \<Rightarrow> v
      | Some b \<Rightarrow>
          let ended = (tb_Phase b = TranscodePhaseSkipped \<or> tb_Phase b = TranscodePhaseFailed)
          in v\<lparr>fv_Phase := tb_Phase b,
               fv_Profile := (if tb_Profile b \<noteq> '''' then tb_Profile b else fv_Profile v),
               fv_Class := tb_Class b, fv_Pool := tb_Pool b, fv_Suspended := tb_Suspended b,
               fv_Priority := (if tb_Priority b \<noteq> 0 \<and> (Option.is_none e \<or> \<not> ended) then tb_Priority b else fv_Priority v),
               fv_Hardware := (if tb_Hardware b \<noteq> '''' then tb_Hardware b else fv_Hardware v),
               fv_PlannedAt := or_zero (tb_PlannedAt b) (fv_PlannedAt v),
               fv_NextAttemptAt := or_zero (tb_NextAttemptAt b) (fv_NextAttemptAt v),
               fv_DispatchSeq := (case tb_Dispatch b of None \<Rightarrow> fv_DispatchSeq v | Some d \<Rightarrow> dp_Seq d),
               fv_Encodes := (case tb_Plan b of None \<Rightarrow> fv_Encodes v | Some p \<Rightarrow> tpl_Mode p = TranscodeModeTranscode),
               fv_Encoder := (case tb_Plan b of None \<Rightarrow> fv_Encoder v | Some p \<Rightarrow> tpl_Encoder p),
               fv_Fallback := (tb_FallbackReason b \<noteq> ''''),
               fv_JoinedGraft := (tb_JoinedGraft b \<noteq> None \<and> (case tb_Dispatch b of None \<Rightarrow> False | Some d \<Rightarrow> InFlight d)),
               fv_VerdictHolds := (case e of None \<Rightarrow> False
                                   | Some x \<Rightarrow> ended \<and> tb_ProfileHash b = el_Hash x \<and> tb_ProbeHash b = probeHash)\<rparr>)"

definition with_graft :: "FileView \<Rightarrow> GraftState option \<Rightarrow> FileView" where
  "with_graft v graft =
     (case graft of
        None \<Rightarrow> v
      | Some g \<Rightarrow> v\<lparr>fv_GraftPhase := gs_Phase g, fv_GraftReason := gs_Reason g, fv_GraftJobName := gs_JobName g,
                    fv_DonorImportedAt := or_zero (gs_DonorImportedAt g) (fv_DonorImportedAt v)\<rparr>)"

definition FileViewOf :: "MediaFile \<Rightarrow> MediaFileStatus \<Rightarrow> Eligibility option \<Rightarrow> FileView" where
  "FileViewOf mf st e =
     with_graft (with_block (with_eligibility (zero_FileView\<lparr>fv_UID := mf_UID mf, fv_Key := mf_Key mf, fv_Seq := ms_LastSeq st\<rparr>) e)
       (ms_ProbeHash st) (ms_Transcode st) e) (ms_Graft st)"

lemma FileViewOf_simps [simp]: "fv_UID (FileViewOf mf st e) = mf_UID mf" "fv_Key (FileViewOf mf st e) = mf_Key mf" "fv_Seq (FileViewOf mf st e) = ms_LastSeq st"
  by (simp_all add: FileViewOf_def with_graft_def with_block_def with_eligibility_def Let_def split: option.split)

section \<open>The rebuild\<close>

datatype selector = SelTranscode TranscodePhase | SelGraft GraftPhase

definition windowPhases :: "TranscodePhase list" where
  "windowPhases = [TranscodePhasePending, TranscodePhasePlanned, TranscodePhaseQueued, TranscodePhaseRunning, TranscodePhaseSwapping]"

definition namespacesOrAll :: "string list \<Rightarrow> string list" where
  "namespacesOrAll ns = (if ns = [] then [''''] else ns)"

definition observeQuorum :: "Ledger \<Rightarrow> FileView \<Rightarrow> time \<Rightarrow> bool \<Rightarrow> time \<Rightarrow> Ledger" where
  "observeQuorum l v started replace now =
     (case map_of (lg_files l) (fv_UID v) of
        None \<Rightarrow> fst (observeLocked l v now)
      | Some cur \<Rightarrow>
          if \<not> replace \<or> \<not> en_observedAt cur < started then fst (observeLocked l v now)
          else storeLocked l v (Some cur) now)"

definition list_calls :: "string list \<Rightarrow> (string \<times> selector) list" where
  "list_calls namespaces =
     concat (map (\<lambda>ns. map (\<lambda>p. (ns, SelTranscode p)) windowPhases @ map (\<lambda>p. (ns, SelGraft p)) [GraftPhaseQueued, GraftPhaseRunning])
       (namespacesOrAll namespaces))"

fun read_lists :: "(string \<times> selector \<Rightarrow> MediaFile list option) \<Rightarrow> time \<Rightarrow> bool \<Rightarrow> time \<Rightarrow> (string \<times> selector) list \<Rightarrow> Ledger \<times> string list \<Rightarrow> (Ledger \<times> string list) \<times> bool" where
  "read_lists api started replace now [] s = (s, True)"
| "read_lists api started replace now (c # cs) s =
     (case api c of
        None \<Rightarrow> (s, False)
      | Some items \<Rightarrow>
          read_lists api started replace now cs
            (foldl (\<lambda>(l, seen) mf. (observeQuorum l (FileViewOf mf (mf_Status mf) None) started replace now, seen @ [mf_UID mf])) s items))"

datatype get_result = GetNotFound | GetError | GetFile MediaFile

definition unseen :: "Ledger \<Rightarrow> string list \<Rightarrow> time \<Rightarrow> FileView list" where
  "unseen l seen started =
     map (\<lambda>p. en_view (snd p)) (filter (\<lambda>p. fst p \<notin> set seen \<and> windowPhase (fv_Phase (en_view (snd p))) \<and> en_observedAt (snd p) < started) (lg_files l))"

fun correct :: "(nname \<Rightarrow> get_result) \<Rightarrow> time \<Rightarrow> time \<Rightarrow> FileView list \<Rightarrow> Ledger \<Rightarrow> Ledger \<times> bool" where
  "correct get started now [] l = (l, True)"
| "correct get started now (v # vs) l =
     (case get (fv_Key v) of
        GetNotFound \<Rightarrow> correct get started now vs (fst (Forget l (fv_Key v)))
      | GetError \<Rightarrow> (l, False)
      | GetFile mf \<Rightarrow> correct get started now vs (observeQuorum l (FileViewOf mf (mf_Status mf) None) started True now))"

definition correctUnseen :: "(nname \<Rightarrow> get_result) \<Rightarrow> time \<Rightarrow> time \<Rightarrow> string list \<Rightarrow> Ledger \<Rightarrow> Ledger \<times> bool" where
  "correctUnseen get started now seen l = correct get started now (unseen l seen started) l"

definition scan_one :: "(MediaFile \<Rightarrow> Eligibility option) \<Rightarrow> time \<Rightarrow> Ledger \<Rightarrow> MediaFile \<Rightarrow> Ledger" where
  "scan_one eligible now l mf =
     (if \<not> EligibleKind (mf_Kind mf) then l
      else case eligible mf of None \<Rightarrow> l | Some e \<Rightarrow> fst (observeLocked l (FileViewOf mf (mf_Status mf) (Some e)) now))"

fun scanBacklog :: "(string \<Rightarrow> MediaFile list option) \<Rightarrow> (MediaFile \<Rightarrow> Eligibility option) \<Rightarrow> time \<Rightarrow> string list \<Rightarrow> Ledger \<Rightarrow> Ledger \<times> bool" where
  "scanBacklog cache eligible now [] l = (l, True)"
| "scanBacklog cache eligible now (ns # nss) l =
     (case cache ns of
        None \<Rightarrow> (l, False)
      | Some items \<Rightarrow> scanBacklog cache eligible now nss (foldl (scan_one eligible now) l items))"

record RebuildInputs =
  rb_API :: "string \<times> selector \<Rightarrow> MediaFile list option"
  rb_Get :: "nname \<Rightarrow> get_result"
  rb_Cache :: "string \<Rightarrow> MediaFile list option"
  rb_Namespaces :: "string list"
  rb_Eligible :: "MediaFile \<Rightarrow> Eligibility option"

definition rebuild :: "Ledger \<Rightarrow> RebuildInputs \<Rightarrow> bool \<Rightarrow> time \<Rightarrow> Ledger \<times> bool" where
  "rebuild l i replace now =
     (let ((l1, seen), ok1) = read_lists (rb_API i) now replace now (list_calls (rb_Namespaces i)) (l, []) in
      if \<not> ok1 then (l1, False)
      else let (l2, ok2) = (if replace then correctUnseen (rb_Get i) now now seen l1 else (l1, True)) in
           if \<not> ok2 then (l2, False)
           else let (l3, ok3) = scanBacklog (rb_Cache i) (rb_Eligible i) now (namespacesOrAll (rb_Namespaces i)) l2 in
                if \<not> ok3 then (l3, False) else (markRebuilt l3, True))"

definition Rebuild :: "Ledger \<Rightarrow> RebuildInputs \<Rightarrow> time \<Rightarrow> Ledger \<times> bool" where
  "Rebuild l i now = rebuild l i False now"

definition Resync :: "Ledger \<Rightarrow> RebuildInputs \<Rightarrow> time \<Rightarrow> Ledger \<times> bool" where
  "Resync l i now = rebuild l i True now"

section \<open>What a rebuild counts\<close>

text \<open>
  The objects of the cluster by UID and name: a UID has one name, a name at one time one UID, and a namespace has no slash.
\<close>

definition objects_ok :: "(string \<times> nname) set \<Rightarrow> bool" where
  "objects_ok ids \<longleftrightarrow> (\<forall>u k u' k'. (u, k) \<in> ids \<longrightarrow> (u', k') \<in> ids \<longrightarrow> (u = u' \<longleftrightarrow> k = k')) \<and> (\<forall>u k. (u, k) \<in> ids \<longrightarrow> CHR ''/'' \<notin> set (fst k))"

definition mf_id :: "MediaFile \<Rightarrow> string \<times> nname" where
  "mf_id mf = (mf_UID mf, mf_Key mf)"

definition within :: "(string \<times> nname) set \<Rightarrow> Ledger \<Rightarrow> bool" where
  "within ids l \<longleftrightarrow> ledger_wf l \<and> (\<forall>u e. map_of (lg_files l) u = Some e \<longrightarrow> (u, fv_Key (en_view e)) \<in> ids)"

text \<open>The ledger holds a view of the file at least as new as \<open>v\<close>.\<close>

definition sees :: "Ledger \<Rightarrow> FileView \<Rightarrow> bool" where
  "sees l v \<longleftrightarrow> (\<exists>e. map_of (lg_files l) (fv_UID v) = Some e \<and> \<not> stale_view (en_view e) v)"

lemma not_stale_trans: "\<not> stale_view a b \<Longrightarrow> \<not> stale_view b c \<Longrightarrow> \<not> stale_view a c"
  by (auto simp: stale_view_def)

lemma stale_merged [simp]: "stale_view (merged l v cur) w = stale_view v w"
  by (simp add: stale_view_def)

lemma stale_less: "stale_view v w \<Longrightarrow> \<not> stale_view w v"
  by (auto simp: stale_view_def)

lemma observe_within:
  assumes ids: "objects_ok ids" and l: "within ids l" and v: "(fv_UID v, fv_Key v) \<in> ids"
  shows "within ids (fst (observeLocked l v now))" and "sees (fst (observeLocked l v now)) v"
    and "sees l w \<Longrightarrow> sees (fst (observeLocked l v now)) w"
proof -
  have wf: "ledger_wf l" using l by (simp add: within_def)
  have "u = fv_UID v" if "lg_byKey l (fv_Key v) = Some u" for u
  proof -
    from wf_key [OF wf that] obtain e where "map_of (lg_files l) u = Some e" "fv_Key (en_view e) = fv_Key v" by blast
    with l have "(u, fv_Key v) \<in> ids" unfolding within_def by metis
    with ids v show ?thesis unfolding objects_ok_def by blast
  qed
  then have settled: "settled_key l v = l" by (auto simp: settled_key_def split: option.split)
  have ov: "object_view l v" using ids l v unfolding object_view_def objects_ok_def within_def by blast
  have cases: "fst (observeLocked l v now) =
      (case map_of (lg_files l) (fv_UID v) of Some c \<Rightarrow> if stale_view v (en_view c) then l else storeLocked l v (Some c) now | None \<Rightarrow> storeLocked l v None now)"
    using settled by (auto simp: observeLocked_def settled_key_def Let_def split: option.splits)
  have wf': "ledger_wf (fst (observeLocked l v now))" by (rule observe_wf [OF wf ov])
  then show "within ids (fst (observeLocked l v now))"
    using l v unfolding within_def cases by (auto split: option.splits if_splits)
  show "sees (fst (observeLocked l v now)) v"
    unfolding cases sees_def by (auto simp: stale_less split: option.splits) (auto simp: stale_view_def)
  show "sees (fst (observeLocked l v now)) w" if "sees l w"
    using that unfolding cases sees_def by (auto split: option.splits dest: not_stale_trans)
qed

text \<open>A fold of observations keeps what is seen and sees what it observes.\<close>

lemma observe_fold:
  assumes ids: "objects_ok ids"
  shows "within ids l \<Longrightarrow> (\<forall>x \<in> set xs. \<forall>v. view x = Some v \<longrightarrow> (fv_UID v, fv_Key v) \<in> ids) \<Longrightarrow>
    (\<forall>x \<in> set xs. \<forall>l. f l x = (case view x of None \<Rightarrow> l | Some v \<Rightarrow> fst (observeLocked l v now))) \<Longrightarrow>
    within ids (foldl f l xs) \<and> (\<forall>w. sees l w \<longrightarrow> sees (foldl f l xs) w) \<and> (\<forall>x \<in> set xs. \<forall>v. view x = Some v \<longrightarrow> sees (foldl f l xs) v)"
proof (induction xs arbitrary: l)
  case (Cons x xs)
  have known: "\<forall>x \<in> set xs. \<forall>v. view x = Some v \<longrightarrow> (fv_UID v, fv_Key v) \<in> ids" using Cons.prems(2) by simp
  have f: "\<forall>x \<in> set xs. \<forall>l. f l x = (case view x of None \<Rightarrow> l | Some v \<Rightarrow> fst (observeLocked l v now))" using Cons.prems(3) by simp
  note rest = Cons.IH [OF _ known f]
  show ?case
  proof (cases "view x")
    case None
    with Cons.prems(3) have "f l x = l" by simp
    with rest [OF Cons.prems(1)] None show ?thesis by simp
  next
    case (Some v)
    with Cons.prems(2) have v: "(fv_UID v, fv_Key v) \<in> ids" by simp
    note step = observe_within [OF ids Cons.prems(1) v, where now = now]
    from Some Cons.prems(3) have fx: "f l x = fst (observeLocked l v now)" by simp
    have "within ids (f l x)" using step(1) by (simp add: fx)
    note rest = rest [OF this]
    have "sees (f l x) v" "\<And>w. sees l w \<Longrightarrow> sees (f l x) w" using step(2,3) by (simp_all add: fx)
    with rest Some show ?thesis by simp
  qed
qed simp

lemma quorum_new: "observeQuorum l v started False now = fst (observeLocked l v now)"
  by (simp add: observeQuorum_def split: option.split)

lemma list_fold:
  "fst (foldl (\<lambda>(l, seen) mf. (observeQuorum l (FileViewOf mf (mf_Status mf) None) started False now, seen @ [mf_UID mf])) (l, seen) items) =
   foldl (\<lambda>l mf. fst (observeLocked l (FileViewOf mf (mf_Status mf) None) now)) l items"
proof (induction items arbitrary: l seen)
  case (Cons mf items)
  show ?case unfolding foldl_Cons prod.case Cons.IH unfolding quorum_new ..
qed simp

lemma read_lists_sees:
  assumes ids: "objects_ok ids" and "within ids (fst s)" and "\<And>c items mf. api c = Some items \<Longrightarrow> mf \<in> set items \<Longrightarrow> mf_id mf \<in> ids"
    and "read_lists api started False now cs s = (s', ok)"
  shows "within ids (fst s') \<and> (\<forall>w. sees (fst s) w \<longrightarrow> sees (fst s') w) \<and>
    (ok \<longrightarrow> (\<forall>c \<in> set cs. \<exists>items. api c = Some items \<and> (\<forall>mf \<in> set items. sees (fst s') (FileViewOf mf (mf_Status mf) None))))"
  using assms(2,4)
proof (induction cs arbitrary: s)
  case (Cons c cs)
  show ?case
  proof (cases "api c")
    case None
    with Cons.prems show ?thesis by auto
  next
    case (Some items)
    let ?s = "foldl (\<lambda>(l, seen) mf. (observeQuorum l (FileViewOf mf (mf_Status mf) None) started False now, seen @ [mf_UID mf])) s items"
    have step: "within ids (fst ?s) \<and> (\<forall>w. sees (fst s) w \<longrightarrow> sees (fst ?s) w) \<and> (\<forall>mf \<in> set items. \<forall>v. Some (FileViewOf mf (mf_Status mf) None) = Some v \<longrightarrow> sees (fst ?s) v)"
      unfolding list_fold [of _ _ "fst s" "snd s", unfolded prod.collapse]
      by (rule observe_fold [OF ids Cons.prems(1)]) (use assms(3) [OF Some] in \<open>auto simp: mf_id_def\<close>)
    from Cons.prems(2) Some have "read_lists api started False now cs ?s = (s', ok)" by simp
    from Cons.IH [OF _ this] step show ?thesis using Some by auto
  qed
qed auto

lemma scan_sees:
  assumes ids: "objects_ok ids" and "within ids l" and "\<And>ns items mf. cache ns = Some items \<Longrightarrow> mf \<in> set items \<Longrightarrow> mf_id mf \<in> ids"
    and "scanBacklog cache eligible now nss l = (l', ok)"
  shows "within ids l' \<and> (\<forall>w. sees l w \<longrightarrow> sees l' w)"
  using assms(2,4)
proof (induction nss arbitrary: l)
  case (Cons ns nss)
  show ?case
  proof (cases "cache ns")
    case None
    with Cons.prems show ?thesis by simp
  next
    case (Some items)
    let ?view = "\<lambda>mf. if EligibleKind (mf_Kind mf) then map_option (\<lambda>e. FileViewOf mf (mf_Status mf) (Some e)) (eligible mf) else None"
    have "within ids (foldl (scan_one eligible now) l items) \<and> (\<forall>w. sees l w \<longrightarrow> sees (foldl (scan_one eligible now) l items) w) \<and>
        (\<forall>mf \<in> set items. \<forall>v. ?view mf = Some v \<longrightarrow> sees (foldl (scan_one eligible now) l items) v)"
      by (rule observe_fold [OF ids Cons.prems(1)])
        (use assms(3) [OF Some] in \<open>auto simp: mf_id_def scan_one_def split: if_splits option.splits\<close>)
    with Cons.IH [of "foldl (scan_one eligible now) l items"] Cons.prems(2) Some show ?thesis by auto
  qed
qed simp

lemma observe_rebuilt [simp]: "lg_rebuilt (fst (observeLocked l v now)) = lg_rebuilt l"
  by (simp add: observeLocked_def storeLocked_def retireLocked_def Let_def split: option.split)

lemma read_lists_rebuilt: "read_lists api started False now cs s = (s', ok) \<Longrightarrow> lg_rebuilt (fst s') = lg_rebuilt (fst s)"
proof (induction cs arbitrary: s)
  case (Cons c cs)
  have "lg_rebuilt (foldl (\<lambda>l mf. fst (observeLocked l (FileViewOf mf (mf_Status mf) None) now)) l items) = lg_rebuilt l" for l items
    by (induction items arbitrary: l) simp_all
  note kept = this [of "fst s", folded list_fold [of started now "fst s" "snd s", unfolded prod.collapse]]
  show ?case
  proof (cases "api c")
    case (Some items)
    with Cons.prems Cons.IH show ?thesis by (simp only: read_lists.simps option.case kept)
  qed (use Cons.prems in auto)
qed simp

lemma scan_rebuilt: "scanBacklog cache eligible now nss l = (l', ok) \<Longrightarrow> lg_rebuilt l' = lg_rebuilt l"
proof (induction nss arbitrary: l)
  case (Cons ns nss)
  have "lg_rebuilt (foldl (scan_one eligible now) l items) = lg_rebuilt l" for l items
    by (induction items arbitrary: l) (simp_all add: scan_one_def split: option.split)
  with Cons show ?case by (fastforce split: option.splits)
qed simp


definition sample_file :: MediaFile where
  "sample_file = \<lparr>mf_UID = ''a'', mf_Key = (''media'', ''a''), mf_Kind = ''movie'', mf_MediaKeys = [], mf_Path = ''/data/a.mkv'', mf_SizeBytes = 1, mf_Original = None, mf_Labels = [],
     mf_Annotations = [], mf_Status = \<lparr>ms_LastSeq = 7, ms_ProbeHash = '''', ms_ProbedAt = None, ms_MediaInfo = None,
       ms_Transcode = Some (zero_block\<lparr>tb_Phase := TranscodePhaseQueued, tb_Profile := ''hd'', tb_Hardware := ''cpu'', tb_Class := ''cpu''\<rparr>), ms_Graft = None, ms_GraftTag = '''', ms_GraftedAt = None\<rparr>\<rparr>"

definition sample_rebuild :: RebuildInputs where
  "sample_rebuild = \<lparr>rb_API = (\<lambda>c. Some (if snd c = SelTranscode TranscodePhaseQueued then [sample_file] else [])), rb_Get = (\<lambda>_. GetNotFound),
     rb_Cache = (\<lambda>_. Some [sample_file\<lparr>mf_Status := (mf_Status sample_file)\<lparr>ms_LastSeq := 3, ms_Transcode := None\<rparr>\<rparr>]), rb_Namespaces = [],
     rb_Eligible = (\<lambda>_. Some (zero_eligibility\<lparr>el_Eligible := True, el_Priority := 1\<rparr>))\<rparr>"


end
