(* ===== verification/TranscodeCompose.thy ===== *)
theory TranscodeCompose
  imports TranscodePlanSafety TranscodeRebuild
begin

text \<open>
  The transcode planner against the admission ledger: what a pass of the loop observes follows the protocol the ledger's budget rests on.
\<close>

section \<open>The place of a block\<close>

definition slot_place :: "TranscodeState \<Rightarrow> string \<times> string \<times> string" where
  "slot_place b = (tb_Class b, tb_Profile b, tb_Pool b)"

lemma place_core: "core b = core b' \<Longrightarrow> slot_place b = slot_place b'"
  by (simp add: core_def slot_place_def)

definition stays :: "TranscodeState \<Rightarrow> Decision \<Rightarrow> bool" where
  "stays b d \<longleftrightarrow> (\<forall>b'. dc_Block d = Some b' \<longrightarrow> slot_place b' = slot_place b)"

lemma stays_grant [simp]: "stays b (d\<lparr>dc_Grant := g\<rparr>) = stays b d"
  by (simp add: stays_def)

lemma withdrawn_place: "slot_place (withdrawn_phase i b) = slot_place b"
  by (simp add: withdrawn_phase_def slot_place_def Let_def)

lemma stays_simple:
  "stays b (recheck i b)" "stays b (incorporate i b r)" "stays b (finishWithdrawal i b)" "stays b (rewithdraw i b)" "stays b (startWithdrawal b cause)"
  "stays b (owe i b w)" "stays b (recoverSwap i b r)"
  using withdrawn_place [of i "(close_dispatch b (dispatch_seq b) True)\<lparr>tb_WorkerPod := '''', tb_StartedAt := None\<rparr>"]
  by (auto simp: stays_def recheck_def finishWithdrawal_def rewithdraw_def startWithdrawal_def owe_def recoverSwap_def slot_place_def Let_def split: sum.splits option.splits)

lemma stays_running: "slot_place x = slot_place b \<Longrightarrow> stays b (running_row i x d)"
  by (simp add: stays_def running_row_def slot_place_def Let_def)

lemma stays_claimed: "stays b (claimed_row i b r)"
  unfolding claimed_row_def Let_def by (auto intro!: stays_running simp: slot_place_def)

lemma stays_requested: "stays b (requested_row i b dp)"
  using stays_simple(1,6) [of b i] by (auto simp: requested_row_def stays_def slot_place_def Let_def)

lemma stays_rows: "stays b (inflight_rows i b dp)"
  using stays_simple(1,2,6) [where b = b] stays_running [of b b i] stays_claimed [of b i] stays_requested [of b i dp]
  by (auto simp: inflight_rows_def stays_def slot_place_def Let_def split: option.split)

lemma stays_in_flight: "stays b (planInFlight env i b)"
  using stays_simple [where b = b] stays_rows [of b i]
  by (auto simp: planInFlight_def stays_def Let_def split: option.split prod.split)

lemma stays_dispatch:
  assumes "in_Prev i = Some b" and "slotPhase (tb_Phase b)" and "\<And>j. sn_Grant (in_Ledger j) = GrantDispatch \<Longrightarrow> in_Prev j = in_Prev i \<Longrightarrow> stays b (f j)"
  shows "stays b (Plan_with f env i)"
proof -
  obtain i' n evs where a: "applyIntents env i = (i', n, evs)" by (metis prod.exhaust)
  with intents_slot(2) [OF a] assms(1,2) have "i' = i" by simp
  note split = Plan_with_split(1) [OF a [unfolded this], of f]
  have "stays b (plan_with f env i)"
    using assms stays_simple(2,7) [where b = b] stays_in_flight [of b env i] by (auto simp: plan_with_def slotPhase_cases)
  with split show ?thesis by (cases "dc_Block (plan_with f env i)") (auto simp: stays_def dest!: place_core)
qed

lemma stays_Plan:
  assumes "in_Prev i = Some b" and "slotPhase (tb_Phase b)"
  shows "stays b (Plan env i)"
  unfolding Plan_def
proof (rule stays_dispatch [OF assms])
  fix j :: Inputs assume j: "in_Prev j = in_Prev i"
  have "stays b (Plan_with no_dispatch env k)" if "in_Prev k = in_Prev i" for k
    by (rule stays_dispatch) (use assms that in \<open>simp_all add: no_dispatch_def stays_def\<close>)
  with j assms show "stays b (planDispatch env j)"
    by (auto simp: planDispatch_def Let_def slotPhase_cases)
qed

section \<open>The loop's observations\<close>

text \<open>The stored block is what the ledger last saw of the file.\<close>

definition ledger_agrees :: "Ledger \<Rightarrow> MediaFile \<Rightarrow> TranscodeState option \<Rightarrow> bool" where
  "ledger_agrees l mf prev \<longleftrightarrow>
     (case map_of (lg_files l) (mf_UID mf) of
        None \<Rightarrow> \<not> in_slot prev
      | Some e \<Rightarrow> slotPhase (fv_Phase (en_view e)) = in_slot prev \<and>
          (\<forall>b. prev = Some b \<longrightarrow> slotPhase (tb_Phase b) \<longrightarrow>
             tb_Profile b \<noteq> '''' \<and> slot_place b = (fv_Class (en_view e), fv_Profile (en_view e), fv_Pool (en_view e))))"

text \<open>A dispatch grant is for a file outside a slot, under the profile that wins it now.\<close>

definition grant_current :: "Ledger \<Rightarrow> MediaFile \<Rightarrow> TranscodeState option \<Rightarrow> Eligibility \<Rightarrow> bool" where
  "grant_current l mf prev e \<longleftrightarrow>
     (case map_of (lg_grants l) (mf_UID mf) of
        None \<Rightarrow> True
      | Some g \<Rightarrow> gr_kind g = GrantDispatch \<longrightarrow>
          \<not> in_slot prev \<and> (case el_Profile e of None \<Rightarrow> True | Some p \<Rightarrow> tp_Name p = gr_profile g \<and> tp_Name p \<noteq> ''''))"

lemma view_fields:
  "fv_Phase (FileViewOf mf st e) = (case ms_Transcode st of None \<Rightarrow> fv_Phase zero_FileView | Some b \<Rightarrow> tb_Phase b)"
  "ms_Transcode st = Some b \<Longrightarrow> fv_Class (FileViewOf mf st e) = tb_Class b"
  "ms_Transcode st = Some b \<Longrightarrow> fv_Pool (FileViewOf mf st e) = tb_Pool b"
  "ms_Transcode st = Some b \<Longrightarrow> tb_Profile b \<noteq> '''' \<Longrightarrow> fv_Profile (FileViewOf mf st e) = tb_Profile b"
  by (simp_all add: FileViewOf_def with_graft_def with_block_def with_eligibility_def Let_def split: option.split)

lemma take_fields:
  assumes "TakeGrant l uid now = (l', snap, took)"
  shows "lg_files l' = lg_files l"
    and "sn_Grant snap = GrantDispatch \<Longrightarrow>
      \<exists>g. map_of (lg_grants l) uid = Some g \<and> map_of (lg_grants l') uid = Some (g\<lparr>gr_inUse := True\<rparr>) \<and> gr_kind g = GrantDispatch \<and> sn_Class snap = gr_class g"
    and "dispatching l' uid \<Longrightarrow> \<exists>g. map_of (lg_grants l) uid = Some g \<and> gr_kind g = GrantDispatch"
  using assms
  by (auto simp: TakeGrant_def snapshotLocked_def dispatching_def live_grant_def update_conv' Let_def split: option.splits if_splits)

lemma slot_phase_view: "slotPhase (fv_Phase (FileViewOf mf st e)) = in_slot (ms_Transcode st)"
  by (cases "ms_Transcode st") (simp_all add: view_fields zero_FileView_def)


end
