(* ===== verification/TranscodeChoice.thy ===== *)
theory TranscodeChoice
  imports TranscodePlanSafety
begin

text \<open>
  Which profile a file is transcoded under, whatever the order a list call returns the profiles in; what a failed attempt leads to; and two
  places where an intent loses what the planner knew.
\<close>

section \<open>The winning profile\<close>

lemma ProfileLess_by: "ProfileLess = less_by tp_Created tp_Name"
  by (auto simp: ProfileLess_def less_by_def fun_eq_iff)

interpretation profile_scan: scan_order ProfileLess
  unfolding ProfileLess_by by (rule less_by_scan_order)

definition named_once :: "TranscodeProfile list \<Rightarrow> bool" where
  "named_once profiles \<longleftrightarrow> inj_on tp_Name (set profiles)"

lemma scan_profiles:
  assumes "set ps = set qs" and "named_once ps"
  shows "scan_best elig ProfileLess ps = scan_best elig ProfileLess qs"
proof (cases "scan_best elig ProfileLess ps")
  case None
  with assms(1) show ?thesis using scan_best_None_iff [of elig ProfileLess] by metis
next
  case (Some m)
  note m = scan_best_in [OF this]
  then obtain n where n: "scan_best elig ProfileLess qs = Some n" "\<not> ProfileLess m n"
    using profile_scan.scan_some [of m qs elig] assms(1) by blast
  note n' = scan_best_in [OF n(1)]
  with profile_scan.scan_minimal [OF Some, of n] assms(1) have "\<not> ProfileLess n m" by simp
  with n(2) have "tp_Name m = tp_Name n" by (auto simp: ProfileLess_by less_by_def)
  with assms m n' have "m = n" by (auto simp: named_once_def dest: inj_onD)
  with Some n show ?thesis by simp
qed

lemma winner_order:
  assumes "set ps = set qs" and "named_once ps"
  shows "DefaultWinner ps = DefaultWinner qs" "WinningProfile selects labels ps d = WinningProfile selects labels qs d" "ValidateProfile tp ps = ValidateProfile tp qs"
  using scan_profiles [OF assms] by (simp_all add: DefaultWinner_def WinningProfile_def ValidateProfile_def)

lemma selected_files:
  "set (fst (foldl (select_one selects tp ps d) acc files)) =
     set (fst acc) \<union> {mf \<in> set files. EligibleKind (mf_Kind mf) \<and>
       (\<exists>w. WinningProfile selects (mf_Labels mf) ps d = Some w \<and> tp_Name w = tp_Name tp)}"
proof (induction files arbitrary: acc)
  case (Cons mf files)
  have "set (fst (select_one selects tp ps d acc mf)) = set (fst acc) \<union>
     (if EligibleKind (mf_Kind mf) \<and> (\<exists>w. WinningProfile selects (mf_Labels mf) ps d = Some w \<and> tp_Name w = tp_Name tp) then {mf} else {})"
    by (cases acc) (auto simp: select_one_def split: option.split)
  with Cons.IH show ?case by auto
qed simp


section \<open>Failed attempts\<close>

definition verdict :: "TranscodeState \<Rightarrow> TranscodePhase \<times> bool \<times> time option \<times> int \<times> Dispatch option" where
  "verdict b = (tb_Phase b, tb_Blocked b, tb_NextAttemptAt b, tb_Attempts b, tb_Dispatch b)"

lemma standing_verdict: "map_option verdict (dc_Block (applyStanding i d)) = map_option verdict (dc_Block d)"
  by (auto simp: applyStanding_def standing_block_def verdict_def Let_def split: option.split)

text \<open>What a retriable failure of attempt \<open>n\<close> leads to at \<open>now\<close>.\<close>

definition retry_verdict :: "TranscodeState \<Rightarrow> int \<Rightarrow> time \<Rightarrow> TranscodePhase \<times> bool \<times> time option" where
  "retry_verdict b n now =
     (if n \<ge> 5 then (TranscodePhaseFailed, True, tb_NextAttemptAt b)
      else (TranscodePhasePlanned, tb_Blocked b,
        Some (now + (if n \<le> 1 then 1 else if n = 2 then 5 else if n = 3 then 15 else 30) * minute)))"

definition retriable :: "Record \<Rightarrow> bool" where
  "retriable r \<longleftrightarrow> rd_State r = StateFailed \<or>
     rd_State r = StateAnswered \<and> (case rd_Answer r of None \<Rightarrow> True | Some a \<Rightarrow> an_Outcome a = OutcomeFailed \<and> an_Reason a = ReasonRetriable)"

lemma failed_names:
  "OutcomeFailed \<noteq> OutcomeSucceeded" "OutcomeFailed \<noteq> OutcomeSkipped" "OutcomeFailed \<noteq> OutcomeCancelled"
  "ReasonRetriable \<noteq> ReasonGPUUnavailable" "ReasonRetriable \<noteq> ReasonGPUEncodeFailed" "StateAnswered \<noteq> StateFailed"
  by (simp_all add: OutcomeFailed_def OutcomeSucceeded_def OutcomeSkipped_def OutcomeCancelled_def
      ReasonRetriable_def ReasonGPUUnavailable_def ReasonGPUEncodeFailed_def StateFailed_def StateAnswered_def)

lemma Decide_retriable:
  "an_Outcome a = OutcomeFailed \<Longrightarrow> an_Reason a = ReasonRetriable \<Longrightarrow> Decide a b auto k = retry ReasonRetriable (an_Message a) b"
  by (simp add: Decide_def failed_names)

lemma retriable_answer:
  assumes "retriable r"
  shows "\<exists>msg. snd (answer_of i b r) = retry ReasonRetriable msg b"
proof (cases "if rd_State r = StateFailed then None else rd_Answer r")
  case None
  then show ?thesis by (auto simp: answer_of_def Let_def)
next
  case (Some a)
  with assms have "an_Outcome a = OutcomeFailed" "an_Reason a = ReasonRetriable"
    by (auto simp: retriable_def split: if_splits)
  with Some show ?thesis by (auto simp: answer_of_def Decide_retriable Let_def)
qed

lemma backoff_table:
  "n < 5 \<Longrightarrow> RequeueBackoff ! nat (min (max (n - 1) 0) (int (length RequeueBackoff) - 1)) =
     (if n \<le> 1 then 1 else if n = 2 then 5 else if n = 3 then 15 else 30) * minute"
proof -
  assume "n < 5"
  then consider "n \<le> 1" | "n = 2" | "n = 3" | "n = 4" by linarith
  then show ?thesis by cases (simp_all add: RequeueBackoff_def numeral_2_eq_2 numeral_3_eq_3)
qed

lemma retry_applied:
  "verdict (applyAnswer b a (retry reason msg b) now) =
     (let (phase, blocked, at) = retry_verdict b (tb_Attempts b) now in (phase, blocked, at, tb_Attempts b, tb_Dispatch b))"
  by (simp add: verdict_def applyAnswer_def retry_def retry_verdict_def requeued_def answer_facts_def backoff_table MaxAttempts_def next_phase_def Let_def
      minute_def second_def)

lemma retriable_block:
  assumes "retriable r" and "tb_Dispatch b = Some dp"
  shows "verdict (answered_block i b r) =
    (let (phase, blocked, at) = retry_verdict b (tb_Attempts b) (in_Now i)
     in (phase, blocked, at, tb_Attempts b, Some (dp\<lparr>dp_AnsweredSeq := max (dp_AnsweredSeq dp) (rd_Seq r), dp_Withdrawn := False\<rparr>)))"
proof -
  from retriable_answer [OF assms(1)] obtain a msg where "answer_of i b r = (a, retry ReasonRetriable msg b)"
    by (metis prod.collapse)
  with retry_applied [of b a ReasonRetriable msg "in_Now i"] assms(2) show ?thesis
    by (auto simp: answered_block_def verdict_def Let_def split: prod.split)
qed


section \<open>What an intent loses\<close>

text \<open>A retry clears the verdict of a withdrawn dispatch with its fact window: a success recorded for it, which the pass would have incorporated
  (\<open>fact_incorporated\<close>), is dropped.\<close>

theorem retry_loses_fact:
  assumes "in_Prev i = Some b" and "in_Record i = Some r" and "Fact r" and "tb_Dispatch b = Some dp" and "rd_Seq r = dp_Seq dp"
    and "InFactWindow b (deadlineOf i b) (in_Now i)" and "tb_Phase b = TranscodePhaseFailed"
    and "retry_pending env i" and "retriable_verdict i" and "ValidNonce (it_Retry (in_Intents i))" and "\<not> cancel_pending env i"
    and "in_ProbeCurrent i" and "el_Pending (in_Eligibility i) \<noteq> ReasonGrafting" and "sn_Grant (in_Ledger i) = GrantNone"
  shows "dc_Block (Plan env i) = None"
  using assms by (simp add: Plan_def Plan_with_def applyIntents_def handle_retry_def plan_with_def settled_plan_def applyStanding_def Let_def)

text \<open>
  A dispatch grant plans a cancelled file again without the grant, and applies the intents again to what they left. A pending retry, which found nothing to
  retry at first, now finds the cancel's own verdict and clears it: the file is backlog again. Without the grant, the cancel stands.
\<close>

definition both_pending :: "PlanEnv \<Rightarrow> Inputs \<Rightarrow> bool" where
  "both_pending env i \<longleftrightarrow> retry_pending env i \<and> cancel_pending env i \<and> ValidNonce (it_Retry (in_Intents i)) \<and> ValidNonce (it_Cancel (in_Intents i)) \<and>
     in_ProbeCurrent i \<and> el_Pending (in_Eligibility i) \<noteq> ReasonGrafting"

lemma both_applied:
  assumes "both_pending env i" and "in_Prev i = Some b" and "tb_Phase b = TranscodePhasePlanned"
  shows "fst (applyIntents env i) = i\<lparr>in_Prev := Some (cancelled_block i b)\<rparr>"
  using assms by (simp add: both_pending_def applyIntents_def handle_retry_def handle_cancel_def retriable_verdict_def Let_def)

lemma both_applied_again:
  assumes "both_pending env i" and "in_Prev i = Some b" and "tb_Phase b = TranscodePhaseSkipped" and "tb_ProfileHash b = el_Hash (in_Eligibility i)"
  shows "fst (applyIntents env i) = i\<lparr>in_Prev := None\<rparr>"
  using assms by (simp add: both_pending_def applyIntents_def handle_retry_def handle_cancel_def retriable_verdict_def Let_def)

lemma both_pending_cong [simp]: "both_pending env (i\<lparr>in_Prev := p\<rparr>) = both_pending env i" "both_pending env (i\<lparr>in_Ledger := x\<rparr>) = both_pending env i"
  by (simp_all add: both_pending_def retry_pending_def cancel_pending_def)

lemma no_block_standing: "dc_Block (applyStanding i d) = None \<longleftrightarrow> dc_Block d = None"
  by (auto simp: applyStanding_def split: option.split)

theorem cancel_undone:
  assumes "both_pending env i" and "in_Prev i = Some b" and "tb_Phase b = TranscodePhasePlanned" and "tb_ProfileHash b = el_Hash (in_Eligibility i)"
    and "in_Record i = None"
  shows "sn_Grant (in_Ledger i) = GrantDispatch \<Longrightarrow> dc_Block (Plan env i) = None"
    and "sn_Grant (in_Ledger i) = GrantNone \<Longrightarrow> map_option tb_Phase (dc_Block (Plan env i)) = Some TranscodePhaseSkipped"
proof -
  let ?j = "i\<lparr>in_Prev := Some (cancelled_block i b)\<rparr>"
  obtain n evs where a: "applyIntents env i = (?j, n, evs)" using both_applied [OF assms(1-3)] by (metis prod.collapse)
  have facts: "\<not> factAfterWithdrawal ?j" "\<not> fileMissingSwap ?j" using assms(5) by (simp_all add: factAfterWithdrawal_def fileMissingSwap_def)
  show "dc_Block (Plan env i) = None" if g: "sn_Grant (in_Ledger i) = GrantDispatch"
  proof -
    let ?rest = "?j\<lparr>in_Ledger := zero_Snapshot\<lparr>sn_WaitReason := sn_WaitReason (in_Ledger i), sn_WaitCause := sn_WaitCause (in_Ledger i)\<rparr>\<rparr>"
    have "fst (applyIntents env ?rest) = ?rest\<lparr>in_Prev := None\<rparr>"
      by (rule both_applied_again [where b = "cancelled_block i b"]) (use assms in \<open>simp_all add: cancelled_block_def\<close>)
    then obtain m es where "applyIntents env ?rest = (?rest\<lparr>in_Prev := None\<rparr>, m, es)" by (metis prod.collapse)
    then have "dc_Block (Plan_with no_dispatch env ?rest) = None"
      by (simp add: Plan_with_def plan_with_def settled_plan_def no_block_standing Let_def)
    then show ?thesis using g facts
      by (simp add: Plan_def Plan_with_def [of "planDispatch env"] a plan_with_def planDispatch_def no_block_standing Let_def)
  qed
  show "map_option tb_Phase (dc_Block (Plan env i)) = Some TranscodePhaseSkipped" if "sn_Grant (in_Ledger i) = GrantNone"
    using that facts by (simp add: Plan_def Plan_with_def a plan_with_def settled_plan_def keepFact_def applyStanding_def inWindow_def
        cancelled_block_def ReasonCancelled_def ReasonProfileGone_def Let_def)
qed

end
