(* ===== verification/TranscodePlanSamples.thy ===== *)
theory TranscodePlanSamples
  imports TranscodeCompose TranscodeChoice
begin

text \<open>
  One movie file, its profile and its dispatch, on which the transcode planner's theorems are evaluated.
\<close>

definition s_profile :: TranscodeProfile where
  "s_profile = \<lparr>tp_Name = ''hevc'', tp_UID = ''p1'', tp_Created = 10, tp_Default = True, tp_Selector = None, tp_Hardware = ''cpu'', tp_Priority = 0,
     tp_ActiveDeadline = 0, tp_ReplaceSource = None, tp_KeepCodecs = [], tp_MaxVideoBitrateKbps = 0\<rparr>"

definition s_env :: PlanEnv where
  "s_env = \<lparr>env_PlanFor = (\<lambda>p hash mf st class device lang. Inr \<lparr>pn_Reject = '''', pn_Decision = ''transcode'', pn_Reason = '''', pn_Action = ''encode'',
       pn_Encoder = ''libx265'', pn_Decode = '''', pn_HDR = '''', pn_Hash = ''ph'', pn_Dropped = []\<rparr>),
     env_PoolName = (\<lambda>(n, u, c). n @ ''-'' @ c), env_NonceHex = (\<lambda>s. s), env_ParseTime = (\<lambda>s. None)\<rparr>"

definition s_status :: MediaFileStatus where
  "s_status = \<lparr>ms_LastSeq = 4, ms_ProbeHash = ''h'', ms_ProbedAt = Some 5, ms_MediaInfo = None, ms_Transcode = None, ms_Graft = None, ms_GraftTag = '''', ms_GraftedAt = None\<rparr>"

definition s_file :: MediaFile where
  "s_file = \<lparr>mf_UID = ''u1'', mf_Key = (''ns'', ''f1''), mf_Kind = ''movie'', mf_MediaKeys = [], mf_Path = ''/m/a.mkv'', mf_SizeBytes = 9, mf_Original = None, mf_Labels = [],
     mf_Annotations = [], mf_Status = s_status\<rparr>"

definition s_eligible :: Eligibility where
  "s_eligible = \<lparr>el_Eligible = True, el_Profile = Some s_profile, el_Hash = ''ab'', el_Tag = ''hevc@ab'', el_Pending = '''', el_Why = '''', el_Excluded = False, el_Priority = 0\<rparr>"

definition s_planned :: TranscodeState where
  "s_planned = zero_block\<lparr>tb_Phase := TranscodePhasePlanned, tb_Profile := ''hevc'', tb_ProfileHash := ''ab'', tb_ProbeHash := ''h'', tb_Hardware := ''cpu''\<rparr>"

definition s_inputs :: "TranscodeState \<Rightarrow> Snapshot \<Rightarrow> Record option \<Rightarrow> Inputs" where
  "s_inputs b snap r = \<lparr>in_File = s_file, in_OriginalLanguage = ''en'', in_Prev = Some b, in_Draft = s_status, in_ProbeCurrent = True, in_Eligibility = s_eligible,
     in_Ledger = snap, in_Now = 1000, in_Record = r, in_RecordRev = 0, in_Folders = [\<lparr>rf_Path = ''/m'', rf_RecycleBin = ''''\<rparr>], in_Issue = None,
     in_Lease = \<lparr>lv_Missing = False, lv_MissingSince = 0\<rparr>, in_TaskStored = None, in_Profiles = Some [(''hevc'', s_profile)],
     in_Intents = \<lparr>it_Retry = '''', it_Cancel = '''', it_Suspend = '''', it_Priority = '''', it_Hardware = ''''\<rparr>,
     in_Nonces = \<lparr>hn_TranscodeRetry = '''', hn_TranscodeCancel = ''''\<rparr>, in_DeadLettered = '''', in_SpecPathMissing = False,
     in_OutputExists = False, in_OutputSize = 0, in_PrevGraft = None, in_Joinable = None\<rparr>"

definition s_ledger :: Ledger where
  "s_ledger = (NewLedger \<lparr>op_Slots = (\<lambda>c. Some 1), op_Window = 5, op_GraftConcurrency = 1\<rparr>)\<lparr>
     lg_files := [(''u1'', \<lparr>en_view = zero_FileView\<lparr>fv_UID := ''u1'', fv_Key := (''ns'', ''f1''), fv_Phase := TranscodePhasePlanned, fv_Profile := ''hevc''\<rparr>, en_observedAt = 900, en_key = ''ns/f1''\<rparr>)],
     lg_byKey := [(''ns'', ''f1'') \<mapsto> ''u1''],
     lg_grants := [(''u1'', \<lparr>gr_kind = GrantDispatch, gr_class = ''cpu'', gr_profile = ''hevc'', gr_expires = 2000, gr_inUse = False\<rparr>)]\<rparr>"

definition s_dispatch :: Inputs where
  "s_dispatch = s_inputs s_planned (fst (snd (TakeGrant s_ledger ''u1'' 1000))) None"

definition s_dp :: Dispatch where
  "s_dp = \<lparr>dp_Seq = 7, dp_AnsweredSeq = 0, dp_DispatchedAt = 500, dp_Withdrawn = False, dp_Destination = '''', dp_Delivery = None\<rparr>"

definition s_running :: TranscodeState where
  "s_running = s_planned\<lparr>tb_Phase := TranscodePhaseRunning, tb_Class := ''cpu'', tb_Pool := ''hevc-cpu'', tb_Attempts := 2, tb_Dispatch := Some s_dp\<rparr>"

definition s_record :: "string \<Rightarrow> Answer option \<Rightarrow> Record" where
  "s_record state a = \<lparr>rd_FileUID = ''u1'', rd_FileKey = (''ns'', ''f1''), rd_Seq = 7, rd_State = state, rd_RequestedAt = 500, rd_ClaimedAt = Some 600, rd_AnsweredAt = None,
     rd_Writer = ''w'', rd_Failure = '''', rd_Inputs = \<lparr>ti_ProfileHash = ''ab'', ti_PlanHash = ''ph'', ti_Class = ''cpu'', ti_SourcePath = ''/m/a.mkv'', ti_ProbeHash = ''h'',
     ti_OutputPath = ''/m/a.mp4''\<rparr>, rd_Answer = a\<rparr>"

definition s_in_flight :: "string \<Rightarrow> Answer option \<Rightarrow> Inputs" where
  "s_in_flight state a = s_inputs s_running zero_Snapshot (Some (s_record state a))"

definition s_success :: Answer where
  "s_success = zero_answer\<lparr>an_Outcome := OutcomeSucceeded\<rparr>"

lemma s_dispatches: "\<not> in_slot (in_Prev s_dispatch)" "in_slot (dc_Block (Plan s_env s_dispatch))"
  by code_simp+

theorem slot_needs_grant_witness:
  "sn_Grant (in_Ledger s_dispatch) = GrantDispatch \<and> dispatches s_env s_dispatch (Plan s_env s_dispatch)"
  by (rule slot_needs_grant [OF s_dispatches])

lemma s_claimed:
  "in_Prev (s_in_flight s a) = Some s_running" "slotPhase (tb_Phase s_running)" "tb_Dispatch s_running = Some s_dp"
  "in_Record (s_in_flight s a) = Some (s_record s a)" "rd_Seq (s_record s a) = dp_Seq s_dp"
  by (simp_all add: s_in_flight_def s_inputs_def s_running_def s_record_def s_dp_def)

lemma s_not_over: "\<not> slot_over (s_in_flight StateClaimed None) s_running s_dp"
  by code_simp

theorem slot_kept_witness: "keeps s_running s_dp (Plan s_env (s_in_flight StateClaimed None))"
  by (rule slot_kept [OF s_claimed(1-3) s_not_over])

theorem fact_incorporated_witness: "incorporated 7 (Plan s_env (s_in_flight StateAnswered (Some s_success)))"
proof -
  have "Fact (s_record StateAnswered (Some s_success))" by code_simp
  then have "incorporated (dp_Seq s_dp) (Plan s_env (s_in_flight StateAnswered (Some s_success)))"
    by (rule fact_incorporated [OF s_claimed(1,4) _ s_claimed(3,5)]) (simp add: s_claimed)
  then show ?thesis by (simp add: s_dp_def)
qed



definition s_other :: TranscodeProfile where
  "s_other = s_profile\<lparr>tp_Name := ''av1'', tp_UID := ''p2'', tp_Default := False, tp_Selector := Some ''all''\<rparr>"

definition s_selects :: "string \<Rightarrow> (string \<times> string) list \<Rightarrow> bool option" where
  "s_selects sel labels = Some (sel = ''all'')"

definition s_candidate :: File where
  "s_candidate = \<lparr>fl_MF = s_file, fl_Labels = None, fl_Status = None, fl_ProbeCurrent = True, fl_ItemExists = True, fl_ItemExcluded = False,
     fl_StandaloneGraft = False, fl_UpgradeDownloading = False, fl_Priority = None\<rparr>"


end
