(* ===== verification/GraftSamples.thy ===== *)
theory GraftSamples
  imports GraftSafety TranscodePlanSamples
begin

text \<open>
  One movie file that lacks its German dub, with a donor, on which the graft planner's theorems are evaluated.
\<close>

definition g_env :: GraftEnv where
  "g_env = \<lparr>ge_Parse = (\<lambda>s. Some (s, False, False)), ge_JobName = (\<lambda>n s. n @ ''-graft-'' @ fmt_d s)\<rparr>"

definition g_probe :: MediaProbe where
  "g_probe = \<lparr>mi_Width = 1920, mi_Height = 1080, mi_VideoBitrateKbps = 0, mi_VideoCodec = ''hevc'', mi_Container = ''mp4'', mi_PixelFormat = '''', mi_VideoBitDepth = 8, mi_Hdr = '''',
     mi_RuntimeMillis = 0, mi_VideoEncoder = '''', mi_TranscodeProfile = '''', mi_AudioLanguages = [''en'']\<rparr>"

definition g_donor :: AudioDonor where "g_donor = \<lparr>ad_Path = ''/m/d.mka'', ad_Release = ''rel'', ad_ImportedAt = 50\<rparr>"
definition g_audio :: AudioState where "g_audio = \<lparr>as_Missing = [''de''], as_Donor = Some g_donor\<rparr>"
definition g_item :: GraftItem where "g_item = \<lparr>im_UID = ''i1'', im_Audio = Some g_audio, im_Anchor = ''en'', im_Grafts = True, im_Default = ''''\<rparr>"

definition g_status :: "TranscodeState option \<Rightarrow> GraftState option \<Rightarrow> MediaFileStatus" where
  "g_status tc b = s_status\<lparr>ms_MediaInfo := Some g_probe, ms_Transcode := tc, ms_Graft := b\<rparr>"

definition g_view :: "TranscodeState option \<Rightarrow> GraftState option \<Rightarrow> GraftView" where
  "g_view tc b = \<lparr>gv_File = s_file, gv_Prev = g_status tc b, gv_Draft = g_status tc b, gv_Now = 1000, gv_ProbeCurrent = True, gv_Issue = (\<lambda>s. s + 1)\<rparr>"

definition g_input :: "GraftRecord option \<Rightarrow> Record option \<Rightarrow> GraftInput" where
  "g_input r t = \<lparr>gx_Item = Some g_item, gx_Root = ''/m'', gx_RecycleBin = '''', gx_Record = r, gx_Transcode = t, gx_Job = None, gx_Granted = True\<rparr>"

definition g_waiting :: GraftState where
  "g_waiting = zero_graft\<lparr>gs_Phase := GraftPhaseWaiting, gs_Reason := ReasonWaitingForSlot, gs_DonorRelease := ''rel'', gs_DonorImportedAt := Some 50, gs_ProbeHash := ''h'', gs_Languages := [''de'']\<rparr>"

definition g_queued :: GraftState where
  "g_queued = g_waiting\<lparr>gs_Phase := GraftPhaseQueued, gs_Reason := '''', gs_Dispatch := Some s_dp, gs_JobName := ''f1-graft-7''\<rparr>"

definition g_result :: GraftResult where
  "g_result = \<lparr>ga_Phase = PhaseSucceeded, ga_Reason = ReasonGrafted, ga_Message = '''', ga_RateName = '''', ga_RateMicros = 0, ga_RateMarginMilli = 0, ga_CoveragePercent = 99, ga_Segments = [],
     ga_ResidualMillis = 0, ga_Within80Percent = 0, ga_GraftTag = ''de@rel'', ga_DonorAudio = '''', ga_OutputSizeBytes = 1\<rparr>"

definition g_record :: GraftRecord where
  "g_record = \<lparr>gc_FileUID = ''u1'', gc_FileKey = (''ns'', ''f1''), gc_Seq = 7, gc_State = StateAnswered, gc_RequestedAt = 500, gc_ClaimedAt = None, gc_AnsweredAt = None, gc_Writer = ''w'',
     gc_Failure = '''', gc_Inputs = \<lparr>gi_TargetProbeHash = ''h'', gi_DonorAudio = ''/m/d.mka'', gi_DonorRelease = ''rel'', gi_Language = ''de'', gi_Anchor = ''en''\<rparr>, gc_Answer = Some g_result\<rparr>"

text \<open>A granted graft of a resting file is dispatched.\<close>

lemma g_dispatches: "Standalone (ms_Graft (fst (Plan_graft g_env (g_view None (Some g_waiting)) (g_input None None) (g_status None None))))"
  by code_simp

theorem one_writer_witness:
  "held_once (fst (Plan_graft g_env ((g_view (dc_Block (Plan s_env s_dispatch)) (Some g_waiting))\<lparr>gv_Prev := g_status (Some s_planned) (Some g_waiting)\<rparr>) (g_input None None)
     (g_status (dc_Block (Plan s_env s_dispatch)) (Some g_waiting))))"
proof -
  let ?f = "s_candidate\<lparr>fl_Status := Some (g_status (Some s_planned) (Some g_waiting))\<rparr>"
  have e: "Eligible (\<lambda>s l. None) (\<lambda>p. ''ab'') ?f [s_profile] = s_eligible" by code_simp
  have h: "held_once (g_status (Some s_planned) (Some g_waiting))" by code_simp
  have i: "in_Prev s_dispatch = ms_Transcode (g_status (Some s_planned) (Some g_waiting))" "in_Eligibility s_dispatch = s_eligible"
    by (simp_all add: s_dispatch_def s_inputs_def g_status_def)
  have f: "fl_StandaloneGraft ?f = Standalone (ms_Graft (g_status (Some s_planned) (Some g_waiting)))" by code_simp
  show ?thesis
    using one_writer [OF h i(1) i(2) [folded e] f, of "(g_view (dc_Block (Plan s_env s_dispatch)) (Some g_waiting))\<lparr>gv_Prev := g_status (Some s_planned) (Some g_waiting)\<rparr>" s_env
      "g_status (dc_Block (Plan s_env s_dispatch)) (Some g_waiting)" g_env "g_input None None"]
    by (simp add: g_view_def g_status_def)
qed

theorem graft_incorporated_witness:
  "\<exists>g. ms_Graft (fst (Plan_graft g_env (g_view None (Some g_queued)) (g_input (Some g_record) None) (g_status None None))) = Some g \<and>
     gs_Phase g = GraftPhaseSwapping \<and> gs_Tag g = ''de@rel''"
proof -
  have "gv_ProbeCurrent (g_view None (Some g_queued))" "ms_Graft (gv_Prev (g_view None (Some g_queued))) = Some g_queued" "gs_Dispatch g_queued = Some s_dp"
    "gx_Record (g_input (Some g_record) None) = Some g_record" "gc_Seq g_record = dp_Seq s_dp" "gc_State g_record = StateAnswered" "gc_Answer g_record = Some g_result"
    by (simp_all add: g_view_def g_status_def g_queued_def g_input_def g_record_def s_dp_def)
  moreover have "graft_Fact g_record" by code_simp
  moreover have "Standalone (Some g_queued)" by code_simp
  ultimately show ?thesis
    using graft_incorporated [of "g_view None (Some g_queued)" g_queued s_dp "g_input (Some g_record) None" g_record g_result g_env "g_status None None"]
    by (auto simp: g_result_def)
qed


definition g_join :: TranscodeGraftJoin where
  "g_join = \<lparr>tj_DonorRelease = ''rel'', tj_DonorImportedAt = Some 50, tj_Languages = [''de''], tj_ProbeHash = ''h''\<rparr>"

definition g_transcode :: TranscodeState where "g_transcode = s_running\<lparr>tb_JoinedGraft := Some g_join\<rparr>"

definition g_riding :: GraftState where
  "g_riding = g_waiting\<lparr>gs_Phase := GraftPhaseRunning, gs_Reason := ReasonJoinedTranscode, gs_JoinedTranscodeSeq := 7\<rparr>"


end
