(* ===== verification/DecisionRules.thy ===== *)
theory DecisionRules
  imports AudioPolicy
begin

text \<open>
  The rules by which a release is judged for an item (\<^verbatim>\<open>pkg/decision\<close>): the reasons of a rejection
  (\<^verbatim>\<open>reasons.go\<close>, \<^verbatim>\<open>bands.go\<close>), the checks on the release and on the item's state (\<^verbatim>\<open>checks.go\<close>, \<^verbatim>\<open>audiopolicy.go\<close>,
  \<^verbatim>\<open>donor.go\<close>), and the item-state half of an evaluation, which the grab planner runs on every candidate
  (\<^verbatim>\<open>evaluate.go\<close>). A release's title has been parsed: the parser is the argument \<open>reparse\<close> where the code parses it
  again.
\<close>

section \<open>Rejections\<close>

definition RejectionPermanent :: string where "RejectionPermanent = ''Permanent''"
definition RejectionTemporary :: string where "RejectionTemporary = ''Temporary''"

record Rejection =
  rj_Reason :: string
  rj_Type :: string

record Reason =
  rn_Code :: string
  rn_Type :: string

definition ReasonUnableToParse :: Reason where "ReasonUnableToParse = \<lparr>rn_Code = ''UnableToParse'', rn_Type = RejectionPermanent\<rparr>"
definition ReasonProtocolDisabled :: Reason where "ReasonProtocolDisabled = \<lparr>rn_Code = ''ProtocolDisabled'', rn_Type = RejectionPermanent\<rparr>"
definition ReasonUnavailable :: Reason where "ReasonUnavailable = \<lparr>rn_Code = ''Availability'', rn_Type = RejectionPermanent\<rparr>"
definition ReasonBelowMinimumSize :: Reason where "ReasonBelowMinimumSize = \<lparr>rn_Code = ''BelowMinimumSize'', rn_Type = RejectionPermanent\<rparr>"
definition ReasonAboveMaximumSize :: Reason where "ReasonAboveMaximumSize = \<lparr>rn_Code = ''AboveMaximumSize'', rn_Type = RejectionPermanent\<rparr>"
definition ReasonBelowMinimumBitrate :: Reason where "ReasonBelowMinimumBitrate = \<lparr>rn_Code = ''BelowMinimumBitrate'', rn_Type = RejectionPermanent\<rparr>"
definition ReasonAboveMaximumBitrate :: Reason where "ReasonAboveMaximumBitrate = \<lparr>rn_Code = ''AboveMaximumBitrate'', rn_Type = RejectionPermanent\<rparr>"
definition ReasonQualityNotWanted :: Reason where "ReasonQualityNotWanted = \<lparr>rn_Code = ''QualityNotWanted'', rn_Type = RejectionPermanent\<rparr>"
definition ReasonCustomFormatMinimumScore :: Reason where "ReasonCustomFormatMinimumScore = \<lparr>rn_Code = ''CustomFormatMinimumScore'', rn_Type = RejectionPermanent\<rparr>"
definition ReasonWantedLanguage :: Reason where "ReasonWantedLanguage = \<lparr>rn_Code = ''WantedLanguage'', rn_Type = RejectionPermanent\<rparr>"
definition ReasonSample :: Reason where "ReasonSample = \<lparr>rn_Code = ''Sample'', rn_Type = RejectionPermanent\<rparr>"
definition ReasonBlocklisted :: Reason where "ReasonBlocklisted = \<lparr>rn_Code = ''Blocklisted'', rn_Type = RejectionPermanent\<rparr>"
definition ReasonAlreadyImportedSameHash :: Reason where "ReasonAlreadyImportedSameHash = \<lparr>rn_Code = ''AlreadyImportedSameHash'', rn_Type = RejectionPermanent\<rparr>"
definition ReasonAlreadyImportedSameName :: Reason where "ReasonAlreadyImportedSameName = \<lparr>rn_Code = ''AlreadyImportedSameName'', rn_Type = RejectionPermanent\<rparr>"
definition ReasonQueueHigherPreference :: Reason where "ReasonQueueHigherPreference = \<lparr>rn_Code = ''QueueHigherPreference'', rn_Type = RejectionPermanent\<rparr>"
definition ReasonPackDownloading :: Reason where "ReasonPackDownloading = \<lparr>rn_Code = ''PackDownloading'', rn_Type = RejectionPermanent\<rparr>"
definition ReasonEpisodeDownloading :: Reason where "ReasonEpisodeDownloading = \<lparr>rn_Code = ''EpisodeDownloading'', rn_Type = RejectionPermanent\<rparr>"
definition ReasonExistingHigherPreference :: Reason where "ReasonExistingHigherPreference = \<lparr>rn_Code = ''ExistingHigherPreference'', rn_Type = RejectionPermanent\<rparr>"
definition ReasonUpgradesNotAllowed :: Reason where "ReasonUpgradesNotAllowed = \<lparr>rn_Code = ''UpgradesNotAllowed'', rn_Type = RejectionPermanent\<rparr>"
definition ReasonExistingHigherRevision :: Reason where "ReasonExistingHigherRevision = \<lparr>rn_Code = ''ExistingHigherRevision'', rn_Type = RejectionPermanent\<rparr>"
definition ReasonExistingCutoffMet :: Reason where "ReasonExistingCutoffMet = \<lparr>rn_Code = ''ExistingCutoffMet'', rn_Type = RejectionPermanent\<rparr>"
definition ReasonExistingFormatScore :: Reason where "ReasonExistingFormatScore = \<lparr>rn_Code = ''ExistingFormatScore'', rn_Type = RejectionPermanent\<rparr>"
definition ReasonExistingFormatCutoffMet :: Reason where "ReasonExistingFormatCutoffMet = \<lparr>rn_Code = ''ExistingFormatCutoffMet'', rn_Type = RejectionPermanent\<rparr>"
definition ReasonExistingFormatScoreIncrement :: Reason where "ReasonExistingFormatScoreIncrement = \<lparr>rn_Code = ''ExistingFormatScoreIncrement'', rn_Type = RejectionPermanent\<rparr>"
definition ReasonDonorLanguage :: Reason where "ReasonDonorLanguage = \<lparr>rn_Code = ''DonorLanguage'', rn_Type = RejectionPermanent\<rparr>"
definition ReasonDonorRejected :: Reason where "ReasonDonorRejected = \<lparr>rn_Code = ''DonorRejected'', rn_Type = RejectionPermanent\<rparr>"
definition ReasonDonorQueued :: Reason where "ReasonDonorQueued = \<lparr>rn_Code = ''DonorQueued'', rn_Type = RejectionPermanent\<rparr>"
definition ReasonWrongItem :: Reason where "ReasonWrongItem = \<lparr>rn_Code = ''WrongItem'', rn_Type = RejectionPermanent\<rparr>"
definition ReasonUnknownItem :: Reason where "ReasonUnknownItem = \<lparr>rn_Code = ''UnknownItem'', rn_Type = RejectionPermanent\<rparr>"
definition ReasonFullSeason :: Reason where "ReasonFullSeason = \<lparr>rn_Code = ''FullSeason'', rn_Type = RejectionPermanent\<rparr>"
definition ReasonTranscodedFinal :: Reason where "ReasonTranscodedFinal = \<lparr>rn_Code = ''TranscodedFinal'', rn_Type = RejectionPermanent\<rparr>"
definition ReasonDolbyVision :: Reason where "ReasonDolbyVision = \<lparr>rn_Code = ''DolbyVision'', rn_Type = RejectionPermanent\<rparr>"
definition ReasonLosesHDR :: Reason where "ReasonLosesHDR = \<lparr>rn_Code = ''LosesHDR'', rn_Type = RejectionPermanent\<rparr>"
definition ReasonAVCOverHEVC :: Reason where "ReasonAVCOverHEVC = \<lparr>rn_Code = ''AVCOverHEVC'', rn_Type = RejectionPermanent\<rparr>"
definition ReasonFullSeasonNotAired :: Reason where "ReasonFullSeasonNotAired = \<lparr>rn_Code = ''FullSeasonNotAired'', rn_Type = RejectionPermanent\<rparr>"

lemmas reasons = ReasonUnableToParse_def ReasonProtocolDisabled_def ReasonUnavailable_def ReasonBelowMinimumSize_def
  ReasonAboveMaximumSize_def ReasonBelowMinimumBitrate_def ReasonAboveMaximumBitrate_def ReasonQualityNotWanted_def
  ReasonCustomFormatMinimumScore_def ReasonWantedLanguage_def ReasonSample_def ReasonBlocklisted_def
  ReasonAlreadyImportedSameHash_def ReasonAlreadyImportedSameName_def ReasonQueueHigherPreference_def ReasonPackDownloading_def
  ReasonEpisodeDownloading_def ReasonExistingHigherPreference_def ReasonUpgradesNotAllowed_def ReasonExistingHigherRevision_def
  ReasonExistingCutoffMet_def ReasonExistingFormatScore_def ReasonExistingFormatCutoffMet_def ReasonExistingFormatScoreIncrement_def
  ReasonDonorLanguage_def ReasonDonorRejected_def ReasonDonorQueued_def ReasonWrongItem_def
  ReasonUnknownItem_def ReasonFullSeason_def ReasonTranscodedFinal_def ReasonDolbyVision_def
  ReasonLosesHDR_def ReasonAVCOverHEVC_def ReasonFullSeasonNotAired_def

definition all_reasons :: "Reason list" where
  "all_reasons = [ReasonUnableToParse, ReasonProtocolDisabled, ReasonUnavailable, ReasonBelowMinimumSize,
     ReasonAboveMaximumSize, ReasonBelowMinimumBitrate, ReasonAboveMaximumBitrate, ReasonQualityNotWanted,
     ReasonCustomFormatMinimumScore, ReasonWantedLanguage, ReasonSample, ReasonBlocklisted,
     ReasonAlreadyImportedSameHash, ReasonAlreadyImportedSameName, ReasonQueueHigherPreference, ReasonPackDownloading,
     ReasonEpisodeDownloading, ReasonExistingHigherPreference, ReasonUpgradesNotAllowed, ReasonExistingHigherRevision,
     ReasonExistingCutoffMet, ReasonExistingFormatScore, ReasonExistingFormatCutoffMet, ReasonExistingFormatScoreIncrement,
     ReasonDonorLanguage, ReasonDonorRejected, ReasonDonorQueued, ReasonWrongItem,
     ReasonUnknownItem, ReasonFullSeason, ReasonTranscodedFinal, ReasonDolbyVision,
     ReasonLosesHDR, ReasonAVCOverHEVC, ReasonFullSeasonNotAired]"

definition newRejection :: "Reason \<Rightarrow> string \<Rightarrow> Rejection" where
  "newRejection r detail = \<lparr>rj_Reason = rn_Code r @ '': '' @ detail, rj_Type = rn_Type r\<rparr>"

definition reason_Of :: "Reason \<Rightarrow> Rejection \<Rightarrow> bool" where
  "reason_Of r rej = has_prefix (rj_Reason rej) (rn_Code r @ '': '')"

definition verdictReasons :: "Verdict \<Rightarrow> Reason option" where
  "verdictReasons v =
     (case v of
        Upgrade \<Rightarrow> None
      | ExistingBetterQuality \<Rightarrow> Some ReasonExistingHigherPreference
      | UpgradesNotAllowed \<Rightarrow> Some ReasonUpgradesNotAllowed
      | ExistingBetterRevision \<Rightarrow> Some ReasonExistingHigherRevision
      | QualityCutoffMet \<Rightarrow> Some ReasonExistingCutoffMet
      | FormatScoreNotHigher \<Rightarrow> Some ReasonExistingFormatScore
      | FormatCutoffMet \<Rightarrow> Some ReasonExistingFormatCutoffMet
      | FormatIncrementTooSmall \<Rightarrow> Some ReasonExistingFormatScoreIncrement)"

datatype ResultBand = BandApproved | BandRejected | BandOtherTitle

definition BandOf :: "bool \<Rightarrow> Rejection list \<Rightarrow> ResultBand" where
  "BandOf approved rejs =
     (if approved \<and> rejs = [] then BandApproved
      else if list_ex (\<lambda>r. reason_Of ReasonWrongItem r \<or> reason_Of ReasonUnknownItem r \<or> reason_Of ReasonUnableToParse r) rejs
      then BandOtherTitle
      else BandRejected)"

text \<open>\<^verbatim>\<open>%v\<close> of a slice of strings.\<close>

definition fmt_strs :: "string list \<Rightarrow> string" where
  "fmt_strs ss = ''['' @ (case ss of [] \<Rightarrow> '''' | x # xs \<Rightarrow> x @ concat (map (\<lambda>y. CHR '' '' # y) xs)) @ '']''"

section \<open>What is judged\<close>

text \<open>The fields of a \<^verbatim>\<open>ReleaseInfo\<close> the rules and the ranking read.\<close>

record ReleaseInfo =
  ro_IndexerRef :: string
  ro_Title :: string
  ro_Protocol :: string
  ro_SizeBytes :: int
  ro_PublishedAt :: "time option"
  ro_InfoHash :: string
  ro_Seeders :: "int option"
  ro_IndexerFlags :: "string list"
  ro_Quality :: Quality
  ro_Revision :: Revision
  ro_IndexerLanguages :: "string list"
  ro_FormatScore :: int

record Current =
  cu_Quality :: Quality
  cu_Revision :: Revision
  cu_FormatScore :: int
  cu_Formats :: "string list"
  cu_SourceHash :: string
  cu_SourceTitle :: string
  cu_Transcoded :: bool
  cu_AudioLanguages :: "string list option"
  cu_VideoCodec :: string
  cu_HDR :: string
  cu_BytesPerSecond :: int
  cu_Undecodable :: bool

record Queued =
  qd_Candidate :: Candidate
  qd_Pack :: bool
  qd_Languages :: "string list"

text \<open>Of a \<^verbatim>\<open>Donor\<close> the item-state rules read the rejected releases. A nil \<^verbatim>\<open>Blocklist\<close> is \<open>None\<close>.\<close>

record Donor =
  dn_Rejected :: "string list"

record Target =
  tg_Kind :: string
  tg_Available :: bool
  tg_OriginalLanguageTag :: string
  tg_Current :: "Current option"
  tg_Queue :: "Queued list"
  tg_Blocklist :: "(string \<Rightarrow> string \<Rightarrow> bool) option"
  tg_Donor :: "Donor option"

record Options =
  op_UserInvoked :: bool
  op_ProtocolsEnabled :: "string \<Rightarrow> bool"
  op_IndexerPriority :: "string \<Rightarrow> int option"
  op_PreferredProtocol :: string

section \<open>Checks of the release\<close>

definition protocolRejection :: "ReleaseInfo \<Rightarrow> Options \<Rightarrow> Rejection option" where
  "protocolRejection rel o' =
     (if op_ProtocolsEnabled o' (ro_Protocol rel) then None
      else Some (newRejection ReasonProtocolDisabled (ro_Protocol rel @ '' is not enabled'')))"

definition availabilityRejection :: "Target \<Rightarrow> Options \<Rightarrow> Rejection option" where
  "availabilityRejection t o' =
     (if op_UserInvoked o' \<or> tg_Available t then None
      else Some (newRejection ReasonUnavailable ''item is not yet available''))"

definition isVideoKind :: "string \<Rightarrow> bool" where
  "isVideoKind k \<longleftrightarrow> k \<in> {''movie'', ''episode'', ''series''}"

definition dolbyVisionRejection :: "ParsedRelease \<Rightarrow> Rejection option" where
  "dolbyVisionRejection parsed =
     (if ''DV'' \<notin> set (pr_HDR parsed) then None
      else Some (newRejection ReasonDolbyVision ''the release is Dolby Vision, which is never taken''))"

definition qualityRejections :: "Profile \<Rightarrow> ReleaseInfo \<Rightarrow> int \<Rightarrow> Rejection list" where
  "qualityRejections p rel score =
     (if \<not> Allowed p (ro_Quality rel)
      then [newRejection ReasonQualityNotWanted (q_Name (ro_Quality rel) @ '' is not wanted in this profile'')] else []) @
     (if score < pf_MinFormatScore p
      then [newRejection ReasonCustomFormatMinimumScore
              (''custom format score '' @ fmt_d score @ '' is below the profile minimum '' @ fmt_d (pf_MinFormatScore p))]
      else [])"

definition languageRejection :: "string \<Rightarrow> Profile \<Rightarrow> ParsedRelease \<Rightarrow> Rejection option" where
  "languageRejection originalLanguage p parsed =
     (if pf_LanguageName p = '''' \<or> pf_LanguageName p = ''any'' then None
      else if pf_LanguageName p = ''original'' then
        (if originalLanguage = '''' \<or> containsFold (pr_Languages parsed) originalLanguage then None
         else Some (newRejection ReasonWantedLanguage
                (''original language '' @ originalLanguage @ '' is wanted, but found '' @ fmt_strs (pr_Languages parsed))))
      else if containsFold (pr_Languages parsed) (pf_LanguageName p) then None
      else Some (newRejection ReasonWantedLanguage
             (pf_LanguageName p @ '' is wanted, but found '' @ fmt_strs (pr_Languages parsed))))"

definition sampleMaxBytes :: int where "sampleMaxBytes = 70 * 1000000"

definition sampleRejection :: "ReleaseInfo \<Rightarrow> Rejection option" where
  "sampleRejection rel =
     (if \<not> contains (to_lower (ro_Title rel)) ''sample'' then None
      else if ro_SizeBytes rel \<le> 0 \<or> ro_SizeBytes rel \<ge> sampleMaxBytes then None
      else Some (newRejection ReasonSample ''title contains \"sample\" and is under 70 MB''))"

definition audioRejection :: "audioNames \<Rightarrow> Profile \<Rightarrow> string list \<Rightarrow> Rejection option \<times> bool" where
  "audioRejection an p have' =
     (let missing = filter (\<lambda>w. \<not> containsFold have' w) (an_wanted an) in
      if missing = [] then (None, list_all (\<lambda>o'. containsFold have' o') (an_optional an))
      else if pf_GraftAudio p \<and> (an_anchor an = '''' \<or> containsFold have' (an_anchor an)) then (None, False)
      else (Some (newRejection ReasonWantedLanguage (''audio '' @ fmt_strs (an_wanted an) @ '' wanted, found '' @ fmt_strs have')), False))"

definition indexerLanguages :: "ParsedRelease \<Rightarrow> ReleaseInfo \<Rightarrow> ParsedRelease" where
  "indexerLanguages parsed rel =
     (if ro_IndexerLanguages rel = [] \<or> (pr_DualAudio parsed \<and> length (ro_IndexerLanguages rel) < 2) then parsed
      else parsed\<lparr>pr_Languages := ro_IndexerLanguages rel, pr_LanguageUnknown := False\<rparr>)"

section \<open>Checks of the item's state\<close>

definition transcodedRejection :: "Target \<Rightarrow> Rejection option" where
  "transcodedRejection t =
     (case tg_Current t of
        None \<Rightarrow> None
      | Some cur \<Rightarrow>
          if \<not> cu_Transcoded cur then None
          else Some (newRejection ReasonTranscodedFinal ''the current file is transcoded, and a transcoded file is final''))"

definition IsDolbyVision :: "string \<Rightarrow> bool" where
  "IsDolbyVision hdr = has_prefix hdr ''dolbyVision''"

definition namesHDR :: "ParsedRelease \<Rightarrow> string \<Rightarrow> bool" where
  "namesHDR parsed title \<longleftrightarrow>
     list_ex (\<lambda>h. h \<in> {''HDR'', ''HDR10+'', ''HLG'', ''PQ'', ''DV''} \<or> (h = ''HDR10'' \<and> contains (to_upper title) ''HDR'')) (pr_HDR parsed)"

definition namesAVC :: "ParsedRelease \<Rightarrow> bool" where
  "namesAVC parsed \<longleftrightarrow> list_ex (\<lambda>c. to_upper (replace_byte (CHR ''.'') '''' c) \<in> {''X264'', ''H264'', ''AVC''}) (pr_Codec parsed)"

definition losesHDR :: "Current \<Rightarrow> ParsedRelease \<Rightarrow> ReleaseInfo \<Rightarrow> bool" where
  "losesHDR cur parsed rel \<longleftrightarrow> cu_HDR cur \<noteq> '''' \<and> cu_HDR cur \<noteq> ''none'' \<and> \<not> namesHDR parsed (ro_Title rel)"

definition avcOverHEVC :: "Current \<Rightarrow> ParsedRelease \<Rightarrow> ReleaseInfo \<Rightarrow> bool" where
  "avcOverHEVC cur parsed rel \<longleftrightarrow>
     (cu_VideoCodec cur = ''hevc'' \<or> cu_VideoCodec cur = ''av1'') \<and> namesAVC parsed \<and>
     q_Resolution (cu_Quality cur) > 0 \<and> q_Resolution (ro_Quality rel) > 0 \<and>
     q_Resolution (ro_Quality rel) \<le> q_Resolution (cu_Quality cur)"

definition baselineRejections :: "tag_parser \<Rightarrow> Profile \<Rightarrow> Target \<Rightarrow> ParsedRelease \<Rightarrow> ReleaseInfo \<Rightarrow> Rejection list" where
  "baselineRejections parse p t parsed rel =
     (case tg_Current t of
        None \<Rightarrow> []
      | Some cur \<Rightarrow>
          if LacksLanguage parse p (tg_OriginalLanguageTag t) (cu_AudioLanguages cur) \<or> IsDolbyVision (cu_HDR cur) then []
          else (if losesHDR cur parsed rel
                then [newRejection ReasonLosesHDR (''the current file is '' @ cu_HDR cur @ '' and the release names no HDR'')] else []) @
               (if avcOverHEVC cur parsed rel
                then [newRejection ReasonAVCOverHEVC
                        (''the current file is '' @ cu_VideoCodec cur @ '' at '' @ fmt_d (q_Resolution (cu_Quality cur)) @
                         ''p and the release is AVC at '' @ fmt_d (q_Resolution (ro_Quality rel)) @ ''p'')]
                else []))"

definition BaselineLoss :: "string \<Rightarrow> string \<Rightarrow> int \<Rightarrow> string \<Rightarrow> string \<Rightarrow> int \<Rightarrow> string" where
  "BaselineLoss curCodec curHDR curResolution newCodec newHDR newResolution =
     (if IsDolbyVision curHDR then ''''
      else if curHDR \<noteq> '''' \<and> curHDR \<noteq> ''none'' \<and> (newHDR = '''' \<or> newHDR = ''none'') \<and> newCodec \<noteq> ''''
      then ''the current file is '' @ curHDR @ '' and this one is SDR''
      else if (curCodec = ''hevc'' \<or> curCodec = ''av1'') \<and> newCodec = ''h264'' \<and>
              curResolution > 0 \<and> newResolution > 0 \<and> newResolution \<le> curResolution
      then ''the current file is '' @ curCodec @ '' at '' @ fmt_d curResolution @ ''p and this one is AVC at '' @ fmt_d newResolution @ ''p''
      else '''')"

definition blocklistAndHistoryRejections :: "Target \<Rightarrow> ReleaseInfo \<Rightarrow> Rejection list" where
  "blocklistAndHistoryRejections t rel =
     (if (case tg_Blocklist t of None \<Rightarrow> False | Some f \<Rightarrow> f (ro_InfoHash rel) (ro_Title rel))
      then [newRejection ReasonBlocklisted ''release is blocklisted''] else []) @
     (case tg_Current t of
        None \<Rightarrow> []
      | Some cur \<Rightarrow>
          if cu_SourceHash cur \<noteq> '''' \<and> ro_InfoHash rel \<noteq> '''' \<and> equal_fold (cu_SourceHash cur) (ro_InfoHash rel)
          then [newRejection ReasonAlreadyImportedSameHash ''has the same hash as a grabbed and imported release'']
          else if cu_SourceTitle cur \<noteq> '''' \<and> equal_fold (cu_SourceTitle cur) (ro_Title rel)
          then [newRejection ReasonAlreadyImportedSameName ''has the same title as a grabbed and imported release'']
          else [])"

definition queuedComplete :: "audioNames \<Rightarrow> Profile \<Rightarrow> Queued \<Rightarrow> bool" where
  "queuedComplete an p q = snd (audioRejection an p (qd_Languages q))"

fun queue_from :: "Profile \<Rightarrow> Candidate \<Rightarrow> audioNames \<Rightarrow> bool \<Rightarrow> bool \<Rightarrow> Queued list \<Rightarrow> Rejection option" where
  "queue_from p candidate an complete pack [] = None"
| "queue_from p candidate an complete pack (q # qs) =
     (if pf_AudioCompleteFirst p \<and> complete \<and> \<not> queuedComplete an p q then queue_from p candidate an complete pack qs
      else if pf_AudioCompleteFirst p \<and> \<not> complete \<and> queuedComplete an p q
      then Some (newRejection ReasonQueueHigherPreference ''a release carrying every wanted language is already downloading'')
      else if qd_Pack q
      then Some (newRejection ReasonPackDownloading
             ''a pack covering it is still downloading; it is judged again once the pack has imported or failed'')
      else if pack then queue_from p candidate an complete pack qs
      else if UpgradeDecision p (qd_Candidate q) candidate \<noteq> Upgrade
      then Some (newRejection ReasonQueueHigherPreference ''a release of equal or higher preference is already downloading'')
      else queue_from p candidate an complete pack qs)"

definition queueRejection :: "Profile \<Rightarrow> Target \<Rightarrow> Candidate \<Rightarrow> audioNames \<Rightarrow> bool \<Rightarrow> bool \<Rightarrow> Rejection option" where
  "queueRejection p t candidate an complete pack = queue_from p candidate an complete pack (tg_Queue t)"

definition currentScore :: "Profile \<Rightarrow> Current \<Rightarrow> int" where
  "currentScore p cur = (if cu_Formats cur = [] then cu_FormatScore cur else ScoreFormats p (cu_Formats cur))"

definition current_candidate :: "Profile \<Rightarrow> Current \<Rightarrow> Candidate" where
  "current_candidate p cur =
     \<lparr>cd_Quality = cu_Quality cur, cd_Revision = cu_Revision cur, cd_FormatScore = currentScore p cur\<rparr>"

definition upgradeRejection :: "tag_parser \<Rightarrow> Profile \<Rightarrow> Target \<Rightarrow> Candidate \<Rightarrow> bool \<Rightarrow> Rejection option" where
  "upgradeRejection parse p t candidate namesLanguage =
     (case tg_Current t of
        None \<Rightarrow> None
      | Some cur \<Rightarrow>
          if namesLanguage \<and> LacksLanguage parse p (tg_OriginalLanguageTag t) (cu_AudioLanguages cur) then None
          else let v = UpgradeDecision p (current_candidate p cur) candidate in
               if v = Upgrade then None
               else Some (newRejection (case verdictReasons v of Some r \<Rightarrow> r | None \<Rightarrow> ReasonUpgradesNotAllowed)
                      (''current file or queue entry is preferred over '' @ q_Name (cd_Quality candidate))))"

section \<open>The item-state half of an evaluation\<close>

definition opt :: "'a option \<Rightarrow> 'a list" where "opt x = (case x of None \<Rightarrow> [] | Some y \<Rightarrow> [y])"

definition is_pack :: "ParsedRelease \<Rightarrow> bool" where
  "is_pack parsed \<longleftrightarrow> pr_FullSeason parsed \<or> length (pr_Episodes parsed) > 1 \<or> length (pr_Absolute parsed) > 1"

definition candidate_of :: "ReleaseInfo \<Rightarrow> int \<Rightarrow> Candidate" where
  "candidate_of rel score = \<lparr>cd_Quality = ro_Quality rel, cd_Revision = ro_Revision rel, cd_FormatScore = score\<rparr>"

definition videoItemState :: "tag_parser \<Rightarrow> Target \<Rightarrow> Profile \<Rightarrow> audioNames \<Rightarrow> ParsedRelease \<Rightarrow> ReleaseInfo \<Rightarrow> int \<Rightarrow> bool \<Rightarrow> Rejection list" where
  "videoItemState parse t p an parsed rel score complete =
     (let candidate = candidate_of rel score; tag = tg_OriginalLanguageTag t;
          out = blocklistAndHistoryRejections t rel @ opt (queueRejection p t candidate an complete (is_pack parsed));
          judged = opt (transcodedRejection t) @ baselineRejections parse p t parsed rel @
                   opt (upgradeRejection parse p t candidate (namesWantedLanguages an p parsed))
      in case tg_Current t of
           None \<Rightarrow> out @ judged
         | Some cur \<Rightarrow>
             if complete \<and> AudioUpgradeable parse p tag (cu_AudioLanguages cur) then out
             else if pf_AudioCompleteFirst p \<and> \<not> complete \<and> CompletesAudio parse p tag (cu_AudioLanguages cur)
             then out @ [newRejection ReasonExistingHigherPreference ''the file carries every wanted language and the release does not'']
             else if BitrateOutOfRange p (cu_Quality cur) (cu_BytesPerSecond cur) \<noteq> '''' \<and> Lists p (ro_Quality rel) then out
             else if cu_Undecodable cur \<and> Lists p (ro_Quality rel) then out
             else out @ judged)"

text \<open>Of a \<^verbatim>\<open>Decision\<close> its release, its parsed title and what the rules decided; the rank key is the ranking's.\<close>

record Decision =
  de_Release :: ReleaseInfo
  de_Parsed :: "ParsedRelease option"
  de_Approved :: bool
  de_TemporarilyRejected :: bool
  de_Rejections :: "Rejection list"
  de_Score :: int

definition donorItemState :: "Target \<Rightarrow> Donor \<Rightarrow> ReleaseInfo \<Rightarrow> Rejection list" where
  "donorItemState t dn rel =
     (if ro_Title rel \<in> set (dn_Rejected dn)
      then [newRejection ReasonDonorRejected (''a graft of this item already failed with '' @ ro_Title rel)] else []) @
     (if tg_Queue t \<noteq> [] then [newRejection ReasonDonorQueued ''a donor for this item is already downloading''] else [])"

definition ItemStateRejections :: "tag_parser \<Rightarrow> (ReleaseInfo \<Rightarrow> ParsedRelease option) \<Rightarrow> Target \<Rightarrow> Profile \<Rightarrow> Decision \<Rightarrow> Rejection list" where
  "ItemStateRejections parse reparse t p d =
     (let rel = de_Release d in
      case (case de_Parsed d of Some pr \<Rightarrow> Some pr | None \<Rightarrow> reparse rel) of
        None \<Rightarrow> []
      | Some parsed \<Rightarrow>
          (case tg_Donor t of
             Some dn \<Rightarrow> donorItemState t dn rel @ blocklistAndHistoryRejections t rel
           | None \<Rightarrow>
               let score = (if de_Score d = 0 then ro_FormatScore rel else de_Score d);
                   an = resolveAudioNames parse p (originalLanguageName parse (tg_OriginalLanguageTag t));
                   complete = (pf_AudioLanguages p \<noteq> [] \<and> snd (audioRejection an p (pr_Languages parsed)))
               in videoItemState parse t p an parsed rel score complete))"

definition ReleaseCompletesAudio :: "tag_parser \<Rightarrow> Profile \<Rightarrow> string \<Rightarrow> ParsedRelease option \<Rightarrow> bool" where
  "ReleaseCompletesAudio parse p originalTag parsed =
     (if pf_AudioLanguages p = [] then True
      else case parsed of None \<Rightarrow> False
      | Some pr \<Rightarrow> snd (audioRejection (resolveAudioNames parse p (originalLanguageName parse originalTag)) p (pr_Languages pr)))"

definition AudioOutranks :: "tag_parser \<Rightarrow> Profile \<Rightarrow> string \<Rightarrow> bool \<Rightarrow> Queued \<Rightarrow> bool" where
  "AudioOutranks parse p originalTag complete q \<longleftrightarrow>
     pf_AudioCompleteFirst p \<and> complete \<and>
     \<not> queuedComplete (resolveAudioNames parse p (originalLanguageName parse originalTag)) p q"

definition AudioOutranked :: "tag_parser \<Rightarrow> Profile \<Rightarrow> string \<Rightarrow> bool \<Rightarrow> Queued \<Rightarrow> bool" where
  "AudioOutranked parse p originalTag complete q \<longleftrightarrow>
     pf_AudioCompleteFirst p \<and> \<not> complete \<and>
     queuedComplete (resolveAudioNames parse p (originalLanguageName parse originalTag)) p q"

definition allTemporary :: "Rejection list \<Rightarrow> bool" where
  "allTemporary rejections = list_all (\<lambda>r. rj_Type r = RejectionTemporary) rejections"

definition WithItemState :: "Decision \<Rightarrow> Rejection list \<Rightarrow> Decision" where
  "WithItemState d extra =
     (if extra = [] then d
      else d\<lparr>de_Rejections := de_Rejections d @ extra, de_Approved := False,
             de_TemporarilyRejected := allTemporary (de_Rejections d @ extra)\<rparr>)"

text \<open>
  The evaluation of one release for a video target, from where its title has been parsed, the parsed quality,
  revision and languages applied to the release and its custom formats scored: \<open>identity\<close> is what the identity check and
  \<open>sizes\<close> what the size and bitrate checks found. \<open>itemState\<close> tells \<^verbatim>\<open>Evaluate\<close> from \<^verbatim>\<open>EvaluateRelease\<close>.
\<close>

definition evaluated_rejections :: "tag_parser \<Rightarrow> Target \<Rightarrow> Profile \<Rightarrow> Options \<Rightarrow> bool \<Rightarrow> Rejection option \<Rightarrow> Rejection list \<Rightarrow>
    ParsedRelease \<Rightarrow> ReleaseInfo \<Rightarrow> int \<Rightarrow> Rejection list" where
  "evaluated_rejections parse t p o' itemState identity sizes parsed rel score =
     (let original = originalLanguageName parse (tg_OriginalLanguageTag t);
          an = resolveAudioNames parse p original;
          (language, complete) =
            (if pf_AudioLanguages p \<noteq> [] then audioRejection an p (pr_Languages parsed)
             else (languageRejection original p parsed, True))
      in opt identity @ opt (protocolRejection rel o') @ opt (availabilityRejection t o') @ sizes @ qualityRejections p rel score @
         opt language @ opt (sampleRejection rel) @ (if isVideoKind (tg_Kind t) then opt (dolbyVisionRejection parsed) else []) @
         (if itemState then videoItemState parse t p an parsed rel score complete else []))"

definition decided :: "ParsedRelease \<Rightarrow> ReleaseInfo \<Rightarrow> int \<Rightarrow> Rejection list \<Rightarrow> Decision" where
  "decided parsed rel score rejections =
     \<lparr>de_Release = rel, de_Parsed = Some parsed, de_Approved = (rejections = []),
      de_TemporarilyRejected = (rejections \<noteq> [] \<and> allTemporary rejections), de_Rejections = rejections, de_Score = score\<rparr>"

definition evaluateOne :: "tag_parser \<Rightarrow> Target \<Rightarrow> Profile \<Rightarrow> Options \<Rightarrow> bool \<Rightarrow> Rejection option \<Rightarrow> Rejection list \<Rightarrow>
    ParsedRelease \<Rightarrow> ReleaseInfo \<Rightarrow> int \<Rightarrow> Decision" where
  "evaluateOne parse t p o' itemState identity sizes parsed rel0 score =
     (let rel = rel0\<lparr>ro_FormatScore := wrap32 score\<rparr>
      in decided parsed rel score (evaluated_rejections parse t p o' itemState identity sizes parsed rel score))"

end
