(* ===== verification/DecisionSafety.thy ===== *)
theory DecisionSafety
  imports DecisionRules
begin

text \<open>
  What the decision rules promise: an evaluation in one pass and one split between the search agent and the
  manager agree, a file is replaced only for a reason, what is downloading holds its item, and the item's
  state never turns a release into one of another title.
\<close>

section \<open>Reasons\<close>

lemma opt_empty [simp]: "opt x = [] \<longleftrightarrow> x = None"
  by (cases x) (simp_all add: opt_def)

lemma set_opt [simp]: "set (opt x) = (case x of None \<Rightarrow> {} | Some y \<Rightarrow> {y})"
  by (cases x) (simp_all add: opt_def)

text \<open>A rejection rendered for one reason is told from every other by its code.\<close>

lemma codes_plain: "list_all (\<lambda>r. CHR '':'' \<notin> set (rn_Code r)) all_reasons"
  by code_simp

lemma codes_distinct: "distinct (map rn_Code all_reasons)"
  by code_simp

lemma prefix_colon:
  "CHR '':'' \<notin> set a \<Longrightarrow> CHR '':'' \<notin> set b \<Longrightarrow> has_prefix (b @ CHR '':'' # xs) (a @ CHR '':'' # ys) \<Longrightarrow> a = b"
proof (induction a arbitrary: b)
  case Nil
  then show ?case by (cases b) (auto simp: has_prefix_def)
next
  case (Cons c a)
  then show ?case by (cases b) (auto simp: has_prefix_def)
qed

lemma reason_Of_newRejection: "reason_Of r (newRejection r detail)"
  by (simp add: reason_Of_def newRejection_def has_prefix_def)

lemma reason_Of_code:
  assumes "r \<in> set all_reasons" and "r' \<in> set all_reasons" and "reason_Of r (newRejection r' detail)"
  shows "rn_Code r = rn_Code r'"
  using assms codes_plain prefix_colon [of "rn_Code r" "rn_Code r'"]
  by (auto simp: reason_Of_def newRejection_def list_all_iff)

definition identity_reason :: "Rejection \<Rightarrow> bool" where
  "identity_reason r \<longleftrightarrow> reason_Of ReasonWrongItem r \<or> reason_Of ReasonUnknownItem r \<or> reason_Of ReasonUnableToParse r"

definition item_reasons :: "Reason list" where
  "item_reasons = [ReasonBlocklisted, ReasonAlreadyImportedSameHash, ReasonAlreadyImportedSameName, ReasonQueueHigherPreference,
     ReasonPackDownloading, ReasonExistingHigherPreference, ReasonTranscodedFinal, ReasonLosesHDR, ReasonAVCOverHEVC,
     ReasonUpgradesNotAllowed, ReasonExistingHigherRevision, ReasonExistingCutoffMet, ReasonExistingFormatScore,
     ReasonExistingFormatCutoffMet, ReasonExistingFormatScoreIncrement, ReasonDonorRejected, ReasonDonorQueued]"

definition item_rejection :: "Rejection \<Rightarrow> bool" where
  "item_rejection rej \<longleftrightarrow> (\<exists>r \<in> set item_reasons. \<exists>detail. rej = newRejection r detail)"

lemma item_reasons_listed: "set item_reasons \<subseteq> set all_reasons"
  by (simp add: item_reasons_def all_reasons_def)

lemma item_reasons_apart:
  "list_all (\<lambda>r. rn_Code r \<noteq> rn_Code ReasonWrongItem \<and> rn_Code r \<noteq> rn_Code ReasonUnknownItem \<and> rn_Code r \<noteq> rn_Code ReasonUnableToParse) item_reasons"
  by code_simp

lemma item_not_identity: "item_rejection rej \<Longrightarrow> \<not> identity_reason rej"
proof -
  assume "item_rejection rej"
  then obtain r detail where r: "r \<in> set item_reasons" "rej = newRejection r detail" by (auto simp: item_rejection_def)
  have "{ReasonWrongItem, ReasonUnknownItem, ReasonUnableToParse} \<subseteq> set all_reasons" by (simp add: all_reasons_def)
  with r show ?thesis
    using item_reasons_apart item_reasons_listed reason_Of_code [of _ r detail]
    unfolding identity_reason_def list_all_iff by (metis insert_subset subset_iff)
qed

lemma item_rejectionI: "r \<in> set item_reasons \<Longrightarrow> item_rejection (newRejection r detail)"
  by (auto simp: item_rejection_def)

lemmas item_rejection_intros = item_rejectionI [of ReasonBlocklisted] item_rejectionI [of ReasonQueueHigherPreference]

lemma blocklist_item: "rej \<in> set (blocklistAndHistoryRejections t rel) \<Longrightarrow> item_rejection rej"
  by (auto simp: blocklistAndHistoryRejections_def item_reasons_def intro!: item_rejectionI split: if_splits option.splits)

lemma queue_item: "queue_from p c an complete pack qs = Some rej \<Longrightarrow> item_rejection rej"
  by (induction qs) (auto simp: item_reasons_def intro!: item_rejectionI split: if_splits)

lemma baseline_item: "rej \<in> set (baselineRejections parse p t parsed rel) \<Longrightarrow> item_rejection rej"
  by (auto simp: baselineRejections_def item_reasons_def intro!: item_rejectionI split: if_splits option.splits)

lemma upgrade_item: "upgradeRejection parse p t c nl = Some rej \<Longrightarrow> item_rejection rej"
  by (auto simp: upgradeRejection_def Let_def item_reasons_def verdictReasons_def intro!: item_rejectionI
      split: if_splits option.splits Verdict.splits)

lemma transcoded_item: "transcodedRejection t = Some rej \<Longrightarrow> item_rejection rej"
  by (auto simp: transcodedRejection_def item_reasons_def intro!: item_rejectionI split: if_splits option.splits)

lemma video_item: "rej \<in> set (videoItemState parse t p an parsed rel score complete) \<Longrightarrow> item_rejection rej"
  unfolding videoItemState_def Let_def queueRejection_def
  by (auto simp: item_reasons_def dest: blocklist_item queue_item baseline_item upgrade_item transcoded_item
      intro!: item_rejectionI split: if_splits option.splits)

lemma donor_item: "rej \<in> set (donorItemState t dn rel) \<Longrightarrow> item_rejection rej"
  by (auto simp: donorItemState_def item_reasons_def intro!: item_rejectionI split: if_splits)

lemma item_state_item: "rej \<in> set (ItemStateRejections parse reparse t p d) \<Longrightarrow> item_rejection rej"
  unfolding ItemStateRejections_def Let_def by (auto dest: video_item donor_item blocklist_item split: option.splits)

section \<open>Bands\<close>

text \<open>The item's state never makes a release one of another title. Folding the item-state rejections of a release
  into its decision keeps its band when there are none, and otherwise moves it from the approved to the
  rejected ones and leaves those of other titles there.\<close>

theorem item_state_band:
  "BandOf (de_Approved (WithItemState d (ItemStateRejections parse reparse t p d)))
          (de_Rejections (WithItemState d (ItemStateRejections parse reparse t p d))) =
   (if ItemStateRejections parse reparse t p d = [] then BandOf (de_Approved d) (de_Rejections d)
    else if BandOf (de_Approved d) (de_Rejections d) = BandOtherTitle then BandOtherTitle else BandRejected)"
proof -
  have "\<not> identity_reason r" if "r \<in> set (ItemStateRejections parse reparse t p d)" for r
    using that item_state_item item_not_identity by blast
  then show ?thesis
    by (auto simp: WithItemState_def BandOf_def list_ex_iff identity_reason_def [symmetric])
qed

section \<open>One evaluation, or two\<close>

text \<open>What the API's validation and \<^verbatim>\<open>ForDub\<close> guarantee: a policy that takes complete audio first, or has optional languages,
  names languages.\<close>

definition audio_policy_ok :: "Profile \<Rightarrow> bool" where
  "audio_policy_ok p \<longleftrightarrow> pf_AudioLanguages p = [] \<longrightarrow> \<not> pf_AudioCompleteFirst p \<and> pf_AudioOptional p = []"

lemma queue_any_complete: "\<not> pf_AudioCompleteFirst p \<Longrightarrow> queue_from p c an x pack qs = queue_from p c an y pack qs"
  by (induction qs) auto

lemma no_policy_upgradeable:
  "pf_AudioLanguages p = [] \<Longrightarrow> pf_AudioOptional p = [] \<Longrightarrow> \<not> AudioUpgradeable parse p tag audio"
  by (cases audio) (auto simp: AudioUpgradeable_def ReplaceableAudio_def MissingAudio_def MissingOptionalAudio_def WantedAudio_def
      OptionalAudio_def audioTags_def lacking_def)

lemma video_any_complete:
  assumes "audio_policy_ok p" and "pf_AudioLanguages p = []"
  shows "videoItemState parse t p an parsed rel score x = videoItemState parse t p an parsed rel score y"
proof -
  have no: "\<not> pf_AudioCompleteFirst p" "pf_AudioOptional p = []" using assms by (simp_all add: audio_policy_ok_def)
  show ?thesis
    using no_policy_upgradeable [OF assms(2) no(2)] no(1) queue_any_complete [OF no(1), of _ an x _ _ y]
    by (cases "tg_Current t") (simp_all add: videoItemState_def Let_def queueRejection_def)
qed

lemma evaluated_item_state:
  assumes "audio_policy_ok p" and "tg_Donor t = None"
  shows "evaluated_rejections parse t p o' True i s parsed (rel\<lparr>ro_FormatScore := wrap32 score\<rparr>) score =
    evaluated_rejections parse t p o' False i s parsed (rel\<lparr>ro_FormatScore := wrap32 score\<rparr>) score @
    ItemStateRejections parse reparse t p (evaluateOne parse t p o' False i s parsed rel score)"
proof -
  let ?an = "resolveAudioNames parse p (originalLanguageName parse (tg_OriginalLanguageTag t))"
  let ?rel = "rel\<lparr>ro_FormatScore := wrap32 score\<rparr>"
  have any: "videoItemState parse t p ?an parsed ?rel score True =
      videoItemState parse t p ?an parsed ?rel score False" if "pf_AudioLanguages p = []"
    by (rule video_any_complete [OF assms(1) that])
  show ?thesis
    using assms(2) any
    by (cases "pf_AudioLanguages p = []"; cases "audioRejection ?an p (pr_Languages parsed)")
       (auto simp: evaluated_rejections_def evaluateOne_def decided_def ItemStateRejections_def Let_def wrap32_def)
qed


section \<open>What a file is replaced for\<close>

text \<open>A queued grab lets a candidate pass.\<close>

definition passes_queued :: "Profile \<Rightarrow> Candidate \<Rightarrow> audioNames \<Rightarrow> bool \<Rightarrow> bool \<Rightarrow> Queued \<Rightarrow> bool" where
  "passes_queued p c an complete pack q \<longleftrightarrow>
     pf_AudioCompleteFirst p \<and> complete \<and> \<not> queuedComplete an p q \<or>
     \<not> (pf_AudioCompleteFirst p \<and> \<not> complete \<and> queuedComplete an p q) \<and> \<not> qd_Pack q \<and>
     (pack \<or> UpgradeDecision p (qd_Candidate q) c = Upgrade)"

lemma queue_passes: "queue_from p c an complete pack qs = None \<longleftrightarrow> (\<forall>q \<in> set qs. passes_queued p c an complete pack q)"
  by (induction qs) (auto simp: passes_queued_def)

text \<open>The item-state rules leave a file alone, or have a reason to replace it.\<close>

definition may_replace :: "tag_parser \<Rightarrow> Target \<Rightarrow> Profile \<Rightarrow> audioNames \<Rightarrow> ParsedRelease \<Rightarrow> ReleaseInfo \<Rightarrow> int \<Rightarrow> bool \<Rightarrow> Current \<Rightarrow> bool" where
  "may_replace parse t p an parsed rel score complete cur \<longleftrightarrow>
     (let tag = tg_OriginalLanguageTag t; lacks = LacksLanguage parse p tag (cu_AudioLanguages cur) in
      complete \<and> AudioUpgradeable parse p tag (cu_AudioLanguages cur) \<or>
      \<not> (pf_AudioCompleteFirst p \<and> \<not> complete \<and> CompletesAudio parse p tag (cu_AudioLanguages cur)) \<and>
      (Lists p (ro_Quality rel) \<and>
         (BitrateOutOfRange p (cu_Quality cur) (cu_BytesPerSecond cur) \<noteq> '''' \<or> cu_Undecodable cur) \<or>
       \<not> cu_Transcoded cur \<and>
       (lacks \<or> IsDolbyVision (cu_HDR cur) \<or> \<not> losesHDR cur parsed rel \<and> \<not> avcOverHEVC cur parsed rel) \<and>
       (namesWantedLanguages an p parsed \<and> lacks \<or>
        UpgradeDecision p (current_candidate p cur) (candidate_of rel score) = Upgrade)))"

lemma transcoded_none: "tg_Current t = Some cur \<Longrightarrow> transcodedRejection t = None \<longleftrightarrow> \<not> cu_Transcoded cur"
  by (simp add: transcodedRejection_def)

lemma baseline_none:
  "tg_Current t = Some cur \<Longrightarrow> baselineRejections parse p t parsed rel = [] \<longleftrightarrow>
     LacksLanguage parse p (tg_OriginalLanguageTag t) (cu_AudioLanguages cur) \<or> IsDolbyVision (cu_HDR cur) \<or>
     \<not> losesHDR cur parsed rel \<and> \<not> avcOverHEVC cur parsed rel"
  by (simp add: baselineRejections_def)

lemma upgrade_none:
  "tg_Current t = Some cur \<Longrightarrow> upgradeRejection parse p t c nl = None \<longleftrightarrow>
     nl \<and> LacksLanguage parse p (tg_OriginalLanguageTag t) (cu_AudioLanguages cur) \<or>
     UpgradeDecision p (current_candidate p cur) c = Upgrade"
  by (simp add: upgradeRejection_def Let_def)

lemma queue_none: "queueRejection p t c an complete pack = None \<longleftrightarrow> (\<forall>q \<in> set (tg_Queue t). passes_queued p c an complete pack q)"
  by (simp add: queueRejection_def queue_passes)

lemma no_file_none:
  "tg_Current t = None \<Longrightarrow> transcodedRejection t = None \<and> baselineRejections parse p t parsed rel = [] \<and> upgradeRejection parse p t c nl = None"
  by (simp add: transcodedRejection_def baselineRejections_def upgradeRejection_def)


section \<open>Samples\<close>

text \<open>A parser that knows two-letter tags only, a profile that wants Japanese and English audio, and a file without English.\<close>

definition parse0 :: tag_parser where
  "parse0 s = (if length s = 2 then Some (s, False, False) else None)"

definition anime0 :: Profile where
  "anime0 = profile0\<lparr>pf_AudioLanguages := [''original'', ''en''], pf_AudioCompleteFirst := True, pf_GraftAudio := True\<rparr>"

definition current0 :: Current where
  "current0 = \<lparr>cu_Quality = df_Quality (the (Lookup ''video'' ''Bluray-1080p'')), cu_Revision = \<lparr>rev_Version = 1, rev_Real = 0, rev_Repack = False\<rparr>,
     cu_FormatScore = 10, cu_Formats = [], cu_SourceHash = '''', cu_SourceTitle = ''old'', cu_Transcoded = True,
     cu_AudioLanguages = Some [''ja''], cu_VideoCodec = ''hevc'', cu_HDR = ''none'', cu_BytesPerSecond = 0, cu_Undecodable = False\<rparr>"

definition target0 :: Target where
  "target0 = \<lparr>tg_Kind = ''episode'', tg_Available = True, tg_OriginalLanguageTag = ''ja'', tg_Current = Some current0, tg_Queue = [],
     tg_Blocklist = None, tg_Donor = None\<rparr>"

definition parsed0 :: ParsedRelease where
  "parsed0 = \<lparr>pr_Languages = [''Japanese'', ''English''], pr_LanguageUnknown = False, pr_DualAudio = True, pr_FullSeason = False,
     pr_Episodes = [1], pr_Absolute = [], pr_HDR = [], pr_Codec = [''x264'']\<rparr>"

definition release0 :: ReleaseInfo where
  "release0 = \<lparr>ro_IndexerRef = ''i'', ro_Title = ''new'', ro_Protocol = ''usenet'', ro_SizeBytes = 700000000, ro_PublishedAt = None,
     ro_InfoHash = '''', ro_Seeders = None, ro_IndexerFlags = [], ro_Quality = df_Quality (the (Lookup ''video'' ''WEBDL-1080p'')),
     ro_Revision = \<lparr>rev_Version = 1, rev_Real = 0, rev_Repack = False\<rparr>, ro_IndexerLanguages = [], ro_FormatScore = 0\<rparr>"

definition decision0 :: Decision where "decision0 = decided parsed0 release0 0 []"

definition options0 :: Options where
  "options0 = \<lparr>op_UserInvoked = False, op_ProtocolsEnabled = (\<lambda>p. p = ''usenet''), op_IndexerPriority = (\<lambda>_. None), op_PreferredProtocol = ''''\<rparr>"



end
