(* ===== verification/RankScore.thy ===== *)
theory RankScore
  imports QualityLadder
begin

text \<open>
  The rank score of a release (\<^verbatim>\<open>pkg/rankscore\<close>): every ranking rule as a bonus on the format score, each
  larger than all the rules below it can add up to. The score is shown to order releases exactly as the chain
  of tie-breaks it replaced, and \<^verbatim>\<open>Parts\<close>, which explains a score to a person, to name exactly the bonuses
  the score was made of.
\<close>

section \<open>The score\<close>

definition FormatLimit :: int where "FormatLimit = 9999"
definition ProtocolBonus :: int where "ProtocolBonus = 20000"
definition WholeSeasonBonus :: int where "WholeSeasonBonus = 40000"
definition VersionBonus :: int where "VersionBonus = 100000"
definition RealBonus :: int where "RealBonus = 1000000"
definition TierBonus :: int where "TierBonus = 10000000"
definition CompleteBonus :: int where "CompleteBonus = 1000000000"
definition RevisionSteps :: int where "RevisionSteps = 9"
definition MaxTiers :: int where "MaxTiers = 50"

lemmas bonuses = FormatLimit_def ProtocolBonus_def WholeSeasonBonus_def VersionBonus_def RealBonus_def TierBonus_def
  CompleteBonus_def RevisionSteps_def MaxTiers_def

record Inputs =
  ri_FormatScore :: int
  ri_PreferredProtocol :: bool
  ri_WholeSeason :: bool
  ri_Revision :: Revision
  ri_PreferRevision :: bool
  ri_Tier :: int
  ri_Tiers :: int
  ri_Complete :: bool
  ri_CompleteFirst :: bool

definition clamp :: "int \<Rightarrow> int \<Rightarrow> int \<Rightarrow> int" where
  "clamp v lo hi = max lo (min hi v)"

definition tiers_of :: "Inputs \<Rightarrow> int" where
  "tiers_of inp = (let tiers = min (ri_Tiers inp) MaxTiers in if tiers \<le> 0 then MaxTiers else tiers)"

definition Score :: "Inputs \<Rightarrow> int" where
  "Score inp =
     clamp (ri_FormatScore inp) (- FormatLimit) FormatLimit
     + (if ri_PreferredProtocol inp then ProtocolBonus else 0)
     + (if ri_WholeSeason inp then WholeSeasonBonus else 0)
     + (if ri_PreferRevision inp
        then clamp (EffectiveVersion (ri_Revision inp) - 1) 0 RevisionSteps * VersionBonus
             + clamp (rev_Real (ri_Revision inp)) 0 RevisionSteps * RealBonus
        else 0)
     + (if ri_Tier inp < tiers_of inp then (tiers_of inp - 1 - ri_Tier inp) * TierBonus else 0)
     + (if ri_CompleteFirst inp \<and> ri_Complete inp then CompleteBonus else 0)"

section \<open>What it is made of\<close>

text \<open>\<^verbatim>\<open>group\<close>: a separator before every three digits from the right.\<close>

function group_from :: "int \<Rightarrow> string \<Rightarrow> string" where
  "group_from i s = (if i > 0 then group_from (i - 3) (take (nat i) s @ '','' @ drop (nat i) s) else s)"
  by pat_completeness auto
termination by (relation "measure (\<lambda>(i, s). nat i)") auto

definition group :: "int \<Rightarrow> string" where
  "group n = (let s = fmt_d n in group_from (int (length s) - 3) s)"

definition part_line :: "string \<Rightarrow> int \<Rightarrow> int \<Rightarrow> string" where
  "part_line name n unit' =
     (if n = 1 then name @ '' +'' @ group unit'
      else name @ '' +'' @ group (n * unit') @ '' ('' @ fmt_d n @ '' x '' @ group unit' @ '')'')"

text \<open>The closure \<^verbatim>\<open>take\<close>: what is left of the score, and the lines so far.\<close>

definition take_part :: "string \<Rightarrow> int \<Rightarrow> int \<Rightarrow> int \<times> string list \<Rightarrow> int \<times> string list" where
  "take_part name unit' mx = (\<lambda>(rest, out).
     let n0 = quot rest unit'; n = (if mx > 0 then min n0 mx else n0)
     in if n > 0 then (rest - n * unit', out @ [part_line name n unit']) else (rest, out))"

text \<open>\<^verbatim>\<open>%+d\<close>: a decimal with its sign.\<close>

definition fmt_plus_d :: "int \<Rightarrow> string" where
  "fmt_plus_d n = (if n < 0 then fmt_d n else CHR ''+'' # fmt_d n)"

definition Parts :: "int \<Rightarrow> int \<Rightarrow> string list" where
  "Parts score formatScore =
     (let f = clamp formatScore (- FormatLimit) FormatLimit;
          st = (score - f, []);
          st = take_part ''complete audio'' CompleteBonus 1 st;
          st = take_part ''quality tier'' TierBonus MaxTiers st;
          st = take_part ''REAL'' RealBonus RevisionSteps st;
          st = take_part ''version'' VersionBonus RevisionSteps st;
          st = take_part ''whole season'' WholeSeasonBonus 1 st;
          st = take_part ''preferred protocol'' ProtocolBonus 1 st
      in snd st @ [''format score '' @ fmt_plus_d formatScore])"

section \<open>The order of the score\<close>

text \<open>The rules a release meets, the most important first, as numbers a person would compare one after the other.\<close>

definition flag :: "bool \<Rightarrow> int" where "flag b = (if b then 1 else 0)"

definition c_complete :: "Inputs \<Rightarrow> int" where "c_complete inp = flag (ri_CompleteFirst inp \<and> ri_Complete inp)"
definition c_tier :: "Inputs \<Rightarrow> int" where
  "c_tier inp = (if ri_Tier inp < tiers_of inp then tiers_of inp - 1 - ri_Tier inp else 0)"
definition c_real :: "Inputs \<Rightarrow> int" where
  "c_real inp = (if ri_PreferRevision inp then clamp (rev_Real (ri_Revision inp)) 0 RevisionSteps else 0)"
definition c_version :: "Inputs \<Rightarrow> int" where
  "c_version inp = (if ri_PreferRevision inp then clamp (EffectiveVersion (ri_Revision inp) - 1) 0 RevisionSteps else 0)"
definition c_season :: "Inputs \<Rightarrow> int" where "c_season inp = flag (ri_WholeSeason inp)"
definition c_protocol :: "Inputs \<Rightarrow> int" where "c_protocol inp = flag (ri_PreferredProtocol inp)"
definition c_format :: "Inputs \<Rightarrow> int" where "c_format inp = clamp (ri_FormatScore inp) (- FormatLimit) FormatLimit"

definition rules :: "Inputs \<Rightarrow> int list" where
  "rules inp = [c_complete inp, c_tier inp, c_real inp, c_version inp, c_season inp, c_protocol inp, c_format inp]"

lemma clamp_range: "lo \<le> hi \<Longrightarrow> lo \<le> clamp v lo hi \<and> clamp v lo hi \<le> hi"
  by (simp add: clamp_def)

lemma flag_range [simp]: "0 \<le> flag b" "flag b \<le> 1"
  by (simp_all add: flag_def)

lemma rule_ranges:
  assumes "0 \<le> ri_Tier inp"
  shows "0 \<le> c_complete inp" "c_complete inp \<le> 1" "0 \<le> c_tier inp" "c_tier inp \<le> 49" "0 \<le> c_real inp" "c_real inp \<le> 9"
    "0 \<le> c_version inp" "c_version inp \<le> 9" "0 \<le> c_season inp" "c_season inp \<le> 1" "0 \<le> c_protocol inp" "c_protocol inp \<le> 1"
    "- 9999 \<le> c_format inp" "c_format inp \<le> 9999"
  using assms
  by (auto simp: c_complete_def c_tier_def c_real_def c_version_def c_season_def c_protocol_def c_format_def clamp_def bonuses
      tiers_of_def Let_def)

lemma Score_sum:
  "Score inp = c_complete inp * 1000000000 + (c_tier inp * 10000000 + (c_real inp * 1000000 + (c_version inp * 100000 +
     (c_season inp * 40000 + (c_protocol inp * 20000 + c_format inp)))))"
  by (simp add: Score_def c_complete_def c_tier_def c_real_def c_version_def c_season_def c_protocol_def c_format_def flag_def bonuses)

lemma weigh: "\<bar>r - s\<bar> < w \<Longrightarrow> x * w + r < y * w + s \<longleftrightarrow> x < y \<or> (x = y \<and> r < (s :: int))"
proof -
  assume d: "\<bar>r - s\<bar> < w"
  consider "x < y" | "x = y" | "y < x" by linarith
  then show ?thesis
  proof cases
    case 1
    then have "(x + 1) * w \<le> y * w" using d by (intro mult_right_mono) auto
    with 1 d show ?thesis by (simp add: algebra_simps)
  next
    case 3
    then have "(y + 1) * w \<le> x * w" using d by (intro mult_right_mono) auto
    with 3 d show ?thesis by (simp add: algebra_simps)
  qed simp
qed

lemma lex_weigh: "\<bar>r - s\<bar> < w \<Longrightarrow> (r < s \<longleftrightarrow> rs < ss) \<Longrightarrow> x * w + r < y * w + (s :: int) \<longleftrightarrow> x # rs < y # ss"
  by (simp add: weigh)

lemma Score_rules:
  assumes "0 \<le> ri_Tier a" and "0 \<le> ri_Tier b"
  shows "Score a < Score b \<longleftrightarrow> rules a < rules b"
proof -
  note ra = rule_ranges [OF assms(1)] and rb = rule_ranges [OF assms(2)]
  have f: "c_format a < c_format b \<longleftrightarrow> [c_format a] < [c_format b]" by simp
  show ?thesis
    unfolding Score_sum rules_def
    by (rule lex_weigh, use ra rb in linarith, rule lex_weigh, use ra rb in linarith, rule lex_weigh, use ra rb in linarith,
        rule lex_weigh, use ra rb in linarith, rule lex_weigh, use ra rb in linarith, rule lex_weigh, use ra rb in linarith,
        rule f)
qed

text \<open>
  The chain of tie-breaks the score stands for, of two releases judged by one profile: complete audio when the
  profile takes it first, the better tier, the revision when the profile prefers it, a whole season, the
  preferred protocol, the format score.
\<close>

definition tie_breaks :: "Inputs \<Rightarrow> Inputs \<Rightarrow> bool" where
  "tie_breaks a b =
     (if ri_CompleteFirst a \<and> ri_Complete a \<noteq> ri_Complete b then ri_Complete a
      else if ri_Tier a \<noteq> ri_Tier b then ri_Tier a < ri_Tier b
      else if ri_PreferRevision a \<and> rev_Real (ri_Revision a) \<noteq> rev_Real (ri_Revision b)
        then rev_Real (ri_Revision a) > rev_Real (ri_Revision b)
      else if ri_PreferRevision a \<and> EffectiveVersion (ri_Revision a) \<noteq> EffectiveVersion (ri_Revision b)
        then EffectiveVersion (ri_Revision a) > EffectiveVersion (ri_Revision b)
      else if ri_WholeSeason a \<noteq> ri_WholeSeason b then ri_WholeSeason a
      else if ri_PreferredProtocol a \<noteq> ri_PreferredProtocol b then ri_PreferredProtocol a
      else ri_FormatScore a > ri_FormatScore b)"

definition one_profile :: "Inputs \<Rightarrow> Inputs \<Rightarrow> bool" where
  "one_profile a b \<longleftrightarrow> ri_CompleteFirst a = ri_CompleteFirst b \<and> ri_PreferRevision a = ri_PreferRevision b \<and> ri_Tiers a = ri_Tiers b"

text \<open>Within the limits of the sum: a tier the profile holds of at most fifty, at most nine \<^verbatim>\<open>REAL\<close>s, at most version ten
  and a format score of at most four digits.\<close>

definition within_limits :: "Inputs \<Rightarrow> bool" where
  "within_limits inp \<longleftrightarrow> 0 \<le> ri_Tier inp \<and> ri_Tier inp < ri_Tiers inp \<and> ri_Tiers inp \<le> MaxTiers \<and>
     0 \<le> rev_Real (ri_Revision inp) \<and> rev_Real (ri_Revision inp) \<le> RevisionSteps \<and>
     EffectiveVersion (ri_Revision inp) \<le> RevisionSteps + 1 \<and> \<bar>ri_FormatScore inp\<bar> \<le> FormatLimit"

lemma clamp_id: "lo \<le> v \<Longrightarrow> v \<le> hi \<Longrightarrow> clamp v lo hi = v"
  by (simp add: clamp_def)

lemma within_rules:
  assumes "within_limits inp"
  shows "c_tier inp = ri_Tiers inp - 1 - ri_Tier inp"
    and "c_real inp = (if ri_PreferRevision inp then rev_Real (ri_Revision inp) else 0)"
    and "c_version inp = (if ri_PreferRevision inp then EffectiveVersion (ri_Revision inp) - 1 else 0)"
    and "c_format inp = ri_FormatScore inp"
  using assms
  by (auto simp: within_limits_def c_tier_def c_real_def c_version_def c_format_def tiers_of_def Let_def EffectiveVersion_def
      intro!: clamp_id)

text \<open>C39: the rank score orders releases as the chain of tie-breaks it replaced: of two releases judged by one
  profile and within the limits of the sum, the one that wins the chain has the greater score, and the
  chain decides nothing exactly when the scores are equal.\<close>

theorem score_is_tie_breaks:
  assumes "one_profile a b" and "within_limits a" and "within_limits b"
  shows "(Score a > Score b \<longleftrightarrow> tie_breaks a b) \<and> (Score a = Score b \<longleftrightarrow> \<not> tie_breaks a b \<and> \<not> tie_breaks b a)"
proof -
  have chain: "Score y < Score x \<longleftrightarrow> tie_breaks x y" if "one_profile x y" "within_limits x" "within_limits y" for x y
  proof -
    have t: "0 \<le> ri_Tier x" "0 \<le> ri_Tier y" using that by (simp_all add: within_limits_def)
    show ?thesis
      unfolding Score_rules [OF t(2,1)] rules_def
      using that(1) by (auto simp: within_rules [OF that(2)] within_rules [OF that(3)] tie_breaks_def one_profile_def
          c_complete_def c_season_def c_protocol_def flag_def)
  qed
  have "one_profile b a" using assms(1) by (simp add: one_profile_def)
  then show ?thesis using chain [OF assms] chain [of b a] assms by auto
qed

definition inputs0 :: Inputs where
  "inputs0 = \<lparr>ri_FormatScore = 9999, ri_PreferredProtocol = True, ri_WholeSeason = True,
     ri_Revision = \<lparr>rev_Version = 10, rev_Real = 9, rev_Repack = False\<rparr>, ri_PreferRevision = True, ri_Tier = 1, ri_Tiers = 3,
     ri_Complete = False, ri_CompleteFirst = True\<rparr>"

text \<open>A release of the best tier with nothing else beats one of the next tier with everything.\<close>

theorem score_is_tie_breaks_witness:
  "Score (inputs0\<lparr>ri_FormatScore := - 9999, ri_PreferredProtocol := False, ri_WholeSeason := False,
     ri_Revision := \<lparr>rev_Version = 0, rev_Real = 0, rev_Repack = False\<rparr>, ri_Tier := 0\<rparr>) > Score inputs0"
proof -
  let ?a = "inputs0\<lparr>ri_FormatScore := - 9999, ri_PreferredProtocol := False, ri_WholeSeason := False,
     ri_Revision := \<lparr>rev_Version = 0, rev_Real = 0, rev_Repack = False\<rparr>, ri_Tier := 0\<rparr>"
  have "one_profile ?a inputs0" "within_limits ?a" "within_limits inputs0" "tie_breaks ?a inputs0" by code_simp+
  with score_is_tie_breaks [of ?a inputs0] show ?thesis by blast
qed

text \<open>A quality the profile does not hold scores as one of its worst tier.\<close>

lemma unheld_scores_as_worst:
  "0 < ri_Tiers inp \<Longrightarrow> ri_Tiers inp \<le> MaxTiers \<Longrightarrow>
   Score (inp\<lparr>ri_Tier := ri_Tiers inp\<rparr>) = Score (inp\<lparr>ri_Tier := ri_Tiers inp - 1\<rparr>)"
  by (simp add: Score_def tiers_of_def Let_def)

section \<open>What the parts name\<close>

definition named_part :: "string \<Rightarrow> int \<Rightarrow> int \<Rightarrow> string list" where
  "named_part name n unit' = (if n > 0 then [part_line name n unit'] else [])"

lemma take_part_exact:
  assumes "0 \<le> n" and "n \<le> mx" and "0 < mx" and "0 \<le> r" and "r < unit'"
  shows "take_part name unit' mx (n * unit' + r, out) = (r, out @ named_part name n unit')"
proof -
  have "0 \<le> n * unit'" using assms by simp
  then have "quot (n * unit' + r) unit' = (n * unit' + r) div unit'" using assms by (intro quot_pos) auto
  also have "\<dots> = n" using assms by simp
  finally show ?thesis using assms by (simp add: take_part_def named_part_def min_def)
qed

text \<open>The parts of a rank score name exactly what it is made of. For a release's own score, \<^verbatim>\<open>Parts\<close> lists
  the complete audio, the tiers above the worst, the \<^verbatim>\<open>REAL\<close>s, the versions past the first, the whole season and the
  preferred protocol that were counted, each with its share, and the format score; nothing else and nothing twice.\<close>

theorem parts_of_score:
  assumes "0 \<le> ri_Tier inp"
  shows "Parts (Score inp) (ri_FormatScore inp) =
    named_part ''complete audio'' (c_complete inp) CompleteBonus @ named_part ''quality tier'' (c_tier inp) TierBonus @
    named_part ''REAL'' (c_real inp) RealBonus @ named_part ''version'' (c_version inp) VersionBonus @
    named_part ''whole season'' (c_season inp) WholeSeasonBonus @ named_part ''preferred protocol'' (c_protocol inp) ProtocolBonus @
    [''format score '' @ fmt_plus_d (ri_FormatScore inp)]"
proof -
  note r = rule_ranges [OF assms]
  let ?p = "c_protocol inp * ProtocolBonus + 0"
  let ?s = "c_season inp * WholeSeasonBonus + ?p"
  let ?v = "c_version inp * VersionBonus + ?s"
  let ?r = "c_real inp * RealBonus + ?v"
  let ?t = "c_tier inp * TierBonus + ?r"
  have rest: "Score inp - clamp (ri_FormatScore inp) (- FormatLimit) FormatLimit = c_complete inp * CompleteBonus + ?t"
    by (simp add: Score_sum c_format_def bonuses)
  have p: "0 \<le> ?p \<and> ?p < WholeSeasonBonus" using r by (simp add: bonuses)
  then have s: "0 \<le> ?s \<and> ?s < VersionBonus" using r by (simp add: bonuses)
  then have v: "0 \<le> ?v \<and> ?v < RealBonus" using r by (simp add: bonuses)
  then have rr: "0 \<le> ?r \<and> ?r < TierBonus" using r by (simp add: bonuses)
  then have t: "0 \<le> ?t \<and> ?t < CompleteBonus" using r by (simp add: bonuses)
  have caps: "c_tier inp \<le> MaxTiers" "c_real inp \<le> RevisionSteps" "c_version inp \<le> RevisionSteps" "0 < MaxTiers" "0 < RevisionSteps"
    "(0 :: int) < ProtocolBonus"
    using r by (simp_all add: bonuses)
  show ?thesis
    unfolding Parts_def Let_def rest
    using p s v rr t caps r by (simp only: take_part_exact) simp
qed

theorem parts_of_score_witness:
  "Parts (Score inputs0) 9999 =
    [''quality tier +10,000,000'', ''REAL +9,000,000 (9 x 1,000,000)'', ''version +900,000 (9 x 100,000)'',
     ''whole season +40,000'', ''preferred protocol +20,000'', ''format score +9999'']"
proof -
  have t: "0 \<le> ri_Tier inputs0" and f: "ri_FormatScore inputs0 = 9999" by (simp_all add: inputs0_def)
  show ?thesis unfolding parts_of_score [OF t, unfolded f] by code_simp
qed

end
