(* ===== verification/ReleaseRank.thy ===== *)
theory ReleaseRank
  imports DecisionSafety RankScore
begin

text \<open>
  The ranking of a search's releases (\<^verbatim>\<open>pkg/decision/rank.go\<close>, \<^verbatim>\<open>score.go\<close>, \<^verbatim>\<open>buildRankKey\<close> of \<^verbatim>\<open>evaluate.go\<close>). The comparison is a
  chain of a dozen rules, some read from one side only; over the decisions of one search it is shown to be the
  lexicographic order of a key, so that \<^verbatim>\<open>Rank\<close> is the stable sort by that key.
\<close>

section \<open>Rank keys\<close>

record RankKey =
  rk_QualityIndex :: int
  rk_Tiers :: int
  rk_PreferRevision :: bool
  rk_Revision :: Revision
  rk_FormatScore :: int
  rk_PreferredProtocolMatch :: bool
  rk_EpisodeCount :: int
  rk_PreferLargestSize :: bool
  rk_SizeDeltaBucket :: int
  rk_SizeBytes :: int
  rk_PreferSmallestSize :: bool
  rk_LanguagesComplete :: bool
  rk_CompleteFirst :: bool
  rk_Donor :: bool
  rk_DonorLineage :: int
  rk_Anime :: bool

record RankedDecision = Decision +
  de_Rank :: RankKey

definition MaxInt32 :: int where "MaxInt32 = 2 ^ 31 - 1"

definition WholeSeason :: "RankKey \<Rightarrow> bool" where
  "WholeSeason k \<longleftrightarrow> rk_EpisodeCount k = MaxInt32"

definition rank_inputs :: "RankKey \<Rightarrow> Inputs" where
  "rank_inputs k =
     \<lparr>ri_FormatScore = rk_FormatScore k, ri_PreferredProtocol = rk_PreferredProtocolMatch k, ri_WholeSeason = WholeSeason k,
      ri_Revision = rk_Revision k, ri_PreferRevision = rk_PreferRevision k, ri_Tier = rk_QualityIndex k, ri_Tiers = rk_Tiers k,
      ri_Complete = rk_LanguagesComplete k, ri_CompleteFirst = rk_CompleteFirst k\<rparr>"

definition key_Score :: "RankKey \<Rightarrow> int" where
  "key_Score k = Score (rank_inputs k)"

definition sizeBucket :: int where "sizeBucket = 200 * 1024 * 1024"

definition roundTo200MiB :: "int \<Rightarrow> int" where
  "roundTo200MiB n = quot (n + quot sizeBucket 2) sizeBucket * sizeBucket"

text \<open>
  \<open>largest\<close> is whether the quality's preferred size is the one that means the biggest, \<open>prefBytes\<close> its preferred size at the
  release's runtime, when there is one: both read from the profile's table of sizes.
\<close>

definition buildRankKey :: "Profile \<Rightarrow> Options \<Rightarrow> bool \<Rightarrow> ParsedRelease \<Rightarrow> ReleaseInfo \<Rightarrow> int \<Rightarrow> bool \<Rightarrow> int option \<Rightarrow> RankKey" where
  "buildRankKey p o' anime parsed rel score largest prefBytes =
     (let idx = (case Index p (ro_Quality rel) of None \<Rightarrow> int (length (pf_Tiers p)) | Some i \<Rightarrow> int i);
          preferredProtocol = (if op_PreferredProtocol o' = '''' then pf_PreferredProtocol p else op_PreferredProtocol o');
          protocolMatch = (preferredProtocol = ''any'' \<or> ro_Protocol rel = preferredProtocol);
          episodeCount =
            (if pr_FullSeason parsed then MaxInt32
             else if length (pr_Episodes parsed) > 1 \<or> length (pr_Absolute parsed) > 1
             then int (max (length (pr_Episodes parsed)) (length (pr_Absolute parsed))) else 1);
          key = \<lparr>rk_QualityIndex = idx, rk_Tiers = int (length (pf_Tiers p)), rk_PreferRevision = (pf_ProperPolicy p \<noteq> ''doNotPrefer''),
                 rk_Revision = ro_Revision rel, rk_FormatScore = score, rk_PreferredProtocolMatch = protocolMatch,
                 rk_EpisodeCount = episodeCount, rk_PreferLargestSize = False, rk_SizeDeltaBucket = 0, rk_SizeBytes = 0,
                 rk_PreferSmallestSize = False, rk_LanguagesComplete = False, rk_CompleteFirst = pf_AudioCompleteFirst p,
                 rk_Donor = False, rk_DonorLineage = 0, rk_Anime = anime\<rparr>
      in if pf_PreferSmallest p then key\<lparr>rk_PreferSmallestSize := True, rk_SizeBytes := ro_SizeBytes rel\<rparr>
         else if largest then key\<lparr>rk_PreferLargestSize := True, rk_SizeBytes := ro_SizeBytes rel\<rparr>
         else case prefBytes of
           None \<Rightarrow> key
         | Some b \<Rightarrow> key\<lparr>rk_SizeDeltaBucket := roundTo200MiB \<bar>ro_SizeBytes rel - b\<bar>\<rparr>)"

section \<open>The comparison\<close>

definition CompareEpisodeCount :: "bool \<Rightarrow> int \<Rightarrow> bool \<Rightarrow> int \<Rightarrow> bool \<Rightarrow> int" where
  "CompareEpisodeCount aWhole aCount bWhole bCount anime =
     (if aWhole \<noteq> bWhole then (if aWhole then - 1 else 1)
      else if aCount = bCount then 0
      else if (aCount > bCount) = anime then - 1 else 1)"

definition defaultIndexerPriority :: int where "defaultIndexerPriority = 25"

definition indexerPriority :: "Options \<Rightarrow> string \<Rightarrow> int" where
  "indexerPriority o' ref = (case op_IndexerPriority o' ref of Some p \<Rightarrow> p | None \<Rightarrow> defaultIndexerPriority)"

definition indexerFlagScore :: "string list \<Rightarrow> int" where
  "indexerFlagScore flags =
     foldl (\<lambda>score f. if f \<in> {''freeleech'', ''doubleupload'', ''internal''} then score + 2
                      else if f = ''halfleech'' then score + 1 else score) 0 flags"

text \<open>
  \<^verbatim>\<open>math.Round(math.Log10(n))\<close> of a positive \<^verbatim>\<open>int32\<close>: the rounded logarithm is half the length of the square's decimals. No such
  number lies close enough to half a power of ten for \<^verbatim>\<open>float64\<close> to round it to the other side.
\<close>

definition round_log10 :: "int \<Rightarrow> int" where
  "round_log10 n = int (length (digits (n * n))) div 2"

definition Age :: "time \<Rightarrow> time \<Rightarrow> int \<times> int" where
  "Age publishedAt now =
     (let d = time_sub now publishedAt in
      if d \<le> 0 then (0, 0) else (wrap32 (quot d (24 * hour)), wrap32 (quot d hour)))"

definition seedersOrAgeScore :: "time \<Rightarrow> ReleaseInfo \<Rightarrow> int" where
  "seedersOrAgeScore now rel =
     (if ro_Protocol rel = ''torrent'' then
        (case ro_Seeders rel of None \<Rightarrow> 0 | Some n \<Rightarrow> if n \<le> 0 then 0 else round_log10 n)
      else if ro_Protocol rel = ''usenet'' then
        (case ro_PublishedAt rel of
           None \<Rightarrow> 0
         | Some at \<Rightarrow>
             (let (days, hours) = Age at now in
              if hours < 1 then 1000 else if hours \<le> 24 then 100 else if days \<le> 7 then 10 else - round_log10 days))
      else 0)"

text \<open>The clock, which the source reads at every comparison, is read once.\<close>

definition less :: "Options \<Rightarrow> time \<Rightarrow> RankedDecision \<Rightarrow> RankedDecision \<Rightarrow> bool" where
  "less o' now a b =
     (let ka = de_Rank a; kb = de_Rank b; ra = de_Release a; rb = de_Release b;
          c = CompareEpisodeCount (WholeSeason ka) (rk_EpisodeCount ka) (WholeSeason kb) (rk_EpisodeCount kb) (rk_Anime ka);
          pa = indexerPriority o' (ro_IndexerRef ra); pb = indexerPriority o' (ro_IndexerRef rb);
          fa = indexerFlagScore (ro_IndexerFlags ra); fb = indexerFlagScore (ro_IndexerFlags rb);
          sa = seedersOrAgeScore now ra; sb = seedersOrAgeScore now rb
      in if rk_Donor ka \<and> rk_Donor kb \<and> rk_DonorLineage ka \<noteq> rk_DonorLineage kb then rk_DonorLineage ka > rk_DonorLineage kb
         else if rk_Donor ka \<and> rk_Donor kb \<and> rk_SizeBytes ka \<noteq> rk_SizeBytes kb then rk_SizeBytes ka < rk_SizeBytes kb
         else if key_Score ka \<noteq> key_Score kb then key_Score ka > key_Score kb
         else if rk_LanguagesComplete ka \<noteq> rk_LanguagesComplete kb then rk_LanguagesComplete ka
         else if rk_PreferSmallestSize ka \<and> rk_PreferSmallestSize kb \<and> rk_SizeBytes ka \<noteq> rk_SizeBytes kb
           then rk_SizeBytes ka < rk_SizeBytes kb
         else if c \<noteq> 0 then c < 0
         else if pa \<noteq> pb then pa < pb
         else if fa \<noteq> fb then fa > fb
         else if sa \<noteq> sb then sa > sb
         else if rk_PreferLargestSize ka then rk_SizeBytes ka > rk_SizeBytes kb
         else rk_SizeDeltaBucket ka < rk_SizeDeltaBucket kb)"

text \<open>\<^verbatim>\<open>sort.SliceStable\<close>: the elements in the order of the comparison, those it does not tell apart in the order they had.\<close>

fun insert_stable :: "('a \<Rightarrow> 'a \<Rightarrow> bool) \<Rightarrow> 'a \<Rightarrow> 'a list \<Rightarrow> 'a list" where
  "insert_stable lt x [] = [x]"
| "insert_stable lt x (y # ys) = (if lt y x then y # insert_stable lt x ys else x # y # ys)"

definition SliceStable :: "('a \<Rightarrow> 'a \<Rightarrow> bool) \<Rightarrow> 'a list \<Rightarrow> 'a list" where
  "SliceStable lt xs = foldr (insert_stable lt) xs []"

definition Rank :: "Options \<Rightarrow> time \<Rightarrow> RankedDecision list \<Rightarrow> RankedDecision list" where
  "Rank o' now ds = SliceStable (less o' now) ds"

section \<open>The key of the order\<close>

definition rank_order :: "Options \<Rightarrow> time \<Rightarrow> RankedDecision \<Rightarrow> int list" where
  "rank_order o' now a =
     (let k = de_Rank a; r = de_Release a in
      [if rk_Donor k then - rk_DonorLineage k else 0, if rk_Donor k then rk_SizeBytes k else 0, - key_Score k,
       flag (\<not> rk_LanguagesComplete k), if rk_PreferSmallestSize k then rk_SizeBytes k else 0, flag (\<not> WholeSeason k),
       if rk_Anime k then - rk_EpisodeCount k else rk_EpisodeCount k, indexerPriority o' (ro_IndexerRef r),
       - indexerFlagScore (ro_IndexerFlags r), - seedersOrAgeScore now r, flag (\<not> rk_PreferLargestSize k),
       if rk_PreferLargestSize k then - rk_SizeBytes k else rk_SizeDeltaBucket k])"

text \<open>
  Two decisions of one search: both or neither a donor's, of one series' kind and of one profile. Their sizes are ranked alike,
  or else a release ranked by its size has one and the others have a distance to the preferred one.
\<close>

definition one_search :: "RankKey \<Rightarrow> RankKey \<Rightarrow> bool" where
  "one_search a b \<longleftrightarrow> rk_Donor a = rk_Donor b \<and> rk_Anime a = rk_Anime b \<and> rk_PreferSmallestSize a = rk_PreferSmallestSize b \<and>
     (rk_PreferLargestSize a \<noteq> rk_PreferLargestSize b \<longrightarrow>
        (\<forall>k \<in> {a, b}. if rk_PreferLargestSize k then rk_SizeBytes k > 0 \<and> rk_SizeDeltaBucket k = 0
                      else rk_SizeBytes k = 0 \<and> rk_SizeDeltaBucket k \<ge> 0))"

lemma lex_if: "(P \<longleftrightarrow> xs < ys) \<Longrightarrow> (if x \<noteq> y then x < y else P) \<longleftrightarrow> (x :: int) # xs < y # ys"
  by auto

lemma lex_down: "(if x \<noteq> y then x > y else P) \<longleftrightarrow> (if - x \<noteq> - y then - x < - y else P)" for x y :: int
  by simp

lemma lex_flag: "(if x \<noteq> y then x else P) \<longleftrightarrow> (if flag (\<not> x) \<noteq> flag (\<not> y) then flag (\<not> x) < flag (\<not> y) else P)"
  by (auto simp: flag_def)

lemma lex_under: "(if d \<and> d \<and> x \<noteq> y then x < y else P) \<longleftrightarrow>
    (if (if d then x else 0) \<noteq> (if d then y else 0) then (if d then x else 0) < (if d then y else 0) else P)" for x y :: int
  by simp

lemma lex_under_down: "(if d \<and> d \<and> x \<noteq> y then x > y else P) \<longleftrightarrow>
    (if (if d then - x else 0) \<noteq> (if d then - y else 0) then (if d then - x else 0) < (if d then - y else 0) else P)" for x y :: int
  by simp

lemma lex_count:
  "(let c = CompareEpisodeCount wa x wb y anime in if c \<noteq> 0 then c < 0 else P) \<longleftrightarrow>
   (if flag (\<not> wa) \<noteq> flag (\<not> wb) then flag (\<not> wa) < flag (\<not> wb)
    else if (if anime then - x else x) \<noteq> (if anime then - y else y) then (if anime then - x else x) < (if anime then - y else y)
    else P)"
  by (auto simp: CompareEpisodeCount_def flag_def Let_def)

lemma lex_size:
  assumes "one_search a b"
  shows "(if rk_PreferLargestSize a then rk_SizeBytes a > rk_SizeBytes b else rk_SizeDeltaBucket a < rk_SizeDeltaBucket b) \<longleftrightarrow>
    [flag (\<not> rk_PreferLargestSize a), if rk_PreferLargestSize a then - rk_SizeBytes a else rk_SizeDeltaBucket a] <
    [flag (\<not> rk_PreferLargestSize b), if rk_PreferLargestSize b then - rk_SizeBytes b else rk_SizeDeltaBucket b]"
  using assms by (auto simp: one_search_def flag_def split: if_splits)

lemma less_order:
  assumes "one_search (de_Rank a) (de_Rank b)"
  shows "less o' now a b \<longleftrightarrow> rank_order o' now a < rank_order o' now b"
proof -
  have u: "rk_Donor (de_Rank b) = rk_Donor (de_Rank a)" "rk_Anime (de_Rank b) = rk_Anime (de_Rank a)"
    "rk_PreferSmallestSize (de_Rank b) = rk_PreferSmallestSize (de_Rank a)"
    using assms by (simp_all add: one_search_def)
  show ?thesis
    unfolding less_def rank_order_def Let_def u
    by (subst lex_under_down, rule lex_if, subst lex_under, rule lex_if, subst lex_down, rule lex_if, subst lex_flag, rule lex_if,
        subst lex_under, rule lex_if, subst lex_count [unfolded Let_def], rule lex_if, rule lex_if, rule lex_if,
        subst lex_down, rule lex_if, subst lex_down, rule lex_if, rule lex_size [OF assms])
qed

lemma insert_stable_insort:
  "(\<And>y. y \<in> set ys \<Longrightarrow> lt y x \<longleftrightarrow> f y < (f x :: 'b :: linorder)) \<Longrightarrow> insert_stable lt x ys = insort_key f x ys"
  by (induction ys) (auto simp: not_le)

lemma SliceStable_sort_key:
  assumes "\<And>x y. x \<in> set xs \<Longrightarrow> y \<in> set xs \<Longrightarrow> lt x y \<longleftrightarrow> f x < (f y :: 'b :: linorder)"
  shows "SliceStable lt xs = sort_key f xs"
  using assms
proof (induction xs)
  case (Cons x xs)
  then have "SliceStable lt xs = sort_key f xs" by simp
  moreover have "insert_stable lt x (sort_key f xs) = insort_key f x (sort_key f xs)"
    by (rule insert_stable_insort) (use Cons.prems in simp)
  ultimately show ?case by (simp add: SliceStable_def)
qed (simp add: SliceStable_def)

text \<open>The keys one search builds are of one search.\<close>

lemma roundTo200MiB_nonneg: "0 \<le> roundTo200MiB \<bar>x\<bar>"
  by (simp add: roundTo200MiB_def sizeBucket_def quot_pos)

lemma built_key:
  assumes "k = buildRankKey p o' anime pr r s l b"
  shows "\<not> rk_Donor k \<and> rk_Anime k = anime \<and> rk_PreferSmallestSize k = pf_PreferSmallest p \<and>
    rk_PreferLargestSize k = (l \<and> \<not> pf_PreferSmallest p) \<and> 0 \<le> rk_SizeDeltaBucket k \<and>
    (rk_PreferLargestSize k \<longrightarrow> rk_SizeBytes k = ro_SizeBytes r \<and> rk_SizeDeltaBucket k = 0) \<and>
    (\<not> rk_PreferLargestSize k \<and> \<not> pf_PreferSmallest p \<longrightarrow> rk_SizeBytes k = 0)"
  by (cases "pf_PreferSmallest p"; cases l; cases b) (simp_all add: assms buildRankKey_def Let_def roundTo200MiB_nonneg)

lemma built_one_search:
  assumes "ro_SizeBytes r1 > 0" and "ro_SizeBytes r2 > 0"
  shows "one_search (buildRankKey p o' anime pr1 r1 s1 l1 b1) (buildRankKey p o' anime pr2 r2 s2 l2 b2)"
  using built_key [OF refl, of p o' anime pr1 r1 s1 l1 b1] built_key [OF refl, of p o' anime pr2 r2 s2 l2 b2] assms
  unfolding one_search_def by auto


definition ranked0 :: "string \<Rightarrow> int \<Rightarrow> RankedDecision" where
  "ranked0 name score =
     (let r = release0\<lparr>ro_Quality := df_Quality (the (Lookup ''video'' name))\<rparr>
      in Decision.extend (decided parsed0 r score [])
           (RankedDecision.fields (buildRankKey profile0 options0 False parsed0 r score True None)))"


end
